(* ===== verification/Prelude.thy ===== *)
theory Prelude
  imports Main "HOL-Library.Word" "HOL-Library.Code_Target_Nat"
begin

text \<open>
  Shared foundations of the library: the result type of a Go call, the lemma collections the
  component theories extend, and the string functions of Go's \<^verbatim>\<open>strings\<close> and
  \<^verbatim>\<open>strconv\<close> packages that the program uses.
\<close>

section \<open>Lemma collections\<close>

named_theorems go_net "facts about the model of Go's net package"
named_theorems bit_facts "facts about bit arrays as sets of positions"
named_theorems frame_facts "fields and objects that an operation leaves alone"

section \<open>Results of a Go call\<close>

text \<open>
  A Go function that returns \<^verbatim>\<open>(value, error)\<close> ends in one of four ways: a value
  with a nil error, an error, a run-time panic (nil dereference, index out of range), or it
  never returns because a \<^verbatim>\<open>for\<close> loop does not end. The messages of
  \<^verbatim>\<open>errors.New\<close> become constructors; what the message interpolates is kept as
  arguments, \<^verbatim>\<open>Msg\<close> keeps a text the code concatenates, and \<^verbatim>\<open>Errorf\<close> the format an operand-free \<^verbatim>\<open>fmt.Errorf\<close> was called with. \<^verbatim>\<open>ApiError\<close> is an error of the Kubernetes client: its text matters,
  because the code searches it for the optimistic-lock message.
\<close>

datatype error =
    ApiError string
  | Msg string
  | Errorf string
  | ZeroLengthBitArray
  | TooManyAddresses
  | L2Allocation
  | PoolExhausted
  | InvalidStaticIp string
  | StaticIpOutsideNet string string
  | StaticIpInUse string
  | AllocationFailed string error
  | UpdateFailed error
  | RefreshFailed
  | IpReservationFailed string error
  | EpNotCreated error
  | EpNetUnreadable error
  | EpNotDeleted string error
  | InvalidNetType string
  | NetNotFound string string string
  | NoDefaultNetwork
  | NoTenantConfig
  | NoSuchProfile
  | CorruptVniAlloc string
  | BadVniRange string string
  | VniRangeFull string

text \<open>
  The text of an error, as \<^verbatim>\<open>err.Error()\<close> gives it; the one of
  \<^verbatim>\<open>Errorf\<close> is its format, which it equals when it has no verbs.
\<close>

fun error_text :: "error \<Rightarrow> string" where
  "error_text (ApiError s) = s"
| "error_text (Msg s) = s"
| "error_text (Errorf s) = s"
| "error_text ZeroLengthBitArray = ''Can't make a BitArray with zero length!''"
| "error_text TooManyAddresses = ''DANM does not support networks with more than 2^23 IP addresses''"
| "error_text L2Allocation = ''IP address cannot be allocated for an L2 network!''"
| "error_text PoolExhausted = ''IP address cannot be dynamically allocated, all addresses are reserved!''"
| "error_text (InvalidStaticIp r) = ''static IP allocation failed, requested static IP:'' @ r @ '' is not a valid IP''"
| "error_text (StaticIpOutsideNet r c) =
     ''static IP allocation failed, requested static IP:'' @ r @ '' is outside the network's CIDR:'' @ c"
| "error_text (StaticIpInUse r) = ''static IP allocation failed, requested IP address:'' @ r @ '' is already in use''"
| "error_text (AllocationFailed n e) =
     ''failed to allocate IP address for network:'' @ n @ '' with error:'' @ error_text e"
| "error_text (UpdateFailed e) = ''DanmNet update failed with error:'' @ error_text e"
| "error_text RefreshFailed = ''After IP address reservation conflict, network cannot be read again!''"
| "error_text (IpReservationFailed n e) =
     ''IP address reservation failed for network:'' @ n @ '' with error:'' @ error_text e"
| "error_text (EpNotCreated e) = ''DanmEp object could not be created due to error:'' @ error_text e"
| "error_text (EpNetUnreadable e) =
     ''network manifest could not be refreshed after IP allocations due to error:'' @ error_text e"
| "error_text (EpNotDeleted n e) =
     ''DanmEp:'' @ n @ '' cannot be safely deleted because freeing its reserved IP addresses failed with error:'' @
     error_text e"
| "error_text (InvalidNetType k) = ''can't refresh network object because it has an invalid type:'' @ k"
| "error_text (NetNotFound n t ns) =
     ''requested network:'' @ n @ '' of type:'' @ t @ '' in namespace:'' @ ns @ '' does not exist''"
| "error_text NoDefaultNetwork = ''none of DANM APIs have a suitable default network configured''"
| "error_text NoTenantConfig = ''no TenantConfigs exist int the cluster''"
| "error_text NoSuchProfile = ''VNI cannot be reserved because selected interface does not exist. You should call for a tech priest, and start praying to the Omnissiah immediately''"
| "error_text (CorruptVniAlloc n) =
     ''VNI allocations for interface:'' @ n @ '' is corrupt! Are you running without webhook?''"
| "error_text (BadVniRange n m) = ''vniRange for interface:'' @ n @ '' cannot be parsed because:'' @ m"
| "error_text (VniRangeFull n) =
     ''VNI cannot be allocated from interface profile:'' @ n @ '' because the whole range is already reserved''"

datatype 'a res = Ok 'a | Err error | Panic | Hang

fun bind_res :: "'a res \<Rightarrow> ('a \<Rightarrow> 'b res) \<Rightarrow> 'b res" where
  "bind_res (Ok x) f = f x"
| "bind_res (Err e) f = Err e"
| "bind_res Panic f = Panic"
| "bind_res Hang f = Hang"

lemma bind_res_Ok_iff [simp]:
  "bind_res m f = Ok y \<longleftrightarrow> (\<exists>x. m = Ok x \<and> f x = Ok y)"
  by (cases m) auto

lemma bind_resE:
  assumes "bind_res m f = Ok y"
  obtains x where "m = Ok x" and "f x = Ok y"
  using assms by (cases m) auto

lemma bind_res_assoc: "bind_res (bind_res m f) g = bind_res m (\<lambda>x. bind_res (f x) g)"
  by (cases m) simp_all

lemma bind_res_cong [fundef_cong]:
  "m = m' \<Longrightarrow> (\<And>x. m' = Ok x \<Longrightarrow> f x = f' x) \<Longrightarrow> bind_res m f = bind_res m' f'"
  by (cases m') auto

text \<open>\<open>ok_post P r\<close>: if the call returns a value, it satisfies \<open>P\<close>.\<close>

definition ok_post :: "('a \<Rightarrow> bool) \<Rightarrow> 'a res \<Rightarrow> bool" where
  "ok_post P r \<longleftrightarrow> (case r of Ok x \<Rightarrow> P x | _ \<Rightarrow> True)"

lemma ok_post_simps [simp]:
  "ok_post P (Ok x) = P x" "ok_post P (Err e)" "ok_post P Panic" "ok_post P Hang"
  by (simp_all add: ok_post_def)

lemma ok_post_bind: "(\<And>x. m = Ok x \<Longrightarrow> ok_post P (f x)) \<Longrightarrow> ok_post P (bind_res m f)"
  by (cases m) simp_all

lemma ok_post_if: "(b \<Longrightarrow> ok_post P r) \<Longrightarrow> (\<not> b \<Longrightarrow> ok_post P s) \<Longrightarrow> ok_post P (if b then r else s)"
  by simp

lemma ok_post_option:
  "(m = None \<Longrightarrow> ok_post P r) \<Longrightarrow> (\<And>x. m = Some x \<Longrightarrow> ok_post P (f x)) \<Longrightarrow>
   ok_post P (case m of None \<Rightarrow> r | Some x \<Rightarrow> f x)"
  by (cases m) simp_all

lemma ok_post_prod: "(\<And>x y. p = (x, y) \<Longrightarrow> ok_post P (f x y)) \<Longrightarrow> ok_post P (case p of (x, y) \<Rightarrow> f x y)"
  by (cases p) simp

lemmas ok_post_rules = ok_post_bind ok_post_if ok_post_option ok_post_prod

lemma ok_postD: "ok_post P r \<Longrightarrow> r = Ok x \<Longrightarrow> P x"
  by simp

definition of_option :: "'a option \<Rightarrow> 'a res" where
  "of_option m = (case m of None \<Rightarrow> Hang | Some x \<Rightarrow> Ok x)"

lemma of_option_simps [simp]: "of_option None = Hang" "of_option (Some x) = Ok x"
  by (simp_all add: of_option_def)

section \<open>Strings\<close>

text \<open>
  A Go string is a byte sequence, here a \<^typ>\<open>string\<close>. \<open>split_on c s\<close> is
  \<^verbatim>\<open>strings.Split\<close> with a one-byte separator, \<open>contains s p\<close> is
  \<^verbatim>\<open>strings.Contains\<close>, \<open>to_lower\<close> is \<^verbatim>\<open>strings.ToLower\<close>
  on ASCII.
\<close>

fun split_on :: "char \<Rightarrow> string \<Rightarrow> string list" where
  "split_on c [] = [[]]"
| "split_on c (x # xs) =
     (if x = c then [] # split_on c xs
      else (case split_on c xs of [] \<Rightarrow> [[x]] | p # ps \<Rightarrow> (x # p) # ps))"

definition first_part :: "char \<Rightarrow> string \<Rightarrow> string" where
  "first_part c s = hd (split_on c s)"

lemma split_on_nonempty [simp]: "split_on c s \<noteq> []"
  by (induction s) (auto split: list.splits)

lemma first_part_takeWhile: "first_part c s = takeWhile (\<lambda>x. x \<noteq> c) s"
  by (induction s) (auto simp: first_part_def split: list.splits)

lemma first_part_append [simp]:
  "c \<notin> set a \<Longrightarrow> first_part c (a @ c # b) = a"
  by (induction a) (auto simp: first_part_takeWhile)

lemma first_part_no_sep [simp]: "c \<notin> set a \<Longrightarrow> first_part c a = a"
  unfolding first_part_takeWhile by (rule takeWhile_eq_all_conv [THEN iffD2]) auto

fun contains :: "string \<Rightarrow> string \<Rightarrow> bool" where
  "contains [] p = (p = [])"
| "contains (x # xs) p = (take (length p) (x # xs) = p \<or> contains xs p)"

lemma contains_iff: "contains s p \<longleftrightarrow> (\<exists>a b. s = a @ p @ b)"
proof (induction s)
  case Nil
  then show ?case by simp
next
  case (Cons x xs)
  show ?case
  proof
    assume "contains (x # xs) p"
    then consider "take (length p) (x # xs) = p" | "contains xs p" by auto
    then show "\<exists>a b. x # xs = a @ p @ b"
    proof cases
      case 1
      then have "x # xs = [] @ p @ drop (length p) (x # xs)"
        by (metis append_Nil append_take_drop_id)
      then show ?thesis by blast
    next
      case 2
      then obtain a b where "xs = a @ p @ b" using Cons.IH by blast
      then have "x # xs = (x # a) @ p @ b" by simp
      then show ?thesis by blast
    qed
  next
    assume "\<exists>a b. x # xs = a @ p @ b"
    then obtain a b where ab: "x # xs = a @ p @ b" by blast
    show "contains (x # xs) p"
    proof (cases a)
      case Nil
      with ab have "x # xs = p @ b" by simp
      then have "take (length p) (x # xs) = p" by simp
      then show ?thesis unfolding contains.simps by blast
    next
      case (Cons y ys)
      with ab have "xs = ys @ p @ b" by simp
      then show ?thesis using Cons.IH by auto
    qed
  qed
qed

definition lower_char :: "char \<Rightarrow> char" where
  "lower_char c =
     (if 65 \<le> (of_char c :: nat) \<and> (of_char c :: nat) \<le> 90 then char_of (of_char c + 32 :: nat) else c)"

definition to_lower :: "string \<Rightarrow> string" where
  "to_lower s = map lower_char s"

definition equal_fold :: "string \<Rightarrow> string \<Rightarrow> bool" where
  "equal_fold s t \<longleftrightarrow> to_lower s = to_lower t"

section \<open>Decimal numbers\<close>

text \<open>
  \<open>itoa\<close> is \<^verbatim>\<open>strconv.Itoa\<close>. \<open>dtoi\<close> is the decimal reader of
  the \<^verbatim>\<open>net\<close> package: it consumes a non-empty run of digits and fails once the
  value reaches \<open>0xFFFFFF\<close>; it returns the value and the rest of the string.
\<close>

definition digit_char :: "nat \<Rightarrow> char" where
  "digit_char d = char_of (48 + d)"

definition is_digit :: "char \<Rightarrow> bool" where
  "is_digit c \<longleftrightarrow> 48 \<le> (of_char c :: nat) \<and> (of_char c :: nat) \<le> 57"

definition digit_val :: "char \<Rightarrow> nat" where
  "digit_val c = of_char c - 48"

fun itoa_nat :: "nat \<Rightarrow> string" where
  "itoa_nat n = (if n < 10 then [digit_char n] else itoa_nat (n div 10) @ [digit_char (n mod 10)])"

declare itoa_nat.simps [simp del]

definition itoa :: "int \<Rightarrow> string" where
  "itoa i = (if i < 0 then CHR ''-'' # itoa_nat (nat (- i)) else itoa_nat (nat i))"

definition net_big :: nat where
  "net_big = 16777215"

fun dtoi_loop :: "nat \<Rightarrow> string \<Rightarrow> (nat \<times> string) option" where
  "dtoi_loop n [] = Some (n, [])"
| "dtoi_loop n (c # cs) =
     (if is_digit c
      then (let m = n * 10 + digit_val c in if m \<ge> net_big then None else dtoi_loop m cs)
      else Some (n, c # cs))"

definition dtoi :: "string \<Rightarrow> (nat \<times> string) option" where
  "dtoi s = (case s of [] \<Rightarrow> None | c # _ \<Rightarrow> if is_digit c then dtoi_loop 0 s else None)"

text \<open>\<^verbatim>\<open>strconv.Atoi\<close>: an optional sign and decimal digits, in the range of a 64-bit int.\<close>

fun digits_val :: "nat \<Rightarrow> string \<Rightarrow> nat" where
  "digits_val n [] = n"
| "digits_val n (c # cs) = digits_val (n * 10 + digit_val c) cs"

definition atoi :: "string \<Rightarrow> int option" where
  "atoi s =
     (let neg = (take 1 s = ''-''); ds = (if take 1 s = ''-'' \<or> take 1 s = ''+'' then tl s else s);
          v = (if neg then - int (digits_val 0 ds) else int (digits_val 0 ds)) in
      if ds = [] \<or> list_ex (\<lambda>c. \<not> is_digit c) ds \<or> v < - (2 ^ 63) \<or> v \<ge> 2 ^ 63 then None else Some v)"

lemma digit_char_facts [simp]:
  assumes "d < 10"
  shows "is_digit (digit_char d)" and "digit_val (digit_char d) = d"
  using assms by (simp_all add: is_digit_def digit_val_def digit_char_def)

lemma itoa_nat_nonempty [simp]: "itoa_nat n \<noteq> []"
  by (subst itoa_nat.simps) simp

lemma itoa_nat_digits: "\<forall>c \<in> set (itoa_nat n). is_digit c"
proof (induction n rule: itoa_nat.induct)
  case (1 n)
  then show ?case by (subst itoa_nat.simps) auto
qed

lemma itoa_nat_no_char: "\<not> is_digit c \<Longrightarrow> c \<notin> set (itoa_nat n)"
  using itoa_nat_digits by blast

fun ends_number :: "string \<Rightarrow> bool" where
  "ends_number [] = True"
| "ends_number (c # cs) = (\<not> is_digit c)"

text \<open>
  Reading back what \<open>itoa_nat\<close> printed: the digits of \<open>n\<close> after an accumulator
  \<open>a\<close> give \<open>a * 10 ^ k + n\<close>.
\<close>

lemma dtoi_loop_itoa:
  assumes "a * 10 ^ length (itoa_nat n) + n < net_big"
  shows "dtoi_loop a (itoa_nat n @ rest) = dtoi_loop (a * 10 ^ length (itoa_nat n) + n) rest"
  using assms
proof (induction n arbitrary: a rest rule: itoa_nat.induct)
  case (1 n)
  show ?case
  proof (cases "n < 10")
    case True
    with 1 show ?thesis by (simp add: itoa_nat.simps [of n] Let_def)
  next
    case False
    let ?k = "length (itoa_nat (n div 10))"
    have eq: "itoa_nat n = itoa_nat (n div 10) @ [digit_char (n mod 10)]"
      using False by (simp add: itoa_nat.simps [of n])
    have val: "a * 10 ^ length (itoa_nat n) + n = (a * 10 ^ ?k + n div 10) * 10 + n mod 10"
      by (simp add: eq algebra_simps)
    with "1.prems" have small: "a * 10 ^ ?k + n div 10 < net_big" by simp
    have "dtoi_loop a (itoa_nat n @ rest)
        = dtoi_loop (a * 10 ^ ?k + n div 10) (digit_char (n mod 10) # rest)"
      using "1.IH" [OF False small] by (simp add: eq)
    also have "\<dots> = dtoi_loop (a * 10 ^ length (itoa_nat n) + n) rest"
      using "1.prems" by (simp add: Let_def val)
    finally show ?thesis .
  qed
qed

lemma dtoi_itoa [go_net]:
  assumes "n < net_big" and "ends_number rest"
  shows "dtoi (itoa_nat n @ rest) = Some (n, rest)"
proof -
  obtain c cs where cs: "itoa_nat n = c # cs" by (cases "itoa_nat n") auto
  then have c: "is_digit c" using itoa_nat_digits [of n] by simp
  have "dtoi_loop n rest = Some (n, rest)"
    using assms(2) by (cases rest) auto
  then have "dtoi_loop 0 (itoa_nat n @ rest) = Some (n, rest)"
    using dtoi_loop_itoa [of 0 n rest] assms(1) by simp
  with c cs show ?thesis by (simp add: dtoi_def)
qed

lemma digits_val_append: "digits_val n (a @ b) = digits_val (digits_val n a) b"
  by (induction a arbitrary: n) auto

lemma digits_val_itoa: "digits_val 0 (itoa_nat n) = n"
proof (induction n rule: itoa_nat.induct)
  case (1 n)
  then show ?case by (cases "n < 10") (simp_all add: itoa_nat.simps [of n] digits_val_append)
qed

lemma atoi_itoa: "0 \<le> i \<Longrightarrow> i < 2 ^ 63 \<Longrightarrow> atoi (itoa i) = Some i"
proof -
  assume i: "0 \<le> i" "i < 2 ^ 63"
  obtain c cs where cs: "itoa_nat (nat i) = c # cs" by (cases "itoa_nat (nat i)") auto
  then have "is_digit c" using itoa_nat_digits [of "nat i"] by simp
  then have "c \<noteq> CHR ''-''" "c \<noteq> CHR ''+''" by (auto simp: is_digit_def)
  moreover have "list_ex (\<lambda>c. \<not> is_digit c) (itoa_nat (nat i)) = False"
    using itoa_nat_digits [of "nat i"] by (auto simp: list_ex_iff)
  ultimately show ?thesis
    using i cs digits_val_itoa [of "nat i"] by (simp add: atoi_def itoa_def Let_def)
qed

end
