(* ===== verification/GoBytes.thy ===== *)
theory GoBytes
  imports Prelude
begin

unbundle bit_operations_syntax

text \<open>
  Byte strings as numbers: Go's \<^verbatim>\<open>encoding/binary\<close> big-endian readers and
  writers and \<^verbatim>\<open>big.Int.SetBytes\<close>/\<^verbatim>\<open>Bytes\<close>, with the lemmas
  that relate bitwise masking to division.
\<close>

type_synonym byte = "8 word"

section \<open>Big-endian numbers\<close>

fun be_nat :: "byte list \<Rightarrow> nat" where
  "be_nat [] = 0"
| "be_nat (b # bs) = unat b * 256 ^ length bs + be_nat bs"

fun nat_be :: "nat \<Rightarrow> nat \<Rightarrow> byte list" where
  "nat_be 0 n = []"
| "nat_be (Suc k) n = word_of_nat (n div 256 ^ k) # nat_be k (n mod 256 ^ k)"

text \<open>\<^verbatim>\<open>big.Int.Bytes\<close>: the shortest big-endian form, empty for zero.\<close>

fun big_bytes :: "nat \<Rightarrow> byte list" where
  "big_bytes n = (if n = 0 then [] else big_bytes (n div 256) @ [word_of_nat n])"

declare big_bytes.simps [simp del]

lemma unat_byte_less [simp]: "unat (b :: byte) < 256"
  using unsigned_less [of b] by simp

lemma unat_byte_of_nat [simp]: "unat (word_of_nat n :: byte) = n mod 256"
  by (simp add: unat_of_nat)

lemma be_nat_append: "be_nat (a @ b) = be_nat a * 256 ^ length b + be_nat b"
  by (induction a) (simp_all add: power_add algebra_simps)

lemma be_nat_less: "be_nat bs < 256 ^ length bs"
proof (induction bs)
  case Nil
  then show ?case by simp
next
  case (Cons b bs)
  have "unat b + 1 \<le> 256" using unat_byte_less [of b] by linarith
  then have "(unat b + 1) * 256 ^ length bs \<le> 256 * 256 ^ length bs"
    by (rule mult_le_mono1)
  with Cons have "unat b * 256 ^ length bs + be_nat bs < 256 * 256 ^ length bs"
    by (simp only: add_mult_distrib mult_1)
  then show ?case by simp
qed

lemma length_nat_be [simp]: "length (nat_be k n) = k"
  by (induction k arbitrary: n) auto

lemma be_nat_nat_be: "be_nat (nat_be k n) = n mod 256 ^ k"
proof (induction k arbitrary: n)
  case 0
  then show ?case by simp
next
  case (Suc k)
  have "n mod 256 ^ Suc k = n div 256 ^ k mod 256 * 256 ^ k + n mod 256 ^ k"
    using mod_mult2_eq [of n "256 ^ k" 256] by (simp add: mult.commute)
  with Suc show ?case by simp
qed

lemma nat_be_be_nat: "nat_be (length bs) (be_nat bs) = bs"
proof (induction bs)
  case Nil
  then show ?case by simp
next
  case (Cons b bs)
  have "be_nat (b # bs) div 256 ^ length bs = unat b"
    using be_nat_less [of bs] by (simp add: div_mult_self3)
  moreover have "be_nat (b # bs) mod 256 ^ length bs = be_nat bs"
    using be_nat_less [of bs] by simp
  ultimately show ?case using Cons by simp
qed

lemma be_nat_inj: "length a = length b \<Longrightarrow> be_nat a = be_nat b \<longleftrightarrow> a = b"
  by (metis nat_be_be_nat)

lemma be_nat_replicate_0 [simp]: "be_nat (replicate k 0) = 0"
  by (induction k) auto

lemma be_nat_big_bytes: "be_nat (big_bytes n) = n"
proof (induction n rule: big_bytes.induct)
  case (1 n)
  then show ?case
    by (cases "n = 0") (simp_all add: big_bytes.simps [of n] big_bytes.simps [of 0] be_nat_append)
qed

text \<open>The shortest form has \<open>k\<close> bytes exactly when the top one is not zero.\<close>

lemma length_big_bytes:
  assumes "256 ^ k \<le> n" and "n < 256 ^ Suc k"
  shows "length (big_bytes n) = Suc k"
  using assms
proof (induction k arbitrary: n)
  case 0
  then show ?case by (simp add: big_bytes.simps [of n] big_bytes.simps [of 0])
next
  case (Suc k)
  have "256 ^ k \<le> n div 256" "n div 256 < 256 ^ Suc k"
    using Suc.prems by (simp_all add: less_eq_div_iff_mult_less_eq div_less_iff_less_mult algebra_simps)
  then have "length (big_bytes (n div 256)) = Suc k" by (rule Suc.IH)
  moreover have "n \<noteq> 0"
  proof
    assume "n = 0"
    with Suc.prems(1) show False by simp
  qed
  ultimately show ?case by (simp add: big_bytes.simps [of n])
qed

lemma big_bytes_eq_nat_be:
  assumes "256 ^ k \<le> n" and "n < 256 ^ Suc k"
  shows "big_bytes n = nat_be (Suc k) n"
  by (metis assms be_nat_big_bytes length_big_bytes nat_be_be_nat)

section \<open>Masks keep the leading bits\<close>

text \<open>
  \<open>mask_bytes l n\<close> is the mask of \<open>n\<close> leading ones in \<open>l\<close> bytes, as
  \<^verbatim>\<open>net.CIDRMask\<close> builds it.
\<close>

fun mask_bytes :: "nat \<Rightarrow> nat \<Rightarrow> byte list" where
  "mask_bytes 0 n = []"
| "mask_bytes (Suc l) n =
     (if n \<ge> 8 then 255 # mask_bytes l (n - 8)
      else NOT (drop_bit n 255) # mask_bytes l 0)"

definition and_bytes :: "byte list \<Rightarrow> byte list \<Rightarrow> byte list" where
  "and_bytes a m = map2 (\<lambda>x y. x AND y) a m"

lemma and_bytes_simps [simp]:
  "and_bytes [] m = []" "and_bytes (x # a) (y # m) = (x AND y) # and_bytes a m"
  by (simp_all add: and_bytes_def)

lemma length_and_bytes [simp]: "length (and_bytes a m) = min (length a) (length m)"
  by (simp add: and_bytes_def)

lemma length_mask_bytes [simp]: "length (mask_bytes l n) = l"
  by (induction l n rule: mask_bytes.induct) auto

lemma byte_and_255 [simp]: "(b :: byte) AND 255 = b"
proof -
  have "(255 :: byte) = -1" by simp
  then show ?thesis by (metis and.right_neutral)
qed

lemma mask_bytes_zero: "mask_bytes l 0 = replicate l 0"
  by (induction l) simp_all

text \<open>One byte: clearing the low \<open>8 - n\<close> bits is rounding down to a multiple of \<open>2 ^ (8 - n)\<close>.\<close>

lemma NOT_drop_bit_255:
  assumes "n < 8"
  shows "NOT (drop_bit n (255 :: byte)) = NOT (mask (8 - n))"
proof -
  have "(255 :: byte) = mask 8" by (simp add: mask_eq_exp_minus_1)
  moreover have "drop_bit n (mask 8 :: byte) = mask (8 - n)"
    by (rule bit_word_eqI) (use assms in \<open>auto simp: bit_simps\<close>)
  ultimately have "drop_bit n (255 :: byte) = mask (8 - n)" by (simp only:)
  then show ?thesis by simp
qed

lemma unat_and_not_mask:
  "unat ((b :: byte) AND NOT (mask k)) = unat b div 2 ^ k * 2 ^ k"
proof -
  have "b AND NOT (mask k) = push_bit k (drop_bit k b)"
    by (rule bit_word_eqI) (auto simp: bit_simps)
  moreover have "unat (drop_bit k b) = unat b div 2 ^ k"
    by (simp only: unsigned_drop_bit_eq) (simp add: drop_bit_eq_div take_bit_eq_mod)
  moreover have "unat b div 2 ^ k * 2 ^ k < 256"
    using unat_byte_less [of b] by (meson div_times_less_eq_dividend le_less_trans)
  moreover have "unat (push_bit k (drop_bit k b)) = unat (drop_bit k b) * 2 ^ k mod 256"
    by (simp only: unsigned_push_bit_eq) (simp add: push_bit_eq_mult take_bit_eq_mod)
  ultimately show ?thesis by simp
qed


lemma and_bytes_zeros: "be_nat (and_bytes a (replicate (length a) 0)) = 0"
  by (induction a) simp_all

lemma be_nat_and_mask:
  assumes "length a = l" and "n \<le> 8 * l"
  shows "be_nat (and_bytes a (mask_bytes l n)) = be_nat a div 2 ^ (8 * l - n) * 2 ^ (8 * l - n)"
  using assms
proof (induction l n arbitrary: a rule: mask_bytes.induct)
  case (1 n)
  then show ?case by simp
next
  case (2 l n)
  then obtain x xs where a: "a = x # xs" "length xs = l" by (cases a) auto
  have pow: "(256 :: nat) ^ l = 2 ^ (8 * l)" by (simp add: power_mult)
  show ?case
  proof (cases "n \<ge> 8")
    case True
    let ?D = "2 ^ (8 * Suc l - n) :: nat"
    have d: "256 ^ l = 2 ^ (n - 8) * ?D"
      using True 2 by (simp add: pow power_add [symmetric])
    have "be_nat a div ?D = unat x * 2 ^ (n - 8) + be_nat xs div ?D"
      by (simp add: a d mult.assoc [symmetric])
    then have "be_nat a div ?D * ?D = unat x * 256 ^ l + be_nat xs div ?D * ?D"
      by (simp add: d add_mult_distrib mult.assoc)
    moreover have "8 * l - (n - 8) = 8 * Suc l - n" using True by simp
    ultimately show ?thesis
      using "2.IH" (1) [OF True, of xs] "2.prems" a True by simp
  next
    case False
    let ?D = "2 ^ (8 - n) :: nat"
    have D: "2 ^ (8 + 8 * l - n) = 256 ^ l * ?D"
      using False by (simp add: pow power_add [symmetric])
    have "be_nat a div 256 ^ l = unat x"
      using be_nat_less [of xs] a by simp
    then have "be_nat a div 2 ^ (8 + 8 * l - n) = unat x div ?D"
      by (simp only: D div_mult2_eq)
    moreover have "be_nat (and_bytes xs (mask_bytes l 0)) = 0"
      using a and_bytes_zeros [of xs] by (simp add: mask_bytes_zero)
    ultimately show ?thesis
      using False a by (simp add: NOT_drop_bit_255 unat_and_not_mask D)
  qed
qed

text \<open>Masked bytes agree exactly when the numbers have the same quotient by the subnet's size.\<close>

lemma and_mask_eq_iff:
  assumes "length a = l" and "length b = l" and "n \<le> 8 * l"
  shows "and_bytes a (mask_bytes l n) = and_bytes b (mask_bytes l n) \<longleftrightarrow>
         be_nat a div 2 ^ (8 * l - n) = be_nat b div 2 ^ (8 * l - n)"
proof -
  let ?x = "and_bytes a (mask_bytes l n)" and ?y = "and_bytes b (mask_bytes l n)"
  have "length ?x = length ?y" using assms by simp
  then have "?x = ?y \<longleftrightarrow> be_nat ?x = be_nat ?y" by (simp add: be_nat_inj)
  then show ?thesis using assms by (simp add: be_nat_and_mask)
qed

text \<open>\<^verbatim>\<open>simpleMaskLength\<close> recovers the number of leading ones.\<close>

fun leading_ones :: "nat \<Rightarrow> byte \<Rightarrow> nat \<times> byte" where
  "leading_ones 0 v = (0, v)"
| "leading_ones (Suc k) v =
     (if v AND 128 \<noteq> 0 then (let (n, r) = leading_ones k (push_bit 1 v) in (Suc n, r)) else (0, v))"

fun simpleMaskLength :: "byte list \<Rightarrow> nat option" where
  "simpleMaskLength [] = Some 0"
| "simpleMaskLength (v # vs) =
     (if v = 255 then map_option (\<lambda>n. n + 8) (simpleMaskLength vs)
      else (let (n, r) = leading_ones 8 v in
            if r \<noteq> 0 then None else if list_ex (\<lambda>x. x \<noteq> 0) vs then None else Some n))"

text \<open>The first component of \<^verbatim>\<open>IPMask.Size\<close>; a mask that is not canonical has size 0.\<close>

definition mask_size :: "byte list \<Rightarrow> nat" where
  "mask_size m = (case simpleMaskLength m of None \<Rightarrow> 0 | Some n \<Rightarrow> n)"

lemma leading_ones_mask:
  assumes "n < 8"
  shows "leading_ones 8 (NOT (drop_bit n 255)) = (n, 0)" "NOT (drop_bit n (255 :: byte)) \<noteq> 255"
proof -
  have "\<forall>n < 8. leading_ones 8 (NOT (drop_bit n 255)) = (n, 0) \<and> NOT (drop_bit n (255 :: byte)) \<noteq> 255"
    by code_simp
  with assms show "leading_ones 8 (NOT (drop_bit n 255)) = (n, 0)"
    and "NOT (drop_bit n (255 :: byte)) \<noteq> 255" by blast+
qed

lemma leading_ones_zero [simp]: "leading_ones k 0 = (0, 0)"
  by (cases k) simp_all

lemma simpleMaskLength_zeros [simp]: "simpleMaskLength (replicate l 0) = Some 0"
  by (cases l) (auto simp: list_ex_iff)

lemma simpleMaskLength_mask [go_net]:
  "n \<le> 8 * l \<Longrightarrow> simpleMaskLength (mask_bytes l n) = Some n"
proof (induction l n rule: mask_bytes.induct)
  case (1 n)
  then show ?case by simp
next
  case (2 l n)
  then show ?case
    by (cases "n \<ge> 8") (auto simp: leading_ones_mask mask_bytes_zero list_ex_iff)
qed

end
