(* ===== verification/GoNet.thy ===== *)
theory GoNet
  imports GoBytes
begin

unbundle bit_operations_syntax

text \<open>
  The part of Go's \<^verbatim>\<open>net\<close>, \<^verbatim>\<open>encoding/binary\<close> and
  \<^verbatim>\<open>math/big\<close> packages that the program calls, as the Go 1.13 tool chain of
  \<^verbatim>\<open>scm/build/Dockerfile\<close> ships it: addresses and masks are byte slices,
  \<^verbatim>\<open>ParseIP\<close> and \<^verbatim>\<open>ParseCIDR\<close> read their text forms,
  \<^verbatim>\<open>Contains\<close> compares masked bytes and \<^verbatim>\<open>String\<close> prints.
  The lemmas connect the byte view with numbers: a mask keeps the leading bits, so two
  addresses of one subnet have the same quotient by the subnet's size.
\<close>

section \<open>Addresses, masks and networks\<close>

type_synonym ip = "byte list"  \<comment> \<open>\<^verbatim>\<open>net.IP\<close>; the empty list is nil\<close>

record ipnet =
  net_IP :: ip
  net_Mask :: "byte list"

definition v4InV6Prefix :: "byte list" where
  "v4InV6Prefix = replicate 10 0 @ [255, 255]"

definition IPv4 :: "byte list \<Rightarrow> ip" where
  "IPv4 p = v4InV6Prefix @ p"

definition To4 :: "ip \<Rightarrow> ip" where
  "To4 a =
     (if length a = 4 then a
      else if length a = 16 \<and> take 12 a = v4InV6Prefix then drop 12 a
      else [])"

definition To16 :: "ip \<Rightarrow> ip" where
  "To16 a = (if length a = 4 then IPv4 a else if length a = 16 then a else [])"

definition CIDRMask :: "nat \<Rightarrow> nat \<Rightarrow> byte list" where
  "CIDRMask ones bits =
     (if (bits = 32 \<or> bits = 128) \<and> ones \<le> bits then mask_bytes (bits div 8) ones else [])"

definition MaskIp :: "ip \<Rightarrow> byte list \<Rightarrow> ip" where
  "MaskIp a m =
     (let m' = (if length m = 16 \<and> length a = 4 \<and> take 12 m = replicate 12 255 then drop 12 m else m);
          a' = (if length m' = 4 \<and> length a = 16 \<and> take 12 a = v4InV6Prefix then drop 12 a else a)
      in if length a' \<noteq> length m' then [] else and_bytes a' m')"

definition networkNumberAndMask :: "ipnet \<Rightarrow> (ip \<times> byte list) option" where
  "networkNumberAndMask n =
     (let v4 = To4 (net_IP n); a = (if v4 \<noteq> [] then v4 else net_IP n); m = net_Mask n in
      if v4 = [] \<and> length (net_IP n) \<noteq> 16 then None
      else if length m = 4 then (if length a = 4 then Some (a, m) else None)
      else if length m = 16 then Some (a, if length a = 4 then drop 12 m else m)
      else None)"

definition Contains :: "ipnet \<Rightarrow> ip \<Rightarrow> bool" where
  "Contains n a =
     (let x = (if To4 a \<noteq> [] then To4 a else a) in
      case networkNumberAndMask n of
        None \<Rightarrow> x = []
      | Some (nn, m) \<Rightarrow> length x = length nn \<and> and_bytes nn m = and_bytes x m)"

section \<open>Reading addresses\<close>

fun parseIPv4_loop :: "nat \<Rightarrow> string \<Rightarrow> byte list \<Rightarrow> (byte list \<times> string) option" where
  "parseIPv4_loop 0 s p = Some (p, s)"
| "parseIPv4_loop (Suc k) s p =
     (if s = [] then None
      else if p \<noteq> [] \<and> hd s \<noteq> CHR ''.'' then None
      else (case dtoi (if p \<noteq> [] then tl s else s) of
              None \<Rightarrow> None
            | Some (n, s') \<Rightarrow> if n > 255 then None else parseIPv4_loop k s' (p @ [word_of_nat n])))"

definition parseIPv4 :: "string \<Rightarrow> ip" where
  "parseIPv4 s = (case parseIPv4_loop 4 s [] of Some (p, []) \<Rightarrow> IPv4 p | _ \<Rightarrow> [])"

definition hex_val :: "char \<Rightarrow> nat option" where
  "hex_val c =
     (let v = (of_char c :: nat) in
      if 48 \<le> v \<and> v \<le> 57 then Some (v - 48)
      else if 97 \<le> v \<and> v \<le> 102 then Some (v - 87)
      else if 65 \<le> v \<and> v \<le> 70 then Some (v - 55)
      else None)"

fun xtoi_loop :: "nat \<Rightarrow> string \<Rightarrow> (nat \<times> string) option" where
  "xtoi_loop n [] = Some (n, [])"
| "xtoi_loop n (c # cs) =
     (case hex_val c of
        None \<Rightarrow> Some (n, c # cs)
      | Some d \<Rightarrow> (let m = n * 16 + d in if m \<ge> net_big then None else xtoi_loop m cs))"

definition xtoi :: "string \<Rightarrow> (nat \<times> string) option" where
  "xtoi s = (case s of [] \<Rightarrow> None | c # _ \<Rightarrow> if hex_val c = None then None else xtoi_loop 0 s)"

text \<open>
  The loop of \<^verbatim>\<open>parseIPv6\<close> runs at most eight times, since it writes two bytes
  of sixteen each time. It carries the rest of the text, the bytes written and the position of
  the ellipsis.
\<close>

fun parseIPv6_loop ::
  "nat \<Rightarrow> string \<Rightarrow> byte list \<Rightarrow> nat option \<Rightarrow> (byte list \<times> nat option \<times> string) option" where
  "parseIPv6_loop 0 s a ell = Some (a, ell, s)"
| "parseIPv6_loop (Suc k) s a ell =
     (case xtoi s of
        None \<Rightarrow> None
      | Some (n, rest) \<Rightarrow>
          if n > 65535 then None
          else if rest \<noteq> [] \<and> hd rest = CHR ''.'' then
            (if ell = None \<and> length a \<noteq> 12 then None
             else if length a + 4 > 16 then None
             else if parseIPv4 s = [] then None
             else Some (a @ drop 12 (parseIPv4 s), ell, []))
          else (let a' = a @ [word_of_nat (n div 256), word_of_nat n] in
            if rest = [] then Some (a', ell, [])
            else if hd rest \<noteq> CHR '':'' \<or> length rest = 1 then None
            else (let s' = tl rest in
              if hd s' = CHR '':'' then
                (if ell \<noteq> None then None
                 else if tl s' = [] then Some (a', Some (length a'), [])
                 else parseIPv6_loop k (tl s') a' (Some (length a')))
              else parseIPv6_loop k s' a' ell)))"

definition parseIPv6 :: "string \<Rightarrow> ip" where
  "parseIPv6 s =
     (let lead = (take 2 s = ''::''); s0 = (if lead then drop 2 s else s) in
      if lead \<and> s0 = [] then replicate 16 0
      else (case parseIPv6_loop 8 s0 [] (if lead then Some 0 else None) of
              None \<Rightarrow> []
            | Some (a, ell, rest) \<Rightarrow>
                if rest \<noteq> [] then []
                else if length a < 16 then
                  (case ell of None \<Rightarrow> []
                   | Some e \<Rightarrow> take e a @ replicate (16 - length a) 0 @ drop e a)
                else if ell \<noteq> None then [] else a))"

definition ParseIP :: "string \<Rightarrow> ip" where
  "ParseIP s =
     (case dropWhile (\<lambda>c. c \<noteq> CHR ''.'' \<and> c \<noteq> CHR '':'') s of
        [] \<Rightarrow> []
      | c # _ \<Rightarrow> if c = CHR ''.'' then parseIPv4 s else parseIPv6 s)"

definition net_of :: "ip \<Rightarrow> nat \<Rightarrow> nat \<Rightarrow> ipnet" where
  "net_of a iplen n =
     \<lparr>net_IP = MaskIp a (CIDRMask n (8 * iplen)), net_Mask = CIDRMask n (8 * iplen)\<rparr>"

definition ParseCIDR :: "string \<Rightarrow> (ip \<times> ipnet) option" where
  "ParseCIDR s =
     (case dropWhile (\<lambda>c. c \<noteq> CHR ''/'') s of
        [] \<Rightarrow> None
      | _ # msk \<Rightarrow>
          (let addr = takeWhile (\<lambda>c. c \<noteq> CHR ''/'') s;
               a4 = parseIPv4 addr;
               iplen = (if a4 = [] then 16 else 4);
               a = (if a4 = [] then parseIPv6 addr else a4)
           in case dtoi msk of
                None \<Rightarrow> None
              | Some (n, rest) \<Rightarrow>
                  if a = [] \<or> rest \<noteq> [] \<or> n > 8 * iplen then None else Some (a, net_of a iplen n)))"

text \<open>The \<^verbatim>\<open>*net.IPNet\<close> result alone; nil is \<open>None\<close>.\<close>

definition parse_net :: "string \<Rightarrow> ipnet option" where
  "parse_net s = map_option snd (ParseCIDR s)"

section \<open>Printing addresses\<close>

definition hex_digit :: "nat \<Rightarrow> char" where
  "hex_digit d = (if d < 10 then char_of (48 + d) else char_of (87 + d))"

fun hex_nat :: "nat \<Rightarrow> string" where
  "hex_nat n = (if n < 16 then [hex_digit n] else hex_nat (n div 16) @ [hex_digit (n mod 16)])"

declare hex_nat.simps [simp del]

definition hex_bytes :: "byte list \<Rightarrow> string" where
  "hex_bytes bs = concat (map (\<lambda>b. [hex_digit (unat b div 16), hex_digit (unat b mod 16)]) bs)"

definition dotted :: "byte list \<Rightarrow> string" where
  "dotted p =
     itoa_nat (unat (p ! 0)) @ CHR ''.'' # itoa_nat (unat (p ! 1)) @ CHR ''.'' #
     itoa_nat (unat (p ! 2)) @ CHR ''.'' # itoa_nat (unat (p ! 3))"

text \<open>
  The 16-bit groups of an address, the first longest run of zero groups (position and length),
  and the groups joined by colons with that run written as a double colon.
\<close>

fun groups :: "byte list \<Rightarrow> nat list" where
  "groups (a # b # bs) = (unat a * 256 + unat b) # groups bs"
| "groups _ = []"

fun longest_run :: "nat list \<Rightarrow> nat \<Rightarrow> nat \<times> nat \<Rightarrow> nat \<times> nat" where
  "longest_run [] i best = best"
| "longest_run (g # gs) i best =
     (let n = length (takeWhile (\<lambda>x. x = 0) (g # gs)) in
      longest_run gs (Suc i) (if n > snd best then (i, n) else best))"

definition join_colon :: "nat list \<Rightarrow> string" where
  "join_colon gs = concat (map (\<lambda>(i, g). (if i = 0 then [] else '':'') @ hex_nat g) (enumerate 0 gs))"

definition ipv6_string :: "byte list \<Rightarrow> string" where
  "ipv6_string a =
     (let gs = groups a; (e, n) = longest_run gs 0 (0, 0) in
      if n \<le> 1 then join_colon gs
      else join_colon (take e gs) @ ''::'' @ join_colon (drop (e + n) gs))"

definition ip_string :: "ip \<Rightarrow> string" where
  "ip_string a =
     (if a = [] then ''<nil>''
      else if To4 a \<noteq> [] then dotted (To4 a)
      else if length a \<noteq> 16 then CHR ''?'' # hex_bytes a
      else ipv6_string a)"

definition ipnet_string :: "ipnet \<Rightarrow> string" where
  "ipnet_string n =
     (case networkNumberAndMask n of
        None \<Rightarrow> ''<nil>''
      | Some (nn, m) \<Rightarrow>
          (case simpleMaskLength m of
             None \<Rightarrow> ip_string nn @ ''/'' @ hex_bytes m
           | Some l \<Rightarrow> ip_string nn @ ''/'' @ itoa_nat l))"


section \<open>Shapes\<close>

lemma length_v4InV6Prefix [simp]: "length v4InV6Prefix = 12"
  by (simp add: v4InV6Prefix_def)

lemma To4_IPv4 [simp]: "length p = 4 \<Longrightarrow> To4 (IPv4 p) = p"
  by (simp add: To4_def IPv4_def)

lemma To4_four [simp]: "length p = 4 \<Longrightarrow> To4 p = p"
  by (simp add: To4_def)

lemma IPv4_nonempty [simp]: "IPv4 p \<noteq> []"
  by (simp add: IPv4_def v4InV6Prefix_def)

lemma length_IPv4 [simp]: "length (IPv4 p) = 12 + length p"
  by (simp add: IPv4_def)

lemma To4_cases: "To4 a = [] \<or> length (To4 a) = 4"
  by (auto simp: To4_def)

lemma To4_nonempty_iff: "To4 a \<noteq> [] \<longleftrightarrow> length (To4 a) = 4"
  using To4_cases [of a] by auto

lemma parseIPv4_loop_length:
  "parseIPv4_loop k s p = Some (q, r) \<Longrightarrow> length q = k + length p"
proof (induction k arbitrary: s p)
  case 0
  then show ?case by simp
next
  case (Suc k)
  then show ?case by (fastforce split: if_splits option.splits prod.splits)
qed

lemma parseIPv4_shape: "parseIPv4 s = [] \<or> (\<exists>p. length p = 4 \<and> parseIPv4 s = IPv4 p)"
  by (auto simp: parseIPv4_def dest!: parseIPv4_loop_length split: option.splits list.splits)

lemma parseIPv4_length: "parseIPv4 s \<noteq> [] \<Longrightarrow> length (parseIPv4 s) = 16"
  using parseIPv4_shape [of s] by auto

lemma parseIPv6_loop_length:
  "parseIPv6_loop k s a ell = Some (q, e, r) \<Longrightarrow> length a + 2 * k \<le> 16 \<Longrightarrow>
   (\<And>x. ell = Some x \<Longrightarrow> x \<le> length a) \<Longrightarrow>
   length q \<le> 16 \<and> (\<forall>x. e = Some x \<longrightarrow> x \<le> length q)"
proof (induction k arbitrary: s a ell)
  case 0
  then show ?case by simp
next
  case (Suc k)
  from Suc.prems(1) obtain n rest where x: "xtoi s = Some (n, rest)" and n: "n \<le> 65535"
    by (auto split: option.splits if_splits prod.splits)
  let ?a = "a @ [word_of_nat (n div 256), word_of_nat n]"
  have room: "length ?a + 2 * k \<le> 16" using Suc.prems(2) by simp
  have old: "\<And>y. ell = Some y \<Longrightarrow> y \<le> length ?a" using Suc.prems(3) by fastforce
  show ?case
  proof (cases "rest \<noteq> [] \<and> hd rest = CHR ''.''")
    case True
    with Suc.prems x n show ?thesis
      by (auto split: if_splits dest!: parseIPv4_length)
  next
    case False
    with Suc.prems(1) x n have "(q, e, r) = (?a, ell, []) \<or> (q, e, r) = (?a, Some (length ?a), [])
        \<or> (\<exists>s'. parseIPv6_loop k s' ?a (Some (length ?a)) = Some (q, e, r))
        \<or> (\<exists>s'. parseIPv6_loop k s' ?a ell = Some (q, e, r))"
      by (auto simp: Let_def split: if_splits)
    then show ?thesis
      using Suc.IH [of _ ?a] room old by (auto dest: Suc.IH)
  qed
qed

lemma parseIPv6_length: "parseIPv6 s \<noteq> [] \<Longrightarrow> length (parseIPv6 s) = 16"
proof -
  assume ne: "parseIPv6 s \<noteq> []"
  let ?lead = "take 2 s = ''::''" and ?s0 = "if take 2 s = ''::'' then drop 2 s else s"
  show ?thesis
  proof (cases "?lead \<and> ?s0 = []")
    case True
    then show ?thesis by (auto simp: parseIPv6_def Let_def)
  next
    case False
    with ne obtain q e where l: "parseIPv6_loop 8 ?s0 [] (if ?lead then Some 0 else None) = Some (q, e, [])"
      by (auto simp: parseIPv6_def Let_def split: option.splits prod.splits if_splits)
    have "length q \<le> 16 \<and> (\<forall>x. e = Some x \<longrightarrow> x \<le> length q)"
      by (rule parseIPv6_loop_length [OF l]) (auto split: if_splits)
    with False ne l show ?thesis
      by (auto simp: parseIPv6_def Let_def split: option.splits if_splits)
  qed
qed

lemma ParseIP_shape: "ParseIP s = [] \<or> length (ParseIP s) = 16"
  using parseIPv4_length [of s] parseIPv6_length [of s]
  by (auto simp: ParseIP_def split: list.splits)

section \<open>Subnets as ranges of numbers\<close>

text \<open>
  \<open>wf_net l p n\<close>: the network has \<open>l\<close>-byte addresses, a mask of \<open>p\<close> leading ones
  and a base address with no host bits, which is what \<^verbatim>\<open>ParseCIDR\<close> returns.
\<close>

definition wf_net :: "nat \<Rightarrow> nat \<Rightarrow> ipnet \<Rightarrow> bool" where
  "wf_net l p n \<longleftrightarrow>
     (l = 4 \<or> l = 16) \<and> p \<le> 8 * l \<and> length (net_IP n) = l \<and>
     net_Mask n = mask_bytes l p \<and> and_bytes (net_IP n) (net_Mask n) = net_IP n"

definition host_size :: "nat \<Rightarrow> nat \<Rightarrow> nat" where
  "host_size l p = 2 ^ (8 * l - p)"

lemma host_size_pos [simp]: "0 < host_size l p"
  by (simp add: host_size_def)

lemma and_bytes_idem [simp]: "length a = length m \<Longrightarrow> and_bytes (and_bytes a m) m = and_bytes a m"
  by (induction a m rule: list_induct2) (simp_all add: and.assoc)

lemma take_12_mask_16: "p \<le> 128 \<Longrightarrow> length (CIDRMask p 128) = 16" "p \<le> 32 \<Longrightarrow> length (CIDRMask p 32) = 4"
  by (simp_all add: CIDRMask_def)

lemma cidr_case:
  assumes "(case m of None \<Rightarrow> None
    | Some (n, rest) \<Rightarrow> if b = [] \<or> rest \<noteq> [] \<or> n > 8 * k then None else Some (b, net_of b k n)) = Some (a, r)"
  shows "b \<noteq> [] \<and> a = b \<and> (\<exists>p \<le> 8 * k. r = net_of a k p)"
  using assms by (cases m) (auto split: if_splits prod.splits intro: leI)

lemma ParseCIDR_wf:
  assumes "ParseCIDR s = Some (a, n)"
  shows "length a = 16 \<and> (\<exists>l p. wf_net l p n)"
proof -
  obtain c msk where d: "dropWhile (\<lambda>c. c \<noteq> CHR ''/'') s = c # msk"
    using assms by (cases "dropWhile (\<lambda>c. c \<noteq> CHR ''/'') s") (auto simp: ParseCIDR_def)
  let ?addr = "takeWhile (\<lambda>c. c \<noteq> CHR ''/'') s"
  let ?l = "if parseIPv4 ?addr = [] then 16 else 4 :: nat"
  let ?a = "if parseIPv4 ?addr = [] then parseIPv6 ?addr else parseIPv4 ?addr"
  have "?a \<noteq> [] \<and> a = ?a \<and> (\<exists>p \<le> 8 * ?l. n = net_of a ?l p)"
    using assms cidr_case [where m = "dtoi msk" and b = ?a and k = ?l and a = a and r = n] unfolding ParseCIDR_def d list.case Let_def by blast
  then obtain p where p: "p \<le> 8 * ?l" "a \<noteq> []" and a: "a = ?a" and n: "n = net_of a ?l p"
    by metis
  have len: "length a = 16"
    using a p(2) parseIPv4_length parseIPv6_length by (auto split: if_splits)
  show ?thesis
  proof (cases "parseIPv4 ?addr = []")
    case True
    with n p have m: "net_Mask n = mask_bytes 16 p" "net_IP n = MaskIp a (mask_bytes 16 p)"
      by (simp_all add: net_of_def CIDRMask_def)
    then have "net_IP n = and_bytes a (mask_bytes 16 p)"
      using len by (simp add: MaskIp_def Let_def)
    with m(1) p True len have "wf_net 16 p n" by (simp add: wf_net_def)
    with len show ?thesis by blast
  next
    case False
    then obtain q where q: "length q = 4" "a = IPv4 q"
      using a parseIPv4_shape [of ?addr] by auto
    from False n p have m: "net_Mask n = mask_bytes 4 p" "net_IP n = MaskIp a (mask_bytes 4 p)"
      by (simp_all add: net_of_def CIDRMask_def)
    then have "net_IP n = and_bytes q (mask_bytes 4 p)"
      using q by (simp add: MaskIp_def Let_def IPv4_def)
    with m(1) p False q have "wf_net 4 p n" by (simp add: wf_net_def)
    with len show ?thesis by blast
  qed
qed

lemma parse_net_wf: "parse_net s = Some n \<Longrightarrow> \<exists>l p. wf_net l p n"
  by (auto simp: parse_net_def dest: ParseCIDR_wf)

text \<open>The base address is a multiple of the subnet's size.\<close>

lemma wf_net_base:
  assumes "wf_net l p n"
  shows "be_nat (net_IP n) div host_size l p * host_size l p = be_nat (net_IP n)"
  using assms be_nat_and_mask [of "net_IP n" l p] by (auto simp: wf_net_def host_size_def)

lemma quotient_range:
  fixes a b d :: nat
  assumes "b div d * d = b" and "0 < d"
  shows "a div d = b div d \<longleftrightarrow> b \<le> a \<and> a < b + d"
proof -
  obtain k where b: "b = k * d" using assms(1) by metis
  have "a div d = k \<longleftrightarrow> k * d \<le> a \<and> a < Suc k * d"
    using assms(2) by (simp add: div_nat_eqI less_mult_imp_div_less dividend_less_times_div
      le_antisym less_eq_div_iff_mult_less_eq div_less_iff_less_mult)
      (metis assms(2) div_less_iff_less_mult less_Suc_eq_le less_eq_div_iff_mult_less_eq mult_Suc order_antisym order_refl)
  with b assms(2) show ?thesis by (simp add: add.commute)
qed

lemma wf_net_mask_size [go_net]: "wf_net l p n \<Longrightarrow> mask_size (net_Mask n) = p"
  by (simp add: wf_net_def mask_size_def simpleMaskLength_mask)

lemma Contains_v4 [go_net]:
  assumes "wf_net 4 p n"
  shows "Contains n a \<longleftrightarrow> To4 a \<noteq> [] \<and>
    be_nat (net_IP n) \<le> be_nat (To4 a) \<and> be_nat (To4 a) < be_nat (net_IP n) + host_size 4 p"
proof -
  have n: "length (net_IP n) = 4" "net_Mask n = mask_bytes 4 p" "p \<le> 32"
    using assms by (auto simp: wf_net_def)
  then have nm: "networkNumberAndMask n = Some (net_IP n, mask_bytes 4 p)"
    by (auto simp: networkNumberAndMask_def Let_def)
  have "length x = 4 \<Longrightarrow> and_bytes (net_IP n) (mask_bytes 4 p) = and_bytes x (mask_bytes 4 p) \<longleftrightarrow>
      be_nat (net_IP n) \<le> be_nat x \<and> be_nat x < be_nat (net_IP n) + host_size 4 p" for x
    using n and_mask_eq_iff [of "net_IP n" 4 x p]
      quotient_range [OF wf_net_base [OF assms], of "be_nat x"] by (auto simp: host_size_def)
  then show ?thesis
    using n nm To4_cases [of a] by (auto simp: Contains_def Let_def)
qed

lemma Contains_v6 [go_net]:
  assumes "wf_net 16 p n" and "To4 (net_IP n) = []"
  shows "Contains n a \<longleftrightarrow> To4 a = [] \<and> length a = 16 \<and>
    be_nat (net_IP n) \<le> be_nat a \<and> be_nat a < be_nat (net_IP n) + host_size 16 p"
proof -
  have n: "length (net_IP n) = 16" "net_Mask n = mask_bytes 16 p" "p \<le> 128"
    using assms by (auto simp: wf_net_def)
  then have nm: "networkNumberAndMask n = Some (net_IP n, mask_bytes 16 p)"
    using assms by (auto simp: networkNumberAndMask_def Let_def)
  have "length x = 16 \<Longrightarrow> and_bytes (net_IP n) (mask_bytes 16 p) = and_bytes x (mask_bytes 16 p) \<longleftrightarrow>
      be_nat (net_IP n) \<le> be_nat x \<and> be_nat x < be_nat (net_IP n) + host_size 16 p" for x
    using n and_mask_eq_iff [of "net_IP n" 16 x p]
      quotient_range [OF wf_net_base [OF assms(1)], of "be_nat x"] by (auto simp: host_size_def)
  then show ?thesis
    using n nm To4_cases [of a] by (auto simp: Contains_def Let_def)
qed


section \<open>Reading back a printed IPv4 address\<close>

lemma not_digit [simp]:
  "\<not> is_digit CHR ''.''" "\<not> is_digit CHR '':''" "\<not> is_digit CHR ''/''"
  by (simp_all add: is_digit_def)

lemma dotted_set: "c \<in> set (dotted p) \<Longrightarrow> is_digit c \<or> c = CHR ''.''"
  using itoa_nat_digits by (auto simp: dotted_def)

lemma four_bytes:
  assumes "length p = 4"
  obtains a b c d where "p = [a, b, c, d]"
  using assms by (auto simp: numeral_eq_Suc length_Suc_conv)

lemma dtoi_byte [simp]:
  "ends_number rest \<Longrightarrow> dtoi (itoa_nat (unat (b :: byte)) @ rest) = Some (unat b, rest)"
  by (rule dtoi_itoa) (simp_all add: net_big_def less_trans [OF unat_byte_less])

lemma parseIPv4_dotted [go_net]:
  assumes "length p = 4"
  shows "parseIPv4 (dotted p) = IPv4 p"
proof -
  obtain a b c d where p: "p = [a, b, c, d]" using assms by (rule four_bytes)
  have le: "unat (x :: byte) \<le> 255" for x using unat_byte_less [of x] by linarith
  have "parseIPv4_loop 4 (dotted p) [] = Some (p, [])"
    using dtoi_byte [of "[]" d] le
    by (simp add: numeral_eq_Suc dotted_def p not_less)
  then show ?thesis by (simp add: parseIPv4_def)
qed

lemma dropWhile_not_mem: "(\<And>x. x \<in> set a \<Longrightarrow> P x) \<Longrightarrow> \<not> P c \<Longrightarrow> dropWhile P (a @ c # b) = c # b"
  by (simp add: dropWhile_append2)

lemma ParseIP_dotted [go_net]:
  assumes "length p = 4"
  shows "ParseIP (dotted p) = IPv4 p"
proof -
  let ?P = "\<lambda>c. c \<noteq> CHR ''.'' \<and> c \<noteq> CHR '':''"
  have "?P x" if "x \<in> set (itoa_nat n)" for x n
    using that itoa_nat_no_char [of "CHR ''.''"] itoa_nat_no_char [of "CHR '':''"] by auto
  then have "\<exists>r. dropWhile ?P (dotted p) = CHR ''.'' # r"
    unfolding dotted_def by (subst dropWhile_not_mem) auto
  then show ?thesis using assms by (auto simp: ParseIP_def parseIPv4_dotted)
qed

lemma ParseCIDR_dotted [go_net]:
  assumes "length q = 4" and "p \<le> 32"
  shows "ParseCIDR (dotted q @ CHR ''/'' # itoa_nat p) = Some (IPv4 q, net_of (IPv4 q) 4 p)"
proof -
  let ?P = "\<lambda>c. c \<noteq> CHR ''/''"
  have P: "?P x" if "x \<in> set (dotted q)" for x using dotted_set [OF that] by auto
  then have "dropWhile ?P (dotted q @ CHR ''/'' # itoa_nat p) = CHR ''/'' # itoa_nat p"
    using dropWhile_not_mem [of "dotted q" ?P "CHR ''/''" "itoa_nat p"] by blast
  moreover have "takeWhile ?P (dotted q @ CHR ''/'' # itoa_nat p) = dotted q"
    using P by (subst takeWhile_append2) auto
  moreover have "dtoi (itoa_nat p) = Some (p, [])"
    using dtoi_itoa [of p "[]"] assms(2) by (simp add: net_big_def)
  ultimately show ?thesis
    using assms by (simp add: ParseCIDR_def Let_def parseIPv4_dotted)
qed

end
