(* ===== verification/GoBase64.thy ===== *)
theory GoBase64
  imports GoBytes
begin

text \<open>
  \<^verbatim>\<open>base64.StdEncoding\<close>. The encoder is the standard one with padding. The
  decoder returns the bytes decoded before the first error, because every caller in the program
  drops the error: newline bytes are skipped, an incomplete or ill-formed quantum contributes
  nothing, and a padded quantum is the last one read.
\<close>

section \<open>The alphabet\<close>

definition b64_char :: "nat \<Rightarrow> char" where
  "b64_char v =
     (if v < 26 then char_of (65 + v)
      else if v < 52 then char_of (71 + v)
      else if v < 62 then char_of (v - 4)
      else if v = 62 then CHR ''+'' else CHR ''/'')"

definition b64_val :: "char \<Rightarrow> nat option" where
  "b64_val c =
     (let v = (of_char c :: nat) in
      if 65 \<le> v \<and> v \<le> 90 then Some (v - 65)
      else if 97 \<le> v \<and> v \<le> 122 then Some (v - 71)
      else if 48 \<le> v \<and> v \<le> 57 then Some (v + 4)
      else if c = CHR ''+'' then Some 62
      else if c = CHR ''/'' then Some 63
      else None)"

lemma b64_val_char [simp]:
  assumes "v < 64"
  shows "b64_val (b64_char v) = Some v"
proof -
  consider "v < 26" | "26 \<le> v" "v < 52" | "52 \<le> v" "v < 62" | "v = 62" | "v = 63"
    using assms by linarith
  then show ?thesis
    by cases (auto simp: b64_val_def b64_char_def Let_def)
qed

lemma b64_val_special [simp]:
  "b64_val CHR ''='' = None" "b64_val (CHR 0x0A) = None" "b64_val (CHR 0x0D) = None"
  by (simp_all add: b64_val_def)

lemma b64_char_special [simp]:
  "v < 64 \<Longrightarrow> b64_char v \<noteq> CHR ''=''" "v < 64 \<Longrightarrow> b64_char v \<noteq> CHR 0x0A"
  "v < 64 \<Longrightarrow> b64_char v \<noteq> CHR 0x0D"
  by (metis b64_val_char b64_val_special option.distinct(1))+

section \<open>Encoding and decoding\<close>

fun b64_encode :: "byte list \<Rightarrow> string" where
  "b64_encode [] = []"
| "b64_encode [a] =
     [b64_char (unat a div 4), b64_char (unat a mod 4 * 16), CHR ''='', CHR ''='']"
| "b64_encode [a, b] =
     [b64_char (unat a div 4), b64_char (unat a mod 4 * 16 + unat b div 16),
      b64_char (unat b mod 16 * 4), CHR ''='']"
| "b64_encode (a # b # c # rest) =
     b64_char (unat a div 4) # b64_char (unat a mod 4 * 16 + unat b div 16) #
     b64_char (unat b mod 16 * 4 + unat c div 64) # b64_char (unat c mod 64) # b64_encode rest"

fun b64_quanta :: "string \<Rightarrow> byte list" where
  "b64_quanta (c0 # c1 # c2 # c3 # rest) =
     (case (b64_val c0, b64_val c1) of
        (Some v0, Some v1) \<Rightarrow>
          (let b0 = word_of_nat (v0 * 4 + v1 div 16) in
           case b64_val c2 of
             None \<Rightarrow> if c2 = CHR ''='' \<and> c3 = CHR ''='' then [b0] else []
           | Some v2 \<Rightarrow>
               (let b1 = word_of_nat (v1 mod 16 * 16 + v2 div 4) in
                case b64_val c3 of
                  None \<Rightarrow> if c3 = CHR ''='' then [b0, b1] else []
                | Some v3 \<Rightarrow> b0 # b1 # word_of_nat (v2 mod 4 * 64 + v3) # b64_quanta rest))
      | _ \<Rightarrow> [])"
| "b64_quanta _ = []"

definition b64_decode :: "string \<Rightarrow> byte list" where
  "b64_decode s = b64_quanta (filter (\<lambda>c. c \<noteq> CHR 0x0A \<and> c \<noteq> CHR 0x0D) s)"

section \<open>Round trip\<close>

lemma byte_div [simp]:
  "unat (a :: byte) div 4 < 64" "unat (a :: byte) div 16 < 16" "unat (a :: byte) div 64 < 4"
  by (rule less_mult_imp_div_less, simp)+

lemma sextets [simp]:
  fixes m y :: nat
  shows "y < 16 \<Longrightarrow> m mod 4 * 16 + y < 64" "y < 4 \<Longrightarrow> m mod 16 * 4 + y < 64"
    "m mod 4 * 16 < 64" "m mod 16 * 4 < 64"
    and "y < 16 \<Longrightarrow> (m * 16 + y) div 16 = m" "y < 16 \<Longrightarrow> (m * 16 + y) mod 16 = y"
    and "y < 4 \<Longrightarrow> (m * 4 + y) div 4 = m" "y < 4 \<Longrightarrow> (m * 4 + y) mod 4 = y"
proof -
  have "m mod 4 < 4" "m mod 16 < 16" by simp_all
  then show "y < 16 \<Longrightarrow> m mod 4 * 16 + y < 64" "y < 4 \<Longrightarrow> m mod 16 * 4 + y < 64"
    "m mod 4 * 16 < 64" "m mod 16 * 4 < 64" by linarith+
qed simp_all

lemma b64_alphabet: "v < 64 \<Longrightarrow> b64_char v \<in> insert CHR ''='' (b64_char ` {..<64})"
  by blast

lemma b64_encode_chars: "set (b64_encode bs) \<subseteq> insert CHR ''='' (b64_char ` {..<64})"
  by (induction bs rule: b64_encode.induct) (simp_all add: b64_alphabet del: insert_iff, simp_all)

lemma b64_quanta_encode: "b64_quanta (b64_encode bs) = bs"
  by (induction bs rule: b64_encode.induct) (simp_all add: Let_def)

lemma b64_decode_encode [simp]: "b64_decode (b64_encode bs) = bs"
proof -
  have "c \<noteq> CHR 0x0A \<and> c \<noteq> CHR 0x0D" if "c \<in> set (b64_encode bs)" for c
    using subsetD [OF b64_encode_chars that] by auto
  then have "filter (\<lambda>c. c \<noteq> CHR 0x0A \<and> c \<noteq> CHR 0x0D) (b64_encode bs) = b64_encode bs"
    by (intro filter_True) blast
  then show ?thesis by (simp add: b64_decode_def b64_quanta_encode)
qed

lemma b64_encode_inj [simp]: "b64_encode a = b64_encode b \<longleftrightarrow> a = b"
  by (metis b64_decode_encode)

lemma b64_encode_eq_Nil [simp]: "b64_encode bs = [] \<longleftrightarrow> bs = []"
  by (cases bs rule: b64_encode.cases) auto

end
