(* ===== verification/BitArray.thy ===== *)
theory BitArray
  imports GoNet GoBase64
begin

text \<open>
  \<^verbatim>\<open>pkg/bitarray/bitarray.go\<close>: the bit array that records which addresses of a
  network, or which VNIs of a host device, are taken. An array is a length and a byte slice;
  position \<open>i\<close> is bit \<open>7 - i mod 8\<close> of byte \<open>i div 8\<close>, and an access beyond the slice
  panics. The abstraction \<open>ba_bits\<close> reads an array as the set of its taken positions; the
  locale \<open>bit_store\<close> states what the allocators rely on, and is interpreted on the code's
  operations.
\<close>

section \<open>The array and its operations\<close>

type_synonym u32 = "32 word"

definition MaxSupportedAllocLength :: int where
  "MaxSupportedAllocLength = 23"

record BitArray =
  ba_len :: u32
  ba_data :: "byte list"

definition bit_mask :: "u32 \<Rightarrow> byte" where
  "bit_mask pos = push_bit (unat (7 - pos mod 8)) 1"

text \<open>\<open>Set\<close>, \<open>Reset\<close> and \<open>Get\<close>; Go indexes the slice with bounds checks.\<close>

definition Set :: "BitArray \<Rightarrow> u32 \<Rightarrow> BitArray res" where
  "Set arr pos =
     (let i = unat (pos div 8); d = ba_data arr in
      if i < length d then Ok (arr\<lparr>ba_data := d[i := d ! i OR bit_mask pos]\<rparr>) else Panic)"

definition Reset :: "BitArray \<Rightarrow> u32 \<Rightarrow> BitArray res" where
  "Reset arr pos =
     (let i = unat (pos div 8); d = ba_data arr in
      if i < length d then Ok (arr\<lparr>ba_data := d[i := d ! i AND NOT (bit_mask pos)]\<rparr>) else Panic)"

definition Get :: "BitArray \<Rightarrow> u32 \<Rightarrow> bool res" where
  "Get arr pos =
     (let i = unat (pos div 8); d = ba_data arr in
      if i < length d then Ok (d ! i AND bit_mask pos \<noteq> 0) else Panic)"

definition NewBitArray :: "u32 \<Rightarrow> BitArray res" where
  "NewBitArray n =
     (if n = 0 then Err ZeroLengthBitArray
      else Set \<lparr>ba_len = n, ba_data = replicate (unat ((n + 7) div 8)) 0\<rparr> 0)"

definition NewBitArrayFromBase64 :: "string \<Rightarrow> BitArray" where
  "NewBitArrayFromBase64 text =
     (let tmp = b64_decode text in \<lparr>ba_len = word_of_nat (length tmp) * 8, ba_data = tmp\<rparr>)"

definition Encode :: "BitArray \<Rightarrow> string" where
  "Encode arr = b64_encode (ba_data arr)"

text \<open>\<open>Len\<close> has a pointer receiver and answers 0 for nil.\<close>

definition Len :: "BitArray option \<Rightarrow> u32" where
  "Len arr = (case arr of None \<Rightarrow> 0 | Some a \<Rightarrow> ba_len a)"

text \<open>
  \<open>uint32(math.Pow(2, float64(b)))\<close>: exact for the exponents that pass the guard, and 0 for a
  negative exponent, whose power lies between 0 and 1.
\<close>

definition pow2_u32 :: "int \<Rightarrow> u32" where
  "pow2_u32 b = (if b < 0 then 0 else 2 ^ nat b)"

definition CreateBitArrayFromIpnet :: "ipnet option \<Rightarrow> BitArray option res" where
  "CreateBitArrayFromIpnet ipnet =
     (case ipnet of
        None \<Rightarrow> Ok None
      | Some n \<Rightarrow>
          (let maskSize = int (mask_size (net_Mask n));
               baLength = (if To4 (net_IP n) = [] then 128 - maskSize else 32 - maskSize)
           in if baLength > MaxSupportedAllocLength then Err TooManyAddresses
              else (case NewBitArray (pow2_u32 baLength) of
                      Ok arr \<Rightarrow> bind_res (Set arr (pow2_u32 baLength - 1)) (\<lambda>arr'. Ok (Some arr'))
                    | _ \<Rightarrow> Panic)))"

section \<open>Arrays as sets of positions\<close>

definition ba_size :: "BitArray \<Rightarrow> nat" where
  "ba_size arr = 8 * length (ba_data arr)"

definition ba_bits :: "BitArray \<Rightarrow> nat set" where
  "ba_bits arr = {i. i < ba_size arr \<and> bit (ba_data arr ! (i div 8)) (7 - i mod 8)}"

lemma unat_7_minus: "unat (7 - pos mod 8 :: u32) = 7 - unat pos mod 8"
proof -
  have "unat (pos mod 8) = unat pos mod 8" by (simp add: unat_mod)
  moreover have "pos mod 8 \<le> 7"
    using \<open>unat (pos mod 8) = unat pos mod 8\<close> by (simp add: word_le_nat_alt)
  ultimately show ?thesis by (simp add: unat_sub)
qed

lemma bit_bit_mask: "bit (bit_mask pos) k \<longleftrightarrow> k = 7 - unat pos mod 8"
  by (auto simp: bit_mask_def unat_7_minus bit_simps)

lemma and_bit_mask: "(b AND bit_mask pos \<noteq> 0) \<longleftrightarrow> bit b (7 - unat pos mod 8)"
proof
  assume "b AND bit_mask pos \<noteq> 0"
  then obtain k where "bit (b AND bit_mask pos) k" using bit_eqI by (metis bit_0_eq bot_apply bot_bool_def)
  then show "bit b (7 - unat pos mod 8)" by (auto simp: bit_simps bit_bit_mask)
next
  assume "bit b (7 - unat pos mod 8)"
  then have "bit (b AND bit_mask pos) (7 - unat pos mod 8)" by (simp add: bit_and_iff bit_bit_mask)
  then show "b AND bit_mask pos \<noteq> 0" by auto
qed

lemma index_div: "unat (pos div 8 :: u32) = unat pos div 8"
  by (simp add: unat_div)

lemma index_bound: "unat pos div 8 < length d \<longleftrightarrow> unat pos < 8 * length d"
  by (simp add: div_less_iff_less_mult mult.commute)

lemma same_byte_bit:
  fixes i j :: nat
  shows "i div 8 = j div 8 \<Longrightarrow> 7 - i mod 8 = 7 - j mod 8 \<longleftrightarrow> i = j"
proof -
  assume d: "i div 8 = j div 8"
  have "i mod 8 < 8" "j mod 8 < 8" by simp_all
  then have "7 - i mod 8 = 7 - j mod 8 \<longleftrightarrow> i mod 8 = j mod 8" by linarith
  with d show ?thesis by (metis div_mod_decomp)
qed

lemma Get_eq [bit_facts]: "Get arr pos = (if unat pos < ba_size arr then Ok (unat pos \<in> ba_bits arr) else Panic)"
  by (simp add: Get_def Let_def index_div and_bit_mask index_bound ba_size_def ba_bits_def)

lemma Set_eq:
  "Set arr pos = (if unat pos < ba_size arr
     then Ok (arr\<lparr>ba_data := (ba_data arr)[unat pos div 8 := ba_data arr ! (unat pos div 8) OR bit_mask pos]\<rparr>)
     else Panic)"
  by (simp add: Set_def Let_def index_div index_bound ba_size_def)

lemma Reset_eq:
  "Reset arr pos = (if unat pos < ba_size arr
     then Ok (arr\<lparr>ba_data := (ba_data arr)[unat pos div 8 := ba_data arr ! (unat pos div 8) AND NOT (bit_mask pos)]\<rparr>)
     else Panic)"
  by (simp add: Reset_def Let_def index_div index_bound ba_size_def)

lemma ba_bits_iff:
  "i \<in> ba_bits arr \<longleftrightarrow> i < ba_size arr \<and> bit (ba_data arr ! (i div 8)) (7 - i mod 8)"
  by (simp add: ba_bits_def)

lemma ba_bits_update:
  "unat pos < ba_size arr \<Longrightarrow>
   i \<in> ba_bits (arr\<lparr>ba_data := (ba_data arr)[unat pos div 8 := v]\<rparr>) \<longleftrightarrow>
   i < ba_size arr \<and>
   bit (if i div 8 = unat pos div 8 then v else ba_data arr ! (i div 8)) (7 - i mod 8)"
  by (auto simp: ba_bits_def ba_size_def nth_list_update index_bound)

lemma bit_of_update:
  "bit (b OR bit_mask pos) (7 - i mod 8) \<longleftrightarrow> bit b (7 - i mod 8) \<or> 7 - i mod 8 = 7 - unat pos mod 8"
  "bit (b AND NOT (bit_mask pos)) (7 - i mod 8) \<longleftrightarrow>
     bit b (7 - i mod 8) \<and> 7 - i mod 8 \<noteq> 7 - unat pos mod 8"
proof -
  have "7 - i mod 8 < 8" by simp
  then show "bit (b OR bit_mask pos) (7 - i mod 8) \<longleftrightarrow>
      bit b (7 - i mod 8) \<or> 7 - i mod 8 = 7 - unat pos mod 8"
    and "bit (b AND NOT (bit_mask pos)) (7 - i mod 8) \<longleftrightarrow>
      bit b (7 - i mod 8) \<and> 7 - i mod 8 \<noteq> 7 - unat pos mod 8"
    by (simp_all add: bit_or_iff bit_and_iff bit_not_iff bit_bit_mask possible_bit_def)
qed

lemma ba_bits_change:
  assumes "unat pos < ba_size arr"
  shows "ba_bits (arr\<lparr>ba_data := (ba_data arr)[unat pos div 8 := ba_data arr ! (unat pos div 8) OR bit_mask pos]\<rparr>)
      = insert (unat pos) (ba_bits arr)" (is "ba_bits ?on = _")
    and "ba_bits (arr\<lparr>ba_data := (ba_data arr)[unat pos div 8 := ba_data arr ! (unat pos div 8) AND NOT (bit_mask pos)]\<rparr>)
      = ba_bits arr - {unat pos}" (is "ba_bits ?off = _")
proof -
  have "i \<in> ba_bits ?on \<longleftrightarrow> i = unat pos \<or> i \<in> ba_bits arr" for i
    using assms same_byte_bit [of i "unat pos"] ba_bits_iff [of i arr]
    by (cases "i div 8 = unat pos div 8") (auto simp: ba_bits_update bit_of_update)
  then show "ba_bits ?on = insert (unat pos) (ba_bits arr)" by blast
  have "i \<in> ba_bits ?off \<longleftrightarrow> i \<noteq> unat pos \<and> i \<in> ba_bits arr" for i
    using assms same_byte_bit [of i "unat pos"] ba_bits_iff [of i arr]
    by (cases "i div 8 = unat pos div 8") (auto simp: ba_bits_update bit_of_update)
  then show "ba_bits ?off = ba_bits arr - {unat pos}" by blast
qed

lemma Set_bits [bit_facts]:
  "Set arr pos = Ok arr' \<Longrightarrow> ba_bits arr' = insert (unat pos) (ba_bits arr)"
  by (auto simp: Set_eq ba_bits_change split: if_splits)

lemma Reset_bits [bit_facts]:
  "Reset arr pos = Ok arr' \<Longrightarrow> ba_bits arr' = ba_bits arr - {unat pos}"
  by (auto simp: Reset_eq ba_bits_change split: if_splits)

lemma Set_size [frame_facts]: "Set arr pos = Ok arr' \<Longrightarrow> ba_size arr' = ba_size arr \<and> ba_len arr' = ba_len arr"
  by (auto simp: Set_eq ba_size_def split: if_splits)

lemma Reset_size [frame_facts]: "Reset arr pos = Ok arr' \<Longrightarrow> ba_size arr' = ba_size arr \<and> ba_len arr' = ba_len arr"
  by (auto simp: Reset_eq ba_size_def split: if_splits)

lemma ba_bits_bound: "i \<in> ba_bits arr \<Longrightarrow> i < ba_size arr"
  by (simp add: ba_bits_def)

text \<open>The bytes are determined by the size and the set of positions.\<close>

lemma ba_data_ext:
  assumes size: "ba_size a = ba_size b" and bits: "ba_bits a = ba_bits b"
  shows "ba_data a = ba_data b"
proof (rule nth_equalityI)
  show len: "length (ba_data a) = length (ba_data b)" using size by (simp add: ba_size_def)
  fix j assume j: "j < length (ba_data a)"
  show "ba_data a ! j = ba_data b ! j"
  proof (rule bit_word_eqI)
    fix k :: nat assume "k < LENGTH(8)"
    then have k: "k < 8" by simp
    let ?i = "8 * j + (7 - k)"
    have "?i mod 8 = 7 - k" using k by (simp only: mod_mult_self4) simp
    then have m: "7 - ?i mod 8 = k" using k by linarith
    have d: "?i div 8 = j" "?i < ba_size a" "?i < ba_size b"
      using k j len by (simp_all add: ba_size_def)
    have "?i \<in> ba_bits a \<longleftrightarrow> ?i \<in> ba_bits b" using bits by simp
    then show "bit (ba_data a ! j) k \<longleftrightarrow> bit (ba_data b ! j) k"
      unfolding ba_bits_iff d(1) m using d(2,3) by blast
  qed
qed

lemma Encode_decode [simp]: "ba_data (NewBitArrayFromBase64 (Encode arr)) = ba_data arr"
  by (simp add: NewBitArrayFromBase64_def Encode_def Let_def)

section \<open>The interface of the allocators\<close>

locale bit_store =
  fixes get :: "'s \<Rightarrow> u32 \<Rightarrow> bool res"
    and put :: "'s \<Rightarrow> u32 \<Rightarrow> 's res"
    and clear :: "'s \<Rightarrow> u32 \<Rightarrow> 's res"
    and size_of :: "'s \<Rightarrow> nat"
    and bits :: "'s \<Rightarrow> nat set"
    and enc :: "'s \<Rightarrow> string"
    and dec :: "string \<Rightarrow> 's"
  assumes get_spec: "get s i = (if unat i < size_of s then Ok (unat i \<in> bits s) else Panic)"
    and put_spec: "put s i = Ok t \<Longrightarrow> bits t = insert (unat i) (bits s) \<and> size_of t = size_of s"
    and put_total: "unat i < size_of s \<Longrightarrow> \<exists>t. put s i = Ok t"
    and put_panics: "\<not> unat i < size_of s \<Longrightarrow> put s i = Panic"
    and clear_spec: "clear s i = Ok t \<Longrightarrow> bits t = bits s - {unat i} \<and> size_of t = size_of s"
    and clear_total: "unat i < size_of s \<Longrightarrow> \<exists>t. clear s i = Ok t"
    and clear_panics: "\<not> unat i < size_of s \<Longrightarrow> clear s i = Panic"
    and bits_bound: "k \<in> bits s \<Longrightarrow> k < size_of s"
    and enc_ext: "size_of s = size_of t \<Longrightarrow> bits s = bits t \<Longrightarrow> enc s = enc t"
    and dec_enc: "bits (dec (enc s)) = bits s \<and> size_of (dec (enc s)) = size_of s"
begin

lemma get_Ok_iff: "get s i = Ok v \<longleftrightarrow> unat i < size_of s \<and> v = (unat i \<in> bits s)"
  by (auto simp: get_spec)

lemma put_Ok_iff: "(\<exists>t. put s i = Ok t) \<longleftrightarrow> unat i < size_of s"
  using put_total put_panics by force

lemma get_put:
  assumes "put s i = Ok t"
  shows "get t j = (if j = i then Ok True else get s j)"
proof -
  have "unat i < size_of s" using assms put_panics by force
  with put_spec [OF assms] show ?thesis by (auto simp: get_spec word_unat_eq_iff)
qed

lemma get_clear:
  assumes "clear s i = Ok t"
  shows "get t j = (if j = i then Ok False else get s j)"
proof -
  have "unat i < size_of s" using assms clear_panics by force
  with clear_spec [OF assms] show ?thesis by (auto simp: get_spec word_unat_eq_iff)
qed

text \<open>Releasing a position that was free when it was taken restores the encoded state.\<close>

lemma clear_put_encoded:
  assumes "get s i = Ok False" and "put s i = Ok t" and "clear (dec (enc t)) i = Ok u"
  shows "enc u = enc s"
proof (rule enc_ext)
  from put_spec [OF assms(2)] clear_spec [OF assms(3)] dec_enc [of t] assms(1)
  show "size_of u = size_of s" and "bits u = bits s" by (auto simp: get_Ok_iff)
qed

lemma put_changes_encoding:
  assumes "get s i = Ok False" and "put s i = Ok t"
  shows "enc t \<noteq> enc s"
proof
  assume "enc t = enc s"
  then have "bits t = bits s" by (metis dec_enc)
  with put_spec [OF assms(2)] assms(1) show False by (auto simp: get_Ok_iff)
qed

end

interpretation ba: bit_store Get Set Reset ba_size ba_bits Encode NewBitArrayFromBase64
proof unfold_locales
  show "\<exists>t. Set s i = Ok t" if "unat i < ba_size s" for s i using that by (simp add: Set_eq)
  show "\<exists>t. Reset s i = Ok t" if "unat i < ba_size s" for s i using that by (simp add: Reset_eq)
  show "Encode s = Encode t" if "ba_size s = ba_size t" "ba_bits s = ba_bits t" for s t
    using ba_data_ext [OF that] by (simp add: Encode_def)
  show "ba_bits (NewBitArrayFromBase64 (Encode s)) = ba_bits s \<and>
      ba_size (NewBitArrayFromBase64 (Encode s)) = ba_size s" for s
    by (simp add: ba_bits_def ba_size_def)
  show "ba_bits t = insert (unat i) (ba_bits s) \<and> ba_size t = ba_size s" if "Set s i = Ok t" for s t i
    using Set_bits [OF that] Set_size [OF that] by simp
  show "ba_bits t = ba_bits s - {unat i} \<and> ba_size t = ba_size s" if "Reset s i = Ok t" for s t i
    using Reset_bits [OF that] Reset_size [OF that] by simp
qed (simp_all add: Get_eq Set_eq Reset_eq ba_bits_bound)

end
