(* ===== verification/DanmTypes.thy ===== *)
theory DanmTypes
  imports Prelude
begin

text \<open>
  The API objects of \<^verbatim>\<open>crd/apis/danm/v1/types.go\<close> and the constants and
  structs of \<^verbatim>\<open>pkg/datastructs/datastructs.go\<close>. A Go map is an association list
  standing for one iteration order of the map, and a nil map, slice or pointer is \<open>None\<close>
  where the code tells nil from empty. Of Kubernetes' own \<^verbatim>\<open>ObjectMeta\<close> the
  fields the program reads or writes are kept.
\<close>

type_synonym gomap = "(string \<times> string) list"

record ObjectMeta =
  mt_Name :: string
  mt_Namespace :: string
  mt_ResourceVersion :: string
  mt_UID :: string
  mt_Labels :: gomap

record IpPool =
  Start :: string
  End :: string
  LastIp :: string

record IpPoolV6 = IpPool +
  PoolCidr :: string

record DanmNetOption =
  Device :: string
  DevicePool :: string
  Vxlan :: int
  NicPrefix :: string
  Cidr :: string
  Routes :: "gomap option"
  Alloc :: string
  Pool :: IpPool
  Net6 :: string
  Routes6 :: "gomap option"
  Alloc6 :: string
  Pool6 :: IpPoolV6
  RTables :: int
  Vlan :: int

record DanmNetSpec =
  NetworkID :: string
  NetworkType :: string
  AllowedTenants :: "string list option"
  Options :: DanmNetOption

text \<open>
  \<open>DanmNet\<close> stands for the Go types \<^verbatim>\<open>DanmNet\<close>,
  \<^verbatim>\<open>TenantNetwork\<close> and \<^verbatim>\<open>ClusterNetwork\<close>, which are the same
  struct under three names; \<open>dn_Kind\<close> is \<^verbatim>\<open>TypeMeta.Kind\<close>.
\<close>

record DanmNet =
  dn_Kind :: string
  dn_Meta :: ObjectMeta
  dn_Spec :: DanmNetSpec

record DanmEpIface =
  if_Name :: string
  if_Address :: string
  if_AddressIPv6 :: string
  if_MacAddress :: string
  if_Proutes :: "gomap option"
  if_Proutes6 :: "gomap option"
  if_DeviceID :: string

record DanmEpSpec =
  ep_NetworkName :: string
  ep_NetworkType :: string
  ep_EndpointID :: string
  ep_Iface :: DanmEpIface
  ep_Host :: string
  ep_Pod :: string
  ep_PodUID :: string
  ep_CID :: string
  ep_Netns :: string
  ep_ApiType :: string

record DanmEp =
  ep_Kind :: string
  ep_Meta :: ObjectMeta
  ep_Spec :: DanmEpSpec

record IfaceProfile =
  prof_Name :: string
  VniType :: string
  VniRange :: string
  prof_Alloc :: string

record TenantConfig =
  tc_Kind :: string
  tc_Meta :: ObjectMeta
  HostDevices :: "IfaceProfile list"
  NetworkIds :: gomap

text \<open>A Pod's request for one network connection.\<close>

record Interface =
  ifc_Network :: string
  ifc_TenantNetwork :: string
  ifc_ClusterNetwork :: string
  ifc_Ip :: string
  ifc_Ip6 :: string
  ifc_Proutes :: "gomap option"
  ifc_Proutes6 :: "gomap option"
  ifc_DefaultIfaceName :: string
  ifc_Device :: string
  ifc_SequenceId :: int

record IpamIp =
  IpCidr :: string
  ip_Version :: int

record IpamConfig =
  ipam_Type :: string
  ipam_Ips :: "IpamIp list"

text \<open>A CNI configuration: DANM's own, or the one of a NetworkAttachmentDefinition.\<close>

record NetConf =
  nc_Name :: string
  nc_Type :: string
  nc_Kubeconfig :: string
  nc_CniConfigDir :: string
  nc_NamingScheme :: string
  nc_Master :: string
  nc_Vlan :: int
  nc_Vxlan :: int

definition empty_meta :: ObjectMeta where
  "empty_meta = \<lparr>mt_Name = [], mt_Namespace = [], mt_ResourceVersion = [], mt_UID = [], mt_Labels = []\<rparr>"

definition empty_options :: DanmNetOption where
  "empty_options =
     \<lparr>Device = [], DevicePool = [], Vxlan = 0, NicPrefix = [], Cidr = [], Routes = None, Alloc = [],
      Pool = \<lparr>Start = [], End = [], LastIp = []\<rparr>, Net6 = [], Routes6 = None, Alloc6 = [],
      Pool6 = \<lparr>Start = [], End = [], LastIp = [], PoolCidr = []\<rparr>, RTables = 0, Vlan = 0\<rparr>"

definition empty_net :: DanmNet where
  "empty_net =
     \<lparr>dn_Kind = [], dn_Meta = empty_meta,
      dn_Spec = \<lparr>NetworkID = [], NetworkType = [], AllowedTenants = None, Options = empty_options\<rparr>\<rparr>"

definition empty_iface :: Interface where
  "empty_iface =
     \<lparr>ifc_Network = [], ifc_TenantNetwork = [], ifc_ClusterNetwork = [], ifc_Ip = [], ifc_Ip6 = [],
      ifc_Proutes = None, ifc_Proutes6 = None, ifc_DefaultIfaceName = [], ifc_Device = [],
      ifc_SequenceId = 0\<rparr>"

abbreviation opts :: "DanmNet \<Rightarrow> DanmNetOption" where
  "opts n \<equiv> Options (dn_Spec n)"

definition set_opts :: "(DanmNetOption \<Rightarrow> DanmNetOption) \<Rightarrow> DanmNet \<Rightarrow> DanmNet" where
  "set_opts f n = n\<lparr>dn_Spec := (dn_Spec n)\<lparr>Options := f (opts n)\<rparr>\<rparr>"

lemma set_opts_simps [simp]:
  "opts (set_opts f n) = f (opts n)" "dn_Kind (set_opts f n) = dn_Kind n"
  "dn_Meta (set_opts f n) = dn_Meta n" "NetworkID (dn_Spec (set_opts f n)) = NetworkID (dn_Spec n)"
  "NetworkType (dn_Spec (set_opts f n)) = NetworkType (dn_Spec n)"
  "AllowedTenants (dn_Spec (set_opts f n)) = AllowedTenants (dn_Spec n)"
  by (simp_all add: set_opts_def)

section \<open>Constants\<close>

definition OptimisticLockErrorMsg :: string where
  "OptimisticLockErrorMsg =
     ''the object has been modified; please apply your changes to the latest version and try again''"

definition MinV4MaskLength :: int where "MinV4MaskLength = 32"
definition MaxV4MaskLength :: nat where "MaxV4MaskLength = 9"
definition MaxV6PrefixLength :: nat where "MaxV6PrefixLength = 105"
definition MinV6PrefixLength :: nat where "MinV6PrefixLength = 128"
definition LegacyNamingScheme :: string where "LegacyNamingScheme = ''legacy''"

definition NoneAllocType :: string where "NoneAllocType = ''none''"
definition DynamicAllocType :: string where "DynamicAllocType = ''dynamic''"

definition DanmNetKind :: string where "DanmNetKind = ''DanmNet''"
definition TenantNetworkKind :: string where "TenantNetworkKind = ''TenantNetwork''"
definition ClusterNetworkKind :: string where "ClusterNetworkKind = ''ClusterNetwork''"
definition NadKind :: string where "NadKind = ''NetworkAttachmentDefinition''"

lemmas kind_defs = DanmNetKind_def TenantNetworkKind_def ClusterNetworkKind_def NadKind_def
lemmas alloc_type_defs = NoneAllocType_def DynamicAllocType_def
lemmas prefix_limits = MinV4MaskLength_def MaxV4MaskLength_def MaxV6PrefixLength_def MinV6PrefixLength_def

section \<open>The client of the Kubernetes API server\<close>

text \<open>
  The generated clientset talks to the API server, which is not part of the program: its calls
  are the fields of a record that the operations take as an argument. \<open>'w\<close> is the state of
  the world the calls act on (the server's objects and everything other clients do in between).
  Every call returns its error text or its result, and the next world. The three network APIs
  are told apart by \<open>net_api\<close>; a namespaced call carries the namespace, a cluster-wide call
  the empty string.
\<close>

datatype net_api = DanmNets | TenantNetworks | ClusterNetworks

record 'w DanmClient =
  api_net_update :: "net_api \<Rightarrow> string \<Rightarrow> DanmNet \<Rightarrow> 'w \<Rightarrow> string option \<times> 'w"
  api_net_get :: "net_api \<Rightarrow> string \<Rightarrow> string \<Rightarrow> 'w \<Rightarrow> (string + DanmNet) \<times> 'w"
  api_tconf_list :: "'w \<Rightarrow> (string + TenantConfig list option) \<times> 'w"
  api_tconf_update :: "TenantConfig \<Rightarrow> 'w \<Rightarrow> string option \<times> 'w"
  api_tconf_get :: "string \<Rightarrow> 'w \<Rightarrow> (string + TenantConfig) \<times> 'w"
  api_ep_list :: "string \<Rightarrow> 'w \<Rightarrow> (string + DanmEp list option) \<times> 'w"
  api_ep_create :: "string \<Rightarrow> DanmEp \<Rightarrow> 'w \<Rightarrow> (string + DanmEp) \<times> 'w"
  api_ep_update :: "string \<Rightarrow> DanmEp \<Rightarrow> 'w \<Rightarrow> string option \<times> 'w"
  api_ep_delete :: "string \<Rightarrow> string \<Rightarrow> 'w \<Rightarrow> string option \<times> 'w"

text \<open>
  An operation that calls the API returns its result and the next world. \<open>bind_st\<close> runs
  a second operation when the first returned a value.
\<close>

type_synonym ('w, 'a) st = "'w \<Rightarrow> 'a res \<times> 'w"

definition bind_st :: "('w, 'a) st \<Rightarrow> ('a \<Rightarrow> ('w, 'b) st) \<Rightarrow> ('w, 'b) st" where
  "bind_st m f w =
     (case m w of
        (Ok x, w') \<Rightarrow> f x w'
      | (Err e, w') \<Rightarrow> (Err e, w')
      | (Panic, w') \<Rightarrow> (Panic, w')
      | (Hang, w') \<Rightarrow> (Hang, w'))"

definition return_st :: "'a res \<Rightarrow> ('w, 'a) st" where
  "return_st r w = (r, w)"

lemma bind_st_Ok [simp]: "m w = (Ok x, w') \<Longrightarrow> bind_st m f w = f x w'"
  and bind_st_Err [simp]: "m w = (Err e, w') \<Longrightarrow> bind_st m f w = (Err e, w')"
  and bind_st_Panic [simp]: "m w = (Panic, w') \<Longrightarrow> bind_st m f w = (Panic, w')"
  by (simp_all add: bind_st_def)

lemma return_st_simp [simp]: "return_st r w = (r, w)"
  by (simp add: return_st_def)

lemma bind_st_OkE:
  assumes "bind_st m f w = (Ok y, w')"
  obtains x w1 where "m w = (Ok x, w1)" and "f x w1 = (Ok y, w')"
  using assms by (auto simp: bind_st_def split: prod.splits res.splits)

text \<open>Equality of Go maps, whatever their iteration order.\<close>

definition gomap_eq :: "gomap option \<Rightarrow> gomap option \<Rightarrow> bool" where
  "gomap_eq a b \<longleftrightarrow>
     (case (a, b) of
        (None, None) \<Rightarrow> True
      | (Some x, Some y) \<Rightarrow> (\<forall>k \<in> set (map fst x @ map fst y). map_of x k = map_of y k)
      | _ \<Rightarrow> False)"

definition deep_equal_spec :: "DanmNetSpec \<Rightarrow> DanmNetSpec \<Rightarrow> bool" where
  "deep_equal_spec a b \<longleftrightarrow>
     gomap_eq (Routes (Options a)) (Routes (Options b)) \<and>
     gomap_eq (Routes6 (Options a)) (Routes6 (Options b)) \<and>
     a\<lparr>Options := (Options a)\<lparr>Routes := None, Routes6 := None\<rparr>\<rparr> =
     b\<lparr>Options := (Options b)\<lparr>Routes := None, Routes6 := None\<rparr>\<rparr>"

lemma gomap_eq_refl [simp]: "gomap_eq m m"
  by (cases m) (simp_all add: gomap_eq_def)

lemma deep_equal_refl [simp]: "deep_equal_spec s s"
  by (simp add: deep_equal_spec_def)

lemma deep_equal_fields:
  assumes "deep_equal_spec a b"
  shows "Alloc (Options a) = Alloc (Options b)" "Alloc6 (Options a) = Alloc6 (Options b)"
    "Pool (Options a) = Pool (Options b)" "Pool6 (Options a) = Pool6 (Options b)"
    "Cidr (Options a) = Cidr (Options b)" "NetworkID a = NetworkID b"
proof -
  have eq: "a\<lparr>Options := (Options a)\<lparr>Routes := None, Routes6 := None\<rparr>\<rparr> =
      b\<lparr>Options := (Options b)\<lparr>Routes := None, Routes6 := None\<rparr>\<rparr>"
    using assms by (simp add: deep_equal_spec_def)
  show "Alloc (Options a) = Alloc (Options b)" using arg_cong [OF eq, of "\<lambda>s. Alloc (Options s)"] by simp
  show "Alloc6 (Options a) = Alloc6 (Options b)" using arg_cong [OF eq, of "\<lambda>s. Alloc6 (Options s)"] by simp
  show "Pool (Options a) = Pool (Options b)" using arg_cong [OF eq, of "\<lambda>s. Pool (Options s)"] by simp
  show "Pool6 (Options a) = Pool6 (Options b)" using arg_cong [OF eq, of "\<lambda>s. Pool6 (Options s)"] by simp
  show "Cidr (Options a) = Cidr (Options b)" using arg_cong [OF eq, of "\<lambda>s. Cidr (Options s)"] by simp
  show "NetworkID a = NetworkID b" using arg_cong [OF eq, of NetworkID] by simp
qed

text \<open>The precedence of the default networks: a namespace's own network before a cluster-wide one.\<close>

instantiation net_api :: linorder
begin

fun api_rank :: "net_api \<Rightarrow> nat" where
  "api_rank DanmNets = 0"
| "api_rank TenantNetworks = 1"
| "api_rank ClusterNetworks = 2"

definition less_eq_net_api :: "net_api \<Rightarrow> net_api \<Rightarrow> bool" where
  "less_eq_net_api a b \<longleftrightarrow> api_rank a \<le> api_rank b"

definition less_net_api :: "net_api \<Rightarrow> net_api \<Rightarrow> bool" where
  "less_net_api a b \<longleftrightarrow> api_rank a < api_rank b"

instance
proof
  fix x y z :: net_api
  show "x < y \<longleftrightarrow> x \<le> y \<and> \<not> y \<le> x" by (auto simp: less_net_api_def less_eq_net_api_def)
  show "x \<le> x" by (simp add: less_eq_net_api_def)
  show "x \<le> y \<Longrightarrow> y \<le> z \<Longrightarrow> x \<le> z" by (simp add: less_eq_net_api_def)
  show "x \<le> y \<Longrightarrow> y \<le> x \<Longrightarrow> x = y" by (cases x; cases y) (simp_all add: less_eq_net_api_def)
  show "x \<le> y \<or> y \<le> x" by (auto simp: less_eq_net_api_def)
qed

end

end
