(* ===== verification/Ipam.thy ===== *)
theory Ipam
  imports BitArray DanmTypes
begin

text \<open>
  \<^verbatim>\<open>pkg/ipam/ipam.go\<close> without its API calls: the translation between
  addresses and positions of an allocation array, the dynamic and static allocation of one
  address, its release, and the initialisation of pools. The functions of the third-party
  package \<^verbatim>\<open>go-cidr\<close> are the record \<open>go_cidr\<close>, an argument of what uses
  them. The loop of the dynamic allocation is a \<open>partial_function\<close>: its termination is
  a theorem. The section after the definitions reads a subnet as a codec between positions and
  addresses (locale \<open>addr_codec\<close>, interpreted for IPv4 and for IPv6).
\<close>

section \<open>Addresses as numbers\<close>

record go_cidr =
  AddressRange :: "ipnet \<Rightarrow> ip \<times> ip"
  IncIp :: "ip \<Rightarrow> ip"
  DecIp :: "ip \<Rightarrow> ip"
  AddressCount :: "ipnet \<Rightarrow> 64 word"

definition Ip2int :: "ip \<Rightarrow> u32 res" where
  "Ip2int a =
     (if length a = 16 then Ok (word_of_nat (be_nat (drop 12 a)))
      else if length a < 4 then Panic
      else Ok (word_of_nat (be_nat (take 4 a))))"

definition Ip62int :: "ip \<Rightarrow> nat" where
  "Ip62int a = be_nat (To16 a)"

definition Int2ip :: "u32 \<Rightarrow> ip" where
  "Int2ip nn = nat_be 4 (unat nn)"

definition Int2ip6 :: "nat \<Rightarrow> ip" where
  "Int2ip6 nn = big_bytes nn"

text \<open>
  \<^verbatim>\<open>uint32(x.Sub(x, y).Uint64())\<close>: \<^verbatim>\<open>Uint64\<close> reads the low 64
  bits of the absolute value of the difference.
\<close>

definition big_sub_u32 :: "nat \<Rightarrow> nat \<Rightarrow> u32" where
  "big_sub_u32 x y = ucast (word_of_nat (nat \<bar>int x - int y\<bar>) :: 64 word)"

definition getAllocRangeBasedOnCidr :: "IpPool \<Rightarrow> ipnet option \<Rightarrow> (u32 \<times> u32) res" where
  "getAllocRangeBasedOnCidr pool cidr =
     (case cidr of
        None \<Rightarrow> Panic
      | Some n \<Rightarrow>
          if To4 (net_IP n) \<noteq> [] then
            bind_res (Ip2int (net_IP n)) (\<lambda>first.
            bind_res (Ip2int (ParseIP (Start pool))) (\<lambda>b.
            bind_res (Ip2int (ParseIP (End pool))) (\<lambda>e. Ok (b - first, e - first))))
          else (let first = Ip62int (net_IP n) in
            Ok (big_sub_u32 (Ip62int (ParseIP (Start pool))) first,
                big_sub_u32 (Ip62int (ParseIP (End pool))) first)))"

definition GetIndexOfIp :: "ip \<Rightarrow> ipnet option \<Rightarrow> u32 res" where
  "GetIndexOfIp a subnet =
     (if a = [] then Ok 0
      else (case subnet of
        None \<Rightarrow> Panic
      | Some n \<Rightarrow>
          if To4 a \<noteq> [] then
            bind_res (Ip2int (net_IP n)) (\<lambda>first.
            bind_res (Ip2int a) (\<lambda>i. Ok (i - first)))
          else Ok (big_sub_u32 (Ip62int a) (Ip62int (net_IP n)))))"

text \<open>The address \<^verbatim>\<open>getIpFromIndex\<close> computes, and the text it returns.\<close>

definition index_ip :: "u32 \<Rightarrow> ipnet \<Rightarrow> ip res" where
  "index_ip index n =
     (if To4 (net_IP n) \<noteq> []
      then bind_res (Ip2int (net_IP n)) (\<lambda>first. Ok (Int2ip (first + index)))
      else Ok (Int2ip6 (Ip62int (net_IP n) + unat index)))"

definition getIpFromIndex :: "u32 \<Rightarrow> ipnet option \<Rightarrow> ipnet option \<Rightarrow> string res" where
  "getIpFromIndex index allocSubnet netSubnet =
     (case allocSubnet of
        None \<Rightarrow> Panic
      | Some n \<Rightarrow>
          bind_res (index_ip index n) (\<lambda>a.
            case netSubnet of
              None \<Rightarrow> Panic
            | Some m \<Rightarrow> Ok (ip_string a @ ''/'' @ itoa_nat (mask_size (net_Mask m)))))"

section \<open>Allocating one address\<close>

text \<open>
  The \<^verbatim>\<open>for\<close> loop of \<^verbatim>\<open>allocateAddress\<close> on the variables
  \<open>i\<close> and \<open>end\<close>: the result is the first free position it meets. After the position
  \<open>end\<close> the loop wraps once: it sets \<open>i\<close> to \<open>begin\<close>, which the loop header then
  increments, and \<open>end\<close> to the position it started from.
\<close>

partial_function (option) scan ::
  "BitArray \<Rightarrow> u32 \<Rightarrow> u32 \<Rightarrow> u32 \<Rightarrow> u32 \<Rightarrow> u32 option res option" where
  "scan ba begin lastIpIndex i endIdx =
     (if i \<le> endIdx then
        (case Get ba i of
           Ok taken \<Rightarrow>
             if \<not> taken then Some (Ok (Some i))
             else if i = endIdx \<and> endIdx \<noteq> lastIpIndex
             then scan ba begin lastIpIndex (begin + 1) lastIpIndex
             else scan ba begin lastIpIndex (i + 1) endIdx
         | _ \<Rightarrow> Some Panic)
      else Some (Ok None))"

declare scan.simps [code]

definition allocateDynamic ::
  "IpPool \<Rightarrow> string \<Rightarrow> ipnet option \<Rightarrow> ipnet option \<Rightarrow> (string \<times> string \<times> IpPool) res" where
  "allocateDynamic pool alloc allocSubnet netSubnet =
     (let ba = NewBitArrayFromBase64 alloc in
      bind_res (getAllocRangeBasedOnCidr pool allocSubnet) (\<lambda>(begin, endIdx).
      bind_res (if LastIp pool \<noteq> [] then GetIndexOfIp (ParseIP (LastIp pool)) allocSubnet else Ok 0) (\<lambda>last.
        (let lastIpIndex = (if last \<ge> endIdx \<or> last = 0 then begin else last) in
         bind_res (of_option (scan ba begin lastIpIndex lastIpIndex endIdx)) (\<lambda>found.
         bind_res found (\<lambda>freeIdx.
           (case freeIdx of
              None \<Rightarrow> Err PoolExhausted
            | Some allocatedIndex \<Rightarrow>
                bind_res (Set ba allocatedIndex) (\<lambda>ba'.
                bind_res (getIpFromIndex allocatedIndex allocSubnet netSubnet) (\<lambda>allocatedIp.
                  Ok (Encode ba', allocatedIp, pool\<lparr>LastIp := allocatedIp\<rparr>))))))))))"

definition allocateStatic ::
  "IpPool \<Rightarrow> string \<Rightarrow> string \<Rightarrow> string \<Rightarrow> ipnet option \<Rightarrow> ipnet option \<Rightarrow> (string \<times> string \<times> IpPool) res" where
  "allocateStatic pool alloc reqType netCidr allocSubnet netSubnet =
     (let ba = NewBitArrayFromBase64 alloc; reqIp = first_part CHR ''/'' reqType; a = ParseIP reqIp in
      if a = [] then Err (InvalidStaticIp reqType)
      else (case netSubnet of
        None \<Rightarrow> Panic
      | Some m \<Rightarrow>
          if \<not> Contains m a then Err (StaticIpOutsideNet reqType netCidr)
          else (let allocatedIp = reqIp @ ''/'' @ itoa_nat (mask_size (net_Mask m)) in
            case allocSubnet of
              None \<Rightarrow> Panic
            | Some n \<Rightarrow>
                if Contains n a then
                  bind_res (GetIndexOfIp a allocSubnet) (\<lambda>allocatedIndex.
                  bind_res (Get ba allocatedIndex) (\<lambda>taken.
                    if taken then Err (StaticIpInUse reqType)
                    else bind_res (Set ba allocatedIndex) (\<lambda>ba'. Ok (Encode ba', allocatedIp, pool))))
                else Ok (Encode ba, allocatedIp, pool))))"

definition allocateAddress ::
  "IpPool \<Rightarrow> string \<Rightarrow> string \<Rightarrow> string \<Rightarrow> string \<Rightarrow> (string \<times> string \<times> IpPool) res" where
  "allocateAddress pool alloc reqType allocCidr netCidr =
     (if reqType = NoneAllocType then Ok (alloc, NoneAllocType, pool)
      else if alloc = [] then Err L2Allocation
      else if reqType = DynamicAllocType
      then allocateDynamic pool alloc (parse_net allocCidr) (parse_net netCidr)
      else allocateStatic pool alloc reqType netCidr (parse_net allocCidr) (parse_net netCidr))"

definition resetIp :: "string \<Rightarrow> string \<Rightarrow> ip \<Rightarrow> string res" where
  "resetIp alloc cidr rip =
     (let ba = NewBitArrayFromBase64 alloc in
      case parse_net cidr of
        None \<Rightarrow> Ok alloc
      | Some subnet \<Rightarrow>
          if rip = [] \<or> \<not> Contains subnet rip then Ok alloc
          else bind_res (GetIndexOfIp rip (Some subnet)) (\<lambda>allocatedIndex.
               bind_res (Reset ba allocatedIndex) (\<lambda>ba'. Ok (Encode ba'))))"

section \<open>Initialising pools\<close>

text \<open>A method call on a nil \<^verbatim>\<open>*BitArray\<close> other than \<open>Len\<close> panics.\<close>

fun reserveGatewayIps :: "gomap \<Rightarrow> BitArray option \<Rightarrow> ipnet option \<Rightarrow> BitArray option res" where
  "reserveGatewayIps [] arr subnet = Ok arr"
| "reserveGatewayIps ((dst, gw) # routes) arr subnet =
     bind_res (GetIndexOfIp (ParseIP gw) subnet) (\<lambda>pos.
       if pos \<le> Len arr
       then (case arr of
               None \<Rightarrow> Panic
             | Some a \<Rightarrow> bind_res (Set a pos) (\<lambda>a'. reserveGatewayIps routes (Some a') subnet))
       else reserveGatewayIps routes arr subnet)"

definition CreateAllocationArray :: "ipnet option \<Rightarrow> gomap option \<Rightarrow> string res" where
  "CreateAllocationArray subnet routes =
     (let arr = (case CreateBitArrayFromIpnet subnet of Err e \<Rightarrow> Ok None | r \<Rightarrow> r) in
      bind_res arr (\<lambda>bitArray.
      bind_res (reserveGatewayIps (case routes of None \<Rightarrow> [] | Some m \<Rightarrow> m) bitArray subnet) (\<lambda>bitArray'.
        case bitArray' of None \<Rightarrow> Panic | Some a \<Rightarrow> Ok (Encode a))))"

definition DoV6CidrsIntersect :: "go_cidr \<Rightarrow> ipnet \<Rightarrow> ipnet \<Rightarrow> bool" where
  "DoV6CidrsIntersect gc masterCidr subCidr =
     (let (firstAllocIp, lastAllocIp) = AddressRange gc subCidr in
      Contains masterCidr firstAllocIp \<and> Contains masterCidr lastAllocIp)"

definition testCidr :: "nat \<Rightarrow> ipnet option" where
  "testCidr pref = parse_net (''2a00:8a00:a000:1193:f816:3eff:fe24:e348/'' @ itoa_nat pref)"

definition prefix_fits :: "go_cidr \<Rightarrow> 64 word \<Rightarrow> nat \<Rightarrow> bool" where
  "prefix_fits gc capacity pref =
     (case testCidr pref of None \<Rightarrow> False | Some n \<Rightarrow> AddressCount gc n < capacity)"

definition GetMaxUsableV6Prefix :: "go_cidr \<Rightarrow> DanmNet \<Rightarrow> nat res" where
  "GetMaxUsableV6Prefix gc dnet =
     (if Cidr (opts dnet) = [] then Ok MaxV6PrefixLength
      else (case parse_net (Cidr (opts dnet)) of
        None \<Rightarrow> Panic
      | Some v4Cidr \<Rightarrow>
          (let maxRemainingCapacity = 2 ^ nat MaxSupportedAllocLength - AddressCount gc v4Cidr in
           Ok (case find (prefix_fits gc maxRemainingCapacity) [MaxV6PrefixLength..<Suc MinV6PrefixLength] of
                 None \<Rightarrow> MinV6PrefixLength
               | Some pref \<Rightarrow> pref))))"

definition InitV6PoolCidr :: "go_cidr \<Rightarrow> DanmNet \<Rightarrow> DanmNet res" where
  "InitV6PoolCidr gc netInfo =
     (if Net6 (opts netInfo) = [] \<or> PoolCidr (Pool6 (opts netInfo)) \<noteq> [] then Ok netInfo
      else (case parse_net (Net6 (opts netInfo)) of
        None \<Rightarrow> Panic
      | Some netCidr \<Rightarrow>
          bind_res (GetMaxUsableV6Prefix gc netInfo) (\<lambda>usable.
            (let net6Prefix = mask_size (net_Mask netCidr);
                 prefix = (if usable < net6Prefix then net6Prefix else usable);
                 masked = \<lparr>net_IP = net_IP netCidr, net_Mask = CIDRMask prefix 128\<rparr>
             in Ok (set_opts (\<lambda>oo. oo\<lparr>Pool6 := (Pool6 oo)\<lparr>PoolCidr := ipnet_string masked\<rparr>\<rparr>) netInfo)))))"

definition GetBroadcastAddress :: "go_cidr \<Rightarrow> ipnet \<Rightarrow> ip" where
  "GetBroadcastAddress gc subnet = snd (AddressRange gc subnet)"

definition InitAllocPool ::
  "go_cidr \<Rightarrow> string \<Rightarrow> string \<Rightarrow> string \<Rightarrow> string \<Rightarrow> gomap option \<Rightarrow> (string \<times> string \<times> string) res" where
  "InitAllocPool gc netCidr start endIp alloc routes =
     (if netCidr = [] then Ok (start, endIp, alloc)
      else (let allocCidr = parse_net netCidr in
        bind_res (if start = [] then (case allocCidr of None \<Rightarrow> Panic | Some n \<Rightarrow> Ok (ip_string (IncIp gc (net_IP n))))
                  else Ok start) (\<lambda>start'.
        bind_res (if endIp = [] then (case allocCidr of None \<Rightarrow> Panic
                                     | Some n \<Rightarrow> Ok (ip_string (DecIp gc (GetBroadcastAddress gc n))))
                  else Ok endIp) (\<lambda>end'.
        bind_res (if alloc = [] then CreateAllocationArray allocCidr routes else Ok alloc) (\<lambda>alloc'.
          Ok (start', end', alloc'))))))"

definition InitV6AllocFields :: "go_cidr \<Rightarrow> DanmNet \<Rightarrow> DanmNet res" where
  "InitV6AllocFields gc netInfo =
     bind_res (InitV6PoolCidr gc netInfo) (\<lambda>n.
       (let p = Pool6 (opts n) in
        bind_res (InitAllocPool gc (PoolCidr p) (Start p) (End p) (Alloc6 (opts n)) (Routes6 (opts n)))
          (\<lambda>(s, e, a). Ok (set_opts (\<lambda>oo. oo\<lparr>Pool6 := p\<lparr>Start := s, End := e\<rparr>, Alloc6 := a\<rparr>) n))))"

text \<open>\<open>allocateIps\<close> serves the IPv4 and then the IPv6 request.\<close>

definition allocate4 :: "DanmNet \<Rightarrow> string \<Rightarrow> (string \<times> DanmNet) res" where
  "allocate4 netInfo req4 =
     (if req4 \<noteq> [] then
        bind_res (allocateAddress (Pool (opts netInfo)) (Alloc (opts netInfo)) req4
                   (Cidr (opts netInfo)) (Cidr (opts netInfo)))
          (\<lambda>(a, ip, p). Ok (ip, set_opts (\<lambda>oo. oo\<lparr>Alloc := a, Pool := p\<rparr>) netInfo))
      else Ok ([], netInfo))"

definition allocate6 :: "go_cidr \<Rightarrow> DanmNet \<Rightarrow> string \<Rightarrow> (string \<times> DanmNet) res" where
  "allocate6 gc n4 req6 =
     (if req6 \<noteq> [] then
        bind_res (if Net6 (opts n4) \<noteq> [] \<and> PoolCidr (Pool6 (opts n4)) = [] then InitV6AllocFields gc n4 else Ok n4) (\<lambda>n6.
        (let p6 = Pool6 (opts n6);
             tempPool6 = \<lparr>Start = Start p6, End = End p6, LastIp = LastIp p6\<rparr> in
         bind_res (allocateAddress tempPool6 (Alloc6 (opts n6)) req6 (PoolCidr p6) (Net6 (opts n6)))
           (\<lambda>(a, ip, p). Ok (ip, set_opts (\<lambda>oo. oo\<lparr>Alloc6 := a, Pool6 := p6\<lparr>LastIp := LastIp p\<rparr>\<rparr>) n6))))
      else Ok ([], n4))"

definition allocateIps :: "go_cidr \<Rightarrow> DanmNet \<Rightarrow> string \<Rightarrow> string \<Rightarrow> (string \<times> string \<times> DanmNet) res" where
  "allocateIps gc netInfo req4 req6 =
     bind_res (allocate4 netInfo req4) (\<lambda>(ip4, n4).
     bind_res (allocate6 gc n4 req6) (\<lambda>(ip6, n'). Ok (ip4, ip6, n')))"

definition WasIpAllocatedByDanm :: "string \<Rightarrow> string \<Rightarrow> bool" where
  "WasIpAllocatedByDanm ip cidr =
     (let a = (if ParseIP ip = [] then (case ParseCIDR ip of None \<Rightarrow> [] | Some (x, _) \<Rightarrow> x) else ParseIP ip) in
      case parse_net cidr of None \<Rightarrow> False | Some subnet \<Rightarrow> a \<noteq> [] \<and> Contains subnet a)"

section \<open>The search loop\<close>

text \<open>
  The positions the loop visits, in its order. The wrap restarts one past \<open>begin\<close>.
\<close>

definition search_order :: "u32 \<Rightarrow> u32 \<Rightarrow> u32 \<Rightarrow> nat list" where
  "search_order begin lastIpIndex endIdx =
     [unat lastIpIndex..<Suc (unat endIdx)] @
     (if endIdx \<noteq> lastIpIndex then [Suc (unat begin)..<Suc (unat lastIpIndex)] else [])"

definition first_free :: "BitArray \<Rightarrow> nat list \<Rightarrow> u32 option" where
  "first_free ba order = map_option word_of_nat (find (\<lambda>k. k \<notin> ba_bits ba) order)"

lemma first_free_simps [simp]:
  "first_free ba [] = None"
  "first_free ba (k # ks) = (if k \<in> ba_bits ba then first_free ba ks else Some (word_of_nat k))"
  by (simp_all add: first_free_def)

lemma unat_plus_1: "unat (i :: u32) + 1 < 2 ^ 32 \<Longrightarrow> unat (i + 1) = unat i + 1"
  by (simp add: unat_add_lem [THEN iffD1])

lemma first_free_upt:
  "i \<le> e \<Longrightarrow> first_free ba ([i..<Suc e] @ rest) =
     (if i \<in> ba_bits ba then first_free ba ([Suc i..<Suc e] @ rest) else Some (word_of_nat i))"
  by (simp add: upt_rec [of i])

lemma upt_one: "[n..<Suc n] = [n]"
  by simp

lemma scan_tail:
  assumes "unat e < ba_size ba" and "ba_size ba < 2 ^ 32"
  shows "scan ba b e i e = Some (Ok (first_free ba [unat i..<Suc (unat e)]))"
  using assms
proof (induction "Suc (unat e) - unat i" arbitrary: i rule: less_induct)
  case less
  show ?case
  proof (cases "i \<le> e")
    case False
    then have "unat e < unat i" by (simp del: upt_Suc add: word_less_nat_alt not_le)
    with False show ?thesis by (simp del: upt_Suc add: scan.simps [of ba b e i])
  next
    case True
    then have le: "unat i \<le> unat e" by (simp del: upt_Suc add: word_le_nat_alt)
    with less.prems have in_range: "unat i < ba_size ba" and next_i: "unat (i + 1) = unat i + 1"
      by (simp_all add: unat_plus_1)
    then have "scan ba b e (i + 1) e = Some (Ok (first_free ba [Suc (unat i)..<Suc (unat e)]))"
      using less le by simp
    then show ?thesis
      using True in_range first_free_upt [OF le, of ba "[]"] by (simp del: upt_Suc add: scan.simps [of ba b e i] Get_eq)
  qed
qed

theorem scan_finds:
  assumes "unat e < ba_size ba" and "ba_size ba < 2 ^ 32"
    and "unat lst < ba_size ba" and "b \<le> e" and "i \<le> e"
  shows "scan ba b lst i e = Some (Ok (first_free ba ([unat i..<Suc (unat e)] @
           (if e \<noteq> lst then [Suc (unat b)..<Suc (unat lst)] else []))))"
  using assms
proof (induction "Suc (unat e) - unat i" arbitrary: i rule: less_induct)
  case less
  let ?rest = "if e \<noteq> lst then [Suc (unat b)..<Suc (unat lst)] else []"
  have le: "unat i \<le> unat e" using less.prems by (simp del: upt_Suc add: word_le_nat_alt)
  have "unat b \<le> unat e" using less.prems by (simp del: upt_Suc add: word_le_nat_alt)
  then have next_b: "unat (b + 1) = Suc (unat b)" using less.prems by (simp del: upt_Suc add: unat_plus_1)
  have in_range: "unat i < ba_size ba" and next_i: "unat (i + 1) = unat i + 1"
    using less.prems le by (simp_all add: unat_plus_1)
  note step = scan.simps [of ba b lst i e] first_free_upt [OF le, of ba ?rest] Get_eq
  show ?case
  proof (cases "i = e")
    case True
    have "scan ba b lst (b + 1) lst = Some (Ok (first_free ba [Suc (unat b)..<Suc (unat lst)]))"
      using scan_tail [of lst ba b "b + 1"] less.prems next_b by simp
    moreover have "scan ba b e (e + 1) e = Some (Ok None)"
      using scan_tail [of e ba b "e + 1"] less.prems next_i True by simp
    ultimately show ?thesis
      using True less.prems in_range by (auto simp del: upt_Suc simp: upt_one scan.simps [of ba b lst e e] Get_eq)
  next
    case False
    then have "unat i < unat e" using le by (metis le_neq_implies_less word_unat_eq_iff)
    then have "i + 1 \<le> e" using next_i by (simp del: upt_Suc add: word_le_nat_alt)
    then have "scan ba b lst (i + 1) e = Some (Ok (first_free ba ([Suc (unat i)..<Suc (unat e)] @ ?rest)))"
      using less next_i \<open>unat i < unat e\<close> by simp
    then show ?thesis using False less.prems in_range by (simp del: upt_Suc add: step)
  qed
qed

text \<open>Whatever the range, the loop only returns free positions up to the bounds it was given.\<close>

lemma scan_sound:
  assumes "scan ba b lst i e = Some (Ok (Some k))"
  shows "Get ba k = Ok False \<and> i \<le> e \<and> (k \<le> e \<or> k \<le> lst)"
proof -
  have "\<forall>k. r = Ok (Some k) \<longrightarrow> Get ba k = Ok False \<and> i \<le> e \<and> (k \<le> e \<or> k \<le> lst)"
    if "scan ba b lst i e = Some r" for r
  proof (rule scan.raw_induct [where P = "\<lambda>ba b lst i e r. \<forall>k. r = Ok (Some k) \<longrightarrow>
      Get ba k = Ok False \<and> i \<le> e \<and> (k \<le> e \<or> k \<le> lst)", OF _ that], goal_cases)
    case (1 scan ba b lst i e r)
    note rec = 1(1)
    show ?case
    proof (cases "i \<le> e")
      case False
      with 1(2) show ?thesis by auto
    next
      case True
      note body = 1(2) True
      show ?thesis
      proof (cases "Get ba i")
        case (Ok taken)
        show ?thesis
        proof (cases taken)
          case False
          with body Ok show ?thesis by auto
        next
          case taken: True
          show ?thesis
          proof (cases "i = e \<and> e \<noteq> lst")
            case True
            with body Ok taken have "scan ba b lst (b + 1) lst = Some r" by simp
            from rec [OF this] body(2) show ?thesis by auto
          next
            case False
            with body Ok taken have "scan ba b lst (i + 1) e = Some r" by (auto split: if_splits)
            from rec [OF this] body(2) show ?thesis by auto
          qed
        qed
      qed (use body in auto)
    qed
  qed
  with assms show ?thesis by blast
qed

section \<open>A subnet as a codec between positions and addresses\<close>

definition net_size :: "ipnet \<Rightarrow> nat" where
  "net_size n = host_size (length (net_IP n)) (mask_size (net_Mask n))"

definition v4_net :: "ipnet \<Rightarrow> bool" where
  "v4_net n \<longleftrightarrow> (\<exists>p. wf_net 4 p n)"

text \<open>
  The IPv6 subnets whose positions fit 32 bits and whose base address has a first byte other
  than 0: for these \<^verbatim>\<open>big.Int.Bytes\<close> gives sixteen bytes.
\<close>

definition v6_net :: "ipnet \<Rightarrow> bool" where
  "v6_net n \<longleftrightarrow> (\<exists>p. wf_net 16 p n \<and> 96 \<le> p) \<and> 256 ^ 15 \<le> be_nat (net_IP n)"

locale addr_codec =
  fixes at :: "u32 \<Rightarrow> ipnet \<Rightarrow> ip res"
    and index :: "ip \<Rightarrow> ipnet option \<Rightarrow> u32 res"
    and size_of :: "ipnet \<Rightarrow> nat"
    and good :: "ipnet \<Rightarrow> bool"
  assumes at_total: "good n \<Longrightarrow> unat i < size_of n \<Longrightarrow> \<exists>a. at i n = Ok a \<and> a \<noteq> [] \<and> Contains n a"
    and index_at: "good n \<Longrightarrow> unat i < size_of n \<Longrightarrow> at i n = Ok a \<Longrightarrow> index a (Some n) = Ok i"
    and index_total: "good n \<Longrightarrow> Contains n a \<Longrightarrow>
      \<exists>i. index a (Some n) = Ok i \<and> unat i < size_of n"
    and index_inj: "good n \<Longrightarrow> Contains n a \<Longrightarrow> Contains n b \<Longrightarrow>
      index a (Some n) = index b (Some n) \<Longrightarrow> To16 a = To16 b"
begin

lemma at_inj:
  assumes "good n" and "unat i < size_of n" and "unat j < size_of n" and "at i n = at j n"
  shows "i = j"
proof -
  obtain a where i: "at i n = Ok a" using at_total assms by blast
  then have j: "at j n = Ok a" using assms(4) by simp
  show ?thesis using index_at [OF assms(1,2) i] index_at [OF assms(1,3) j] by simp
qed

text \<open>An address of the subnet is, up to its 4- or 16-byte form, the one at its position.\<close>

lemma at_index:
  assumes "good n" and "Contains n a" and "index a (Some n) = Ok i"
  shows "\<exists>b. at i n = Ok b \<and> To16 b = To16 a"
proof -
  have i: "unat i < size_of n" using index_total assms by fastforce
  then obtain b where b: "at i n = Ok b" "Contains n b" using at_total assms(1) by blast
  then have "index b (Some n) = index a (Some n)" using index_at [OF assms(1) i] assms(3) by simp
  with index_inj [OF assms(1) b(2) assms(2)] b(1) show ?thesis by blast
qed

end

text \<open>The allocator's view: a bit store indexed by the positions of a subnet.\<close>

locale ip_pool =
  bit_store get put clear store_size bits enc dec + addr_codec at index size_of good
  for get :: "'s \<Rightarrow> u32 \<Rightarrow> bool res" and put clear store_size bits enc dec at index size_of good
begin

lemma lookup_total:
  assumes "good n" and "Contains n a" and "size_of n \<le> store_size s"
  shows "\<exists>i. index a (Some n) = Ok i \<and> get s i = Ok (unat i \<in> bits s)"
  using index_total [OF assms(1,2)] assms(3) by (auto simp: get_Ok_iff)

text \<open>Releasing the address at a position that was free when it was taken undoes the allocation.\<close>

lemma release_taken:
  assumes "get s i = Ok False" and "put s i = Ok t" and "index a (Some n) = Ok i"
  shows "bind_res (index a (Some n)) (\<lambda>k. bind_res (clear (dec (enc t)) k) (\<lambda>u. Ok (enc u))) = Ok (enc s)"
proof -
  have "unat i < store_size (dec (enc t))"
    using dec_enc [of t] put_spec [OF assms(2)] assms(1) by (auto simp: get_Ok_iff)
  then obtain u where u: "clear (dec (enc t)) i = Ok u" using clear_total by blast
  with clear_put_encoded [OF assms(1,2) u] assms(3) show ?thesis by simp
qed

end

lemma wf_net_top:
  assumes "wf_net l p n"
  shows "be_nat (net_IP n) + host_size l p \<le> 256 ^ l"
proof -
  let ?h = "host_size l p" and ?b = "be_nat (net_IP n)"
  have p: "p \<le> 8 * l" and len: "length (net_IP n) = l" using assms by (simp_all add: wf_net_def)
  have all: "256 ^ l = 2 ^ p * ?h"
  proof -
    have "(256 :: nat) ^ l = 2 ^ (8 * l)" by (simp add: power_mult)
    also have "\<dots> = 2 ^ p * 2 ^ (8 * l - p)" using p by (simp add: power_add [symmetric])
    finally show ?thesis by (simp add: host_size_def)
  qed
  have b: "?b = ?b div ?h * ?h" using wf_net_base [OF assms] by simp
  have "?b < 2 ^ p * ?h" using be_nat_less [of "net_IP n"] len all by simp
  then have "?b div ?h < 2 ^ p" by (simp add: div_less_iff_less_mult)
  then have "Suc (?b div ?h) * ?h \<le> 2 ^ p * ?h" by (intro mult_le_mono1) simp
  with b all show ?thesis by simp
qed

lemma net_size_wf [go_net]:
  assumes "wf_net l p n"
  shows "net_size n = host_size l p"
proof -
  have "length (net_IP n) = l" using assms by (simp add: wf_net_def)
  with wf_net_mask_size [OF assms] show ?thesis by (simp add: net_size_def)
qed

lemma nat_be_4_nonempty [simp]: "nat_be 4 k \<noteq> []"
  using length_nat_be [of 4 k] by force

lemma Ip2int_To4: "To4 a \<noteq> [] \<Longrightarrow> Ip2int a = Ok (word_of_nat (be_nat (To4 a)))"
  by (auto simp: Ip2int_def To4_def split: if_splits)

lemma To16_To4: "To4 a \<noteq> [] \<Longrightarrow> To16 a = IPv4 (To4 a)"
  by (auto simp: To16_def To4_def IPv4_def split: if_splits) (metis append_take_drop_id)

lemma unat_u32_of_nat: "k < 2 ^ 32 \<Longrightarrow> unat (word_of_nat k :: u32) = k"
  by (simp add: unat_of_nat)

lemma v4_netE:
  assumes "v4_net n"
  obtains p where "wf_net 4 p n" "length (net_IP n) = 4" "To4 (net_IP n) = net_IP n"
    "net_size n = host_size 4 p" "be_nat (net_IP n) + net_size n \<le> 2 ^ 32"
proof -
  obtain p where p: "wf_net 4 p n" using assms by (auto simp: v4_net_def)
  then have len: "length (net_IP n) = 4" by (simp add: wf_net_def)
  with p wf_net_top [OF p] net_size_wf [OF p] that [OF p len] show thesis by simp
qed

lemma v4_contains:
  assumes "v4_net n"
  shows "Contains n a \<longleftrightarrow> To4 a \<noteq> [] \<and>
    be_nat (net_IP n) \<le> be_nat (To4 a) \<and> be_nat (To4 a) < be_nat (net_IP n) + net_size n"
proof -
  obtain p where "wf_net 4 p n" "net_size n = host_size 4 p" using assms by (rule v4_netE)
  then show ?thesis by (simp add: Contains_v4)
qed

lemma v4_index:
  assumes n: "v4_net n" and a: "Contains n a"
  shows "GetIndexOfIp a (Some n) = Ok (word_of_nat (be_nat (To4 a) - be_nat (net_IP n)))"
    and "be_nat (To4 a) - be_nat (net_IP n) < net_size n"
    and "be_nat (To4 a) - be_nat (net_IP n) < 2 ^ 32"
proof -
  obtain p where p: "length (net_IP n) = 4" "To4 (net_IP n) = net_IP n"
    "be_nat (net_IP n) + net_size n \<le> 2 ^ 32" using n by (rule v4_netE)
  from a v4_contains [OF n] have c: "To4 a \<noteq> []" "be_nat (net_IP n) \<le> be_nat (To4 a)"
    "be_nat (To4 a) < be_nat (net_IP n) + net_size n" by auto
  then have "a \<noteq> []" "net_IP n \<noteq> []" using p by (auto simp: To4_def)
  with c p show "GetIndexOfIp a (Some n) = Ok (word_of_nat (be_nat (To4 a) - be_nat (net_IP n)))"
    by (simp add: GetIndexOfIp_def Ip2int_To4)
  from c p show "be_nat (To4 a) - be_nat (net_IP n) < net_size n"
    and "be_nat (To4 a) - be_nat (net_IP n) < 2 ^ 32" by linarith+
qed

lemma v4_at:
  assumes n: "v4_net n" and i: "unat i < net_size n"
  shows "index_ip i n = Ok (nat_be 4 (be_nat (net_IP n) + unat i))"
    and "To4 (nat_be 4 (be_nat (net_IP n) + unat i)) = nat_be 4 (be_nat (net_IP n) + unat i)"
    and "be_nat (nat_be 4 (be_nat (net_IP n) + unat i)) = be_nat (net_IP n) + unat i"
proof -
  obtain p where p: "length (net_IP n) = 4" "To4 (net_IP n) = net_IP n"
    "be_nat (net_IP n) + net_size n \<le> 2 ^ 32" using n by (rule v4_netE)
  then have lt: "be_nat (net_IP n) + unat i < 2 ^ 32" using i by linarith
  have "unat (word_of_nat (be_nat (net_IP n)) + i :: u32) = be_nat (net_IP n) + unat i"
  proof -
    have "word_of_nat (be_nat (net_IP n)) + i = (word_of_nat (be_nat (net_IP n) + unat i) :: u32)"
      by simp
    then show ?thesis using lt by (simp only: unat_u32_of_nat)
  qed
  moreover have "net_IP n \<noteq> []" using p by auto
  ultimately show "index_ip i n = Ok (nat_be 4 (be_nat (net_IP n) + unat i))"
    using p by (simp add: index_ip_def Ip2int_To4 Int2ip_def)
  show "To4 (nat_be 4 (be_nat (net_IP n) + unat i)) = nat_be 4 (be_nat (net_IP n) + unat i)" by simp
  show "be_nat (nat_be 4 (be_nat (net_IP n) + unat i)) = be_nat (net_IP n) + unat i"
    using lt by (simp add: be_nat_nat_be)
qed

interpretation v4: ip_pool Get Set Reset ba_size ba_bits Encode NewBitArrayFromBase64
  index_ip GetIndexOfIp net_size v4_net
proof unfold_locales
  fix n i a b
  show "\<exists>a. index_ip i n = Ok a \<and> a \<noteq> [] \<and> Contains n a" if n: "v4_net n" and i: "unat i < net_size n"
    using v4_at [OF n i] i v4_contains [OF n] by simp
  show "GetIndexOfIp a (Some n) = Ok i"
    if n: "v4_net n" and i: "unat i < net_size n" and a: "index_ip i n = Ok a"
  proof -
    have "a = nat_be 4 (be_nat (net_IP n) + unat i)" using v4_at [OF n i] a by simp
    then have "Contains n a" using v4_contains [OF n] v4_at [OF n i] i by simp
    from v4_index(1) [OF n this] \<open>a = _\<close> v4_at [OF n i] show ?thesis by simp
  qed
  show "\<exists>i. GetIndexOfIp a (Some n) = Ok i \<and> unat i < net_size n" if "v4_net n" "Contains n a"
    using v4_index [OF that] by (simp add: unat_u32_of_nat)
  show "To16 a = To16 b"
    if n: "v4_net n" and a: "Contains n a" and b: "Contains n b"
      and eq: "GetIndexOfIp a (Some n) = GetIndexOfIp b (Some n)"
  proof -
    let ?i = "\<lambda>x. be_nat (To4 x) - be_nat (net_IP n)"
    have "(word_of_nat (?i a) :: u32) = word_of_nat (?i b)"
      using eq v4_index(1) [OF n a] v4_index(1) [OF n b] by simp
    then have "?i a = ?i b"
      using v4_index(3) [OF n a] v4_index(3) [OF n b] by (metis unat_u32_of_nat)
    moreover from a b v4_contains [OF n] have c: "To4 a \<noteq> []" "To4 b \<noteq> []"
      "be_nat (net_IP n) \<le> be_nat (To4 a)" "be_nat (net_IP n) \<le> be_nat (To4 b)" by auto
    ultimately have "be_nat (To4 a) = be_nat (To4 b)" by linarith
    then have "To4 a = To4 b" using c To4_nonempty_iff [of a] To4_nonempty_iff [of b] by (simp add: be_nat_inj)
    then show ?thesis using c by (simp add: To16_To4)
  qed
qed

lemma big_address:
  assumes "length a = 16" and "256 ^ 15 \<le> be_nat a"
  shows "To4 a = []"
proof -
  obtain b bs where a: "a = b # bs" "length bs = 15" using assms(1) by (cases a) auto
  have "b \<noteq> 0"
  proof
    assume "b = 0"
    with a be_nat_less [of bs] assms(2) show False by simp
  qed
  then have "take 12 a \<noteq> v4InV6Prefix"
    using a by (simp add: v4InV6Prefix_def numeral_eq_Suc)
  then show ?thesis using assms(1) by (simp add: To4_def)
qed

lemma big_sub_u32_le: "y \<le> x \<Longrightarrow> big_sub_u32 x y = word_of_nat (x - y)"
proof -
  assume "y \<le> x"
  then have "nat \<bar>int x - int y\<bar> = x - y" by simp
  moreover have "(ucast (word_of_nat k :: 64 word) :: u32) = word_of_nat k" for k
    by (rule bit_word_eqI) (simp add: bit_simps)
  ultimately show ?thesis by (simp only: big_sub_u32_def)
qed

lemma v6_netE:
  assumes "v6_net n"
  obtains "length (net_IP n) = 16" "To4 (net_IP n) = []" "256 ^ 15 \<le> be_nat (net_IP n)"
    "be_nat (net_IP n) + net_size n \<le> 256 ^ 16" "net_size n \<le> 2 ^ 32"
proof -
  obtain p where p: "wf_net 16 p n" "96 \<le> p" and b: "256 ^ 15 \<le> be_nat (net_IP n)"
    using assms by (auto simp: v6_net_def)
  then have len: "length (net_IP n) = 16" by (simp add: wf_net_def)
  have "net_size n = host_size 16 p" using p(1) by (rule net_size_wf)
  moreover have "host_size 16 p \<le> 2 ^ 32"
    unfolding host_size_def by (rule power_increasing) (use p(2) in simp_all)
  ultimately show thesis
    using that [OF len big_address [OF len b] b] wf_net_top [OF p(1)] by simp
qed

lemma v6_contains:
  assumes "v6_net n"
  shows "Contains n a \<longleftrightarrow> length a = 16 \<and> To4 a = [] \<and>
    be_nat (net_IP n) \<le> be_nat a \<and> be_nat a < be_nat (net_IP n) + net_size n"
proof -
  obtain p where p: "wf_net 16 p n" using assms by (auto simp: v6_net_def)
  have "To4 (net_IP n) = []" using assms by (rule v6_netE)
  with p show ?thesis by (auto simp: Contains_v6 net_size_wf)
qed

lemma v6_index:
  assumes n: "v6_net n" and a: "Contains n a"
  shows "GetIndexOfIp a (Some n) = Ok (word_of_nat (be_nat a - be_nat (net_IP n)))"
    and "be_nat a - be_nat (net_IP n) < net_size n"
    and "be_nat a - be_nat (net_IP n) < 2 ^ 32"
proof -
  have p: "length (net_IP n) = 16" "net_size n \<le> 2 ^ 32"
    using n by (auto elim: v6_netE)
  from a v6_contains [OF n] have c: "length a = 16" "To4 a = []" "be_nat (net_IP n) \<le> be_nat a"
    "be_nat a < be_nat (net_IP n) + net_size n" by auto
  have "GetIndexOfIp a (Some n) = Ok (big_sub_u32 (be_nat a) (be_nat (net_IP n)))"
    using c p by (auto simp: GetIndexOfIp_def Ip62int_def To16_def)
  then show "GetIndexOfIp a (Some n) = Ok (word_of_nat (be_nat a - be_nat (net_IP n)))"
    by (simp only: big_sub_u32_le [OF c(3)])
  from c p show "be_nat a - be_nat (net_IP n) < net_size n"
    and "be_nat a - be_nat (net_IP n) < 2 ^ 32" by linarith+
qed

lemma v6_at:
  assumes n: "v6_net n" and i: "unat i < net_size n"
  shows "\<exists>a. index_ip i n = Ok a \<and> length a = 16 \<and> To4 a = [] \<and> be_nat a = be_nat (net_IP n) + unat i"
proof -
  have p: "length (net_IP n) = 16" "To4 (net_IP n) = []" "256 ^ 15 \<le> be_nat (net_IP n)"
    "be_nat (net_IP n) + net_size n \<le> 256 ^ 16" using n by (auto elim: v6_netE)
  let ?v = "be_nat (net_IP n) + unat i"
  have v: "256 ^ 15 \<le> ?v" "?v < 256 ^ 16" using p i by linarith+
  have at: "index_ip i n = Ok (big_bytes ?v)"
    using p by (simp add: index_ip_def Int2ip6_def Ip62int_def To16_def)
  have len: "length (big_bytes ?v) = 16" using length_big_bytes [of 15 ?v] v by simp
  have "To4 (big_bytes ?v) = []"
    using big_address [OF len] v(1) by (simp add: be_nat_big_bytes)
  with at len show ?thesis by (simp add: be_nat_big_bytes)
qed

interpretation v6: ip_pool Get Set Reset ba_size ba_bits Encode NewBitArrayFromBase64
  index_ip GetIndexOfIp net_size v6_net
proof unfold_locales
  fix n i a b
  show "\<exists>a. index_ip i n = Ok a \<and> a \<noteq> [] \<and> Contains n a" if n: "v6_net n" and i: "unat i < net_size n"
    using v6_at [OF n i] i v6_contains [OF n] by fastforce
  show "GetIndexOfIp a (Some n) = Ok i"
    if n: "v6_net n" and i: "unat i < net_size n" and a: "index_ip i n = Ok a"
  proof -
    have v: "length a = 16" "To4 a = []" "be_nat a = be_nat (net_IP n) + unat i"
      using v6_at [OF n i] a by auto
    then have "Contains n a" using v6_contains [OF n] i by simp
    from v6_index(1) [OF n this] v(3) show ?thesis by simp
  qed
  show "\<exists>i. GetIndexOfIp a (Some n) = Ok i \<and> unat i < net_size n" if "v6_net n" "Contains n a"
    using v6_index [OF that] by (simp add: unat_u32_of_nat)
  show "To16 a = To16 b"
    if n: "v6_net n" and a: "Contains n a" and b: "Contains n b"
      and eq: "GetIndexOfIp a (Some n) = GetIndexOfIp b (Some n)"
  proof -
    let ?i = "\<lambda>x. be_nat x - be_nat (net_IP n)"
    have "(word_of_nat (?i a) :: u32) = word_of_nat (?i b)"
      using eq v6_index(1) [OF n a] v6_index(1) [OF n b] by simp
    then have "?i a = ?i b"
      using v6_index(3) [OF n a] v6_index(3) [OF n b] by (metis unat_u32_of_nat)
    moreover have c: "length a = 16" "length b = 16"
      "be_nat (net_IP n) \<le> be_nat a" "be_nat (net_IP n) \<le> be_nat b"
      using a b v6_contains [OF n] by auto
    ultimately have "be_nat a = be_nat b" by linarith
    then show ?thesis using c by (simp add: be_nat_inj)
  qed
qed

end
