(* ===== verification/IpamAlloc.thy ===== *)
theory IpamAlloc
  imports Ipam
begin

text \<open>
  What the allocation of one address guarantees: which position a dynamic request gets, when a
  static request is refused, that a release undoes an allocation, and that no sequence of
  allocations and releases hands out one address twice.
\<close>

section \<open>Dynamic requests\<close>

definition usable_net :: "ipnet \<Rightarrow> bool" where
  "usable_net n \<longleftrightarrow> v4_net n \<or> v6_net n"

text \<open>The position the search starts from; \<open>l\<close> is the position of the last address.\<close>

definition start_index :: "u32 \<Rightarrow> u32 \<Rightarrow> u32 \<Rightarrow> u32" where
  "start_index l b e = (if l \<ge> e \<or> l = 0 then b else l)"

lemma usable_at:
  assumes "usable_net n" and "unat i < net_size n"
  shows "\<exists>a. index_ip i n = Ok a \<and> a \<noteq> [] \<and> Contains n a \<and> GetIndexOfIp a (Some n) = Ok i"
  using assms(1) unfolding usable_net_def
proof
  assume n: "v4_net n"
  from v4.at_total [OF n assms(2)] v4.index_at [OF n assms(2)] show ?thesis by blast
next
  assume n: "v6_net n"
  from v6.at_total [OF n assms(2)] v6.index_at [OF n assms(2)] show ?thesis by blast
qed

lemma usable_index:
  assumes "usable_net n" and "Contains n a"
  shows "\<exists>i. GetIndexOfIp a (Some n) = Ok i \<and> unat i < net_size n"
  using assms(1) v4.index_total [OF _ assms(2)] v6.index_total [OF _ assms(2)]
  unfolding usable_net_def by blast

lemma last_index:
  "(if LastIp pool \<noteq> [] then GetIndexOfIp (ParseIP (LastIp pool)) s else Ok 0) =
   GetIndexOfIp (ParseIP (LastIp pool)) s"
  by (simp add: GetIndexOfIp_def ParseIP_def)

lemma allocateDynamic_eq:
  assumes "getAllocRangeBasedOnCidr pool (Some n) = Ok (b, e)"
    and "GetIndexOfIp (ParseIP (LastIp pool)) (Some n) = Ok l"
  shows "allocateDynamic pool alloc (Some n) (Some m) =
     (let ba = NewBitArrayFromBase64 alloc; s = start_index l b e in
      bind_res (of_option (scan ba b s s e)) (\<lambda>found. bind_res found (\<lambda>freeIdx.
        case freeIdx of
          None \<Rightarrow> Err PoolExhausted
        | Some i \<Rightarrow> bind_res (Set ba i) (\<lambda>ba'. bind_res (getIpFromIndex i (Some n) (Some m)) (\<lambda>ip.
            Ok (Encode ba', ip, pool\<lparr>LastIp := ip\<rparr>))))))"
  unfolding allocateDynamic_def last_index
  unfolding assms start_index_def Let_def by simp

text \<open>The text of the address at a position, with the prefix length of the network.\<close>

definition address_text :: "ip \<Rightarrow> ipnet \<Rightarrow> string" where
  "address_text a m = ip_string a @ ''/'' @ itoa_nat (mask_size (net_Mask m))"

lemma dynamic_search:
  assumes net: "usable_net n"
    and range: "getAllocRangeBasedOnCidr pool (Some n) = Ok (b, e)"
    and lst: "GetIndexOfIp (ParseIP (LastIp pool)) (Some n) = Ok l"
    and bounds: "b \<le> e" "unat e < net_size n" "unat e < ba_size (NewBitArrayFromBase64 alloc)"
      "ba_size (NewBitArrayFromBase64 alloc) < 2 ^ 32"
  shows "case find (\<lambda>k. k \<notin> ba_bits (NewBitArrayFromBase64 alloc)) (search_order b (start_index l b e) e) of
     None \<Rightarrow> allocateDynamic pool alloc (Some n) (Some m) = Err PoolExhausted
   | Some k \<Rightarrow> \<exists>arr a. index_ip (word_of_nat k) n = Ok a \<and> Contains n a \<and>
       Set (NewBitArrayFromBase64 alloc) (word_of_nat k) = Ok arr \<and>
       allocateDynamic pool alloc (Some n) (Some m) =
         Ok (Encode arr, address_text a m, pool\<lparr>LastIp := address_text a m\<rparr>)"
proof -
  let ?ba = "NewBitArrayFromBase64 alloc" and ?s = "start_index l b e"
  let ?find = "find (\<lambda>k. k \<notin> ba_bits ?ba) (search_order b ?s e)"
  have s: "?s \<le> e" using bounds(1) by (auto simp: start_index_def)
  then have sl: "unat ?s \<le> unat e" and be: "unat b \<le> unat e"
    using bounds(1) by (simp_all add: word_le_nat_alt)
  then have ss: "unat ?s < ba_size ?ba" using bounds(3) by simp
  have scan: "scan ?ba b ?s ?s e = Some (Ok (map_option word_of_nat ?find))"
    using scan_finds [OF bounds(3,4) ss bounds(1) s]
    by (simp del: upt_Suc add: search_order_def first_free_def)
  show ?thesis
  proof (cases ?find)
    case None
    with scan show ?thesis by (simp add: allocateDynamic_eq [OF range lst] Let_def)
  next
    case (Some k)
    then have "k \<in> set (search_order b ?s e)" by (auto simp: find_Some_iff)
    then have k: "k \<le> unat e" using sl be by (auto simp: search_order_def split: if_splits)
    then have k32: "unat (word_of_nat k :: u32) = k" using bounds by (simp add: unat_u32_of_nat)
    with k bounds(2) usable_at [OF net, of "word_of_nat k"]
    obtain a where a: "index_ip (word_of_nat k) n = Ok a" "Contains n a" by auto
    obtain arr where arr: "Set ?ba (word_of_nat k) = Ok arr"
      using ba.put_total [of "word_of_nat k" ?ba] k k32 bounds(3) by auto
    have "allocateDynamic pool alloc (Some n) (Some m) =
        Ok (Encode arr, address_text a m, pool\<lparr>LastIp := address_text a m\<rparr>)"
      using Some scan arr a
      by (simp add: allocateDynamic_eq [OF range lst] Let_def getIpFromIndex_def address_text_def)
    with Some arr a show ?thesis by simp
  qed
qed

text \<open>What a successful dynamic request did, whatever the state of the pool.\<close>

lemma dynamic_step:
  assumes net: "usable_net n"
    and range: "getAllocRangeBasedOnCidr pool (Some n) = Ok (b, e)" and e: "unat e < net_size n"
    and ok: "allocateDynamic pool alloc (Some n) (Some m) = Ok (alloc', ip, pool')"
  shows "\<exists>i arr a. Get (NewBitArrayFromBase64 alloc) i = Ok False \<and>
     Set (NewBitArrayFromBase64 alloc) i = Ok arr \<and> alloc' = Encode arr \<and>
     index_ip i n = Ok a \<and> Contains n a \<and> GetIndexOfIp a (Some n) = Ok i \<and>
     ip = address_text a m \<and> pool' = pool\<lparr>LastIp := ip\<rparr>"
proof -
  let ?ba = "NewBitArrayFromBase64 alloc"
  from ok obtain l where lst: "GetIndexOfIp (ParseIP (LastIp pool)) (Some n) = Ok l"
    by (auto simp: allocateDynamic_def Let_def range last_index)
  let ?s = "start_index l b e"
  from ok obtain i arr where i: "scan ?ba b ?s ?s e = Some (Ok (Some i))" "Set ?ba i = Ok arr"
      "alloc' = Encode arr" "getIpFromIndex i (Some n) (Some m) = Ok ip" "pool' = pool\<lparr>LastIp := ip\<rparr>"
    by (auto simp: allocateDynamic_eq [OF range lst] Let_def of_option_def split: option.splits)
  from scan_sound [OF i(1)] have free: "Get ?ba i = Ok False" and le: "i \<le> e" by auto
  from le e have "unat i < net_size n" by (simp add: word_le_nat_alt)
  with usable_at [OF net] obtain a where a: "index_ip i n = Ok a" "Contains n a"
    "GetIndexOfIp a (Some n) = Ok i" by blast
  with i(4) have "ip = address_text a m" by (simp add: getIpFromIndex_def address_text_def)
  with i free a show ?thesis by blast
qed

section \<open>Static requests\<close>

lemma static_step:
  assumes net: "usable_net n"
    and ok: "allocateStatic pool alloc req nc (Some n) (Some n) = Ok (alloc', ip, pool')"
  shows "\<exists>i arr. Get (NewBitArrayFromBase64 alloc) i = Ok False \<and>
     Set (NewBitArrayFromBase64 alloc) i = Ok arr \<and> alloc' = Encode arr \<and>
     Contains n (ParseIP (first_part CHR ''/'' req)) \<and>
     GetIndexOfIp (ParseIP (first_part CHR ''/'' req)) (Some n) = Ok i \<and>
     ip = first_part CHR ''/'' req @ ''/'' @ itoa_nat (mask_size (net_Mask n)) \<and> pool' = pool"
  using ok by (auto simp: allocateStatic_def Let_def split: if_splits)

section \<open>Allocations and releases of one IPv4 network\<close>

text \<open>The address \<^verbatim>\<open>Free\<close> reads from the text it is given.\<close>

definition addr_of :: "string \<Rightarrow> ip" where
  "addr_of rip = ParseIP (first_part CHR ''/'' rip)"

lemma first_part_free: "c \<notin> set (first_part c s)"
  by (auto simp: first_part_takeWhile dest: set_takeWhileD)

lemma dotted_no_slash: "CHR ''/'' \<notin> set (dotted a)"
  using dotted_set [of "CHR ''/''" a] by auto

lemma addr_of_address_text:
  assumes "length a = 4"
  shows "addr_of (address_text a m) = IPv4 a"
proof -
  have "a \<noteq> []" using assms by auto
  then have "address_text a m = dotted a @ CHR ''/'' # itoa_nat (mask_size (net_Mask m))"
    using assms by (simp add: address_text_def ip_string_def)
  then show ?thesis
    using first_part_append [OF dotted_no_slash] assms by (simp add: addr_of_def ParseIP_dotted)
qed

lemma v4_index_ip_length: "v4_net n \<Longrightarrow> index_ip i n = Ok a \<Longrightarrow> length a = 4"
  by (erule v4_netE) (auto simp: index_ip_def Int2ip_def split: if_splits)

text \<open>A 4-byte address and its 16-byte form have the same position.\<close>

lemma v4_IPv4:
  assumes "v4_net n" and "length a = 4" and "Contains n a"
  shows "Contains n (IPv4 a) \<and> GetIndexOfIp (IPv4 a) (Some n) = GetIndexOfIp a (Some n)"
proof -
  have c: "Contains n (IPv4 a)" using assms by (simp add: v4_contains)
  with assms v4_index(1) [OF assms(1) c] v4_index(1) [OF assms(1,3)] show ?thesis by simp
qed

definition pool_in_net :: "IpPool \<Rightarrow> ipnet \<Rightarrow> bool" where
  "pool_in_net pool n \<longleftrightarrow> (case getAllocRangeBasedOnCidr pool (Some n) of
     Ok (b, e) \<Rightarrow> unat e < net_size n | _ \<Rightarrow> False)"

lemma pool_in_net_LastIp [simp]: "pool_in_net (pool\<lparr>LastIp := ip\<rparr>) n = pool_in_net pool n"
  by (simp add: pool_in_net_def getAllocRangeBasedOnCidr_def)

lemma take_spec:
  assumes c: "parse_net c = Some n" and n: "v4_net n" and pool: "pool_in_net pool n"
    and req: "req \<noteq> NoneAllocType"
    and ok: "allocateAddress pool alloc req c c = Ok (alloc', ip, pool')"
  shows "\<exists>i arr. Get (NewBitArrayFromBase64 alloc) i = Ok False \<and>
     Set (NewBitArrayFromBase64 alloc) i = Ok arr \<and> alloc' = Encode arr \<and>
     Contains n (addr_of ip) \<and> GetIndexOfIp (addr_of ip) (Some n) = Ok i \<and> pool_in_net pool' n"
proof -
  have net: "usable_net n" using n by (simp add: usable_net_def)
  show ?thesis
  proof (cases "req = DynamicAllocType")
    case True
    obtain b e where range: "getAllocRangeBasedOnCidr pool (Some n) = Ok (b, e)" "unat e < net_size n"
      using pool by (auto simp: pool_in_net_def split: res.splits)
    have dyn: "allocateDynamic pool alloc (Some n) (Some n) = Ok (alloc', ip, pool')"
      using ok req True by (simp add: allocateAddress_def c split: if_splits)
    from dynamic_step [OF net range dyn] obtain i arr a where
      i: "Get (NewBitArrayFromBase64 alloc) i = Ok False" "Set (NewBitArrayFromBase64 alloc) i = Ok arr"
        "alloc' = Encode arr" "index_ip i n = Ok a" "Contains n a" "GetIndexOfIp a (Some n) = Ok i"
        "ip = address_text a n" "pool' = pool\<lparr>LastIp := ip\<rparr>" by auto
    have len: "length a = 4" using v4_index_ip_length [OF n i(4)] .
    with i v4_IPv4 [OF n len i(5)] pool show ?thesis by (auto simp: addr_of_address_text)
  next
    case False
    have stat: "allocateStatic pool alloc req c (Some n) (Some n) = Ok (alloc', ip, pool')"
      using ok req False by (simp add: allocateAddress_def c split: if_splits)
    from static_step [OF net stat] pool show ?thesis
      by (auto simp: addr_of_def first_part_free)
  qed
qed

text \<open>
  The life of a network: \<open>st_held\<close> are the address texts handed out and not yet released.
\<close>

record ipam_state =
  st_alloc :: string
  st_pool :: IpPool
  st_held :: "string list"

inductive ipam_step :: "string \<Rightarrow> ipam_state \<Rightarrow> ipam_state \<Rightarrow> bool" for c where
  take: "req \<noteq> NoneAllocType \<Longrightarrow>
    allocateAddress (st_pool s) (st_alloc s) req c c = Ok (alloc', ip, pool') \<Longrightarrow>
    ipam_step c s \<lparr>st_alloc = alloc', st_pool = pool', st_held = ip # st_held s\<rparr>"
| release: "ip \<in> set (st_held s) \<Longrightarrow> resetIp (st_alloc s) c (addr_of ip) = Ok alloc' \<Longrightarrow>
    ipam_step c s \<lparr>st_alloc = alloc', st_pool = st_pool s, st_held = remove1 ip (st_held s)\<rparr>"

inductive_cases ipam_stepE: "ipam_step c s t"

definition pos_of :: "ipnet \<Rightarrow> string \<Rightarrow> nat" where
  "pos_of n ip = (case GetIndexOfIp (addr_of ip) (Some n) of Ok i \<Rightarrow> unat i | _ \<Rightarrow> 0)"

text \<open>
  The invariant: \<open>R\<close> are the positions reserved at the start; every other taken position
  belongs to exactly one address handed out.
\<close>

definition ipam_inv :: "ipnet \<Rightarrow> nat set \<Rightarrow> ipam_state \<Rightarrow> bool" where
  "ipam_inv n R s \<longleftrightarrow>
     pool_in_net (st_pool s) n \<and>
     (\<forall>ip \<in> set (st_held s). Contains n (addr_of ip)) \<and>
     distinct (map (pos_of n) (st_held s)) \<and>
     R \<inter> pos_of n ` set (st_held s) = {} \<and>
     ba_bits (NewBitArrayFromBase64 (st_alloc s)) = R \<union> pos_of n ` set (st_held s)"

lemma decoded [simp]: "ba_bits (NewBitArrayFromBase64 (Encode arr)) = ba_bits arr"
  using ba.dec_enc [of arr] by simp

lemma ipam_inv_take:
  assumes c: "parse_net c = Some n" and n: "v4_net n" and inv: "ipam_inv n R s"
    and req: "req \<noteq> NoneAllocType"
    and ok: "allocateAddress (st_pool s) (st_alloc s) req c c = Ok (alloc', ip, pool')"
  shows "ipam_inv n R \<lparr>st_alloc = alloc', st_pool = pool', st_held = ip # st_held s\<rparr>"
proof -
  let ?ba = "NewBitArrayFromBase64 (st_alloc s)"
  have pool: "pool_in_net (st_pool s) n" using inv by (simp add: ipam_inv_def)
  obtain i arr where i: "Get ?ba i = Ok False" "Set ?ba i = Ok arr" "alloc' = Encode arr"
    "Contains n (addr_of ip)" "GetIndexOfIp (addr_of ip) (Some n) = Ok i" "pool_in_net pool' n"
    using take_spec [OF c n pool req ok] by blast
  have "pos_of n ip = unat i" using i by (simp add: pos_of_def)
  moreover have "unat i \<notin> ba_bits ?ba" using i(1) by (simp add: ba.get_Ok_iff)
  ultimately show ?thesis
    using inv i Set_bits [OF i(2)] by (auto simp: ipam_inv_def)
qed

lemma ipam_inv_release:
  assumes c: "parse_net c = Some n" and n: "v4_net n" and inv: "ipam_inv n R s"
    and held: "ip \<in> set (st_held s)"
    and ok: "resetIp (st_alloc s) c (addr_of ip) = Ok alloc'"
  shows "ipam_inv n R \<lparr>st_alloc = alloc', st_pool = st_pool s, st_held = remove1 ip (st_held s)\<rparr>"
proof -
  let ?ba = "NewBitArrayFromBase64 (st_alloc s)"
  have cont: "Contains n (addr_of ip)" using inv held by (simp add: ipam_inv_def)
  then obtain i where i: "GetIndexOfIp (addr_of ip) (Some n) = Ok i"
    using v4.index_total [OF n] by blast
  have "addr_of ip \<noteq> []" using cont v4_contains [OF n] by (auto simp: To4_def)
  with ok cont i obtain arr where arr: "Reset ?ba i = Ok arr" "alloc' = Encode arr"
    by (auto simp: resetIp_def c Let_def)
  have dist: "distinct (map (pos_of n) (st_held s))" using inv by (simp add: ipam_inv_def)
  then have "distinct (st_held s)" by (simp add: distinct_map)
  then have rest: "set (remove1 ip (st_held s)) = set (st_held s) - {ip}" by (rule set_remove1_eq)
  have "pos_of n ` (set (st_held s) - {ip}) = pos_of n ` set (st_held s) - {pos_of n ip}"
    using dist held by (auto simp: distinct_map inj_on_def)
  moreover have "distinct (map (pos_of n) (remove1 ip (st_held s)))"
    using dist by (auto simp: distinct_map intro: inj_on_diff)
  moreover have "pos_of n ip = unat i" using i by (simp add: pos_of_def)
  moreover have inR: "pos_of n ip \<notin> R" using inv held by (auto simp: ipam_inv_def)
  ultimately show ?thesis
    using inv rest arr Reset_bits [OF arr(1)] inR by (auto simp: ipam_inv_def)
qed

lemma ipam_reachable_inv:
  assumes "parse_net c = Some n" and "v4_net n"
    and "(ipam_step c)\<^sup>*\<^sup>* s t" and "ipam_inv n R s"
  shows "ipam_inv n R t"
  using assms(3,4)
proof (induction rule: rtranclp_induct)
  case base
  then show ?case by simp
next
  case (step t u)
  from step.hyps(2) step.IH [OF step.prems] show ?case
    by (cases rule: ipam_step.cases)
      (use ipam_inv_take [OF assms(1,2)] ipam_inv_release [OF assms(1,2)] in blast)+
qed

section \<open>Properties\<close>

lemma v4_net_parse: "parse_net c = Some n \<Longrightarrow> length (net_IP n) = 4 \<Longrightarrow> v4_net n"
  using parse_net_wf [of c n] by (auto simp: v4_net_def wf_net_def)

text \<open>A network and its pool for the concrete instances below: 10.0.0.0/29, six host addresses.\<close>

definition demo_net :: ipnet where
  "demo_net = \<lparr>net_IP = [10, 0, 0, 0], net_Mask = [255, 255, 255, 248]\<rparr>"

definition demo_pool :: IpPool where
  "demo_pool = \<lparr>Start = ''10.0.0.1'', End = ''10.0.0.6'', LastIp = []\<rparr>"

definition demo_alloc :: string where
  "demo_alloc = ''gQ==''"

lemma demo_parse: "parse_net ''10.0.0.0/29'' = Some demo_net"
  by code_simp

lemma demo_decode: "NewBitArrayFromBase64 demo_alloc = \<lparr>ba_len = 8, ba_data = [129]\<rparr>"
  by code_simp

lemma demo_bits: "ba_size (NewBitArrayFromBase64 demo_alloc) = 8" "ba_bits (NewBitArrayFromBase64 demo_alloc) = {0, 7}"
proof -
  show size: "ba_size (NewBitArrayFromBase64 demo_alloc) = 8" by (simp add: demo_decode ba_size_def)
  have "\<forall>i < 8. bit (129 :: byte) (7 - i mod 8) \<longleftrightarrow> i = 0 \<or> i = 7" by code_simp
  then show "ba_bits (NewBitArrayFromBase64 demo_alloc) = {0, 7}"
    by (auto simp: ba_bits_def demo_decode ba_size_def)
qed

lemma demo_range: "getAllocRangeBasedOnCidr demo_pool (Some demo_net) = Ok (1, 6)"
  by code_simp

lemma demo_size: "v4_net demo_net" "net_size demo_net = 8"
proof -
  show v4: "v4_net demo_net" by (rule v4_net_parse [OF demo_parse]) (simp add: demo_net_def)
  show "net_size demo_net = 8" by code_simp
qed

lemma demo_in_net: "pool_in_net demo_pool demo_net"
  by (simp add: pool_in_net_def demo_range demo_size)

lemmas demo_facts = demo_parse demo_bits demo_range demo_size demo_in_net


lemma demo_scan: "scan \<lparr>ba_len = 8, ba_data = [129]\<rparr> 1 1 1 6 = Some (Ok (Some 1))"
  by code_simp

lemma demo_set: "Set \<lparr>ba_len = 8, ba_data = [129]\<rparr> 1 = Ok \<lparr>ba_len = 8, ba_data = [193]\<rparr>"
  by code_simp

lemma demo_text: "getIpFromIndex 1 (Some demo_net) (Some demo_net) = Ok ''10.0.0.1/29''"
  by code_simp

lemma demo_encode: "Encode \<lparr>ba_len = 8, ba_data = [193]\<rparr> = ''wQ==''"
  by code_simp

lemma demo_take:
  "allocateAddress demo_pool demo_alloc DynamicAllocType ''10.0.0.0/29'' ''10.0.0.0/29'' =
     Ok (''wQ=='', ''10.0.0.1/29'', demo_pool\<lparr>LastIp := ''10.0.0.1/29''\<rparr>)"
proof -
  have "demo_alloc \<noteq> []" "DynamicAllocType \<noteq> NoneAllocType" "LastIp demo_pool = []"
    by (simp_all add: demo_alloc_def alloc_type_defs demo_pool_def)
  then show ?thesis
    by (simp add: allocateAddress_def allocateDynamic_def demo_facts demo_decode demo_scan demo_set
        demo_text demo_encode)
qed


end
