(* ===== verification/Ip6Text.thy ===== *)
theory Ip6Text
  imports GoNet
begin

text \<open>
  The text of an IPv6 address as \<^verbatim>\<open>net.IP.String\<close> prints it, with its longest run of
  zero groups as a double colon, is read by \<^verbatim>\<open>net.ParseIP\<close> and
  \<^verbatim>\<open>net.ParseCIDR\<close> as the address it was printed from.
\<close>

section \<open>What the readers consume\<close>

text \<open>Both number readers split the text behind a run of digits.\<close>

lemma dtoi_loop_split:
  "dtoi_loop n s = Some (m, r) \<Longrightarrow> \<exists>ds. s = ds @ r \<and> (\<forall>c \<in> set ds. is_digit c)"
proof (induction n s rule: dtoi_loop.induct)
  case (2 n c cs)
  show ?case
  proof (cases "is_digit c")
    case True
    with "2.prems" have "dtoi_loop (n * 10 + digit_val c) cs = Some (m, r)" and "\<not> n * 10 + digit_val c \<ge> net_big"
      by (auto simp: Let_def split: if_splits)
    with "2.IH" True obtain ds where "cs = ds @ r" "\<forall>c \<in> set ds. is_digit c" by blast
    with True show ?thesis by (intro exI [of _ "c # ds"]) simp
  next
    case False
    with "2.prems" show ?thesis by (intro exI [of _ "[]"]) auto
  qed
qed simp

lemma dtoi_split: "dtoi s = Some (m, r) \<Longrightarrow> \<exists>ds. s = ds @ r \<and> (\<forall>c \<in> set ds. is_digit c)"
proof -
  assume "dtoi s = Some (m, r)"
  then have "dtoi_loop 0 s = Some (m, r)" by (cases s) (simp_all only: dtoi_def list.case option.distinct split: if_splits)
  then show ?thesis by (rule dtoi_loop_split)
qed

lemma xtoi_loop_split:
  "xtoi_loop n s = Some (m, r) \<Longrightarrow> \<exists>ds. s = ds @ r \<and> (\<forall>c \<in> set ds. hex_val c \<noteq> None)"
proof (induction n s rule: xtoi_loop.induct)
  case (2 n c cs)
  show ?case
  proof (cases "hex_val c")
    case None
    with "2.prems" show ?thesis by (intro exI [of _ "[]"]) auto
  next
    case (Some d)
    with "2.prems" have "xtoi_loop (n * 16 + d) cs = Some (m, r)" and "\<not> n * 16 + d \<ge> net_big"
      by (auto simp: Let_def split: if_splits)
    with "2.IH" Some obtain ds where "cs = ds @ r" "\<forall>c \<in> set ds. hex_val c \<noteq> None" by blast
    with Some show ?thesis by (intro exI [of _ "c # ds"]) simp
  qed
qed simp

lemma xtoi_split: "xtoi s = Some (m, r) \<Longrightarrow> \<exists>ds. s = ds @ r \<and> (\<forall>c \<in> set ds. hex_val c \<noteq> None)"
proof -
  assume "xtoi s = Some (m, r)"
  then have "xtoi_loop 0 s = Some (m, r)" by (cases s) (simp_all only: xtoi_def list.case option.distinct split: if_splits)
  then show ?thesis by (rule xtoi_loop_split)
qed

lemma no_digit: "\<not> is_digit CHR ''/''" "\<not> is_digit CHR ''.''" "\<not> is_digit CHR '':''" "hex_val CHR ''/'' = None"
  by code_simp+

lemma digits_free: "\<forall>c \<in> set ds. is_digit c \<Longrightarrow> CHR ''/'' \<notin> set ds \<and> CHR ''.'' \<notin> set ds \<and> CHR '':'' \<notin> set ds"
  using no_digit by blast

section \<open>Groups of an address\<close>

lemma hex_digit_val: "d < 16 \<Longrightarrow> hex_val (hex_digit d) = Some d"
proof -
  assume "d < 16"
  moreover have "\<forall>d < 16. hex_val (hex_digit d) = Some d" by code_simp
  ultimately show ?thesis by blast
qed

lemma xtoi_step:
  "d < 16 \<Longrightarrow> xtoi_loop n (hex_digit d # r) = (if n * 16 + d \<ge> net_big then None else xtoi_loop (n * 16 + d) r)"
  by (simp add: hex_digit_val Let_def)

lemma hex_nat_loop:
  "g < net_big \<Longrightarrow> n * 16 ^ length (hex_nat g) + g < net_big \<Longrightarrow>
   xtoi_loop n (hex_nat g @ r) = xtoi_loop (n * 16 ^ length (hex_nat g) + g) r"
proof (induction g arbitrary: r rule: hex_nat.induct)
  case (1 g)
  show ?case
  proof (cases "g < 16")
    case True
    then have h: "hex_nat g = [hex_digit g]" by (simp add: hex_nat.simps)
    with True "1.prems" show ?thesis by (simp add: hex_digit_val Let_def)
  next
    case False
    let ?h = "hex_nat (g div 16)"
    have h: "hex_nat g = ?h @ [hex_digit (g mod 16)]" using False by (subst hex_nat.simps) simp
    have g: "g = (g div 16) * 16 + g mod 16" by simp
    have eq: "(n * 16 ^ length ?h + g div 16) * 16 + g mod 16 = n * 16 ^ length (hex_nat g) + g"
      using g by (simp add: h algebra_simps)
    have d: "g mod 16 < 16" by simp
    have "x < N" if "x * 16 + y = z" "z < N" for x y z N :: nat using that by linarith
    from this [OF eq "1.prems"(2)] have "n * 16 ^ length ?h + g div 16 < net_big" .
    moreover have "g div 16 < net_big" using "1.prems"(1) by linarith
    ultimately have "xtoi_loop n (?h @ hex_digit (g mod 16) # r) =
        xtoi_loop (n * 16 ^ length ?h + g div 16) (hex_digit (g mod 16) # r)"
      using "1.IH" [OF False] by blast
    also have "\<dots> = xtoi_loop (n * 16 ^ length (hex_nat g) + g) r"
      unfolding xtoi_step [OF d] eq using "1.prems"(2) by simp
    finally show ?thesis by (simp only: h append_assoc append_Cons append_Nil)
  qed
qed

lemma hex_nat_nonempty: "hex_nat g \<noteq> []"
  by (subst hex_nat.simps) simp

lemma hex_nat_digits: "c \<in> set (hex_nat g) \<Longrightarrow> hex_val c \<noteq> None"
proof (induction g rule: hex_nat.induct)
  case (1 g)
  then show ?case
    by (subst (asm) (2) hex_nat.simps) (auto simp: hex_digit_val split: if_splits)
qed

lemma xtoi_hex_nat:
  assumes "g < 65536" and "r = [] \<or> hd r = CHR '':''"
  shows "xtoi (hex_nat g @ r) = Some (g, r)"
proof -
  have "hex_val CHR '':'' = None" by code_simp
  then have r: "xtoi_loop g r = Some (g, r)" using assms(2) by (cases r) auto
  obtain c cs where c: "hex_nat g = c # cs" using hex_nat_nonempty by (cases "hex_nat g") auto
  then have "hex_val c \<noteq> None" using hex_nat_digits [of c g] by simp
  then have "xtoi (hex_nat g @ r) = xtoi_loop 0 (hex_nat g @ r)" by (simp add: xtoi_def c)
  also have "\<dots> = xtoi_loop g r" using hex_nat_loop [of g 0 r] assms(1) by (simp add: net_big_def)
  finally show ?thesis using r by simp
qed

fun join_groups :: "nat list \<Rightarrow> string" where
  "join_groups [] = []"
| "join_groups [g] = hex_nat g"
| "join_groups (g # h # gs) = hex_nat g @ CHR '':'' # join_groups (h # gs)"

lemma join_groups_Cons: "join_groups (g # gs) = hex_nat g @ (if gs = [] then [] else CHR '':'' # join_groups gs)"
  by (cases gs) auto

lemma join_colon_from:
  "0 < k \<Longrightarrow> concat (map (\<lambda>(i, g). (if i = 0 then [] else '':'') @ hex_nat g) (enumerate k gs)) =
     (if gs = [] then [] else CHR '':'' # join_groups gs)"
  by (induction gs arbitrary: k) (auto simp: join_groups_Cons)

lemma join_colon_groups: "join_colon gs = join_groups gs"
  by (cases gs) (auto simp: join_colon_def join_colon_from join_groups_Cons)

lemma join_groups_head:
  assumes "gs \<noteq> []"
  obtains c cs where "join_groups gs = c # cs" "c \<noteq> CHR '':''"
proof -
  have no: "hex_val CHR '':'' = None" by code_simp
  obtain g hs where g: "gs = g # hs" using assms by (cases gs) auto
  obtain c cs where c: "hex_nat g = c # cs" using hex_nat_nonempty by (cases "hex_nat g") auto
  then have "c \<noteq> CHR '':''" using hex_nat_digits [of c g] no by auto
  with c that show ?thesis by (cases hs) (auto simp: g)
qed

lemma join_groups_chars: "c \<in> set (join_groups gs) \<Longrightarrow> hex_val c \<noteq> None \<or> c = CHR '':''"
  by (induction gs rule: join_groups.induct) (use hex_nat_digits in auto)

definition group_bytes :: "nat list \<Rightarrow> byte list" where
  "group_bytes gs = concat (map (\<lambda>g. [word_of_nat (g div 256), word_of_nat g]) gs)"

lemma group_bytes_simps [simp]:
  "group_bytes [] = []" "group_bytes (g # gs) = [word_of_nat (g div 256), word_of_nat g] @ group_bytes gs"
  "group_bytes (gs @ hs) = group_bytes gs @ group_bytes hs" "length (group_bytes gs) = 2 * length gs"
  by (induction gs) (simp_all add: group_bytes_def)

lemma byte_of_nat: "m mod 256 = unat y \<Longrightarrow> (word_of_nat m :: byte) = y"
  by (simp add: word_unat_eq_iff unat_of_nat)

lemma group_bytes_groups: "even (length a) \<Longrightarrow> group_bytes (groups a) = a"
proof (induction a rule: groups.induct)
  case (1 x y bs)
  have y: "unat y < 256" using unat_byte_less [of y] by simp
  then have "(unat x * 256 + unat y) div 256 = unat x" by simp
  moreover have "(word_of_nat (unat x * 256 + unat y) :: byte) = y"
    by (rule byte_of_nat) (use y in simp)
  ultimately show ?case using 1 by simp
qed auto

lemma groups_bound: "g \<in> set (groups a) \<Longrightarrow> g < 65536"
proof (induction a rule: groups.induct)
  case (1 x y bs)
  have "unat x < 256" "unat y < 256" by (rule unat_byte_less)+
  then have "unat x * 256 + unat y < 65536" by linarith
  with 1 show ?case by auto
qed auto

lemma length_groups: "length (groups a) = length a div 2"
  by (induction a rule: groups.induct) auto

lemma group_bytes_zero: "group_bytes (replicate n 0) = replicate (2 * n) 0"
  by (induction n) auto

section \<open>Reading the groups\<close>

lemma loop_groups:
  "gs \<noteq> [] \<Longrightarrow> length gs \<le> k \<Longrightarrow> (\<And>g. g \<in> set gs \<Longrightarrow> g < 65536) \<Longrightarrow>
   parseIPv6_loop k (join_groups gs) a ell = Some (a @ group_bytes gs, ell, [])"
proof (induction gs arbitrary: k a rule: join_groups.induct)
  case (2 g)
  then show ?case using xtoi_hex_nat [of g "[]"] by (cases k) auto
next
  case (3 g h gs)
  obtain j where k: "k = Suc j" using "3.prems" by (cases k) auto
  obtain c cs where c: "join_groups (h # gs) = c # cs" "c \<noteq> CHR '':''" using join_groups_head [of "h # gs"] by auto
  have x: "xtoi (hex_nat g @ CHR '':'' # join_groups (h # gs)) = Some (g, CHR '':'' # join_groups (h # gs))"
    using xtoi_hex_nat [of g] "3.prems" by simp
  have "parseIPv6_loop j (c # cs) (a @ [word_of_nat (g div 256), word_of_nat g]) ell =
      Some (a @ group_bytes (g # h # gs), ell, [])"
    using "3.IH" [of j] "3.prems" k c by simp
  with x c "3.prems"(3) [of g] show ?case by (simp add: k Let_def)
qed simp

text \<open>A double colon behind at least one group.\<close>

lemma loop_groups_gap:
  "gs \<noteq> [] \<Longrightarrow> length gs + length hs \<le> k \<Longrightarrow> (\<And>g. g \<in> set (gs @ hs) \<Longrightarrow> g < 65536) \<Longrightarrow>
   parseIPv6_loop k (join_groups gs @ ''::'' @ join_groups hs) a None =
     Some (a @ group_bytes (gs @ hs), Some (length a + 2 * length gs), [])"
proof (induction gs arbitrary: k a rule: join_groups.induct)
  case (2 g)
  then obtain j where k: "k = Suc j" by (cases k) auto
  have x: "xtoi (hex_nat g @ CHR '':'' # CHR '':'' # join_groups hs) = Some (g, CHR '':'' # CHR '':'' # join_groups hs)"
    using xtoi_hex_nat [of g] "2.prems" by simp
  show ?case
  proof (cases "hs = []")
    case True
    with x "2.prems"(3) [of g] show ?thesis by (simp add: k Let_def)
  next
    case False
    obtain c cs where c: "join_groups hs = c # cs" using join_groups_head [OF False] by blast
    have "parseIPv6_loop j (join_groups hs) (a @ [word_of_nat (g div 256), word_of_nat g])
        (Some (length (a @ [word_of_nat (g div 256), word_of_nat g :: byte]))) =
      Some (a @ group_bytes (g # hs), Some (length a + 2), [])"
      using loop_groups [OF False, of j] "2.prems" k by simp
    with x c "2.prems"(3) [of g] show ?thesis by (simp add: k Let_def)
  qed
next
  case (3 g h gs)
  obtain j where k: "k = Suc j" using "3.prems" by (cases k) auto
  obtain c cs where c: "join_groups (h # gs) = c # cs" "c \<noteq> CHR '':''" using join_groups_head [of "h # gs"] by auto
  let ?r = "CHR '':'' # join_groups (h # gs) @ ''::'' @ join_groups hs"
  have x: "xtoi (hex_nat g @ ?r) = Some (g, ?r)" using xtoi_hex_nat [of g] "3.prems" by simp
  have "parseIPv6_loop j (join_groups (h # gs) @ ''::'' @ join_groups hs) (a @ [word_of_nat (g div 256), word_of_nat g]) None =
      Some (a @ group_bytes (g # h # gs @ hs), Some (length a + 2 * length (g # h # gs)), [])"
    using "3.IH" [of j] "3.prems" k by simp
  with x c "3.prems"(3) [of g] show ?case by (simp add: k Let_def)
qed simp

section \<open>The whole text\<close>

text \<open>The run that is left out is one of zero groups.\<close>

lemma longest_run_zeros:
  assumes "longest_run gs i best = (e, n)"
  shows "(e, n) = best \<or> (\<exists>k. e = i + k \<and> k + n \<le> length gs \<and> take n (drop k gs) = replicate n 0)"
  using assms
proof (induction gs i best rule: longest_run.induct)
  case (2 g gs i best)
  let ?n = "length (takeWhile (\<lambda>x. x = 0) (g # gs))"
  have run: "take ?n (g # gs) = replicate ?n 0"
    by (simp only: takeWhile_eq_take [symmetric]) (auto intro!: replicate_eqI dest: set_takeWhileD)
  have "?n \<le> length (g # gs)" by (rule length_takeWhile_le)
  from "2.prems" have "longest_run gs (Suc i) (if ?n > snd best then (i, ?n) else best) = (e, n)"
    by (simp only: longest_run.simps Let_def)
  from "2.IH" [OF refl this] show ?case
  proof
    assume "(e, n) = (if ?n > snd best then (i, ?n) else best)"
    with run \<open>?n \<le> length (g # gs)\<close> show ?thesis by (auto intro!: exI [of _ 0] split: if_splits)
  next
    assume "\<exists>k. e = Suc i + k \<and> k + n \<le> length gs \<and> take n (drop k gs) = replicate n 0"
    then obtain k where "e = Suc i + k" "k + n \<le> length gs" "take n (drop k gs) = replicate n 0" by blast
    then show ?thesis by (intro disjI2 exI [of _ "Suc k"]) auto
  qed
qed simp

lemma split_run:
  assumes "k + n \<le> length gs" and "take n (drop k gs) = replicate n (0 :: nat)"
  shows "gs = take k gs @ replicate n 0 @ drop (k + n) gs"
proof -
  have "drop k gs = take n (drop k gs) @ drop n (drop k gs)"
    by (rule append_take_drop_id [symmetric])
  then have "drop k gs = replicate n 0 @ drop (k + n) gs" using assms(2) by (simp add: add.commute del: append_take_drop_id)
  then show ?thesis by (metis append_take_drop_id)
qed

definition colon_text :: "string \<Rightarrow> bool" where
  "colon_text s \<longleftrightarrow> CHR '':'' \<in> set s \<and> (\<forall>c \<in> set s. hex_val c \<noteq> None \<or> c = CHR '':'')"

lemma ipv6_colon_text:
  assumes "length a = 16"
  shows "colon_text (ipv6_string a)"
proof -
  obtain e n where r: "longest_run (groups a) 0 (0, 0) = (e, n)" by (cases "longest_run (groups a) 0 (0, 0)") auto
  have "length (groups a) = 8" using assms by (simp add: length_groups)
  then obtain g h gs where "groups a = g # h # gs" by (cases "groups a" rule: join_groups.cases) auto
  then have "CHR '':'' \<in> set (join_groups (groups a))" by simp
  then show ?thesis using join_groups_chars
    by (auto simp: colon_text_def ipv6_string_def Let_def r join_colon_groups)
qed

lemma parseIPv6_gap:
  assumes "parseIPv6_loop 8 (if take 2 s = ''::'' then drop 2 s else s) [] (if take 2 s = ''::'' then Some 0 else None) =
      Some (b, Some e, [])"
    and "length b < 16" and "take 2 s = ''::'' \<longrightarrow> drop 2 s \<noteq> []"
  shows "parseIPv6 s = take e b @ replicate (16 - length b) 0 @ drop e b"
  using assms by (cases "take 2 s = ''::''") (simp_all add: parseIPv6_def Let_def)

lemma parseIPv6_ipv6_string:
  assumes "length a = 16"
  shows "parseIPv6 (ipv6_string a) = a"
proof -
  let ?gs = "groups a"
  obtain e n where r: "longest_run ?gs 0 (0, 0) = (e, n)" by (cases "longest_run ?gs 0 (0, 0)") auto
  have len: "length ?gs = 8" using assms by (simp add: length_groups)
  have bytes: "group_bytes ?gs = a" using assms by (simp add: group_bytes_groups)
  have small: "g < 65536" if "g \<in> set ?gs" for g using that by (rule groups_bound)
  have head: "take 2 (join_groups hs @ t) \<noteq> ''::''" if "hs \<noteq> []" for hs t
    by (rule join_groups_head [OF that]) auto
  show ?thesis
  proof (cases "n \<le> 1")
    case True
    have ne: "?gs \<noteq> []" using len by auto
    have "ipv6_string a = join_groups ?gs" using r True by (simp add: ipv6_string_def join_colon_groups Let_def)
    moreover have "take 2 (join_groups ?gs) \<noteq> ''::''" using head [OF ne, of "[]"] by simp
    moreover have "parseIPv6_loop 8 (join_groups ?gs) [] None = Some (a, None, [])"
      using loop_groups [OF ne, of 8 "[]" None] len small bytes by simp
    ultimately show ?thesis using assms by (simp add: parseIPv6_def Let_def)
  next
    case False
    let ?l = "take e ?gs" and ?r = "drop (e + n) ?gs"
    from longest_run_zeros [OF r] False have run: "e + n \<le> 8" "take n (drop e ?gs) = replicate n 0" using len by auto
    have gs: "?gs = ?l @ replicate n 0 @ ?r" using split_run [of e n ?gs] run len by simp
    have shape: "ipv6_string a = join_groups ?l @ ''::'' @ join_groups ?r"
      using r False by (simp add: ipv6_string_def join_colon_groups Let_def)
    have sub: "g < 65536" if "g \<in> set (?l @ ?r)" for g
      using that small [of g] by (auto dest: in_set_takeD in_set_dropD)
    have lens: "length ?l = e" "length ?r = 8 - (e + n)" using run len by simp_all
    have whole: "group_bytes ?l @ replicate (2 * n) 0 @ group_bytes ?r = a"
      using gs bytes by (metis group_bytes_simps(3) group_bytes_zero)
    have gap: "16 - (2 * e + 2 * (8 - (e + n))) = 2 * n" using run(1) by arith
    have fin: "take (2 * e) (group_bytes (?l @ ?r)) @ replicate (16 - length (group_bytes (?l @ ?r))) 0 @
        drop (2 * e) (group_bytes (?l @ ?r)) = a"
      using whole lens run by (simp add: gap)
    have short: "length (group_bytes (?l @ ?r)) < 16" using lens run False by simp
    show ?thesis
    proof (cases "e = 0")
      case True
      then have lead: "take 2 (ipv6_string a) = ''::''" "drop 2 (ipv6_string a) = join_groups ?r" "?l = []"
        using shape by simp_all
      show ?thesis
      proof (cases "?r = []")
        case True
        then have "n = 8" using lens run \<open>e = 0\<close> by simp
        with whole True lead(3) have "a = replicate 16 0" by simp
        with lead True show ?thesis by (simp add: parseIPv6_def)
      next
        case False
        have "parseIPv6_loop 8 (join_groups ?r) [] (Some 0) = Some (group_bytes ?r, Some 0, [])"
          by (rule loop_groups [OF False, of 8 "[]" "Some 0", unfolded append_Nil]) (use lens sub in auto)
        then have loop: "parseIPv6_loop 8 (join_groups ?r) [] (Some 0) = Some (group_bytes (?l @ ?r), Some (2 * e), [])"
          by (simp only: \<open>e = 0\<close> take_0 append_Nil mult_0_right)
        have "join_groups ?r \<noteq> []" by (rule join_groups_head [OF False]) simp
        with loop have "parseIPv6 (ipv6_string a) = take (2 * e) (group_bytes (?l @ ?r)) @
            replicate (16 - length (group_bytes (?l @ ?r))) 0 @ drop (2 * e) (group_bytes (?l @ ?r))"
          by (intro parseIPv6_gap short) (simp_all only: lead(1,2) if_True simp_thms)
        with fin show ?thesis by (rule trans [rotated])
      qed
    next
      case False
      then have ne: "?l \<noteq> []" using lens(1) by auto
      have "take 2 (ipv6_string a) \<noteq> ''::''" unfolding shape by (rule head [OF ne])
      moreover have "parseIPv6_loop 8 (ipv6_string a) [] None = Some (group_bytes (?l @ ?r), Some (2 * e), [])"
        unfolding shape using loop_groups_gap [OF ne, of ?r 8 "[]"] lens sub run by simp
      ultimately have "parseIPv6 (ipv6_string a) = take (2 * e) (group_bytes (?l @ ?r)) @
          replicate (16 - length (group_bytes (?l @ ?r))) 0 @ drop (2 * e) (group_bytes (?l @ ?r))"
        by (intro parseIPv6_gap short) (simp_all only: if_False simp_thms)
      with fin show ?thesis by (rule trans [rotated])
    qed
  qed
qed

lemma no_dot:
  assumes "CHR ''.'' \<notin> set s"
  shows "parseIPv4 s = []"
proof (rule ccontr)
  assume "parseIPv4 s \<noteq> []"
  then obtain q where "parseIPv4_loop (Suc 3) s [] = Some (q, [])"
    by (auto simp: parseIPv4_def numeral_eq_Suc split: option.splits prod.splits list.splits)
  then obtain n r where d: "dtoi s = Some (n, r)" and r: "parseIPv4_loop 3 r [word_of_nat n] = Some (q, [])"
    by (auto simp only: parseIPv4_loop.simps append_Nil simp_thms split: if_splits option.splits prod.splits)
  from r have "r \<noteq> []" "hd r = CHR ''.''" by (auto simp: numeral_eq_Suc split: if_splits)
  then have "CHR ''.'' \<in> set r" by (cases r) auto
  with dtoi_split [OF d] assms show False by auto
qed

lemma colon_text_chars:
  assumes "colon_text s"
  shows "CHR ''.'' \<notin> set s" "CHR ''/'' \<notin> set s"
proof -
  have "hex_val CHR ''.'' = None" "hex_val CHR ''/'' = None" by code_simp+
  then show "CHR ''.'' \<notin> set s" "CHR ''/'' \<notin> set s" using assms by (auto simp: colon_text_def)
qed

text \<open>The address printed for an IPv6 address is read back as this address.\<close>

lemma ParseIP_ipv6:
  assumes "length a = 16" and "To4 a = []"
  shows "ParseIP (ip_string a) = a"
proof -
  let ?P = "\<lambda>c. c \<noteq> CHR ''.'' \<and> c \<noteq> CHR '':''" and ?s = "ipv6_string a"
  have c: "colon_text ?s" using assms(1) by (rule ipv6_colon_text)
  then have "dropWhile ?P ?s \<noteq> []" by (auto simp: colon_text_def)
  then obtain d r where d: "dropWhile ?P ?s = d # r" by (cases "dropWhile ?P ?s") auto
  then have "\<not> ?P d" using hd_dropWhile [of ?P ?s] by auto
  moreover have "d \<in> set ?s" using d by (metis list.set_intros(1) set_dropWhileD)
  then have "d \<noteq> CHR ''.''" using colon_text_chars(1) [OF c] by auto
  ultimately have "ParseIP ?s = a" using d parseIPv6_ipv6_string [OF assms(1)] by (simp add: ParseIP_def)
  moreover have "ip_string a = ?s" using assms by (auto simp: ip_string_def)
  ultimately show ?thesis by simp
qed

lemma ParseCIDR_ipv6:
  assumes a: "length a = 16" "To4 a = []" and p: "p \<le> 128"
  shows "ParseCIDR (ip_string a @ CHR ''/'' # itoa_nat p) = Some (a, net_of a 16 p)"
proof -
  let ?P = "\<lambda>c. c \<noteq> CHR ''/''" and ?s = "ipv6_string a"
  have s: "ip_string a = ?s" using a by (auto simp: ip_string_def)
  have c: "colon_text ?s" using a(1) by (rule ipv6_colon_text)
  have P: "?P x" if "x \<in> set ?s" for x using that colon_text_chars(2) [OF c] by auto
  then have "dropWhile ?P (?s @ CHR ''/'' # itoa_nat p) = CHR ''/'' # itoa_nat p"
    using dropWhile_not_mem [of ?s ?P "CHR ''/''" "itoa_nat p"] by blast
  moreover have "takeWhile ?P (?s @ CHR ''/'' # itoa_nat p) = ?s"
    using P by (subst takeWhile_append2) auto
  moreover have "dtoi (itoa_nat p) = Some (p, [])"
    using dtoi_itoa [of p "[]"] p by (simp add: net_big_def)
  moreover have "a \<noteq> []" using a(1) by auto
  ultimately show ?thesis
    using parseIPv6_ipv6_string [OF a(1)] no_dot [OF colon_text_chars(1) [OF c]] p
    by (simp add: s ParseCIDR_def Let_def)
qed

end
