(* ===== verification/IpamProps.thy ===== *)
theory IpamProps
  imports IpamAlloc Ip6Text
begin

text \<open>
  The properties of the address allocator: what each request returns, that the loop ends, that
  releases undo allocations, the translation between positions and addresses, and the state a
  new network starts in.
\<close>

section \<open>Requests\<close>

text \<open>
  C19. A dynamic request takes the first free position in the order the loop searches: from the
  position after which it continues up to the end of the pool, then from one past the pool's
  first position. The taken position is marked, the address is the one at that position, and
  the request fails with the exhaustion error exactly when every position searched is taken.
\<close>

theorem dynamic_request_searches:
  assumes nets: "parse_net ac = Some n" "parse_net nc = Some m" "usable_net n"
    and alloc: "alloc \<noteq> []"
    and range: "getAllocRangeBasedOnCidr pool (Some n) = Ok (b, e)"
    and lst: "GetIndexOfIp (ParseIP (LastIp pool)) (Some n) = Ok l"
    and bounds: "b \<le> e" "unat e < net_size n" "unat e < ba_size (NewBitArrayFromBase64 alloc)"
      "ba_size (NewBitArrayFromBase64 alloc) < 2 ^ 32"
  shows "case find (\<lambda>k. k \<notin> ba_bits (NewBitArrayFromBase64 alloc)) (search_order b (start_index l b e) e) of
     None \<Rightarrow> allocateAddress pool alloc DynamicAllocType ac nc = Err PoolExhausted
   | Some k \<Rightarrow> \<exists>arr a. index_ip (word_of_nat k) n = Ok a \<and> Contains n a \<and>
       Set (NewBitArrayFromBase64 alloc) (word_of_nat k) = Ok arr \<and>
       allocateAddress pool alloc DynamicAllocType ac nc =
         Ok (Encode arr, address_text a m, pool\<lparr>LastIp := address_text a m\<rparr>)"
proof -
  have eq: "allocateAddress pool alloc DynamicAllocType ac nc = allocateDynamic pool alloc (Some n) (Some m)"
    using nets alloc by (simp add: allocateAddress_def alloc_type_defs)
  show ?thesis unfolding eq by (rule dynamic_search [OF nets(3) range lst bounds])
qed

lemma demo_usable: "usable_net demo_net"
  by (simp add: usable_net_def demo_size)

lemma demo_no_last: "GetIndexOfIp (ParseIP (LastIp demo_pool)) (Some demo_net) = Ok 0"
  by code_simp

theorem dynamic_request_searches_witness:
  "\<exists>arr a. index_ip 1 demo_net = Ok a \<and> Contains demo_net a \<and>
     Set (NewBitArrayFromBase64 demo_alloc) 1 = Ok arr \<and>
     allocateAddress demo_pool demo_alloc DynamicAllocType ''10.0.0.0/29'' ''10.0.0.0/29'' =
       Ok (Encode arr, address_text a demo_net, demo_pool\<lparr>LastIp := address_text a demo_net\<rparr>)"
proof -
  have "demo_alloc \<noteq> []" by (simp add: demo_alloc_def)
  note t = dynamic_request_searches [OF demo_parse demo_parse demo_usable this demo_range demo_no_last]
  have "search_order 1 (start_index 0 1 6) 6 = [1, 2, 3, 4, 5, 6]" by code_simp
  with t show ?thesis by (simp add: demo_facts)
qed

text \<open>
  C20. Every outcome of a static request, on IPv4 networks, whose allocation subnet is the network's
  own, and on IPv6 networks, where it is a part of it: an unreadable address, an address outside the
  network and an address in use are three different errors; an address of the network outside the
  allocation subnet is granted without being marked anywhere; otherwise the position of the
  address was free, is marked, and the address is returned with the network's prefix length. The
  pool is left alone, and nothing panics when the array covers the allocation subnet; a network
  without an array has its own error.
\<close>

theorem static_request_cases:
  assumes nets: "parse_net ac = Some n" "parse_net nc = Some m" and n: "usable_net n"
    and size: "alloc \<noteq> [] \<Longrightarrow> net_size n \<le> ba_size (NewBitArrayFromBase64 alloc)"
    and req: "req \<noteq> NoneAllocType" "req \<noteq> DynamicAllocType"
  shows "\<exists>i. allocateAddress pool alloc req ac nc =
    (let ba = NewBitArrayFromBase64 alloc;
         text = first_part CHR ''/'' req @ ''/'' @ itoa_nat (mask_size (net_Mask m)) in
     if alloc = [] then Err L2Allocation
     else if addr_of req = [] then Err (InvalidStaticIp req)
     else if \<not> Contains m (addr_of req) then Err (StaticIpOutsideNet req nc)
     else if \<not> Contains n (addr_of req) then Ok (Encode ba, text, pool)
     else if unat i \<in> ba_bits ba then Err (StaticIpInUse req)
     else bind_res (Set ba i) (\<lambda>arr. Ok (Encode arr, text, pool))) \<and>
    (alloc \<noteq> [] \<and> Contains n (addr_of req) \<longrightarrow>
       GetIndexOfIp (addr_of req) (Some n) = Ok i \<and> (\<exists>arr. Set (NewBitArrayFromBase64 alloc) i = Ok arr))"
proof (cases "alloc \<noteq> [] \<and> Contains n (addr_of req)")
  case False
  with nets req show ?thesis
    by (auto simp: allocateAddress_def allocateStatic_def addr_of_def Let_def)
next
  case True
  let ?ba = "NewBitArrayFromBase64 alloc"
  from usable_index [OF n] True obtain i where
    i: "GetIndexOfIp (addr_of req) (Some n) = Ok i" "unat i < net_size n" by blast
  with size True have get: "Get ?ba i = Ok (unat i \<in> ba_bits ?ba)" by (simp add: ba.get_Ok_iff)
  moreover obtain arr where "Set ?ba i = Ok arr" using ba.put_total [of i ?ba] i size True by auto
  ultimately show ?thesis
    using nets req True i
    by (intro exI [of _ i]) (auto simp: allocateAddress_def allocateStatic_def addr_of_def Let_def)
qed

lemma demo_read: "addr_of ''10.0.0.7/24'' = IPv4 [10, 0, 0, 7]" "Contains demo_net (IPv4 [10, 0, 0, 7])"
  "GetIndexOfIp (IPv4 [10, 0, 0, 7]) (Some demo_net) = Ok 7"
  by code_simp+

theorem static_request_cases_witness:
  "allocateAddress demo_pool demo_alloc ''10.0.0.7/24'' ''10.0.0.0/29'' ''10.0.0.0/29'' =
     Err (StaticIpInUse ''10.0.0.7/24'')"
proof -
  have "''10.0.0.7/24'' \<noteq> NoneAllocType" "''10.0.0.7/24'' \<noteq> DynamicAllocType"
    by (simp_all add: alloc_type_defs)
  moreover have "demo_alloc \<noteq> []" by (simp add: demo_alloc_def)
  ultimately show ?thesis
    using static_request_cases [OF demo_parse demo_parse demo_usable, of demo_alloc "''10.0.0.7/24''" demo_pool]
    by (auto simp: demo_facts demo_read Let_def)
qed

text \<open>The text of an address handed out reads back as the address, in both families.\<close>

lemma address_text_position:
  assumes n: "usable_net n" and a: "index_ip i n = Ok a" "Contains n a"
  shows "addr_of (address_text a m) \<noteq> [] \<and> Contains n (addr_of (address_text a m)) \<and>
    GetIndexOfIp (addr_of (address_text a m)) (Some n) = GetIndexOfIp a (Some n)"
  using n unfolding usable_net_def
proof
  assume v4: "v4_net n"
  have len: "length a = 4" by (rule v4_index_ip_length [OF v4 a(1)])
  with v4_IPv4 [OF v4 len a(2)] show ?thesis by (simp add: addr_of_address_text)
next
  assume v6: "v6_net n"
  then have len: "length a = 16" "To4 a = []" using a(2) v6_contains [OF v6] by auto
  then have s: "ip_string a = ipv6_string a" by (auto simp: ip_string_def)
  have "CHR ''/'' \<notin> set (ip_string a)"
    unfolding s by (rule colon_text_chars(2) [OF ipv6_colon_text [OF len(1)]])
  then have "first_part CHR ''/'' (address_text a m) = ip_string a"
    by (simp add: address_text_def first_part_append)
  then have "addr_of (address_text a m) = a" using ParseIP_ipv6 [OF len] by (simp add: addr_of_def)
  moreover have "a \<noteq> []" using len(1) by auto
  ultimately show ?thesis using a(2) by simp
qed


lemma demo_canonical: "demo_alloc = Encode \<lparr>ba_len = 8, ba_data = [129]\<rparr>"
  by code_simp


section \<open>The loop ends\<close>

lemma scan_total_tail:
  assumes "ba_size ba < 2 ^ 32"
  shows "scan ba b l i l \<noteq> None"
proof (induction "2 ^ 32 - unat i" arbitrary: i rule: less_induct)
  case less
  show ?case
  proof (cases "i \<le> l \<and> unat i < ba_size ba")
    case True
    then have "unat (i + 1) = unat i + 1" using assms by (simp add: unat_plus_1)
    then have "2 ^ 32 - unat (i + 1) < 2 ^ 32 - unat i" using True assms by linarith
    from less.hyps [OF this] have "scan ba b l (i + 1) l \<noteq> None" .
    then show ?thesis by (auto simp: scan.simps [of ba b l i l] Get_eq)
  next
    case False
    then show ?thesis by (auto simp: scan.simps [of ba b l i l] Get_eq)
  qed
qed

text \<open>
  The search loop of a dynamic request returns, whatever the pool, the last address and the
  taken positions are, for every array of fewer than \<open>2 ^ 32\<close> positions: it runs from the
  position it starts at to the end, and at most once more from the start of the pool.
\<close>

theorem scan_terminates:
  assumes "ba_size ba < 2 ^ 32"
  shows "\<exists>r. scan ba b l i e = Some r"
proof -
  have "scan ba b l i e \<noteq> None"
  proof (induction "2 ^ 32 - unat i" arbitrary: i rule: less_induct)
    case less
    show ?case
    proof (cases "i \<le> e \<and> unat i < ba_size ba")
      case True
      then have "unat (i + 1) = unat i + 1" using assms by (simp add: unat_plus_1)
      then have "2 ^ 32 - unat (i + 1) < 2 ^ 32 - unat i" using True assms by linarith
      from less.hyps [OF this] have "scan ba b l (i + 1) e \<noteq> None" .
      moreover have "scan ba b l (b + 1) l \<noteq> None" using assms by (rule scan_total_tail)
      ultimately show ?thesis by (auto simp: scan.simps [of ba b l i e] Get_eq)
    next
      case False
      then show ?thesis by (auto simp: scan.simps [of ba b l i e] Get_eq)
    qed
  qed
  then show ?thesis by blast
qed

theorem scan_terminates_witness:
  "\<exists>r. scan (NewBitArrayFromBase64 demo_alloc) 1 3 3 6 = Some r"
  by (rule scan_terminates) (simp add: demo_bits)

section \<open>Where the search starts\<close>

lemma parseIPv4_trailing:
  assumes "length a = 4"
  shows "parseIPv4 (dotted a @ CHR ''/'' # rest) = []"
proof -
  obtain p q r t where p: "a = [p, q, r, t]" using assms by (rule four_bytes)
  have le: "unat (x :: byte) \<le> 255" for x using unat_byte_less [of x] by linarith
  have "parseIPv4_loop 4 (dotted a @ CHR ''/'' # rest) [] = Some (a, CHR ''/'' # rest)"
    using dtoi_byte [of "CHR ''/'' # rest" t] le by (simp add: p numeral_eq_Suc dotted_def not_less)
  then show ?thesis by (simp add: parseIPv4_def)
qed

lemma ParseIP_address_text:
  assumes "length a = 4"
  shows "ParseIP (address_text a m) = []"
proof -
  let ?P = "\<lambda>c. c \<noteq> CHR ''.'' \<and> c \<noteq> CHR '':''"
  let ?s = "address_text a m"
  have "a \<noteq> []" using assms by auto
  then have s: "?s = dotted a @ CHR ''/'' # itoa_nat (mask_size (net_Mask m))"
    using assms by (simp add: address_text_def ip_string_def)
  have "?P x" if "x \<in> set (itoa_nat k)" for x k
    using that itoa_nat_no_char [of "CHR ''.''"] itoa_nat_no_char [of "CHR '':''"] by auto
  then have "\<exists>r. dropWhile ?P ?s = CHR ''.'' # r"
    unfolding s dotted_def append_assoc append_Cons by (subst dropWhile_not_mem) auto
  then show ?thesis using parseIPv4_trailing [OF assms] s by (auto simp: ParseIP_def)
qed

text \<open>
  The pool's \<open>LastIp\<close> never moves the search of an IPv4 network: the allocator stores
  the address with its prefix length, which \<^verbatim>\<open>net.ParseIP\<close> does not read, so
  after every dynamic allocation the next search starts at the beginning of the pool again.
\<close>

theorem last_ip_not_read_back:
  assumes c: "parse_net c = Some n" and n: "length (net_IP n) = 4" and pool: "pool_in_net pool n"
    and ok: "allocateAddress pool alloc DynamicAllocType c c = Ok (alloc', ip, pool')"
  shows "LastIp pool' = ip \<and> (\<exists>l. GetIndexOfIp (ParseIP (LastIp pool')) (Some n) = Ok l \<and>
    (\<forall>b e. start_index l b e = b))"
proof -
  have v4: "v4_net n" using c n by (rule v4_net_parse)
  then have net: "usable_net n" by (simp add: usable_net_def)
  obtain b e where range: "getAllocRangeBasedOnCidr pool (Some n) = Ok (b, e)" "unat e < net_size n"
    using pool by (auto simp: pool_in_net_def split: res.splits)
  have dyn: "allocateDynamic pool alloc (Some n) (Some n) = Ok (alloc', ip, pool')"
    using ok by (simp add: allocateAddress_def c alloc_type_defs split: if_splits)
  from dynamic_step [OF net range dyn] obtain i a where
    i: "index_ip i n = Ok a" "ip = address_text a n" "pool' = pool\<lparr>LastIp := ip\<rparr>" by auto
  have "length a = 4" using v4_index_ip_length [OF v4 i(1)] .
  with i show ?thesis by (simp add: ParseIP_address_text GetIndexOfIp_def start_index_def)
qed

theorem last_ip_not_read_back_witness:
  "\<exists>l. GetIndexOfIp (ParseIP ''10.0.0.1/29'') (Some demo_net) = Ok l \<and> start_index l 1 6 = 1"
  using last_ip_not_read_back [OF demo_parse _ demo_in_net demo_take] by (auto simp: demo_net_def)

text \<open>
  When \<open>LastIp\<close> is a plain address strictly inside the pool, the search never looks at
  the pool's first position: after the wrap it restarts one past it. The request fails although
  that position is free.
\<close>

theorem wrap_skips_pool_start:
  assumes nets: "parse_net ac = Some n" "parse_net nc = Some m" "usable_net n"
    and alloc: "alloc \<noteq> []"
    and range: "getAllocRangeBasedOnCidr pool (Some n) = Ok (b, e)"
    and lst: "GetIndexOfIp (ParseIP (LastIp pool)) (Some n) = Ok l" "b < l" "l < e"
    and bounds: "unat e < net_size n" "unat e < ba_size (NewBitArrayFromBase64 alloc)"
      "ba_size (NewBitArrayFromBase64 alloc) < 2 ^ 32"
    and taken: "{Suc (unat b)..unat e} \<subseteq> ba_bits (NewBitArrayFromBase64 alloc)"
    and free: "unat b \<notin> ba_bits (NewBitArrayFromBase64 alloc)"
  shows "allocateAddress pool alloc DynamicAllocType ac nc = Err PoolExhausted"
proof -
  have eq: "allocateAddress pool alloc DynamicAllocType ac nc = allocateDynamic pool alloc (Some n) (Some m)"
    using nets alloc by (simp add: allocateAddress_def alloc_type_defs)
  have lt: "unat b < unat l" "unat l < unat e" using lst by (simp_all add: word_less_nat_alt)
  have "l \<noteq> 0" using lst(2) by auto
  then have start: "start_index l b e = l" using lst(3) by (auto simp: start_index_def dest: leD)
  have "b \<le> e" using lst by simp
  have "set (search_order b l e) \<subseteq> {Suc (unat b)..unat e}"
    using lt by (auto simp: search_order_def)
  then have "find (\<lambda>k. k \<notin> ba_bits (NewBitArrayFromBase64 alloc)) (search_order b l e) = None"
    using taken by (auto simp: find_None_iff)
  with dynamic_search [OF nets(3) range lst(1) \<open>b \<le> e\<close> bounds, of m] show ?thesis
    unfolding eq start by simp
qed

definition demo_full :: string where
  "demo_full = ''vw==''"

lemma demo_full_bits: "ba_size (NewBitArrayFromBase64 demo_full) = 8"
  "ba_bits (NewBitArrayFromBase64 demo_full) = {0, 2, 3, 4, 5, 6, 7}"
proof -
  have d: "NewBitArrayFromBase64 demo_full = \<lparr>ba_len = 8, ba_data = [191]\<rparr>" by code_simp
  then show "ba_size (NewBitArrayFromBase64 demo_full) = 8" by (simp add: ba_size_def)
  have "\<forall>i < 8. bit (191 :: byte) (7 - i mod 8) \<longleftrightarrow> i \<noteq> 1" by code_simp
  then show "ba_bits (NewBitArrayFromBase64 demo_full) = {0, 2, 3, 4, 5, 6, 7}"
    by (auto simp: ba_bits_def d ba_size_def)
qed

lemma demo_rotated:
  "getAllocRangeBasedOnCidr (demo_pool\<lparr>LastIp := ''10.0.0.3''\<rparr>) (Some demo_net) = Ok (1, 6)"
  "GetIndexOfIp (ParseIP (LastIp (demo_pool\<lparr>LastIp := ''10.0.0.3''\<rparr>))) (Some demo_net) = Ok 3"
  by code_simp+

theorem wrap_skips_pool_start_witness:
  "allocateAddress (demo_pool\<lparr>LastIp := ''10.0.0.3''\<rparr>) demo_full DynamicAllocType
     ''10.0.0.0/29'' ''10.0.0.0/29'' = Err PoolExhausted"
proof -
  have "demo_full \<noteq> []" by (simp add: demo_full_def)
  note t = wrap_skips_pool_start [OF demo_parse demo_parse demo_usable this demo_rotated]
  have "{Suc (unat (1 :: u32))..unat (6 :: u32)} \<subseteq> ba_bits (NewBitArrayFromBase64 demo_full)"
    by (auto simp: demo_full_bits)
  from t [OF _ _ _ _ _ this] show ?thesis by (simp add: demo_full_bits demo_size)
qed

section \<open>Positions and addresses\<close>

text \<open>
  On an IPv4 subnet the text printed for a position reads back, with the prefix length cut
  off, as an address of the subnet at that position; so different positions have different texts.
\<close>

theorem index_text_roundtrip:
  assumes n: "v4_net n" and i: "unat i < net_size n"
  shows "\<exists>ip. getIpFromIndex i (Some n) (Some m) = Ok ip \<and> Contains n (addr_of ip) \<and>
    GetIndexOfIp (addr_of ip) (Some n) = Ok i"
proof -
  from v4.at_total [OF n i] obtain a where a: "index_ip i n = Ok a" "Contains n a" by blast
  have len: "length a = 4" using v4_index_ip_length [OF n a(1)] .
  have "GetIndexOfIp a (Some n) = Ok i" using v4.index_at [OF n i a(1)] .
  with a v4_IPv4 [OF n len a(2)] addr_of_address_text [OF len, of m] show ?thesis
    by (simp add: getIpFromIndex_def address_text_def)
qed

theorem index_text_roundtrip_witness:
  "\<exists>ip. getIpFromIndex 5 (Some demo_net) (Some demo_net) = Ok ip \<and>
    GetIndexOfIp (addr_of ip) (Some demo_net) = Ok 5"
  using index_text_roundtrip [of demo_net 5 demo_net] by (auto simp: demo_size)

text \<open>
  On an IPv6 subnet of at most \<open>2 ^ 32\<close> addresses whose base address starts with a byte
  other than 0, every position has a sixteen-byte address of the subnet, and its index is the
  position.
\<close>

theorem v6_index_roundtrip:
  assumes n: "v6_net n" and i: "unat i < net_size n"
  shows "\<exists>a. index_ip i n = Ok a \<and> length a = 16 \<and> Contains n a \<and> GetIndexOfIp a (Some n) = Ok i"
proof -
  from v6.at_total [OF n i] obtain a where a: "index_ip i n = Ok a" "Contains n a" by blast
  with v6.index_at [OF n i a(1)] v6_contains [OF n] show ?thesis by blast
qed

definition demo_net6 :: ipnet where
  "demo_net6 = \<lparr>net_IP = [32, 1, 13, 184] @ replicate 12 0, net_Mask = mask_bytes 16 120\<rparr>"

lemma demo_net6: "v6_net demo_net6" "net_size demo_net6 = 256"
proof -
  have p: "parse_net ''2001:db8::/120'' = Some demo_net6" by code_simp
  have w: "wf_net 16 120 demo_net6"
    by (simp add: wf_net_def demo_net6_def) code_simp
  moreover have "256 ^ 15 \<le> be_nat (net_IP demo_net6)" by code_simp
  ultimately show "v6_net demo_net6" by (auto simp: v6_net_def)
  show "net_size demo_net6 = 256" using net_size_wf [OF w] by (simp add: host_size_def)
qed

theorem v6_index_roundtrip_witness:
  "\<exists>a. index_ip 200 demo_net6 = Ok a \<and> Contains demo_net6 a"
  using v6_index_roundtrip [of demo_net6 200] by (auto simp: demo_net6)

definition nat64_net :: ipnet where
  "nat64_net = \<lparr>net_IP = [0, 100, 255, 155] @ replicate 12 0, net_Mask = mask_bytes 16 112\<rparr>"

lemma nat64_parse: "parse_net ''64:ff9b::/112'' = Some nat64_net"
  by code_simp

lemma nat64_first: "index_ip 1 nat64_net = Ok ([100, 255, 155] @ replicate 11 0 @ [1])"
  by code_simp

lemma nat64_string:
  "ip_string ([100, 255, 155] @ replicate 11 0 @ [1]) = ''?64ff9b000000000000000000000001''"
  "mask_size (net_Mask nat64_net) = 112"
  by code_simp+

lemma nat64_unreadable: "addr_of ''?64ff9b000000000000000000000001/112'' = []"
  by code_simp

text \<open>
  On an IPv6 subnet whose base address starts with a zero byte, such as 64:ff9b::/112 in the
  NAT64 prefix, \<^verbatim>\<open>big.Int.Bytes\<close> drops that byte: the address of a position
  has fifteen bytes, its text is not an IPv6 address, and \<open>Free\<close> reads it as no address.
\<close>

theorem v6_leading_zero_text:
  "getIpFromIndex 1 (parse_net ''64:ff9b::/112'') (parse_net ''64:ff9b::/112'') =
     Ok ''?64ff9b000000000000000000000001/112'' \<and>
   addr_of ''?64ff9b000000000000000000000001/112'' = []"
proof -
  have "itoa_nat 112 = ''112''" by code_simp
  then show ?thesis
    by (simp only: nat64_parse getIpFromIndex_def option.case nat64_first bind_res.simps
        nat64_string nat64_unreadable) simp
qed

end
