(* ===== verification/IpamTypes.thy ===== *)
theory IpamTypes
  imports IpamProps
begin

text \<open>
  Type safety of the allocator: the well-formedness of a network's pool and allocation array,
  under which no request and no release panics and which all of them keep, in both families.
\<close>

definition wf_alloc :: "ipnet \<Rightarrow> IpPool \<Rightarrow> string \<Rightarrow> bool" where
  "wf_alloc n pool alloc \<longleftrightarrow>
     (\<exists>b e. getAllocRangeBasedOnCidr pool (Some n) = Ok (b, e) \<and> b \<le> e \<and> unat e < net_size n) \<and>
     net_size n \<le> ba_size (NewBitArrayFromBase64 alloc) \<and> ba_size (NewBitArrayFromBase64 alloc) < 2 ^ 32"

lemma net_size_pos: "0 < net_size n"
  by (simp add: net_size_def)

lemma empty_array: "ba_data (NewBitArrayFromBase64 []) = []"
  by code_simp

lemma wf_alloc_nonempty: "wf_alloc n pool alloc \<Longrightarrow> alloc \<noteq> []"
  using net_size_pos [of n] by (auto simp: wf_alloc_def ba_size_def empty_array)

lemma wf_alloc_LastIp [simp]: "wf_alloc n (pool\<lparr>LastIp := ip\<rparr>) alloc = wf_alloc n pool alloc"
  by (simp add: wf_alloc_def getAllocRangeBasedOnCidr_def)

lemma wf_alloc_Encode:
  "wf_alloc n pool alloc \<Longrightarrow> ba_size arr = ba_size (NewBitArrayFromBase64 alloc) \<Longrightarrow> wf_alloc n pool (Encode arr)"
  by (simp add: wf_alloc_def ba_size_def)

text \<open>Whatever text the pool remembers, its position can be computed.\<close>

lemma last_index_total:
  assumes "usable_net n"
  shows "\<exists>l. GetIndexOfIp (ParseIP s) (Some n) = Ok l"
proof -
  have "length (net_IP n) = 4 \<or> length (net_IP n) = 16"
    using assms by (auto simp: usable_net_def v4_net_def v6_net_def wf_net_def)
  with ParseIP_shape [of s] show ?thesis by (auto simp: GetIndexOfIp_def Ip2int_def)
qed

lemma dynamic_safe:
  assumes n: "usable_net n" and wf: "wf_alloc n pool alloc"
  shows "allocateDynamic pool alloc (Some n) (Some n) = Err PoolExhausted \<or>
    (\<exists>alloc' ip pool'. allocateDynamic pool alloc (Some n) (Some n) = Ok (alloc', ip, pool') \<and> wf_alloc n pool' alloc')"
proof -
  let ?ba = "NewBitArrayFromBase64 alloc"
  obtain b e where range: "getAllocRangeBasedOnCidr pool (Some n) = Ok (b, e)" "b \<le> e" "unat e < net_size n"
    and size: "net_size n \<le> ba_size ?ba" "ba_size ?ba < 2 ^ 32" using wf by (auto simp: wf_alloc_def)
  obtain l where l: "GetIndexOfIp (ParseIP (LastIp pool)) (Some n) = Ok l" using last_index_total [OF n] by blast
  have "unat e < ba_size ?ba" using range(3) size(1) by simp
  note search = dynamic_search [OF n range(1) l range(2,3) this size(2), of n]
  show ?thesis
  proof (cases "find (\<lambda>k. k \<notin> ba_bits ?ba) (search_order b (start_index l b e) e)")
    case None
    with search show ?thesis by simp
  next
    case (Some k)
    with search obtain arr a where arr: "Set ?ba (word_of_nat k) = Ok arr"
      and ok: "allocateDynamic pool alloc (Some n) (Some n) = Ok (Encode arr, address_text a n, pool\<lparr>LastIp := address_text a n\<rparr>)"
      by auto
    from wf Set_size [OF arr] have "wf_alloc n (pool\<lparr>LastIp := address_text a n\<rparr>) (Encode arr)"
      by (simp add: wf_alloc_Encode)
    with ok show ?thesis by blast
  qed
qed

lemma static_safe:
  assumes n: "usable_net n" and wf: "wf_alloc n pool alloc"
  shows "(\<exists>err. allocateStatic pool alloc req c (Some n) (Some n) = Err err) \<or>
    (\<exists>alloc' ip pool'. allocateStatic pool alloc req c (Some n) (Some n) = Ok (alloc', ip, pool') \<and> wf_alloc n pool' alloc')"
proof (cases "Contains n (ParseIP (first_part CHR ''/'' req)) \<and> ParseIP (first_part CHR ''/'' req) \<noteq> []")
  case False
  then show ?thesis by (auto simp: allocateStatic_def Let_def)
next
  case True
  let ?ba = "NewBitArrayFromBase64 alloc" and ?a = "ParseIP (first_part CHR ''/'' req)"
  obtain i where i: "GetIndexOfIp ?a (Some n) = Ok i" "unat i < net_size n"
    using usable_index [OF n] True by blast
  then have lt: "unat i < ba_size ?ba" using wf by (auto simp: wf_alloc_def)
  then obtain arr where arr: "Set ?ba i = Ok arr" using ba.put_total by blast
  show ?thesis
  proof (cases "unat i \<in> ba_bits ?ba")
    case True
    with \<open>Contains n ?a \<and> ?a \<noteq> []\<close> i lt show ?thesis by (simp add: allocateStatic_def Let_def Get_eq)
  next
    case False
    have "wf_alloc n pool (Encode arr)" using wf Set_size [OF arr] by (simp add: wf_alloc_Encode)
    with False True i lt arr show ?thesis by (simp add: allocateStatic_def Let_def Get_eq)
  qed
qed

lemma release_safe:
  assumes c: "parse_net c = Some n" and n: "usable_net n" and wf: "wf_alloc n pool alloc"
  shows "\<exists>alloc'. resetIp alloc c a = Ok alloc' \<and> wf_alloc n pool alloc'"
proof (cases "a = [] \<or> \<not> Contains n a")
  case True
  with c wf show ?thesis by (simp add: resetIp_def)
next
  case False
  let ?ba = "NewBitArrayFromBase64 alloc"
  obtain i where i: "GetIndexOfIp a (Some n) = Ok i" "unat i < net_size n"
    using usable_index [OF n] False by blast
  then have "unat i < ba_size ?ba" using wf by (auto simp: wf_alloc_def)
  then obtain arr where arr: "Reset ?ba i = Ok arr" using ba.clear_total by blast
  have "wf_alloc n pool (Encode arr)" using wf Reset_size [OF arr] by (simp add: wf_alloc_Encode)
  with c False i arr show ?thesis by (simp add: resetIp_def Let_def)
qed

text \<open>
  C8. Well-formed networks do not go wrong: on an IPv4 or IPv6 network whose pool is a range of its
  subnet and whose array has a position for every address, no address request, dynamic or static,
  and no release of any address panics or hangs, and each leaves the network well-formed.
\<close>

theorem allocator_type_safe:
  assumes c: "parse_net c = Some n" and n: "usable_net n" and wf: "wf_alloc n pool alloc"
    and req: "req \<noteq> NoneAllocType"
  shows "((\<exists>err. allocateAddress pool alloc req c c = Err err) \<or>
      (\<exists>alloc' ip pool'. allocateAddress pool alloc req c c = Ok (alloc', ip, pool') \<and> wf_alloc n pool' alloc')) \<and>
    (\<exists>alloc'. resetIp alloc c a = Ok alloc' \<and> wf_alloc n pool alloc')"
proof
  have "allocateAddress pool alloc req c c =
      (if req = DynamicAllocType then allocateDynamic pool alloc (Some n) (Some n)
       else allocateStatic pool alloc req c (Some n) (Some n))"
    using c req wf_alloc_nonempty [OF wf] by (simp add: allocateAddress_def)
  then show "(\<exists>err. allocateAddress pool alloc req c c = Err err) \<or>
      (\<exists>alloc' ip pool'. allocateAddress pool alloc req c c = Ok (alloc', ip, pool') \<and> wf_alloc n pool' alloc')"
    using dynamic_safe [OF n wf] static_safe [OF n wf] by auto
  show "\<exists>alloc'. resetIp alloc c a = Ok alloc' \<and> wf_alloc n pool alloc'"
    by (rule release_safe [OF c n wf])
qed

theorem allocator_type_safe_witness:
  "\<exists>alloc'. resetIp demo_alloc ''10.0.0.0/29'' (addr_of ''10.0.0.6/29'') = Ok alloc' \<and> wf_alloc demo_net demo_pool alloc'"
proof -
  have wf: "wf_alloc demo_net demo_pool demo_alloc" by (simp add: wf_alloc_def demo_facts)
  have "DynamicAllocType \<noteq> NoneAllocType" by (simp add: alloc_type_defs)
  from allocator_type_safe [OF demo_parse demo_usable wf this] show ?thesis by blast
qed

end
