(* ===== verification/NetControl.thy ===== *)
theory NetControl
  imports DanmTypes
begin

text \<open>
  The API half of \<^verbatim>\<open>pkg/netcontrol/netcontrol.go\<close>: conversions between the
  three network kinds, finding the network an interface request, an endpoint or a network
  object refers to, and writing a network back under the API server's optimistic lock.
\<close>

section \<open>Conversions\<close>

definition ConvertTnetToDnet :: "DanmNet \<Rightarrow> DanmNet" where
  "ConvertTnetToDnet tnet = tnet\<lparr>dn_Kind := TenantNetworkKind\<rparr>"

definition ConvertCnetToDnet :: "DanmNet \<Rightarrow> DanmNet" where
  "ConvertCnetToDnet cnet = cnet\<lparr>dn_Kind := ClusterNetworkKind\<rparr>"

definition ConvertDnetToTnet :: "DanmNet \<Rightarrow> DanmNet" where
  "ConvertDnetToTnet dnet = dnet"

definition ConvertDnetToCnet :: "DanmNet \<Rightarrow> DanmNet" where
  "ConvertDnetToCnet dnet = dnet"

section \<open>Reading and writing networks\<close>

text \<open>The result tells whether somebody else changed the object since it was read.\<close>

definition PutNetwork :: "'w DanmClient \<Rightarrow> DanmNet \<Rightarrow> ('w, bool) st" where
  "PutNetwork danmClient dnet w =
     (let ns = mt_Namespace (dn_Meta dnet);
          upd = (if dn_Kind dnet = DanmNetKind \<or> dn_Kind dnet = []
                 then Some (api_net_update danmClient DanmNets ns dnet w)
                 else if dn_Kind dnet = TenantNetworkKind
                 then Some (api_net_update danmClient TenantNetworks ns (ConvertDnetToTnet dnet) w)
                 else if dn_Kind dnet = ClusterNetworkKind
                 then Some (api_net_update danmClient ClusterNetworks [] (ConvertDnetToCnet dnet) w)
                 else None)
      in case upd of
           None \<Rightarrow> (Err (InvalidNetType (dn_Kind dnet)), w)
         | Some (None, w') \<Rightarrow> (Ok False, w')
         | Some (Some msg, w') \<Rightarrow>
             (if contains msg OptimisticLockErrorMsg then (Ok True, w') else (Err (ApiError msg), w')))"

text \<open>One lookup by name; a result of another name counts as a miss.\<close>

definition get_named :: "'w DanmClient \<Rightarrow> net_api \<Rightarrow> string \<Rightarrow> string \<Rightarrow> 'w \<Rightarrow> DanmNet option \<times> 'w" where
  "get_named danmClient api ns name w =
     (case api_net_get danmClient api ns name w of
        (Inr dnet, w') \<Rightarrow> (if mt_Name (dn_Meta dnet) = name then Some dnet else None, w')
      | (Inl _, w') \<Rightarrow> (None, w'))"

definition GetDefaultNetwork :: "'w DanmClient \<Rightarrow> string \<Rightarrow> string \<Rightarrow> ('w, DanmNet) st" where
  "GetDefaultNetwork danmClient defaultNetworkName nameSpace w =
     (case get_named danmClient DanmNets nameSpace defaultNetworkName w of
        (Some dnet, w1) \<Rightarrow> (Ok dnet, w1)
      | (None, w1) \<Rightarrow>
          (case get_named danmClient TenantNetworks nameSpace defaultNetworkName w1 of
             (Some tnet, w2) \<Rightarrow> (Ok (ConvertTnetToDnet tnet), w2)
           | (None, w2) \<Rightarrow>
               (case get_named danmClient ClusterNetworks [] defaultNetworkName w2 of
                  (Some cnet, w3) \<Rightarrow> (Ok (ConvertCnetToDnet cnet), w3)
                | (None, w3) \<Rightarrow> (Err NoDefaultNetwork, w3))))"

definition GetNetworkFromInterface :: "'w DanmClient \<Rightarrow> Interface \<Rightarrow> string \<Rightarrow> ('w, DanmNet) st" where
  "GetNetworkFromInterface danmClient iface nameSpace w =
     (if ifc_Network iface \<noteq> [] then
        (case get_named danmClient DanmNets nameSpace (ifc_Network iface) w of
           (Some dnet, w') \<Rightarrow> (Ok (dnet\<lparr>dn_Kind := DanmNetKind\<rparr>), w')
         | (None, w') \<Rightarrow> (Err (NetNotFound (ifc_Network iface) DanmNetKind nameSpace), w'))
      else if ifc_TenantNetwork iface \<noteq> [] then
        (case get_named danmClient TenantNetworks nameSpace (ifc_TenantNetwork iface) w of
           (Some tnet, w') \<Rightarrow> (Ok (ConvertTnetToDnet tnet), w')
         | (None, w') \<Rightarrow> (Err (NetNotFound (ifc_TenantNetwork iface) TenantNetworkKind nameSpace), w'))
      else if ifc_ClusterNetwork iface \<noteq> [] then
        (case get_named danmClient ClusterNetworks [] (ifc_ClusterNetwork iface) w of
           (Some cnet, w') \<Rightarrow> (Ok (ConvertCnetToDnet cnet), w')
         | (None, w') \<Rightarrow> (Err (NetNotFound (ifc_ClusterNetwork iface) ClusterNetworkKind nameSpace), w'))
      else (Err (NetNotFound [] [] nameSpace), w))"

text \<open>The interface request that names a network of a kind; the empty kind means DanmNet.\<close>

definition dummy_iface :: "string \<Rightarrow> string \<Rightarrow> Interface" where
  "dummy_iface kind name =
     (let i0 = empty_iface;
          i1 = (if kind = DanmNetKind \<or> kind = [] then i0\<lparr>ifc_Network := name\<rparr> else i0);
          i2 = (if kind = TenantNetworkKind then i1\<lparr>ifc_TenantNetwork := name\<rparr> else i1)
      in if kind = ClusterNetworkKind then i2\<lparr>ifc_ClusterNetwork := name\<rparr> else i2)"

definition GetNetworkFromEp :: "'w DanmClient \<Rightarrow> DanmEp \<Rightarrow> ('w, DanmNet) st" where
  "GetNetworkFromEp danmClient ep =
     GetNetworkFromInterface danmClient
       (dummy_iface (ep_ApiType (ep_Spec ep)) (ep_NetworkName (ep_Spec ep))) (mt_Namespace (ep_Meta ep))"

definition RefreshNetwork :: "'w DanmClient \<Rightarrow> DanmNet \<Rightarrow> ('w, DanmNet) st" where
  "RefreshNetwork danmClient netInfo =
     GetNetworkFromInterface danmClient
       (dummy_iface (dn_Kind netInfo) (mt_Name (dn_Meta netInfo))) (mt_Namespace (dn_Meta netInfo))"

definition DetermineHostDeviceName :: "DanmNet \<Rightarrow> string" where
  "DetermineHostDeviceName dnet =
     (if Vxlan (opts dnet) \<noteq> 0 then ''vx_'' @ NetworkID (dn_Spec dnet)
      else if Vlan (opts dnet) \<noteq> 0 then NetworkID (dn_Spec dnet) @ ''.'' @ itoa (Vlan (opts dnet))
      else Device (opts dnet))"

text \<open>The network API a kind names, and the namespace its objects are looked up in.\<close>

definition api_of_kind :: "string \<Rightarrow> net_api option" where
  "api_of_kind kind =
     (if kind = DanmNetKind \<or> kind = [] then Some DanmNets
      else if kind = TenantNetworkKind then Some TenantNetworks
      else if kind = ClusterNetworkKind then Some ClusterNetworks
      else None)"

definition api_scope :: "net_api \<Rightarrow> string \<Rightarrow> string" where
  "api_scope api ns = (if api = ClusterNetworks then [] else ns)"

definition api_kind :: "net_api \<Rightarrow> string" where
  "api_kind api = (case api of DanmNets \<Rightarrow> DanmNetKind | TenantNetworks \<Rightarrow> TenantNetworkKind
                   | ClusterNetworks \<Rightarrow> ClusterNetworkKind)"

section \<open>Properties\<close>

lemma kinds_distinct [simp]:
  "DanmNetKind \<noteq> TenantNetworkKind" "DanmNetKind \<noteq> ClusterNetworkKind"
  "TenantNetworkKind \<noteq> DanmNetKind" "TenantNetworkKind \<noteq> ClusterNetworkKind"
  "ClusterNetworkKind \<noteq> DanmNetKind" "ClusterNetworkKind \<noteq> TenantNetworkKind"
  "DanmNetKind \<noteq> []" "TenantNetworkKind \<noteq> []" "ClusterNetworkKind \<noteq> []"
  by (simp_all add: kind_defs)

lemma api_of_kind_simps [simp]:
  "api_of_kind [] = Some DanmNets" "api_of_kind DanmNetKind = Some DanmNets"
  "api_of_kind TenantNetworkKind = Some TenantNetworks"
  "api_of_kind ClusterNetworkKind = Some ClusterNetworks"
  by (simp_all add: api_of_kind_def)

lemma api_of_api_kind [simp]: "api_of_kind (api_kind api) = Some api"
  by (cases api) (simp_all add: api_kind_def)

lemma PutNetwork_eq:
  "PutNetwork danmClient dnet w =
     (case api_of_kind (dn_Kind dnet) of
        None \<Rightarrow> (Err (InvalidNetType (dn_Kind dnet)), w)
      | Some api \<Rightarrow>
          (case api_net_update danmClient api (api_scope api (mt_Namespace (dn_Meta dnet))) dnet w of
             (None, w') \<Rightarrow> (Ok False, w')
           | (Some msg, w') \<Rightarrow>
               (if contains msg OptimisticLockErrorMsg then Ok True else Err (ApiError msg), w')))"
  by (auto simp: PutNetwork_def Let_def api_of_kind_def api_scope_def ConvertDnetToTnet_def
      ConvertDnetToCnet_def split: option.splits prod.splits)

lemma dummy_iface_simps:
  "ifc_Network (dummy_iface kind name) = (if kind = DanmNetKind \<or> kind = [] then name else [])"
  "ifc_TenantNetwork (dummy_iface kind name) = (if kind = TenantNetworkKind then name else [])"
  "ifc_ClusterNetwork (dummy_iface kind name) = (if kind = ClusterNetworkKind then name else [])"
  by (auto simp: dummy_iface_def Let_def empty_iface_def)

lemma GetNetworkFromInterface_dummy:
  "name \<noteq> [] \<Longrightarrow> GetNetworkFromInterface danmClient (dummy_iface kind name) ns w =
     (case api_of_kind kind of
        None \<Rightarrow> (Err (NetNotFound [] [] ns), w)
      | Some api \<Rightarrow>
          (case get_named danmClient api (api_scope api ns) name w of
             (Some n, w') \<Rightarrow> (Ok (n\<lparr>dn_Kind := api_kind api\<rparr>), w')
           | (None, w') \<Rightarrow> (Err (NetNotFound name (api_kind api) ns), w')))"
  by (auto simp: GetNetworkFromInterface_def dummy_iface_simps api_of_kind_def api_scope_def
      api_kind_def ConvertTnetToDnet_def ConvertCnetToDnet_def split: option.splits prod.splits)

lemma RefreshNetwork_eq:
  "mt_Name (dn_Meta n) \<noteq> [] \<Longrightarrow> RefreshNetwork danmClient n w =
     (case api_of_kind (dn_Kind n) of
        None \<Rightarrow> (Err (NetNotFound [] [] (mt_Namespace (dn_Meta n))), w)
      | Some api \<Rightarrow>
          (case get_named danmClient api (api_scope api (mt_Namespace (dn_Meta n))) (mt_Name (dn_Meta n)) w of
             (Some m, w') \<Rightarrow> (Ok (m\<lparr>dn_Kind := api_kind api\<rparr>), w')
           | (None, w') \<Rightarrow>
               (Err (NetNotFound (mt_Name (dn_Meta n)) (api_kind api) (mt_Namespace (dn_Meta n))), w')))"
  by (simp add: RefreshNetwork_def GetNetworkFromInterface_dummy)

text \<open>The fields of a network request name one network kind: the first non-empty one.\<close>

definition requested :: "Interface \<Rightarrow> (net_api \<times> string) option" where
  "requested iface =
     (if ifc_Network iface \<noteq> [] then Some (DanmNets, ifc_Network iface)
      else if ifc_TenantNetwork iface \<noteq> [] then Some (TenantNetworks, ifc_TenantNetwork iface)
      else if ifc_ClusterNetwork iface \<noteq> [] then Some (ClusterNetworks, ifc_ClusterNetwork iface)
      else None)"

lemma GetNetworkFromInterface_requested:
  "GetNetworkFromInterface danmClient iface ns w =
     (case requested iface of
        None \<Rightarrow> (Err (NetNotFound [] [] ns), w)
      | Some (api, name) \<Rightarrow>
          (case get_named danmClient api (api_scope api ns) name w of
             (Some n, w') \<Rightarrow> (Ok (n\<lparr>dn_Kind := api_kind api\<rparr>), w')
           | (None, w') \<Rightarrow> (Err (NetNotFound name (api_kind api) ns), w')))"
  by (auto simp: GetNetworkFromInterface_def requested_def api_scope_def api_kind_def
      ConvertTnetToDnet_def ConvertCnetToDnet_def split: option.splits prod.splits)

lemma get_named_name: "get_named danmClient api ns name w = (Some n, w') \<Longrightarrow> mt_Name (dn_Meta n) = name"
  by (auto simp: get_named_def split: prod.splits sum.splits if_splits)

end
