(* ===== verification/Locking.thy ===== *)
theory Locking
  imports DanmTypes
begin

text \<open>
  Two contracts of the optimistic lock that every writer of a shared API object relies on. A
  \<open>retry_loop\<close> writes, and after a conflict does the same again with the object it read
  instead; a \<open>versioned_store\<close> accepts a write only of the version it stores and gives every
  accepted write a version that was never there before.
\<close>

section \<open>Loops that retry after a conflict\<close>

text \<open>
  One pass of a loop: \<open>Inl\<close> the object and the world to go on with, or \<open>Inr\<close> the
  outcome. The second law makes the loop the least one with its equation: what it returns is the
  outcome of its last pass, which it reached by conflicts.
\<close>

inductive conflicts :: "('s \<Rightarrow> 'w \<Rightarrow> ('s \<times> 'w) + 'r) \<Rightarrow> 's \<times> 'w \<Rightarrow> 's \<times> 'w \<Rightarrow> bool" for attempt where
  none: "conflicts attempt c c"
| more: "attempt s w = Inl c \<Longrightarrow> conflicts attempt c d \<Longrightarrow> conflicts attempt (s, w) d"

lemma conflicts_step:
  assumes "(case attempt s w of Inl (s', w') \<Rightarrow> rest s' w' | Inr r \<Rightarrow> Some r) = Some r"
    and "\<And>s' w'. rest s' w' = Some r \<Longrightarrow> \<exists>t u. conflicts attempt (s', w') (t, u) \<and> attempt t u = Inr r"
  shows "\<exists>t u. conflicts attempt (s, w) (t, u) \<and> attempt t u = Inr r"
proof (cases "attempt s w")
  case (Inl c)
  obtain s' w' where c: "c = (s', w')" by (cases c)
  with assms(2) [of s' w'] assms(1) Inl show ?thesis by (auto intro: conflicts.more)
next
  case (Inr y)
  with assms(1) show ?thesis by (auto intro: conflicts.none)
qed

locale retry_loop =
  fixes loop :: "'s \<Rightarrow> 'w \<Rightarrow> 'r option"
    and attempt :: "'s \<Rightarrow> 'w \<Rightarrow> ('s \<times> 'w) + 'r"
  assumes unfold: "loop s w = (case attempt s w of Inl (s', w') \<Rightarrow> loop s' w' | Inr r \<Rightarrow> Some r)"
    and last_pass: "loop s w = Some r \<Longrightarrow> \<exists>s' w'. conflicts attempt (s, w) (s', w') \<and> attempt s' w' = Inr r"
begin

lemma returns:
  assumes "\<And>s w s' w'. attempt s w = Inl (s', w') \<Longrightarrow> \<mu> s' w' < (\<mu> s w :: nat)"
  shows "\<exists>r. loop s w = Some r"
proof (induction "\<mu> s w" arbitrary: s w rule: less_induct)
  case less
  show ?case
  proof (cases "attempt s w")
    case (Inl c)
    obtain s' w' where c: "c = (s', w')" by (cases c)
    have "\<exists>r. loop s' w' = Some r" using less assms Inl c by blast
    then show ?thesis by (subst unfold) (simp add: Inl c)
  next
    case (Inr r)
    then show ?thesis by (subst unfold) simp
  qed
qed

lemma result_iff:
  "loop s w = Some r \<longleftrightarrow> (\<exists>s' w'. conflicts attempt (s, w) (s', w') \<and> attempt s' w' = Inr r)"
proof
  assume "\<exists>s' w'. conflicts attempt (s, w) (s', w') \<and> attempt s' w' = Inr r"
  then obtain c d where steps: "conflicts attempt c d" and c: "c = (s, w)" and d: "attempt (fst d) (snd d) = Inr r"
    by auto
  from steps have "loop (fst c) (snd c) = loop (fst d) (snd d)"
  proof (induction rule: conflicts.induct)
    case (none c)
    then show ?case by simp
  next
    case (more s w c d)
    have "loop s w = loop (fst c) (snd c)" by (subst unfold) (simp add: more.hyps(1) split: prod.split)
    with more.IH show ?case by simp
  qed
  moreover have "loop (fst d) (snd d) = Some r" by (subst unfold) (simp add: d)
  ultimately show "loop s w = Some r" using c by simp
qed (rule last_pass)

text \<open>The loop hangs exactly when its passes meet one conflict after the other for ever.\<close>

lemma hangs_iff:
  "loop s w = None \<longleftrightarrow> (\<exists>f. f 0 = (s, w) \<and> (\<forall>i. attempt (fst (f i)) (snd (f i)) = Inl (f (Suc i))))"
proof
  assume hang: "loop s w = None"
  let ?next = "\<lambda>c. case attempt (fst c) (snd c) of Inl d \<Rightarrow> d | Inr _ \<Rightarrow> c"
  let ?f = "\<lambda>i. (?next ^^ i) (s, w)"
  have step: "attempt (fst c) (snd c) = Inl (?next c) \<and> loop (fst (?next c)) (snd (?next c)) = None"
    if "loop (fst c) (snd c) = None" for c
    using that by (subst (asm) unfold) (auto split: sum.splits)
  have "loop (fst (?f i)) (snd (?f i)) = None" for i
    by (induction i) (use hang step in auto)
  with step have "attempt (fst (?f i)) (snd (?f i)) = Inl (?f (Suc i))" for i by simp
  then show "\<exists>f. f 0 = (s, w) \<and> (\<forall>i. attempt (fst (f i)) (snd (f i)) = Inl (f (Suc i)))"
    by (intro exI [of _ ?f]) simp
next
  assume "\<exists>f. f 0 = (s, w) \<and> (\<forall>i. attempt (fst (f i)) (snd (f i)) = Inl (f (Suc i)))"
  then obtain f where f: "f 0 = (s, w)" "\<And>i. attempt (fst (f i)) (snd (f i)) = Inl (f (Suc i))" by blast
  have chain: "c = f i \<longrightarrow> (\<exists>j. d = f j)" if "conflicts attempt c d" for c d i
    using that
  proof (induction arbitrary: i rule: conflicts.induct)
    case (more s w c d)
    show ?case
    proof
      assume "(s, w) = f i"
      then have "c = f (Suc i)" using more.hyps(1) f(2) [of i] by (metis Inl_inject fst_conv snd_conv)
      with more.IH [of "Suc i"] show "\<exists>j. d = f j" by simp
    qed
  qed auto
  show "loop s w = None"
  proof (cases "loop s w")
    case (Some r)
    then obtain s' w' where d: "conflicts attempt (s, w) (s', w')" "attempt s' w' = Inr r" using last_pass by blast
    then obtain j where "(s', w') = f j" using chain [OF d(1), of 0] f(1) by auto
    with d(2) f(2) [of j] show ?thesis by (metis Inl_Inr_False fst_conv snd_conv)
  qed
qed

end

section \<open>Stores with optimistic locking\<close>

text \<open>
  \<open>accept n w\<close> is the stored object after an update of \<open>w\<close> by \<open>n\<close> was accepted. \<open>age\<close> measures
  versions, \<open>body\<close> is the part of an object that its users compute with.
\<close>

locale versioned_store =
  fixes accept :: "'o \<Rightarrow> 'o \<Rightarrow> 'o option"
    and version :: "'o \<Rightarrow> 'v"
    and age :: "'v \<Rightarrow> nat"
    and body :: "'o \<Rightarrow> 'b"
  assumes stale: "accept n w = Some w' \<Longrightarrow> version n = version w"
    and stored: "accept n w = Some w' \<Longrightarrow> body w' = body n"
    and newer: "accept n w = Some w' \<Longrightarrow> age (version w) < age (version w')"
begin

text \<open>A copy somebody holds was read from the store at its version, now or earlier.\<close>

definition copy_of :: "'o \<Rightarrow> 'o \<Rightarrow> bool" where
  "copy_of w c \<longleftrightarrow> age (version c) \<le> age (version w) \<and> (version c = version w \<longrightarrow> body c = body w)"

lemma copy_refl: "version c = version w \<Longrightarrow> body c = body w \<Longrightarrow> copy_of w c"
  by (simp add: copy_of_def)

text \<open>Copies stay copies when somebody else's write is accepted.\<close>

lemma copy_after_write: "copy_of w c \<Longrightarrow> accept n w = Some w' \<Longrightarrow> copy_of w' c"
  using newer [of n w w'] by (auto simp: copy_of_def)

text \<open>A write that was accepted was computed from the stored body: nobody's update is lost.\<close>

lemma no_lost_update:
  assumes "copy_of w c" and "version n = version c" and "accept n w = Some w'"
  shows "body c = body w"
  using assms stale [OF assms(3)] by (simp add: copy_of_def)

lemma copies_after_write:
  assumes "\<And>c. c \<in> C \<Longrightarrow> copy_of w c" and "accept n w = Some w'" and "c \<in> C"
  shows "copy_of w' c"
  using assms copy_after_write by blast

end

end
