(* ===== verification/IpamApi.thy ===== *)
theory IpamApi
  imports IpamAlloc NetControl Locking
begin

text \<open>
  The API half of \<^verbatim>\<open>pkg/ipam/ipam.go\<close>: \<open>Reserve\<close> and \<open>Free\<close> change a
  copy of a network object and write it back; when the API server reports that somebody else
  changed the object, they read it again and retry. The retry loops are
  \<open>partial_function\<close>s on the world the client acts on; they end when conflicts do.
\<close>

section \<open>Writing back\<close>

text \<open>The result is the network to retry with, when the write met a conflict.\<close>

definition updateIpAllocation :: "'w DanmClient \<Rightarrow> DanmNet \<Rightarrow> ('w, DanmNet option) st" where
  "updateIpAllocation danmClient netInfo w =
     (case PutNetwork danmClient netInfo w of
        (Ok resourceConflicted, w1) \<Rightarrow>
          if resourceConflicted then
            (case RefreshNetwork danmClient netInfo w1 of
               (Ok newNetSpec, w2) \<Rightarrow> (Ok (Some newNetSpec), w2)
             | (_, w2) \<Rightarrow> (Err RefreshFailed, w2))
          else (Ok None, w1)
      | (Err e, w1) \<Rightarrow> (Err (UpdateFailed e), w1)
      | (Panic, w1) \<Rightarrow> (Panic, w1)
      | (Hang, w1) \<Rightarrow> (Hang, w1))"

section \<open>Reserve\<close>

partial_function (option) Reserve_loop ::
  "go_cidr \<Rightarrow> 'w DanmClient \<Rightarrow> DanmNet \<Rightarrow> string \<Rightarrow> string \<Rightarrow> DanmNet \<Rightarrow> 'w \<Rightarrow> ((string \<times> string) res \<times> 'w) option" where
  "Reserve_loop gc danmClient netInfo req4 req6 tempNet w =
     (case allocateIps gc tempNet req4 req6 of
        Ok (ip4, ip6, changed) \<Rightarrow>
          if deep_equal_spec (dn_Spec netInfo) (dn_Spec changed) then Some (Ok (ip4, ip6), w)
          else (case updateIpAllocation danmClient changed w of
                  (Ok None, w') \<Rightarrow> Some (Ok (ip4, ip6), w')
                | (Ok (Some newNetSpec), w') \<Rightarrow> Reserve_loop gc danmClient netInfo req4 req6 newNetSpec w'
                | (Err e, w') \<Rightarrow> Some (Err e, w')
                | (Panic, w') \<Rightarrow> Some (Panic, w')
                | (Hang, w') \<Rightarrow> Some (Hang, w'))
      | Err e \<Rightarrow> Some (Err (AllocationFailed (mt_Name (dn_Meta netInfo)) e), w)
      | Panic \<Rightarrow> Some (Panic, w)
      | Hang \<Rightarrow> Some (Hang, w))"

definition run_loop :: "('a res \<times> 'w) option \<Rightarrow> 'w \<Rightarrow> 'a res \<times> 'w" where
  "run_loop r w = (case r of None \<Rightarrow> (Hang, w) | Some x \<Rightarrow> x)"

definition Reserve ::
  "go_cidr \<Rightarrow> 'w DanmClient \<Rightarrow> DanmNet \<Rightarrow> string \<Rightarrow> string \<Rightarrow> ('w, string \<times> string) st" where
  "Reserve gc danmClient netInfo req4 req6 w =
     run_loop (Reserve_loop gc danmClient netInfo req4 req6 netInfo w) w"

section \<open>Free\<close>

definition free_ip :: "ip \<Rightarrow> DanmNet \<Rightarrow> DanmNet res" where
  "free_ip a tempNet =
     (if To4 a \<noteq> []
      then bind_res (resetIp (Alloc (opts tempNet)) (Cidr (opts tempNet)) a)
             (\<lambda>al. Ok (set_opts (\<lambda>oo. oo\<lparr>Alloc := al\<rparr>) tempNet))
      else bind_res (resetIp (Alloc6 (opts tempNet)) (PoolCidr (Pool6 (opts tempNet))) a)
             (\<lambda>al. Ok (set_opts (\<lambda>oo. oo\<lparr>Alloc6 := al\<rparr>) tempNet)))"

partial_function (option) Free_loop ::
  "'w DanmClient \<Rightarrow> DanmNet \<Rightarrow> ip \<Rightarrow> DanmNet \<Rightarrow> 'w \<Rightarrow> (unit res \<times> 'w) option" where
  "Free_loop danmClient netInfo a tempNet w =
     (case free_ip a tempNet of
        Ok changed \<Rightarrow>
          if deep_equal_spec (dn_Spec netInfo) (dn_Spec changed) then Some (Ok (), w)
          else (case updateIpAllocation danmClient changed w of
                  (Ok None, w') \<Rightarrow> Some (Ok (), w')
                | (Ok (Some newNet), w') \<Rightarrow> Free_loop danmClient netInfo a newNet w'
                | (Err e, w') \<Rightarrow> Some (Err e, w')
                | (Panic, w') \<Rightarrow> Some (Panic, w')
                | (Hang, w') \<Rightarrow> Some (Hang, w'))
      | Err e \<Rightarrow> Some (Err e, w)
      | Panic \<Rightarrow> Some (Panic, w)
      | Hang \<Rightarrow> Some (Hang, w))"

definition Free :: "'w DanmClient \<Rightarrow> DanmNet \<Rightarrow> string \<Rightarrow> ('w, unit) st" where
  "Free danmClient netInfo rip w =
     (if rip = NoneAllocType \<or> rip = [] then (Ok (), w)
      else run_loop (Free_loop danmClient netInfo (addr_of rip) netInfo w) w)"

definition GarbageCollectIps :: "'w DanmClient \<Rightarrow> DanmNet \<Rightarrow> string \<Rightarrow> string \<Rightarrow> ('w, unit) st" where
  "GarbageCollectIps danmClient netInfo ip4 ip6 =
     bind_st (Free danmClient netInfo ip4) (\<lambda>_. Free danmClient netInfo ip6)"

section \<open>Conflicts and termination\<close>

abbreviation rv :: "DanmNet \<Rightarrow> string" where
  "rv n \<equiv> mt_ResourceVersion (dn_Meta n)"

text \<open>
  \<open>conflicts_end\<close>: a measure of the version a client holds and of the world falls with
  every write that meets a conflict and is followed by a read, so that a client meets only
  finitely many conflicts in a row.
\<close>

definition conflicts_end :: "'w DanmClient \<Rightarrow> (string \<Rightarrow> 'w \<Rightarrow> nat) \<Rightarrow> bool" where
  "conflicts_end danmClient \<mu> \<longleftrightarrow>
     (\<forall>n w m w'. updateIpAllocation danmClient n w = (Ok (Some m), w') \<longrightarrow> \<mu> (rv m) w' < \<mu> (rv n) w)"

lemma InitV6PoolCidr_meta:
  assumes "InitV6PoolCidr gc n = Ok m"
  shows "dn_Meta m = dn_Meta n"
proof (cases "Net6 (opts n) = [] \<or> PoolCidr (Pool6 (opts n)) \<noteq> []")
  case True
  with assms show ?thesis by (simp add: InitV6PoolCidr_def)
next
  case False
  show ?thesis
  proof (cases "parse_net (Net6 (opts n))")
    case None
    with assms False show ?thesis by (simp add: InitV6PoolCidr_def)
  next
    case (Some k)
    then show ?thesis
      using assms False unfolding InitV6PoolCidr_def Let_def
      by (simp del: bind_res_Ok_iff) (erule bind_resE, auto)
  qed
qed

lemma InitV6AllocFields_meta:
  assumes "InitV6AllocFields gc n = Ok m"
  shows "dn_Meta m = dn_Meta n"
proof -
  obtain k where k: "InitV6PoolCidr gc n = Ok k"
    and m: "bind_res (InitAllocPool gc (PoolCidr (Pool6 (opts k))) (Start (Pool6 (opts k)))
        (End (Pool6 (opts k))) (Alloc6 (opts k)) (Routes6 (opts k)))
      (\<lambda>(s, e, a). Ok (set_opts (\<lambda>oo. oo\<lparr>Pool6 := (Pool6 (opts k))\<lparr>Start := s, End := e\<rparr>, Alloc6 := a\<rparr>) k)) = Ok m"
    using assms unfolding InitV6AllocFields_def Let_def by (rule bind_resE)
  from m obtain t where "(case t of (s, e, a) \<Rightarrow>
      Ok (set_opts (\<lambda>oo. oo\<lparr>Pool6 := (Pool6 (opts k))\<lparr>Start := s, End := e\<rparr>, Alloc6 := a\<rparr>) k)) = Ok m"
    by (rule bind_resE)
  then have "dn_Meta m = dn_Meta k" by (cases t) (auto simp del: bind_res_Ok_iff)
  with InitV6PoolCidr_meta [OF k] show ?thesis by simp
qed

lemma allocate4_meta:
  assumes "allocate4 n req4 = Ok (ip4, m)"
  shows "dn_Meta m = dn_Meta n"
  using assms unfolding allocate4_def
  by (auto split: if_splits simp del: bind_res_Ok_iff elim!: bind_resE)

lemma allocate6_meta:
  assumes "allocate6 gc n req6 = Ok (ip6, m)"
  shows "dn_Meta m = dn_Meta n"
proof (cases "req6 = []")
  case True
  with assms show ?thesis by (simp add: allocate6_def)
next
  case False
  with assms obtain n6 where n6: "(if Net6 (opts n) \<noteq> [] \<and> PoolCidr (Pool6 (opts n)) = []
      then InitV6AllocFields gc n else Ok n) = Ok n6"
    and m: "bind_res (allocateAddress \<lparr>Start = Start (Pool6 (opts n6)), End = End (Pool6 (opts n6)),
        LastIp = LastIp (Pool6 (opts n6))\<rparr> (Alloc6 (opts n6)) req6 (PoolCidr (Pool6 (opts n6))) (Net6 (opts n6)))
      (\<lambda>(a, ip, p). Ok (ip, set_opts (\<lambda>oo. oo\<lparr>Alloc6 := a, Pool6 := (Pool6 (opts n6))\<lparr>LastIp := LastIp p\<rparr>\<rparr>) n6))
      = Ok (ip6, m)"
    unfolding allocate6_def Let_def by (auto simp del: bind_res_Ok_iff elim!: bind_resE [where y = "(ip6, m)"])
  from m have "dn_Meta m = dn_Meta n6" by (rule bind_resE) (auto split: prod.splits)
  moreover have "dn_Meta n6 = dn_Meta n"
    using n6 by (cases "Net6 (opts n) \<noteq> [] \<and> PoolCidr (Pool6 (opts n)) = []")
      (simp_all add: InitV6AllocFields_meta)
  ultimately show ?thesis by simp
qed

lemma allocateIps_meta:
  assumes "allocateIps gc n req4 req6 = Ok (ip4, ip6, changed)"
  shows "dn_Meta changed = dn_Meta n"
proof -
  obtain n4 where "allocate4 n req4 = Ok (ip4, n4)" "allocate6 gc n4 req6 = Ok (ip6, changed)"
    using assms unfolding allocateIps_def by (auto split: prod.splits)
  with allocate4_meta allocate6_meta show ?thesis by metis
qed

lemma free_ip_meta: "free_ip a n = Ok changed \<Longrightarrow> dn_Meta changed = dn_Meta n"
  by (auto simp: free_ip_def split: if_splits)

section \<open>The loops as retries\<close>

text \<open>One pass of each loop: it goes on only after a conflict, with the object read again.\<close>

definition reserve_pass ::
  "go_cidr \<Rightarrow> 'w DanmClient \<Rightarrow> DanmNet \<Rightarrow> string \<Rightarrow> string \<Rightarrow> DanmNet \<Rightarrow> 'w \<Rightarrow>
   (DanmNet \<times> 'w) + ((string \<times> string) res \<times> 'w)" where
  "reserve_pass gc danmClient netInfo req4 req6 tempNet w =
     (case allocateIps gc tempNet req4 req6 of
        Ok (ip4, ip6, changed) \<Rightarrow>
          if deep_equal_spec (dn_Spec netInfo) (dn_Spec changed) then Inr (Ok (ip4, ip6), w)
          else (case updateIpAllocation danmClient changed w of
                  (Ok None, w') \<Rightarrow> Inr (Ok (ip4, ip6), w')
                | (Ok (Some newNetSpec), w') \<Rightarrow> Inl (newNetSpec, w')
                | (Err e, w') \<Rightarrow> Inr (Err e, w')
                | (Panic, w') \<Rightarrow> Inr (Panic, w')
                | (Hang, w') \<Rightarrow> Inr (Hang, w'))
      | Err e \<Rightarrow> Inr (Err (AllocationFailed (mt_Name (dn_Meta netInfo)) e), w)
      | Panic \<Rightarrow> Inr (Panic, w)
      | Hang \<Rightarrow> Inr (Hang, w))"

definition free_pass ::
  "'w DanmClient \<Rightarrow> DanmNet \<Rightarrow> ip \<Rightarrow> DanmNet \<Rightarrow> 'w \<Rightarrow> (DanmNet \<times> 'w) + (unit res \<times> 'w)" where
  "free_pass danmClient netInfo a tempNet w =
     (case free_ip a tempNet of
        Ok changed \<Rightarrow>
          if deep_equal_spec (dn_Spec netInfo) (dn_Spec changed) then Inr (Ok (), w)
          else (case updateIpAllocation danmClient changed w of
                  (Ok None, w') \<Rightarrow> Inr (Ok (), w')
                | (Ok (Some newNet), w') \<Rightarrow> Inl (newNet, w')
                | (Err e, w') \<Rightarrow> Inr (Err e, w')
                | (Panic, w') \<Rightarrow> Inr (Panic, w')
                | (Hang, w') \<Rightarrow> Inr (Hang, w'))
      | Err e \<Rightarrow> Inr (Err e, w)
      | Panic \<Rightarrow> Inr (Panic, w)
      | Hang \<Rightarrow> Inr (Hang, w))"

lemma Reserve_loop_pass:
  "Reserve_loop gc danmClient netInfo req4 req6 tempNet w =
     (case reserve_pass gc danmClient netInfo req4 req6 tempNet w of
        Inl (m, w') \<Rightarrow> Reserve_loop gc danmClient netInfo req4 req6 m w' | Inr r \<Rightarrow> Some r)"
  by (subst Reserve_loop.simps) (auto simp: reserve_pass_def split: res.splits option.splits prod.splits)

lemma Free_loop_pass:
  "Free_loop danmClient netInfo a tempNet w =
     (case free_pass danmClient netInfo a tempNet w of
        Inl (m, w') \<Rightarrow> Free_loop danmClient netInfo a m w' | Inr r \<Rightarrow> Some r)"
  by (subst Free_loop.simps) (auto simp: free_pass_def split: res.splits option.splits prod.splits)

interpretation reserving: retry_loop
  "Reserve_loop gc danmClient netInfo req4 req6" "reserve_pass gc danmClient netInfo req4 req6"
  for gc danmClient netInfo req4 req6
proof
  fix s w r
  show "Reserve_loop gc danmClient netInfo req4 req6 s w =
     (case reserve_pass gc danmClient netInfo req4 req6 s w of
        Inl (m, w') \<Rightarrow> Reserve_loop gc danmClient netInfo req4 req6 m w' | Inr r \<Rightarrow> Some r)"
    by (rule Reserve_loop_pass)
  assume "Reserve_loop gc danmClient netInfo req4 req6 s w = Some r"
  then show "\<exists>s' w'. conflicts (reserve_pass gc danmClient netInfo req4 req6) (s, w) (s', w') \<and> reserve_pass gc danmClient netInfo req4 req6 s' w' = Inr r"
  proof (rule Reserve_loop.raw_induct [where P = "\<lambda>gc danmClient netInfo req4 req6 s w r.
      \<exists>s' w'. conflicts (reserve_pass gc danmClient netInfo req4 req6) (s, w) (s', w') \<and> reserve_pass gc danmClient netInfo req4 req6 s' w' = Inr r", rotated], goal_cases)
    case (1 loop gc danmClient netInfo req4 req6 s w r)
    have "(case reserve_pass gc danmClient netInfo req4 req6 s w of Inl (m, w') \<Rightarrow> loop gc danmClient netInfo req4 req6 m w' | Inr r \<Rightarrow> Some r) = Some r"
      by (rule trans [OF _ 1(2)]) (simp add: reserve_pass_def split: res.split option.split prod.split)
    then show ?case by (rule conflicts_step) (rule 1(1))
  qed
qed

interpretation freeing: retry_loop "Free_loop danmClient netInfo a" "free_pass danmClient netInfo a"
  for danmClient netInfo a
proof
  fix s w r
  show "Free_loop danmClient netInfo a s w = (case free_pass danmClient netInfo a s w of
      Inl (m, w') \<Rightarrow> Free_loop danmClient netInfo a m w' | Inr r \<Rightarrow> Some r)"
    by (rule Free_loop_pass)
  assume "Free_loop danmClient netInfo a s w = Some r"
  then show "\<exists>s' w'. conflicts (free_pass danmClient netInfo a) (s, w) (s', w') \<and> free_pass danmClient netInfo a s' w' = Inr r"
  proof (rule Free_loop.raw_induct [where P = "\<lambda>danmClient netInfo a s w r.
      \<exists>s' w'. conflicts (free_pass danmClient netInfo a) (s, w) (s', w') \<and> free_pass danmClient netInfo a s' w' = Inr r", rotated], goal_cases)
    case (1 loop danmClient netInfo a s w r)
    have "(case free_pass danmClient netInfo a s w of Inl (m, w') \<Rightarrow> loop danmClient netInfo a m w' | Inr r \<Rightarrow> Some r) = Some r"
      by (rule trans [OF _ 1(2)]) (simp add: free_pass_def split: res.split option.split prod.split)
    then show ?case by (rule conflicts_step) (rule 1(1))
  qed
qed

lemma reserve_pass_conflict:
  assumes "reserve_pass gc danmClient netInfo req4 req6 tempNet w = Inl (m, w')"
  obtains changed where "updateIpAllocation danmClient changed w = (Ok (Some m), w')" "rv changed = rv tempNet"
  using assms by (auto simp: reserve_pass_def allocateIps_meta split: res.splits prod.splits option.splits if_splits)

lemma free_pass_conflict:
  assumes "free_pass danmClient netInfo a tempNet w = Inl (m, w')"
  obtains changed where "updateIpAllocation danmClient changed w = (Ok (Some m), w')" "rv changed = rv tempNet"
  using assms by (auto simp: free_pass_def free_ip_meta split: res.splits prod.splits option.splits if_splits)


theorem Free_terminates:
  assumes "conflicts_end danmClient \<mu>"
  shows "\<exists>r. Free_loop danmClient netInfo a tempNet w = Some r"
  using assms by (intro freeing.returns [of _ _ _ "\<lambda>n w. \<mu> (rv n) w"], elim free_pass_conflict)
    (metis conflicts_end_def)

text \<open>A pass that goes on: its write met a conflict and the network was read again.\<close>

definition conflicting :: "'w DanmClient \<Rightarrow> DanmNet \<Rightarrow> DanmNet res \<Rightarrow> 'w \<Rightarrow> DanmNet \<times> 'w \<Rightarrow> bool" where
  "conflicting danmClient netInfo change w d \<longleftrightarrow> (\<exists>changed. change = Ok changed \<and>
     \<not> deep_equal_spec (dn_Spec netInfo) (dn_Spec changed) \<and>
     updateIpAllocation danmClient changed w = (Ok (Some (fst d)), snd d))"

lemma reserve_pass_Inl:
  "reserve_pass gc danmClient netInfo req4 req6 n w = Inl d \<longleftrightarrow>
     conflicting danmClient netInfo (bind_res (allocateIps gc n req4 req6) (\<lambda>(ip4, ip6, changed). Ok changed)) w d"
  by (cases d) (auto simp: reserve_pass_def conflicting_def split: res.splits prod.splits option.splits if_splits)

lemma free_pass_Inl:
  "free_pass danmClient netInfo a n w = Inl d \<longleftrightarrow> conflicting danmClient netInfo (free_ip a n) w d"
  by (cases d) (auto simp: free_pass_def conflicting_def split: res.splits prod.splits option.splits if_splits)

text \<open>
  C35. The calls of \<open>Reserve\<close> and \<open>Free\<close> return on every API server, unless each of
  their passes for ever changes the network, has its update rejected with a conflict and reads
  the network again: no other answer of the server keeps the loops running.
\<close>

theorem retry_loops_return:
  "(Reserve_loop gc danmClient netInfo req4 req6 tempNet w = None \<longleftrightarrow>
      (\<exists>f. f 0 = (tempNet, w) \<and> (\<forall>i. conflicting danmClient netInfo
        (bind_res (allocateIps gc (fst (f i)) req4 req6) (\<lambda>(ip4, ip6, changed). Ok changed)) (snd (f i)) (f (Suc i))))) \<and>
   (Free_loop danmClient netInfo a tempNet w = None \<longleftrightarrow>
      (\<exists>f. f 0 = (tempNet, w) \<and> (\<forall>i. conflicting danmClient netInfo (free_ip a (fst (f i))) (snd (f i)) (f (Suc i)))))"
  by (simp add: reserving.hangs_iff freeing.hangs_iff reserve_pass_Inl free_pass_Inl)

end
