(* ===== verification/IpamInit.thy ===== *)
theory IpamInit
  imports IpamAlloc
begin

text \<open>
  The state a network starts in: the size of an allocation array and what it reserves, the
  gateway addresses, the default pool, and the share of the array's capacity IPv6 may use. The
  third-party package \<^verbatim>\<open>go-cidr\<close> enters as its documented behaviour
  \<open>go_cidr_laws\<close>, with \<open>std_cidr\<close> an instance.
\<close>

section \<open>The go-cidr package\<close>

text \<open>
  \<^verbatim>\<open>AddressRange\<close> gives the first and last address of a subnet,
  \<^verbatim>\<open>Inc\<close> and \<^verbatim>\<open>Dec\<close> the neighbours of an address, and
  \<^verbatim>\<open>AddressCount\<close> the number of addresses where it fits 64 bits.
\<close>

definition go_cidr_laws :: "go_cidr \<Rightarrow> bool" where
  "go_cidr_laws gc \<longleftrightarrow>
     (\<forall>l p n. wf_net l p n \<longrightarrow>
        AddressRange gc n = (net_IP n, nat_be l (be_nat (net_IP n) + host_size l p - 1)) \<and>
        (8 * l < p + 64 \<longrightarrow> AddressCount gc n = word_of_nat (host_size l p))) \<and>
     (\<forall>a. length a = 4 \<longrightarrow>
        IncIp gc a = nat_be 4 (be_nat a + 1) \<and> DecIp gc a = nat_be 4 (be_nat a + 2 ^ 32 - 1))"

definition std_cidr :: go_cidr where
  "std_cidr =
     \<lparr>AddressRange = (\<lambda>n. (net_IP n, nat_be (length (net_IP n)) (be_nat (net_IP n) + net_size n - 1))),
      IncIp = (\<lambda>a. nat_be (length a) (be_nat a + 1)),
      DecIp = (\<lambda>a. nat_be (length a) (be_nat a + 256 ^ length a - 1)),
      AddressCount = (\<lambda>n. word_of_nat (net_size n))\<rparr>"

lemma std_cidr_laws: "go_cidr_laws std_cidr"
proof -
  have "length (net_IP n) = l \<and> net_size n = host_size l p" if "wf_net l p n" for l p n
    using that net_size_wf [OF that] by (simp add: wf_net_def)
  then show ?thesis by (auto simp: go_cidr_laws_def std_cidr_def)
qed

section \<open>The allocation array of a subnet\<close>

lemma ba_bits_zero: "ba_bits \<lparr>ba_len = n, ba_data = replicate k 0\<rparr> = {}"
  by (auto simp: ba_bits_def ba_size_def)

lemma unat_pow2_u32:
  assumes "0 \<le> b" and "b \<le> MaxSupportedAllocLength"
  shows "unat (pow2_u32 b) = 2 ^ nat b" and "(2 :: nat) ^ nat b \<le> 2 ^ 23"
proof -
  have "nat b \<le> 23" using assms by (simp add: MaxSupportedAllocLength_def)
  then show le: "(2 :: nat) ^ nat b \<le> 2 ^ 23" by (rule power_increasing) simp
  have "pow2_u32 b = word_of_nat (2 ^ nat b)" using assms by (simp add: pow2_u32_def)
  moreover have "(2 :: nat) ^ nat b < 2 ^ 32" using le by simp
  ultimately show "unat (pow2_u32 b) = 2 ^ nat b" by (simp only: unat_u32_of_nat)
qed

lemma NewBitArray_spec:
  assumes "0 < unat n" and "unat n \<le> 2 ^ 23"
  shows "\<exists>arr. NewBitArray n = Ok arr \<and> ba_bits arr = {0} \<and> ba_len arr = n \<and>
    ba_size arr = 8 * ((unat n + 7) div 8)"
proof -
  let ?z = "\<lparr>ba_len = n, ba_data = replicate (unat ((n + 7) div 8)) 0\<rparr> :: BitArray"
  have "unat (n + 7) = unat n + 7"
    using assms(2) by (subst unat_add_lem [THEN iffD1]) simp_all
  then have size: "ba_size ?z = 8 * ((unat n + 7) div 8)" by (simp add: ba_size_def unat_div)
  have "n \<noteq> 0" using assms(1) by auto
  moreover have "unat (0 :: u32) < ba_size ?z" using assms(1) size by simp
  then obtain arr where arr: "Set ?z 0 = Ok arr" using ba.put_total by blast
  ultimately have "NewBitArray n = Ok arr" by (simp add: NewBitArray_def)
  then show ?thesis using Set_bits [OF arr] Set_size [OF arr] size by (simp add: ba_bits_zero)
qed

lemma CreateBitArray_spec:
  assumes n: "wf_net l p n" and v4: "l = 4 \<or> To4 (net_IP n) = []" and p: "8 * l \<le> p + 23"
  shows "\<exists>arr. CreateBitArrayFromIpnet (Some n) = Ok (Some arr) \<and>
    ba_bits arr = {0, net_size n - 1} \<and> unat (ba_len arr) = net_size n \<and>
    ba_size arr = 8 * ((net_size n + 7) div 8) \<and> net_size n \<le> 2 ^ 23"
proof -
  have pl: "p \<le> 8 * l" and l: "l = 4 \<or> l = 16" and len: "length (net_IP n) = l"
    using n by (auto simp: wf_net_def)
  let ?b = "int (8 * l) - int p"
  have b: "0 \<le> ?b" "?b \<le> MaxSupportedAllocLength" "nat ?b = 8 * l - p"
    using pl p by (simp_all add: MaxSupportedAllocLength_def nat_diff_distrib)
  have size: "net_size n = 2 ^ nat ?b" using net_size_wf [OF n] b by (simp add: host_size_def)
  have u: "unat (pow2_u32 ?b) = net_size n" "net_size n \<le> 2 ^ 23"
    using unat_pow2_u32 [OF b(1,2)] size by simp_all
  have pos: "0 < net_size n" using size by simp
  obtain arr where arr: "NewBitArray (pow2_u32 ?b) = Ok arr" "ba_bits arr = {0}" "ba_len arr = pow2_u32 ?b"
    "ba_size arr = 8 * ((net_size n + 7) div 8)"
    using NewBitArray_spec [of "pow2_u32 ?b"] u pos by auto
  have room: "net_size n \<le> ba_size arr" "ba_size arr \<le> 2 ^ 23 + 7" using arr(4) u(2) by linarith+
  have m1: "unat (pow2_u32 ?b - 1) = net_size n - 1"
    using u pos by (simp add: unat_sub word_le_nat_alt)
  have "unat (pow2_u32 ?b - 1) < ba_size arr" unfolding m1 using room pos by linarith
  then obtain arr' where arr': "Set arr (pow2_u32 ?b - 1) = Ok arr'" using ba.put_total by blast
  have "(if To4 (net_IP n) = [] then 128 - int p else 32 - int p) = ?b"
    using v4 l len by auto
  then have "CreateBitArrayFromIpnet (Some n) = Ok (Some arr')"
    using b arr(1) arr' wf_net_mask_size [OF n] by (simp add: CreateBitArrayFromIpnet_def Let_def)
  then show ?thesis
    using Set_bits [OF arr'] Set_size [OF arr'] arr room m1 u by (auto simp: insert_commute)
qed

text \<open>
  C34. The allocation array of a subnet of at most \<open>2 ^ 23\<close> addresses has a position for
  every address, and exactly the first and the last address are taken; a larger subnet has no
  array.
\<close>

theorem allocation_array_of_subnet:
  assumes n: "wf_net l p n" and v4: "l = 4 \<or> To4 (net_IP n) = []"
  shows "if 8 * l \<le> p + 23
    then \<exists>arr. CreateBitArrayFromIpnet (Some n) = Ok (Some arr) \<and> ba_bits arr = {0, net_size n - 1} \<and>
      unat (ba_len arr) = net_size n \<and> net_size n \<le> ba_size arr \<and> ba_size arr \<le> 2 ^ 23 + 7
    else CreateBitArrayFromIpnet (Some n) = Err TooManyAddresses"
proof (cases "8 * l \<le> p + 23")
  case True
  then obtain arr where arr: "CreateBitArrayFromIpnet (Some n) = Ok (Some arr)" "ba_bits arr = {0, net_size n - 1}"
    "unat (ba_len arr) = net_size n" "ba_size arr = 8 * ((net_size n + 7) div 8)" "net_size n \<le> 2 ^ 23"
    using CreateBitArray_spec [OF assms] by blast
  then have "net_size n \<le> ba_size arr" "ba_size arr \<le> 2 ^ 23 + 7" by linarith+
  with arr True show ?thesis by simp
next
  case False
  have "length (net_IP n) = l" "l = 4 \<or> l = 16" using n by (auto simp: wf_net_def)
  then show ?thesis
    using False v4 wf_net_mask_size [OF n]
    by (auto simp: CreateBitArrayFromIpnet_def Let_def MaxSupportedAllocLength_def)
qed

lemma demo_wf: "wf_net 4 29 demo_net"
  by (simp add: wf_net_def demo_net_def) code_simp

theorem allocation_array_of_subnet_witness:
  "\<exists>arr. CreateBitArrayFromIpnet (Some demo_net) = Ok (Some arr) \<and> ba_bits arr = {0, 7}"
  using allocation_array_of_subnet [OF demo_wf] by (auto simp: demo_size)

section \<open>Gateways\<close>

definition gw_pos :: "ipnet \<Rightarrow> string \<Rightarrow> nat" where
  "gw_pos n gw = (case GetIndexOfIp (ParseIP gw) (Some n) of Ok i \<Rightarrow> unat i | _ \<Rightarrow> 0)"

lemma reserveGatewayIps_spec:
  assumes "\<And>gw. gw \<in> snd ` set routes \<Longrightarrow>
      \<exists>i. GetIndexOfIp (ParseIP gw) (Some n) = Ok i \<and> unat i < k"
    and "k \<le> ba_size arr" and "k \<le> unat (ba_len arr)"
  shows "\<exists>arr'. reserveGatewayIps routes (Some arr) (Some n) = Ok (Some arr') \<and>
    ba_bits arr' = ba_bits arr \<union> gw_pos n ` snd ` set routes"
  using assms
proof (induction routes arbitrary: arr)
  case Nil
  then show ?case by simp
next
  case (Cons r routes)
  obtain d gw where r: "r = (d, gw)" by (cases r)
  from Cons.prems(1) [of gw] r obtain i where i: "GetIndexOfIp (ParseIP gw) (Some n) = Ok i" "unat i < k"
    by auto
  then have "unat i < ba_size arr" and le: "i \<le> Len (Some arr)"
    using Cons.prems(2,3) by (simp_all add: Len_def word_le_nat_alt)
  then obtain t where t: "Set arr i = Ok t" using ba.put_total by blast
  have "k \<le> ba_size t" "k \<le> unat (ba_len t)" using Set_size [OF t] Cons.prems by simp_all
  then obtain arr' where "reserveGatewayIps routes (Some t) (Some n) = Ok (Some arr')"
    "ba_bits arr' = ba_bits t \<union> gw_pos n ` snd ` set routes"
    using Cons.IH [of t] Cons.prems(1) by auto
  then show ?case using i le t Set_bits [OF t] by (simp add: r gw_pos_def)
qed

lemma usable_wf:
  assumes "usable_net n" and "net_size n \<le> 2 ^ 23"
  obtains l p where "wf_net l p n" "l = 4 \<or> To4 (net_IP n) = []" "8 * l \<le> p + 23"
proof -
  have "\<exists>l p. wf_net l p n \<and> (l = 4 \<or> To4 (net_IP n) = [])"
    using assms(1) unfolding usable_net_def
  proof
    assume "v4_net n"
    then show ?thesis by (auto simp: v4_net_def)
  next
    assume n: "v6_net n"
    then have "To4 (net_IP n) = []" by (rule v6_netE)
    with n show ?thesis by (auto simp: v6_net_def)
  qed
  then obtain l p where n: "wf_net l p n" "l = 4 \<or> To4 (net_IP n) = []" by blast
  have "(2 :: nat) ^ (8 * l - p) \<le> 2 ^ 23"
    using assms(2) net_size_wf [OF n(1)] by (simp add: host_size_def)
  then have "8 * l - p \<le> 23" by (rule power_le_imp_le_exp [rotated]) simp
  with n that show thesis by simp
qed

lemma GetIndexOfIp_nil [simp]: "GetIndexOfIp [] s = Ok 0"
  by (simp add: GetIndexOfIp_def)

text \<open>
  A new allocation array reserves the first and the last address of the subnet and every
  gateway of its routes; no address of a gateway inside the subnet is left to be allocated.
\<close>

theorem gateways_reserved:
  assumes n: "usable_net n" and size: "net_size n \<le> 2 ^ 23"
    and gws: "\<And>gw. gw \<in> snd ` set routes \<Longrightarrow> ParseIP gw = [] \<or> Contains n (ParseIP gw)"
  shows "\<exists>arr. CreateAllocationArray (Some n) (Some routes) = Ok (Encode arr) \<and>
    ba_bits arr = {0, net_size n - 1} \<union> gw_pos n ` snd ` set routes"
proof -
  from n size obtain l p where "wf_net l p n" "l = 4 \<or> To4 (net_IP n) = []" "8 * l \<le> p + 23"
    by (rule usable_wf)
  then obtain arr where arr: "CreateBitArrayFromIpnet (Some n) = Ok (Some arr)"
    "ba_bits arr = {0, net_size n - 1}" "unat (ba_len arr) = net_size n"
    "ba_size arr = 8 * ((net_size n + 7) div 8)" using CreateBitArray_spec by blast
  have "0 < net_size n" by (simp add: net_size_def)
  then have "\<exists>i. GetIndexOfIp (ParseIP gw) (Some n) = Ok i \<and> unat i < net_size n"
    if "gw \<in> snd ` set routes" for gw
    using gws [OF that] usable_index [OF n] by auto
  moreover have "net_size n \<le> ba_size arr" "net_size n \<le> unat (ba_len arr)" using arr by linarith+
  ultimately obtain arr' where "reserveGatewayIps routes (Some arr) (Some n) = Ok (Some arr')"
    "ba_bits arr' = ba_bits arr \<union> gw_pos n ` snd ` set routes"
    using reserveGatewayIps_spec [of routes n "net_size n" arr] by blast
  with arr show ?thesis by (intro exI [of _ arr']) (simp add: CreateAllocationArray_def)
qed

lemma demo_gw: "ParseIP ''10.0.0.1'' = IPv4 [10, 0, 0, 1]" "Contains demo_net (IPv4 [10, 0, 0, 1])"
  "GetIndexOfIp (IPv4 [10, 0, 0, 1]) (Some demo_net) = Ok 1"
  by code_simp+

theorem gateways_reserved_witness:
  "\<exists>arr. CreateAllocationArray (Some demo_net) (Some [(''0.0.0.0/0'', ''10.0.0.1'')]) = Ok (Encode arr) \<and>
    ba_bits arr = {0, 7, 1}"
proof -
  have n: "usable_net demo_net" by (simp add: usable_net_def demo_size)
  show ?thesis
    using gateways_reserved [OF n, of "[(''0.0.0.0/0'', ''10.0.0.1'')]"]
    by (auto simp: demo_gw demo_size gw_pos_def insert_commute)
qed

text \<open>
  The bound of the gateway check is inclusive: a gateway one past the last address of a
  subnet of at least eight addresses makes the creation of its allocation array panic.
\<close>

theorem gateway_bound_panics:
  assumes n: "usable_net n" and size: "net_size n \<le> 2 ^ 23" "8 dvd net_size n"
    and gw: "GetIndexOfIp (ParseIP gw) (Some n) = Ok i" "unat i = net_size n"
  shows "CreateAllocationArray (Some n) (Some [(dst, gw)]) = Panic"
proof -
  from n size(1) obtain l p where "wf_net l p n" "l = 4 \<or> To4 (net_IP n) = []" "8 * l \<le> p + 23"
    by (rule usable_wf)
  then obtain arr where arr: "CreateBitArrayFromIpnet (Some n) = Ok (Some arr)"
    "unat (ba_len arr) = net_size n" "ba_size arr = 8 * ((net_size n + 7) div 8)"
    using CreateBitArray_spec by blast
  have "ba_size arr = net_size n" using arr(3) size(2) by auto
  then have "Set arr i = Panic" using gw by (simp add: ba.put_panics)
  moreover have "i \<le> Len (Some arr)" using gw arr by (simp add: Len_def word_le_nat_alt)
  ultimately show ?thesis using arr gw by (simp add: CreateAllocationArray_def)
qed

lemma demo_past: "GetIndexOfIp (ParseIP ''10.0.0.8'') (Some demo_net) = Ok 8"
  by code_simp

theorem gateway_bound_panics_witness:
  "CreateAllocationArray (Some demo_net) (Some [(''10.1.0.0/16'', ''10.0.0.8'')]) = Panic"
  by (rule gateway_bound_panics [OF _ _ _ demo_past]) (simp_all add: usable_net_def demo_size)

section \<open>The default pool\<close>

lemma range_is_index:
  assumes n: "v4_net n" and s: "Contains n (ParseIP (Start pool))" and e: "Contains n (ParseIP (End pool))"
    and si: "GetIndexOfIp (ParseIP (Start pool)) (Some n) = Ok b"
    and ei: "GetIndexOfIp (ParseIP (End pool)) (Some n) = Ok k"
  shows "getAllocRangeBasedOnCidr pool (Some n) = Ok (b, k)"
proof -
  have "To4 (net_IP n) = net_IP n" "length (net_IP n) = 4" using n by (auto elim: v4_netE)
  then have "To4 (net_IP n) \<noteq> []" by auto
  moreover have "To4 (ParseIP (Start pool)) \<noteq> []" "To4 (ParseIP (End pool)) \<noteq> []"
    using s e v4_contains [OF n] by auto
  then have "ParseIP (Start pool) \<noteq> []" "ParseIP (End pool) \<noteq> []" by (auto simp: To4_def)
  ultimately show ?thesis
    using si ei \<open>To4 (ParseIP (Start pool)) \<noteq> []\<close> \<open>To4 (ParseIP (End pool)) \<noteq> []\<close>
    by (auto simp: getAllocRangeBasedOnCidr_def GetIndexOfIp_def)
qed

lemma v4_text_at:
  assumes n: "v4_net n" and i: "unat i < net_size n"
  shows "Contains n (ParseIP (ip_string (nat_be 4 (be_nat (net_IP n) + unat i)))) \<and>
    GetIndexOfIp (ParseIP (ip_string (nat_be 4 (be_nat (net_IP n) + unat i)))) (Some n) = Ok i"
proof -
  let ?a = "nat_be 4 (be_nat (net_IP n) + unat i)"
  have at: "index_ip i n = Ok ?a" using v4_at(1) [OF n i] .
  have c: "Contains n ?a" using v4.at_total [OF n i] at by auto
  have "ip_string ?a = dotted ?a" by (simp add: ip_string_def)
  then show ?thesis
    using v4_IPv4 [OF n _ c] v4.index_at [OF n i at] by (simp add: ParseIP_dotted)
qed

lemma nat_be_add_top: "nat_be 4 (k + 2 ^ 32) = nat_be 4 k"
proof -
  have "be_nat (nat_be 4 (k + 2 ^ 32)) = be_nat (nat_be 4 k)" by (simp add: be_nat_nat_be)
  then show ?thesis by (simp add: be_nat_inj)
qed

text \<open>
  A new IPv4 network of four to \<open>2 ^ 23\<close> addresses that configures neither pool nor
  allocation starts with the pool from its second to its last but one address: the positions 1
  to \<open>size - 2\<close> of its array, which has every address of the subnet; so the pool lies in
  the subnet, as the allocator's invariant asks.
\<close>

theorem default_pool:
  assumes gc: "go_cidr_laws gc" and c: "parse_net c = Some n" "length (net_IP n) = 4"
    and size: "4 \<le> net_size n" "net_size n \<le> 2 ^ 23"
  shows "\<exists>s e arr. InitAllocPool gc c [] [] [] (Some []) = Ok (s, e, Encode arr) \<and>
    ba_bits arr = {0, net_size n - 1} \<and>
    getAllocRangeBasedOnCidr \<lparr>Start = s, End = e, LastIp = []\<rparr> (Some n) =
      Ok (1, word_of_nat (net_size n - 2)) \<and>
    pool_in_net \<lparr>Start = s, End = e, LastIp = []\<rparr> n"
proof -
  have n: "v4_net n" using c by (rule v4_net_parse)
  then have usable: "usable_net n" by (simp add: usable_net_def)
  obtain p where p: "wf_net 4 p n" "net_size n = host_size 4 p"
    "be_nat (net_IP n) + net_size n \<le> 2 ^ 32" using n by (rule v4_netE)
  let ?B = "be_nat (net_IP n)" and ?e = "word_of_nat (net_size n - 2) :: u32"
  have "net_size n - 2 < 2 ^ 32" using size by simp
  then have e: "unat ?e = net_size n - 2" by (rule unat_u32_of_nat)
  have inc: "IncIp gc (net_IP n) = nat_be 4 (?B + unat (1 :: u32))"
    using gc c(2) by (simp add: go_cidr_laws_def)
  have bc: "GetBroadcastAddress gc n = nat_be 4 (?B + net_size n - 1)"
    using gc p by (simp add: go_cidr_laws_def GetBroadcastAddress_def)
  have "be_nat (nat_be 4 (?B + net_size n - 1)) = ?B + net_size n - 1"
    using p(3) size by (simp add: be_nat_nat_be)
  then have "DecIp gc (GetBroadcastAddress gc n) = nat_be 4 (?B + net_size n - 1 + 2 ^ 32 - 1)"
    using gc bc by (simp add: go_cidr_laws_def)
  moreover have "?B + net_size n - 1 + 2 ^ 32 - 1 = (?B + unat ?e) + 2 ^ 32" using e size by linarith
  ultimately have dec: "DecIp gc (GetBroadcastAddress gc n) = nat_be 4 (?B + unat ?e)"
    by (simp only: nat_be_add_top)
  let ?s = "ip_string (nat_be 4 (?B + unat (1 :: u32)))" and ?t = "ip_string (nat_be 4 (?B + unat ?e))"
  let ?pool = "\<lparr>Start = ?s, End = ?t, LastIp = []\<rparr>"
  obtain arr where arr: "CreateAllocationArray (Some n) (Some []) = Ok (Encode arr)"
    "ba_bits arr = {0, net_size n - 1}" using gateways_reserved [OF usable size(2), of "[]"] by auto
  have "c \<noteq> []" using c(1) by (auto simp: parse_net_def ParseCIDR_def)
  then have "InitAllocPool gc c [] [] [] (Some []) = Ok (?s, ?t, Encode arr)"
    using c arr inc dec by (simp add: InitAllocPool_def)
  moreover have lt: "unat (1 :: u32) < net_size n" "unat ?e < net_size n" using e size by simp_all
  have "getAllocRangeBasedOnCidr ?pool (Some n) = Ok (1, ?e)"
    using range_is_index [OF n, of ?pool] v4_text_at [OF n lt(1)] v4_text_at [OF n lt(2)] by simp
  moreover from this lt have "pool_in_net ?pool n" by (simp add: pool_in_net_def)
  ultimately show ?thesis using arr by blast
qed

theorem default_pool_witness:
  "\<exists>s e arr. InitAllocPool std_cidr ''10.0.0.0/29'' [] [] [] (Some []) = Ok (s, e, Encode arr) \<and>
    ba_bits arr = {0, 7}"
proof -
  have "length (net_IP demo_net) = 4" by (simp add: demo_net_def)
  from default_pool [OF std_cidr_laws demo_parse this] show ?thesis
    by (simp add: demo_size) blast
qed

section \<open>Sharing the capacity between IPv4 and IPv6\<close>

lemma ParseCIDR_v6_text:
  assumes "CHR ''/'' \<notin> set addr" and "parseIPv4 addr = []" and "parseIPv6 addr \<noteq> []" and "p \<le> 128"
  shows "ParseCIDR (addr @ CHR ''/'' # itoa_nat p) = Some (parseIPv6 addr, net_of (parseIPv6 addr) 16 p)"
proof -
  let ?P = "\<lambda>c. c \<noteq> CHR ''/''"
  have P: "?P x" if "x \<in> set addr" for x using assms(1) that by auto
  then have "dropWhile ?P (addr @ CHR ''/'' # itoa_nat p) = CHR ''/'' # itoa_nat p"
    using dropWhile_not_mem [of addr ?P "CHR ''/''" "itoa_nat p"] by blast
  moreover have "takeWhile ?P (addr @ CHR ''/'' # itoa_nat p) = addr"
    using P by (subst takeWhile_append2) auto
  moreover have "dtoi (itoa_nat p) = Some (p, [])"
    using dtoi_itoa [of p "[]"] assms(4) by (simp add: net_big_def)
  ultimately show ?thesis using assms by (simp add: ParseCIDR_def Let_def)
qed

lemma wf_net_of:
  assumes "length a = 16" and "p \<le> 128"
  shows "wf_net 16 p (net_of a 16 p)"
proof -
  have "net_of a 16 p = \<lparr>net_IP = and_bytes a (mask_bytes 16 p), net_Mask = mask_bytes 16 p\<rparr>"
    using assms by (simp add: net_of_def CIDRMask_def MaskIp_def Let_def)
  then show ?thesis using assms by (simp add: wf_net_def)
qed

definition test_address :: string where
  "test_address = ''2a00:8a00:a000:1193:f816:3eff:fe24:e348''"

lemma test_address_parses:
  "parseIPv4 test_address = []" "parseIPv6 test_address \<noteq> []" "CHR ''/'' \<notin> set test_address"
proof -
  show "parseIPv4 test_address = []" by code_simp
  show "parseIPv6 test_address \<noteq> []" by code_simp
  show "CHR ''/'' \<notin> set test_address" by (simp add: test_address_def)
qed

lemma testCidr_wf:
  assumes "p \<le> 128"
  shows "\<exists>n. testCidr p = Some n \<and> wf_net 16 p n"
proof -
  have "testCidr p = parse_net (test_address @ CHR ''/'' # itoa_nat p)"
    by (simp add: testCidr_def test_address_def)
  then have "testCidr p = Some (net_of (parseIPv6 test_address) 16 p)"
    using ParseCIDR_v6_text [OF test_address_parses(3,1,2) assms] by (simp add: parse_net_def)
  with wf_net_of [OF parseIPv6_length [OF test_address_parses(2)] assms] show ?thesis by simp
qed

lemma AddressCount_unat:
  assumes "go_cidr_laws gc" and "wf_net l p n" and "8 * l < p + 64"
  shows "unat (AddressCount gc n) = host_size l p"
proof -
  have "8 * l - p < 64" using assms(2,3) by (auto simp: wf_net_def)
  then have "host_size l p < 2 ^ 64" unfolding host_size_def by (rule power_strict_increasing) simp
  moreover have "AddressCount gc n = word_of_nat (host_size l p)"
    using assms by (simp add: go_cidr_laws_def)
  ultimately show ?thesis by (simp add: unat_of_nat)
qed

lemma prefix_fits_iff:
  assumes "go_cidr_laws gc" and "105 \<le> p" and "p \<le> 128"
  shows "prefix_fits gc cap p \<longleftrightarrow> 2 ^ (128 - p) < unat cap"
proof -
  obtain n where n: "testCidr p = Some n" "wf_net 16 p n" using testCidr_wf assms(3) by blast
  then have "unat (AddressCount gc n) = 2 ^ (128 - p)"
    using AddressCount_unat [OF assms(1) n(2)] assms(2) by (simp add: host_size_def)
  with n(1) show ?thesis by (simp add: prefix_fits_def word_less_nat_alt)
qed

lemma remaining_capacity:
  assumes "unat (k :: 64 word) \<le> 2 ^ 23"
  shows "unat (2 ^ nat MaxSupportedAllocLength - k) = 2 ^ 23 - unat k"
proof -
  have m: "(2 :: 64 word) ^ nat MaxSupportedAllocLength = 2 ^ 23" by (simp add: MaxSupportedAllocLength_def)
  have "unat ((2 :: 64 word) ^ 23) = 2 ^ 23" by simp
  moreover from this assms have "k \<le> 2 ^ 23" by (simp add: word_le_nat_alt)
  ultimately show ?thesis unfolding m by (simp only: unat_sub)
qed

lemma find_upt_Some:
  assumes "find P [a..<b] = Some q"
  shows "a \<le> q \<and> q < b \<and> P q \<and> (\<forall>r. a \<le> r \<longrightarrow> r < q \<longrightarrow> \<not> P r)"
proof -
  from assms obtain i where i: "i < length [a..<b]" "P ([a..<b] ! i)" "q = [a..<b] ! i"
    "\<forall>j < i. \<not> P ([a..<b] ! j)" by (auto simp: find_Some_iff)
  then have q: "q = a + i" by simp
  have "\<not> P r" if "a \<le> r" "r < q" for r
  proof -
    have "[a..<b] ! (r - a) = r" "r - a < i" using that q i(1) by auto
    with i(4) show ?thesis by metis
  qed
  with i q show ?thesis by auto
qed

text \<open>
  The IPv6 allocation prefix of a dual-stack network is the shortest of /105 to /128 whose
  addresses together with the IPv4 subnet's stay below the \<open>2 ^ 23\<close> an allocation array
  supports, and /128 when none does; without an IPv4 subnet it is /105.
\<close>

theorem v6_prefix_shares_capacity:
  assumes gc: "go_cidr_laws gc" and c: "parse_net (Cidr (opts dnet)) = Some n" "length (net_IP n) = 4"
    and size: "net_size n \<le> 2 ^ 23"
  shows "\<exists>q. GetMaxUsableV6Prefix gc dnet = Ok q \<and> 105 \<le> q \<and> q \<le> 128 \<and>
    (q = 128 \<or> 2 ^ (128 - q) + net_size n < 2 ^ 23) \<and>
    (\<forall>r. 105 \<le> r \<longrightarrow> r < q \<longrightarrow> 2 ^ 23 \<le> 2 ^ (128 - r) + net_size n)"
proof -
  obtain p where p: "wf_net 4 p n" "net_size n = host_size 4 p"
    using v4_net_parse [OF c] by (rule v4_netE)
  have k: "unat (AddressCount gc n) = net_size n"
    using AddressCount_unat [OF gc p(1)] p(2) by simp
  let ?cap = "2 ^ nat MaxSupportedAllocLength - AddressCount gc n :: 64 word"
  have cap: "unat ?cap = 2 ^ 23 - net_size n" using remaining_capacity [of "AddressCount gc n"] k size by simp
  have ne: "Cidr (opts dnet) \<noteq> []" using c(1) by (auto simp: parse_net_def ParseCIDR_def)
  let ?xs = "[MaxV6PrefixLength..<Suc MinV6PrefixLength]"
  have fits: "prefix_fits gc ?cap r \<longleftrightarrow> 2 ^ (128 - r) + net_size n < 2 ^ 23"
    if "105 \<le> r" "r \<le> 128" for r
    using prefix_fits_iff [OF gc that, of ?cap] cap size by auto
  have res: "GetMaxUsableV6Prefix gc dnet =
      Ok (case find (prefix_fits gc ?cap) ?xs of None \<Rightarrow> MinV6PrefixLength | Some pref \<Rightarrow> pref)"
    using ne c(1) by (simp add: GetMaxUsableV6Prefix_def Let_def)
  show ?thesis
  proof (cases "find (prefix_fits gc ?cap) ?xs")
    case None
    then have none: "\<not> (\<exists>r. r \<in> set ?xs \<and> prefix_fits gc ?cap r)" by (simp only: find_None_iff) simp
    have "set ?xs = {105..128}" by (simp only: set_upt prefix_limits) auto
    with none have "\<not> prefix_fits gc ?cap r" if "105 \<le> r" "r \<le> 128" for r
      using that by auto
    then have "\<forall>r. 105 \<le> r \<longrightarrow> r < 128 \<longrightarrow> 2 ^ 23 \<le> 2 ^ (128 - r) + net_size n"
      using fits by (meson less_imp_le not_le)
    with None res show ?thesis by (simp add: prefix_limits)
  next
    case (Some q)
    from find_upt_Some [OF this] have q: "105 \<le> q" "q \<le> 128" "prefix_fits gc ?cap q"
      "\<forall>r. 105 \<le> r \<longrightarrow> r < q \<longrightarrow> \<not> prefix_fits gc ?cap r"
      unfolding prefix_limits less_Suc_eq_le by blast+
    then have "\<forall>r. 105 \<le> r \<longrightarrow> r < q \<longrightarrow> 2 ^ 23 \<le> 2 ^ (128 - r) + net_size n"
      using fits q(2,4) by (meson less_le_trans less_imp_le not_le)
    with Some res q fits [of q] show ?thesis by simp
  qed
qed

definition demo_dnet :: DanmNet where
  "demo_dnet = set_opts (\<lambda>oo. oo\<lparr>Cidr := ''10.0.0.0/29''\<rparr>) empty_net"

theorem v6_prefix_shares_capacity_witness:
  "\<exists>q. GetMaxUsableV6Prefix std_cidr demo_dnet = Ok q \<and> q \<le> 128 \<and> (q = 128 \<or> 2 ^ (128 - q) + 8 < (2 ^ 23 :: nat))"
proof -
  have "parse_net (Cidr (opts demo_dnet)) = Some demo_net" "length (net_IP demo_net) = 4"
    by (simp_all add: demo_dnet_def empty_net_def empty_options_def demo_parse) (simp add: demo_net_def)
  from v6_prefix_shares_capacity [OF std_cidr_laws this] show ?thesis by (simp add: demo_size) blast
qed

end
