(* ===== verification/LockServer.thy ===== *)
theory LockServer
  imports IpamApi IpamInit
begin

text \<open>
  Several hosts that allocate from one network object: an API server that accepts an update only
  of the version it stores, the steps of hosts that hold stale or fresh copies of the object, and
  the refinement that makes their accepted updates one sequence of allocations and releases.
\<close>

section \<open>A server with optimistic locking\<close>

text \<open>
  The world is the stored object. Its resource version grows with every accepted update, so
  that no version returns.
\<close>

definition bump :: "DanmNet \<Rightarrow> DanmNet" where
  "bump n = n\<lparr>dn_Meta := (dn_Meta n)\<lparr>mt_ResourceVersion := rv n @ ''+''\<rparr>\<rparr>"

definition lock_client :: "DanmNet DanmClient" where
  "lock_client =
     \<lparr>api_net_update = (\<lambda>api ns n w. if rv n = rv w then (None, bump n) else (Some OptimisticLockErrorMsg, w)),
      api_net_get = (\<lambda>api ns name w. (if mt_Name (dn_Meta w) = name then Inr w else Inl ''not found'', w)),
      api_tconf_list = (\<lambda>w. (Inr None, w)),
      api_tconf_update = (\<lambda>_ w. (None, w)),
      api_tconf_get = (\<lambda>_ w. (Inl ''not found'', w)),
      api_ep_list = (\<lambda>_ w. (Inr None, w)),
      api_ep_create = (\<lambda>_ e w. (Inr e, w)),
      api_ep_update = (\<lambda>_ _ w. (None, w)),
      api_ep_delete = (\<lambda>_ _ w. (None, w))\<rparr>"

lemma bump_simps [simp]:
  "dn_Spec (bump n) = dn_Spec n" "dn_Kind (bump n) = dn_Kind n"
  "mt_Name (dn_Meta (bump n)) = mt_Name (dn_Meta n)" "rv (bump n) = rv n @ ''+''"
  by (simp_all add: bump_def)

lemma contains_self [simp]: "contains s s"
  unfolding contains_iff by (rule exI [of _ "[]"], rule exI [of _ "[]"]) simp

lemma lock_accepts:
  "updateIpAllocation lock_client n w = (Ok None, w') \<Longrightarrow> rv n = rv w \<and> w' = bump n"
  by (auto simp: updateIpAllocation_def PutNetwork_eq lock_client_def
      split: option.splits if_splits prod.splits res.splits)

lemma lock_conflict:
  assumes "updateIpAllocation lock_client n w = (Ok (Some m), w')"
  shows "w' = w \<and> dn_Spec m = dn_Spec w \<and> dn_Meta m = dn_Meta w"
proof -
  have "RefreshNetwork lock_client n w = (Ok m, w')"
    using assms by (auto simp: updateIpAllocation_def PutNetwork_eq lock_client_def
        split: option.splits if_splits prod.splits res.splits)
  then show ?thesis
    by (auto simp: RefreshNetwork_def GetNetworkFromInterface_def get_named_def lock_client_def
        ConvertTnetToDnet_def ConvertCnetToDnet_def split: if_splits option.splits)
qed

text \<open>A conflict is followed by a read of the stored version, so the next write is accepted.\<close>

lemma lock_conflicts_end: "conflicts_end lock_client (\<lambda>v w. if v = rv w then 0 else 1)"
  unfolding conflicts_end_def
proof (intro allI impI)
  fix n w m w'
  assume u: "updateIpAllocation lock_client n w = (Ok (Some m), w')"
  have "rv n \<noteq> rv w"
    using u by (auto simp: updateIpAllocation_def PutNetwork_eq lock_client_def split: option.splits)
  with lock_conflict [OF u] show "(if rv m = rv w' then 0 else 1) < (if rv n = rv w then 0 else 1 :: nat)"
    by simp
qed


theorem Free_terminates_witness:
  "\<exists>r. Free_loop lock_client empty_net [10, 0, 0, 1] empty_net (bump empty_net) = Some r"
  by (rule Free_terminates [OF lock_conflicts_end])

section \<open>Hosts\<close>

text \<open>
  A host runs \<open>Reserve\<close> or \<open>Free\<close>: it keeps the copy the call began with, for the test
  whether anything changed, and the copy it works on, which every conflict replaces.
\<close>

datatype task =
    Reserving (task_orig: DanmNet) (task_req: string) (task_copy: DanmNet)
  | Releasing (task_orig: DanmNet) (task_addr: string) (task_copy: DanmNet)

text \<open>
  \<open>sys_held\<close> are the addresses whose reservation was written and which were not given back.
  \<open>sys_unrecorded\<close> is a history variable: the answers of the test for an unchanged network,
  which return an address without a write, with the two copies of the call.
\<close>

record sys =
  sys_server :: DanmNet
  sys_task :: "nat \<Rightarrow> task option"
  sys_held :: "string list"
  sys_unrecorded :: "(DanmNet \<times> DanmNet \<times> string) list"

text \<open>
  The steps are the start of a call on the network as just read, and the passes of the loops of
  \<open>Reserve\<close> and \<open>Free\<close> with all their outcomes; a host may also stop at any time. An
  address is given back by one call at a time.
\<close>

inductive sys_step :: "go_cidr \<Rightarrow> sys \<Rightarrow> sys \<Rightarrow> bool" for gc where
  start_reserve: "sys_task s h = None \<Longrightarrow> req \<noteq> [] \<Longrightarrow> req \<noteq> NoneAllocType \<Longrightarrow>
    RefreshNetwork lock_client m (sys_server s) = (Ok n, w') \<Longrightarrow>
    sys_step gc s (s\<lparr>sys_server := w', sys_task := (sys_task s)(h \<mapsto> Reserving n req n)\<rparr>)"
| reserve_conflict: "sys_task s h = Some (Reserving orig req copy) \<Longrightarrow>
    reserve_pass gc lock_client orig req [] copy (sys_server s) = Inl (m, w') \<Longrightarrow>
    sys_step gc s (s\<lparr>sys_server := w', sys_task := (sys_task s)(h \<mapsto> Reserving orig req m)\<rparr>)"
| reserve_written: "sys_task s h = Some (Reserving orig req copy) \<Longrightarrow>
    reserve_pass gc lock_client orig req [] copy (sys_server s) = Inr (Ok (ip, ip6), w') \<Longrightarrow> w' \<noteq> sys_server s \<Longrightarrow>
    sys_step gc s (s\<lparr>sys_server := w', sys_task := (sys_task s)(h := None), sys_held := ip # sys_held s\<rparr>)"
| reserve_unwritten: "sys_task s h = Some (Reserving orig req copy) \<Longrightarrow>
    reserve_pass gc lock_client orig req [] copy (sys_server s) = Inr (Ok (ip, ip6), sys_server s) \<Longrightarrow>
    sys_step gc s (s\<lparr>sys_task := (sys_task s)(h := None), sys_unrecorded := (orig, copy, ip) # sys_unrecorded s\<rparr>)"
| reserve_error: "sys_task s h = Some (Reserving orig req copy) \<Longrightarrow>
    reserve_pass gc lock_client orig req [] copy (sys_server s) = Inr (r, w') \<Longrightarrow> (\<And>x. r \<noteq> Ok x) \<Longrightarrow>
    sys_step gc s (s\<lparr>sys_server := w', sys_task := (sys_task s)(h := None)\<rparr>)"
| start_release: "sys_task s h = None \<Longrightarrow> ip \<in> set (sys_held s) \<union> (snd \<circ> snd) ` set (sys_unrecorded s) \<Longrightarrow>
    (\<And>h' o' k'. sys_task s h' \<noteq> Some (Releasing o' ip k')) \<Longrightarrow>
    RefreshNetwork lock_client m (sys_server s) = (Ok n, w') \<Longrightarrow>
    sys_step gc s (s\<lparr>sys_server := w', sys_task := (sys_task s)(h \<mapsto> Releasing n ip n)\<rparr>)"
| release_conflict: "sys_task s h = Some (Releasing orig ip copy) \<Longrightarrow>
    free_pass lock_client orig (addr_of ip) copy (sys_server s) = Inl (m, w') \<Longrightarrow>
    sys_step gc s (s\<lparr>sys_server := w', sys_task := (sys_task s)(h \<mapsto> Releasing orig ip m)\<rparr>)"
| release_end: "sys_task s h = Some (Releasing orig ip copy) \<Longrightarrow>
    free_pass lock_client orig (addr_of ip) copy (sys_server s) = Inr (Ok (), w') \<Longrightarrow>
    sys_step gc s (s\<lparr>sys_server := w', sys_task := (sys_task s)(h := None), sys_held := remove1 ip (sys_held s)\<rparr>)"
| release_error: "sys_task s h = Some (Releasing orig ip copy) \<Longrightarrow>
    free_pass lock_client orig (addr_of ip) copy (sys_server s) = Inr (r, w') \<Longrightarrow> r \<noteq> Ok () \<Longrightarrow>
    sys_step gc s (s\<lparr>sys_server := w', sys_task := (sys_task s)(h := None)\<rparr>)"
| stop: "sys_step gc s (s\<lparr>sys_task := (sys_task s)(h := None)\<rparr>)"

definition sys_start :: "DanmNet \<Rightarrow> sys" where
  "sys_start net0 = \<lparr>sys_server = net0, sys_task = Map.empty, sys_held = [], sys_unrecorded = []\<rparr>"

definition sys_abs :: "sys \<Rightarrow> ipam_state" where
  "sys_abs s = \<lparr>st_alloc = Alloc (opts (sys_server s)), st_pool = Pool (opts (sys_server s)),
     st_held = sys_held s\<rparr>"

abbreviation net_bits :: "DanmNet \<Rightarrow> nat set" where
  "net_bits n \<equiv> ba_bits (NewBitArrayFromBase64 (Alloc (opts n)))"

text \<open>The contract the server keeps; every copy a host holds was read from it.\<close>

definition store_net :: "DanmNet \<Rightarrow> DanmNet \<Rightarrow> DanmNet option" where
  "store_net n w = (if rv n = rv w then Some (bump n) else None)"

interpretation net_store: versioned_store store_net rv length dn_Spec
  by unfold_locales (auto simp: store_net_def split: if_splits)

lemma bump_differs [simp]: "rv n = rv w \<Longrightarrow> bump n \<noteq> w"
  by (metis append_self_conv bump_simps(4) not_Cons_self)

lemma read_is_stored:
  assumes "RefreshNetwork lock_client m w = (Ok n, w')"
  shows "w' = w \<and> dn_Spec n = dn_Spec w \<and> rv n = rv w"
  using assms by (auto simp: RefreshNetwork_def GetNetworkFromInterface_def get_named_def lock_client_def
      ConvertTnetToDnet_def ConvertCnetToDnet_def split: if_splits option.splits)

section \<open>The passes on the server\<close>

lemma allocateIps_v4:
  assumes "allocateIps gc n req [] = Ok (ip, ip6, changed)" and "req \<noteq> []"
  shows "\<exists>al p. allocateAddress (Pool (opts n)) (Alloc (opts n)) req (Cidr (opts n)) (Cidr (opts n)) = Ok (al, ip, p) \<and>
    changed = set_opts (\<lambda>oo. oo\<lparr>Alloc := al, Pool := p\<rparr>) n"
  using assms by (auto simp: allocateIps_def allocate4_def allocate6_def)

lemma lock_reserve_conflict:
  assumes "reserve_pass gc lock_client orig req [] copy w = Inl (m, w')"
  shows "w' = w \<and> dn_Spec m = dn_Spec w \<and> rv m = rv w"
  using assms lock_conflict by (elim reserve_pass_conflict) fastforce

lemma lock_free_conflict:
  assumes "free_pass lock_client orig a copy w = Inl (m, w')"
  shows "w' = w \<and> dn_Spec m = dn_Spec w \<and> rv m = rv w"
  using assms lock_conflict by (elim free_pass_conflict) fastforce

lemma lock_read: "RefreshNetwork lock_client m w = (r, w') \<Longrightarrow> w' = w"
  by (auto simp: RefreshNetwork_def GetNetworkFromInterface_def get_named_def lock_client_def
      split: if_splits option.splits)

lemma lock_write: "PutNetwork lock_client n w = (r, w') \<Longrightarrow> \<forall>c. r = Ok c \<longrightarrow> c \<Longrightarrow> w' = w"
  by (auto simp: PutNetwork_eq lock_client_def split: option.splits if_splits)

lemma lock_error:
  "updateIpAllocation lock_client n w = (Err e, w') \<Longrightarrow> w' = w"
  "updateIpAllocation lock_client n w = (Panic, w') \<Longrightarrow> w' = w"
  "updateIpAllocation lock_client n w = (Hang, w') \<Longrightarrow> w' = w"
  by (auto simp: updateIpAllocation_def dest!: lock_read lock_write split: if_splits prod.splits res.splits)

lemma lock_reserve_error:
  assumes "reserve_pass gc lock_client orig req [] copy w = Inr (r, w')" and "\<And>x. r \<noteq> Ok x"
  shows "w' = w"
  using assms lock_error by (auto simp: reserve_pass_def split: res.splits prod.splits option.splits if_splits)

lemma lock_free_error:
  assumes "free_pass lock_client orig a copy w = Inr (r, w')" and "r \<noteq> Ok ()"
  shows "w' = w"
  using assms lock_error by (auto simp: free_pass_def split: res.splits prod.splits option.splits if_splits)

text \<open>A \<open>Reserve\<close> that answers wrote its allocation, or found the network it began with.\<close>

lemma lock_reserve_ok:
  assumes "reserve_pass gc lock_client orig req [] copy w = Inr (Ok (ip, ip6), w')" and "req \<noteq> []"
  obtains al p where
    "allocateAddress (Pool (opts copy)) (Alloc (opts copy)) req (Cidr (opts copy)) (Cidr (opts copy)) = Ok (al, ip, p)"
    "w' \<noteq> w \<longrightarrow> rv copy = rv w \<and> w' = bump (set_opts (\<lambda>oo. oo\<lparr>Alloc := al, Pool := p\<rparr>) copy)"
    "w' = w \<longrightarrow> Alloc (opts orig) = al"
proof -
  from assms(1) obtain changed where ok: "allocateIps gc copy req [] = Ok (ip, ip6, changed)"
    and out: "deep_equal_spec (dn_Spec orig) (dn_Spec changed) \<and> w' = w \<or>
      updateIpAllocation lock_client changed w = (Ok None, w')"
    by (auto simp: reserve_pass_def split: res.splits prod.splits option.splits if_splits)
  from allocateIps_v4 [OF ok assms(2)] obtain al p where
    al: "allocateAddress (Pool (opts copy)) (Alloc (opts copy)) req (Cidr (opts copy)) (Cidr (opts copy)) = Ok (al, ip, p)"
    and changed: "changed = set_opts (\<lambda>oo. oo\<lparr>Alloc := al, Pool := p\<rparr>) copy" by blast
  have "rv changed = rv w \<and> w' = bump changed" if "updateIpAllocation lock_client changed w = (Ok None, w')"
    using lock_accepts [OF that] by simp
  with out changed show thesis by (intro that [OF al]) (auto dest: deep_equal_fields(1))
qed

lemma lock_free_ok:
  assumes "free_pass lock_client orig a copy w = Inr (Ok (), w')" and "To4 a \<noteq> []"
  obtains al where "resetIp (Alloc (opts copy)) (Cidr (opts copy)) a = Ok al"
    "w' \<noteq> w \<longrightarrow> rv copy = rv w \<and> w' = bump (set_opts (\<lambda>oo. oo\<lparr>Alloc := al\<rparr>) copy)"
    "w' = w \<longrightarrow> Alloc (opts orig) = al"
proof -
  from assms(1) obtain changed where ok: "free_ip a copy = Ok changed"
    and out: "deep_equal_spec (dn_Spec orig) (dn_Spec changed) \<and> w' = w \<or>
      updateIpAllocation lock_client changed w = (Ok None, w')"
    by (auto simp: free_pass_def split: res.splits prod.splits option.splits if_splits)
  from ok assms(2) obtain al where al: "resetIp (Alloc (opts copy)) (Cidr (opts copy)) a = Ok al"
    and changed: "changed = set_opts (\<lambda>oo. oo\<lparr>Alloc := al\<rparr>) copy" by (auto simp: free_ip_def)
  have "rv changed = rv w \<and> w' = bump changed" if "updateIpAllocation lock_client changed w = (Ok None, w')"
    using lock_accepts [OF that] by simp
  with out changed show thesis by (intro that [OF al]) (auto dest: deep_equal_fields(1))
qed

section \<open>What every step keeps\<close>

definition on_net :: "string \<Rightarrow> ipnet \<Rightarrow> DanmNet \<Rightarrow> bool" where
  "on_net c n m \<longleftrightarrow> Cidr (opts m) = c \<and> pool_in_net (Pool (opts m)) n"

lemma on_net_spec: "dn_Spec m = dn_Spec k \<Longrightarrow> on_net c n m = on_net c n k"
  by (simp add: on_net_def)

lemma on_net_bump [simp]: "on_net c n (bump m) = on_net c n m"
  by (rule on_net_spec) simp

definition task_ok :: "string \<Rightarrow> ipnet \<Rightarrow> DanmNet \<Rightarrow> task \<Rightarrow> bool" where
  "task_ok c n w t \<longleftrightarrow> on_net c n (task_copy t) \<and> net_store.copy_of w (task_copy t) \<and>
     (case t of Reserving _ req _ \<Rightarrow> req \<noteq> [] \<and> req \<noteq> NoneAllocType | Releasing _ _ _ \<Rightarrow> True)"

definition sys_wf :: "string \<Rightarrow> ipnet \<Rightarrow> sys \<Rightarrow> bool" where
  "sys_wf c n s \<longleftrightarrow> on_net c n (sys_server s) \<and>
     (\<forall>t \<in> ran (sys_task s). task_ok c n (sys_server s) t) \<and>
     (\<forall>(orig, copy, ip) \<in> set (sys_unrecorded s). pos_of n ip \<in> net_bits orig - net_bits copy)"

text \<open>A call that gives an address back began on a network that had it taken, and is alone.\<close>

definition releasing_ok :: "ipnet \<Rightarrow> sys \<Rightarrow> bool" where
  "releasing_ok n s \<longleftrightarrow> (\<forall>h orig ip copy. sys_task s h = Some (Releasing orig ip copy) \<longrightarrow>
     ip \<in> set (sys_held s) \<and> pos_of n ip \<in> net_bits orig \<and>
     (\<forall>h' o' k'. sys_task s h' = Some (Releasing o' ip k') \<longrightarrow> h' = h))"

definition sys_inv :: "string \<Rightarrow> ipnet \<Rightarrow> nat set \<Rightarrow> sys \<Rightarrow> bool" where
  "sys_inv c n R s \<longleftrightarrow> sys_wf c n s \<and>
     (sys_unrecorded s = [] \<longrightarrow> ipam_inv n R (sys_abs s) \<and> releasing_ok n s)"

lemma tasks_update:
  assumes "\<forall>t \<in> ran m. P t" and "\<And>t. x = Some t \<Longrightarrow> P t"
  shows "\<forall>t \<in> ran (m(h := x)). P t"
  using assms by (auto simp: ran_def split: if_splits)

lemma task_ok_write:
  assumes "task_ok c n w t" and "store_net m w = Some w'"
  shows "task_ok c n w' t"
  using assms net_store.copy_after_write by (auto simp: task_ok_def)

lemma tasks_write:
  assumes "\<forall>t \<in> ran m. task_ok c n w t" and "store_net k w = Some w'"
  shows "\<forall>t \<in> ran (m(h := None)). task_ok c n w' t"
  by (rule tasks_update) (use assms task_ok_write in auto)

lemma sys_wf_task:
  assumes "sys_wf c n s" and "sys_task s h = Some t"
  shows "on_net c n (task_copy t)" "net_store.copy_of (sys_server s) (task_copy t)"
  using assms by (auto simp: sys_wf_def task_ok_def ran_def)

text \<open>The allocation a host writes is one on the stored network.\<close>

lemma written_on_stored:
  assumes "sys_wf c n s" and "sys_task s h = Some t" and "rv (task_copy t) = rv (sys_server s)"
  shows "dn_Spec (task_copy t) = dn_Spec (sys_server s)"
  using sys_wf_task(2) [OF assms(1,2)] assms(3) by (simp add: net_store.copy_of_def)

lemma taken_position:
  assumes c: "parse_net c = Some n" and n: "v4_net n" and net: "on_net c n copy" and req: "req \<noteq> NoneAllocType"
    and ok: "allocateAddress (Pool (opts copy)) (Alloc (opts copy)) req (Cidr (opts copy)) (Cidr (opts copy)) = Ok (al, ip, p)"
  shows "pos_of n ip \<notin> net_bits copy" "pos_of n ip \<in> ba_bits (NewBitArrayFromBase64 al)" "pool_in_net p n"
proof -
  have ok': "allocateAddress (Pool (opts copy)) (Alloc (opts copy)) req c c = Ok (al, ip, p)"
    and pool: "pool_in_net (Pool (opts copy)) n" using ok net by (auto simp: on_net_def)
  from take_spec [OF c n pool req ok'] obtain i arr where
    i: "Get (NewBitArrayFromBase64 (Alloc (opts copy))) i = Ok False"
      "Set (NewBitArrayFromBase64 (Alloc (opts copy))) i = Ok arr" "al = Encode arr"
      "GetIndexOfIp (addr_of ip) (Some n) = Ok i" "pool_in_net p n" by blast
  have p: "pos_of n ip = unat i" using i(4) by (simp add: pos_of_def)
  show "pos_of n ip \<notin> net_bits copy" using i(1) p by (simp add: ba.get_Ok_iff)
  show "pos_of n ip \<in> ba_bits (NewBitArrayFromBase64 al)" using i(3) p Set_bits [OF i(2)] by simp
  show "pool_in_net p n" by fact
qed

lemma released_position:
  assumes c: "parse_net c = Some n" and n: "v4_net n" and cont: "Contains n (addr_of ip)"
    and ok: "resetIp alloc c (addr_of ip) = Ok al"
  shows "pos_of n ip \<notin> ba_bits (NewBitArrayFromBase64 al)"
proof -
  obtain i where i: "GetIndexOfIp (addr_of ip) (Some n) = Ok i" using v4.index_total [OF n cont] by blast
  have "addr_of ip \<noteq> []" using cont v4_contains [OF n] by (auto simp: To4_def)
  with ok cont i obtain arr where "Reset (NewBitArrayFromBase64 alloc) i = Ok arr" "al = Encode arr"
    by (auto simp: resetIp_def c Let_def)
  with i show ?thesis using Reset_bits [of _ i arr] by (simp add: pos_of_def)
qed

lemma free_accepted:
  assumes "free_pass lock_client orig a copy w = Inr (Ok (), w')"
  shows "w' = w \<or> (\<exists>m. store_net m w = Some w' \<and> Cidr (opts w') = Cidr (opts copy) \<and> Pool (opts w') = Pool (opts copy))"
proof -
  from assms obtain changed where ok: "free_ip a copy = Ok changed"
    and out: "w' = w \<or> updateIpAllocation lock_client changed w = (Ok None, w')"
    by (auto simp: free_pass_def split: res.splits prod.splits option.splits if_splits)
  have "Cidr (opts changed) = Cidr (opts copy) \<and> Pool (opts changed) = Pool (opts copy)"
    using ok by (auto simp: free_ip_def split: if_splits)
  with out show ?thesis using lock_accepts [of changed w w'] by (auto simp: store_net_def)
qed

lemma sys_wf_step:
  assumes c: "parse_net c = Some n" and n: "v4_net n" and wf: "sys_wf c n s" and step: "sys_step gc s u"
  shows "sys_wf c n u"
proof -
  have tasks: "\<forall>t \<in> ran (sys_task s). task_ok c n (sys_server s) t" and srv: "on_net c n (sys_server s)"
    and unrec: "\<forall>(orig, copy, ip) \<in> set (sys_unrecorded s). pos_of n ip \<in> net_bits orig - net_bits copy"
    using wf by (auto simp: sys_wf_def)
  have stored: "task_ok c n (sys_server s) t" if "dn_Spec (task_copy t) = dn_Spec (sys_server s)"
    "rv (task_copy t) = rv (sys_server s)" "case t of Reserving _ req _ \<Rightarrow> req \<noteq> [] \<and> req \<noteq> NoneAllocType | Releasing _ _ _ \<Rightarrow> True" for t
    using that srv on_net_spec [OF that(1)] by (auto simp: task_ok_def intro: net_store.copy_refl)
  have req: "req \<noteq> [] \<and> req \<noteq> NoneAllocType" if "sys_task s h = Some (Reserving orig req copy)" for h orig req copy
    using tasks that by (fastforce simp: ran_def task_ok_def)
  note upd = tasks_update [OF tasks]
  from step show ?thesis
  proof cases
    case (start_reserve h req m k w')
    with read_is_stored [OF start_reserve(5)] stored upd [of "Some (Reserving k req k)" h] srv unrec show ?thesis
      by (simp add: sys_wf_def)
  next
    case (reserve_conflict h orig req copy m w')
    with lock_reserve_conflict [OF reserve_conflict(3)] stored upd [of "Some (Reserving orig req m)" h] srv unrec
      req [OF reserve_conflict(2)] show ?thesis by (simp add: sys_wf_def)
  next
    case (reserve_written h orig req copy ip ip6 w')
    obtain al p where al: "allocateAddress (Pool (opts copy)) (Alloc (opts copy)) req (Cidr (opts copy)) (Cidr (opts copy)) = Ok (al, ip, p)"
      and w': "rv copy = rv (sys_server s)" "w' = bump (set_opts (\<lambda>oo. oo\<lparr>Alloc := al, Pool := p\<rparr>) copy)"
      using lock_reserve_ok [OF reserve_written(3)] req [OF reserve_written(2)] reserve_written(4) by metis
    have copy: "on_net c n copy" using sys_wf_task(1) [OF wf reserve_written(2)] by simp
    have "on_net c n w'"
      using taken_position(3) [OF c n copy _ al] req [OF reserve_written(2)] copy w' by (simp add: on_net_def)
    moreover have "store_net (set_opts (\<lambda>oo. oo\<lparr>Alloc := al, Pool := p\<rparr>) copy) (sys_server s) = Some w'"
      using w' by (simp add: store_net_def)
    ultimately show ?thesis using reserve_written(1) tasks_write [OF tasks] unrec by (simp add: sys_wf_def)
  next
    case (reserve_unwritten h orig req copy ip ip6)
    obtain al p where al: "allocateAddress (Pool (opts copy)) (Alloc (opts copy)) req (Cidr (opts copy)) (Cidr (opts copy)) = Ok (al, ip, p)"
      and same: "Alloc (opts orig) = al"
      using lock_reserve_ok [OF reserve_unwritten(3)] req [OF reserve_unwritten(2)] by metis
    have copy: "on_net c n copy" using sys_wf_task(1) [OF wf reserve_unwritten(2)] by simp
    have "pos_of n ip \<in> net_bits orig - net_bits copy"
      using taken_position(1,2) [OF c n copy _ al] req [OF reserve_unwritten(2)] same by simp
    then show ?thesis using reserve_unwritten(1) upd [of None h] srv unrec by (simp add: sys_wf_def)
  next
    case (reserve_error h orig req copy r w')
    with lock_reserve_error [OF reserve_error(3,4)] upd [of None h] srv unrec show ?thesis by (simp add: sys_wf_def)
  next
    case (start_release h ip m k w')
    with read_is_stored [OF start_release(5)] stored upd [of "Some (Releasing k ip k)" h] srv unrec show ?thesis
      by (simp add: sys_wf_def)
  next
    case (release_conflict h orig ip copy m w')
    with lock_free_conflict [OF release_conflict(3)] stored upd [of "Some (Releasing orig ip m)" h] srv unrec
    show ?thesis by (simp add: sys_wf_def)
  next
    case (release_end h orig ip copy w')
    have copy: "on_net c n copy" using sys_wf_task(1) [OF wf release_end(2)] by simp
    have "w' = sys_server s \<or> on_net c n w' \<and> (\<exists>k. store_net k (sys_server s) = Some w')"
      using free_accepted [OF release_end(3)] copy by (auto simp: on_net_def)
    then show ?thesis using release_end(1) upd [of None h] tasks_write [OF tasks] srv unrec
      by (auto simp: sys_wf_def)
  next
    case (release_error h orig ip copy r w')
    with lock_free_error [OF release_error(3,4)] upd [of None h] srv unrec show ?thesis by (simp add: sys_wf_def)
  next
    case (stop h)
    with upd [of None h] srv unrec show ?thesis by (simp add: sys_wf_def)
  qed
qed

lemma releasing_other:
  assumes "releasing_ok n s" and "\<And>o' ip k'. x = Some (Releasing o' ip k') \<Longrightarrow> \<exists>k. sys_task s h = Some (Releasing o' ip k)"
    and "set (sys_held s) \<subseteq> set held"
  shows "releasing_ok n (s\<lparr>sys_server := w, sys_task := (sys_task s)(h := x), sys_held := held\<rparr>)"
  using assms unfolding releasing_ok_def by (auto split: if_splits) blast+

lemma releasing_end:
  assumes "releasing_ok n s" and "sys_task s h = Some (Releasing orig ip copy)"
  shows "releasing_ok n (s\<lparr>sys_server := w, sys_task := (sys_task s)(h := None), sys_held := remove1 ip (sys_held s)\<rparr>)"
proof -
  have "ip' \<in> set (remove1 ip (sys_held s))" if "sys_task s h' = Some (Releasing o' ip' k')" "h' \<noteq> h" for h' o' ip' k'
  proof -
    have "ip' \<noteq> ip" using assms that unfolding releasing_ok_def by blast
    moreover have "ip' \<in> set (sys_held s)" using assms(1) that(1) unfolding releasing_ok_def by blast
    ultimately show ?thesis by (simp add: in_set_remove1)
  qed
  with assms(1) show ?thesis unfolding releasing_ok_def by (auto split: if_splits)
qed

lemma sys_step_refines:
  assumes c: "parse_net c = Some n" and n: "v4_net n" and inv: "sys_inv c n R s" and step: "sys_step gc s u"
    and unrec: "sys_unrecorded u = []"
  shows "(ipam_step c)\<^sup>=\<^sup>= (sys_abs s) (sys_abs u) \<and> releasing_ok n u"
proof -
  have "sys_unrecorded s = []" using step unrec by cases auto
  with inv have wf: "sys_wf c n s" and ipam: "ipam_inv n R (sys_abs s)" and rel: "releasing_ok n s"
    by (auto simp: sys_inv_def)
  have srv: "on_net c n (sys_server s)" using wf by (simp add: sys_wf_def)
  have held: "Contains n (addr_of ip)" if "ip \<in> set (sys_held s)" for ip
    using ipam that by (simp add: ipam_inv_def sys_abs_def)
  note keep = releasing_other [OF rel, where held = "sys_held s"]
  from step show ?thesis
  proof cases
    case (start_reserve h req m k w')
    with read_is_stored [OF start_reserve(5)] keep [of "Some (Reserving k req k)" h w'] show ?thesis
      by (simp add: sys_abs_def)
  next
    case (reserve_conflict h orig req copy m w')
    with lock_reserve_conflict [OF reserve_conflict(3)] keep [of "Some (Reserving orig req m)" h w'] show ?thesis
      by (simp add: sys_abs_def)
  next
    case (reserve_written h orig req copy ip ip6 w')
    have req: "req \<noteq> []" "req \<noteq> NoneAllocType"
      using wf reserve_written(2) by (fastforce simp: sys_wf_def ran_def task_ok_def)+
    obtain al p where al: "allocateAddress (Pool (opts copy)) (Alloc (opts copy)) req (Cidr (opts copy)) (Cidr (opts copy)) = Ok (al, ip, p)"
      and w': "rv copy = rv (sys_server s)" "w' = bump (set_opts (\<lambda>oo. oo\<lparr>Alloc := al, Pool := p\<rparr>) copy)"
      using lock_reserve_ok [OF reserve_written(3) req(1)] reserve_written(4) by metis
    have "dn_Spec copy = dn_Spec (sys_server s)" using written_on_stored [OF wf reserve_written(2)] w'(1) by simp
    with al srv have "allocateAddress (st_pool (sys_abs s)) (st_alloc (sys_abs s)) req c c = Ok (al, ip, p)"
      by (simp add: sys_abs_def on_net_def)
    from ipam_step.take [of req "sys_abs s" c, OF req(2) this]
    have "ipam_step c (sys_abs s) (sys_abs u)" using w'(2) reserve_written(1) by (simp add: sys_abs_def)
    moreover have "releasing_ok n u"
      unfolding reserve_written(1) by (rule releasing_other [OF rel]) auto
    ultimately show ?thesis by simp
  next
    case (reserve_unwritten h orig req copy ip ip6)
    with unrec show ?thesis by simp
  next
    case (reserve_error h orig req copy r w')
    with lock_reserve_error [OF reserve_error(3,4)] keep [of None h w'] show ?thesis by (simp add: sys_abs_def)
  next
    case (start_release h ip m k w')
    have stored: "w' = sys_server s" "dn_Spec k = dn_Spec (sys_server s)" using read_is_stored [OF start_release(5)] by auto
    have ip: "ip \<in> set (sys_held s)" using start_release(3) \<open>sys_unrecorded s = []\<close> by simp
    then have "pos_of n ip \<in> net_bits k" using ipam stored by (auto simp: ipam_inv_def sys_abs_def)
    with rel ip start_release(4) have "releasing_ok n u"
      unfolding start_release(1) releasing_ok_def by (auto split: if_splits)
    with start_release(1) stored show ?thesis by (simp add: sys_abs_def)
  next
    case (release_conflict h orig ip copy m w')
    with lock_free_conflict [OF release_conflict(3)] keep [of "Some (Releasing orig ip m)" h w'] show ?thesis
      by (simp add: sys_abs_def)
  next
    case (release_end h orig ip copy w')
    have ip: "ip \<in> set (sys_held s)" "pos_of n ip \<in> net_bits orig" using rel release_end(2) by (auto simp: releasing_ok_def)
    have "To4 (addr_of ip) \<noteq> []" using held [OF ip(1)] v4_contains [OF n] by simp
    from lock_free_ok [OF release_end(3) this] obtain al where al: "resetIp (Alloc (opts copy)) (Cidr (opts copy)) (addr_of ip) = Ok al"
      and w': "w' \<noteq> sys_server s \<longrightarrow> rv copy = rv (sys_server s) \<and> w' = bump (set_opts (\<lambda>oo. oo\<lparr>Alloc := al\<rparr>) copy)"
      and same: "w' = sys_server s \<longrightarrow> Alloc (opts orig) = al" .
    have copy: "on_net c n copy" using sys_wf_task(1) [OF wf release_end(2)] by simp
    then have "pos_of n ip \<notin> ba_bits (NewBitArrayFromBase64 al)"
      using released_position [OF c n held [OF ip(1)]] al by (simp add: on_net_def)
    with ip(2) same have "w' \<noteq> sys_server s" by auto
    with w' have w': "rv copy = rv (sys_server s)" "w' = bump (set_opts (\<lambda>oo. oo\<lparr>Alloc := al\<rparr>) copy)" by auto
    have spec: "dn_Spec copy = dn_Spec (sys_server s)" using written_on_stored [OF wf release_end(2)] w'(1) by simp
    with al srv have "resetIp (st_alloc (sys_abs s)) c (addr_of ip) = Ok al" by (simp add: sys_abs_def on_net_def)
    from ipam_step.release [of ip "sys_abs s" c, OF _ this] ip(1)
    have "ipam_step c (sys_abs s) (sys_abs u)" using w'(2) spec release_end(1) by (simp add: sys_abs_def)
    moreover have "releasing_ok n u"
      unfolding release_end(1) by (rule releasing_end [OF rel release_end(2)])
    ultimately show ?thesis by simp
  next
    case (release_error h orig ip copy r w')
    with lock_free_error [OF release_error(3,4)] keep [of None h w'] show ?thesis by (simp add: sys_abs_def)
  next
    case (stop h)
    with keep [of None h "sys_server s"] show ?thesis by (simp add: sys_abs_def)
  qed
qed

lemma sys_inv_step:
  assumes "parse_net c = Some n" and "v4_net n" and "sys_inv c n R s" and "sys_step gc s u"
  shows "sys_inv c n R u"
proof -
  have "ipam_inv n R (sys_abs u) \<and> releasing_ok n u" if "sys_unrecorded u = []"
  proof -
    have "sys_unrecorded s = []" using assms(4) that by cases auto
    with sys_step_refines [OF assms that] assms(3) ipam_reachable_inv [OF assms(1,2)] show ?thesis
      by (auto simp: sys_inv_def)
  qed
  with sys_wf_step [OF assms(1,2) _ assms(4)] assms(3) show ?thesis by (simp add: sys_inv_def)
qed

lemma sys_inv_reachable:
  assumes "(sys_step gc)\<^sup>*\<^sup>* s t" and "parse_net c = Some n" and "v4_net n" and "sys_inv c n R s"
  shows "sys_inv c n R t"
  using assms by (induction rule: rtranclp_induct) (auto intro: sys_inv_step)

lemma sys_inv_start:
  "pool_in_net (Pool (opts net0)) n \<Longrightarrow> sys_inv (Cidr (opts net0)) n (net_bits net0) (sys_start net0)"
  by (simp add: sys_inv_def sys_wf_def sys_start_def on_net_def ipam_inv_def sys_abs_def releasing_ok_def)

section \<open>Properties\<close>



text \<open>The network 10.0.0.0/29 as an object, at a version and with an allocation array.\<close>

definition demo_object :: "string \<Rightarrow> string \<Rightarrow> DanmNet" where
  "demo_object version al =
     \<lparr>dn_Kind = DanmNetKind,
      dn_Meta = empty_meta\<lparr>mt_Name := ''n1'', mt_Namespace := ''ns'', mt_ResourceVersion := version\<rparr>,
      dn_Spec = (dn_Spec empty_net)\<lparr>NetworkID := ''n1'', Options := empty_options\<lparr>
        Cidr := ''10.0.0.0/29'', Alloc := al, Pool := demo_pool\<lparr>LastIp := ''10.0.0.1/29''\<rparr>\<rparr>\<rparr>\<rparr>"

lemma demo_object_simps [simp]:
  "dn_Kind (demo_object v al) = DanmNetKind" "rv (demo_object v al) = v"
  "mt_Name (dn_Meta (demo_object v al)) = ''n1''" "mt_Namespace (dn_Meta (demo_object v al)) = ''ns''"
  "Cidr (opts (demo_object v al)) = ''10.0.0.0/29''" "Alloc (opts (demo_object v al)) = al"
  "Pool (opts (demo_object v al)) = demo_pool\<lparr>LastIp := ''10.0.0.1/29''\<rparr>"
  by (simp_all add: demo_object_def)

lemma demo_used: "NewBitArrayFromBase64 ''wQ=='' = \<lparr>ba_len = 8, ba_data = [193]\<rparr>"
  "Set \<lparr>ba_len = 8, ba_data = [193]\<rparr> 2 = Ok \<lparr>ba_len = 8, ba_data = [225]\<rparr>"
  "Encode \<lparr>ba_len = 8, ba_data = [225]\<rparr> = ''4Q==''"
  "getIpFromIndex 2 (Some demo_net) (Some demo_net) = Ok ''10.0.0.2/29''"
  by code_simp+

lemma demo_scan2: "scan \<lparr>ba_len = 8, ba_data = [193]\<rparr> 1 1 1 6 = Some (Ok (Some 2))"
  by code_simp

lemma demo_used_pool:
  "getAllocRangeBasedOnCidr (demo_pool\<lparr>LastIp := ''10.0.0.1/29''\<rparr>) (Some demo_net) = Ok (1, 6)"
  "GetIndexOfIp (ParseIP ''10.0.0.1/29'') (Some demo_net) = Ok 0"
  by code_simp+

lemma demo_take_again:
  "allocateAddress (demo_pool\<lparr>LastIp := ''10.0.0.1/29''\<rparr>) demo_alloc DynamicAllocType
     ''10.0.0.0/29'' ''10.0.0.0/29'' = Ok (''wQ=='', ''10.0.0.1/29'', demo_pool\<lparr>LastIp := ''10.0.0.1/29''\<rparr>)"
  "allocateAddress (demo_pool\<lparr>LastIp := ''10.0.0.1/29''\<rparr>) ''wQ=='' DynamicAllocType
     ''10.0.0.0/29'' ''10.0.0.0/29'' = Ok (''4Q=='', ''10.0.0.2/29'', demo_pool\<lparr>LastIp := ''10.0.0.2/29''\<rparr>)"
proof -
  have "demo_alloc \<noteq> []" "DynamicAllocType \<noteq> NoneAllocType"
    by (simp_all add: demo_alloc_def alloc_type_defs)
  then show "allocateAddress (demo_pool\<lparr>LastIp := ''10.0.0.1/29''\<rparr>) demo_alloc DynamicAllocType
     ''10.0.0.0/29'' ''10.0.0.0/29'' = Ok (''wQ=='', ''10.0.0.1/29'', demo_pool\<lparr>LastIp := ''10.0.0.1/29''\<rparr>)"
    and "allocateAddress (demo_pool\<lparr>LastIp := ''10.0.0.1/29''\<rparr>) ''wQ=='' DynamicAllocType
     ''10.0.0.0/29'' ''10.0.0.0/29'' = Ok (''4Q=='', ''10.0.0.2/29'', demo_pool\<lparr>LastIp := ''10.0.0.2/29''\<rparr>)"
    by (simp_all add: allocateAddress_def allocateDynamic_def demo_parse demo_used_pool demo_decode
        demo_scan demo_set demo_text demo_encode demo_used demo_scan2)
qed

lemma demo_reserve:
  "allocateIps gc (demo_object v demo_alloc) DynamicAllocType [] = Ok (''10.0.0.1/29'', [], demo_object v ''wQ=='')"
  "allocateIps gc (demo_object v ''wQ=='') DynamicAllocType [] = Ok (''10.0.0.2/29'', [],
     set_opts (\<lambda>oo. oo\<lparr>Alloc := ''4Q=='', Pool := demo_pool\<lparr>LastIp := ''10.0.0.2/29''\<rparr>\<rparr>) (demo_object v ''wQ==''))"
proof -
  have "DynamicAllocType \<noteq> []" by (simp add: alloc_type_defs)
  then show "allocateIps gc (demo_object v ''wQ=='') DynamicAllocType [] = Ok (''10.0.0.2/29'', [],
     set_opts (\<lambda>oo. oo\<lparr>Alloc := ''4Q=='', Pool := demo_pool\<lparr>LastIp := ''10.0.0.2/29''\<rparr>\<rparr>) (demo_object v ''wQ==''))"
    and "allocateIps gc (demo_object v demo_alloc) DynamicAllocType [] = Ok (''10.0.0.1/29'', [], demo_object v ''wQ=='')"
    by (simp_all add: allocateIps_def allocate4_def allocate6_def demo_take_again set_opts_def demo_object_def)
qed

lemma demo_accept:
  "updateIpAllocation lock_client (demo_object v al) (demo_object v al') = (Ok None, bump (demo_object v al))"
  by (simp add: updateIpAllocation_def PutNetwork_eq lock_client_def)

lemma two_steps: "r a b \<Longrightarrow> r b c \<Longrightarrow> r\<^sup>*\<^sup>* a c"
  by auto

lemma demo_run:
  "\<exists>t. (sys_step std_cidr)\<^sup>*\<^sup>* (sys_start (demo_object ''1'' demo_alloc)) t \<and> sys_unrecorded t = [] \<and>
     sys_held t = [''10.0.0.1/29''] \<and> sys_server t = bump (demo_object ''1'' ''wQ=='')"
proof -
  let ?n = "demo_object ''1'' demo_alloc" and ?m = "demo_object ''1'' ''wQ==''"
  let ?s = "sys_start ?n"
  let ?t = "?s\<lparr>sys_server := ?n, sys_task := (sys_task ?s)(0 \<mapsto> Reserving ?n DynamicAllocType ?n)\<rparr>"
  let ?u = "?t\<lparr>sys_server := bump ?m, sys_task := (sys_task ?t)(0 := None), sys_held := ''10.0.0.1/29'' # sys_held ?t\<rparr>"
  have "RefreshNetwork lock_client ?n (sys_server ?s) = (Ok ?n, ?n)"
    by (simp add: RefreshNetwork_eq get_named_def lock_client_def api_kind_def sys_start_def)
  then have s1: "sys_step std_cidr ?s ?t"
    by (intro sys_step.start_reserve) (simp_all add: sys_start_def alloc_type_defs)
  have "\<not> deep_equal_spec (dn_Spec ?n) (dn_Spec ?m)"
    using deep_equal_fields(1) [of "dn_Spec ?n" "dn_Spec ?m"] by (auto simp: demo_alloc_def)
  then have "reserve_pass std_cidr lock_client ?n DynamicAllocType [] ?n (sys_server ?t) =
      Inr (Ok (''10.0.0.1/29'', []), bump ?m)"
    by (simp add: reserve_pass_def demo_reserve demo_accept)
  then have s2: "sys_step std_cidr ?t ?u"
    by (intro sys_step.reserve_written [where orig = ?n and copy = ?n]) (simp_all)
  have "(sys_step std_cidr)\<^sup>*\<^sup>* ?s ?u"
    by (rule two_steps [of "sys_step std_cidr" ?s ?t ?u]) (fact s1, fact s2)
  then show ?thesis by (intro exI [of _ ?u]) (simp add: sys_start_def)
qed

lemma demo_object_pool: "pool_in_net (Pool (opts (demo_object v demo_alloc))) demo_net"
  using demo_in_net by simp

lemma demo_object_net:
  "parse_net (Cidr (opts (demo_object v al))) = Some demo_net" "length (net_IP demo_net) = 4"
  by (simp add: demo_parse) (simp add: demo_net_def)



text \<open>
  C36. \<open>Reserve\<close> can return an address it never recorded. A host holds a stale copy in which
  10.0.0.1 is taken; meanwhile its holder released it. The write meets a conflict, the retry
  allocates 10.0.0.1 on the fresh object, and the result equals the stale copy the loop started
  from, which the code takes for "unchanged": the address is returned while the server's object
  still has it free.
\<close>

theorem Reserve_returns_unrecorded_address:
  "Reserve std_cidr lock_client (demo_object ''1'' ''wQ=='') DynamicAllocType [] (demo_object ''2'' demo_alloc)
     = (Ok (''10.0.0.1/29'', []), demo_object ''2'' demo_alloc) \<and>
   pos_of demo_net ''10.0.0.1/29'' \<notin> ba_bits (NewBitArrayFromBase64 (Alloc (opts (demo_object ''2'' demo_alloc))))"
proof
  let ?stale = "demo_object ''1'' ''wQ==''" and ?w = "demo_object ''2'' demo_alloc"
  let ?changed = "set_opts (\<lambda>oo. oo\<lparr>Alloc := ''4Q=='', Pool := demo_pool\<lparr>LastIp := ''10.0.0.2/29''\<rparr>\<rparr>) ?stale"
  have diff: "\<not> deep_equal_spec (dn_Spec ?stale) (dn_Spec ?changed)"
    using deep_equal_fields(1) [of "dn_Spec ?stale" "dn_Spec ?changed"] by auto
  have same: "dn_Spec (demo_object ''2'' ''wQ=='') = dn_Spec ?stale" by (simp add: demo_object_def)
  have conflict: "updateIpAllocation lock_client ?changed ?w = (Ok (Some ?w), ?w)"
    by (simp add: updateIpAllocation_def PutNetwork_eq RefreshNetwork_eq get_named_def lock_client_def
        api_kind_def)
  have "Reserve_loop std_cidr lock_client ?stale DynamicAllocType [] ?w ?w = Some (Ok (''10.0.0.1/29'', []), ?w)"
    by (subst Reserve_loop.simps) (simp add: demo_reserve same)
  then have "Reserve_loop std_cidr lock_client ?stale DynamicAllocType [] ?stale ?w
      = Some (Ok (''10.0.0.1/29'', []), ?w)"
    by (subst Reserve_loop.simps) (simp add: demo_reserve diff conflict)
  then show "Reserve std_cidr lock_client ?stale DynamicAllocType [] ?w = (Ok (''10.0.0.1/29'', []), ?w)"
    by (simp add: Reserve_def run_loop_def)
  have "pos_of demo_net ''10.0.0.1/29'' = 1" by code_simp
  then show "pos_of demo_net ''10.0.0.1/29'' \<notin> ba_bits (NewBitArrayFromBase64 (Alloc (opts ?w)))"
    by (simp add: demo_bits)
qed

end
