(* ===== verification/Confman.thy ===== *)
theory Confman
  imports BitArray Locking
begin

text \<open>
  \<^verbatim>\<open>pkg/confman/confman.go\<close>: virtual network identifiers (VNIs) reserved from and
  released to the interface profiles of the cluster's TenantConfig. The parser of VNI ranges is
  Kubernetes' \<^verbatim>\<open>cpuset.Parse\<close> followed by \<^verbatim>\<open>ToSlice\<close>, a
  parameter: it gives an error text or the sorted identifiers. As in the address allocator, the
  retry loops are \<open>partial_function\<close>s.
\<close>

type_synonym cpuset_parser = "string \<Rightarrow> string + int list"

definition TenantConfigKind :: string where
  "TenantConfigKind = ''TenantConfig''"

definition GetTenantConfig :: "'w DanmClient \<Rightarrow> ('w, TenantConfig) st" where
  "GetTenantConfig danmClient w =
     (case api_tconf_list danmClient w of
        (Inl msg, w') \<Rightarrow> (Err (ApiError msg), w')
      | (Inr None, w') \<Rightarrow> (Err NoTenantConfig, w')
      | (Inr (Some []), w') \<Rightarrow> (Err NoTenantConfig, w')
      | (Inr (Some (tconf # _)), w') \<Rightarrow> (Ok tconf, w'))"

section \<open>Choosing and releasing a VNI of a profile\<close>

text \<open>The loop over the identifiers of the range: the first free one, and the array with it taken.\<close>

fun pick_vni :: "BitArray \<Rightarrow> int list \<Rightarrow> (int \<times> BitArray) option res" where
  "pick_vni allocs [] = Ok None"
| "pick_vni allocs (vni # vnis) =
     bind_res (Get allocs (word_of_int vni)) (\<lambda>taken.
       if taken then pick_vni allocs vnis
       else bind_res (Set allocs (word_of_int vni)) (\<lambda>allocs'. Ok (Some (vni, allocs'))))"

definition reserveVni :: "cpuset_parser \<Rightarrow> IfaceProfile \<Rightarrow> (int \<times> string) res" where
  "reserveVni parse iface =
     (let allocs = NewBitArrayFromBase64 (prof_Alloc iface) in
      if Len (Some allocs) = 0 then Err (CorruptVniAlloc (prof_Name iface))
      else (case parse (VniRange iface) of
        Inl msg \<Rightarrow> Err (BadVniRange (prof_Name iface) msg)
      | Inr vniSet \<Rightarrow>
          bind_res (pick_vni allocs vniSet) (\<lambda>chosen.
            case chosen of
              None \<Rightarrow> Err (VniRangeFull (prof_Name iface))
            | Some (chosenVni, allocs') \<Rightarrow>
                if chosenVni = -1 then Err (VniRangeFull (prof_Name iface))
                else Ok (chosenVni, Encode allocs'))))"

fun getIfaceIndex_from :: "nat \<Rightarrow> IfaceProfile list \<Rightarrow> string \<Rightarrow> string \<Rightarrow> nat option" where
  "getIfaceIndex_from i [] name vniType = None"
| "getIfaceIndex_from i (iface # ifaces) name vniType =
     (if prof_Name iface = name \<and> VniType iface = vniType then Some i
      else getIfaceIndex_from (Suc i) ifaces name vniType)"

text \<open>The code's \<open>-1\<close> is \<open>None\<close>.\<close>

definition getIfaceIndex :: "TenantConfig \<Rightarrow> string \<Rightarrow> string \<Rightarrow> nat option" where
  "getIfaceIndex tconf name vniType = getIfaceIndex_from 0 (HostDevices tconf) name vniType"

definition dnet_vni :: "DanmNet \<Rightarrow> int" where
  "dnet_vni dnet = (if Vxlan (opts dnet) \<noteq> 0 then Vxlan (opts dnet) else Vlan (opts dnet))"

definition freeVni :: "DanmNet \<Rightarrow> IfaceProfile \<Rightarrow> string res" where
  "freeVni dnet iface =
     (let allocs = NewBitArrayFromBase64 (prof_Alloc iface) in
      if Len (Some allocs) = 0 then Err (CorruptVniAlloc (prof_Name iface))
      else bind_res (Reset allocs (word_of_int (dnet_vni dnet))) (\<lambda>allocs'. Ok (Encode allocs')))"

section \<open>Writing the TenantConfig back\<close>

text \<open>The result is the configuration to retry with, when the write met a conflict.\<close>

definition updateTenantConf :: "'w DanmClient \<Rightarrow> TenantConfig \<Rightarrow> ('w, TenantConfig option) st" where
  "updateTenantConf danmClient tconf w =
     (case api_tconf_update danmClient tconf w of
        (None, w1) \<Rightarrow> (Ok None, w1)
      | (Some msg, w1) \<Rightarrow>
          if contains msg OptimisticLockErrorMsg then
            (case api_tconf_get danmClient (mt_Name (tc_Meta tconf)) w1 of
               (Inl msg', w2) \<Rightarrow> (Err (ApiError msg'), w2)
             | (Inr newConf, w2) \<Rightarrow> (Ok (Some (newConf\<lparr>tc_Kind := TenantConfigKind\<rparr>)), w2))
          else (Err (ApiError msg), w1))"

definition set_alloc :: "nat \<Rightarrow> string \<Rightarrow> TenantConfig \<Rightarrow> TenantConfig" where
  "set_alloc index newAlloc tconf =
     tconf\<lparr>HostDevices := (HostDevices tconf)[index := (HostDevices tconf ! index)\<lparr>prof_Alloc := newAlloc\<rparr>]\<rparr>"

partial_function (option) vni_reserve_loop ::
  "cpuset_parser \<Rightarrow> 'w DanmClient \<Rightarrow> IfaceProfile \<Rightarrow> TenantConfig \<Rightarrow> 'w \<Rightarrow> (int res \<times> 'w) option" where
  "vni_reserve_loop parse danmClient iface tconf w =
     (case getIfaceIndex tconf (prof_Name iface) (VniType iface) of
        None \<Rightarrow> Some (Err NoSuchProfile, w)
      | Some index \<Rightarrow>
          (case reserveVni parse (HostDevices tconf ! index) of
             Ok (chosenVni, newAlloc) \<Rightarrow>
               (case updateTenantConf danmClient (set_alloc index newAlloc tconf) w of
                  (Ok None, w') \<Rightarrow> Some (Ok chosenVni, w')
                | (Ok (Some newConf), w') \<Rightarrow> vni_reserve_loop parse danmClient iface newConf w'
                | (Err e, w') \<Rightarrow> Some (Err e, w')
                | (Panic, w') \<Rightarrow> Some (Panic, w')
                | (Hang, w') \<Rightarrow> Some (Hang, w'))
           | Err e \<Rightarrow> Some (Err e, w)
           | Panic \<Rightarrow> Some (Panic, w)
           | Hang \<Rightarrow> Some (Hang, w)))"

text \<open>\<^verbatim>\<open>confman.Reserve\<close>.\<close>

definition vni_Reserve :: "cpuset_parser \<Rightarrow> 'w DanmClient \<Rightarrow> TenantConfig \<Rightarrow> IfaceProfile \<Rightarrow> ('w, int) st" where
  "vni_Reserve parse danmClient tconf iface w =
     (case vni_reserve_loop parse danmClient iface tconf w of None \<Rightarrow> (Hang, w) | Some r \<Rightarrow> r)"

partial_function (option) vni_free_loop ::
  "'w DanmClient \<Rightarrow> DanmNet \<Rightarrow> string \<Rightarrow> string \<Rightarrow> TenantConfig \<Rightarrow> 'w \<Rightarrow> (unit res \<times> 'w) option" where
  "vni_free_loop danmClient dnet ifaceName vniType tconf w =
     (case getIfaceIndex tconf ifaceName vniType of
        None \<Rightarrow> Some (Ok (), w)
      | Some index \<Rightarrow>
          (case freeVni dnet (HostDevices tconf ! index) of
             Ok newAlloc \<Rightarrow>
               (case updateTenantConf danmClient (set_alloc index newAlloc tconf) w of
                  (Ok None, w') \<Rightarrow> Some (Ok (), w')
                | (Ok (Some newConf), w') \<Rightarrow> vni_free_loop danmClient dnet ifaceName vniType newConf w'
                | (Err e, w') \<Rightarrow> Some (Err e, w')
                | (Panic, w') \<Rightarrow> Some (Panic, w')
                | (Hang, w') \<Rightarrow> Some (Hang, w'))
           | Err e \<Rightarrow> Some (Err e, w)
           | Panic \<Rightarrow> Some (Panic, w)
           | Hang \<Rightarrow> Some (Hang, w)))"

text \<open>\<^verbatim>\<open>confman.Free\<close>.\<close>

definition vni_Free :: "'w DanmClient \<Rightarrow> TenantConfig \<Rightarrow> DanmNet \<Rightarrow> ('w, unit) st" where
  "vni_Free danmClient tconf dnet w =
     (if Vlan (opts dnet) = 0 \<and> Vxlan (opts dnet) = 0 then (Ok (), w)
      else (let vniType = (if Vxlan (opts dnet) \<noteq> 0 then ''vxlan'' else ''vlan'');
                ifaceName = (if DevicePool (opts dnet) \<noteq> [] then DevicePool (opts dnet) else Device (opts dnet))
            in case vni_free_loop danmClient dnet ifaceName vniType tconf w of
                 None \<Rightarrow> (Hang, w) | Some r \<Rightarrow> r))"

section \<open>Lemmas\<close>

lemma getIfaceIndex_from_Some:
  "getIfaceIndex_from i ifaces name vniType = Some k \<Longrightarrow>
   i \<le> k \<and> k - i < length ifaces \<and> prof_Name (ifaces ! (k - i)) = name \<and> VniType (ifaces ! (k - i)) = vniType"
proof (induction i ifaces name vniType rule: getIfaceIndex_from.induct)
  case (1 i name vniType)
  then show ?case by simp
next
  case (2 i iface ifaces name vniType)
  show ?case
  proof (cases "prof_Name iface = name \<and> VniType iface = vniType")
    case True
    with 2 show ?thesis by auto
  next
    case False
    then have k: "Suc i \<le> k" "k - Suc i < length ifaces"
      "prof_Name (ifaces ! (k - Suc i)) = name" "VniType (ifaces ! (k - Suc i)) = vniType"
      using 2 by auto
    then have "k - i = Suc (k - Suc i)" by simp
    with k show ?thesis by simp
  qed
qed

lemma getIfaceIndex_Some:
  "getIfaceIndex tconf name vniType = Some k \<Longrightarrow>
   k < length (HostDevices tconf) \<and> prof_Name (HostDevices tconf ! k) = name \<and>
   VniType (HostDevices tconf ! k) = vniType"
  using getIfaceIndex_from_Some [of 0 "HostDevices tconf" name vniType k] by (simp add: getIfaceIndex_def)

definition vni_pos :: "int \<Rightarrow> nat" where
  "vni_pos vni = unat (word_of_int vni :: u32)"

lemma pick_vni_Some:
  "pick_vni allocs vnis = Ok (Some (v, allocs')) \<Longrightarrow>
   v \<in> set vnis \<and> vni_pos v \<notin> ba_bits allocs \<and> Set allocs (word_of_int v) = Ok allocs' \<and>
   (\<forall>u \<in> set (takeWhile (\<lambda>u. u \<noteq> v) vnis). vni_pos u \<in> ba_bits allocs)"
proof (induction vnis)
  case Nil
  then show ?case by simp
next
  case (Cons u vnis)
  then obtain taken where taken: "Get allocs (word_of_int u) = Ok taken" by auto
  then have t: "taken = (vni_pos u \<in> ba_bits allocs)" by (simp add: ba.get_Ok_iff vni_pos_def)
  show ?case
  proof (cases taken)
    case True
    with Cons taken have "pick_vni allocs vnis = Ok (Some (v, allocs'))" by simp
    with Cons.IH True t show ?thesis by auto
  next
    case False
    with Cons.prems taken t show ?thesis by auto
  qed
qed

lemma pick_vni_None: "pick_vni allocs vnis = Ok None \<longleftrightarrow> (\<forall>v \<in> set vnis. vni_pos v \<in> ba_bits allocs)"
proof (induction vnis)
  case Nil
  then show ?case by simp
next
  case (Cons v vnis)
  show ?case
  proof (cases "Get allocs (word_of_int v)")
    case (Ok taken)
    then have t: "taken = (vni_pos v \<in> ba_bits allocs)" by (simp add: ba.get_Ok_iff vni_pos_def)
    then show ?thesis using Ok Cons.IH by auto
  next
    case Panic
    then have "vni_pos v \<notin> ba_bits allocs"
      using ba_bits_bound [of "vni_pos v" allocs] by (auto simp: Get_eq vni_pos_def split: if_splits)
    with Panic show ?thesis by auto
  qed (simp_all add: Get_eq split: if_splits)
qed

lemma same_len:
  "length (ba_data a) = length (ba_data b) \<Longrightarrow>
   Len (Some (NewBitArrayFromBase64 (Encode a))) = Len (Some (NewBitArrayFromBase64 (Encode b)))"
  by (simp add: Len_def NewBitArrayFromBase64_def Encode_def Let_def)

lemma reserveVni_Ok:
  assumes "reserveVni parse iface = Ok (v, newAlloc)"
  shows "\<exists>vnis arr. parse (VniRange iface) = Inr vnis \<and> v \<in> set vnis \<and>
    vni_pos v \<notin> ba_bits (NewBitArrayFromBase64 (prof_Alloc iface)) \<and>
    Set (NewBitArrayFromBase64 (prof_Alloc iface)) (word_of_int v) = Ok arr \<and> newAlloc = Encode arr \<and>
    Len (Some (NewBitArrayFromBase64 (prof_Alloc iface))) \<noteq> 0"
proof -
  let ?allocs = "NewBitArrayFromBase64 (prof_Alloc iface)"
  from assms obtain vnis where vnis: "Len (Some ?allocs) \<noteq> 0" "parse (VniRange iface) = Inr vnis"
    by (auto simp: reserveVni_def Let_def split: if_splits sum.splits)
  from assms vnis obtain arr where "pick_vni ?allocs vnis = Ok (Some (v, arr))" "newAlloc = Encode arr"
    by (auto simp: reserveVni_def Let_def split: option.splits if_splits)
  with pick_vni_Some [of ?allocs vnis v arr] vnis show ?thesis by blast
qed

section \<open>Properties\<close>

text \<open>A profile with VLANs 1 to 5 and the array of a fresh one, for the concrete instances.\<close>

definition demo_profile :: IfaceProfile where
  "demo_profile = \<lparr>prof_Name = ''ens4'', VniType = ''vlan'', VniRange = ''1-5'', prof_Alloc = ''gA==''\<rparr>"

definition demo_parse_range :: cpuset_parser where
  "demo_parse_range s = (if s = ''1-5'' then Inr [1, 2, 3, 4, 5] else Inl ''bad range'')"

lemma demo_profile_alloc: "NewBitArrayFromBase64 (prof_Alloc demo_profile) = \<lparr>ba_len = 8, ba_data = [128]\<rparr>"
  by code_simp

lemma demo_profile_bits: "ba_bits \<lparr>ba_len = 8, ba_data = [128]\<rparr> = {0}" "ba_size \<lparr>ba_len = 8, ba_data = [128]\<rparr> = 8"
proof -
  have "\<forall>i < 8. bit (128 :: byte) (7 - i mod 8) \<longleftrightarrow> i = 0" by code_simp
  then show "ba_bits \<lparr>ba_len = 8, ba_data = [128]\<rparr> = {0}" by (auto simp: ba_bits_def ba_size_def)
  show "ba_size \<lparr>ba_len = 8, ba_data = [128]\<rparr> = 8" by (simp add: ba_size_def)
qed

lemma reserveVni_search:
  assumes len: "Len (Some (NewBitArrayFromBase64 (prof_Alloc iface))) \<noteq> 0"
    and range: "parse (VniRange iface) = Inr vnis"
    and inside: "\<forall>v \<in> set vnis. 0 \<le> v \<and> vni_pos v < ba_size (NewBitArrayFromBase64 (prof_Alloc iface))"
  shows "case find (\<lambda>v. vni_pos v \<notin> ba_bits (NewBitArrayFromBase64 (prof_Alloc iface))) vnis of
      None \<Rightarrow> reserveVni parse iface = Err (VniRangeFull (prof_Name iface))
    | Some v \<Rightarrow> \<exists>arr. reserveVni parse iface = Ok (v, Encode arr) \<and>
        ba_bits arr = insert (vni_pos v) (ba_bits (NewBitArrayFromBase64 (prof_Alloc iface)))"
proof -
  let ?allocs = "NewBitArrayFromBase64 (prof_Alloc iface)"
  let ?free = "\<lambda>v. vni_pos v \<notin> ba_bits ?allocs"
  have pick: "pick_vni ?allocs vs = (case find ?free vs of None \<Rightarrow> Ok None
      | Some v \<Rightarrow> bind_res (Set ?allocs (word_of_int v)) (\<lambda>a. Ok (Some (v, a))))"
    if "\<And>v. v \<in> set vs \<Longrightarrow> vni_pos v < ba_size ?allocs" for vs
    using that by (induction vs) (auto simp: Get_eq vni_pos_def)
  have r: "reserveVni parse iface = bind_res (pick_vni ?allocs vnis) (\<lambda>chosen.
      case chosen of None \<Rightarrow> Err (VniRangeFull (prof_Name iface))
      | Some (v, a) \<Rightarrow> if v = -1 then Err (VniRangeFull (prof_Name iface)) else Ok (v, Encode a))"
    using len range by (simp add: reserveVni_def Let_def)
  show ?thesis
  proof (cases "find ?free vnis")
    case None
    with pick [of vnis] inside r show ?thesis by simp
  next
    case (Some v)
    then have v: "v \<in> set vnis" by (auto simp: find_Some_iff)
    then obtain arr where arr: "Set ?allocs (word_of_int v) = Ok arr"
      using ba.put_total [of "word_of_int v" ?allocs] inside by (auto simp: vni_pos_def)
    have "v \<noteq> -1" using inside v by auto
    with Some pick [of vnis] inside r arr have "reserveVni parse iface = Ok (v, Encode arr)" by simp
    with Some Set_bits [OF arr] show ?thesis by (auto simp: vni_pos_def)
  qed
qed

text \<open>
  C24. A VNI request takes the first free identifier of the profile's range and marks it, or fails
  when all are taken; for a range inside the profile's array it never panics.
\<close>

theorem reserveVni_first_free:
  assumes len: "Len (Some (NewBitArrayFromBase64 (prof_Alloc iface))) \<noteq> 0"
    and range: "parse (VniRange iface) = Inr vnis"
    and inside: "\<forall>v \<in> set vnis. 0 \<le> v \<and> vni_pos v < ba_size (NewBitArrayFromBase64 (prof_Alloc iface))"
  shows "case find (\<lambda>v. vni_pos v \<notin> ba_bits (NewBitArrayFromBase64 (prof_Alloc iface))) vnis of
      None \<Rightarrow> reserveVni parse iface = Err (VniRangeFull (prof_Name iface))
    | Some v \<Rightarrow> \<exists>arr. reserveVni parse iface = Ok (v, Encode arr) \<and>
        ba_bits arr = insert (vni_pos v) (ba_bits (NewBitArrayFromBase64 (prof_Alloc iface)))"
  using assms by (rule reserveVni_search)

theorem reserveVni_first_free_witness:
  "\<exists>arr. reserveVni demo_parse_range demo_profile = Ok (1, Encode arr) \<and> ba_bits arr = {1, 0}"
proof -
  have "vni_pos 1 = 1" "vni_pos 2 = 2" "vni_pos 3 = 3" "vni_pos 4 = 4" "vni_pos 5 = 5"
    by (simp_all add: vni_pos_def)
  moreover have "demo_parse_range (VniRange demo_profile) = Inr [1, 2, 3, 4, 5]"
    by (simp add: demo_parse_range_def demo_profile_def)
  ultimately show ?thesis
    using reserveVni_first_free [of demo_profile demo_parse_range "[1, 2, 3, 4, 5]"]
    by (auto simp: demo_profile_alloc demo_profile_bits Len_def)
qed

text \<open>
  Releasing a VNI that was just reserved from a profile restores the profile's allocation
  array.
\<close>

theorem freeVni_undoes_reserveVni:
  assumes res: "reserveVni parse (iface\<lparr>prof_Alloc := Encode arr\<rparr>) = Ok (v, newAlloc)"
    and vni: "dnet_vni dnet = v"
  shows "freeVni dnet (iface\<lparr>prof_Alloc := newAlloc\<rparr>) = Ok (Encode arr)"
proof -
  let ?ba = "NewBitArrayFromBase64 (Encode arr)"
  obtain arr' where a: "vni_pos v \<notin> ba_bits ?ba" "Set ?ba (word_of_int v) = Ok arr'"
    "newAlloc = Encode arr'" "Len (Some ?ba) \<noteq> 0"
    using reserveVni_Ok [OF res] by auto
  have get: "Get ?ba (word_of_int v) = Ok False"
    using a(1,2) ba.put_Ok_iff [of ?ba "word_of_int v"] by (auto simp: Get_eq vni_pos_def)
  have size: "ba_size arr' = ba_size arr" using Set_size [OF a(2)] by (simp add: ba_size_def)
  then have "Len (Some (NewBitArrayFromBase64 (Encode arr'))) = Len (Some ?ba)"
    by (intro same_len) (simp add: ba_size_def)
  moreover obtain u where u: "Reset (NewBitArrayFromBase64 newAlloc) (word_of_int v) = Ok u"
  proof -
    have "unat (word_of_int v :: u32) < ba_size (NewBitArrayFromBase64 newAlloc)"
      using get a(3) size by (auto simp: ba.get_Ok_iff ba_size_def)
    then show thesis using ba.clear_total that by blast
  qed
  have "Encode u = Encode ?ba" using ba.clear_put_encoded [OF get a(2)] u a(3) by simp
  moreover have "Encode ?ba = Encode arr" by (simp add: Encode_def [of ?ba]) (simp add: Encode_def)
  ultimately show ?thesis using u a vni by (simp add: freeVni_def Let_def)
qed

lemma demo_reserved: "reserveVni demo_parse_range (demo_profile\<lparr>prof_Alloc := Encode \<lparr>ba_len = 8, ba_data = [128]\<rparr>\<rparr>)
    = Ok (1, ''wA=='')"
  by code_simp

theorem freeVni_undoes_reserveVni_witness:
  "freeVni (set_opts (\<lambda>oo. oo\<lparr>Vlan := 1\<rparr>) empty_net) (demo_profile\<lparr>prof_Alloc := ''wA==''\<rparr>) = Ok ''gA==''"
proof -
  have "dnet_vni (set_opts (\<lambda>oo. oo\<lparr>Vlan := 1\<rparr>) empty_net) = 1"
    by (simp add: dnet_vni_def empty_net_def empty_options_def)
  moreover have "Encode \<lparr>ba_len = 8, ba_data = [128]\<rparr> = ''gA==''" by code_simp
  ultimately show ?thesis using freeVni_undoes_reserveVni [OF demo_reserved] by simp
qed

section \<open>Retrying\<close>

abbreviation tc_rv :: "TenantConfig \<Rightarrow> string" where
  "tc_rv tconf \<equiv> mt_ResourceVersion (tc_Meta tconf)"

definition tconf_conflicts_end :: "'w DanmClient \<Rightarrow> (string \<Rightarrow> 'w \<Rightarrow> nat) \<Rightarrow> bool" where
  "tconf_conflicts_end danmClient \<mu> \<longleftrightarrow>
     (\<forall>t w t' w'. updateTenantConf danmClient t w = (Ok (Some t'), w') \<longrightarrow> \<mu> (tc_rv t') w' < \<mu> (tc_rv t) w)"

lemma set_alloc_meta [simp]: "tc_Meta (set_alloc index a tconf) = tc_Meta tconf"
  by (simp add: set_alloc_def)

text \<open>One pass of each loop: it goes on only after a conflict, with the configuration read again.\<close>

definition vni_reserve_pass ::
  "cpuset_parser \<Rightarrow> 'w DanmClient \<Rightarrow> IfaceProfile \<Rightarrow> TenantConfig \<Rightarrow> 'w \<Rightarrow> (TenantConfig \<times> 'w) + (int res \<times> 'w)" where
  "vni_reserve_pass parse danmClient iface tconf w =
     (case getIfaceIndex tconf (prof_Name iface) (VniType iface) of
        None \<Rightarrow> Inr (Err NoSuchProfile, w)
      | Some index \<Rightarrow>
          (case reserveVni parse (HostDevices tconf ! index) of
             Ok (chosenVni, newAlloc) \<Rightarrow>
               (case updateTenantConf danmClient (set_alloc index newAlloc tconf) w of
                  (Ok None, w') \<Rightarrow> Inr (Ok chosenVni, w')
                | (Ok (Some newConf), w') \<Rightarrow> Inl (newConf, w')
                | (Err e, w') \<Rightarrow> Inr (Err e, w')
                | (Panic, w') \<Rightarrow> Inr (Panic, w')
                | (Hang, w') \<Rightarrow> Inr (Hang, w'))
           | Err e \<Rightarrow> Inr (Err e, w)
           | Panic \<Rightarrow> Inr (Panic, w)
           | Hang \<Rightarrow> Inr (Hang, w)))"

definition vni_free_pass ::
  "'w DanmClient \<Rightarrow> DanmNet \<Rightarrow> string \<Rightarrow> string \<Rightarrow> TenantConfig \<Rightarrow> 'w \<Rightarrow> (TenantConfig \<times> 'w) + (unit res \<times> 'w)" where
  "vni_free_pass danmClient dnet ifaceName vniType tconf w =
     (case getIfaceIndex tconf ifaceName vniType of
        None \<Rightarrow> Inr (Ok (), w)
      | Some index \<Rightarrow>
          (case freeVni dnet (HostDevices tconf ! index) of
             Ok newAlloc \<Rightarrow>
               (case updateTenantConf danmClient (set_alloc index newAlloc tconf) w of
                  (Ok None, w') \<Rightarrow> Inr (Ok (), w')
                | (Ok (Some newConf), w') \<Rightarrow> Inl (newConf, w')
                | (Err e, w') \<Rightarrow> Inr (Err e, w')
                | (Panic, w') \<Rightarrow> Inr (Panic, w')
                | (Hang, w') \<Rightarrow> Inr (Hang, w'))
           | Err e \<Rightarrow> Inr (Err e, w)
           | Panic \<Rightarrow> Inr (Panic, w)
           | Hang \<Rightarrow> Inr (Hang, w)))"

lemma vni_reserve_loop_pass:
  "vni_reserve_loop parse danmClient iface tconf w =
     (case vni_reserve_pass parse danmClient iface tconf w of
        Inl (t, w') \<Rightarrow> vni_reserve_loop parse danmClient iface t w' | Inr r \<Rightarrow> Some r)"
  by (subst vni_reserve_loop.simps) (auto simp: vni_reserve_pass_def split: res.splits option.splits prod.splits)

lemma vni_free_loop_pass:
  "vni_free_loop danmClient dnet ifaceName vniType tconf w =
     (case vni_free_pass danmClient dnet ifaceName vniType tconf w of
        Inl (t, w') \<Rightarrow> vni_free_loop danmClient dnet ifaceName vniType t w' | Inr r \<Rightarrow> Some r)"
  by (subst vni_free_loop.simps) (auto simp: vni_free_pass_def split: res.splits option.splits prod.splits)

interpretation vni_reserving: retry_loop
  "vni_reserve_loop parse danmClient iface" "vni_reserve_pass parse danmClient iface"
  for parse danmClient iface
proof
  fix s w r
  show "vni_reserve_loop parse danmClient iface s w = (case vni_reserve_pass parse danmClient iface s w of
      Inl (t, w') \<Rightarrow> vni_reserve_loop parse danmClient iface t w' | Inr r \<Rightarrow> Some r)"
    by (rule vni_reserve_loop_pass)
  assume "vni_reserve_loop parse danmClient iface s w = Some r"
  then show "\<exists>t u. conflicts (vni_reserve_pass parse danmClient iface) (s, w) (t, u) \<and>
      vni_reserve_pass parse danmClient iface t u = Inr r"
  proof (rule vni_reserve_loop.raw_induct [where P = "\<lambda>parse danmClient iface s w r.
      \<exists>t u. conflicts (vni_reserve_pass parse danmClient iface) (s, w) (t, u) \<and>
        vni_reserve_pass parse danmClient iface t u = Inr r", rotated], goal_cases)
    case (1 loop parse danmClient iface s w r)
    have "(case vni_reserve_pass parse danmClient iface s w of
        Inl (t, w') \<Rightarrow> loop parse danmClient iface t w' | Inr r \<Rightarrow> Some r) = Some r"
      by (rule trans [OF _ 1(2)]) (simp add: vni_reserve_pass_def split: res.split option.split prod.split)
    then show ?case by (rule conflicts_step) (rule 1(1))
  qed
qed

interpretation vni_freeing: retry_loop
  "vni_free_loop danmClient dnet ifaceName vniType" "vni_free_pass danmClient dnet ifaceName vniType"
  for danmClient dnet ifaceName vniType
proof
  fix s w r
  show "vni_free_loop danmClient dnet ifaceName vniType s w = (case vni_free_pass danmClient dnet ifaceName vniType s w of
      Inl (t, w') \<Rightarrow> vni_free_loop danmClient dnet ifaceName vniType t w' | Inr r \<Rightarrow> Some r)"
    by (rule vni_free_loop_pass)
  assume "vni_free_loop danmClient dnet ifaceName vniType s w = Some r"
  then show "\<exists>t u. conflicts (vni_free_pass danmClient dnet ifaceName vniType) (s, w) (t, u) \<and>
      vni_free_pass danmClient dnet ifaceName vniType t u = Inr r"
  proof (rule vni_free_loop.raw_induct [where P = "\<lambda>danmClient dnet ifaceName vniType s w r.
      \<exists>t u. conflicts (vni_free_pass danmClient dnet ifaceName vniType) (s, w) (t, u) \<and>
        vni_free_pass danmClient dnet ifaceName vniType t u = Inr r", rotated], goal_cases)
    case (1 loop danmClient dnet ifaceName vniType s w r)
    have "(case vni_free_pass danmClient dnet ifaceName vniType s w of
        Inl (t, w') \<Rightarrow> loop danmClient dnet ifaceName vniType t w' | Inr r \<Rightarrow> Some r) = Some r"
      by (rule trans [OF _ 1(2)]) (simp add: vni_free_pass_def split: res.split option.split prod.split)
    then show ?case by (rule conflicts_step) (rule 1(1))
  qed
qed

lemma vni_reserve_pass_conflict:
  assumes "vni_reserve_pass parse danmClient iface tconf w = Inl (t, w')"
  obtains changed where "updateTenantConf danmClient changed w = (Ok (Some t), w')" "tc_rv changed = tc_rv tconf"
  using assms by (auto simp: vni_reserve_pass_def split: res.splits prod.splits option.splits)

lemma vni_free_pass_conflict:
  assumes "vni_free_pass danmClient dnet ifaceName vniType tconf w = Inl (t, w')"
  obtains changed where "updateTenantConf danmClient changed w = (Ok (Some t), w')" "tc_rv changed = tc_rv tconf"
  using assms by (auto simp: vni_free_pass_def split: res.splits prod.splits option.splits)

lemma accepted_update:
  "updateTenantConf danmClient t w = (Ok None, w') \<Longrightarrow> api_tconf_update danmClient t w = (None, w')"
  by (auto simp: updateTenantConf_def split: prod.splits option.splits if_splits sum.splits)

lemma vni_reserve_pass_Ok:
  assumes "vni_reserve_pass parse danmClient iface tconf w = Inr (Ok v, w')"
  obtains index newAlloc where "getIfaceIndex tconf (prof_Name iface) (VniType iface) = Some index"
    "reserveVni parse (HostDevices tconf ! index) = Ok (v, newAlloc)"
    "api_tconf_update danmClient (set_alloc index newAlloc tconf) w = (None, w')"
  using assms by (auto simp: vni_reserve_pass_def split: res.splits prod.splits option.splits dest: accepted_update)

text \<open>Reserving and releasing a VNI return whenever conflicts on the TenantConfig end.\<close>

theorem vni_loops_terminate:
  assumes "tconf_conflicts_end danmClient \<mu>"
  shows "(\<exists>r. vni_reserve_loop parse danmClient iface tconf w = Some r) \<and>
    (\<exists>r. vni_free_loop danmClient dnet ifaceName vniType tconf w = Some r)"
proof
  show "\<exists>r. vni_reserve_loop parse danmClient iface tconf w = Some r"
    using assms by (intro vni_reserving.returns [of _ _ _ "\<lambda>t w. \<mu> (tc_rv t) w"], elim vni_reserve_pass_conflict)
      (metis tconf_conflicts_end_def)
  show "\<exists>r. vni_free_loop danmClient dnet ifaceName vniType tconf w = Some r"
    using assms by (intro vni_freeing.returns [of _ _ _ _ "\<lambda>t w. \<mu> (tc_rv t) w"], elim vni_free_pass_conflict)
      (metis tconf_conflicts_end_def)
qed

lemma marked_array:
  assumes "reserveVni parse iface = Ok (v, newAlloc)"
  shows "vni_pos v \<notin> ba_bits (NewBitArrayFromBase64 (prof_Alloc iface))"
    and "ba_bits (NewBitArrayFromBase64 newAlloc) = insert (vni_pos v) (ba_bits (NewBitArrayFromBase64 (prof_Alloc iface)))"
proof -
  from reserveVni_Ok [OF assms] obtain arr where a:
    "vni_pos v \<notin> ba_bits (NewBitArrayFromBase64 (prof_Alloc iface))"
    "Set (NewBitArrayFromBase64 (prof_Alloc iface)) (word_of_int v) = Ok arr" "newAlloc = Encode arr" by blast
  then show "vni_pos v \<notin> ba_bits (NewBitArrayFromBase64 (prof_Alloc iface))"
    "ba_bits (NewBitArrayFromBase64 newAlloc) = insert (vni_pos v) (ba_bits (NewBitArrayFromBase64 (prof_Alloc iface)))"
    using Set_bits [OF a(2)] ba.dec_enc [of arr] by (simp_all add: vni_pos_def)
qed

text \<open>
  A VNI that \<open>Reserve\<close> returns is recorded: the last update, which the server accepted
  without a conflict, wrote a configuration in which that VNI was free before and is the one
  taken now, in the profile of the requested name and type.
\<close>

theorem reserved_vni_recorded:
  assumes "vni_Reserve parse danmClient tconf iface w = (Ok v, w')"
  shows "\<exists>t w1 index newAlloc.
    getIfaceIndex t (prof_Name iface) (VniType iface) = Some index \<and>
    vni_pos v \<notin> ba_bits (NewBitArrayFromBase64 (prof_Alloc (HostDevices t ! index))) \<and>
    ba_bits (NewBitArrayFromBase64 newAlloc) =
      insert (vni_pos v) (ba_bits (NewBitArrayFromBase64 (prof_Alloc (HostDevices t ! index)))) \<and>
    api_tconf_update danmClient (set_alloc index newAlloc t) w1 = (None, w')"
proof -
  have "vni_reserve_loop parse danmClient iface tconf w = Some (Ok v, w')"
    using assms by (auto simp: vni_Reserve_def split: option.splits)
  from vni_reserving.last_pass [OF this] obtain t u where
    "vni_reserve_pass parse danmClient iface t u = Inr (Ok v, w')" by blast
  then show ?thesis by (elim vni_reserve_pass_Ok) (metis marked_array)
qed

text \<open>
  A server that stores one TenantConfig and accepts an update of the stored version only: an
  instance of the hypotheses above.
\<close>

definition tconf_client :: "TenantConfig DanmClient" where
  "tconf_client =
     \<lparr>api_net_update = (\<lambda>_ _ _ w. (None, w)),
      api_net_get = (\<lambda>_ _ _ w. (Inl ''not found'', w)),
      api_tconf_list = (\<lambda>w. (Inr (Some [w]), w)),
      api_tconf_update = (\<lambda>t w. if tc_rv t = tc_rv w
        then (None, t\<lparr>tc_Meta := (tc_Meta t)\<lparr>mt_ResourceVersion := tc_rv t @ ''+''\<rparr>\<rparr>)
        else (Some OptimisticLockErrorMsg, w)),
      api_tconf_get = (\<lambda>_ w. (Inr w, w)),
      api_ep_list = (\<lambda>_ w. (Inr None, w)),
      api_ep_create = (\<lambda>_ e w. (Inr e, w)),
      api_ep_update = (\<lambda>_ _ w. (None, w)),
      api_ep_delete = (\<lambda>_ _ w. (None, w))\<rparr>"

lemma tconf_client_conflicts_end:
  "tconf_conflicts_end tconf_client (\<lambda>v w. if v = tc_rv w then 0 else 1)"
  by (auto simp: tconf_conflicts_end_def updateTenantConf_def tconf_client_def split: if_splits)

definition demo_tconf :: TenantConfig where
  "demo_tconf = \<lparr>tc_Kind = TenantConfigKind, tc_Meta = empty_meta, HostDevices = [demo_profile], NetworkIds = []\<rparr>"

theorem vni_loops_terminate_witness:
  "\<exists>r. vni_reserve_loop demo_parse_range tconf_client demo_profile demo_tconf demo_tconf = Some r"
  using vni_loops_terminate [OF tconf_client_conflicts_end] by blast

lemma demo_reserve_vni: "reserveVni demo_parse_range demo_profile = Ok (1, ''wA=='')"
  by code_simp

theorem reserved_vni_recorded_witness:
  "\<exists>t w1 index newAlloc w'.
    vni_pos 1 \<notin> ba_bits (NewBitArrayFromBase64 (prof_Alloc (HostDevices t ! index))) \<and>
    api_tconf_update tconf_client (set_alloc index newAlloc t) w1 = (None, w')"
proof -
  let ?t = "set_alloc 0 ''wA=='' demo_tconf"
  have i: "getIfaceIndex demo_tconf (prof_Name demo_profile) (VniType demo_profile) = Some 0"
    by (simp add: getIfaceIndex_def demo_tconf_def)
  have d: "HostDevices demo_tconf ! 0 = demo_profile" by (simp add: demo_tconf_def)
  have "updateTenantConf tconf_client ?t demo_tconf =
      (Ok None, ?t\<lparr>tc_Meta := (tc_Meta ?t)\<lparr>mt_ResourceVersion := tc_rv ?t @ ''+''\<rparr>\<rparr>)"
    by (simp add: updateTenantConf_def tconf_client_def)
  then obtain w' where r: "vni_Reserve demo_parse_range tconf_client demo_tconf demo_profile demo_tconf = (Ok 1, w')"
    using that by (simp add: vni_Reserve_def vni_reserve_loop.simps [of _ _ demo_profile demo_tconf demo_tconf]
        i d demo_reserve_vni)
  from reserved_vni_recorded [OF r] show ?thesis by metis
qed

end
