(* ===== verification/VniServer.thy ===== *)
theory VniServer
  imports Confman
begin

text \<open>
  Several webhooks that reserve and release VNIs of one TenantConfig: the server of
  \<open>tconf_client\<close> keeps the contract of a versioned store, and the steps of the webhooks are
  the passes of the loops of \<open>confman.Reserve\<close> and \<open>confman.Free\<close> on copies that may be stale.
\<close>

section \<open>Which identifiers a configuration has taken\<close>

definition vni_bits :: "TenantConfig \<Rightarrow> string \<times> string \<Rightarrow> nat set" where
  "vni_bits tconf k =
     (case getIfaceIndex tconf (fst k) (snd k) of
        None \<Rightarrow> {}
      | Some index \<Rightarrow> ba_bits (NewBitArrayFromBase64 (prof_Alloc (HostDevices tconf ! index))))"

lemma getIfaceIndex_from_keys:
  "map prof_Name xs = map prof_Name ys \<Longrightarrow> map VniType xs = map VniType ys \<Longrightarrow>
   getIfaceIndex_from i xs name typ = getIfaceIndex_from i ys name typ"
proof (induction xs arbitrary: ys i)
  case Nil
  then show ?case by simp
next
  case (Cons x xs)
  then show ?case by (cases ys) auto
qed

lemma getIfaceIndex_set_alloc [simp]:
  "getIfaceIndex (set_alloc index a tconf) name typ = getIfaceIndex tconf name typ"
  unfolding getIfaceIndex_def
  by (rule getIfaceIndex_from_keys; cases "index < length (HostDevices tconf)")
    (simp_all add: set_alloc_def map_update list_update_same_conv list_update_beyond)

lemma set_alloc_nth [simp]:
  "index < length (HostDevices tconf) \<Longrightarrow> prof_Alloc (HostDevices (set_alloc index a tconf) ! index) = a"
  "j \<noteq> index \<Longrightarrow> HostDevices (set_alloc index a tconf) ! j = HostDevices tconf ! j"
  by (simp_all add: set_alloc_def)

lemma getIfaceIndex_HostDevices:
  "HostDevices t = HostDevices u \<Longrightarrow> getIfaceIndex t name typ = getIfaceIndex u name typ"
  by (simp add: getIfaceIndex_def)

lemma vni_bits_HostDevices: "HostDevices t = HostDevices u \<Longrightarrow> vni_bits t = vni_bits u"
  by (rule ext) (simp add: vni_bits_def getIfaceIndex_def split: option.split)

lemma vni_bits_set_alloc:
  assumes "getIfaceIndex tconf name typ = Some index"
  shows "vni_bits (set_alloc index a tconf) = (vni_bits tconf)((name, typ) := ba_bits (NewBitArrayFromBase64 a))"
proof
  fix k
  show "vni_bits (set_alloc index a tconf) k =
    ((vni_bits tconf)((name, typ) := ba_bits (NewBitArrayFromBase64 a))) k"
  proof (cases "k = (name, typ)")
    case True
    then show ?thesis
      using assms getIfaceIndex_Some [OF assms] by (simp add: vni_bits_def)
  next
    case False
    have "j \<noteq> index" if "getIfaceIndex tconf (fst k) (snd k) = Some j" for j
      using getIfaceIndex_Some [OF that] getIfaceIndex_Some [OF assms] False by (cases k) auto
    with False show ?thesis by (simp add: vni_bits_def split: option.split)
  qed
qed

lemma freed_array:
  assumes "freeVni dnet iface = Ok newAlloc"
  shows "ba_bits (NewBitArrayFromBase64 newAlloc) =
    ba_bits (NewBitArrayFromBase64 (prof_Alloc iface)) - {vni_pos (dnet_vni dnet)}"
proof -
  from assms obtain arr where "Reset (NewBitArrayFromBase64 (prof_Alloc iface)) (word_of_int (dnet_vni dnet)) = Ok arr"
    and "newAlloc = Encode arr" by (auto simp: freeVni_def Let_def split: if_splits)
  then show ?thesis using ba.clear_spec ba.dec_enc [of arr] by (auto simp: vni_pos_def)
qed

section \<open>The server as a versioned store\<close>

definition store_conf :: "TenantConfig \<Rightarrow> TenantConfig \<Rightarrow> TenantConfig option" where
  "store_conf t w = (case api_tconf_update tconf_client t w of (None, w') \<Rightarrow> Some w' | (Some msg, w') \<Rightarrow> None)"

interpretation conf_store: versioned_store store_conf tc_rv length HostDevices
  by unfold_locales (auto simp: store_conf_def tconf_client_def split: if_splits)

lemma conf_store_iff: "store_conf t w = Some w' \<longleftrightarrow> api_tconf_update tconf_client t w = (None, w')"
  by (auto simp: store_conf_def tconf_client_def)

lemma conf_refused: "updateTenantConf tconf_client t w = (Ok (Some t'), w') \<Longrightarrow>
    w' = w \<and> HostDevices t' = HostDevices w \<and> tc_rv t' = tc_rv w"
  by (auto simp: updateTenantConf_def tconf_client_def split: if_splits)

section \<open>Webhooks\<close>

record vni_sys =
  vs_server :: TenantConfig
  vs_copy :: "nat \<Rightarrow> TenantConfig option"
  vs_held :: "(string \<times> string \<times> int) list"

text \<open>
  A webhook reads the configuration; a pass of \<open>Reserve\<close> or \<open>Free\<close> on its copy is accepted, or
  meets a conflict and leaves it with the configuration it read again. A network releases only a
  VNI it holds. A pass that fails otherwise changes neither server nor holders.
\<close>

inductive vni_step :: "cpuset_parser \<Rightarrow> vni_sys \<Rightarrow> vni_sys \<Rightarrow> bool" for parse where
  read: "GetTenantConfig tconf_client (vs_server s) = (Ok t, w') \<Longrightarrow>
    vni_step parse s (s\<lparr>vs_copy := (vs_copy s)(h \<mapsto> t)\<rparr>)"
| reserve: "vs_copy s h = Some t \<Longrightarrow>
    vni_reserve_pass parse tconf_client iface t (vs_server s) = Inr (Ok v, w') \<Longrightarrow>
    vni_step parse s \<lparr>vs_server = w', vs_copy = (vs_copy s)(h := None),
      vs_held = (prof_Name iface, VniType iface, v) # vs_held s\<rparr>"
| reserve_again: "vs_copy s h = Some t \<Longrightarrow>
    vni_reserve_pass parse tconf_client iface t (vs_server s) = Inl (t', w') \<Longrightarrow>
    vni_step parse s (s\<lparr>vs_server := w', vs_copy := (vs_copy s)(h \<mapsto> t')\<rparr>)"
| release: "vs_copy s h = Some t \<Longrightarrow> (name, typ, dnet_vni dnet) \<in> set (vs_held s) \<Longrightarrow>
    vni_free_pass tconf_client dnet name typ t (vs_server s) = Inr (Ok (), w') \<Longrightarrow>
    vni_step parse s \<lparr>vs_server = w', vs_copy = (vs_copy s)(h := None),
      vs_held = remove1 (name, typ, dnet_vni dnet) (vs_held s)\<rparr>"
| release_again: "vs_copy s h = Some t \<Longrightarrow>
    vni_free_pass tconf_client dnet name typ t (vs_server s) = Inl (t', w') \<Longrightarrow>
    vni_step parse s (s\<lparr>vs_server := w', vs_copy := (vs_copy s)(h \<mapsto> t')\<rparr>)"

inductive_cases vni_stepE: "vni_step parse s t"

text \<open>The positions held of a profile, and the invariant of the system.\<close>

definition held_pos :: "(string \<times> string \<times> int) list \<Rightarrow> string \<times> string \<Rightarrow> nat set" where
  "held_pos held k = {vni_pos v |v. (fst k, snd k, v) \<in> set held}"

definition vni_inv :: "(string \<times> string \<Rightarrow> nat set) \<Rightarrow> vni_sys \<Rightarrow> bool" where
  "vni_inv R s \<longleftrightarrow>
     (\<forall>h t. vs_copy s h = Some t \<longrightarrow>
        conf_store.copy_of (vs_server s) t \<and> getIfaceIndex t = getIfaceIndex (vs_server s)) \<and>
     distinct (map (\<lambda>(name, typ, v). (name, typ, vni_pos v)) (vs_held s)) \<and>
     (\<forall>(name, typ, v) \<in> set (vs_held s). getIfaceIndex (vs_server s) name typ \<noteq> None) \<and>
     (\<forall>k. vni_bits (vs_server s) k = R k \<union> held_pos (vs_held s) k \<and> R k \<inter> held_pos (vs_held s) k = {})"

lemma held_pos_Cons:
  "held_pos ((name, typ, v) # held) = (held_pos held)((name, typ) := insert (vni_pos v) (held_pos held (name, typ)))"
  by (rule ext) (auto simp: held_pos_def)

lemma held_pos_remove:
  assumes "distinct (map (\<lambda>(name, typ, v). (name, typ, vni_pos v)) held)" and "(name, typ, v) \<in> set held"
  shows "held_pos (remove1 (name, typ, v) held) = (held_pos held)((name, typ) := held_pos held (name, typ) - {vni_pos v})"
proof
  fix k
  have d: "distinct held" using assms(1) by (simp add: distinct_map)
  have inj: "u = v" if "(name, typ, u) \<in> set held" "vni_pos u = vni_pos v" for u
    using assms that by (auto simp: distinct_map dest!: inj_onD [where x = "(name, typ, u)" and y = "(name, typ, v)"])
  show "held_pos (remove1 (name, typ, v) held) k =
      ((held_pos held)((name, typ) := held_pos held (name, typ) - {vni_pos v})) k"
    using d inj by (cases k) (auto simp: held_pos_def set_remove1_eq)
qed


lemma reserve_accepted:
  assumes "vni_reserve_pass parse tconf_client iface t w = Inr (Ok v, w')" and "conf_store.copy_of w t"
  shows "\<exists>n. store_conf n w = Some w'" and "getIfaceIndex w (prof_Name iface) (VniType iface) \<noteq> None"
    and "vni_pos v \<notin> vni_bits w (prof_Name iface, VniType iface)"
    and "vni_bits w' = (vni_bits w)((prof_Name iface, VniType iface) :=
      insert (vni_pos v) (vni_bits w (prof_Name iface, VniType iface)))"
    and "getIfaceIndex w' = getIfaceIndex w"
proof -
  from assms(1) obtain i a where p: "getIfaceIndex t (prof_Name iface) (VniType iface) = Some i"
    "reserveVni parse (HostDevices t ! i) = Ok (v, a)"
    "api_tconf_update tconf_client (set_alloc i a t) w = (None, w')" by (rule vni_reserve_pass_Ok)
  then have st: "store_conf (set_alloc i a t) w = Some w'" by (simp add: conf_store_iff)
  from conf_store.no_lost_update [OF assms(2) _ st] have t: "HostDevices t = HostDevices w" by simp
  have w': "HostDevices w' = HostDevices (set_alloc i a t)" by (rule conf_store.stored [OF st])
  show "\<exists>n. store_conf n w = Some w'" using st by blast
  show "getIfaceIndex w (prof_Name iface) (VniType iface) \<noteq> None"
    using p(1) getIfaceIndex_HostDevices [OF t] by simp
  have b: "vni_bits w (prof_Name iface, VniType iface) = ba_bits (NewBitArrayFromBase64 (prof_Alloc (HostDevices t ! i)))"
    using p(1) vni_bits_HostDevices [OF t] by (simp add: vni_bits_def flip: vni_bits_HostDevices [OF t])
  then show "vni_pos v \<notin> vni_bits w (prof_Name iface, VniType iface)" using marked_array(1) [OF p(2)] by simp
  show "vni_bits w' = (vni_bits w)((prof_Name iface, VniType iface) :=
      insert (vni_pos v) (vni_bits w (prof_Name iface, VniType iface)))"
    using vni_bits_set_alloc [OF p(1), of a] marked_array(2) [OF p(2)] b
    by (simp add: vni_bits_HostDevices [OF w'] vni_bits_HostDevices [OF t])
  show "getIfaceIndex w' = getIfaceIndex w"
    by (intro ext) (simp add: getIfaceIndex_HostDevices [OF w'] getIfaceIndex_HostDevices [OF t])
qed

lemma release_accepted:
  assumes "vni_free_pass tconf_client dnet name typ t w = Inr (Ok (), w')" and "conf_store.copy_of w t"
    and "getIfaceIndex t = getIfaceIndex w" and "getIfaceIndex w name typ \<noteq> None"
  shows "(\<exists>n. store_conf n w = Some w') \<and>
    vni_bits w' = (vni_bits w)((name, typ) := vni_bits w (name, typ) - {vni_pos (dnet_vni dnet)}) \<and>
    getIfaceIndex w' = getIfaceIndex w"
proof -
  obtain i a where p: "getIfaceIndex t name typ = Some i" "freeVni dnet (HostDevices t ! i) = Ok a"
    and st: "store_conf (set_alloc i a t) w = Some w'"
    using assms(1,3,4)
    by (auto simp: vni_free_pass_def conf_store_iff split: option.splits res.splits prod.splits dest: accepted_update)
  have t: "HostDevices t = HostDevices w" using conf_store.no_lost_update [OF assms(2) _ st] by simp
  have w': "HostDevices w' = HostDevices (set_alloc i a t)" by (rule conf_store.stored [OF st])
  have "vni_bits w (name, typ) = ba_bits (NewBitArrayFromBase64 (prof_Alloc (HostDevices t ! i)))"
    using p(1) by (simp add: vni_bits_def flip: vni_bits_HostDevices [OF t])
  then have "vni_bits w' = (vni_bits w)((name, typ) := vni_bits w (name, typ) - {vni_pos (dnet_vni dnet)})"
    using vni_bits_set_alloc [OF p(1), of a] freed_array [OF p(2)]
    by (simp add: vni_bits_HostDevices [OF w'] vni_bits_HostDevices [OF t])
  moreover have "getIfaceIndex w' = getIfaceIndex w"
    by (intro ext) (simp add: getIfaceIndex_HostDevices [OF w'] assms(3))
  ultimately show ?thesis using st by blast
qed

lemma refused_pass:
  "vni_reserve_pass parse tconf_client iface t w = Inl (t', w') \<Longrightarrow>
     w' = w \<and> conf_store.copy_of w t' \<and> getIfaceIndex t' = getIfaceIndex w"
  "vni_free_pass tconf_client dnet name typ t w = Inl (t', w') \<Longrightarrow>
     w' = w \<and> conf_store.copy_of w t' \<and> getIfaceIndex t' = getIfaceIndex w"
  by (auto elim!: vni_reserve_pass_conflict vni_free_pass_conflict dest!: conf_refused
      intro: conf_store.copy_refl getIfaceIndex_HostDevices)

lemma vni_inv_copy:
  assumes "vni_inv R s" and "conf_store.copy_of (vs_server s) t" and "getIfaceIndex t = getIfaceIndex (vs_server s)"
  shows "vni_inv R (s\<lparr>vs_copy := (vs_copy s)(h \<mapsto> t)\<rparr>)"
  using assms by (auto simp: vni_inv_def)

lemma vni_inv_accepted:
  assumes inv: "vni_inv R s" and "store_conf n (vs_server s) = Some w" and "getIfaceIndex w = getIfaceIndex (vs_server s)"
    and "distinct (map (\<lambda>(name, typ, v). (name, typ, vni_pos v)) held)"
    and "\<And>name typ v. (name, typ, v) \<in> set held \<Longrightarrow> getIfaceIndex (vs_server s) name typ \<noteq> None"
    and "\<And>k. vni_bits w k = R k \<union> held_pos held k \<and> R k \<inter> held_pos held k = {}"
  shows "vni_inv R \<lparr>vs_server = w, vs_copy = (vs_copy s)(h := None), vs_held = held\<rparr>"
  using assms conf_store.copy_after_write [OF _ assms(2)] by (auto simp: vni_inv_def split: if_splits)

lemma vni_invD:
  assumes "vni_inv R s"
  shows "vs_copy s h = Some t \<Longrightarrow> conf_store.copy_of (vs_server s) t"
    and "vs_copy s h = Some t \<Longrightarrow> getIfaceIndex t = getIfaceIndex (vs_server s)"
    and "distinct (map (\<lambda>(name, typ, v). (name, typ, vni_pos v)) (vs_held s))"
    and "(name, typ, v) \<in> set (vs_held s) \<Longrightarrow> getIfaceIndex (vs_server s) name typ \<noteq> None"
    and "vni_bits (vs_server s) k = R k \<union> held_pos (vs_held s) k" and "R k \<inter> held_pos (vs_held s) k = {}"
  using assms unfolding vni_inv_def by blast+

lemma vni_step_inv:
  assumes "vni_step parse s s'" and inv: "vni_inv R s"
  shows "vni_inv R s'"
  using assms(1)
proof (cases rule: vni_step.cases)
  case (read t w' h)
  then have "conf_store.copy_of (vs_server s) t" "getIfaceIndex t = getIfaceIndex (vs_server s)"
    by (auto simp: GetTenantConfig_def tconf_client_def intro: conf_store.copy_refl)
  with read vni_inv_copy [OF inv] show ?thesis by simp
next
  case (reserve h t iface v w')
  let ?k = "(prof_Name iface, VniType iface)"
  note acc = reserve_accepted [OF reserve(3) vni_invD(1) [OF inv reserve(2)]]
  obtain n where n: "store_conf n (vs_server s) = Some w'" using acc(1) by blast
  have new: "vni_pos v \<notin> R ?k" "vni_pos v \<notin> held_pos (vs_held s) ?k"
    using acc(3) vni_invD(5) [OF inv, of ?k] by auto
  show ?thesis
    unfolding reserve(1)
  proof (rule vni_inv_accepted [OF inv n acc(5)])
    show "distinct (map (\<lambda>(name, typ, v). (name, typ, vni_pos v)) ((prof_Name iface, VniType iface, v) # vs_held s))"
      using vni_invD(3) [OF inv] new(2) by (auto simp: held_pos_def)
    show "vni_bits w' k = R k \<union> held_pos ((prof_Name iface, VniType iface, v) # vs_held s) k \<and>
        R k \<inter> held_pos ((prof_Name iface, VniType iface, v) # vs_held s) k = {}" for k
      using acc(4) new(1) vni_invD(5,6) [OF inv, of k] by (auto simp: held_pos_Cons)
    show "getIfaceIndex (vs_server s) n u \<noteq> None"
      if "(n, u, x) \<in> set ((prof_Name iface, VniType iface, v) # vs_held s)" for n u x
      using that acc(2) vni_invD(4) [OF inv, of n u x] by auto
  qed
next
  case (reserve_again h t iface t' w')
  then show ?thesis using refused_pass(1) [OF reserve_again(3)] vni_inv_copy [OF inv] by simp
next
  case (release h t name kind dnet w')
  note acc = release_accepted [OF release(4) vni_invD(1,2) [OF inv release(2)] vni_invD(4) [OF inv release(3)]]
  obtain n where n: "store_conf n (vs_server s) = Some w'" using acc by blast
  note rm = held_pos_remove [OF vni_invD(3) [OF inv] release(3)]
  have pos: "vni_pos (dnet_vni dnet) \<in> held_pos (vs_held s) (name, kind)" using release(3) by (auto simp: held_pos_def)
  show ?thesis
    unfolding release(1)
  proof (rule vni_inv_accepted [OF inv n])
    show "distinct (map (\<lambda>(name, typ, v). (name, typ, vni_pos v)) (remove1 (name, kind, dnet_vni dnet) (vs_held s)))"
      using vni_invD(3) [OF inv] by (auto simp: distinct_map distinct_remove1 dest: inj_on_subset [OF _ set_remove1_subset])
    show "vni_bits w' k = R k \<union> held_pos (remove1 (name, kind, dnet_vni dnet) (vs_held s)) k \<and>
        R k \<inter> held_pos (remove1 (name, kind, dnet_vni dnet) (vs_held s)) k = {}" for k
      using acc rm pos vni_invD(5,6) [OF inv, of k] by auto
    show "getIfaceIndex (vs_server s) n u \<noteq> None" if "(n, u, v) \<in> set (remove1 (name, kind, dnet_vni dnet) (vs_held s))" for n u v
      using that vni_invD(4) [OF inv, of n u v] set_remove1_subset by fast
    show "getIfaceIndex w' = getIfaceIndex (vs_server s)" using acc by blast
  qed
next
  case (release_again h t dnet name kind t' w')
  then show ?thesis using refused_pass(2) [OF release_again(3)] vni_inv_copy [OF inv] by simp
qed

section \<open>Properties\<close>

text \<open>
  C4. Any number of webhooks reserving and releasing VNIs concurrently, each on its own possibly stale
  copy of the TenantConfig, never give one VNI of an interface profile to two networks: in every
  reachable state the VNIs held are pairwise different, and the stored array of each profile
  records exactly the VNIs held from it beside the identifiers that were taken at the start.
\<close>

theorem concurrent_webhooks_distinct_vnis:
  assumes "(vni_step parse)\<^sup>*\<^sup>* \<lparr>vs_server = conf0, vs_copy = (\<lambda>_. None), vs_held = []\<rparr> s"
  shows "distinct (vs_held s) \<and>
    vni_bits (vs_server s) k = vni_bits conf0 k \<union> held_pos (vs_held s) k \<and>
    vni_bits conf0 k \<inter> held_pos (vs_held s) k = {}"
proof -
  have "vni_inv (vni_bits conf0) \<lparr>vs_server = conf0, vs_copy = (\<lambda>_. None), vs_held = []\<rparr>"
    by (simp add: vni_inv_def held_pos_def)
  with assms have "vni_inv (vni_bits conf0) s"
    by (induction rule: rtranclp_induct) (simp_all add: vni_step_inv)
  from vni_invD(3,5,6) [OF this] show ?thesis by (simp add: distinct_map)
qed

lemma demo_index: "getIfaceIndex demo_tconf (prof_Name demo_profile) (VniType demo_profile) = Some 0"
  "HostDevices demo_tconf ! 0 = demo_profile"
  by (simp_all add: getIfaceIndex_def demo_tconf_def)

lemma demo_vni_accepted: "updateTenantConf tconf_client (set_alloc 0 a demo_tconf) demo_tconf =
    (Ok None, set_alloc 0 a demo_tconf\<lparr>tc_Meta := (tc_Meta demo_tconf)\<lparr>mt_ResourceVersion := tc_rv demo_tconf @ ''+''\<rparr>\<rparr>)"
  by (simp add: updateTenantConf_def tconf_client_def)

lemma demo_vni_pass:
  "vni_reserve_pass demo_parse_range tconf_client demo_profile demo_tconf demo_tconf =
    Inr (Ok 1, set_alloc 0 ''wA=='' demo_tconf
      \<lparr>tc_Meta := (tc_Meta demo_tconf)\<lparr>mt_ResourceVersion := tc_rv demo_tconf @ ''+''\<rparr>\<rparr>)"
  by (simp add: vni_reserve_pass_def demo_index demo_reserve_vni demo_vni_accepted)

theorem concurrent_webhooks_distinct_vnis_witness:
  "\<exists>s. (vni_step demo_parse_range)\<^sup>*\<^sup>* \<lparr>vs_server = demo_tconf, vs_copy = (\<lambda>_. None), vs_held = []\<rparr> s \<and>
     vs_held s = [(''ens4'', ''vlan'', 1)] \<and>
     vni_bits (vs_server s) (''ens4'', ''vlan'') = vni_bits demo_tconf (''ens4'', ''vlan'') \<union> {1}"
proof -
  let ?s = "\<lparr>vs_server = demo_tconf, vs_copy = (\<lambda>_. None), vs_held = []\<rparr>"
  let ?t = "?s\<lparr>vs_copy := (vs_copy ?s)(0 \<mapsto> demo_tconf)\<rparr>"
  let ?new = "set_alloc 0 ''wA=='' demo_tconf"
  let ?w = "?new\<lparr>tc_Meta := (tc_Meta ?new)\<lparr>mt_ResourceVersion := tc_rv ?new @ ''+''\<rparr>\<rparr>"
  let ?u = "\<lparr>vs_server = ?w, vs_copy = (vs_copy ?t)(0 := None),
    vs_held = (prof_Name demo_profile, VniType demo_profile, 1) # vs_held ?t\<rparr>"
  have "vni_step demo_parse_range ?s ?t"
    by (rule vni_step.read) (simp add: GetTenantConfig_def tconf_client_def)
  moreover have "vni_step demo_parse_range ?t ?u"
    by (rule vni_step.reserve [where t = demo_tconf]) (simp_all add: demo_vni_pass)
  ultimately have run: "(vni_step demo_parse_range)\<^sup>*\<^sup>* ?s ?u" by (metis (no_types, lifting) converse_rtranclp_into_rtranclp rtranclp.rtrancl_refl)
  have "vni_pos 1 = 1" by (simp add: vni_pos_def)
  then have "held_pos (vs_held ?u) (''ens4'', ''vlan'') = {1}"
    by (auto simp: held_pos_def demo_profile_def)
  with concurrent_webhooks_distinct_vnis [OF run, of "(''ens4'', ''vlan'')"] have
    "vni_bits (vs_server ?u) (''ens4'', ''vlan'') = vni_bits demo_tconf (''ens4'', ''vlan'') \<union> {1}" by simp
  with run show ?thesis by (intro exI [of _ ?u]) (simp add: demo_profile_def)
qed

end
