(* ===== verification/DanmEps.thy ===== *)
theory DanmEps
  imports IpamApi
begin

text \<open>
  \<^verbatim>\<open>pkg/danmep/danmep.go\<close>: DanmEp objects record one network connection of
  one Pod. Finding them, creating them together with the addresses they hold, updating them and
  deleting them together with their addresses. The host's facilities (UUIDs, host name, SR-IOV
  utilities, sysctl) are the record \<open>host_env\<close>.
\<close>

section \<open>Finding endpoints\<close>

definition MaxRetryCount :: nat where "MaxRetryCount = 10"

text \<open>Listing with retries: the first answer within \<open>k\<close> attempts, or the last error.\<close>

fun list_retry :: "'w DanmClient \<Rightarrow> nat \<Rightarrow> string \<Rightarrow> 'w \<Rightarrow> (string + DanmEp list option) \<times> 'w" where
  "list_retry client 0 msg w = (Inl msg, w)"
| "list_retry client (Suc k) msg w =
     (case api_ep_list client [] w of
        (Inr result, w') \<Rightarrow> (Inr result, w')
      | (Inl msg', w') \<Rightarrow> list_retry client k msg' w')"

definition ep_items :: "DanmEp list option \<Rightarrow> DanmEp list" where
  "ep_items result = (case result of None \<Rightarrow> [] | Some eps \<Rightarrow> eps)"

definition cannot_list :: "string \<Rightarrow> error" where
  "cannot_list msg = Msg (''cannot list DanmEps because:'' @ msg)"

definition FindByCid :: "'w DanmClient \<Rightarrow> string \<Rightarrow> ('w, DanmEp list) st" where
  "FindByCid client cid w =
     (case list_retry client MaxRetryCount [] w of
        (Inl msg, w') \<Rightarrow> (Err (cannot_list msg), w')
      | (Inr result, w') \<Rightarrow> (Ok (filter (\<lambda>ep. ep_CID (ep_Spec ep) = cid) (ep_items result)), w'))"

text \<open>A later endpoint of one container replaces an earlier one.\<close>

definition CidsByHost :: "'w DanmClient \<Rightarrow> string \<Rightarrow> ('w, string \<Rightarrow> DanmEp option) st" where
  "CidsByHost client host w =
     (case api_ep_list client [] w of
        (Inl msg, w') \<Rightarrow> (Err (cannot_list msg), w')
      | (Inr result, w') \<Rightarrow>
          (Ok (foldl (\<lambda>m ep. if ep_Host (ep_Spec ep) = host then m(ep_CID (ep_Spec ep) \<mapsto> ep) else m)
             Map.empty (ep_items result)), w'))"

definition FindByPodName :: "'w DanmClient \<Rightarrow> string \<Rightarrow> string \<Rightarrow> ('w, DanmEp list) st" where
  "FindByPodName client podName ns w =
     (case api_ep_list client ns w of
        (Inl msg, w') \<Rightarrow> (Err (cannot_list msg), w')
      | (Inr result, w') \<Rightarrow>
          (Ok (filter (\<lambda>ep. \<not> (podName \<noteq> [] \<and> ep_Pod (ep_Spec ep) \<noteq> podName)) (ep_items result)), w'))"

definition FindByPodUid :: "'w DanmClient \<Rightarrow> string \<Rightarrow> string \<Rightarrow> ('w, DanmEp list) st" where
  "FindByPodUid client podUid ns w =
     (case api_ep_list client ns w of
        (Inl msg, w') \<Rightarrow> (Err (cannot_list msg), w')
      | (Inr result, w') \<Rightarrow>
          (Ok (filter (\<lambda>ep. \<not> (podUid \<noteq> [] \<and> ep_PodUID (ep_Spec ep) \<noteq> podUid)) (ep_items result)), w'))"

definition uses_network :: "DanmNet \<Rightarrow> DanmEp \<Rightarrow> bool" where
  "uses_network dnet ep \<longleftrightarrow>
     (ep_ApiType (ep_Spec ep) = dn_Kind dnet \<and> ep_NetworkName (ep_Spec ep) = mt_Name (dn_Meta dnet)) \<and>
     (dn_Kind dnet = ''ClusterNetwork'' \<or> mt_Namespace (ep_Meta ep) = mt_Namespace (dn_Meta dnet))"

text \<open>The first endpoint using the network, if any.\<close>

definition ArePodsConnectedToNetwork :: "'w DanmClient \<Rightarrow> DanmNet \<Rightarrow> ('w, DanmEp option) st" where
  "ArePodsConnectedToNetwork client dnet w =
     (case api_ep_list client [] w of
        (Inl msg, w') \<Rightarrow> (Err (cannot_list msg), w')
      | (Inr result, w') \<Rightarrow> (Ok (find (uses_network dnet) (ep_items result)), w'))"

section \<open>The host\<close>

record 'w host_env =
  NewUuid :: "'w \<Rightarrow> (string + string) \<times> 'w"
  Hostname :: "string + string"
  PfNameOf :: "string \<Rightarrow> string"
  VfidOf :: "string \<Rightarrow> string \<Rightarrow> int option"
  PfVfMacs :: "string \<Rightarrow> string list option"
  Sysctl :: "string \<Rightarrow> string \<Rightarrow> 'w \<Rightarrow> string option \<times> 'w"

text \<open>\<^verbatim>\<open>getVfMac\<close>; indexing the list of virtual functions panics out of bounds.\<close>

definition getVfMac :: "'w host_env \<Rightarrow> string \<Rightarrow> string res" where
  "getVfMac env pciId =
     (let pfName = PfNameOf env pciId in
      case VfidOf env pciId pfName of
        None \<Rightarrow> Ok []
      | Some vfId \<Rightarrow>
          (case PfVfMacs env pfName of
             None \<Rightarrow> Ok []
           | Some macs \<Rightarrow>
               if int (length macs) \<ge> vfId
               then (if 0 \<le> vfId \<and> vfId < int (length macs) then Ok (macs ! nat vfId) else Panic)
               else Ok []))"

definition isIPv6Needed :: "DanmEp \<Rightarrow> bool" where
  "isIPv6Needed ep = (if if_AddressIPv6 (ep_Iface (ep_Spec ep)) \<noteq> [] then True else False)"

definition isIPv6NotNeeded :: "DanmEp \<Rightarrow> bool" where
  "isIPv6NotNeeded ep = (if if_AddressIPv6 (ep_Iface (ep_Spec ep)) = [] then True else False)"

definition sysctl_name :: "string \<Rightarrow> string \<Rightarrow> string" where
  "sysctl_name iface key = ''net.ipv6.conf.'' @ iface @ ''.'' @ key"

definition sysctls :: "((DanmEp \<Rightarrow> bool) \<times> (string \<times> string) list) list" where
  "sysctls =
     [(isIPv6Needed, [(''disable_ipv6'', ''0''), (''autoconf'', ''0''), (''accept_ra'', ''0''), (''ndisc_notify'', ''1'')]),
      (isIPv6NotNeeded, [(''disable_ipv6'', ''1'')])]"

fun set_sysctls :: "'w host_env \<Rightarrow> string \<Rightarrow> (string \<times> string) list \<Rightarrow> ('w, unit) st" where
  "set_sysctls env iface [] w = (Ok (), w)"
| "set_sysctls env iface ((key, v) # rest) w =
     (case Sysctl env (sysctl_name iface key) v w of
        (Some msg, w') \<Rightarrow> (Err (Msg (''failed to set sysctl due to:'' @ msg)), w')
      | (None, w') \<Rightarrow> set_sysctls env iface rest w')"

definition setDanmEpSysctls :: "'w host_env \<Rightarrow> DanmEp \<Rightarrow> ('w, unit) st" where
  "setDanmEpSysctls env ep =
     set_sysctls env (if_Name (ep_Iface (ep_Spec ep)))
       (concat (map (\<lambda>(f, data). if f ep then data else []) sysctls))"

section \<open>Creating and deleting endpoints\<close>

definition calculateIfaceName :: "string \<Rightarrow> string \<Rightarrow> string \<Rightarrow> int \<Rightarrow> string" where
  "calculateIfaceName namingScheme chosenName defaultName sequenceId =
     (if sequenceId = 0 then ''eth0''
      else if chosenName \<noteq> [] then
        (if namingScheme \<noteq> LegacyNamingScheme then chosenName @ itoa sequenceId else chosenName)
      else defaultName @ itoa sequenceId)"

record CniArgs =
  arg_Namespace :: string
  arg_Netns :: string
  arg_PodName :: string
  arg_ContainerId :: string
  arg_PodUID :: string
  arg_PodLabels :: gomap

definition new_ep :: "string \<Rightarrow> string \<Rightarrow> DanmEpIface \<Rightarrow> DanmNet \<Rightarrow> CniArgs \<Rightarrow> DanmEp" where
  "new_ep epid host epInput netInfo args =
     \<lparr>ep_Kind = ''DanmEp'',
      ep_Meta = \<lparr>mt_Name = epid, mt_Namespace = arg_Namespace args, mt_ResourceVersion = [], mt_UID = [],
        mt_Labels = arg_PodLabels args\<rparr>,
      ep_Spec = \<lparr>ep_NetworkName = mt_Name (dn_Meta netInfo), ep_NetworkType = NetworkType (dn_Spec netInfo),
        ep_EndpointID = epid, ep_Iface = epInput, ep_Host = host, ep_Pod = arg_PodName args,
        ep_PodUID = arg_PodUID args, ep_CID = arg_ContainerId args, ep_Netns = arg_Netns args,
        ep_ApiType = dn_Kind netInfo\<rparr>\<rparr>"

definition createDanmEp ::
  "'w host_env \<Rightarrow> 'w DanmClient \<Rightarrow> DanmEpIface \<Rightarrow> DanmNet \<Rightarrow> CniArgs \<Rightarrow> ('w, DanmEp) st" where
  "createDanmEp env danmClient epInput netInfo args w =
     (case NewUuid env w of
        (Inl msg, w1) \<Rightarrow> (Err (Msg (''uuid.NewV4 returned error during EP creation:'' @ msg)), w1)
      | (Inr epid, w1) \<Rightarrow>
          (case Hostname env of
             Inl msg \<Rightarrow> (Err (Msg (''OS.Hostname returned error during EP creation:'' @ msg)), w1)
           | Inr host \<Rightarrow>
               (case api_ep_create danmClient (arg_Namespace args) (new_ep epid host epInput netInfo args) w1 of
                  (Inl msg, w2) \<Rightarrow>
                    (Err (Msg (''DanmEp object could not be PUT to K8s API server due to error:'' @ msg)), w2)
                | (Inr ep, w2) \<Rightarrow> (Ok ep, w2))))"

text \<open>
  \<open>CreateDanmEp\<close> returns an endpoint and a network besides its error; a nil is \<open>None\<close>.
\<close>

record ep_result =
  er_Ep :: "DanmEp option"
  er_Net :: "DanmNet option"
  er_Err :: "error option"

definition CreateDanmEp ::
  "go_cidr \<Rightarrow> 'w host_env \<Rightarrow> 'w DanmClient \<Rightarrow> string \<Rightarrow> bool \<Rightarrow> DanmNet \<Rightarrow> Interface \<Rightarrow> CniArgs \<Rightarrow> ('w, ep_result) st" where
  "CreateDanmEp gc env danmClient namingScheme isIpReservationNeeded netInfo iface args w =
     (case (if isIpReservationNeeded then Reserve gc danmClient netInfo (ifc_Ip iface) (ifc_Ip6 iface) w
            else (Ok (ifc_Ip iface, ifc_Ip6 iface), w)) of
        (Ok (ip4, ip6), w1) \<Rightarrow>
          (case (if ifc_Device iface \<noteq> [] then getVfMac env (ifc_Device iface) else Ok []) of
             Ok mac \<Rightarrow>
               (let epSpec = \<lparr>if_Name = calculateIfaceName namingScheme (NicPrefix (opts netInfo))
                        (ifc_DefaultIfaceName iface) (ifc_SequenceId iface),
                      if_Address = ip4, if_AddressIPv6 = ip6, if_MacAddress = mac,
                      if_Proutes = ifc_Proutes iface, if_Proutes6 = ifc_Proutes6 iface,
                      if_DeviceID = ifc_Device iface\<rparr>
                in case createDanmEp env danmClient epSpec netInfo args w1 of
                     (Ok ep, w2) \<Rightarrow>
                       (case GetNetworkFromEp danmClient ep w2 of
                          (Ok dnet, w3) \<Rightarrow> (Ok \<lparr>er_Ep = Some ep, er_Net = Some dnet, er_Err = None\<rparr>, w3)
                        | (Err e, w3) \<Rightarrow> (Ok \<lparr>er_Ep = Some ep, er_Net = None, er_Err = Some (EpNetUnreadable e)\<rparr>, w3)
                        | (Panic, w3) \<Rightarrow> (Panic, w3)
                        | (Hang, w3) \<Rightarrow> (Hang, w3))
                   | (Err e, w2) \<Rightarrow> (Ok \<lparr>er_Ep = None, er_Net = Some netInfo, er_Err = Some (EpNotCreated e)\<rparr>, w2)
                   | (Panic, w2) \<Rightarrow> (Panic, w2)
                   | (Hang, w2) \<Rightarrow> (Hang, w2))
           | Err e \<Rightarrow> (Err e, w1)
           | Panic \<Rightarrow> (Panic, w1)
           | Hang \<Rightarrow> (Hang, w1))
      | (Err e, w1) \<Rightarrow>
          (Ok \<lparr>er_Ep = None, er_Net = Some netInfo,
            er_Err = Some (IpReservationFailed (mt_Name (dn_Meta netInfo)) e)\<rparr>, w1)
      | (Panic, w1) \<Rightarrow> (Panic, w1)
      | (Hang, w1) \<Rightarrow> (Hang, w1))"

fun update_retry :: "'w DanmClient \<Rightarrow> nat \<Rightarrow> DanmEp \<Rightarrow> string option \<Rightarrow> 'w \<Rightarrow> string option \<times> 'w" where
  "update_retry client 0 ep err w = (err, w)"
| "update_retry client (Suc k) ep err w =
     (case api_ep_update client (mt_Namespace (ep_Meta ep)) ep w of
        (None, w') \<Rightarrow> (None, w')
      | (Some msg, w') \<Rightarrow> update_retry client k ep (Some msg) w')"

definition UpdateDanmEp :: "'w DanmClient \<Rightarrow> DanmEp \<Rightarrow> ('w, unit) st" where
  "UpdateDanmEp client ep w =
     (case update_retry client MaxRetryCount ep None w of
        (None, w') \<Rightarrow> (Ok (), w') | (Some msg, w') \<Rightarrow> (Err (ApiError msg), w'))"

definition delete_ep :: "'w DanmClient \<Rightarrow> DanmEp \<Rightarrow> ('w, unit) st" where
  "delete_ep danmClient ep w =
     (case api_ep_delete danmClient (mt_Namespace (ep_Meta ep)) (mt_Name (ep_Meta ep)) w of
        (None, w') \<Rightarrow> (Ok (), w') | (Some msg, w') \<Rightarrow> (Err (ApiError msg), w'))"

text \<open>A missing network and an endpoint without addresses dereference a nil pointer.\<close>

definition DeleteDanmEp :: "'w DanmClient \<Rightarrow> DanmEp \<Rightarrow> DanmNet option \<Rightarrow> ('w, unit) st" where
  "DeleteDanmEp danmClient ep dnet w =
     (let a4 = if_Address (ep_Iface (ep_Spec ep)); a6 = if_AddressIPv6 (ep_Iface (ep_Spec ep)) in
      case dnet of
        None \<Rightarrow> if a4 \<noteq> [] \<or> a6 \<noteq> []
          then (Err (Msg (''DanmEp:'' @ mt_Name (ep_Meta ep) @
                  '' cannot be safely deleted because its linked network is not available to free DANM IPAM allocated IPs'')), w)
          else (Panic, w)
      | Some n \<Rightarrow>
          if WasIpAllocatedByDanm a4 (Cidr (opts n)) \<or> WasIpAllocatedByDanm a6 (PoolCidr (Pool6 (opts n)))
          then (case GarbageCollectIps danmClient n a4 a6 w of
                  (Ok _, w1) \<Rightarrow> delete_ep danmClient ep w1
                | (Err e, w1) \<Rightarrow> (Err (EpNotDeleted (mt_Name (ep_Meta ep)) e), w1)
                | (Panic, w1) \<Rightarrow> (Panic, w1)
                | (Hang, w1) \<Rightarrow> (Hang, w1))
          else delete_ep danmClient ep w)"

section \<open>Interface names\<close>

definition ends_plain :: "string \<Rightarrow> bool" where
  "ends_plain s \<longleftrightarrow> s = [] \<or> \<not> is_digit (last s)"

definition digits_suffix :: "string \<Rightarrow> string" where
  "digits_suffix s = rev (takeWhile is_digit (rev s))"

lemma digits_suffix_itoa:
  assumes "ends_plain p" and "0 \<le> i"
  shows "digits_suffix (p @ itoa i) = itoa i"
proof -
  have all: "\<forall>c \<in> set (rev (itoa i)). is_digit c"
    using itoa_nat_digits [of "nat i"] assms(2) by (simp add: itoa_def)
  have "takeWhile is_digit (rev (itoa i) @ rev p) = rev (itoa i) @ takeWhile is_digit (rev p)"
    using all by (simp add: takeWhile_append)
  moreover have "takeWhile is_digit (rev p) = []"
    using assms(1) by (cases p rule: rev_cases) (auto simp: ends_plain_def)
  ultimately show ?thesis by (simp add: digits_suffix_def)
qed

lemma itoa_inj: "0 \<le> i \<Longrightarrow> 0 \<le> j \<Longrightarrow> itoa i = itoa j \<Longrightarrow> i = j"
  by (metis digits_val_itoa itoa_def nat_eq_iff2 not_less)

text \<open>
  The interfaces of one Pod get different names when the naming scheme is not the legacy one
  and neither the prefixes of the networks nor the default name end in a digit: the sequence
  number of the connection can be read back from the name.
\<close>

theorem iface_names_distinct:
  assumes scheme: "namingScheme \<noteq> ''legacy''"
    and plain: "ends_plain prefix1" "ends_plain prefix2" "ends_plain defaultName"
    and seq: "0 \<le> i" "0 \<le> j" "i \<noteq> j"
  shows "calculateIfaceName namingScheme prefix1 defaultName i \<noteq> calculateIfaceName namingScheme prefix2 defaultName j"
proof -
  have name: "digits_suffix (calculateIfaceName namingScheme p defaultName k) = itoa k"
    if "0 \<le> k" "ends_plain p" for k p
  proof -
    have "''eth0'' = ''eth'' @ itoa 0" by code_simp
    moreover have "ends_plain ''eth''" by (simp add: ends_plain_def is_digit_def)
    ultimately show ?thesis
      using that scheme plain(3) digits_suffix_itoa [of "''eth''" 0] digits_suffix_itoa [of p k]
        digits_suffix_itoa [of defaultName k]
      by (auto simp: calculateIfaceName_def LegacyNamingScheme_def)
  qed
  from name [OF seq(1) plain(1)] name [OF seq(2) plain(2)] itoa_inj [OF seq(1,2)] seq(3)
  show ?thesis by metis
qed

theorem iface_names_distinct_witness:
  "calculateIfaceName [] ''ext'' ''eth'' 1 \<noteq> calculateIfaceName [] [] ''eth'' 2"
  by (rule iface_names_distinct) (simp_all add: ends_plain_def is_digit_def)

text \<open>
  A prefix that ends in a digit can make two interfaces of one Pod collide: prefix "net1" on
  the first and "net" on the eleventh additional connection are both named net11.
\<close>

theorem iface_names_collide:
  "calculateIfaceName scheme ''net1'' defaultName 1 = calculateIfaceName scheme ''net'' defaultName 11 \<or>
   scheme = ''legacy''"
proof -
  have "itoa 1 = ''1''" "itoa 11 = ''11''" by code_simp+
  then show ?thesis by (simp add: calculateIfaceName_def LegacyNamingScheme_def)
qed

section \<open>Endpoints and their networks\<close>

text \<open>
  An endpoint created on a network leads back to it: looking up the network of the new
  endpoint asks the API the network's kind names for the network's name, in the Pod's namespace
  (the cluster-wide API in none).
\<close>

theorem ep_leads_to_its_network:
  assumes "api_of_kind (dn_Kind netInfo) = Some api" and "mt_Name (dn_Meta netInfo) \<noteq> []"
    and "api_net_get danmClient api (api_scope api (arg_Namespace args)) (mt_Name (dn_Meta netInfo)) w = (Inr n, w')"
    and "mt_Name (dn_Meta n) = mt_Name (dn_Meta netInfo)"
  shows "GetNetworkFromEp danmClient (new_ep epid host epInput netInfo args) w = (Ok (n\<lparr>dn_Kind := api_kind api\<rparr>), w')"
  using assms by (simp add: GetNetworkFromEp_def new_ep_def GetNetworkFromInterface_dummy get_named_def)

text \<open>
  The check before a network is changed or deleted misses Pods connected through the default
  network: their endpoints record the empty kind the API client delivers, and no endpoint of the
  empty kind matches a manifest of kind DanmNet.
\<close>

theorem default_network_connection_missed:
  assumes "dn_Kind netInfo = []" and "dn_Kind manifest = ''DanmNet''"
    and "api_ep_list danmClient [] w = (Inr (Some [new_ep epid host epInput netInfo args]), w')"
  shows "ArePodsConnectedToNetwork danmClient manifest w = (Ok None, w')"
  using assms by (simp add: ArePodsConnectedToNetwork_def uses_network_def new_ep_def ep_items_def)

text \<open>
  Listing the endpoints of a container survives failures of the API: if one of the first ten
  list calls answers, the result is exactly the listed endpoints of the container.
\<close>

theorem FindByCid_retries:
  assumes "k < 10"
    and "\<And>i. i < k \<Longrightarrow> \<exists>msg. api_ep_list client [] (ws i) = (Inl msg, ws (Suc i))"
    and "api_ep_list client [] (ws k) = (Inr result, w')"
  shows "FindByCid client cid (ws 0) = (Ok (filter (\<lambda>ep. ep_CID (ep_Spec ep) = cid) (ep_items result)), w')"
proof -
  have "list_retry client (Suc m) msg (ws i) = (Inr result, w')" if "i \<le> k" "k < i + Suc m" for i m msg
    using that
  proof (induction m arbitrary: i msg)
    case 0
    then have "i = k" by simp
    then show ?case using assms(3) by simp
  next
    case (Suc m)
    show ?case
    proof (cases "i = k")
      case True
      then show ?thesis using assms(3) by simp
    next
      case False
      then have "i < k" using Suc.prems by simp
      then obtain msg' where "api_ep_list client [] (ws i) = (Inl msg', ws (Suc i))" using assms(2) by blast
      then have "list_retry client (Suc (Suc m)) msg (ws i) = list_retry client (Suc m) msg' (ws (Suc i))"
        by (simp only: list_retry.simps prod.case sum.case)
      then show ?thesis using Suc.IH [of "Suc i"] Suc.prems \<open>i < k\<close> by simp
    qed
  qed
  from this [of 0 9] have "list_retry client MaxRetryCount [] (ws 0) = (Inr result, w')"
    using assms(1) by (simp add: MaxRetryCount_def)
  then show ?thesis by (simp add: FindByCid_def)
qed

end
