(* ===== verification/EpProps.thy ===== *)
theory EpProps
  imports LockServer DanmEps
begin

text \<open>
  Endpoints and the addresses they hold: deleting an endpoint releases its address on the server,
  and concrete instances of the statements of \<open>DanmEps\<close> on the server of
  \<open>LockServer\<close>.
\<close>

definition demo_args :: CniArgs where
  "demo_args = \<lparr>arg_Namespace = ''ns'', arg_Netns = ''/proc/1/ns/net'', arg_PodName = ''pod'',
     arg_ContainerId = ''c1'', arg_PodUID = ''u1'', arg_PodLabels = []\<rparr>"

definition demo_ep_iface :: DanmEpIface where
  "demo_ep_iface = \<lparr>if_Name = ''eth0'', if_Address = ''10.0.0.1/29'', if_AddressIPv6 = [], if_MacAddress = [],
     if_Proutes = None, if_Proutes6 = None, if_DeviceID = []\<rparr>"

definition demo_ep :: "DanmNet \<Rightarrow> DanmEp" where
  "demo_ep n = new_ep ''e1'' ''host'' demo_ep_iface n demo_args"

theorem ep_leads_to_its_network_witness:
  "GetNetworkFromEp lock_client (demo_ep (demo_object ''1'' ''wQ=='')) (demo_object ''2'' ''wQ=='') =
     (Ok (demo_object ''2'' ''wQ==''\<lparr>dn_Kind := DanmNetKind\<rparr>), demo_object ''2'' ''wQ=='')"
  using ep_leads_to_its_network [of "demo_object ''1'' ''wQ==''" DanmNets lock_client demo_args
      "demo_object ''2'' ''wQ==''" "demo_object ''2'' ''wQ==''" "demo_object ''2'' ''wQ==''"
      "''e1''" "''host''" demo_ep_iface]
  by (simp add: demo_ep_def api_kind_def lock_client_def)

theorem default_network_connection_missed_witness:
  "ArePodsConnectedToNetwork
     (lock_client\<lparr>api_ep_list := \<lambda>_ w. (Inr (Some [demo_ep (demo_object ''1'' ''wQ==''\<lparr>dn_Kind := []\<rparr>)]), w)\<rparr>)
     (demo_object ''1'' ''wQ=='') (demo_object ''1'' ''wQ=='') = (Ok None, demo_object ''1'' ''wQ=='')"
  by (rule default_network_connection_missed [of "demo_object ''1'' ''wQ==''\<lparr>dn_Kind := []\<rparr>"])
    (simp_all add: demo_ep_def DanmNetKind_def)

theorem FindByCid_retries_witness:
  "FindByCid (\<lparr>api_net_update = \<lambda>_ _ _ w. (None, w), api_net_get = \<lambda>_ _ _ w. (Inl [], w),
       api_tconf_list = \<lambda>w. (Inr None, w), api_tconf_update = \<lambda>_ w. (None, w), api_tconf_get = \<lambda>_ w. (Inl [], w),
       api_ep_list = (\<lambda>_ w. if w < (3 :: nat) then (Inl ''refused'', w + 1) else (Inr (Some [demo_ep empty_net]), w)),
       api_ep_create = \<lambda>_ e w. (Inr e, w), api_ep_update = \<lambda>_ _ w. (None, w), api_ep_delete = \<lambda>_ _ w. (None, w)\<rparr>)
     ''c1'' 0 = (Ok [demo_ep empty_net], 3)"
  using FindByCid_retries [of 3 "\<lparr>api_net_update = \<lambda>_ _ _ w. (None, w), api_net_get = \<lambda>_ _ _ w. (Inl [], w),
       api_tconf_list = \<lambda>w. (Inr None, w), api_tconf_update = \<lambda>_ w. (None, w), api_tconf_get = \<lambda>_ w. (Inl [], w),
       api_ep_list = (\<lambda>_ w. if w < (3 :: nat) then (Inl ''refused'', w + 1) else (Inr (Some [demo_ep empty_net]), w)),
       api_ep_create = \<lambda>_ e w. (Inr e, w), api_ep_update = \<lambda>_ _ w. (None, w), api_ep_delete = \<lambda>_ _ w. (None, w)\<rparr>"
      "\<lambda>i. i" "Some [demo_ep empty_net]" 3 "''c1''"]
  by (simp add: ep_items_def demo_ep_def new_ep_def demo_args_def)

section \<open>Deleting an endpoint releases its address\<close>

lemma addr_of_none: "addr_of NoneAllocType = []"
  by code_simp

lemma Free_empty: "rip = [] \<Longrightarrow> Free client n rip w = (Ok (), w)"
  by (simp add: Free_def)

lemma free_ip_v4:
  assumes c: "parse_net (Cidr (opts n)) = Some k" and v4: "v4_net k" and a: "Contains k a"
    and taken: "pos \<in> ba_bits (NewBitArrayFromBase64 (Alloc (opts n)))"
    and pos: "GetIndexOfIp a (Some k) = Ok i" "pos = unat i"
  shows "\<exists>arr. free_ip a n = Ok (set_opts (\<lambda>oo. oo\<lparr>Alloc := Encode arr\<rparr>) n) \<and>
    resetIp (Alloc (opts n)) (Cidr (opts n)) a = Ok (Encode arr) \<and>
    ba_bits arr = ba_bits (NewBitArrayFromBase64 (Alloc (opts n))) - {pos}"
proof -
  let ?ba = "NewBitArrayFromBase64 (Alloc (opts n))"
  have "To4 a \<noteq> []" using a v4_contains [OF v4] by simp
  moreover from this have "a \<noteq> []" by (auto simp: To4_def)
  moreover have "unat i < ba_size ?ba" using taken pos(2) ba_bits_bound by blast
  then obtain arr where "Reset ?ba i = Ok arr" using ba.clear_total by blast
  ultimately show ?thesis
    using a c pos Reset_bits [of ?ba i arr] by (simp add: free_ip_def resetIp_def Let_def) blast
qed

lemma contained_address: "v4_net k \<Longrightarrow> Contains k (addr_of a) \<Longrightarrow> a \<noteq> [] \<and> a \<noteq> NoneAllocType"
  using addr_of_none v4_contains [of k "[]"] by (auto simp: addr_of_def To4_def first_part_takeWhile ParseIP_def)

text \<open>
  Giving an address back, with any client: \<open>upd\<close> is the world after the server accepted an
  update of the copy \<open>n\<close> of the network.
\<close>

lemma gc_releases:
  assumes c: "parse_net (Cidr (opts n)) = Some k" "length (net_IP k) = 4"
    and a: "Contains k (addr_of a)"
    and taken: "pos_of k a \<in> ba_bits (NewBitArrayFromBase64 (Alloc (opts n)))"
    and acc: "\<And>m. dn_Meta m = dn_Meta n \<Longrightarrow> dn_Kind m = dn_Kind n \<Longrightarrow> updateIpAllocation client m w = (Ok None, upd m)"
  shows "\<exists>arr. GarbageCollectIps client n a [] w = (Ok (), upd (set_opts (\<lambda>oo. oo\<lparr>Alloc := Encode arr\<rparr>) n)) \<and>
    resetIp (Alloc (opts n)) (Cidr (opts n)) (addr_of a) = Ok (Encode arr) \<and>
    ba_bits arr = ba_bits (NewBitArrayFromBase64 (Alloc (opts n))) - {pos_of k a}"
proof -
  have v4: "v4_net k" using c by (rule v4_net_parse)
  obtain i where i: "GetIndexOfIp (addr_of a) (Some k) = Ok i" using v4.index_total [OF v4 a] by blast
  then have pos: "pos_of k a = unat i" by (simp add: pos_of_def)
  obtain arr where arr: "free_ip (addr_of a) n = Ok (set_opts (\<lambda>oo. oo\<lparr>Alloc := Encode arr\<rparr>) n)"
    "resetIp (Alloc (opts n)) (Cidr (opts n)) (addr_of a) = Ok (Encode arr)"
    "ba_bits arr = ba_bits (NewBitArrayFromBase64 (Alloc (opts n))) - {pos_of k a}"
    using free_ip_v4 [OF c(1) v4 a taken i pos] by blast
  let ?n = "set_opts (\<lambda>oo. oo\<lparr>Alloc := Encode arr\<rparr>) n"
  have "Alloc (opts n) \<noteq> Encode arr"
  proof
    assume "Alloc (opts n) = Encode arr"
    then have "ba_bits (NewBitArrayFromBase64 (Alloc (opts n))) = ba_bits arr" by simp
    with arr(3) taken show False by blast
  qed
  then have "\<not> deep_equal_spec (dn_Spec n) (dn_Spec ?n)"
    using deep_equal_fields(1) [of "dn_Spec n" "dn_Spec ?n"] by auto
  moreover have "updateIpAllocation client ?n w = (Ok None, upd ?n)" by (rule acc) simp_all
  ultimately have "Free_loop client n (addr_of a) n w = Some (Ok (), upd ?n)"
    by (simp add: Free_loop_pass [of client n "addr_of a" n w] free_pass_def arr(1))
  moreover have "a \<noteq> []" "a \<noteq> NoneAllocType" using contained_address [OF v4 a] by auto
  ultimately have "Free client n a w = (Ok (), upd ?n)"
    by (simp add: Free_def run_loop_def)
  then have "GarbageCollectIps client n a [] w = (Ok (), upd ?n)"
    by (simp add: GarbageCollectIps_def Free_empty)
  with arr show ?thesis by blast
qed

lemma delete_releases:
  assumes c: "parse_net (Cidr (opts n)) = Some k" "length (net_IP k) = 4"
    and ep: "if_AddressIPv6 (ep_Iface (ep_Spec ep)) = []" "if_Address (ep_Iface (ep_Spec ep)) = a"
    and a: "Contains k (addr_of a)" "WasIpAllocatedByDanm a (Cidr (opts n))"
    and taken: "pos_of k a \<in> ba_bits (NewBitArrayFromBase64 (Alloc (opts n)))"
    and kind: "api_of_kind (dn_Kind n) = Some api" and fresh: "rv n = rv w"
  shows "\<exists>arr. DeleteDanmEp lock_client ep (Some n) w = (Ok (), bump (set_opts (\<lambda>oo. oo\<lparr>Alloc := Encode arr\<rparr>) n)) \<and>
    ba_bits arr = ba_bits (NewBitArrayFromBase64 (Alloc (opts n))) - {pos_of k a}"
proof -
  have "updateIpAllocation lock_client m w = (Ok None, bump m)"
    if "dn_Meta m = dn_Meta n" "dn_Kind m = dn_Kind n" for m
    using that kind fresh by (simp add: updateIpAllocation_def PutNetwork_eq lock_client_def)
  from gc_releases [OF c a(1) taken this] obtain arr where
    "GarbageCollectIps lock_client n a [] w = (Ok (), bump (set_opts (\<lambda>oo. oo\<lparr>Alloc := Encode arr\<rparr>) n))"
    and arr: "ba_bits arr = ba_bits (NewBitArrayFromBase64 (Alloc (opts n))) - {pos_of k a}" by blast
  then have "DeleteDanmEp lock_client ep (Some n) w = (Ok (), bump (set_opts (\<lambda>oo. oo\<lparr>Alloc := Encode arr\<rparr>) n))"
    using ep a(2) by (simp add: DeleteDanmEp_def Let_def delete_ep_def lock_client_def)
  with arr show ?thesis by blast
qed

text \<open>
  Deleting an endpoint whose IPv4 address came from its network releases exactly that address:
  against a server that still stores the version the network was read at, the stored allocation
  array loses the address's position and nothing else.
\<close>

theorem DeleteDanmEp_releases_address:
  assumes c: "parse_net (Cidr (opts n)) = Some k" "length (net_IP k) = 4"
    and ep: "if_AddressIPv6 (ep_Iface (ep_Spec ep)) = []" "if_Address (ep_Iface (ep_Spec ep)) = a"
    and a: "Contains k (addr_of a)" "WasIpAllocatedByDanm a (Cidr (opts n))"
    and taken: "pos_of k a \<in> ba_bits (NewBitArrayFromBase64 (Alloc (opts n)))"
    and kind: "api_of_kind (dn_Kind n) = Some api" and fresh: "rv n = rv w"
  shows "\<exists>w'. DeleteDanmEp lock_client ep (Some n) w = (Ok (), w') \<and>
    ba_bits (NewBitArrayFromBase64 (Alloc (opts w'))) =
      ba_bits (NewBitArrayFromBase64 (Alloc (opts n))) - {pos_of k a}"
  using delete_releases [OF assms] by auto

lemma demo_held: "addr_of ''10.0.0.1/29'' = IPv4 [10, 0, 0, 1]" "pos_of demo_net ''10.0.0.1/29'' = 1"
  "WasIpAllocatedByDanm ''10.0.0.1/29'' ''10.0.0.0/29''"
  by code_simp+

lemma demo_held_bits: "1 \<in> ba_bits (NewBitArrayFromBase64 ''wQ=='')"
proof -
  have "bit (193 :: byte) 6" by code_simp
  then show ?thesis by (simp add: demo_used ba_bits_def ba_size_def)
qed

theorem DeleteDanmEp_releases_address_witness:
  "\<exists>w'. DeleteDanmEp lock_client (demo_ep empty_net) (Some (demo_object ''1'' ''wQ=='')) (demo_object ''1'' ''wQ=='')
      = (Ok (), w') \<and> 1 \<notin> ba_bits (NewBitArrayFromBase64 (Alloc (opts w')))"
proof -
  have k: "parse_net (Cidr (opts (demo_object ''1'' ''wQ==''))) = Some demo_net" "length (net_IP demo_net) = 4"
    by (simp_all add: demo_parse) (simp add: demo_net_def)
  have ep: "if_AddressIPv6 (ep_Iface (ep_Spec (demo_ep empty_net))) = []"
    "if_Address (ep_Iface (ep_Spec (demo_ep empty_net))) = ''10.0.0.1/29''"
    by (simp_all add: demo_ep_def new_ep_def demo_ep_iface_def)
  have "Contains demo_net (addr_of ''10.0.0.1/29'')" by (simp add: demo_held demo_gw)
  moreover have "WasIpAllocatedByDanm ''10.0.0.1/29'' (Cidr (opts (demo_object ''1'' ''wQ=='')))"
    by (simp add: demo_held)
  moreover have "pos_of demo_net ''10.0.0.1/29'' \<in>
      ba_bits (NewBitArrayFromBase64 (Alloc (opts (demo_object ''1'' ''wQ==''))))"
    using demo_held_bits by (simp add: demo_held)
  ultimately show ?thesis
    using DeleteDanmEp_releases_address [OF k ep, of DanmNets "demo_object ''1'' ''wQ==''"]
    by (auto simp: demo_held(2))
qed

end
