(* ===== verification/AddressText.thy ===== *)
theory AddressText
  imports IpamProps
begin

text \<open>
  The texts of addresses: what \<^verbatim>\<open>net.ParseIP\<close> and
  \<^verbatim>\<open>net.ParseCIDR\<close> make of an address with and without its prefix length, and that
  \<open>WasIpAllocatedByDanm\<close> recognises every address the allocator hands out.
\<close>

section \<open>No slash in an address\<close>

lemma parseIPv4_loop_no_slash: "parseIPv4_loop k s p = Some (q, []) \<Longrightarrow> CHR ''/'' \<notin> set s"
proof (induction k arbitrary: s p)
  case (Suc k)
  let ?s = "if p \<noteq> [] then tl s else s"
  from Suc.prems have s: "s \<noteq> []" "p \<noteq> [] \<Longrightarrow> hd s = CHR ''.''" by (auto split: if_splits)
  from Suc.prems obtain n r where "dtoi ?s = Some (n, r)" and rest: "parseIPv4_loop k r (p @ [word_of_nat n]) = Some (q, [])"
    by (auto split: if_splits option.splits)
  then obtain ds where "?s = ds @ r" "\<forall>c \<in> set ds. is_digit c" using dtoi_split by blast
  then have "CHR ''/'' \<notin> set ?s" using digits_free Suc.IH [OF rest] by auto
  with s show ?case by (cases s; cases "p = []") auto
qed simp

lemma parseIPv4_no_slash: "parseIPv4 s \<noteq> [] \<Longrightarrow> CHR ''/'' \<notin> set s"
  by (auto simp: parseIPv4_def dest: parseIPv4_loop_no_slash split: option.splits prod.splits list.splits)

lemma parseIPv6_loop_no_slash: "parseIPv6_loop k s a ell = Some (q, e, []) \<Longrightarrow> CHR ''/'' \<notin> set s"
proof (induction k arbitrary: s a ell)
  case (Suc k)
  from Suc.prems obtain n rest where x: "xtoi s = Some (n, rest)" and n: "n \<le> 65535"
    by (auto split: option.splits if_splits prod.splits)
  obtain ds where ds: "s = ds @ rest" "CHR ''/'' \<notin> set ds"
    using xtoi_split [OF x] no_digit(4) by blast
  show ?case
  proof (cases "rest \<noteq> [] \<and> hd rest = CHR ''.''")
    case True
    with Suc.prems x n show ?thesis by (auto dest: parseIPv4_no_slash split: if_splits)
  next
    case False
    have "CHR ''/'' \<notin> set rest"
    proof (cases rest)
      case (Cons c cs)
      with Suc.prems x n False have c: "c = CHR '':''" "cs \<noteq> []" by (auto simp: Let_def split: if_splits)
      have "CHR ''/'' \<notin> set cs"
      proof (cases "hd cs = CHR '':''")
        case True
        with Suc.prems x n False Cons c have "tl cs = [] \<or> CHR ''/'' \<notin> set (tl cs)"
          by (auto simp: Let_def dest: Suc.IH split: if_splits)
        with True c show ?thesis by (cases cs) auto
      next
        case False
        with Suc.prems x n Cons c show ?thesis by (auto simp: Let_def dest: Suc.IH split: if_splits)
      qed
      with Cons c show ?thesis by simp
    qed simp
    with ds show ?thesis by simp
  qed
qed simp

lemma parseIPv6_no_slash:
  assumes "parseIPv6 s \<noteq> []"
  shows "CHR ''/'' \<notin> set s"
proof (cases "take 2 s = ''::''")
  case True
  moreover have "drop 2 s = [] \<or> CHR ''/'' \<notin> set (drop 2 s)"
    using assms True by (auto simp: parseIPv6_def dest: parseIPv6_loop_no_slash split: option.splits prod.splits if_splits)
  ultimately have "CHR ''/'' \<notin> set (take 2 s @ drop 2 s)" by auto
  then show ?thesis by (simp only: append_take_drop_id not_False_eq_True)
next
  case False
  with assms show ?thesis
    by (auto simp: parseIPv6_def Let_def dest: parseIPv6_loop_no_slash split: option.splits prod.splits if_splits)
qed

lemma ParseIP_no_slash: "ParseIP s \<noteq> [] \<Longrightarrow> CHR ''/'' \<notin> set s"
  by (auto simp: ParseIP_def dest: parseIPv4_no_slash parseIPv6_no_slash split: list.splits if_splits)

section \<open>Addresses with a prefix length\<close>

text \<open>\<open>ParseCIDR\<close> tries both families where \<open>ParseIP\<close> looks at the first separator.\<close>

lemma parseIPv4_first_dot:
  assumes "parseIPv4 s \<noteq> []"
  shows "\<exists>r. dropWhile (\<lambda>c. c \<noteq> CHR ''.'' \<and> c \<noteq> CHR '':'') s = CHR ''.'' # r"
proof -
  from assms obtain q where "parseIPv4_loop (Suc 3) s [] = Some (q, [])"
    by (auto simp: parseIPv4_def numeral_eq_Suc split: option.splits prod.splits list.splits)
  then obtain n r where d: "dtoi s = Some (n, r)" and r: "parseIPv4_loop 3 r [word_of_nat n] = Some (q, [])"
    by (auto simp only: parseIPv4_loop.simps append_Nil simp_thms split: if_splits option.splits prod.splits)
  from r have "r \<noteq> []" "hd r = CHR ''.''" by (auto simp: numeral_eq_Suc split: if_splits)
  moreover obtain ds where "s = ds @ r" "\<forall>c \<in> set ds. is_digit c" using dtoi_split [OF d] by blast
  moreover from this have "dropWhile (\<lambda>c. c \<noteq> CHR ''.'' \<and> c \<noteq> CHR '':'') (ds @ r) =
      dropWhile (\<lambda>c. c \<noteq> CHR ''.'' \<and> c \<noteq> CHR '':'') r"
    using digits_free by (intro dropWhile_append2) auto
  ultimately show ?thesis by (cases r) auto
qed

lemma parse_either:
  assumes "ParseIP s \<noteq> []"
  shows "(if parseIPv4 s = [] then parseIPv6 s else parseIPv4 s) = ParseIP s"
proof (cases "parseIPv4 s = []")
  case True
  with assms have "ParseIP s = parseIPv6 s" by (simp add: ParseIP_def del: dropWhile_eq_Nil_conv split: list.splits if_splits)
  with True show ?thesis by simp
next
  case False
  with parseIPv4_first_dot show ?thesis by (fastforce simp add: ParseIP_def)
qed

lemma ParseCIDR_of_address:
  assumes "ParseIP s \<noteq> []" and "p \<le> 32"
  shows "\<exists>n. ParseCIDR (s @ CHR ''/'' # itoa_nat p) = Some (ParseIP s, n)"
proof -
  have s: "CHR ''/'' \<notin> set s" using assms(1) by (rule ParseIP_no_slash)
  have "dropWhile (\<lambda>c. c \<noteq> CHR ''/'') (s @ CHR ''/'' # itoa_nat p) = CHR ''/'' # itoa_nat p"
    "takeWhile (\<lambda>c. c \<noteq> CHR ''/'') (s @ CHR ''/'' # itoa_nat p) = s"
    using s by (induction s) auto
  moreover have "dtoi (itoa_nat p) = Some (p, [])"
    using dtoi_itoa [of p "[]"] assms(2) by (simp add: net_big_def)
  ultimately show ?thesis
    using parse_either [OF assms(1)] assms by (auto simp: ParseCIDR_def Let_def)
qed

lemma recognised:
  assumes c: "parse_net c = Some k" and a: "ParseIP s \<noteq> []" "Contains k (ParseIP s)" and p: "p \<le> 32"
  shows "WasIpAllocatedByDanm (s @ CHR ''/'' # itoa_nat p) c"
proof -
  have "CHR ''/'' \<in> set (s @ CHR ''/'' # itoa_nat p)" by simp
  then have "ParseIP (s @ CHR ''/'' # itoa_nat p) = []" using ParseIP_no_slash by blast
  then show ?thesis using ParseCIDR_of_address [OF a(1) p] c a by (auto simp: WasIpAllocatedByDanm_def)
qed

text \<open>What a request takes.\<close>

lemma take_bits:
  assumes c: "parse_net c = Some k" and k: "v4_net k" and pool: "pool_in_net pool k"
    and req: "req \<noteq> NoneAllocType"
    and ok: "allocateAddress pool alloc req c c = Ok (alloc', ip, pool')"
  shows "\<exists>arr. alloc' = Encode arr \<and> pos_of k ip \<notin> ba_bits (NewBitArrayFromBase64 alloc) \<and>
    ba_bits arr = insert (pos_of k ip) (ba_bits (NewBitArrayFromBase64 alloc)) \<and> Contains k (addr_of ip)"
proof -
  obtain i arr where i: "Get (NewBitArrayFromBase64 alloc) i = Ok False" "Set (NewBitArrayFromBase64 alloc) i = Ok arr"
    "alloc' = Encode arr" "Contains k (addr_of ip)" "GetIndexOfIp (addr_of ip) (Some k) = Ok i"
    using take_spec [OF c k pool req ok] by blast
  then have "pos_of k ip = unat i" by (simp add: pos_of_def)
  with i Set_bits [OF i(2)] show ?thesis by (auto simp: ba.get_Ok_iff)
qed

text \<open>Whatever was requested, an address taken from a network is recognised as this network's.\<close>

lemma taken_recognised:
  assumes c: "parse_net c = Some k" and k: "v4_net k" and pool: "pool_in_net pool k"
    and req: "req \<noteq> NoneAllocType"
    and ok: "allocateAddress pool alloc req c c = Ok (alloc', ip, pool')"
  shows "WasIpAllocatedByDanm ip c"
proof -
  have net: "usable_net k" using k by (simp add: usable_net_def)
  obtain p where p: "mask_size (net_Mask k) = p" "p \<le> 32"
    using k by (auto simp: v4_net_def wf_net_def mask_size_def simpleMaskLength_mask)
  show ?thesis
  proof (cases "req = DynamicAllocType")
    case True
    with ok req have dyn: "allocateDynamic pool alloc (Some k) (Some k) = Ok (alloc', ip, pool')"
      by (simp add: allocateAddress_def c split: if_splits)
    obtain b e where "getAllocRangeBasedOnCidr pool (Some k) = Ok (b, e)" "unat e < net_size k"
      using pool by (auto simp: pool_in_net_def split: res.splits)
    from dynamic_step [OF net this dyn] obtain a where a: "length a = 4" "Contains k a" "ip = address_text a k"
      using v4_index_ip_length [OF k] by blast
    moreover have "ParseIP (dotted a) = IPv4 a" using a(1) by (rule ParseIP_dotted)
    moreover have "address_text a k = dotted a @ CHR ''/'' # itoa_nat p"
      using a(1) p by (auto simp: address_text_def ip_string_def)
    ultimately show ?thesis using recognised [OF c, of "dotted a" p] v4_IPv4 [OF k a(1,2)] p by simp
  next
    case False
    with ok req have "allocateStatic pool alloc req c (Some k) (Some k) = Ok (alloc', ip, pool')"
      by (simp add: allocateAddress_def c split: if_splits)
    from static_step [OF net this] have "Contains k (ParseIP (first_part CHR ''/'' req))"
      "ip = first_part CHR ''/'' req @ CHR ''/'' # itoa_nat p" by (auto simp: p)
    moreover from this have "ParseIP (first_part CHR ''/'' req) \<noteq> []"
      using v4_contains [OF k, of "[]"] by (auto simp: To4_def)
    ultimately show ?thesis using recognised [OF c _ _ p(2)] by blast
  qed
qed

end
