(* ===== verification/LifeCycle.thy ===== *)
theory LifeCycle
  imports EpProps AddressText
begin

text \<open>
  The life of a connection across \<^verbatim>\<open>pkg/ipam\<close>, \<^verbatim>\<open>pkg/danmep\<close> and
  \<^verbatim>\<open>pkg/netcontrol\<close>: what its creation takes from the network, its deletion gives
  back.
\<close>

section \<open>Creating\<close>

text \<open>What a creation without error did.\<close>

lemma CreateDanmEp_success:
  assumes "CreateDanmEp gc env client scheme True n iface args w = (Ok r, w')" and "er_Err r = None"
  obtains ip4 ip6 w1 epSpec ep w2 dnet where "Reserve gc client n (ifc_Ip iface) (ifc_Ip6 iface) w = (Ok (ip4, ip6), w1)"
    and "if_Address epSpec = ip4" and "if_AddressIPv6 epSpec = ip6"
    and "createDanmEp env client epSpec n args w1 = (Ok ep, w2)"
    and "GetNetworkFromEp client ep w2 = (Ok dnet, w')" and "er_Ep r = Some ep" and "er_Net r = Some dnet"
proof -
  obtain ip4 ip6 w1 where res: "Reserve gc client n (ifc_Ip iface) (ifc_Ip6 iface) w = (Ok (ip4, ip6), w1)"
    using assms by (cases "Reserve gc client n (ifc_Ip iface) (ifc_Ip6 iface) w")
      (auto simp: CreateDanmEp_def split: res.splits)
  obtain mac where mac: "(if ifc_Device iface \<noteq> [] then getVfMac env (ifc_Device iface) else Ok []) = Ok mac"
    using assms res
    by (cases "if ifc_Device iface \<noteq> [] then getVfMac env (ifc_Device iface) else Ok []") (simp_all add: CreateDanmEp_def)
  let ?spec = "\<lparr>if_Name = calculateIfaceName scheme (NicPrefix (opts n)) (ifc_DefaultIfaceName iface) (ifc_SequenceId iface),
    if_Address = ip4, if_AddressIPv6 = ip6, if_MacAddress = mac, if_Proutes = ifc_Proutes iface,
    if_Proutes6 = ifc_Proutes6 iface, if_DeviceID = ifc_Device iface\<rparr>"
  obtain ep w2 where ep: "createDanmEp env client ?spec n args w1 = (Ok ep, w2)"
    using assms res mac by (cases "createDanmEp env client ?spec n args w1") (auto simp: CreateDanmEp_def Let_def split: res.splits)
  obtain dnet where net: "GetNetworkFromEp client ep w2 = (Ok dnet, w')" and r: "er_Ep r = Some ep" "er_Net r = Some dnet"
    using assms res mac ep by (cases "GetNetworkFromEp client ep w2") (auto simp: CreateDanmEp_def Let_def split: res.splits)
  from that [OF res _ _ ep net r] show thesis by simp
qed

lemma createDanmEp_lock:
  "createDanmEp env lock_client epSpec n args w = (Ok ep, w') \<Longrightarrow>
   \<exists>epid host. ep = new_ep epid host epSpec n args \<and> w' = snd (NewUuid env w)"
  by (auto simp: createDanmEp_def lock_client_def split: sum.splits prod.splits)

text \<open>
  A reservation whose write is accepted, with any client: either nothing was asked for or the
  request failed, or exactly the allocator's answer was written.
\<close>

lemma reserve_v4:
  assumes c: "parse_net (Cidr (opts n)) = Some k" "length (net_IP k) = 4"
    and pool: "pool_in_net (Pool (opts n)) k"
    and acc: "\<And>m. dn_Meta m = dn_Meta n \<Longrightarrow> dn_Kind m = dn_Kind n \<Longrightarrow> updateIpAllocation client m w = (Ok None, upd m)"
    and res: "Reserve gc client n req [] w = (r, w')"
  shows "(w' = w \<and> (\<forall>ip4 ip6. r = Ok (ip4, ip6) \<longrightarrow> ip4 = req \<and> ip6 = [] \<and> req \<in> {[], NoneAllocType})) \<or>
    (\<exists>al ip p. r = Ok (ip, []) \<and> req \<notin> {[], NoneAllocType} \<and>
       allocateAddress (Pool (opts n)) (Alloc (opts n)) req (Cidr (opts n)) (Cidr (opts n)) = Ok (al, ip, p) \<and>
       w' = upd (set_opts (\<lambda>oo. oo\<lparr>Alloc := al, Pool := p\<rparr>) n))"
proof -
  have k: "v4_net k" using c by (rule v4_net_parse)
  note loop = Reserve_loop_pass [of gc client n req "[]" n w]
  note run = Reserve_def run_loop_def loop reserve_pass_def
  show ?thesis
  proof (cases "req \<in> {[], NoneAllocType}")
    case True
    then have "allocateIps gc n req [] = Ok (req, [], n)"
      by (auto simp: allocateIps_def allocate4_def allocate6_def allocateAddress_def set_opts_def)
    with res True show ?thesis by (auto simp: run)
  next
    case False
    show ?thesis
    proof (cases "allocateIps gc n req []")
      case (Ok t)
      obtain ip ip6 changed where t: "t = (ip, ip6, changed)" by (cases t)
      from False Ok t obtain al p where
        al: "allocateAddress (Pool (opts n)) (Alloc (opts n)) req (Cidr (opts n)) (Cidr (opts n)) = Ok (al, ip, p)"
        and changed: "changed = set_opts (\<lambda>oo. oo\<lparr>Alloc := al, Pool := p\<rparr>) n"
        using allocateIps_v4 [of gc n req ip ip6 changed] by auto
      have "ip6 = []" using Ok t by (auto simp: allocateIps_def allocate6_def)
      from take_spec [OF c(1) k pool _ al] False obtain i arr where
        "Get (NewBitArrayFromBase64 (Alloc (opts n))) i = Ok False" "Set (NewBitArrayFromBase64 (Alloc (opts n))) i = Ok arr"
        "al = Encode arr" by auto
      then have "ba_bits (NewBitArrayFromBase64 (Alloc (opts n))) \<noteq> ba_bits (NewBitArrayFromBase64 al)"
        using Set_bits by (auto simp: ba.get_Ok_iff)
      then have "\<not> deep_equal_spec (dn_Spec n) (dn_Spec changed)"
        using deep_equal_fields(1) [of "dn_Spec n" "dn_Spec changed"] changed by auto
      moreover have "updateIpAllocation client changed w = (Ok None, upd changed)"
        by (rule acc) (simp_all add: changed)
      ultimately have "r = Ok (ip, ip6)" "w' = upd changed" using res Ok t by (simp_all add: run)
      with False al changed \<open>ip6 = []\<close> show ?thesis by auto
    qed (use res in \<open>auto simp: run\<close>)
  qed
qed

section \<open>Properties\<close>


definition lone_host :: "DanmNet host_env" where
  "lone_host = \<lparr>NewUuid = (\<lambda>w. (Inr ''e1'', w)), Hostname = Inr ''h1'', PfNameOf = (\<lambda>_. []),
     VfidOf = (\<lambda>_ _. None), PfVfMacs = (\<lambda>_. None), Sysctl = (\<lambda>_ _ w. (None, w))\<rparr>"

definition dynamic_request :: Interface where
  "dynamic_request = \<lparr>ifc_Network = ''n1'', ifc_TenantNetwork = [], ifc_ClusterNetwork = [], ifc_Ip = DynamicAllocType,
     ifc_Ip6 = [], ifc_Proutes = None, ifc_Proutes6 = None, ifc_DefaultIfaceName = ''eth'', ifc_Device = [],
     ifc_SequenceId = 0\<rparr>"

lemma lone_reserve:
  "Reserve std_cidr lock_client (demo_object ''1'' demo_alloc) DynamicAllocType [] (demo_object ''1'' demo_alloc) =
     (Ok (''10.0.0.1/29'', []), bump (demo_object ''1'' ''wQ==''))"
proof -
  have "\<not> deep_equal_spec (dn_Spec (demo_object ''1'' demo_alloc)) (dn_Spec (demo_object ''1'' ''wQ==''))"
    using deep_equal_fields(1) [of "dn_Spec (demo_object ''1'' demo_alloc)" "dn_Spec (demo_object ''1'' ''wQ=='')"]
    by (auto simp: demo_alloc_def)
  then show ?thesis
    by (simp add: Reserve_def run_loop_def Reserve_loop_pass [of _ _ "demo_object ''1'' demo_alloc"] reserve_pass_def
        demo_reserve(1) demo_accept)
qed

lemma lone_create:
  "createDanmEp lone_host lock_client epSpec n args w = (Ok (new_ep ''e1'' ''h1'' epSpec n args), w)"
  by (simp add: createDanmEp_def lone_host_def lock_client_def)

lemma lone_network:
  "GetNetworkFromEp lock_client (new_ep epid host epSpec (demo_object v al) args) (bump (demo_object v' al')) =
     (Ok (bump (demo_object v' al')\<lparr>dn_Kind := api_kind DanmNets\<rparr>), bump (demo_object v' al'))"
  by (rule ep_leads_to_its_network) (simp_all add: lock_client_def)


end
