(* ===== verification/Syncher.thy ===== *)
theory Syncher
  imports Prelude "HOL-Library.Multiset"
begin

text \<open>
  \<^verbatim>\<open>pkg/syncher/syncher.go\<close>: the results of the CNI plugins that run
  concurrently for one Pod. Plugins push under a mutex, so that a run is a sequence of pushes in
  some order; the waiting loop polls the list, and \<open>obs i\<close> is what it sees at its
  \<open>i\<close>-th poll. The entries of a CNI result are opaque.
\<close>

record ('i, 'p, 'r) cni_result =
  Interfaces :: "'i list"
  IPs :: "'p list"
  CniRoutes :: "'r list"

record ('i, 'p, 'r) cniOpResult =
  CniName :: string
  OpResult :: "string option"
  CniResult :: "('i, 'p, 'r) cni_result option"
  op_IfName :: string

record ('i, 'p, 'r) Syncher =
  ExpectedNumOfResults :: int
  CniResults :: "('i, 'p, 'r) cniOpResult list"

definition MaximumAllowedTime :: nat where "MaximumAllowedTime = 3000"
definition RetryInterval :: nat where "RetryInterval = 10"
definition DefaultIfName :: string where "DefaultIfName = ''eth0''"

definition NewSyncher :: "int \<Rightarrow> ('i, 'p, 'r) Syncher" where
  "NewSyncher numOfResults = \<lparr>ExpectedNumOfResults = numOfResults, CniResults = []\<rparr>"

definition PushResult ::
  "string \<Rightarrow> string option \<Rightarrow> ('i, 'p, 'r) cni_result option \<Rightarrow> string \<Rightarrow> ('i, 'p, 'r) Syncher \<Rightarrow> ('i, 'p, 'r) Syncher" where
  "PushResult cniName opRes cniRes ifName synch =
     synch\<lparr>CniResults := CniResults synch @
       [\<lparr>CniName = cniName, OpResult = opRes, CniResult = cniRes, op_IfName = ifName\<rparr>]\<rparr>"

fun wasAnyErroneous :: "('i, 'p, 'r) cniOpResult list \<Rightarrow> bool" where
  "wasAnyErroneous [] = False"
| "wasAnyErroneous (cniRes # rest) = (if OpResult cniRes \<noteq> None then True else wasAnyErroneous rest)"

definition WasAnyOperationErroneous :: "('i, 'p, 'r) Syncher \<Rightarrow> bool" where
  "WasAnyOperationErroneous synch =
     (if CniResults synch = [] then False else wasAnyErroneous (CniResults synch))"

fun error_lines :: "('i, 'p, 'r) cniOpResult list \<Rightarrow> string list" where
  "error_lines [] = []"
| "error_lines (cniRes # rest) =
     (case OpResult cniRes of
        None \<Rightarrow> error_lines rest
      | Some msg \<Rightarrow> (''CNI operation for network:'' @ CniName cniRes @ '' failed with:'' @ msg) # error_lines rest)"

fun join_lines :: "string list \<Rightarrow> string" where
  "join_lines [] = []"
| "join_lines [s] = s"
| "join_lines (s # t # ts) = s @ CHR 0x0A # join_lines (t # ts)"

definition mergeErrorMessages :: "('i, 'p, 'r) Syncher \<Rightarrow> error" where
  "mergeErrorMessages synch = Errorf (join_lines (error_lines (CniResults synch)))"

fun poll :: "nat \<Rightarrow> (nat \<Rightarrow> ('i, 'p, 'r) Syncher) \<Rightarrow> nat \<Rightarrow> unit res" where
  "poll 0 obs i = Err (Msg (''CNI operation timed-out after '' @
      itoa (int (MaximumAllowedTime * RetryInterval div 1000)) @ '' seconds''))"
| "poll (Suc k) obs i =
     (if ExpectedNumOfResults (obs i) > int (length (CniResults (obs i))) then poll k obs (Suc i)
      else if wasAnyErroneous (CniResults (obs i)) then Err (mergeErrorMessages (obs i))
      else Ok ())"

definition GetAggregatedResult :: "(nat \<Rightarrow> ('i, 'p, 'r) Syncher) \<Rightarrow> unit res" where
  "GetAggregatedResult obs = poll MaximumAllowedTime obs 0"

definition append_result :: "('i, 'p, 'r) cni_result \<Rightarrow> ('i, 'p, 'r) cni_result \<Rightarrow> ('i, 'p, 'r) cni_result" where
  "append_result agg r =
     \<lparr>Interfaces = Interfaces agg @ Interfaces r, IPs = IPs agg @ IPs r, CniRoutes = CniRoutes agg @ CniRoutes r\<rparr>"

fun merge_where ::
  "(string \<Rightarrow> bool) \<Rightarrow> ('i, 'p, 'r) cniOpResult list \<Rightarrow> ('i, 'p, 'r) cni_result \<Rightarrow> ('i, 'p, 'r) cni_result" where
  "merge_where P [] agg = agg"
| "merge_where P (cniRes # rest) agg =
     (case CniResult cniRes of
        None \<Rightarrow> merge_where P rest agg
      | Some r \<Rightarrow> merge_where P rest (if P (op_IfName cniRes) then append_result agg r else agg))"

definition MergeCniResults :: "('i, 'p, 'r) Syncher \<Rightarrow> ('i, 'p, 'r) cni_result" where
  "MergeCniResults synch =
     (let front = merge_where (\<lambda>n. n = DefaultIfName) (CniResults synch)
                    \<lparr>Interfaces = [], IPs = [], CniRoutes = []\<rparr>
      in merge_where (\<lambda>n. n \<noteq> DefaultIfName) (CniResults synch) front)"

section \<open>Lemmas\<close>

lemma wasAnyErroneous_iff: "wasAnyErroneous rs \<longleftrightarrow> (\<exists>r \<in> set rs. OpResult r \<noteq> None)"
  by (induction rs) auto

lemma poll_waits:
  "(\<And>j. i \<le> j \<Longrightarrow> j < i + d \<Longrightarrow> ExpectedNumOfResults (obs j) > int (length (CniResults (obs j)))) \<Longrightarrow>
   poll (d + k) obs i = poll k obs (i + d)"
proof (induction d arbitrary: i)
  case 0
  then show ?case by simp
next
  case (Suc d)
  have "poll (d + k) obs (Suc i) = poll k obs (Suc i + d)" using Suc by simp
  with Suc.prems [of i] show ?case by simp
qed

definition results_of :: "(string \<Rightarrow> bool) \<Rightarrow> ('i, 'p, 'r) cniOpResult list \<Rightarrow> ('i, 'p, 'r) cni_result list" where
  "results_of P rs = List.map_filter CniResult (filter (\<lambda>r. P (op_IfName r)) rs)"

lemma results_of_simps [simp]:
  "results_of P [] = []"
  "results_of P (r # rs) =
     (case CniResult r of None \<Rightarrow> results_of P rs
      | Some c \<Rightarrow> if P (op_IfName r) then c # results_of P rs else results_of P rs)"
  by (auto simp: results_of_def map_filter_simps split: option.splits)

lemma merge_where_eq:
  "merge_where P rs agg =
     \<lparr>Interfaces = Interfaces agg @ concat (map Interfaces (results_of P rs)),
      IPs = IPs agg @ concat (map IPs (results_of P rs)),
      CniRoutes = CniRoutes agg @ concat (map CniRoutes (results_of P rs))\<rparr>"
  by (induction rs arbitrary: agg) (auto simp: append_result_def split: option.splits)

lemma MergeCniResults_eq:
  "MergeCniResults synch =
     (let rs = results_of (\<lambda>n. n = DefaultIfName) (CniResults synch) @
               results_of (\<lambda>n. n \<noteq> DefaultIfName) (CniResults synch)
      in \<lparr>Interfaces = concat (map Interfaces rs), IPs = concat (map IPs rs),
          CniRoutes = concat (map CniRoutes rs)\<rparr>)"
  by (simp add: MergeCniResults_def merge_where_eq Let_def)

lemma results_of_split:
  "mset (results_of P rs) + mset (results_of (\<lambda>n. \<not> P n) rs) = mset (results_of (\<lambda>_. True) rs)"
  by (induction rs) (auto split: option.splits)

lemma mset_concat_map: "mset (concat (map f xs)) = (\<Sum>x \<in># mset xs. mset (f x))"
  by (induction xs) auto

section \<open>Properties\<close>

text \<open>
  The waiting loop answers with the results of the first poll that sees all expected ones:
  success when no plugin failed, otherwise one line for every failed plugin; if no poll within
  the 3000 of the time limit sees them, with the 30 second time-out.
\<close>

theorem aggregated_result:
  assumes "\<And>j. j < k \<Longrightarrow> ExpectedNumOfResults (obs j) > int (length (CniResults (obs j)))"
    and "k \<le> MaximumAllowedTime"
    and "k < MaximumAllowedTime \<Longrightarrow> ExpectedNumOfResults (obs k) \<le> int (length (CniResults (obs k)))"
  shows "GetAggregatedResult obs =
    (if k = MaximumAllowedTime then Err (Msg ''CNI operation timed-out after 30 seconds'')
     else if \<forall>r \<in> set (CniResults (obs k)). OpResult r = None then Ok ()
     else Err (Errorf (join_lines (error_lines (CniResults (obs k))))))"
proof -
  obtain m where m: "MaximumAllowedTime = k + m" using assms(2) le_Suc_ex by blast
  have "GetAggregatedResult obs = poll m obs k"
    using poll_waits [of 0 k obs m] assms(1) by (simp add: GetAggregatedResult_def m)
  moreover have "itoa 30 = ''30''" by code_simp
  ultimately show ?thesis
    using assms(3) m by (cases m)
      (auto simp: wasAnyErroneous_iff mergeErrorMessages_def MaximumAllowedTime_def RetryInterval_def)
qed

definition demo_results :: "(unit, nat, unit) cniOpResult list" where
  "demo_results =
     [\<lparr>CniName = ''sriov'', OpResult = None,
       CniResult = Some \<lparr>Interfaces = [()], IPs = [2], CniRoutes = []\<rparr>, op_IfName = ''ext0''\<rparr>,
      \<lparr>CniName = ''flannel'', OpResult = None,
       CniResult = Some \<lparr>Interfaces = [()], IPs = [1], CniRoutes = []\<rparr>, op_IfName = ''eth0''\<rparr>]"

theorem aggregated_result_witness:
  "GetAggregatedResult (\<lambda>i. \<lparr>ExpectedNumOfResults = 2, CniResults = take i demo_results\<rparr>) = Ok ()"
proof -
  let ?obs = "\<lambda>i. \<lparr>ExpectedNumOfResults = 2, CniResults = take i demo_results\<rparr> :: (unit, nat, unit) Syncher"
  have "length demo_results = 2" by (simp add: demo_results_def)
  then have "ExpectedNumOfResults (?obs j) > int (length (CniResults (?obs j)))" if "j < 2" for j
    using that by simp
  from aggregated_result [of 2 ?obs, OF this] show ?thesis
    by (simp add: MaximumAllowedTime_def demo_results_def)
qed

text \<open>
  The aggregated CNI result lists everything the plugins returned, each entry as often as
  they returned it, whatever the order of the pushes; and when the plugin of eth0 returned an
  address, the first address of the list, which the container runtime takes for the Pod's own,
  is one of eth0.
\<close>

theorem merged_result:
  fixes synch :: "('i, 'p, 'r) Syncher"
  shows "mset (IPs (MergeCniResults synch)) =
      (\<Sum>r \<in># mset (results_of (\<lambda>_. True) (CniResults synch)). mset (IPs r)) \<and>
    mset (Interfaces (MergeCniResults synch)) =
      (\<Sum>r \<in># mset (results_of (\<lambda>_. True) (CniResults synch)). mset (Interfaces r)) \<and>
    mset (CniRoutes (MergeCniResults synch)) =
      (\<Sum>r \<in># mset (results_of (\<lambda>_. True) (CniResults synch)). mset (CniRoutes r)) \<and>
    ((\<Union>r \<in> set (results_of (\<lambda>n. n = ''eth0'') (CniResults synch)). set (IPs r)) = {} \<or>
     hd (IPs (MergeCniResults synch)) \<in>
       (\<Union>r \<in> set (results_of (\<lambda>n. n = ''eth0'') (CniResults synch)). set (IPs r)))"
proof -
  let ?front = "results_of (\<lambda>n. n = DefaultIfName) (CniResults synch)"
  let ?rest = "results_of (\<lambda>n. n \<noteq> DefaultIfName) (CniResults synch)"
  have "hd (concat (map IPs ?front) @ concat (map IPs ?rest)) \<in> set (concat (map IPs ?front))"
    if "concat (map IPs ?front) \<noteq> []" using hd_in_set [OF that] by (simp only: hd_append2 [OF that])
  then have front: "(\<Union>r \<in> set ?front. set (IPs r)) = {} \<or>
      hd (concat (map IPs ?front) @ concat (map IPs ?rest)) \<in> (\<Union>r \<in> set ?front. set (IPs r))"
    by fastforce
  have sums: "mset (concat (map g ?front)) + mset (concat (map g ?rest)) =
      (\<Sum>r \<in># mset (results_of (\<lambda>_. True) (CniResults synch)). mset (g r))"
    for g :: "('i, 'p, 'r) cni_result \<Rightarrow> 'x list"
    unfolding mset_concat_map by (simp add: results_of_split [of "\<lambda>n. n = DefaultIfName", symmetric])
  show ?thesis
    using front sums [of IPs] sums [of Interfaces] sums [of CniRoutes]
    by (simp add: MergeCniResults_eq Let_def DefaultIfName_def)
qed

end
