(* ===== verification/Cnidel.thy ===== *)
theory Cnidel
  imports Ipam NetControl Syncher
begin

text \<open>
  \<^verbatim>\<open>pkg/cnidel\<close>: which network types DANM delegates to other CNI plugins, when
  it takes over their address management, and the configuration it hands them. The execution of
  a plugin, the SR-IOV utilities and the file system are the record \<open>cni_env\<close>. A
  configuration is the struct the code passes to \<^verbatim>\<open>json.Marshal\<close>, or the text
  of a configuration file with the address section that replaces its own.
\<close>

section \<open>Decisions\<close>

definition IsDelegationRequired :: "DanmNet \<Rightarrow> bool" where
  "IsDelegationRequired netInfo =
     (let neType = to_lower (NetworkType (dn_Spec netInfo)) in
      if neType = ''ipvlan'' \<or> neType = [] then False else True)"

datatype native_cni = SriovCni | MacvlanCni

record CniBackendConfig =
  CNIVersion :: string
  ReadConfig :: native_cni
  IpamNeeded :: bool
  DeviceNeeded :: bool

definition SupportedNativeCnis :: "string \<Rightarrow> CniBackendConfig option" where
  "SupportedNativeCnis neType =
     (if neType = ''sriov'' then
        Some \<lparr>CNIVersion = ''0.3.1'', ReadConfig = SriovCni, IpamNeeded = True, DeviceNeeded = True\<rparr>
      else if neType = ''macvlan'' then
        Some \<lparr>CNIVersion = ''0.3.1'', ReadConfig = MacvlanCni, IpamNeeded = True, DeviceNeeded = False\<rparr>
      else None)"

definition IsDanmIpamNeededForDelegation :: "Interface \<Rightarrow> DanmNet \<Rightarrow> bool" where
  "IsDanmIpamNeededForDelegation iface netInfo =
     (case SupportedNativeCnis (to_lower (NetworkType (dn_Spec netInfo))) of
        Some cni \<Rightarrow> IpamNeeded cni
      | None \<Rightarrow>
          ifc_Ip iface = NoneAllocType \<or>
          ifc_Ip6 iface = NoneAllocType \<or>
          (ifc_Ip iface \<noteq> [] \<and> ifc_Ip iface \<noteq> NoneAllocType \<and> Cidr (opts netInfo) \<noteq> []) \<or>
          (ifc_Ip6 iface \<noteq> [] \<and> ifc_Ip6 iface \<noteq> NoneAllocType \<and> PoolCidr (Pool6 (opts netInfo)) \<noteq> []))"

definition IsDeviceNeeded :: "string \<Rightarrow> bool" where
  "IsDeviceNeeded cniType =
     (case SupportedNativeCnis (to_lower cniType) of Some cni \<Rightarrow> DeviceNeeded cni | None \<Rightarrow> False)"

section \<open>Configurations\<close>

definition ipamType :: string where "ipamType = ''fakeipam''"

definition getCniIpamConfig :: "string \<Rightarrow> string \<Rightarrow> IpamConfig" where
  "getCniIpamConfig ip4 ip6 =
     \<lparr>ipam_Type = ipamType,
      ipam_Ips =
        (if ip4 \<noteq> [] \<and> ip4 \<noteq> NoneAllocType then [\<lparr>IpCidr = ip4, ip_Version = 4\<rparr>] else []) @
        (if ip6 \<noteq> [] \<and> ip6 \<noteq> NoneAllocType then [\<lparr>IpCidr = ip6, ip_Version = 6\<rparr>] else [])\<rparr>"

record SriovNet =
  sr_CNIVersion :: string
  sr_Name :: string
  sr_Type :: string
  sr_Master :: string
  sr_Vlan :: int
  sr_DeviceID :: string
  sr_Ipam :: IpamConfig

record MacvlanNet =
  mv_CNIVersion :: string
  mv_Name :: string
  mv_Master :: string
  mv_Mode :: string
  mv_MTU :: int
  mv_Ipam :: IpamConfig

datatype cni_config =
    SriovConf SriovNet
  | MacvlanConf MacvlanNet
  | FileConf string "IpamConfig option"

datatype cni_ip = CniIp (cip_version: string) (cip_address: string)

text \<open>
  A CNI result lists interfaces (name and sandbox), addresses and opaque routes. Of a raw result
  the version and the typed form are read by the CNI library, as is the conversion of the latter.
\<close>

type_synonym current_result = "(string \<times> string, cni_ip, string) cni_result"

record 'w cni_env =
  GetPfName :: "string \<Rightarrow> string + string"
  ReadConfFile :: "string \<Rightarrow> 'w \<Rightarrow> string option"
  Getenv :: "string \<Rightarrow> string"
  LookupEnv :: "string \<Rightarrow> string option"
  FindInPath :: "string \<Rightarrow> string list \<Rightarrow> string + string"
  RawExec :: "string \<Rightarrow> cni_config \<Rightarrow> string list \<Rightarrow> 'w \<Rightarrow> (string + string) \<times> 'w"
  DecodeVersion :: "string \<Rightarrow> string option"
  NewResult :: "string \<Rightarrow> string \<Rightarrow> string option"
  NewResultFromResult :: "string \<Rightarrow> current_result option"
  RemoveFile :: "string \<Rightarrow> 'w \<Rightarrow> 'w"

definition empty_ipam :: IpamConfig where
  "empty_ipam = \<lparr>ipam_Type = [], ipam_Ips = []\<rparr>"

definition readCniConfigFile :: "'w cni_env \<Rightarrow> string \<Rightarrow> DanmNet \<Rightarrow> IpamConfig \<Rightarrow> 'w \<Rightarrow> cni_config res" where
  "readCniConfigFile env cniconfDir netInfo ipamOptions w =
     (let cniConfig = NetworkID (dn_Spec netInfo) in
      case ReadConfFile env (cniconfDir @ ''/'' @ cniConfig @ ''.conf'') w of
        None \<Rightarrow> Err (Msg (''Could not load CNI config file: '' @ cniConfig @ ''.conf for plugin:'' @
                 NetworkType (dn_Spec netInfo) @ '' from directory:'' @ cniconfDir))
      | Some rawConfig \<Rightarrow> Ok (FileConf rawConfig (if ipam_Ips ipamOptions \<noteq> [] then Some ipamOptions else None)))"

definition getSriovCniConfig :: "'w cni_env \<Rightarrow> DanmNet \<Rightarrow> IpamConfig \<Rightarrow> DanmEp \<Rightarrow> string \<Rightarrow> cni_config res" where
  "getSriovCniConfig env netInfo ipamOptions ep cniVersion =
     (let dev = if_DeviceID (ep_Iface (ep_Spec ep)) in
      case GetPfName env dev of
        Inl msg \<Rightarrow> Err (Msg (''failed to get the name of the sriov PF for device '' @ dev @ '' due to:'' @ msg))
      | Inr pfname \<Rightarrow> Ok (SriovConf
          \<lparr>sr_CNIVersion = cniVersion, sr_Name = NetworkID (dn_Spec netInfo), sr_Type = ''sriov'',
           sr_Master = pfname, sr_Vlan = Vlan (opts netInfo), sr_DeviceID = dev,
           sr_Ipam = (if ipam_Ips ipamOptions \<noteq> [] then ipamOptions else empty_ipam)\<rparr>))"

definition getMacvlanCniConfig :: "DanmNet \<Rightarrow> IpamConfig \<Rightarrow> string \<Rightarrow> cni_config res" where
  "getMacvlanCniConfig netInfo ipamOptions cniVersion =
     Ok (MacvlanConf
       \<lparr>mv_CNIVersion = cniVersion, mv_Name = NetworkID (dn_Spec netInfo),
        mv_Master = DetermineHostDeviceName netInfo, mv_Mode = ''bridge'', mv_MTU = 1500,
        mv_Ipam = (if ipam_Ips ipamOptions \<noteq> [] then ipamOptions else empty_ipam)\<rparr>)"

definition getCniPluginConfig ::
  "'w cni_env \<Rightarrow> string \<Rightarrow> DanmNet \<Rightarrow> IpamConfig \<Rightarrow> DanmEp \<Rightarrow> 'w \<Rightarrow> cni_config res" where
  "getCniPluginConfig env confDir netInfo ipamOptions ep w =
     (case SupportedNativeCnis (to_lower (NetworkType (dn_Spec netInfo))) of
        Some cni \<Rightarrow> (case ReadConfig cni of
            SriovCni \<Rightarrow> getSriovCniConfig env netInfo ipamOptions ep (CNIVersion cni)
          | MacvlanCni \<Rightarrow> getMacvlanCniConfig netInfo ipamOptions (CNIVersion cni))
      | None \<Rightarrow> readCniConfigFile env confDir netInfo ipamOptions w)"

section \<open>Executing a plugin\<close>

definition CniAddOp :: string where "CniAddOp = ''ADD''"
definition CniDelOp :: string where "CniDelOp = ''DEL''"

definition GetEnv :: "'w cni_env \<Rightarrow> string \<Rightarrow> string \<Rightarrow> string" where
  "GetEnv env key fallback = (case LookupEnv env key of Some v \<Rightarrow> v | None \<Rightarrow> fallback)"

definition flannelBridge :: "'w cni_env \<Rightarrow> string" where
  "flannelBridge env = GetEnv env ''FLANNEL_BRIDGE'' ''cbr0''"

text \<open>\<^verbatim>\<open>filepath.SplitList\<close>: an empty list has no elements.\<close>

definition split_list :: "string \<Rightarrow> string list" where
  "split_list path = (if path = [] then [] else split_on (CHR '':'') path)"

definition getExecCniParams :: "'w cni_env \<Rightarrow> string \<Rightarrow> string \<Rightarrow> DanmEp \<Rightarrow> string + string \<times> string list" where
  "getExecCniParams env cniType cniOpType ep =
     (case FindInPath env cniType (split_list (Getenv env ''CNI_PATH'')) of
        Inl err \<Rightarrow> Inl err
      | Inr cniPath \<Rightarrow>
          Inr (cniPath,
            [''CNI_COMMAND='' @ cniOpType,
             ''CNI_CONTAINERID='' @ Getenv env ''CNI_CONTAINERID'',
             ''CNI_NETNS='' @ Getenv env ''CNI_NETNS'',
             ''CNI_IFNAME='' @ if_Name (ep_Iface (ep_Spec ep)),
             ''CNI_ARGS='' @ Getenv env ''CNI_ARGS'',
             ''CNI_PATH='' @ Getenv env ''CNI_PATH'',
             ''PATH='' @ Getenv env ''PATH'']))"

definition convertCniResult :: "'w cni_env \<Rightarrow> string \<Rightarrow> current_result option" where
  "convertCniResult env rawCniResult = NewResultFromResult env rawCniResult"

definition empty_result :: current_result where
  "empty_result = \<lparr>Interfaces = [], IPs = [], CniRoutes = []\<rparr>"

definition execCniPlugin ::
  "'w cni_env \<Rightarrow> string \<Rightarrow> string \<Rightarrow> cni_config \<Rightarrow> DanmEp \<Rightarrow> 'w \<Rightarrow> (string + current_result option) \<times> 'w" where
  "execCniPlugin env cniType cniOpType rawConfig ep w =
     (case getExecCniParams env cniType cniOpType ep of
        Inl err \<Rightarrow> (Inl (''exec CNI params couldn't be gathered:'' @ err), w)
      | Inr (cniPath, cniArgs) \<Rightarrow>
          (case RawExec env cniPath rawConfig cniArgs w of
             (Inl err, w') \<Rightarrow> (Inl (''OS exec call failed:'' @ err), w')
           | (Inr rawResult, w') \<Rightarrow>
               (case DecodeVersion env rawResult of
                  None \<Rightarrow> (Inr (Some empty_result), w')
                | Some confVersion \<Rightarrow>
                    (if rawResult = [] then (Inr (Some empty_result), w')
                     else (case NewResult env confVersion rawResult of
                       None \<Rightarrow> (Inr (Some empty_result), w')
                     | Some converted \<Rightarrow> (Inr (convertCniResult env converted), w'))))))"

section \<open>Delegated operations\<close>

fun setEpIfaceAddress :: "cni_ip list \<Rightarrow> DanmEpIface \<Rightarrow> DanmEpIface" where
  "setEpIfaceAddress [] epIface = epIface"
| "setEpIfaceAddress (ip # ips) epIface =
     setEpIfaceAddress ips
       (if cip_version ip = ''4'' then epIface\<lparr>if_Address := cip_address ip\<rparr>
        else epIface\<lparr>if_AddressIPv6 := cip_address ip\<rparr>)"

text \<open>The endpoint is changed in place: it is part of the result.\<close>

definition DelegateInterfaceSetup ::
  "'w cni_env \<Rightarrow> string \<Rightarrow> bool \<Rightarrow> DanmNet \<Rightarrow> DanmEp \<Rightarrow> ('w, current_result option \<times> DanmEp) st" where
  "DelegateInterfaceSetup env confDir wasIpReservedByDanmIpam netInfo ep w =
     (let ipamOptions = (if wasIpReservedByDanmIpam
            then getCniIpamConfig (if_Address (ep_Iface (ep_Spec ep))) (if_AddressIPv6 (ep_Iface (ep_Spec ep)))
            else empty_ipam);
          cniType = NetworkType (dn_Spec netInfo)
      in case getCniPluginConfig env confDir netInfo ipamOptions ep w of
           Ok rawConfig \<Rightarrow>
             (case execCniPlugin env cniType CniAddOp rawConfig ep w of
                (Inl msg, w') \<Rightarrow> (Err (Msg (''Error delegating ADD to CNI plugin:'' @ cniType @ '' because:'' @ msg)), w')
              | (Inr None, w') \<Rightarrow> (Ok (None, ep), w')
              | (Inr (Some cniResult), w') \<Rightarrow>
                  (Ok (Some cniResult,
                     ep\<lparr>ep_Spec := (ep_Spec ep)\<lparr>ep_Iface := setEpIfaceAddress (IPs cniResult) (ep_Iface (ep_Spec ep))\<rparr>\<rparr>), w'))
         | Err e \<Rightarrow> (Err e, w)
         | Panic \<Rightarrow> (Panic, w)
         | Hang \<Rightarrow> (Hang, w))"

definition defaultDataDir :: string where "defaultDataDir = ''/var/lib/cni/networks''"

definition flannelIpExhaustionWorkaround :: "'w cni_env \<Rightarrow> string \<Rightarrow> 'w \<Rightarrow> 'w" where
  "flannelIpExhaustionWorkaround env ip w =
     RemoveFile env (defaultDataDir @ ''/'' @ flannelBridge env @ ''/'' @ ip) w"

definition freeDelegatedIp :: "'w cni_env \<Rightarrow> DanmNet \<Rightarrow> string \<Rightarrow> 'w \<Rightarrow> 'w" where
  "freeDelegatedIp env netInfo ip w =
     (if NetworkType (dn_Spec netInfo) = ''flannel'' \<and> ip \<noteq> [] \<and> ip \<noteq> NoneAllocType
      then flannelIpExhaustionWorkaround env ip w else w)"

definition FreeDelegatedIps :: "'w cni_env \<Rightarrow> DanmNet \<Rightarrow> string \<Rightarrow> string \<Rightarrow> ('w, unit) st" where
  "FreeDelegatedIps env netInfo ip4 ip6 w = (Ok (), freeDelegatedIp env netInfo ip6 (freeDelegatedIp env netInfo ip4 w))"

definition DelegateInterfaceDelete :: "'w cni_env \<Rightarrow> string \<Rightarrow> DanmNet \<Rightarrow> DanmEp \<Rightarrow> ('w, unit) st" where
  "DelegateInterfaceDelete env confDir netInfo ep w =
     (let addr4 = if_Address (ep_Iface (ep_Spec ep)); addr6 = if_AddressIPv6 (ep_Iface (ep_Spec ep));
          ip4 = (if WasIpAllocatedByDanm addr4 (Cidr (opts netInfo)) then addr4 else []);
          ip6 = (if WasIpAllocatedByDanm addr6 (Net6 (opts netInfo)) then addr6 else []);
          cniType = NetworkType (dn_Spec netInfo)
      in case getCniPluginConfig env confDir netInfo (getCniIpamConfig ip4 ip6) ep w of
           Ok rawConfig \<Rightarrow>
             (case execCniPlugin env cniType CniDelOp rawConfig ep w of
                (Inl msg, w') \<Rightarrow>
                  (Err (Msg (''Error delegating DEL to CNI plugin:'' @ cniType @ '' because:'' @ msg)),
                   snd (FreeDelegatedIps env netInfo addr4 addr6 w'))
              | (Inr _, w') \<Rightarrow> FreeDelegatedIps env netInfo addr4 addr6 w')
         | Err e \<Rightarrow> (Err e, snd (FreeDelegatedIps env netInfo addr4 addr6 w))
         | Panic \<Rightarrow> (Panic, w)
         | Hang \<Rightarrow> (Hang, w))"

section \<open>Lemmas\<close>

lemma native_needs_delegation:
  "SupportedNativeCnis (to_lower (NetworkType (dn_Spec n))) \<noteq> None \<Longrightarrow> IsDelegationRequired n"
  by (auto simp: SupportedNativeCnis_def IsDelegationRequired_def Let_def split: if_splits)

lemma ipam_ips_cases:
  "ipam_Ips (getCniIpamConfig ip4 ip6) = [] \<longleftrightarrow> ip4 \<in> {[], NoneAllocType} \<and> ip6 \<in> {[], NoneAllocType}"
  by (auto simp: getCniIpamConfig_def)

end
