(* ===== verification/Admit.thy ===== *)
theory Admit
  imports IpamInit Confman DanmEps Cnidel
begin

text \<open>
  \<^verbatim>\<open>pkg/admit\<close>: the admission webhook. The validators of
  \<^verbatim>\<open>validators.go\<close>, which also initialise the allocation pools of the manifest
  they judge; the mutation of tenant networks; the JSON patches that carry the changes back to
  the API server; and the three HTTP handlers. The record \<open>admit_env\<close> holds what the
  webhook uses and does not contain: the API client, go-cidr, the VNI range parser, the random
  number generator, and the JSON codecs.
\<close>

section \<open>Requests, responses and the environment\<close>

definition Op_Create :: string where "Op_Create = ''CREATE''"
definition Op_Update :: string where "Op_Update = ''UPDATE''"

lemmas op_defs = Op_Create_def Op_Update_def

record AdmissionRequest =
  req_UID :: string
  req_Operation :: string
  req_OldObject :: "string option"
  req_Object :: "string option"

record AdmissionResponse =
  rs_UID :: string
  rs_Allowed :: bool
  rs_Message :: "string option"
  rs_Patch :: "string option"

datatype patch_value = PString string | PInt int | PPool IpPool | PPool6 IpPoolV6 | PRaw string

record Patch =
  patch_Op :: string
  patch_Path :: string
  patch_Value :: patch_value

text \<open>
  The body of a request is nil, or cannot be read, or a payload. Deserialising a payload gives
  an error, if any, and the request of the review as far as it was filled.
\<close>

datatype http_body = NilBody | UnreadableBody string | Payload string

record 'w admit_env =
  adm_client :: "'w DanmClient"
  adm_cidr :: go_cidr
  adm_cpuset :: cpuset_parser
  adm_Intn :: "nat \<Rightarrow> 'w \<Rightarrow> nat"
  adm_deserialize :: "string \<Rightarrow> string option \<times> AdmissionRequest option"
  adm_decode_net :: "string \<Rightarrow> string + DanmNet"
  adm_decode_conf :: "string \<Rightarrow> string + TenantConfig"
  adm_marshal :: "Patch list \<Rightarrow> string + string"

section \<open>Validators\<close>

definition MaxNidLength :: nat where "MaxNidLength = 10"
definition MaxAllowedVni :: int where "MaxAllowedVni = 5000"

definition IsTypeDynamic :: "string \<Rightarrow> bool" where
  "IsTypeDynamic cniType =
     (let neType = to_lower cniType in
      if SupportedNativeCnis neType \<noteq> None \<or> neType = [] \<or> neType = ''ipvlan'' then True else False)"

fun check_gateways :: "string \<Rightarrow> ipnet \<Rightarrow> gomap \<Rightarrow> unit res" where
  "check_gateways cidr ipnet [] = Ok ()"
| "check_gateways cidr ipnet ((dst, gw) # routes) =
     (if \<not> Contains ipnet (ParseIP gw)
      then Err (Msg (''Specified GW address:'' @ gw @ '' is not part of CIDR:'' @ cidr))
      else check_gateways cidr ipnet routes)"

definition validateIpFields :: "string \<Rightarrow> gomap option \<Rightarrow> unit res" where
  "validateIpFields cidr routes =
     (if cidr = [] then
        (if routes \<noteq> None then Err (Msg ''IP routes cannot be defined for a L2 network'') else Ok ())
      else (case parse_net cidr of
        None \<Rightarrow> Err (Msg (''Invalid CIDR: '' @ cidr))
      | Some ipnet \<Rightarrow> check_gateways cidr ipnet (case routes of None \<Rightarrow> [] | Some m \<Rightarrow> m)))"

definition validateIpv4Fields :: "DanmNet \<Rightarrow> unit res" where
  "validateIpv4Fields newManifest = validateIpFields (Cidr (opts newManifest)) (Routes (opts newManifest))"

definition validateIpv6Fields :: "DanmNet \<Rightarrow> unit res" where
  "validateIpv6Fields newManifest = validateIpFields (Net6 (opts newManifest)) (Routes6 (opts newManifest))"

definition pool_order_error :: "string \<Rightarrow> string \<Rightarrow> error" where
  "pool_order_error s e =
     Msg (''Allocation pool start:'' @ s @ '' is bigger than or equal to allocation pool end:'' @ e)"

text \<open>The manifest is changed in place; the result is the changed manifest.\<close>

definition validateAllocV4 :: "go_cidr \<Rightarrow> DanmNet \<Rightarrow> DanmNet res" where
  "validateAllocV4 gc newManifest =
     (let oo = opts newManifest; cidrV4 = Cidr oo; p = Pool oo in
      if cidrV4 = [] then
        (if Start p \<noteq> [] \<or> End p \<noteq> []
         then Err (Msg ''V4 Allocation pool cannot be defined without CIDR!'') else Ok newManifest)
      else (case parse_net cidrV4 of
        None \<Rightarrow> Panic
      | Some ipnet \<Rightarrow>
          if To4 (net_IP ipnet) = [] then Err (Msg ''Options.CIDR is not a valid V4 subnet!'')
          else if mask_size (net_Mask ipnet) < MaxV4MaskLength
          then Err (Msg (''Netmask of the IPv4 CIDR is bigger than the maximum allowed /'' @ itoa (int MaxV4MaskLength)))
          else bind_res (InitAllocPool gc cidrV4 (Start p) (End p) (Alloc oo) (Routes oo)) (\<lambda>(s, e, a).
            (if \<not> Contains ipnet (ParseIP s) \<or> \<not> Contains ipnet (ParseIP e)
             then Err (Msg ''Allocation pool is outside of defined CIDR!'')
             else bind_res (Ip2int (ParseIP e)) (\<lambda>endInt.
                  bind_res (Ip2int (ParseIP s)) (\<lambda>startInt.
                    if endInt \<le> startInt then Err (pool_order_error s e)
                    else Ok (set_opts (\<lambda>o'. o'\<lparr>Pool := p\<lparr>Start := s, End := e\<rparr>, Alloc := a\<rparr>) newManifest)))))))"

definition storage_error :: error where
  "storage_error = Msg (''The defined IPv6 allocation pool exceeds the maximum - 8M-size(IPv4 allocation pool)'' @
     '' - storage capacity!'')"

definition validateAllocV6 :: "go_cidr \<Rightarrow> DanmNet \<Rightarrow> DanmNet res" where
  "validateAllocV6 gc newManifest =
     (let net6 = Net6 (opts newManifest); p6 = Pool6 (opts newManifest) in
      if net6 = [] then
        (if Start p6 \<noteq> [] \<or> End p6 \<noteq> [] \<or> PoolCidr p6 \<noteq> []
         then Err (Msg ''IPv6 allocation pool cannot be defined without Net6!'') else Ok newManifest)
      else (case parse_net net6 of
        None \<Rightarrow> Panic
      | Some netCidr \<Rightarrow>
          if To4 (net_IP netCidr) \<noteq> [] then Err (Msg ''spec.Options.Net6 is not a valid V6 subnet!'')
          else bind_res (GetMaxUsableV6Prefix gc newManifest) (\<lambda>maxV6AllocPrefix.
               bind_res (InitV6PoolCidr gc newManifest) (\<lambda>m.
               (let q = Pool6 (opts m) in
                case parse_net (PoolCidr q) of
                  None \<Rightarrow> Err (Msg ''spec.Options.Pool6.CIDR is invalid!'')
                | Some allocCidr \<Rightarrow>
                    if To4 (net_IP allocCidr) \<noteq> []
                    then Err (Msg ''spec.Options.Allocation_Pool_V6.Cidr is not a valid V6 subnet!'')
                    else if mask_size (net_Mask allocCidr) < maxV6AllocPrefix \<or>
                            mask_size (net_Mask allocCidr) = MinV6PrefixLength
                    then Err storage_error
                    else if (Start q \<noteq> [] \<and> \<not> Contains allocCidr (ParseIP (Start q))) \<or>
                            (End q \<noteq> [] \<and> \<not> Contains allocCidr (ParseIP (End q))) \<or>
                            \<not> DoV6CidrsIntersect gc netCidr allocCidr
                    then Err (Msg ''IPv6 allocation pool is outside of the defined IPv6 subnet!'')
                    else bind_res (InitAllocPool gc (PoolCidr q) (Start q) (End q) (Alloc6 (opts m)) (Routes6 (opts m)))
                      (\<lambda>(s, e, a).
                        if Ip62int (ParseIP e) \<le> Ip62int (ParseIP s) then Err (pool_order_error s e)
                        else Ok (set_opts (\<lambda>o'. o'\<lparr>Pool6 := q\<lparr>Start := s, End := e\<rparr>, Alloc6 := a\<rparr>) m)))))))"

definition validateAllocationPools :: "go_cidr \<Rightarrow> DanmNet \<Rightarrow> string \<Rightarrow> DanmNet res" where
  "validateAllocationPools gc newManifest opType =
     (if opType = Op_Create \<and> (Alloc (opts newManifest) \<noteq> [] \<or> Alloc6 (opts newManifest) \<noteq> [])
      then Err (Msg ''Allocation bitmasks shall not be manually defined upon creation!'')
      else bind_res (validateAllocV4 gc newManifest) (validateAllocV6 gc))"

definition validateVids :: "DanmNet \<Rightarrow> unit res" where
  "validateVids newManifest =
     (let isVlanDefined = (Vlan (opts newManifest) \<noteq> 0); isVxlanDefined = (Vxlan (opts newManifest) \<noteq> 0) in
      if isVlanDefined \<and> isVxlanDefined
      then Err (Msg ''VLAN ID and VxLAN ID parameters are mutually exclusive'') else Ok ())"

definition nid_too_long :: error where
  "nid_too_long = Msg (''Spec.NetworkID cannot be longer than '' @ itoa (int MaxNidLength) @
     '' characters (otherwise VLAN and VxLAN host interface creation might fail)!'')"

definition nid_missing :: error where
  "nid_missing = Msg ''Spec.NetworkID mandatory parameter is missing!''"

definition validateNetworkId :: "DanmNet \<Rightarrow> unit res" where
  "validateNetworkId newManifest =
     (let spec = dn_Spec newManifest in
      if NetworkID spec = [] then Err nid_missing
      else if length (NetworkID spec) > MaxNidLength \<and> IsTypeDynamic (NetworkType spec) \<and>
              (Vxlan (Options spec) \<noteq> 0 \<or> Vlan (Options spec) \<noteq> 0)
      then Err nid_too_long
      else Ok ())"

definition validateAbsenceOfAllowedTenants :: "DanmNet \<Rightarrow> unit res" where
  "validateAbsenceOfAllowedTenants newManifest =
     (if AllowedTenants (dn_Spec newManifest) \<noteq> None
      then Err (Msg ''AllowedTenants attribute is only valid for the ClusterNetwork API!'') else Ok ())"

definition validateTenantNetRules :: "DanmNet \<Rightarrow> DanmNet \<Rightarrow> string \<Rightarrow> unit res" where
  "validateTenantNetRules oldManifest newManifest opType =
     (let old = opts oldManifest; new = opts newManifest in
      if opType = Op_Create \<and> (Vxlan new \<noteq> 0 \<or> Vlan new \<noteq> 0)
      then Err (Msg (''Manually configuring Spec.Options.vlan, or Spec.Options.vxlan'' @
                     '' attributes is not allowed for TenantNetworks!''))
      else if opType = Op_Update \<and>
        (Device new \<noteq> Device old \<or> DevicePool new \<noteq> DevicePool old \<or> Vxlan new \<noteq> Vxlan old \<or> Vlan new \<noteq> Vlan old)
      then Err (Msg (''Manually changing any one of Spec.Options. host_device, device_pool, vlan,'' @
                     '' or vxlan attributes is not allowed for TenantNetworks!''))
      else Ok ())"

definition validateNeType :: "DanmNet \<Rightarrow> unit res" where
  "validateNeType newManifest =
     (let oo = opts newManifest in
      if NetworkType (dn_Spec newManifest) = ''sriov'' then
        (if DevicePool oo = [] \<or> Device oo \<noteq> []
         then Err (Msg (''Spec.Options.device_pool must, and Spec.Options.host_device'' @
                        '' cannot be provided for SR-IOV networks!'')) else Ok ())
      else if Device oo \<noteq> [] \<and> DevicePool oo \<noteq> []
      then Err (Msg ''Spec.Options.device_pool and Spec.Options.host_device cannot be provided together!'')
      else Ok ())"

definition vni_changed :: "DanmNetOption \<Rightarrow> DanmNetOption \<Rightarrow> bool" where
  "vni_changed old new \<longleftrightarrow>
     (Vlan old \<noteq> 0 \<and> (Vlan old \<noteq> Vlan new \<or> Device old \<noteq> Device new)) \<or>
     (Vxlan old \<noteq> 0 \<and> (Vxlan old \<noteq> Vxlan new \<or> Device old \<noteq> Device new))"

definition validateVniChange ::
  "'w DanmClient \<Rightarrow> DanmNet \<Rightarrow> DanmNet \<Rightarrow> string \<Rightarrow> ('w, unit) st" where
  "validateVniChange client oldManifest newManifest opType w =
     (if opType \<noteq> Op_Update then (Ok (), w)
      else (case ArePodsConnectedToNetwork client oldManifest w of
        (Err e, w') \<Rightarrow> (Err (Msg (''no way to tell if Pods are still using the network due to:'' @ error_text e)), w')
      | (Ok None, w') \<Rightarrow> (Ok (), w')
      | (Ok (Some ep), w') \<Rightarrow>
          (if vni_changed (opts oldManifest) (opts newManifest)
           then Err (Msg (''cannot change VNI/host_device of a network which having any Pods connected to it e.g. Pod:'' @
                          ep_Pod (ep_Spec ep) @ '' in namespace:'' @ mt_Namespace (ep_Meta ep)))
           else Ok (), w')
      | (Panic, w') \<Rightarrow> (Panic, w')
      | (Hang, w') \<Rightarrow> (Hang, w')))"

section \<open>Validation by kind\<close>

type_synonym 'w ValidatorFunc = "DanmNet \<Rightarrow> DanmNet \<Rightarrow> string \<Rightarrow> ('w, DanmNet) st"

definition checks :: "(DanmNet \<Rightarrow> unit res) \<Rightarrow> 'w ValidatorFunc" where
  "checks f oldManifest newManifest opType w = (bind_res (f newManifest) (\<lambda>_. Ok newManifest), w)"

definition pools_validator :: "'w admit_env \<Rightarrow> 'w ValidatorFunc" where
  "pools_validator env oldManifest newManifest opType w =
     (validateAllocationPools (adm_cidr env) newManifest opType, w)"

definition tenant_validator :: "'w ValidatorFunc" where
  "tenant_validator oldManifest newManifest opType w =
     (bind_res (validateTenantNetRules oldManifest newManifest opType) (\<lambda>_. Ok newManifest), w)"

definition vni_validator :: "'w admit_env \<Rightarrow> 'w ValidatorFunc" where
  "vni_validator env oldManifest newManifest opType =
     bind_st (validateVniChange (adm_client env) oldManifest newManifest opType) (\<lambda>_. return_st (Ok newManifest))"

definition DanmNetMapping :: "'w admit_env \<Rightarrow> 'w ValidatorFunc list" where
  "DanmNetMapping env =
     [checks validateIpv4Fields, checks validateIpv6Fields, pools_validator env, checks validateVids,
      checks validateNetworkId, checks validateAbsenceOfAllowedTenants, checks validateNeType, vni_validator env]"

definition ClusterNetMapping :: "'w admit_env \<Rightarrow> 'w ValidatorFunc list" where
  "ClusterNetMapping env =
     [checks validateIpv4Fields, checks validateIpv6Fields, pools_validator env, checks validateVids,
      checks validateNetworkId, checks validateNeType, vni_validator env]"

definition TenantNetMapping :: "'w admit_env \<Rightarrow> 'w ValidatorFunc list" where
  "TenantNetMapping env =
     [checks validateIpv4Fields, checks validateIpv6Fields, pools_validator env,
      checks validateAbsenceOfAllowedTenants, tenant_validator, checks validateNeType]"

definition danmValidationConfig :: "'w admit_env \<Rightarrow> string \<Rightarrow> 'w ValidatorFunc list option" where
  "danmValidationConfig env kind =
     (if kind = ''DanmNet'' then Some (DanmNetMapping env)
      else if kind = ''ClusterNetwork'' then Some (ClusterNetMapping env)
      else if kind = ''TenantNetwork'' then Some (TenantNetMapping env)
      else None)"

fun run_validators :: "'w ValidatorFunc list \<Rightarrow> DanmNet \<Rightarrow> DanmNet \<Rightarrow> string \<Rightarrow> ('w, DanmNet) st" where
  "run_validators [] oldManifest newManifest opType = return_st (Ok newManifest)"
| "run_validators (v # vs) oldManifest newManifest opType =
     bind_st (v oldManifest newManifest opType) (\<lambda>m. run_validators vs oldManifest m opType)"

definition kind_not_handled :: "string \<Rightarrow> error" where
  "kind_not_handled kind = Msg (''K8s API type:'' @ kind @ '' is not handled by DANM webhook'')"

definition validateNetworkByType :: "'w admit_env \<Rightarrow> DanmNet \<Rightarrow> DanmNet \<Rightarrow> string \<Rightarrow> ('w, DanmNet) st" where
  "validateNetworkByType env oldManifest newManifest opType =
     (case danmValidationConfig env (dn_Kind newManifest) of
        None \<Rightarrow> return_st (Err (kind_not_handled (dn_Kind newManifest)))
      | Some validatorMapping \<Rightarrow> run_validators validatorMapping oldManifest newManifest opType)"

end
