(* ===== verification/AdmitFlow.thy ===== *)
theory AdmitFlow
  imports Admit
begin

text \<open>
  The second half of \<^verbatim>\<open>pkg/admit\<close>: the details a TenantNetwork receives from the
  TenantConfig (\<^verbatim>\<open>netadmit.go\<close>), the checks and the initialisation of
  TenantConfigs (\<^verbatim>\<open>confadmit.go\<close>), the patches, and the handlers of the
  webhook's three endpoints, from the HTTP body to the admission response.
\<close>

section \<open>Mutating networks\<close>

definition attachNetworkToIfaceProfile ::
  "'w admit_env \<Rightarrow> DanmNet \<Rightarrow> TenantConfig \<Rightarrow> IfaceProfile \<Rightarrow> ('w, DanmNet) st" where
  "attachNetworkToIfaceProfile env tnet tconf iface w =
     (let t1 = (if Device (opts tnet) = [] \<and> DevicePool (opts tnet) = []
                then set_opts (\<lambda>oo. oo\<lparr>Device := prof_Name iface\<rparr>) tnet else tnet) in
      if (VniType iface = ''vlan'' \<and> Vlan (opts t1) = 0) \<or> (VniType iface = ''vxlan'' \<and> Vxlan (opts t1) = 0) then
        (case vni_Reserve (adm_cpuset env) (adm_client env) tconf iface w of
           (Ok vni, w') \<Rightarrow>
             (if VniType iface = ''vlan'' then Ok (set_opts (\<lambda>oo. oo\<lparr>Vlan := vni\<rparr>) t1)
              else Ok (set_opts (\<lambda>oo. oo\<lparr>Vxlan := vni\<rparr>) t1), w')
         | (Err e, w') \<Rightarrow>
             (Err (Msg (''cannot reserve VNI for interface:'' @ prof_Name iface @ '' , because:'' @ error_text e)), w')
         | (Panic, w') \<Rightarrow> (Panic, w')
         | (Hang, w') \<Rightarrow> (Hang, w'))
      else (Ok t1, w))"

text \<open>
  The loop over the interface profiles: the profile of the requested physical interface, or the
  profiles of real NICs met so far.
\<close>

fun matching_profile ::
  "DanmNetOption \<Rightarrow> IfaceProfile list \<Rightarrow> IfaceProfile list \<Rightarrow> IfaceProfile + IfaceProfile list" where
  "matching_profile oo [] pfProfiles = Inr pfProfiles"
| "matching_profile oo (iface # ifaces) pfProfiles =
     (if DevicePool oo \<noteq> [] \<and> DevicePool oo = prof_Name iface then Inl iface
      else if Device oo = prof_Name iface \<and> \<not> contains (prof_Name iface) ''/'' then Inl iface
      else matching_profile oo ifaces
             (if \<not> contains (prof_Name iface) ''/'' then pfProfiles @ [iface] else pfProfiles))"

definition allocateDetailsForDynamicBackends :: "'w admit_env \<Rightarrow> DanmNet \<Rightarrow> TenantConfig \<Rightarrow> ('w, DanmNet) st" where
  "allocateDetailsForDynamicBackends env tnet tconf w =
     (case matching_profile (opts tnet) (HostDevices tconf) [] of
        Inl iface \<Rightarrow> attachNetworkToIfaceProfile env tnet tconf iface w
      | Inr pfProfiles \<Rightarrow>
          if DevicePool (opts tnet) \<noteq> [] \<or> Device (opts tnet) \<noteq> []
          then (Err (Msg ''The provided physical interface is not allowed to be used by tenants!''), w)
          else if pfProfiles = []
          then (Err (Msg ''There are no suitable interface profiles configured for TenantNetworks!''), w)
          else (let i = adm_Intn env (length pfProfiles) w in
                if i < length pfProfiles then attachNetworkToIfaceProfile env tnet tconf (pfProfiles ! i) w
                else (Panic, w)))"

fun mapped_network_id :: "gomap \<Rightarrow> DanmNet \<Rightarrow> DanmNet" where
  "mapped_network_id [] tnet = tnet"
| "mapped_network_id ((nType, nId) # networkIds) tnet =
     (if equal_fold nType (NetworkType (dn_Spec tnet)) then tnet\<lparr>dn_Spec := (dn_Spec tnet)\<lparr>NetworkID := nId\<rparr>\<rparr>
      else mapped_network_id networkIds tnet)"

definition addTenantSpecificDetails :: "'w admit_env \<Rightarrow> DanmNet \<Rightarrow> ('w, DanmNet) st" where
  "addTenantSpecificDetails env tnet =
     bind_st (GetTenantConfig (adm_client env)) (\<lambda>tconf.
     bind_st (if IsTypeDynamic (NetworkType (dn_Spec tnet)) then allocateDetailsForDynamicBackends env tnet tconf
              else return_st (Ok tnet)) (\<lambda>tnet'.
       return_st (Ok (mapped_network_id (NetworkIds tconf) tnet'))))"

definition mutateNetManifest :: "'w admit_env \<Rightarrow> DanmNet \<Rightarrow> ('w, DanmNet) st" where
  "mutateNetManifest env dnet =
     (let d = (if NetworkType (dn_Spec dnet) = []
               then dnet\<lparr>dn_Spec := (dn_Spec dnet)\<lparr>NetworkType := ''ipvlan''\<rparr>\<rparr> else dnet) in
      if dn_Kind d = ''TenantNetwork'' then addTenantSpecificDetails env d else return_st (Ok d))"

definition postValidateManifest :: "DanmNet \<Rightarrow> unit res" where
  "postValidateManifest dnet = validateNetworkId dnet"

section \<open>Patches\<close>

definition NetworkPatchPaths :: "string \<Rightarrow> string" where
  "NetworkPatchPaths field =
     (if field = ''NetworkType'' then ''/spec/NetworkType''
      else if field = ''NetworkID'' then ''/spec/NetworkID''
      else if field = ''Alloc'' then ''/spec/Options/alloc''
      else if field = ''Alloc6'' then ''/spec/Options/alloc6''
      else if field = ''Pool'' then ''/spec/Options/allocation_pool''
      else if field = ''Pool6'' then ''/spec/Options/allocation_pool_v6''
      else if field = ''Device'' then ''/spec/Options/host_device''
      else if field = ''Vlan'' then ''/spec/Options/vlan''
      else if field = ''Vxlan'' then ''/spec/Options/vxlan''
      else [])"

definition CreateGenericPatchFromChange :: "string \<Rightarrow> patch_value \<Rightarrow> Patch" where
  "CreateGenericPatchFromChange path value = \<lparr>patch_Op = ''replace'', patch_Path = path, patch_Value = value\<rparr>"

definition patch_if :: "bool \<Rightarrow> string \<Rightarrow> patch_value \<Rightarrow> Patch list" where
  "patch_if changed field value =
     (if changed then [CreateGenericPatchFromChange (NetworkPatchPaths field) value] else [])"

definition createPatchListFromNetChanges :: "DanmNet \<Rightarrow> DanmNet \<Rightarrow> Patch list" where
  "createPatchListFromNetChanges origNetwork changedNetwork =
     (let so = dn_Spec origNetwork; sc = dn_Spec changedNetwork; oo = Options so; oc = Options sc in
      patch_if (Alloc oo \<noteq> Alloc oc) ''Alloc'' (PString (Alloc oc)) @
      patch_if (Alloc6 oo \<noteq> Alloc6 oc) ''Alloc6'' (PString (Alloc6 oc)) @
      patch_if (NetworkType so \<noteq> NetworkType sc) ''NetworkType'' (PString (NetworkType sc)) @
      patch_if (NetworkID so \<noteq> NetworkID sc) ''NetworkID'' (PString (NetworkID sc)) @
      patch_if (Pool oo \<noteq> Pool oc) ''Pool'' (PPool (Pool oc)) @
      patch_if (Pool6 oo \<noteq> Pool6 oc) ''Pool6'' (PPool6 (Pool6 oc)) @
      patch_if (Device oo \<noteq> Device oc) ''Device'' (PString (Device oc)) @
      patch_if (Vlan oo \<noteq> Vlan oc) ''Vlan'' (PInt (Vlan oc)) @
      patch_if (Vxlan oo \<noteq> Vxlan oc) ''Vxlan'' (PInt (Vxlan oc)))"

section \<open>TenantConfigs\<close>

definition HostDevicePath :: string where "HostDevicePath = ''/hostDevices''"

definition validateIfaceConfig :: "cpuset_parser \<Rightarrow> IfaceProfile \<Rightarrow> string \<Rightarrow> unit res" where
  "validateIfaceConfig parse ifaceConf opType =
     (let name = prof_Name ifaceConf; vniType = VniType ifaceConf; range = VniRange ifaceConf in
      if name = [] then Err (Msg ''name attribute of a hostDevice must not be empty!'')
      else if (vniType = [] \<and> range \<noteq> []) \<or> (range = [] \<and> vniType \<noteq> [])
      then Err (Msg (''vniRange and vniType attributes must be provided together for interface:'' @ name))
      else if vniType \<noteq> [] \<and> vniType \<noteq> ''vlan'' \<and> vniType \<noteq> ''vxlan''
      then Err (Msg (vniType @ '' is not in allowed vniType values: {vlan,vxlan} for interface:'' @ name))
      else if opType = Op_Create \<and> prof_Alloc ifaceConf \<noteq> []
      then Err (Msg (''Allocation bitmask for interface: '' @ name @ '' shall not be manually defined upon creation!''))
      else (case parse range of
        Inl msg \<Rightarrow> Err (Msg (''vniRange for interface:'' @ name @
                    '' must be improperly formatted because its parsing fails with:'' @ msg))
      | Inr vniSet \<Rightarrow>
          if length (filter (\<lambda>vni. vni > MaxAllowedVni) vniSet) > 0
          then Err (Msg (''vniRange for interface:'' @ name @
                 '' is invalid, because it cannot contain VNIs over the maximum supported number that is:'' @
                 itoa MaxAllowedVni))
          else Ok ()))"

fun validate_ifaces :: "cpuset_parser \<Rightarrow> string \<Rightarrow> IfaceProfile list \<Rightarrow> unit res" where
  "validate_ifaces parse opType [] = Ok ()"
| "validate_ifaces parse opType (ifaceConf # rest) =
     bind_res (validateIfaceConfig parse ifaceConf opType) (\<lambda>_. validate_ifaces parse opType rest)"

fun validate_network_ids :: "gomap \<Rightarrow> unit res" where
  "validate_network_ids [] = Ok ()"
| "validate_network_ids ((nType, nId) # rest) =
     (if nType = [] \<or> nId = []
      then Err (Msg ''neither NetworkID, nor NetworkType can be empty in a NetworkID mapping!'')
      else if length nId > MaxNidLength \<and> IsTypeDynamic nType
      then Err (Msg (''NetworkID:'' @ nId @ '' cannot be longer than '' @ itoa (int MaxNidLength) @
             '' characters (otherwise VLAN and VxLAN host interface creation might fail)!''))
      else validate_network_ids rest)"

definition validateTenantconfig :: "cpuset_parser \<Rightarrow> TenantConfig \<Rightarrow> string \<Rightarrow> unit res" where
  "validateTenantconfig parse newManifest opType =
     (if HostDevices newManifest = [] \<and> NetworkIds newManifest = []
      then Err (Msg ''Either hostDevices, or networkIds must be provided!'')
      else bind_res (validate_ifaces parse opType (HostDevices newManifest))
             (\<lambda>_. validate_network_ids (NetworkIds newManifest)))"

definition validateConfig :: "cpuset_parser \<Rightarrow> TenantConfig \<Rightarrow> string \<Rightarrow> unit res" where
  "validateConfig parse newManifest opType =
     (if tc_Kind newManifest \<noteq> ''TenantConfig'' then Err (kind_not_handled (tc_Kind newManifest))
      else validateTenantconfig parse newManifest opType)"

text \<open>An array for every virtual profile that has none; a nil array would make \<open>Encode\<close> panic.\<close>

fun init_profiles :: "IfaceProfile list \<Rightarrow> IfaceProfile list res" where
  "init_profiles [] = Ok []"
| "init_profiles (ifaceConf # rest) =
     bind_res (if prof_Alloc ifaceConf \<noteq> [] \<or> VniType ifaceConf = [] then Ok ifaceConf
               else (case NewBitArray (word_of_int (MaxAllowedVni + 1)) of
                       Ok bitArray \<Rightarrow> Ok (ifaceConf\<lparr>prof_Alloc := Encode bitArray\<rparr>)
                     | _ \<Rightarrow> Panic)) (\<lambda>p.
     bind_res (init_profiles rest) (\<lambda>ps. Ok (p # ps)))"

definition mutateConfigManifest :: "TenantConfig \<Rightarrow> TenantConfig res" where
  "mutateConfigManifest tconf =
     bind_res (init_profiles (HostDevices tconf)) (\<lambda>ps. Ok (tconf\<lparr>HostDevices := ps\<rparr>))"

fun profiles_json :: "IfaceProfile list \<Rightarrow> string" where
  "profiles_json [] = []"
| "profiles_json (p # ps) =
     ''{\"name\":\"'' @ prof_Name p @ ''\",\"vniType\":\"'' @ VniType p @ ''\",\"vniRange\":\"'' @ VniRange p @
     ''\",\"alloc\":\"'' @ prof_Alloc p @ ''\"}'' @ (if ps = [] then [] else CHR '','' # profiles_json ps)"

definition createPatchListFromConfigChanges :: "TenantConfig \<Rightarrow> TenantConfig \<Rightarrow> Patch list" where
  "createPatchListFromConfigChanges origConfig changedConfig =
     (if HostDevices origConfig \<noteq> HostDevices changedConfig \<and> HostDevices origConfig \<noteq> [] \<and>
         HostDevices changedConfig \<noteq> []
      then [CreateGenericPatchFromChange HostDevicePath
              (PRaw (''['' @ profiles_json (HostDevices changedConfig) @ '']''))]
      else [])"

section \<open>The handlers\<close>

definition DecodeAdmissionReview :: "'w admit_env \<Rightarrow> http_body \<Rightarrow> string option \<times> AdmissionRequest option" where
  "DecodeAdmissionReview env body =
     (case body of
        NilBody \<Rightarrow> (Some ''Received review request is empty!'', None)
      | UnreadableBody msg \<Rightarrow> (Some msg, None)
      | Payload payload \<Rightarrow> adm_deserialize env payload)"

definition SendErroneousAdmissionResponse :: "AdmissionRequest option \<Rightarrow> string \<Rightarrow> AdmissionResponse" where
  "SendErroneousAdmissionResponse request msg =
     \<lparr>rs_UID = (case request of None \<Rightarrow> [] | Some r \<Rightarrow> req_UID r), rs_Allowed = False,
      rs_Message = Some msg, rs_Patch = None\<rparr>"

definition CreateReviewResponseFromPatches :: "'w admit_env \<Rightarrow> Patch list \<Rightarrow> AdmissionResponse" where
  "CreateReviewResponseFromPatches env patchList =
     (case (if patchList = [] then Inr [] else adm_marshal env patchList) of
        Inl msg \<Rightarrow> \<lparr>rs_UID = [], rs_Allowed = False,
          rs_Message = Some (''List of patches could not be encoded, because:'' @ msg), rs_Patch = None\<rparr>
      | Inr patches \<Rightarrow> \<lparr>rs_UID = [], rs_Allowed = True, rs_Message = None,
          rs_Patch = (if patches = [] then None else Some patches)\<rparr>)"

definition getNetworkManifest :: "'w admit_env \<Rightarrow> string option \<Rightarrow> DanmNet res" where
  "getNetworkManifest env objectToReview =
     (case objectToReview of
        None \<Rightarrow> Ok empty_net
      | Some raw \<Rightarrow>
          (case adm_decode_net env raw of
             Inl msg \<Rightarrow> Err (Msg (''ERROR: unknown fields are not allowed:'' @ msg))
           | Inr n \<Rightarrow> Ok n))"

text \<open>What a handler does between decoding the manifests and answering.\<close>

definition review_network :: "'w admit_env \<Rightarrow> string \<Rightarrow> DanmNet \<Rightarrow> DanmNet \<Rightarrow> ('w, DanmNet \<times> Patch list) st" where
  "review_network env operation oldManifest origNewManifest =
     bind_st (validateNetworkByType env oldManifest origNewManifest operation) (\<lambda>m1.
     bind_st (mutateNetManifest env m1) (\<lambda>m2.
     bind_st (return_st (postValidateManifest m2)) (\<lambda>_.
       return_st (Ok (m2, createPatchListFromNetChanges origNewManifest m2)))))"

text \<open>The answer to a request, given the outcome of its review.\<close>

definition respond ::
  "'w admit_env \<Rightarrow> AdmissionRequest \<Rightarrow> Patch list res \<times> 'w \<Rightarrow> AdmissionResponse res \<times> 'w" where
  "respond env request outcome =
     (case outcome of
        (Ok patches, w') \<Rightarrow> (Ok ((CreateReviewResponseFromPatches env patches)\<lparr>rs_UID := req_UID request\<rparr>), w')
      | (Err e, w') \<Rightarrow> (Ok (SendErroneousAdmissionResponse (Some request) (error_text e)), w')
      | (Panic, w') \<Rightarrow> (Panic, w')
      | (Hang, w') \<Rightarrow> (Hang, w'))"

text \<open>A review without a request makes the handler dereference nil.\<close>

definition with_request ::
  "'w admit_env \<Rightarrow> http_body \<Rightarrow> (AdmissionRequest \<Rightarrow> ('w, Patch list) st) \<Rightarrow> ('w, AdmissionResponse) st" where
  "with_request env body review w =
     (case DecodeAdmissionReview env body of
        (Some msg, request) \<Rightarrow> (Ok (SendErroneousAdmissionResponse request msg), w)
      | (None, None) \<Rightarrow> (Panic, w)
      | (None, Some request) \<Rightarrow> respond env request (review request w))"

definition ValidateNetwork :: "'w admit_env \<Rightarrow> http_body \<Rightarrow> ('w, AdmissionResponse) st" where
  "ValidateNetwork env body =
     with_request env body (\<lambda>request.
       bind_st (return_st (getNetworkManifest env (req_OldObject request))) (\<lambda>oldManifest.
       bind_st (return_st (getNetworkManifest env (req_Object request))) (\<lambda>newManifest.
       bind_st (review_network env (req_Operation request) oldManifest newManifest) (\<lambda>(m, patches).
         return_st (Ok patches)))))"

definition empty_tconf :: TenantConfig where
  "empty_tconf = \<lparr>tc_Kind = [], tc_Meta = empty_meta, HostDevices = [], NetworkIds = []\<rparr>"

definition decodeTenantConfig :: "'w admit_env \<Rightarrow> string option \<Rightarrow> TenantConfig res" where
  "decodeTenantConfig env objectToReview =
     (case objectToReview of
        None \<Rightarrow> Ok empty_tconf
      | Some raw \<Rightarrow>
          (case adm_decode_conf env raw of
             Inl msg \<Rightarrow> Err (Msg (''ERROR: unknown fields are not allowed:'' @ msg))
           | Inr c \<Rightarrow> Ok c))"

definition ValidateTenantConfig :: "'w admit_env \<Rightarrow> http_body \<Rightarrow> ('w, AdmissionResponse) st" where
  "ValidateTenantConfig env body =
     with_request env body (\<lambda>request. return_st (
       bind_res (decodeTenantConfig env (req_OldObject request)) (\<lambda>oldManifest.
       bind_res (decodeTenantConfig env (req_Object request)) (\<lambda>newManifest.
       bind_res (validateConfig (adm_cpuset env) newManifest (req_Operation request)) (\<lambda>_.
       bind_res (mutateConfigManifest newManifest) (\<lambda>changed.
         Ok (createPatchListFromConfigChanges newManifest changed)))))))"

text \<open>Freeing the VNI of a network about to be deleted; every error gets the same prefix.\<close>

definition free_tenant_vni :: "'w DanmClient \<Rightarrow> DanmNet \<Rightarrow> ('w, unit) st" where
  "free_tenant_vni client oldManifest w =
     (case bind_st (GetTenantConfig client) (\<lambda>tconf. vni_Free client tconf oldManifest) w of
        (Err e, w') \<Rightarrow> (Err (Msg (''The network's VNI could not be freed, because:'' @ error_text e)), w')
      | r \<Rightarrow> r)"

definition deletion_error :: "DanmEp \<Rightarrow> error" where
  "deletion_error ep = Msg (''Network cannot be deleted because there are Pods still connected to it e.g. Pod:'' @
     ep_Pod (ep_Spec ep) @ '' in namespace:'' @ mt_Namespace (ep_Meta ep))"

definition review_deletion :: "'w DanmClient \<Rightarrow> DanmNet \<Rightarrow> ('w, unit) st" where
  "review_deletion client oldManifest w =
     (case ArePodsConnectedToNetwork client oldManifest w of
        (Ok None, w') \<Rightarrow>
          (if dn_Kind oldManifest = ''TenantNetwork'' \<and> IsTypeDynamic (NetworkType (dn_Spec oldManifest))
           then free_tenant_vni client oldManifest w' else (Ok (), w'))
      | (Ok (Some ep), w') \<Rightarrow> (Err (deletion_error ep), w')
      | (Err e, w') \<Rightarrow> (Err (Msg (''Network cannot be deleted because there is no way to tell if Pods are'' @
                             '' still using it due to:'' @ error_text e)), w')
      | (Panic, w') \<Rightarrow> (Panic, w')
      | (Hang, w') \<Rightarrow> (Hang, w'))"

definition DeleteNetwork :: "'w admit_env \<Rightarrow> http_body \<Rightarrow> ('w, AdmissionResponse) st" where
  "DeleteNetwork env body =
     with_request env body (\<lambda>request.
       bind_st (return_st (getNetworkManifest env (req_OldObject request))) (\<lambda>oldManifest.
       bind_st (review_deletion (adm_client env) oldManifest) (\<lambda>_. return_st (Ok []))))"

end
