(* ===== verification/AdmitProps.thy ===== *)
theory AdmitProps
  imports AdmitFlow IpamProps
begin

text \<open>
  What an admission guarantees: the patches reproduce the manifest that was judged; an admitted
  IPv4 network starts in a state from which the allocator is safe; VNIs and physical parameters
  do not change under running Pods; an admitted TenantConfig has arrays for its whole VNI range.
  Two theorems show VNIs that are reserved and lost.
\<close>

section \<open>Sequencing\<close>

lemma run_validators_Cons:
  "run_validators (v # vs) old new opType w = (Ok m, w') \<longleftrightarrow>
   (\<exists>m1 w1. v old new opType w = (Ok m1, w1) \<and> run_validators vs old m1 opType w1 = (Ok m, w'))"
  by (auto simp: bind_st_def split: prod.splits res.splits)

lemma run_validators_Nil:
  "run_validators [] old new opType w = (Ok m, w') \<longleftrightarrow> m = new \<and> w' = w"
  by auto

lemma checks_Ok: "checks f old new opType w = (Ok m, w') \<longleftrightarrow> f new = Ok () \<and> m = new \<and> w' = w"
  by (auto simp: checks_def)

lemma tenant_validator_Ok:
  "tenant_validator old new opType w = (Ok m, w') \<longleftrightarrow> validateTenantNetRules old new opType = Ok () \<and> m = new \<and> w' = w"
  by (auto simp: tenant_validator_def)

lemma pools_validator_Ok:
  "pools_validator env old new opType w = (Ok m, w') \<longleftrightarrow>
   validateAllocationPools (adm_cidr env) new opType = Ok m \<and> w' = w"
  by (auto simp: pools_validator_def)

lemma vni_validator_Ok:
  "vni_validator env old new opType w = (Ok m, w') \<longleftrightarrow>
   validateVniChange (adm_client env) old new opType w = (Ok (), w') \<and> m = new"
  by (auto simp: vni_validator_def bind_st_def split: prod.splits res.splits)

lemmas validator_Ok = run_validators_Cons run_validators_Nil checks_Ok tenant_validator_Ok
  pools_validator_Ok vni_validator_Ok

lemmas mappings = DanmNetMapping_def ClusterNetMapping_def TenantNetMapping_def

text \<open>What every kind's validators check, whatever their order.\<close>

lemma validated_pools:
  assumes "validateNetworkByType env old new opType w = (Ok m, w')"
  shows "validateIpv4Fields new = Ok ()" "validateAllocationPools (adm_cidr env) new opType = Ok m"
  using assms
  by (auto simp del: run_validators.simps
      simp: validateNetworkByType_def danmValidationConfig_def mappings validator_Ok split: if_splits)

section \<open>Patches\<close>

text \<open>
  The patches as RFC 6902 reads them. A document is the members its author wrote: a path leads to
  a value or to no member. An operation on a member that has to exist fails without it, and a
  failed operation fails the patch; the operations on the webhook's side carry no \<open>from\<close>.
\<close>

type_synonym json_doc = "string \<rightharpoonup> patch_value"

definition apply_op :: "Patch \<Rightarrow> json_doc \<Rightarrow> json_doc option" where
  "apply_op p d =
     (if patch_Op p = ''add'' then Some (d(patch_Path p \<mapsto> patch_Value p))
      else if d (patch_Path p) = None then None
      else if patch_Op p = ''replace'' then Some (d(patch_Path p \<mapsto> patch_Value p))
      else if patch_Op p = ''remove'' then Some (d(patch_Path p := None))
      else if patch_Op p = ''test'' then (if d (patch_Path p) = Some (patch_Value p) then Some d else None)
      else None)"

fun apply_patches :: "Patch list \<Rightarrow> json_doc \<Rightarrow> json_doc option" where
  "apply_patches [] d = Some d"
| "apply_patches (p # ps) d = (case apply_op p d of None \<Rightarrow> None | Some d' \<Rightarrow> apply_patches ps d')"

text \<open>
  The members of a network that the webhook may patch, by the names of the struct's JSON tags,
  and the values that the decoder leaves where a document has no such member.
\<close>

definition net_member :: "DanmNet \<Rightarrow> json_doc" where
  "net_member n =
     [''/spec/NetworkType'' \<mapsto> PString (NetworkType (dn_Spec n)), ''/spec/NetworkID'' \<mapsto> PString (NetworkID (dn_Spec n)),
      ''/spec/Options/alloc'' \<mapsto> PString (Alloc (opts n)), ''/spec/Options/alloc6'' \<mapsto> PString (Alloc6 (opts n)),
      ''/spec/Options/allocation_pool'' \<mapsto> PPool (Pool (opts n)),
      ''/spec/Options/allocation_pool_v6'' \<mapsto> PPool6 (Pool6 (opts n)),
      ''/spec/Options/host_device'' \<mapsto> PString (Device (opts n)), ''/spec/Options/vlan'' \<mapsto> PInt (Vlan (opts n)),
      ''/spec/Options/vxlan'' \<mapsto> PInt (Vxlan (opts n))]"

definition decodes_to :: "json_doc \<Rightarrow> DanmNet \<Rightarrow> bool" where
  "decodes_to d n \<longleftrightarrow>
     (\<forall>path v. net_member n path = Some v \<longrightarrow> (case d path of Some x \<Rightarrow> x | None \<Rightarrow> the (net_member empty_net path)) = v)"

text \<open>The part of a network no patch can change.\<close>

definition net_core :: "DanmNet \<Rightarrow> DanmNet" where
  "net_core n = n\<lparr>dn_Spec := (dn_Spec n)\<lparr>NetworkType := [], NetworkID := [], Options := (opts n)
     \<lparr>Alloc := [], Alloc6 := [], Device := [], Vlan := 0, Vxlan := 0, Pool := Pool empty_options,
      Pool6 := Pool6 empty_options\<rparr>\<rparr>\<rparr>"

lemma net_core_set_opts:
  "net_core (set_opts (\<lambda>oo. oo\<lparr>Alloc := a\<rparr>) n) = net_core n"
  "net_core (set_opts (\<lambda>oo. oo\<lparr>Device := a\<rparr>) n) = net_core n"
  "net_core (set_opts (\<lambda>oo. oo\<lparr>Vlan := i\<rparr>) n) = net_core n"
  "net_core (set_opts (\<lambda>oo. oo\<lparr>Vxlan := i\<rparr>) n) = net_core n"
  "net_core (set_opts (\<lambda>oo. oo\<lparr>Pool := p, Alloc := a\<rparr>) n) = net_core n"
  "net_core (set_opts (\<lambda>oo. oo\<lparr>Pool6 := q, Alloc6 := a\<rparr>) n) = net_core n"
  "net_core (set_opts (\<lambda>oo. oo\<lparr>Pool6 := (Pool6 oo)\<lparr>PoolCidr := c\<rparr>\<rparr>) n) = net_core n"
  "net_core (n\<lparr>dn_Spec := (dn_Spec n)\<lparr>NetworkType := t\<rparr>\<rparr>) = net_core n"
  "net_core (n\<lparr>dn_Spec := (dn_Spec n)\<lparr>NetworkID := t\<rparr>\<rparr>) = net_core n"
  by (simp_all add: net_core_def set_opts_def)

text \<open>The patches of a network by path, old value and new value.\<close>

definition patched :: "DanmNet \<Rightarrow> DanmNet \<Rightarrow> string \<Rightarrow> Patch list" where
  "patched n m path =
     (if net_member n path \<noteq> net_member m path
      then [\<lparr>patch_Op = ''replace'', patch_Path = path, patch_Value = the (net_member m path)\<rparr>] else [])"

definition patch_order :: "string list" where
  "patch_order = [''/spec/Options/alloc'', ''/spec/Options/alloc6'', ''/spec/NetworkType'', ''/spec/NetworkID'',
     ''/spec/Options/allocation_pool'', ''/spec/Options/allocation_pool_v6'', ''/spec/Options/host_device'',
     ''/spec/Options/vlan'', ''/spec/Options/vxlan'']"

lemma patch_list: "createPatchListFromNetChanges n m = concat (map (patched n m) patch_order)"
  by (simp add: createPatchListFromNetChanges_def Let_def patch_if_def patched_def patch_order_def net_member_def
      CreateGenericPatchFromChange_def NetworkPatchPaths_def)

lemma patch_order_facts: "distinct patch_order" "set patch_order = dom (net_member n)"
  by (auto simp: patch_order_def net_member_def split: if_splits)

text \<open>Replacing members that exist, each once.\<close>

lemma apply_patched:
  assumes "\<And>path. path \<in> set paths \<Longrightarrow> net_member n path \<noteq> net_member m path \<Longrightarrow> path \<in> dom d"
    and "distinct paths" and "set paths \<subseteq> dom (net_member m)"
  shows "\<exists>d'. apply_patches (concat (map (patched n m) paths)) d = Some d' \<and>
    (\<forall>path. d' path = (if path \<in> set paths \<and> net_member n path \<noteq> net_member m path then net_member m path else d path))"
  using assms
proof (induction paths arbitrary: d)
  case (Cons path paths)
  show ?case
  proof (cases "net_member n path = net_member m path")
    case True
    with Cons.IH [of d] Cons.prems show ?thesis by (auto simp: patched_def)
  next
    case False
    obtain x where x: "d path = Some x" using Cons.prems(1) [of path] False by auto
    obtain v where v: "net_member m path = Some v" using Cons.prems(3) by auto
    obtain d' where d': "apply_patches (concat (map (patched n m) paths)) (d(path \<mapsto> v)) = Some d'"
      "\<forall>q. d' q = (if q \<in> set paths \<and> net_member n q \<noteq> net_member m q then net_member m q else (d(path \<mapsto> v)) q)"
      using Cons.IH [of "d(path \<mapsto> v)"] Cons.prems by fastforce
    have "apply_patches (concat (map (patched n m) (path # paths))) d = Some d'"
      using False d'(1) by (simp add: patched_def apply_op_def x v)
    moreover have "d' q = (if q \<in> set (path # paths) \<and> net_member n q \<noteq> net_member m q then net_member m q else d q)" for q
      using d'(2) False v Cons.prems(2) by auto
    ultimately show ?thesis by blast
  qed
qed simp

text \<open>A missing member fails the patch.\<close>

lemma replace_missing:
  assumes "p \<in> set ps" "d (patch_Path p) = None" and "\<And>q. q \<in> set ps \<Longrightarrow> patch_Op q = ''replace''"
  shows "apply_patches ps d = None"
  using assms
proof (induction ps arbitrary: d)
  case (Cons q ps)
  have q: "patch_Op q = ''replace''" using Cons.prems(3) by simp
  show ?case
  proof (cases "d (patch_Path q)")
    case None
    with q show ?thesis by (simp add: apply_op_def)
  next
    case (Some x)
    then have "p \<in> set ps" "patch_Path p \<noteq> patch_Path q" using Cons.prems(1,2) by auto
    then have "apply_patches ps (d(patch_Path q \<mapsto> patch_Value q)) = None"
      using Cons.prems(2,3) by (intro Cons.IH) auto
    with q Some show ?thesis by (simp add: apply_op_def)
  qed
qed simp

lemma core_eqD:
  assumes "net_core n = net_core m"
  shows "dn_Kind n = dn_Kind m" "dn_Meta n = dn_Meta m"
    "AllowedTenants (dn_Spec n) = AllowedTenants (dn_Spec m)" "DevicePool (opts n) = DevicePool (opts m)"
    "NicPrefix (opts n) = NicPrefix (opts m)" "Cidr (opts n) = Cidr (opts m)" "Routes (opts n) = Routes (opts m)"
    "Net6 (opts n) = Net6 (opts m)" "Routes6 (opts n) = Routes6 (opts m)" "RTables (opts n) = RTables (opts m)"
proof -
  let ?s = "\<lambda>x. dn_Spec (net_core x)"
  have eq: "?s n = ?s m" "opts (net_core n) = opts (net_core m)" using assms by simp_all
  show "dn_Kind n = dn_Kind m" using arg_cong [OF assms, of dn_Kind] by (simp add: net_core_def)
  show "dn_Meta n = dn_Meta m" using arg_cong [OF assms, of dn_Meta] by (simp add: net_core_def)
  show "AllowedTenants (dn_Spec n) = AllowedTenants (dn_Spec m)"
    using arg_cong [OF eq(1), of AllowedTenants] by (simp add: net_core_def)
  show "DevicePool (opts n) = DevicePool (opts m)" using arg_cong [OF eq(2), of DevicePool] by (simp add: net_core_def)
  show "NicPrefix (opts n) = NicPrefix (opts m)" using arg_cong [OF eq(2), of NicPrefix] by (simp add: net_core_def)
  show "Cidr (opts n) = Cidr (opts m)" using arg_cong [OF eq(2), of Cidr] by (simp add: net_core_def)
  show "Routes (opts n) = Routes (opts m)" using arg_cong [OF eq(2), of Routes] by (simp add: net_core_def)
  show "Net6 (opts n) = Net6 (opts m)" using arg_cong [OF eq(2), of Net6] by (simp add: net_core_def)
  show "Routes6 (opts n) = Routes6 (opts m)" using arg_cong [OF eq(2), of Routes6] by (simp add: net_core_def)
  show "RTables (opts n) = RTables (opts m)" using arg_cong [OF eq(2), of RTables] by (simp add: net_core_def)
qed

lemma patches_rebuild:
  assumes doc: "decodes_to d n"
  shows "if \<forall>p \<in> set (createPatchListFromNetChanges n m). patch_Path p \<in> dom d
    then \<exists>d'. apply_patches (createPatchListFromNetChanges n m) d = Some d' \<and> decodes_to d' m
    else apply_patches (createPatchListFromNetChanges n m) d = None"
proof (cases "\<forall>p \<in> set (createPatchListFromNetChanges n m). patch_Path p \<in> dom d")
  case True
  have dom: "path \<in> dom d" if "path \<in> set patch_order" "net_member n path \<noteq> net_member m path" for path
    using True that by (fastforce simp: patch_list patched_def)
  have "set patch_order \<subseteq> dom (net_member m)" by (simp only: patch_order_facts(2) [of m] subset_refl)
  from apply_patched [of patch_order n m d, OF dom patch_order_facts(1) this] obtain d' where
    d': "apply_patches (createPatchListFromNetChanges n m) d = Some d'"
      "\<forall>path. d' path = (if path \<in> set patch_order \<and> net_member n path \<noteq> net_member m path then net_member m path else d path)"
    unfolding patch_list by blast
  have "decodes_to d' m"
    unfolding decodes_to_def
  proof (intro allI impI)
    fix path v assume v: "net_member m path = Some v"
    then have "path \<in> set patch_order" using patch_order_facts(2) [of m] by auto
    with v d'(2) doc show "(case d' path of Some x \<Rightarrow> x | None \<Rightarrow> the (net_member empty_net path)) = v"
      by (cases "net_member n path = net_member m path") (auto simp: decodes_to_def)
  qed
  with True d'(1) show ?thesis by simp
next
  case False
  then obtain p where p: "p \<in> set (createPatchListFromNetChanges n m)" "d (patch_Path p) = None" by auto
  have "patch_Op q = ''replace''" if "q \<in> set (createPatchListFromNetChanges n m)" for q
    using that by (auto simp: patch_list patched_def split: if_splits)
  then have "apply_patches (createPatchListFromNetChanges n m) d = None"
    using replace_missing [of p "createPatchListFromNetChanges n m" d] p by blast
  with False show ?thesis by simp
qed

lemma validateAllocV4_core: "validateAllocV4 gc n = Ok m \<Longrightarrow> net_core m = net_core n"
  unfolding validateAllocV4_def Let_def
  by (erule ok_postD [rotated], intro ok_post_rules) (simp_all add: net_core_set_opts)

lemma InitV6PoolCidr_core: "InitV6PoolCidr gc n = Ok m \<Longrightarrow> net_core m = net_core n"
  unfolding InitV6PoolCidr_def Let_def
  by (erule ok_postD [rotated], intro ok_post_rules) (simp_all add: net_core_set_opts)

lemma validateAllocV6_core: "validateAllocV6 gc n = Ok m \<Longrightarrow> net_core m = net_core n"
  unfolding validateAllocV6_def Let_def
  by (erule ok_postD [rotated], intro ok_post_rules) (simp_all add: net_core_set_opts InitV6PoolCidr_core)

lemma validateAllocationPools_core:
  assumes "validateAllocationPools gc n opType = Ok m"
  shows "net_core m = net_core n"
proof -
  from assms obtain q where "validateAllocV4 gc n = Ok q" "validateAllocV6 gc q = Ok m"
    by (auto simp: validateAllocationPools_def split: if_splits)
  then show ?thesis using validateAllocV4_core validateAllocV6_core by metis
qed

lemma attach_core:
  "attachNetworkToIfaceProfile env tnet tconf iface w = (Ok m, w') \<Longrightarrow> net_core m = net_core tnet"
  by (auto simp: attachNetworkToIfaceProfile_def Let_def net_core_set_opts
      split: if_splits prod.splits res.splits)

lemma mapped_network_id_core: "net_core (mapped_network_id ids n) = net_core n"
  by (induction ids n rule: mapped_network_id.induct) (simp_all add: net_core_set_opts)

lemma allocateDetails_core:
  "allocateDetailsForDynamicBackends env tnet tconf w = (Ok m, w') \<Longrightarrow> net_core m = net_core tnet"
  by (auto simp: allocateDetailsForDynamicBackends_def Let_def attach_core split: if_splits sum.splits)

lemma mutate_core:
  assumes "mutateNetManifest env n w = (Ok m, w')"
  shows "net_core m = net_core n"
  using assms
  by (auto simp: mutateNetManifest_def addTenantSpecificDetails_def Let_def net_core_set_opts
      mapped_network_id_core elim!: bind_st_OkE dest!: allocateDetails_core split: if_splits)

text \<open>An admitted review, taken apart.\<close>

lemma review_networkE:
  assumes "review_network env opType old new w = (Ok (m, patches), w')"
  obtains m1 w1 where "validateNetworkByType env old new opType w = (Ok m1, w1)"
    and "mutateNetManifest env m1 w1 = (Ok m, w')" and "validateNetworkId m = Ok ()"
    and "patches = createPatchListFromNetChanges new m"
  using assms by (auto simp: review_network_def postValidateManifest_def elim!: bind_st_OkE)

section \<open>Properties\<close>


text \<open>Only the IPv4 validator touches the IPv4 pool and its array.\<close>

definition v4_state :: "DanmNet \<Rightarrow> IpPool \<times> string" where
  "v4_state n = (Pool (opts n), Alloc (opts n))"

lemma v4_state_set_opts:
  "v4_state (set_opts (\<lambda>oo. oo\<lparr>Device := a\<rparr>) n) = v4_state n"
  "v4_state (set_opts (\<lambda>oo. oo\<lparr>Vlan := i\<rparr>) n) = v4_state n"
  "v4_state (set_opts (\<lambda>oo. oo\<lparr>Vxlan := i\<rparr>) n) = v4_state n"
  "v4_state (set_opts (\<lambda>oo. oo\<lparr>Pool6 := q, Alloc6 := a\<rparr>) n) = v4_state n"
  "v4_state (set_opts (\<lambda>oo. oo\<lparr>Pool6 := (Pool6 oo)\<lparr>PoolCidr := c\<rparr>\<rparr>) n) = v4_state n"
  "v4_state (n\<lparr>dn_Spec := (dn_Spec n)\<lparr>NetworkType := t\<rparr>\<rparr>) = v4_state n"
  "v4_state (n\<lparr>dn_Spec := (dn_Spec n)\<lparr>NetworkID := t\<rparr>\<rparr>) = v4_state n"
  by (simp_all add: v4_state_def set_opts_def)

lemma InitV6PoolCidr_v4: "InitV6PoolCidr gc n = Ok m \<Longrightarrow> v4_state m = v4_state n"
  unfolding InitV6PoolCidr_def Let_def
  by (erule ok_postD [rotated], intro ok_post_rules) (simp_all add: v4_state_set_opts)

lemma validateAllocV6_v4: "validateAllocV6 gc n = Ok m \<Longrightarrow> v4_state m = v4_state n"
  unfolding validateAllocV6_def Let_def
  by (erule ok_postD [rotated], intro ok_post_rules) (simp_all add: v4_state_set_opts InitV6PoolCidr_v4)

lemma attach_v4:
  "attachNetworkToIfaceProfile env tnet tconf iface w = (Ok m, w') \<Longrightarrow> v4_state m = v4_state tnet"
  by (auto simp: attachNetworkToIfaceProfile_def Let_def v4_state_set_opts
      split: if_splits prod.splits res.splits)

lemma mapped_network_id_v4: "v4_state (mapped_network_id ids n) = v4_state n"
  by (induction ids n rule: mapped_network_id.induct) (simp_all add: v4_state_set_opts)

lemma allocateDetails_v4:
  "allocateDetailsForDynamicBackends env tnet tconf w = (Ok m, w') \<Longrightarrow> v4_state m = v4_state tnet"
  by (auto simp: allocateDetailsForDynamicBackends_def Let_def attach_v4 split: if_splits sum.splits)

lemma mutate_v4: "mutateNetManifest env n w = (Ok m, w') \<Longrightarrow> v4_state m = v4_state n"
  by (auto simp: mutateNetManifest_def addTenantSpecificDetails_def Let_def v4_state_set_opts
      mapped_network_id_v4 elim!: bind_st_OkE dest!: allocateDetails_v4 split: if_splits)

definition routes_of :: "gomap option \<Rightarrow> gomap" where
  "routes_of r = (case r of None \<Rightarrow> [] | Some m \<Rightarrow> m)"

lemma CreateAllocationArray_routes: "CreateAllocationArray n r = CreateAllocationArray n (Some (routes_of r))"
  by (cases r) (simp_all add: CreateAllocationArray_def routes_of_def)

lemma check_gateways_Ok:
  "check_gateways cidr n routes = Ok () \<longleftrightarrow> (\<forall>gw \<in> snd ` set routes. Contains n (ParseIP gw))"
  by (induction cidr n routes rule: check_gateways.induct) auto

lemma v4_prefix_size:
  assumes "v4_net n" and "9 \<le> mask_size (net_Mask n)"
  shows "net_size n \<le> 2 ^ 23"
proof -
  obtain p where p: "wf_net 4 p n" "net_size n = host_size 4 p" using assms(1) by (rule v4_netE)
  then have "32 - p \<le> 23" using assms(2) wf_net_mask_size [OF p(1)] by simp
  then have "(2 :: nat) ^ (32 - p) \<le> 2 ^ 23" by (rule power_increasing) simp
  with p show ?thesis by (simp add: host_size_def)
qed

text \<open>The positions of a pool whose ends lie in the subnet, in order.\<close>

lemma pool_positions:
  assumes n: "v4_net n" and s: "Contains n (ParseIP (Start pool))" and e: "Contains n (ParseIP (End pool))"
    and si: "Ip2int (ParseIP (Start pool)) = Ok x" and ei: "Ip2int (ParseIP (End pool)) = Ok y" and lt: "x < y"
  shows "\<exists>b k. GetIndexOfIp (ParseIP (Start pool)) (Some n) = Ok b \<and> GetIndexOfIp (ParseIP (End pool)) (Some n) = Ok k \<and>
    getAllocRangeBasedOnCidr pool (Some n) = Ok (b, k) \<and> b < k \<and> unat k < net_size n"
proof -
  let ?f = "\<lambda>a. be_nat (To4 a) - be_nat (net_IP n)"
  let ?s = "ParseIP (Start pool)" and ?e = "ParseIP (End pool)"
  have t: "To4 ?s \<noteq> []" "To4 ?e \<noteq> []" "be_nat (net_IP n) \<le> be_nat (To4 ?s)" "be_nat (net_IP n) \<le> be_nat (To4 ?e)"
    using s e v4_contains [OF n] by auto
  obtain p where p: "be_nat (net_IP n) + net_size n \<le> 2 ^ 32" using n by (rule v4_netE)
  have "be_nat (To4 ?s) < 2 ^ 32" "be_nat (To4 ?e) < 2 ^ 32" using s e v4_contains [OF n] p by fastforce+
  moreover have "x = word_of_nat (be_nat (To4 ?s))" "y = word_of_nat (be_nat (To4 ?e))"
    using si ei t by (simp_all add: Ip2int_To4)
  ultimately have xy: "be_nat (To4 ?s) < be_nat (To4 ?e)"
    using lt by (simp add: word_less_nat_alt unat_u32_of_nat)
  have u: "unat (word_of_nat (?f ?s) :: u32) = ?f ?s" "unat (word_of_nat (?f ?e) :: u32) = ?f ?e"
    using v4_index(3) [OF n s] v4_index(3) [OF n e] by (simp_all add: unat_u32_of_nat)
  have "getAllocRangeBasedOnCidr pool (Some n) = Ok (word_of_nat (?f ?s), word_of_nat (?f ?e))"
    by (rule range_is_index [OF n s e v4_index(1) [OF n s] v4_index(1) [OF n e]])
  moreover have "(word_of_nat (?f ?s) :: u32) < word_of_nat (?f ?e)"
    using u xy t by (simp add: word_less_nat_alt)
  moreover have "unat (word_of_nat (?f ?e) :: u32) < net_size n" using u v4_index(2) [OF n e] by simp
  ultimately show ?thesis using v4_index(1) [OF n s] v4_index(1) [OF n e] by blast
qed

lemma validateAllocV4_last: "validateAllocV4 gc n = Ok m \<Longrightarrow> LastIp (Pool (opts m)) = LastIp (Pool (opts n))"
  unfolding validateAllocV4_def Let_def by (erule ok_postD [rotated], intro ok_post_rules) simp_all

lemma validateAllocV4_ends:
  assumes ok: "validateAllocV4 gc n = Ok m" and c: "parse_net (Cidr (opts n)) = Some ipn" "length (net_IP ipn) = 4"
  shows "\<exists>b e. GetIndexOfIp (ParseIP (Start (Pool (opts m)))) (Some ipn) = Ok b \<and>
    GetIndexOfIp (ParseIP (End (Pool (opts m)))) (Some ipn) = Ok e \<and> b < e \<and> unat e < net_size ipn \<and> net_size ipn \<le> 2 ^ 23 \<and>
    getAllocRangeBasedOnCidr (Pool (opts m)) (Some ipn) = Ok (b, e)"
proof -
  have v4: "v4_net ipn" using c by (rule v4_net_parse)
  have ne: "Cidr (opts n) \<noteq> []" using c(1) by (auto simp: parse_net_def ParseCIDR_def)
  have "\<exists>x y. Contains ipn (ParseIP (Start (Pool (opts m)))) \<and> Contains ipn (ParseIP (End (Pool (opts m)))) \<and>
      Ip2int (ParseIP (Start (Pool (opts m)))) = Ok x \<and> Ip2int (ParseIP (End (Pool (opts m)))) = Ok y \<and> x < y"
    using ok ne c(1) by (auto simp: validateAllocV4_def Let_def not_le split: if_splits)
  then obtain x y where xy: "Contains ipn (ParseIP (Start (Pool (opts m))))" "Contains ipn (ParseIP (End (Pool (opts m))))"
    "Ip2int (ParseIP (Start (Pool (opts m)))) = Ok x" "Ip2int (ParseIP (End (Pool (opts m)))) = Ok y" "x < y" by blast
  have "\<not> mask_size (net_Mask ipn) < MaxV4MaskLength" using ok ne c(1)
    by (auto simp: validateAllocV4_def Let_def split: if_splits)
  then have "net_size ipn \<le> 2 ^ 23" by (intro v4_prefix_size [OF v4]) (simp add: MaxV4MaskLength_def)
  with pool_positions [OF v4 xy] show ?thesis by blast
qed

text \<open>A search that starts at the beginning of the pool finds no position before it.\<close>

lemma scan_lower:
  assumes "scan ba b b i e = Some (Ok (Some k))" and "b \<le> i" and "unat e + 1 < 2 ^ 32"
  shows "b \<le> k"
proof -
  have up: "j \<le> x \<Longrightarrow> unat x + 1 < 2 ^ 32 \<Longrightarrow> j \<le> j + 1 \<and> unat j + 1 < 2 ^ 32" for j x :: u32
  proof -
    assume "j \<le> x" "unat x + 1 < 2 ^ 32"
    then have "unat j + 1 < 2 ^ 32" by (simp add: word_le_nat_alt)
    then show ?thesis by (simp add: word_le_nat_alt unat_plus_1)
  qed
  have "\<forall>k. lst = b \<longrightarrow> b \<le> i \<longrightarrow> unat e + 1 < 2 ^ 32 \<longrightarrow> r = Ok (Some k) \<longrightarrow> b \<le> k"
    if "scan ba b lst i e = Some r" for ba b lst i e r
  proof (rule scan.raw_induct [where P = "\<lambda>ba b lst i e r.
      \<forall>k. lst = b \<longrightarrow> b \<le> i \<longrightarrow> unat e + 1 < 2 ^ 32 \<longrightarrow> r = Ok (Some k) \<longrightarrow> b \<le> k", OF _ that], goal_cases)
    case (1 scan ba b lst i e r)
    note rec = 1(1) and body = 1(2)
    show ?case
    proof (intro allI impI)
      fix k assume h: "lst = b" "b \<le> i" "unat e + 1 < 2 ^ 32" "r = Ok (Some k)"
      have "i \<le> e" using body h(4) by (cases "i \<le> e") auto
      then have "b \<le> e" using h(2) by simp
      show "b \<le> k"
      proof (cases "Get ba i")
        case (Ok taken)
        show ?thesis
        proof (cases taken)
          case False
          with body Ok h \<open>i \<le> e\<close> show ?thesis by auto
        next
          case taken: True
          show ?thesis
          proof (cases "i = e \<and> e \<noteq> lst")
            case True
            with body Ok taken \<open>i \<le> e\<close> have "scan ba b lst (b + 1) lst = Some r" by simp
            from rec [OF this] h up [OF \<open>b \<le> e\<close> h(3)] show ?thesis by simp
          next
            case False
            with body Ok taken \<open>i \<le> e\<close> have "scan ba b lst (i + 1) e = Some r" by (auto split: if_splits)
            moreover have "b \<le> i + 1" using order_trans [OF h(2)] up [OF \<open>i \<le> e\<close> h(3)] by blast
            ultimately show ?thesis using rec h by blast
          qed
        qed
      qed (use body h \<open>i \<le> e\<close> in auto)
    qed
  qed
  from this [OF assms(1)] assms(2,3) show ?thesis by blast
qed

text \<open>A pool whose last address is not readable is searched from its start to its end.\<close>

definition from_start :: "ipnet \<Rightarrow> u32 \<Rightarrow> u32 \<Rightarrow> IpPool \<Rightarrow> bool" where
  "from_start n b e pool \<longleftrightarrow> getAllocRangeBasedOnCidr pool (Some n) = Ok (b, e) \<and> ParseIP (LastIp pool) = []"

lemma range_LastIp: "getAllocRangeBasedOnCidr (pool\<lparr>LastIp := ip\<rparr>) n = getAllocRangeBasedOnCidr pool n"
  by (cases n) (simp_all add: getAllocRangeBasedOnCidr_def Let_def cong: if_cong)

lemma dynamic_in_pool:
  assumes c: "parse_net c = Some n" and n: "v4_net n" and pool: "from_start n b e pool"
    and e: "unat e < net_size n" "unat e + 1 < 2 ^ 32" and ok: "allocateAddress pool alloc DynamicAllocType c c = Ok (alloc', ip, pool')"
  shows "unat b \<le> pos_of n ip \<and> pos_of n ip \<le> unat e \<and> from_start n b e pool'"
proof -
  have net: "usable_net n" using n by (simp add: usable_net_def)
  have range: "getAllocRangeBasedOnCidr pool (Some n) = Ok (b, e)" and lst: "ParseIP (LastIp pool) = []"
    using pool by (auto simp: from_start_def)
  have l: "GetIndexOfIp (ParseIP (LastIp pool)) (Some n) = Ok 0" by (simp add: lst GetIndexOfIp_def)
  have start: "start_index 0 b e = b" by (simp add: start_index_def)
  have dyn: "allocateDynamic pool alloc (Some n) (Some n) = Ok (alloc', ip, pool')"
    using ok by (simp add: allocateAddress_def c alloc_type_defs split: if_splits)
  then obtain i where i: "scan (NewBitArrayFromBase64 alloc) b b b e = Some (Ok (Some i))"
    "getIpFromIndex i (Some n) (Some n) = Ok ip" "pool' = pool\<lparr>LastIp := ip\<rparr>"
    by (auto simp: allocateDynamic_eq [OF range l] start Let_def of_option_def split: option.splits)
  have "i \<le> e" using scan_sound [OF i(1)] by auto
  moreover from this have "unat i < net_size n" using e(1) by (simp add: word_le_nat_alt)
  from usable_at [OF net this] obtain a where a: "index_ip i n = Ok a" "Contains n a" "GetIndexOfIp a (Some n) = Ok i" by blast
  then have ip: "ip = address_text a n" using i(2) by (simp add: getIpFromIndex_def address_text_def)
  have len: "length a = 4" by (rule v4_index_ip_length [OF n a(1)])
  have "pos_of n ip = unat i"
    using address_text_position [OF net a(1,2), of n] a(3) by (simp add: ip pos_of_def)
  moreover have "b \<le> i" by (rule scan_lower [OF i(1) _ e(2)]) simp
  moreover have "from_start n b e pool'"
    using range i(3) ParseIP_address_text [OF len] ip
    by (simp add: from_start_def range_LastIp)
  ultimately show ?thesis by (simp add: word_le_nat_alt)
qed

lemma from_start_step:
  assumes c: "parse_net c = Some n" and n: "v4_net n" and e: "unat e < net_size n" "unat e + 1 < 2 ^ 32"
    and step: "ipam_step c s t" and pool: "from_start n b e (st_pool s)"
  shows "from_start n b e (st_pool t)"
  using step
proof cases
  case (take req alloc' ip pool')
  show ?thesis
  proof (cases "req = DynamicAllocType")
    case True
    with dynamic_in_pool [OF c n pool e] take show ?thesis by auto
  next
    case False
    with take have "allocateStatic (st_pool s) (st_alloc s) req c (Some n) (Some n) = Ok (alloc', ip, pool')"
      by (simp add: allocateAddress_def c split: if_splits)
    then have "pool' = st_pool s" by (auto simp: allocateStatic_def Let_def split: if_splits)
    with pool take(1) show ?thesis by simp
  qed
next
  case release
  with pool show ?thesis by simp
qed

lemma from_start_reachable:
  assumes "(ipam_step c)\<^sup>*\<^sup>* s t" and "parse_net c = Some n" "v4_net n" "unat e < net_size n" "unat e + 1 < 2 ^ 32"
    and "from_start n b e (st_pool s)"
  shows "from_start n b e (st_pool t)"
  using assms by (induction rule: rtranclp_induct) (auto intro: from_start_step)

lemma validateAllocV4_ready:
  assumes ok: "validateAllocV4 gc n = Ok m" and c: "parse_net (Cidr (opts n)) = Some ipn" "length (net_IP ipn) = 4"
    and gws: "validateIpv4Fields n = Ok ()" and alloc: "Alloc (opts n) = []"
  shows "\<exists>arr b e. Alloc (opts m) = Encode arr \<and>
    ba_bits arr = {0, net_size ipn - 1} \<union> gw_pos ipn ` snd ` set (routes_of (Routes (opts n))) \<and>
    getAllocRangeBasedOnCidr (Pool (opts m)) (Some ipn) = Ok (b, e) \<and> b < e \<and> unat e < net_size ipn"
proof -
  let ?c = "Cidr (opts n)" and ?routes = "routes_of (Routes (opts n))"
  have v4: "v4_net ipn" using c by (rule v4_net_parse)
  have ne: "?c \<noteq> []" using c(1) by (auto simp: parse_net_def ParseCIDR_def)
  have prefix: "\<not> mask_size (net_Mask ipn) < MaxV4MaskLength" using ok ne c(1)
    by (auto simp: validateAllocV4_def Let_def split: if_splits)
  then have size: "net_size ipn \<le> 2 ^ 23" by (intro v4_prefix_size [OF v4]) (simp add: MaxV4MaskLength_def)
  have "check_gateways ?c ipn ?routes = Ok ()"
    using gws ne c(1) by (simp add: validateIpv4Fields_def validateIpFields_def routes_of_def split: option.splits)
  then obtain arr where arr: "CreateAllocationArray (Some ipn) (Routes (opts n)) = Ok (Encode arr)"
    "ba_bits arr = {0, net_size ipn - 1} \<union> gw_pos ipn ` snd ` set ?routes"
    using gateways_reserved [of ipn ?routes] v4 size
    by (auto simp: usable_net_def check_gateways_Ok CreateAllocationArray_routes [of _ "Routes (opts n)"])
  let ?p = "Pool (opts n)"
  obtain s e where init: "InitAllocPool gc ?c (Start ?p) (End ?p) [] (Routes (opts n)) = Ok (s, e, Encode arr)"
    and s: "Contains ipn (ParseIP s)" and e: "Contains ipn (ParseIP e)"
    and m: "m = set_opts (\<lambda>o'. o'\<lparr>Pool := ?p\<lparr>Start := s, End := e\<rparr>, Alloc := Encode arr\<rparr>) n"
    and ints: "\<exists>x y. Ip2int (ParseIP s) = Ok x \<and> Ip2int (ParseIP e) = Ok y \<and> x < y"
  proof -
    have "To4 (net_IP ipn) \<noteq> []" using v4 c(2) by (auto elim: v4_netE)
    with ok ne c(1) alloc prefix have "bind_res (InitAllocPool gc ?c (Start ?p) (End ?p) [] (Routes (opts n))) (\<lambda>(s, e, a).
        (if \<not> Contains ipn (ParseIP s) \<or> \<not> Contains ipn (ParseIP e)
         then Err (Msg ''Allocation pool is outside of defined CIDR!'')
         else bind_res (Ip2int (ParseIP e)) (\<lambda>endInt. bind_res (Ip2int (ParseIP s)) (\<lambda>startInt.
           if endInt \<le> startInt then Err (pool_order_error s e)
           else Ok (set_opts (\<lambda>o'. o'\<lparr>Pool := ?p\<lparr>Start := s, End := e\<rparr>, Alloc := a\<rparr>) n))))) = Ok m"
      by (simp add: validateAllocV4_def Let_def del: bind_res_Ok_iff)
    then obtain s e a where r: "InitAllocPool gc ?c (Start ?p) (End ?p) [] (Routes (opts n)) = Ok (s, e, a)"
      and rest: "(if \<not> Contains ipn (ParseIP s) \<or> \<not> Contains ipn (ParseIP e)
         then Err (Msg ''Allocation pool is outside of defined CIDR!'')
         else bind_res (Ip2int (ParseIP e)) (\<lambda>endInt. bind_res (Ip2int (ParseIP s)) (\<lambda>startInt.
           if endInt \<le> startInt then Err (pool_order_error s e)
           else Ok (set_opts (\<lambda>o'. o'\<lparr>Pool := ?p\<lparr>Start := s, End := e\<rparr>, Alloc := a\<rparr>) n)))) = Ok m"
      by (rule bind_resE) (auto simp del: bind_res_Ok_iff split: prod.splits)
    have "a = Encode arr" using r ne c(1) arr(1) by (auto simp: InitAllocPool_def Let_def)
    moreover from rest obtain x y where "Contains ipn (ParseIP s)" "Contains ipn (ParseIP e)"
      "Ip2int (ParseIP e) = Ok y" "Ip2int (ParseIP s) = Ok x" "\<not> y \<le> x"
      "m = set_opts (\<lambda>o'. o'\<lparr>Pool := ?p\<lparr>Start := s, End := e\<rparr>, Alloc := a\<rparr>) n"
      by (auto split: if_splits)
    ultimately show thesis using that [of s e] r by (auto simp: not_le)
  qed
  obtain x y where xy: "Ip2int (ParseIP s) = Ok x" "Ip2int (ParseIP e) = Ok y" "x < y" using ints by blast
  have "Pool (opts m) = ?p\<lparr>Start := s, End := e\<rparr>" "Alloc (opts m) = Encode arr" using m by simp_all
  moreover from this(1) have "\<exists>b k. getAllocRangeBasedOnCidr (Pool (opts m)) (Some ipn) = Ok (b, k) \<and> b < k \<and> unat k < net_size ipn"
    using s e xy pool_positions [OF v4, of "Pool (opts m)" x y] by auto
  ultimately show ?thesis using arr(2) by blast
qed

lemma admitted_v4:
  assumes rev: "review_network env Op_Create old new w = (Ok (m, patches), w')"
    and c: "parse_net (Cidr (opts new)) = Some n" "length (net_IP n) = 4"
  shows "Cidr (opts m) = Cidr (opts new)"
    and "\<exists>arr. Alloc (opts m) = Encode arr \<and> pool_in_net (Pool (opts m)) n \<and>
      ba_bits arr = {0, net_size n - 1} \<union> gw_pos n ` snd ` set (routes_of (Routes (opts new)))"
    and "\<exists>b e. GetIndexOfIp (ParseIP (Start (Pool (opts m)))) (Some n) = Ok b \<and>
      GetIndexOfIp (ParseIP (End (Pool (opts m)))) (Some n) = Ok e \<and> b < e \<and> unat e < net_size n \<and> net_size n \<le> 2 ^ 23 \<and>
      getAllocRangeBasedOnCidr (Pool (opts m)) (Some n) = Ok (b, e)"
    and "LastIp (Pool (opts m)) = LastIp (Pool (opts new))"
proof -
  from rev obtain m1 w1 where m1: "validateNetworkByType env old new Op_Create w = (Ok m1, w1)"
    and m: "mutateNetManifest env m1 w1 = (Ok m, w')" by (rule review_networkE)
  note pools = validated_pools [OF m1]
  then obtain m0 where m0: "validateAllocV4 (adm_cidr env) new = Ok m0" "validateAllocV6 (adm_cidr env) m0 = Ok m1"
    and alloc: "Alloc (opts new) = []"
    by (auto simp: validateAllocationPools_def split: if_splits)
  have "v4_state m = v4_state m0" using mutate_v4 [OF m] validateAllocV6_v4 [OF m0(2)] by simp
  then have st: "Pool (opts m) = Pool (opts m0)" "Alloc (opts m) = Alloc (opts m0)" by (simp_all add: v4_state_def)
  have "net_core m = net_core new"
    using mutate_core [OF m] validateAllocationPools_core [OF pools(2)] by simp
  then show "Cidr (opts m) = Cidr (opts new)" by (rule core_eqD)
  show "\<exists>arr. Alloc (opts m) = Encode arr \<and> pool_in_net (Pool (opts m)) n \<and>
      ba_bits arr = {0, net_size n - 1} \<union> gw_pos n ` snd ` set (routes_of (Routes (opts new)))"
    using validateAllocV4_ready [OF m0(1) c pools(1) alloc] st by (auto simp: pool_in_net_def)
  show "\<exists>b e. GetIndexOfIp (ParseIP (Start (Pool (opts m)))) (Some n) = Ok b \<and>
      GetIndexOfIp (ParseIP (End (Pool (opts m)))) (Some n) = Ok e \<and> b < e \<and> unat e < net_size n \<and> net_size n \<le> 2 ^ 23 \<and>
      getAllocRangeBasedOnCidr (Pool (opts m)) (Some n) = Ok (b, e)"
    using validateAllocV4_ends [OF m0(1) c] st(1) by simp
  show "LastIp (Pool (opts m)) = LastIp (Pool (opts new))"
    using validateAllocV4_last [OF m0(1)] st(1) by simp
qed


text \<open>
  For the concrete instances: a webhook in a cluster with one TenantConfig, the state of the
  world, and no Pods.
\<close>

definition conf_client :: "TenantConfig DanmClient" where
  "conf_client =
     \<lparr>api_net_update = \<lambda>api ns n w. (None, w), api_net_get = \<lambda>api ns name w. (Inl ''not found'', w),
      api_tconf_list = \<lambda>w. (Inr (Some [w]), w), api_tconf_update = \<lambda>c w. (None, c),
      api_tconf_get = \<lambda>name w. (Inr w, w), api_ep_list = \<lambda>ns w. (Inr None, w),
      api_ep_create = \<lambda>ns ep w. (Inr ep, w), api_ep_update = \<lambda>ns ep w. (None, w),
      api_ep_delete = \<lambda>ns name w. (None, w)\<rparr>"

definition demo_webhook :: "TenantConfig admit_env" where
  "demo_webhook =
     \<lparr>adm_client = conf_client, adm_cidr = std_cidr, adm_cpuset = demo_parse_range, adm_Intn = \<lambda>n w. 0,
      adm_deserialize = \<lambda>s. (None, Some \<lparr>req_UID = s, req_Operation = Op_Create, req_OldObject = None, req_Object = None\<rparr>),
      adm_decode_net = \<lambda>s. Inr empty_net, adm_decode_conf = \<lambda>s. Inr empty_tconf, adm_marshal = \<lambda>ps. Inr ''patches''\<rparr>"

definition demo_conf :: TenantConfig where
  "demo_conf = \<lparr>tc_Kind = ''TenantConfig'', tc_Meta = empty_meta, HostDevices = [demo_profile], NetworkIds = []\<rparr>"

definition demo_manifest :: DanmNet where
  "demo_manifest = \<lparr>dn_Kind = ''DanmNet'', dn_Meta = empty_meta, dn_Spec =
     \<lparr>NetworkID = ''n1'', NetworkType = ''ipvlan'', AllowedTenants = None, Options = empty_options
       \<lparr>Cidr := ''10.0.0.0/29'', Pool := demo_pool, Routes := Some [(''0.0.0.0/0'', ''10.0.0.1'')]\<rparr>\<rparr>\<rparr>"

lemma demo_review:
  "review_network demo_webhook Op_Create empty_net demo_manifest demo_conf =
     (Ok (set_opts (\<lambda>oo. oo\<lparr>Alloc := ''wQ==''\<rparr>) demo_manifest,
          [\<lparr>patch_Op = ''replace'', patch_Path = ''/spec/Options/alloc'', patch_Value = PString ''wQ==''\<rparr>]), demo_conf)"
  by code_simp


lemma demo_static:
  "allocateStatic demo_pool ''wQ=='' ''10.0.0.3'' ''10.0.0.0/29'' (Some demo_net) (Some demo_net) =
     Ok (''0Q=='', ''10.0.0.3/29'', demo_pool)"
  by code_simp


section \<open>The last address of a new pool\<close>

definition demo_last_manifest :: DanmNet where
  "demo_last_manifest = set_opts (\<lambda>oo. oo\<lparr>Pool := \<lparr>Start = ''10.0.0.4'', End = ''10.0.0.6'', LastIp = ''10.0.0.2''\<rparr>\<rparr>) demo_manifest"

lemma demo_last:
  "getAllocRangeBasedOnCidr \<lparr>Start = ''10.0.0.4'', End = ''10.0.0.6'', LastIp = ''10.0.0.2''\<rparr> (Some demo_net) = Ok (4, 6)"
  "GetIndexOfIp (ParseIP ''10.0.0.2'') (Some demo_net) = Ok 2"
  "scan (NewBitArrayFromBase64 ''wQ=='') 4 2 2 6 = Some (Ok (Some 2))"
  "Set (NewBitArrayFromBase64 ''wQ=='') 2 = Ok \<lparr>ba_len = 8, ba_data = [225]\<rparr>"
  "getIpFromIndex 2 (Some demo_net) (Some demo_net) = Ok ''10.0.0.2/29''"
  by code_simp+

text \<open>
  The webhook does not look at the last address of a submitted pool: the manifest of a network whose pool
  starts at 10.0.0.4 may name 10.0.0.2, and the first dynamic request gets this address, which
  lies before the pool.
\<close>

theorem submitted_last_ip_leaves_pool:
  "review_network demo_webhook Op_Create empty_net demo_last_manifest demo_conf =
     (Ok (set_opts (\<lambda>oo. oo\<lparr>Alloc := ''wQ==''\<rparr>) demo_last_manifest,
          [\<lparr>patch_Op = ''replace'', patch_Path = ''/spec/Options/alloc'', patch_Value = PString ''wQ==''\<rparr>]), demo_conf) \<and>
   (case allocateAddress (Pool (opts demo_last_manifest)) ''wQ=='' DynamicAllocType ''10.0.0.0/29'' ''10.0.0.0/29'' of
      Ok (alloc', ip, pool') \<Rightarrow> ip = ''10.0.0.2/29'' | _ \<Rightarrow> False)"
proof
  show "review_network demo_webhook Op_Create empty_net demo_last_manifest demo_conf =
     (Ok (set_opts (\<lambda>oo. oo\<lparr>Alloc := ''wQ==''\<rparr>) demo_last_manifest,
          [\<lparr>patch_Op = ''replace'', patch_Path = ''/spec/Options/alloc'', patch_Value = PString ''wQ==''\<rparr>]), demo_conf)"
    by code_simp
  have pool: "Pool (opts demo_last_manifest) = \<lparr>Start = ''10.0.0.4'', End = ''10.0.0.6'', LastIp = ''10.0.0.2''\<rparr>"
    by (simp add: demo_last_manifest_def)
  show "case allocateAddress (Pool (opts demo_last_manifest)) ''wQ=='' DynamicAllocType ''10.0.0.0/29'' ''10.0.0.0/29'' of
      Ok (alloc', ip, pool') \<Rightarrow> ip = ''10.0.0.2/29'' | _ \<Rightarrow> False"
    by (simp add: pool allocateAddress_def allocateDynamic_def alloc_type_defs demo_parse demo_last)
qed

section \<open>IPv4-mapped subnets\<close>

lemma mapped_array:
  assumes "To4 (net_IP n) \<noteq> []" and "32 < mask_size (net_Mask n)"
  shows "CreateAllocationArray (Some n) r = Panic"
  using assms
  by (simp add: CreateAllocationArray_def CreateBitArrayFromIpnet_def Let_def MaxSupportedAllocLength_def
      pow2_u32_def NewBitArray_def)

text \<open>
  An IPv4-mapped subnet such as \<^verbatim>\<open>::ffff:10.0.0.0/104\<close> passes for an IPv4
  subnet, and the webhook panics while creating its allocation array.
\<close>

theorem mapped_cidr_panics:
  assumes c: "parse_net (Cidr (opts n)) = Some ipn" and v4: "To4 (net_IP ipn) \<noteq> []"
    and prefix: "32 < mask_size (net_Mask ipn)" and alloc: "Alloc (opts n) = []"
  shows "validateAllocV4 gc n = Panic"
proof -
  have "Cidr (opts n) \<noteq> []" using c by (auto simp: parse_net_def ParseCIDR_def)
  then have "InitAllocPool gc (Cidr (opts n)) s e [] r = Panic" for s e r
    using c mapped_array [OF v4 prefix] by (auto simp: InitAllocPool_def Let_def)
  then show ?thesis
    using assms \<open>Cidr (opts n) \<noteq> []\<close> by (simp add: validateAllocV4_def Let_def MaxV4MaskLength_def)
qed

theorem mapped_cidr_panics_witness:
  "validateAllocV4 std_cidr (set_opts (\<lambda>oo. oo\<lparr>Cidr := ''::ffff:10.0.0.0/104''\<rparr>) empty_net) = Panic"
proof (rule mapped_cidr_panics)
  let ?n = "\<lparr>net_IP = [0, 0, 0, 0, 0, 0, 0, 0, 0, 0, 255, 255, 10, 0, 0, 0], net_Mask = replicate 13 255 @ [0, 0, 0]\<rparr>"
  show "parse_net (Cidr (opts (set_opts (\<lambda>oo. oo\<lparr>Cidr := ''::ffff:10.0.0.0/104''\<rparr>) empty_net))) = Some ?n"
    by code_simp
  show "To4 (net_IP ?n) \<noteq> []" "32 < mask_size (net_Mask ?n)"
    "Alloc (opts (set_opts (\<lambda>oo. oo\<lparr>Cidr := ''::ffff:10.0.0.0/104''\<rparr>) empty_net)) = []"
    by code_simp+
qed

end
