(* ===== verification/AdmitVni.thy ===== *)
theory AdmitVni
  imports AdmitProps
begin

text \<open>
  VNIs through the webhook: an admitted TenantConfig has room for its ranges, running Pods keep
  the VNI of their network, and networks that are still used cannot be deleted. Two behaviours
  lose VNIs: a network rejected after its VNI was reserved, and an update that reserves another.
\<close>

section \<open>TenantConfigs\<close>

text \<open>The documented behaviour of \<^verbatim>\<open>cpuset.Parse\<close>: identifiers are not negative.\<close>

definition cpuset_laws :: "cpuset_parser \<Rightarrow> bool" where
  "cpuset_laws parse \<longleftrightarrow> (\<forall>s vs. parse s = Inr vs \<longrightarrow> (\<forall>v \<in> set vs. 0 \<le> v))"

lemma validate_ifaces_Ok:
  "validate_ifaces parse opType ps = Ok () \<longleftrightarrow> (\<forall>p \<in> set ps. validateIfaceConfig parse p opType = Ok ())"
  by (induction ps) auto

definition fresh_vnis :: BitArray where
  "fresh_vnis = (case NewBitArray (word_of_int (MaxAllowedVni + 1)) of Ok arr \<Rightarrow> arr)"

lemma fresh_vnis_facts:
  "NewBitArray (word_of_int (MaxAllowedVni + 1)) = Ok fresh_vnis" "ba_bits fresh_vnis = {0}" "ba_size fresh_vnis = 5008"
proof -
  have "0 < unat (word_of_int (MaxAllowedVni + 1) :: u32)" "unat (word_of_int (MaxAllowedVni + 1) :: u32) \<le> 2 ^ 23"
    by (simp_all add: MaxAllowedVni_def)
  from NewBitArray_spec [OF this] obtain arr where "NewBitArray (word_of_int (MaxAllowedVni + 1)) = Ok arr"
    "ba_bits arr = {0}" "ba_size arr = 8 * ((unat (word_of_int (MaxAllowedVni + 1) :: u32) + 7) div 8)" by blast
  then show "NewBitArray (word_of_int (MaxAllowedVni + 1)) = Ok fresh_vnis" "ba_bits fresh_vnis = {0}"
    "ba_size fresh_vnis = 5008" by (simp_all add: fresh_vnis_def MaxAllowedVni_def)
qed

definition init_profile :: "IfaceProfile \<Rightarrow> IfaceProfile" where
  "init_profile p = (if prof_Alloc p \<noteq> [] \<or> VniType p = [] then p else p\<lparr>prof_Alloc := Encode fresh_vnis\<rparr>)"

lemma init_profiles_eq: "init_profiles ps = Ok (map init_profile ps)"
  by (induction ps) (simp_all add: init_profile_def fresh_vnis_facts(1) del: of_int_add)

lemma fresh_decoded:
  "ba_size (NewBitArrayFromBase64 (Encode fresh_vnis)) = 5008" "ba_bits (NewBitArrayFromBase64 (Encode fresh_vnis)) = {0}"
  "Len (Some (NewBitArrayFromBase64 (Encode fresh_vnis))) \<noteq> 0"
proof -
  let ?d = "NewBitArrayFromBase64 (Encode fresh_vnis)"
  show size: "ba_size ?d = 5008" and "ba_bits ?d = {0}"
    using ba.dec_enc [of fresh_vnis] fresh_vnis_facts by simp_all
  have "ba_len ?d = word_of_nat (length (ba_data ?d)) * 8" by (simp add: NewBitArrayFromBase64_def Let_def)
  moreover have "length (ba_data ?d) = 626" using size by (simp add: ba_size_def)
  ultimately show "Len (Some ?d) \<noteq> 0" by (simp add: Len_def)
qed

text \<open>
  The life of a profile's array: a VNI is taken from it, or the one of some network is given back.
\<close>

inductive profile_step :: "cpuset_parser \<Rightarrow> IfaceProfile \<Rightarrow> IfaceProfile \<Rightarrow> bool" for parse where
  take: "reserveVni parse p = Ok (v, alloc) \<Longrightarrow> profile_step parse p (p\<lparr>prof_Alloc := alloc\<rparr>)"
| release: "freeVni dnet p = Ok alloc \<Longrightarrow> profile_step parse p (p\<lparr>prof_Alloc := alloc\<rparr>)"

abbreviation profile_vnis :: "IfaceProfile \<Rightarrow> BitArray" where
  "profile_vnis p \<equiv> NewBitArrayFromBase64 (prof_Alloc p)"

definition full_size :: "IfaceProfile \<Rightarrow> bool" where
  "full_size p \<longleftrightarrow> length (ba_data (profile_vnis p)) = 626"

lemma full_size_facts:
  assumes "full_size p"
  shows "ba_size (profile_vnis p) = 5008" "Len (Some (profile_vnis p)) \<noteq> 0"
proof -
  show "ba_size (profile_vnis p) = 5008" using assms by (simp add: full_size_def ba_size_def)
  have "ba_len (profile_vnis p) = word_of_nat (length (ba_data (profile_vnis p))) * 8"
    by (simp add: NewBitArrayFromBase64_def Let_def)
  then show "Len (Some (profile_vnis p)) \<noteq> 0" using assms by (simp add: full_size_def Len_def)
qed

lemma encoded_size: "ba_size (NewBitArrayFromBase64 (Encode arr)) = ba_size arr"
  using ba.dec_enc [of arr] by simp

lemma full_size_Encode: "ba_size arr = 5008 \<Longrightarrow> full_size (p\<lparr>prof_Alloc := Encode arr\<rparr>)"
  using encoded_size [of arr] by (simp add: full_size_def ba_size_def)

lemma pick_vni_size: "pick_vni allocs vnis = Ok (Some (v, arr)) \<Longrightarrow> ba_size arr = ba_size allocs"
  by (induction vnis) (auto dest: Set_size split: if_splits)

lemma profile_step_keeps:
  assumes "profile_step parse p q" and "full_size p"
  shows "full_size q \<and> VniRange q = VniRange p \<and> prof_Name q = prof_Name p \<and> VniType q = VniType p"
  using assms(1)
proof cases
  case (take v alloc)
  from take(2) obtain vnis arr where "pick_vni (profile_vnis p) vnis = Ok (Some (v, arr))" "alloc = Encode arr"
    by (auto simp: reserveVni_def Let_def split: if_splits sum.splits option.splits)
  with take(1) full_size_facts(1) [OF assms(2)] pick_vni_size full_size_Encode show ?thesis by fastforce
next
  case (release dnet alloc)
  from release(2) obtain arr where "Reset (profile_vnis p) (word_of_int (dnet_vni dnet)) = Ok arr" "alloc = Encode arr"
    by (auto simp: freeVni_def Let_def split: if_splits)
  with release(1) full_size_facts(1) [OF assms(2)] Reset_size full_size_Encode show ?thesis by fastforce
qed

lemma profile_reachable:
  assumes "(profile_step parse)\<^sup>*\<^sup>* p q" and "full_size p"
  shows "full_size q \<and> VniRange q = VniRange p \<and> prof_Name q = prof_Name p \<and> VniType q = VniType p"
  using assms
proof (induction rule: rtranclp_induct)
  case (step q r)
  with profile_step_keeps [OF step.hyps(2)] show ?case by simp
qed simp

lemma full_size_reserve:
  assumes size: "full_size q" and laws: "cpuset_laws parse" and vnis: "parse (VniRange q) = Inr vnis"
    "\<forall>v \<in> set vnis. v \<le> MaxAllowedVni"
  shows "case find (\<lambda>v. nat v \<notin> ba_bits (profile_vnis q)) vnis of
     None \<Rightarrow> reserveVni parse q = Err (VniRangeFull (prof_Name q))
   | Some v \<Rightarrow> \<exists>arr. reserveVni parse q = Ok (v, Encode arr) \<and> ba_bits arr = insert (nat v) (ba_bits (profile_vnis q))"
proof -
  have range: "0 \<le> v \<and> v \<le> 5000" if "v \<in> set vnis" for v
    using laws vnis that unfolding cpuset_laws_def MaxAllowedVni_def by blast
  have pos: "vni_pos v = nat v" if "v \<in> set vnis" for v
  proof -
    have "(word_of_int v :: u32) = word_of_nat (nat v)" using range [OF that] by simp
    moreover have "nat v \<le> 5000" using range [OF that] by (simp add: nat_le_iff)
    then have "nat v < 2 ^ 32" by simp
    then have "unat (word_of_nat (nat v) :: u32) = nat v" by (rule unat_u32_of_nat)
    ultimately show ?thesis by (simp add: vni_pos_def)
  qed
  have inside: "\<forall>v \<in> set vnis. 0 \<le> v \<and> vni_pos v < ba_size (profile_vnis q)"
    using range pos by (fastforce simp: full_size_facts [OF size])
  have same: "find (\<lambda>v. vni_pos v \<notin> ba_bits (profile_vnis q)) vnis = find (\<lambda>v. nat v \<notin> ba_bits (profile_vnis q)) vnis"
    using pos by (intro find_cong) auto
  have "v \<in> set vnis" if "find (\<lambda>v. nat v \<notin> ba_bits (profile_vnis q)) vnis = Some v" for v
    using that by (auto simp: find_Some_iff)
  with reserveVni_search [of q parse vnis, OF full_size_facts(2) [OF size] vnis(1) inside] pos show ?thesis
    unfolding same by (auto split: option.splits)
qed


lemma demo_cpuset_laws: "cpuset_laws demo_parse_range"
  by (auto simp: cpuset_laws_def demo_parse_range_def split: if_splits)


section \<open>VNIs under running Pods\<close>

text \<open>The pool validators leave the VNIs and the device alone.\<close>

definition vnis_of :: "DanmNet \<Rightarrow> int \<times> int \<times> string \<times> string" where
  "vnis_of n = (Vlan (opts n), Vxlan (opts n), Device (opts n), NetworkType (dn_Spec n))"

lemma vnis_of_set_opts:
  "vnis_of (set_opts (\<lambda>oo. oo\<lparr>Pool := p, Alloc := a\<rparr>) n) = vnis_of n"
  "vnis_of (set_opts (\<lambda>oo. oo\<lparr>Pool6 := q, Alloc6 := a\<rparr>) n) = vnis_of n"
  "vnis_of (set_opts (\<lambda>oo. oo\<lparr>Pool6 := (Pool6 oo)\<lparr>PoolCidr := c\<rparr>\<rparr>) n) = vnis_of n"
  by (simp_all add: vnis_of_def)

lemma InitV6PoolCidr_vnis: "InitV6PoolCidr gc n = Ok m \<Longrightarrow> vnis_of m = vnis_of n"
  unfolding InitV6PoolCidr_def Let_def
  by (erule ok_postD [rotated], intro ok_post_rules) (simp_all add: vnis_of_set_opts)

lemma validateAllocV4_vnis: "validateAllocV4 gc n = Ok m \<Longrightarrow> vnis_of m = vnis_of n"
  unfolding validateAllocV4_def Let_def
  by (erule ok_postD [rotated], intro ok_post_rules) (simp_all add: vnis_of_set_opts)

lemma validateAllocV6_vnis: "validateAllocV6 gc n = Ok m \<Longrightarrow> vnis_of m = vnis_of n"
  unfolding validateAllocV6_def Let_def
  by (erule ok_postD [rotated], intro ok_post_rules) (simp_all add: vnis_of_set_opts InitV6PoolCidr_vnis)

lemma validateAllocationPools_vnis:
  assumes "validateAllocationPools gc n opType = Ok m"
  shows "Vlan (opts m) = Vlan (opts n)" "Vxlan (opts m) = Vxlan (opts n)" "Device (opts m) = Device (opts n)"
    "NetworkType (dn_Spec m) = NetworkType (dn_Spec n)"
proof -
  from assms obtain q where "validateAllocV4 gc n = Ok q" "validateAllocV6 gc q = Ok m"
    by (auto simp: validateAllocationPools_def split: if_splits)
  then have "vnis_of m = vnis_of n" using validateAllocV4_vnis validateAllocV6_vnis by metis
  then show "Vlan (opts m) = Vlan (opts n)" "Vxlan (opts m) = Vxlan (opts n)" "Device (opts m) = Device (opts n)"
    "NetworkType (dn_Spec m) = NetworkType (dn_Spec n)"
    by (simp_all add: vnis_of_def)
qed

lemma unconnected:
  assumes eps: "\<And>w. \<exists>w'. api_ep_list (adm_client env) [] w = (Inr eps, w')"
    and ep: "ep \<in> set (ep_items eps)" "uses_network old ep"
    and ok: "validateVniChange (adm_client env) old new Op_Update w = (Ok (), w')"
  shows "\<not> vni_changed (opts old) (opts new)"
proof -
  obtain w1 where "api_ep_list (adm_client env) [] w = (Inr eps, w1)" using eps by blast
  moreover obtain e where "find (uses_network old) (ep_items eps) = Some e"
    using ep by (cases "find (uses_network old) (ep_items eps)") (auto simp: find_None_iff)
  ultimately show ?thesis
    using ok by (auto simp: validateVniChange_def ArePodsConnectedToNetwork_def split: if_splits)
qed

text \<open>The mutation only fills what is missing.\<close>

definition keeps_set :: "DanmNet \<Rightarrow> DanmNet \<Rightarrow> bool" where
  "keeps_set n m \<longleftrightarrow> (Vlan (opts n) \<noteq> 0 \<longrightarrow> Vlan (opts m) = Vlan (opts n)) \<and>
     (Vxlan (opts n) \<noteq> 0 \<longrightarrow> Vxlan (opts m) = Vxlan (opts n)) \<and> (Device (opts n) \<noteq> [] \<longrightarrow> Device (opts m) = Device (opts n))"

lemma attach_keeps:
  "attachNetworkToIfaceProfile env tnet tconf iface w = (Ok m, w') \<Longrightarrow> keeps_set tnet m"
  by (auto simp: attachNetworkToIfaceProfile_def Let_def keeps_set_def split: if_splits prod.splits res.splits)

lemma allocateDetails_keeps:
  "allocateDetailsForDynamicBackends env tnet tconf w = (Ok m, w') \<Longrightarrow> keeps_set tnet m"
  by (auto simp: allocateDetailsForDynamicBackends_def Let_def attach_keeps split: if_splits sum.splits)

lemma mapped_network_id_keeps: "keeps_set n (mapped_network_id ids n)"
  by (induction ids n rule: mapped_network_id.induct) (auto simp: keeps_set_def)

lemma keeps_set_trans: "keeps_set n m \<Longrightarrow> keeps_set m q \<Longrightarrow> keeps_set n q"
  by (auto simp: keeps_set_def)

lemma addTenantSpecificDetails_keeps:
  assumes "addTenantSpecificDetails env d w = (Ok m, w')"
  shows "keeps_set d m"
proof -
  have "keeps_set d d" by (simp add: keeps_set_def)
  with assms show ?thesis
    by (auto simp: addTenantSpecificDetails_def elim!: bind_st_OkE split: if_splits
        intro: mapped_network_id_keeps keeps_set_trans [OF allocateDetails_keeps mapped_network_id_keeps])
qed

lemma mutate_keeps:
  assumes "mutateNetManifest env n w = (Ok m, w')"
  shows "keeps_set n m"
proof -
  let ?d = "if NetworkType (dn_Spec n) = [] then n\<lparr>dn_Spec := (dn_Spec n)\<lparr>NetworkType := ''ipvlan''\<rparr>\<rparr> else n"
  have d: "keeps_set n ?d" by (simp add: keeps_set_def)
  show ?thesis
  proof (cases "dn_Kind n = ''TenantNetwork''")
    case True
    then have "addTenantSpecificDetails env ?d w = (Ok m, w')" using assms
      by (cases "NetworkType (dn_Spec n) = []") (simp_all add: mutateNetManifest_def Let_def)
    from keeps_set_trans [OF d addTenantSpecificDetails_keeps [OF this]] show ?thesis .
  next
    case False
    then have "m = ?d" using assms
      by (cases "NetworkType (dn_Spec n) = []") (simp_all add: mutateNetManifest_def Let_def)
    with d show ?thesis by simp
  qed
qed


text \<open>For the instance: a cluster whose only endpoint uses the network \<open>n1\<close>.\<close>

definition busy_ep :: DanmEp where
  "busy_ep = \<lparr>ep_Kind = ''DanmEp'', ep_Meta = empty_meta, ep_Spec = \<lparr>ep_NetworkName = ''n1'',
     ep_NetworkType = ''ipvlan'', ep_EndpointID = ''e1'', ep_Iface = \<lparr>if_Name = ''eth0'', if_Address = [],
       if_AddressIPv6 = [], if_MacAddress = [], if_Proutes = None, if_Proutes6 = None, if_DeviceID = []\<rparr>,
     ep_Host = ''h'', ep_Pod = ''p'', ep_PodUID = ''u'', ep_CID = ''c'', ep_Netns = ''ns'', ep_ApiType = ''DanmNet''\<rparr>\<rparr>"

definition busy_webhook :: "TenantConfig admit_env" where
  "busy_webhook = demo_webhook\<lparr>adm_client := conf_client\<lparr>api_ep_list := \<lambda>ns w. (Inr (Some [busy_ep]), w)\<rparr>\<rparr>"

definition vlan_net :: DanmNet where
  "vlan_net = \<lparr>dn_Kind = ''DanmNet'', dn_Meta = empty_meta\<lparr>mt_Name := ''n1''\<rparr>, dn_Spec = \<lparr>NetworkID = ''n1'',
     NetworkType = ''ipvlan'', AllowedTenants = None, Options = empty_options\<lparr>Vlan := 50, Device := ''ens4''\<rparr>\<rparr>\<rparr>"

lemma busy_uses: "uses_network vlan_net busy_ep" "ep_items (Some [busy_ep]) = [busy_ep]"
  by (simp_all add: uses_network_def vlan_net_def busy_ep_def ep_items_def empty_meta_def)

lemma busy_list: "\<exists>w'. api_ep_list (adm_client busy_webhook) [] w = (Inr (Some [busy_ep]), w')"
  by (simp add: busy_webhook_def)


text \<open>
  What the check leaves out: with a Pod connected, the webhook admits that a network without a VNI gets
  another host device and a VLAN.
\<close>

definition plain_net :: DanmNet where
  "plain_net = set_opts (\<lambda>oo. oo\<lparr>Vlan := 0\<rparr>) vlan_net"

theorem device_of_plain_network_changes:
  "uses_network plain_net busy_ep \<and>
   review_network busy_webhook Op_Update plain_net (set_opts (\<lambda>oo. oo\<lparr>Device := ''ens5'', Vlan := 60\<rparr>) plain_net) demo_conf =
     (Ok (set_opts (\<lambda>oo. oo\<lparr>Device := ''ens5'', Vlan := 60\<rparr>) plain_net, []), demo_conf)"
proof
  show "uses_network plain_net busy_ep"
    using busy_uses(1) by (simp add: plain_net_def uses_network_def)
  show "review_network busy_webhook Op_Update plain_net (set_opts (\<lambda>oo. oo\<lparr>Device := ''ens5'', Vlan := 60\<rparr>) plain_net) demo_conf =
     (Ok (set_opts (\<lambda>oo. oo\<lparr>Device := ''ens5'', Vlan := 60\<rparr>) plain_net, []), demo_conf)"
    by code_simp
qed



section \<open>Lost VNIs\<close>

lemma review_unfold:
  assumes "validateNetworkByType env old new opType w = (Ok m1, w1)" and "mutateNetManifest env m1 w1 = (Ok m, w2)"
  shows "review_network env opType old new w =
    (bind_res (validateNetworkId m) (\<lambda>_. Ok (m, createPatchListFromNetChanges new m)), w2)"
  using assms by (cases "validateNetworkId m") (simp_all add: review_network_def postValidateManifest_def bind_st_def)

text \<open>
  A rejected TenantNetwork keeps its VNI reserved: its NetworkID is judged only after the
  VNI was reserved, so that a creation refused for a missing identifier leaves the reservation
  in the TenantConfig, with no network that would ever release it.
\<close>

theorem rejected_network_keeps_vni:
  assumes val: "validateNetworkByType env old new Op_Create w = (Ok m1, w1)" and kind: "dn_Kind m1 = ''TenantNetwork''"
    and type: "NetworkType (dn_Spec m1) = ''ipvlan''" and nid: "NetworkID (dn_Spec m1) = []"
    and conf: "GetTenantConfig (adm_client env) w1 = (Ok tconf, w2)" "NetworkIds tconf = []"
    and prof: "matching_profile (opts m1) (HostDevices tconf) [] = Inl iface" "VniType iface = ''vlan''" "Vlan (opts m1) = 0"
    and res: "vni_Reserve (adm_cpuset env) (adm_client env) tconf iface w2 = (Ok vni, w3)"
  shows "review_network env Op_Create old new w = (Err nid_missing, w3)"
proof -
  let ?t = "if Device (opts m1) = [] \<and> DevicePool (opts m1) = []
    then set_opts (\<lambda>oo. oo\<lparr>Device := prof_Name iface\<rparr>) m1 else m1"
  have "attachNetworkToIfaceProfile env m1 tconf iface w2 = (Ok (set_opts (\<lambda>oo. oo\<lparr>Vlan := vni\<rparr>) ?t), w3)"
    using prof res by (simp add: attachNetworkToIfaceProfile_def Let_def)
  then have "mutateNetManifest env m1 w1 = (Ok (set_opts (\<lambda>oo. oo\<lparr>Vlan := vni\<rparr>) ?t), w3)"
    using kind type conf prof
    by (simp add: mutateNetManifest_def addTenantSpecificDetails_def allocateDetailsForDynamicBackends_def
        IsTypeDynamic_def to_lower_def lower_char_def bind_st_def)
  moreover have "validateNetworkId (set_opts (\<lambda>oo. oo\<lparr>Vlan := vni\<rparr>) ?t) = Err nid_missing"
    using nid by (simp add: validateNetworkId_def)
  ultimately show ?thesis using review_unfold [OF val] by simp
qed

definition tenant_net :: DanmNet where
  "tenant_net = \<lparr>dn_Kind = ''TenantNetwork'', dn_Meta = empty_meta\<lparr>mt_Name := ''t1''\<rparr>, dn_Spec = \<lparr>NetworkID = [],
     NetworkType = ''ipvlan'', AllowedTenants = None, Options = empty_options\<lparr>Device := ''ens4''\<rparr>\<rparr>\<rparr>"

definition vlan1_conf :: TenantConfig where
  "vlan1_conf = demo_conf\<lparr>HostDevices := [demo_profile\<lparr>prof_Alloc := ''wA==''\<rparr>]\<rparr>"

lemma demo_reserveVni: "reserveVni demo_parse_range demo_profile = Ok (1, ''wA=='')"
  by code_simp

lemma demo_vni_Reserve: "vni_Reserve demo_parse_range conf_client demo_conf demo_profile demo_conf = (Ok 1, vlan1_conf)"
proof -
  have "getIfaceIndex demo_conf (prof_Name demo_profile) (VniType demo_profile) = Some 0"
    by (simp add: getIfaceIndex_def demo_conf_def)
  moreover have "HostDevices demo_conf ! 0 = demo_profile" by (simp add: demo_conf_def)
  moreover have "set_alloc 0 ''wA=='' demo_conf = vlan1_conf"
    by (simp add: set_alloc_def vlan1_conf_def demo_conf_def)
  moreover have "updateTenantConf conf_client vlan1_conf demo_conf = (Ok None, vlan1_conf)"
    by (simp add: updateTenantConf_def conf_client_def)
  ultimately show ?thesis
    by (simp add: vni_Reserve_def vni_reserve_loop.simps [of _ _ demo_profile demo_conf] demo_reserveVni)
qed

lemma demo_webhook_simps:
  "adm_client demo_webhook = conf_client" "adm_cpuset demo_webhook = demo_parse_range"
  by (simp_all add: demo_webhook_def)

lemma demo_GetTenantConfig: "GetTenantConfig conf_client w = (Ok w, w)"
  by (simp add: GetTenantConfig_def conf_client_def)

theorem rejected_network_keeps_vni_witness:
  "review_network demo_webhook Op_Create empty_net tenant_net demo_conf = (Err nid_missing, vlan1_conf)"
proof (rule rejected_network_keeps_vni)
  show "validateNetworkByType demo_webhook empty_net tenant_net Op_Create demo_conf = (Ok tenant_net, demo_conf)"
    by code_simp
  show "GetTenantConfig (adm_client demo_webhook) demo_conf = (Ok demo_conf, demo_conf)"
    by (simp add: demo_webhook_simps demo_GetTenantConfig)
  show "vni_Reserve (adm_cpuset demo_webhook) (adm_client demo_webhook) demo_conf demo_profile demo_conf = (Ok 1, vlan1_conf)"
    by (simp add: demo_webhook_simps demo_vni_Reserve)
  show "matching_profile (opts tenant_net) (HostDevices demo_conf) [] = Inl demo_profile" by code_simp
qed (simp_all add: tenant_net_def demo_conf_def demo_profile_def empty_options_def)

text \<open>
  An update can reserve a second VNI: when the host device of an admitted TenantNetwork with a
  VxLAN also has a VLAN profile that the TenantConfig lists first, any admitted update of the
  network reserves a VLAN for it too, although the validators demand that its VNIs stay unchanged;
  when the network is deleted only its VxLAN is released.
\<close>

theorem update_reserves_second_vni:
  assumes rev: "review_network env Op_Update old new w = (Ok (m, patches), w')"
    and net: "dn_Kind new = ''TenantNetwork''" "NetworkType (dn_Spec new) = ''ipvlan''" "DevicePool (opts new) = []"
      "Device (opts new) \<noteq> []" "Vlan (opts new) = 0" "Vxlan (opts new) \<noteq> 0"
    and conf: "\<And>w. GetTenantConfig (adm_client env) w = (Ok tconf, w)"
    and prof: "HostDevices tconf = iface # rest" "prof_Name iface = Device (opts new)" "VniType iface = ''vlan''"
      "\<not> contains (prof_Name iface) ''/''"
  shows "\<exists>vni w1. vni_Reserve (adm_cpuset env) (adm_client env) tconf iface w1 = (Ok vni, w') \<and>
    Vlan (opts m) = vni \<and> Vxlan (opts m) = Vxlan (opts old) \<and> dnet_vni m = Vxlan (opts old)"
proof -
  from rev obtain m1 w1 where m1: "validateNetworkByType env old new Op_Update w = (Ok m1, w1)"
    and m: "mutateNetManifest env m1 w1 = (Ok m, w')" by (rule review_networkE)
  from m1 net(1) obtain q where q: "validateAllocationPools (adm_cidr env) new Op_Update = Ok q"
    "validateTenantNetRules old q Op_Update = Ok ()" and "m1 = q"
    by (auto simp del: run_validators.simps
        simp: validateNetworkByType_def danmValidationConfig_def mappings validator_Ok)
  note vnis = validateAllocationPools_vnis [OF q(1)]
  from q(2) have same: "Vxlan (opts q) = Vxlan (opts old)"
    by (auto simp: validateTenantNetRules_def Let_def op_defs split: if_splits)
  have core: "dn_Kind q = dn_Kind new" "DevicePool (opts q) = DevicePool (opts new)"
    using core_eqD [OF validateAllocationPools_core [OF q(1)]] by simp_all
  have type: "NetworkType (dn_Spec q) = ''ipvlan''" using vnis(4) net(2) by simp
  have "matching_profile (opts q) (HostDevices tconf) [] = Inl iface"
    using prof vnis(3) core net by simp
  then have "mutateNetManifest env q w1 = bind_st (attachNetworkToIfaceProfile env q tconf iface) (\<lambda>t.
      return_st (Ok (mapped_network_id (NetworkIds tconf) t))) w1"
    using conf core net type
    by (simp add: mutateNetManifest_def addTenantSpecificDetails_def bind_st_def IsTypeDynamic_def to_lower_def
        lower_char_def allocateDetailsForDynamicBackends_def)
  with m \<open>m1 = q\<close> obtain t where t: "attachNetworkToIfaceProfile env q tconf iface w1 = (Ok t, w')"
    "m = mapped_network_id (NetworkIds tconf) t" by (auto elim!: bind_st_OkE)
  from t(1) obtain vni where vni: "vni_Reserve (adm_cpuset env) (adm_client env) tconf iface w1 = (Ok vni, w')"
    "t = set_opts (\<lambda>oo. oo\<lparr>Vlan := vni\<rparr>) q"
    using prof vnis net core by (auto simp: attachNetworkToIfaceProfile_def split: prod.splits res.splits)
  have "opts (mapped_network_id ids t) = opts t" for ids
    by (induction ids t rule: mapped_network_id.induct) auto
  then have "opts m = opts t" using t(2) by simp
  with vni vnis same net show ?thesis by (auto simp: dnet_vni_def)
qed

definition vxlan_net :: DanmNet where
  "vxlan_net = set_opts (\<lambda>oo. oo\<lparr>Vxlan := 60\<rparr>) (tenant_net\<lparr>dn_Spec := (dn_Spec tenant_net)\<lparr>NetworkID := ''t1''\<rparr>\<rparr>)"

lemma vxlan_net_fields:
  "dn_Kind vxlan_net = ''TenantNetwork''" "NetworkType (dn_Spec vxlan_net) = ''ipvlan''" "DevicePool (opts vxlan_net) = []"
  "Device (opts vxlan_net) = ''ens4''" "Vlan (opts vxlan_net) = 0" "Vxlan (opts vxlan_net) = 60"
  "NetworkID (dn_Spec vxlan_net) = ''t1''"
  by (simp_all add: vxlan_net_def tenant_net_def empty_options_def)

definition fixed_webhook :: "TenantConfig admit_env" where
  "fixed_webhook = demo_webhook\<lparr>adm_client := conf_client\<lparr>api_tconf_list := \<lambda>w. (Inr (Some [demo_conf]), w)\<rparr>\<rparr>"

lemma fixed_vni_Reserve:
  "vni_Reserve (adm_cpuset fixed_webhook) (adm_client fixed_webhook) demo_conf demo_profile demo_conf = (Ok 1, vlan1_conf)"
proof -
  have "getIfaceIndex demo_conf (prof_Name demo_profile) (VniType demo_profile) = Some 0"
    by (simp add: getIfaceIndex_def demo_conf_def)
  moreover have "HostDevices demo_conf ! 0 = demo_profile" by (simp add: demo_conf_def)
  moreover have "set_alloc 0 ''wA=='' demo_conf = vlan1_conf"
    by (simp add: set_alloc_def vlan1_conf_def demo_conf_def)
  moreover have "updateTenantConf (adm_client fixed_webhook) vlan1_conf demo_conf = (Ok None, vlan1_conf)"
    by (simp add: updateTenantConf_def fixed_webhook_def conf_client_def)
  ultimately show ?thesis
    by (simp add: vni_Reserve_def vni_reserve_loop.simps [of _ _ demo_profile demo_conf] demo_reserveVni
        fixed_webhook_def demo_webhook_simps)
qed

lemma fixed_GetTenantConfig: "GetTenantConfig (adm_client fixed_webhook) w = (Ok demo_conf, w)"
  by (simp add: GetTenantConfig_def fixed_webhook_def)

lemma fixed_review:
  "\<exists>m patches. review_network fixed_webhook Op_Update vxlan_net vxlan_net demo_conf = (Ok (m, patches), vlan1_conf)"
proof -
  have val: "validateNetworkByType fixed_webhook vxlan_net vxlan_net Op_Update demo_conf = (Ok vxlan_net, demo_conf)"
    by code_simp
  have "matching_profile (opts vxlan_net) (HostDevices demo_conf) [] = Inl demo_profile" by code_simp
  moreover have "VniType demo_profile = ''vlan''" "NetworkIds demo_conf = []" by (simp_all add: demo_profile_def demo_conf_def)
  ultimately have "mutateNetManifest fixed_webhook vxlan_net demo_conf = (Ok (set_opts (\<lambda>oo. oo\<lparr>Vlan := 1\<rparr>) vxlan_net), vlan1_conf)"
    by (simp add: mutateNetManifest_def addTenantSpecificDetails_def bind_st_def fixed_GetTenantConfig vxlan_net_fields
        IsTypeDynamic_def to_lower_def lower_char_def allocateDetailsForDynamicBackends_def
        attachNetworkToIfaceProfile_def fixed_vni_Reserve)
  moreover have "validateNetworkId (set_opts (\<lambda>oo. oo\<lparr>Vlan := 1\<rparr>) vxlan_net) = Ok ()"
    by (simp add: validateNetworkId_def vxlan_net_fields MaxNidLength_def)
  ultimately show ?thesis using review_unfold [OF val] by simp
qed

theorem update_reserves_second_vni_witness:
  "\<exists>m. Vxlan (opts m) = 60 \<and> (\<exists>vni w1. vni_Reserve (adm_cpuset fixed_webhook) (adm_client fixed_webhook) demo_conf demo_profile w1 =
     (Ok vni, vlan1_conf) \<and> Vlan (opts m) = vni)"
proof -
  obtain m patches where "review_network fixed_webhook Op_Update vxlan_net vxlan_net demo_conf = (Ok (m, patches), vlan1_conf)"
    using fixed_review by blast
  from update_reserves_second_vni [OF this _ _ _ _ _ _ fixed_GetTenantConfig, of demo_profile "[]"] show ?thesis
    by (auto simp: vxlan_net_fields demo_conf_def demo_profile_def)
qed

end
