(* ===== verification/HostNet.thy ===== *)
theory HostNet
  imports NetControl Ipam
begin

text \<open>
  \<^verbatim>\<open>pkg/netcontrol/net.go\<close>: the VLAN and VxLAN interfaces of a host that belong
  to a network. The kernel's netlink interface and go-cidr's \<^verbatim>\<open>Host\<close> are the
  record \<open>netlink\<close>: its calls read or change the state \<open>'w\<close> of the host.
\<close>

section \<open>The kernel's interface\<close>

record link =
  lk_Name :: string
  lk_Index :: int
  lk_MTU :: int

datatype family = FamilyV4 | FamilyV6

datatype new_link =
    NewVlan string int int
  | NewVxlan string int int ip ip
  | NewIpvlan string int int
  | NewDummy string "byte list"
  | NewVlanMac string int int "byte list"

primrec new_name :: "new_link \<Rightarrow> string" where
  "new_name (NewVlan n parent vlanId) = n"
| "new_name (NewVxlan n vxlanId dev grp src) = n"
| "new_name (NewIpvlan n parent mtu) = n"
| "new_name (NewDummy n mac) = n"
| "new_name (NewVlanMac n parent vlanId mac) = n"

text \<open>An operation on a link names one that was found or one that was just created.\<close>

datatype link_ref = Found link | Created new_link

record 'w netlink =
  LinkByName :: "string \<Rightarrow> 'w \<Rightarrow> string + link"
  LinkAdd :: "new_link \<Rightarrow> 'w \<Rightarrow> string option \<times> 'w"
  LinkDel :: "link \<Rightarrow> 'w \<Rightarrow> string option \<times> 'w"
  LinkSetUp :: "link_ref \<Rightarrow> 'w \<Rightarrow> string option \<times> 'w"
  AddrList :: "link \<Rightarrow> family \<Rightarrow> 'w \<Rightarrow> string + (bool \<times> ip) list"
  CidrHost :: "ipnet \<Rightarrow> int \<Rightarrow> string + ip"

section \<open>Host interfaces of a network\<close>

definition ip4MulticastCidr :: string where "ip4MulticastCidr = ''239.0.0.0/8''"
definition ip6MulticastCidr :: string where "ip6MulticastCidr = ''ff02::0/16''"

definition determineVlanHdev :: "int \<Rightarrow> string \<Rightarrow> string \<Rightarrow> string" where
  "determineVlanHdev vlanId netId hdev = (if vlanId = 0 then hdev else netId @ ''.'' @ itoa vlanId)"

definition deleteHostInterface :: "'w netlink \<Rightarrow> int \<Rightarrow> string \<Rightarrow> 'w \<Rightarrow> string option \<times> 'w" where
  "deleteHostInterface nl ifId ifName w =
     (if ifId = 0 then (None, w)
      else (case LinkByName nl ifName w of
        Inl _ \<Rightarrow> (None, w)
      | Inr iface \<Rightarrow>
          (case LinkDel nl iface w of
             (None, w') \<Rightarrow> (None, w')
           | (Some msg, w') \<Rightarrow> (Some (''Deletion of interface:'' @ ifName @ '' failed with error:'' @ msg), w'))))"

definition deleteNetworks :: "'w netlink \<Rightarrow> DanmNet \<Rightarrow> 'w \<Rightarrow> string option \<times> 'w" where
  "deleteNetworks nl dnet w =
     (if Device (opts dnet) = [] then (None, w)
      else (let netId = NetworkID (dn_Spec dnet);
                vlanId = Vlan (opts dnet);
                (e1, w1) = deleteHostInterface nl (Vxlan (opts dnet)) (''vx_'' @ netId) w;
                (e2, w2) = deleteHostInterface nl vlanId (determineVlanHdev vlanId netId (Device (opts dnet))) w1;
                combined = (case e1 of None \<Rightarrow> [] | Some m \<Rightarrow> m @ [CHR 0x0A]) @ (case e2 of None \<Rightarrow> [] | Some m \<Rightarrow> m)
            in (if combined \<noteq> [] then Some combined else None, w2)))"

text \<open>
  \<open>Ok None\<close>: the interface need not be created; otherwise the identifier and the host device
  of the code's \<^verbatim>\<open>LinkInfo\<close>.
\<close>

record LinkInfo =
  li_interfaceId :: int
  li_link :: link

definition shouldInterfaceBeCreated ::
  "'w netlink \<Rightarrow> int \<Rightarrow> string \<Rightarrow> string \<Rightarrow> 'w \<Rightarrow> string + LinkInfo option" where
  "shouldInterfaceBeCreated nl ifId ifName hostDevice w =
     (if ifId = 0 then Inr None
      else (case LinkByName nl ifName w of
        Inr _ \<Rightarrow> Inr None
      | Inl _ \<Rightarrow>
          (case LinkByName nl hostDevice w of
             Inl _ \<Rightarrow> Inl (''host device:'' @ hostDevice @ '' is not present in the system'')
           | Inr dev \<Rightarrow> Inr (Some \<lparr>li_interfaceId = ifId, li_link = dev\<rparr>))))"

definition addLink :: "'w netlink \<Rightarrow> new_link \<Rightarrow> 'w \<Rightarrow> string option \<times> 'w" where
  "addLink nl l w =
     (case LinkAdd nl l w of
        (Some msg, w') \<Rightarrow> (Some msg, w')
      | (None, w') \<Rightarrow> LinkSetUp nl (Created l) w')"

definition setupVlan :: "'w netlink \<Rightarrow> int \<Rightarrow> string \<Rightarrow> string \<Rightarrow> ('w, unit) st" where
  "setupVlan nl vlanId netId hdev w =
     (let vlanName = determineVlanHdev vlanId netId hdev in
      case shouldInterfaceBeCreated nl vlanId vlanName hdev w of
        Inl msg \<Rightarrow> (Err (Msg (''cannot set-up host VLAN interface:'' @ msg)), w)
      | Inr None \<Rightarrow> (Ok (), w)
      | Inr (Some hostLink) \<Rightarrow>
          (case addLink nl (NewVlan vlanName (lk_Index (li_link hostLink)) (li_interfaceId hostLink)) w of
             (None, w') \<Rightarrow> (Ok (), w')
           | (Some msg, w') \<Rightarrow> (Err (Msg (''cannot add VLAN interface to host due to:'' @ msg)), w')))"

definition multicast_cidr :: "family \<Rightarrow> string" where
  "multicast_cidr ipFamily = (case ipFamily of FamilyV4 \<Rightarrow> ip4MulticastCidr | FamilyV6 \<Rightarrow> ip6MulticastCidr)"

definition getMulticastIp :: "'w netlink \<Rightarrow> family \<Rightarrow> string \<Rightarrow> ip res" where
  "getMulticastIp nl ipFamily vxlanId =
     (case atoi vxlanId of
        None \<Rightarrow> Err (Msg (''strconv.Atoi: parsing \"'' @ vxlanId @ ''\": invalid syntax''))
      | Some vxlanIdInt \<Rightarrow>
          (case parse_net (multicast_cidr ipFamily) of
             None \<Rightarrow> Err (Msg (''Unable to parse multicast CIDR '' @ multicast_cidr ipFamily))
           | Some mcastNet \<Rightarrow>
               (case CidrHost nl mcastNet vxlanIdInt of
                  Inl msg \<Rightarrow> Err (Msg (''Unable to parse multicast IP due to:'' @ msg))
                | Inr mcastIP \<Rightarrow> Ok mcastIP)))"

text \<open>The first global address of the host device; nil is the empty list.\<close>

definition parseVxlanHostIp :: "'w netlink \<Rightarrow> family \<Rightarrow> link \<Rightarrow> ip \<Rightarrow> 'w \<Rightarrow> ip \<times> ip" where
  "parseVxlanHostIp nl ipFamily hdev mcastFilter w =
     (case AddrList nl hdev ipFamily w of
        Inl _ \<Rightarrow> ([], [])
      | Inr addresses \<Rightarrow>
          (case find fst addresses of None \<Rightarrow> ([], []) | Some (_, a) \<Rightarrow> (a, mcastFilter)))"

text \<open>The source and the group of a VxLAN: over IPv4, or else over IPv6.\<close>

definition vxlan_endpoints :: "'w netlink \<Rightarrow> int \<Rightarrow> link \<Rightarrow> 'w \<Rightarrow> (ip \<times> ip) res" where
  "vxlan_endpoints nl vxlanId hostDev w =
     bind_res (getMulticastIp nl FamilyV4 (itoa vxlanId)) (\<lambda>mcastIP.
       (let (addr, mcast) = parseVxlanHostIp nl FamilyV4 hostDev mcastIP w in
        if addr = [] then
          bind_res (getMulticastIp nl FamilyV6 (itoa vxlanId)) (\<lambda>mcastIP6.
            Ok (parseVxlanHostIp nl FamilyV6 hostDev mcastIP6 w))
        else Ok (addr, mcast)))"

definition setupVxlan :: "'w netlink \<Rightarrow> int \<Rightarrow> string \<Rightarrow> string \<Rightarrow> ('w, unit) st" where
  "setupVxlan nl vxlanId netId hdev w =
     (let vxlanName = ''vx_'' @ netId in
      case shouldInterfaceBeCreated nl vxlanId vxlanName hdev w of
        Inl msg \<Rightarrow> (Err (Msg (''cannot set-up host VxLAN interface:'' @ msg)), w)
      | Inr None \<Rightarrow> (Ok (), w)
      | Inr (Some hostLink) \<Rightarrow>
          (case vxlan_endpoints nl vxlanId (li_link hostLink) w of
             Ok (addr, mcast) \<Rightarrow>
               (if addr = []
                then (Err (Msg (''VxLAN interface cannot be set-up on top of a host interface:'' @ hdev @
                                '', which does not have an IP'')), w)
                else (case addLink nl (NewVxlan vxlanName (li_interfaceId hostLink) (lk_Index (li_link hostLink)) mcast addr) w of
                        (None, w') \<Rightarrow> (Ok (), w')
                      | (Some msg, w') \<Rightarrow> (Err (Msg (''cannot add VxLAN interface to the host due to:'' @ msg)), w')))
           | Err e \<Rightarrow> (Err e, w)
           | Panic \<Rightarrow> (Panic, w)
           | Hang \<Rightarrow> (Hang, w)))"

definition setupHost :: "'w netlink \<Rightarrow> DanmNet \<Rightarrow> ('w, unit) st" where
  "setupHost nl dnet w =
     (if Device (opts dnet) = [] then (Ok (), w)
      else (let netId = NetworkID (dn_Spec dnet); hdev = Device (opts dnet);
                vxlanId = Vxlan (opts dnet); vlanId = Vlan (opts dnet)
            in if vxlanId = 0 \<and> vlanId = 0 then (Ok (), w)
               else bind_st (setupVlan nl vlanId netId hdev) (\<lambda>_. setupVxlan nl vxlanId netId hdev) w))"

section \<open>What the kernel guarantees\<close>

text \<open>
  The documented behaviour of netlink the properties rest on: a link that was added is found by
  its name, a link that was deleted is not, and no call touches a link of another name.
\<close>

definition present :: "'w netlink \<Rightarrow> string \<Rightarrow> 'w \<Rightarrow> bool" where
  "present nl name w \<longleftrightarrow> (case LinkByName nl name w of Inr _ \<Rightarrow> True | Inl _ \<Rightarrow> False)"

definition netlink_laws :: "'w netlink \<Rightarrow> bool" where
  "netlink_laws nl \<longleftrightarrow>
     (\<forall>l w w'. LinkAdd nl l w = (None, w') \<longrightarrow>
        (\<forall>n. present nl n w' \<longleftrightarrow> n = new_name l \<or> present nl n w)) \<and>
     (\<forall>l w w' m. LinkAdd nl l w = (Some m, w') \<longrightarrow> (\<forall>n. present nl n w' = present nl n w)) \<and>
     (\<forall>r w e w'. LinkSetUp nl r w = (e, w') \<longrightarrow> (\<forall>n. present nl n w' = present nl n w)) \<and>
     (\<forall>name k w w'. LinkByName nl name w = Inr k \<longrightarrow> LinkDel nl k w = (None, w') \<longrightarrow>
        (\<forall>n. present nl n w' \<longleftrightarrow> n \<noteq> name \<and> present nl n w)) \<and>
     (\<forall>k w w' m. LinkDel nl k w = (Some m, w') \<longrightarrow> (\<forall>n. present nl n w' = present nl n w))"

lemma laws_add: "netlink_laws nl \<Longrightarrow> LinkAdd nl l w = (None, w') \<Longrightarrow> present nl n w' \<longleftrightarrow> n = new_name l \<or> present nl n w"
  unfolding netlink_laws_def by (elim conjE) metis

lemma laws_add_fail: "netlink_laws nl \<Longrightarrow> LinkAdd nl l w = (Some m, w') \<Longrightarrow> present nl n w' = present nl n w"
  unfolding netlink_laws_def by (elim conjE) metis

lemma laws_up: "netlink_laws nl \<Longrightarrow> LinkSetUp nl r w = (e, w') \<Longrightarrow> present nl n w' = present nl n w"
  unfolding netlink_laws_def by (elim conjE) metis

lemma laws_del:
  "netlink_laws nl \<Longrightarrow> LinkByName nl name w = Inr k \<Longrightarrow> LinkDel nl k w = (None, w') \<Longrightarrow>
   present nl n w' \<longleftrightarrow> n \<noteq> name \<and> present nl n w"
  unfolding netlink_laws_def by (elim conjE) metis

lemma laws_del_fail: "netlink_laws nl \<Longrightarrow> LinkDel nl k w = (Some m, w') \<Longrightarrow> present nl n w' = present nl n w"
  unfolding netlink_laws_def by (elim conjE) metis

text \<open>A host with a set of named links, for the instances.\<close>

definition toy_netlink :: "string set netlink" where
  "toy_netlink =
     \<lparr>LinkByName = \<lambda>n w. if n \<in> w then Inr \<lparr>lk_Name = n, lk_Index = 1, lk_MTU = 1500\<rparr> else Inl ''Link not found'',
      LinkAdd = \<lambda>l w. (None, insert (new_name l) w), LinkDel = \<lambda>k w. (None, w - {lk_Name k}),
      LinkSetUp = \<lambda>r w. (None, w), AddrList = \<lambda>k f w. Inr [(True, [10, 0, 0, 1])],
      CidrHost = \<lambda>n i. Inr [239, 0, 0, 1]\<rparr>"

lemma toy_present: "present toy_netlink n w \<longleftrightarrow> n \<in> w"
  by (simp add: present_def toy_netlink_def)

lemma toy_laws: "netlink_laws toy_netlink"
  unfolding netlink_laws_def toy_present by (auto simp: toy_netlink_def split: if_splits)

end
