(* ===== verification/NetWatcher.thy ===== *)
theory NetWatcher
  imports HostNet "HOL-Library.AList"
begin

text \<open>
  The watcher half of \<^verbatim>\<open>pkg/netcontrol/netcontrol.go\<close>: which network APIs are
  watched, and what the handlers of their events do to the host. An informer hands a handler
  pointers into its cache, so that a handler which changes its arguments changes the cache:
  the handlers of DanmNets return both objects as they leave them. Log lines are not modelled.
\<close>

section \<open>Events\<close>

record Nad =
  nad_Meta :: ObjectMeta
  nad_Config :: string

text \<open>What an informer may pass to a handler, whose type assertions tell the cases apart.\<close>

datatype informer_obj =
    ODanmNet DanmNet
  | OTenantNetwork DanmNet
  | OClusterNetwork DanmNet
  | ONad Nad
  | OTombstone informer_obj
  | OOther

text \<open>
  The parsers of CNI configurations, JSON objects as maps to values \<open>'j\<close>, and the API of
  NetworkAttachmentDefinitions. \<open>LoadDelegateType\<close> is the type the parsed delegate has.
\<close>

record ('w, 'j) nad_env =
  LoadDelegateType :: "string \<Rightarrow> string + string"
  UnmarshalNetConf :: "string \<Rightarrow> string + NetConf"
  JsonObject :: "string \<Rightarrow> (string \<times> 'j) list"
  JsonMarshal :: "(string \<times> 'j) list \<Rightarrow> string"
  JsonString :: "string \<Rightarrow> 'j"
  NadUpdate :: "string \<Rightarrow> Nad \<Rightarrow> 'w \<Rightarrow> string option \<times> 'w"

section \<open>Host interfaces after events\<close>

definition zeroVlan :: "DanmNet \<Rightarrow> DanmNet" where
  "zeroVlan = set_opts (\<lambda>oo. oo\<lparr>Vlan := 0\<rparr>)"

definition zeroVxlan :: "DanmNet \<Rightarrow> DanmNet" where
  "zeroVxlan = set_opts (\<lambda>oo. oo\<lparr>Vxlan := 0\<rparr>)"

definition zeroVnis :: "DanmNet \<Rightarrow> DanmNet \<Rightarrow> DanmNet \<times> DanmNet" where
  "zeroVnis oldDn newDn =
     (let (o1, n1) = (if Vlan (opts oldDn) = Vlan (opts newDn) \<and> Device (opts oldDn) = Device (opts newDn)
                      then (zeroVlan oldDn, zeroVlan newDn) else (oldDn, newDn)) in
      if Vxlan (opts o1) = Vxlan (opts n1) \<and> Device (opts o1) = Device (opts n1)
      then (zeroVxlan o1, zeroVxlan n1) else (o1, n1))"

text \<open>The errors of both steps are only logged.\<close>

definition replace_host_interfaces :: "'w netlink \<Rightarrow> DanmNet \<Rightarrow> DanmNet \<Rightarrow> ('w, unit) st" where
  "replace_host_interfaces nl oldDn newDn w =
     (case setupHost nl newDn (snd (deleteNetworks nl oldDn w)) of
        (Panic, w') \<Rightarrow> (Panic, w')
      | (Hang, w') \<Rightarrow> (Hang, w')
      | (_, w') \<Rightarrow> (Ok (), w'))"

definition logged :: "('w, unit) st \<Rightarrow> ('w, unit) st" where
  "logged m w = (case m w of (Err e, w') \<Rightarrow> (Ok (), w') | r \<Rightarrow> r)"

definition AddDanmNet :: "'w netlink \<Rightarrow> informer_obj \<Rightarrow> ('w, unit) st" where
  "AddDanmNet nl obj =
     (case obj of ODanmNet dn \<Rightarrow> logged (setupHost nl dn) | _ \<Rightarrow> return_st (Ok ()))"

text \<open>The objects as the handler leaves them.\<close>

definition UpdateDanmNet ::
  "'w netlink \<Rightarrow> informer_obj \<Rightarrow> informer_obj \<Rightarrow> 'w \<Rightarrow> (unit res \<times> informer_obj \<times> informer_obj) \<times> 'w" where
  "UpdateDanmNet nl oldObj newObj w =
     (case (oldObj, newObj) of
        (ODanmNet oldDn, ODanmNet newDn) \<Rightarrow>
          (let (o', n') = zeroVnis oldDn newDn; (r, w') = replace_host_interfaces nl o' n' w
           in ((r, ODanmNet o', ODanmNet n'), w'))
      | _ \<Rightarrow> ((Ok (), oldObj, newObj), w))"

definition DeleteDanmNet :: "'w netlink \<Rightarrow> informer_obj \<Rightarrow> 'w \<Rightarrow> 'w" where
  "DeleteDanmNet nl obj w =
     (case obj of
        ODanmNet dn \<Rightarrow> snd (deleteNetworks nl dn w)
      | OTombstone (ODanmNet dn) \<Rightarrow> snd (deleteNetworks nl dn w)
      | _ \<Rightarrow> w)"

text \<open>The other kinds are converted, which copies them: the cache keeps the original.\<close>

definition AddTenantNetwork :: "'w netlink \<Rightarrow> informer_obj \<Rightarrow> ('w, unit) st" where
  "AddTenantNetwork nl obj =
     (case obj of OTenantNetwork tn \<Rightarrow> logged (setupHost nl (ConvertTnetToDnet tn)) | _ \<Rightarrow> return_st (Ok ()))"

definition UpdateTenantNetwork :: "'w netlink \<Rightarrow> informer_obj \<Rightarrow> informer_obj \<Rightarrow> ('w, unit) st" where
  "UpdateTenantNetwork nl oldObj newObj =
     (case (oldObj, newObj) of
        (OTenantNetwork oldTn, OTenantNetwork newTn) \<Rightarrow>
          (let (o', n') = zeroVnis (ConvertTnetToDnet oldTn) (ConvertTnetToDnet newTn)
           in replace_host_interfaces nl o' n')
      | _ \<Rightarrow> return_st (Ok ()))"

definition DeleteTenantNetwork :: "'w netlink \<Rightarrow> informer_obj \<Rightarrow> 'w \<Rightarrow> 'w" where
  "DeleteTenantNetwork nl obj w =
     (case obj of
        OTenantNetwork tn \<Rightarrow> snd (deleteNetworks nl (ConvertTnetToDnet tn) w)
      | OTombstone (OTenantNetwork tn) \<Rightarrow> snd (deleteNetworks nl (ConvertTnetToDnet tn) w)
      | _ \<Rightarrow> w)"

definition AddClusterNetwork :: "'w netlink \<Rightarrow> informer_obj \<Rightarrow> ('w, unit) st" where
  "AddClusterNetwork nl obj =
     (case obj of OClusterNetwork cn \<Rightarrow> logged (setupHost nl (ConvertCnetToDnet cn)) | _ \<Rightarrow> return_st (Ok ()))"

definition UpdateClusterNetwork :: "'w netlink \<Rightarrow> informer_obj \<Rightarrow> informer_obj \<Rightarrow> ('w, unit) st" where
  "UpdateClusterNetwork nl oldObj newObj =
     (case (oldObj, newObj) of
        (OClusterNetwork oldCn, OClusterNetwork newCn) \<Rightarrow>
          (let (o', n') = zeroVnis (ConvertCnetToDnet oldCn) (ConvertCnetToDnet newCn)
           in replace_host_interfaces nl o' n')
      | _ \<Rightarrow> return_st (Ok ()))"

definition DeleteClusterNetwork :: "'w netlink \<Rightarrow> informer_obj \<Rightarrow> 'w \<Rightarrow> 'w" where
  "DeleteClusterNetwork nl obj w =
     (case obj of
        OClusterNetwork cn \<Rightarrow> snd (deleteNetworks nl (ConvertCnetToDnet cn) w)
      | OTombstone (OClusterNetwork cn) \<Rightarrow> snd (deleteNetworks nl (ConvertCnetToDnet cn) w)
      | _ \<Rightarrow> w)"

section \<open>NetworkAttachmentDefinitions\<close>

definition convertNadToDnet :: "('w, 'j) nad_env \<Rightarrow> Nad \<Rightarrow> DanmNet res" where
  "convertNadToDnet env nad =
     (let dnet = empty_net\<lparr>dn_Kind := NadKind, dn_Meta := nad_Meta nad\<rparr> in
      case LoadDelegateType env (nad_Config nad) of
        Inl msg \<Rightarrow> Err (Msg (''could not parse CNI config from Nad.Spec.Config into delegate type because:'' @ msg))
      | Inr delegateType \<Rightarrow>
          if delegateType = [] then Ok dnet
          else (case UnmarshalNetConf env (nad_Config nad) of
            Inl msg \<Rightarrow> Err (Msg (''could not parse CNI config from Nad.Spec.Config into netconf type because:'' @ msg))
          | Inr netConf \<Rightarrow> Ok (dnet\<lparr>dn_Spec :=
              \<lparr>NetworkID = nc_Name netConf, NetworkType = nc_Type netConf, AllowedTenants = None,
               Options = empty_options\<lparr>Device := nc_Master netConf, Vlan := nc_Vlan netConf,
                                      Vxlan := nc_Vxlan netConf\<rparr>\<rparr>\<rparr>)))"

definition PatchCniConf :: "('w, 'j) nad_env \<Rightarrow> string \<Rightarrow> string \<Rightarrow> 'j \<Rightarrow> string" where
  "PatchCniConf env rawConf patchKey patchValue =
     JsonMarshal env (AList.update patchKey patchValue (JsonObject env rawConf))"

definition patch_master :: "('w, 'j) nad_env \<Rightarrow> Nad \<Rightarrow> DanmNet \<Rightarrow> 'w \<Rightarrow> 'w" where
  "patch_master env nad dnet w =
     snd (NadUpdate env (mt_Namespace (nad_Meta nad))
       (nad\<lparr>nad_Config := PatchCniConf env (nad_Config nad) ''master'' (JsonString env (DetermineHostDeviceName dnet))\<rparr>) w)"

definition AddNad :: "'w netlink \<Rightarrow> ('w, 'j) nad_env \<Rightarrow> informer_obj \<Rightarrow> ('w, unit) st" where
  "AddNad nl env obj w =
     (case obj of
        ONad nad \<Rightarrow>
          (case convertNadToDnet env nad of
             Ok dnet \<Rightarrow>
               (case setupHost nl dnet w of
                  (Ok _, w') \<Rightarrow>
                    (Ok (), if Vlan (opts dnet) \<noteq> 0 \<or> Vxlan (opts dnet) \<noteq> 0 then patch_master env nad dnet w' else w')
                | (Err e, w') \<Rightarrow> (Ok (), w')
                | r \<Rightarrow> r)
           | _ \<Rightarrow> (Ok (), w))
      | _ \<Rightarrow> (Ok (), w))"

definition UpdateNad :: "'w netlink \<Rightarrow> ('w, 'j) nad_env \<Rightarrow> informer_obj \<Rightarrow> informer_obj \<Rightarrow> ('w, unit) st" where
  "UpdateNad nl env oldObj newObj w =
     (case (oldObj, newObj) of
        (ONad oldNad, ONad newNad) \<Rightarrow>
          (case (convertNadToDnet env oldNad, convertNadToDnet env newNad) of
             (Ok oldDn, Ok newDn) \<Rightarrow>
               (let parentUpdateNeeded = (DetermineHostDeviceName oldDn \<noteq> DetermineHostDeviceName newDn);
                    (o', n') = zeroVnis oldDn newDn;
                    (r, w') = replace_host_interfaces nl o' n' w
                in (case r of
                      Ok _ \<Rightarrow> (Ok (), if parentUpdateNeeded then patch_master env newNad n' w' else w')
                    | _ \<Rightarrow> (r, w')))
           | _ \<Rightarrow> (Ok (), w))
      | _ \<Rightarrow> (Ok (), w))"

definition delete_nad :: "'w netlink \<Rightarrow> ('w, 'j) nad_env \<Rightarrow> Nad \<Rightarrow> 'w \<Rightarrow> 'w" where
  "delete_nad nl env nad w =
     (case convertNadToDnet env nad of Ok dnet \<Rightarrow> snd (deleteNetworks nl dnet w) | _ \<Rightarrow> w)"

definition DeleteNad :: "'w netlink \<Rightarrow> ('w, 'j) nad_env \<Rightarrow> informer_obj \<Rightarrow> 'w \<Rightarrow> 'w" where
  "DeleteNad nl env obj w =
     (case obj of
        ONad nad \<Rightarrow> delete_nad nl env nad w
      | OTombstone (ONad nad) \<Rightarrow> delete_nad nl env nad w
      | _ \<Rightarrow> w)"

section \<open>Discovering the APIs\<close>

text \<open>
  Creating a client and listing an API are the cluster's answers. A watched API has a
  controller under its kind; the four kinds are tried in this order.
\<close>

definition MaxDiscoveryCount :: nat where "MaxDiscoveryCount = 5"

record 'w cluster =
  NewForConfig :: "string \<Rightarrow> 'w \<Rightarrow> string option \<times> 'w"
  ListApi :: "string \<Rightarrow> 'w \<Rightarrow> string option \<times> 'w"

fun discover :: "'w cluster \<Rightarrow> nat \<Rightarrow> string \<Rightarrow> 'w \<Rightarrow> bool \<times> 'w" where
  "discover cl 0 kind w = (False, w)"
| "discover cl (Suc k) kind w =
     (case ListApi cl kind w of
        (None, w') \<Rightarrow> (True, w')
      | (Some msg, w') \<Rightarrow> discover cl k kind w')"

fun discover_all :: "'w cluster \<Rightarrow> string list \<Rightarrow> string list \<Rightarrow> ('w, string list) st" where
  "discover_all cl [] found w = (Ok found, w)"
| "discover_all cl (kind # kinds) found w =
     (case NewForConfig cl kind w of
        (Some msg, w') \<Rightarrow> (Err (ApiError msg), w')
      | (None, w') \<Rightarrow>
          (let (installed, w'') = discover cl MaxDiscoveryCount kind w'
           in discover_all cl kinds (if installed then found @ [kind] else found) w''))"

definition no_apis :: error where
  "no_apis = Msg ''no network management APIs are installed in the cluster, netwatcher cannot start!''"

definition NewWatcher :: "'w cluster \<Rightarrow> ('w, string list) st" where
  "NewWatcher cl =
     bind_st (discover_all cl [DanmNetKind, TenantNetworkKind, ClusterNetworkKind, NadKind] [])
       (\<lambda>controllers. return_st (if controllers = [] then Err no_apis else Ok controllers))"

section \<open>Event handlers of the informers\<close>

text \<open>
  What the controller of each API calls for an event. The objects of a DanmNet update are the
  cache's; as an update changes them, the events that follow deliver the changed ones, which is
  the caller's to model.
\<close>

datatype watch_event =
    Added informer_obj
  | Updated informer_obj informer_obj
  | Deleted informer_obj

fun createDnetInformer :: "'w netlink \<Rightarrow> watch_event \<Rightarrow> ('w, unit) st" where
  "createDnetInformer nl (Added obj) w = AddDanmNet nl obj w"
| "createDnetInformer nl (Updated old new) w = (let ((r, _, _), w') = UpdateDanmNet nl old new w in (r, w'))"
| "createDnetInformer nl (Deleted obj) w = (Ok (), DeleteDanmNet nl obj w)"

fun createTnetInformer :: "'w netlink \<Rightarrow> watch_event \<Rightarrow> ('w, unit) st" where
  "createTnetInformer nl (Added obj) w = AddTenantNetwork nl obj w"
| "createTnetInformer nl (Updated old new) w = UpdateTenantNetwork nl old new w"
| "createTnetInformer nl (Deleted obj) w = (Ok (), DeleteTenantNetwork nl obj w)"

fun createCnetInformer :: "'w netlink \<Rightarrow> watch_event \<Rightarrow> ('w, unit) st" where
  "createCnetInformer nl (Added obj) w = AddClusterNetwork nl obj w"
| "createCnetInformer nl (Updated old new) w = UpdateClusterNetwork nl old new w"
| "createCnetInformer nl (Deleted obj) w = (Ok (), DeleteClusterNetwork nl obj w)"

fun createNadInformer :: "'w netlink \<Rightarrow> ('w, 'j) nad_env \<Rightarrow> watch_event \<Rightarrow> ('w, unit) st" where
  "createNadInformer nl env (Added obj) w = AddNad nl env obj w"
| "createNadInformer nl env (Updated old new) w = UpdateNad nl env old new w"
| "createNadInformer nl env (Deleted obj) w = (Ok (), DeleteNad nl env obj w)"

text \<open>
  A watch that ends: an expired or closed one is opened again, any other error ends the process
  after its stop channel was served. The classes of the error are the API library's.
\<close>

datatype watch_error = ResourceExpired | Gone | Eof | OtherWatchError
datatype watch_outcome = Reestablished | StoppedAndExited

definition WatchErrorHandler :: "watch_error \<Rightarrow> watch_outcome" where
  "WatchErrorHandler err =
     (if err = ResourceExpired \<or> err = Gone \<or> err = Eof then Reestablished else StoppedAndExited)"

end
