(* ===== verification/WatcherProps.thy ===== *)
theory WatcherProps
  imports NetWatcher DanmEps
begin

text \<open>
  What the watcher does to a host, on a kernel that keeps the laws of \<open>netlink_laws\<close>: the
  device Pods attach to exists after a network was set up, an update moves the interface when the
  VLAN changed; and two behaviours that leave the host in another state than the networks say.
\<close>

section \<open>Frames\<close>

lemma addLink_present:
  assumes "netlink_laws nl" and "addLink nl l w = (e, w')"
  shows "present nl n w \<Longrightarrow> present nl n w'" and "present nl n w' \<Longrightarrow> n = new_name l \<or> present nl n w"
    and "e = None \<Longrightarrow> present nl (new_name l) w'"
  using assms by (auto simp: addLink_def laws_add laws_add_fail laws_up split: prod.splits option.splits)

definition only_adds :: "'w netlink \<Rightarrow> string set \<Rightarrow> 'w \<Rightarrow> 'w \<Rightarrow> bool" where
  "only_adds nl names w w' \<longleftrightarrow>
     (\<forall>n. (present nl n w \<longrightarrow> present nl n w') \<and> (present nl n w' \<longrightarrow> present nl n w \<or> n \<in> names))"

lemma only_adds_refl [simp]: "only_adds nl names w w"
  by (simp add: only_adds_def)

lemma only_adds_trans: "only_adds nl A w u \<Longrightarrow> only_adds nl B u v \<Longrightarrow> only_adds nl (A \<union> B) w v"
  by (auto simp: only_adds_def)

lemma setupVlan_adds:
  assumes "netlink_laws nl" and "setupVlan nl v nid hdev w = (r, w')"
  shows "only_adds nl (if v = 0 then {} else {determineVlanHdev v nid hdev}) w w'"
    and "r = Ok () \<Longrightarrow> v \<noteq> 0 \<Longrightarrow> present nl (determineVlanHdev v nid hdev) w'"
  using assms addLink_present [OF assms(1)]
  by (auto simp: setupVlan_def shouldInterfaceBeCreated_def Let_def present_def [symmetric] only_adds_def
      split: sum.splits option.splits if_splits prod.splits) (fastforce simp: present_def)+

lemma setupVxlan_adds:
  assumes "netlink_laws nl" and "setupVxlan nl v nid hdev w = (r, w')"
  shows "only_adds nl (if v = 0 then {} else {''vx_'' @ nid}) w w'"
    and "r = Ok () \<Longrightarrow> v \<noteq> 0 \<Longrightarrow> present nl (''vx_'' @ nid) w'"
  using assms addLink_present [OF assms(1)]
  by (auto simp: setupVxlan_def shouldInterfaceBeCreated_def Let_def present_def [symmetric] only_adds_def
      split: sum.splits option.splits if_splits prod.splits res.splits) (fastforce simp: present_def)+

text \<open>The interfaces a network owns on a host.\<close>

definition owned :: "DanmNet \<Rightarrow> string set" where
  "owned n = (if Vlan (opts n) = 0 then {} else {NetworkID (dn_Spec n) @ ''.'' @ itoa (Vlan (opts n))}) \<union>
     (if Vxlan (opts n) = 0 then {} else {''vx_'' @ NetworkID (dn_Spec n)})"

lemma setupHost_eq:
  "setupHost nl n w =
     (if Device (opts n) = [] \<or> (Vxlan (opts n) = 0 \<and> Vlan (opts n) = 0) then (Ok (), w)
      else bind_st (setupVlan nl (Vlan (opts n)) (NetworkID (dn_Spec n)) (Device (opts n)))
        (\<lambda>_. setupVxlan nl (Vxlan (opts n)) (NetworkID (dn_Spec n)) (Device (opts n))) w)"
  by (simp add: setupHost_def Let_def)

lemma setupHost_adds:
  assumes laws: "netlink_laws nl" and r: "setupHost nl n w = (r, w')"
  shows "only_adds nl (owned n) w w'"
    and "r = Ok () \<Longrightarrow> Device (opts n) \<noteq> [] \<Longrightarrow> \<forall>i \<in> owned n. present nl i w'"
proof -
  let ?nid = "NetworkID (dn_Spec n)" and ?d = "Device (opts n)" and ?vlan = "Vlan (opts n)" and ?vx = "Vxlan (opts n)"
  have vlan: "determineVlanHdev ?vlan ?nid ?d = ?nid @ ''.'' @ itoa ?vlan" if "?vlan \<noteq> 0"
    using that by (simp add: determineVlanHdev_def)
  have both: "only_adds nl (owned n) w w' \<and> (r = Ok () \<longrightarrow> ?d \<noteq> [] \<longrightarrow> (\<forall>i \<in> owned n. present nl i w'))"
  proof (cases "?d = [] \<or> (?vx = 0 \<and> ?vlan = 0)")
    case True
    with r have "w' = w" "?d = [] \<or> owned n = {}"
      by (auto simp: setupHost_eq owned_def)
    then show ?thesis by auto
  next
    case False
    obtain r1 w1 where v1: "setupVlan nl ?vlan ?nid ?d w = (r1, w1)" by fastforce
    note a1 = setupVlan_adds [OF laws v1]
    show ?thesis
    proof (cases "r1 = Ok ()")
      case True
      with False r v1 have v2: "setupVxlan nl ?vx ?nid ?d w1 = (r, w')" by (auto simp: setupHost_eq bind_st_Ok split: if_splits)
      note a2 = setupVxlan_adds [OF laws v2]
      have "only_adds nl (owned n) w w'"
        using only_adds_trans [OF a1(1) a2(1)] vlan by (auto simp: owned_def split: if_splits)
      moreover have "present nl i w'" if "r = Ok ()" "i \<in> owned n" for i
        using that a1(2) [OF True] a2 vlan by (auto simp: owned_def only_adds_def split: if_splits)
      ultimately show ?thesis by blast
    next
      case bad: False
      with False r v1 have "w' = w1" "r \<noteq> Ok ()" by (auto simp: setupHost_eq bind_st_def split: res.splits)
      then show ?thesis using a1(1) vlan by (auto simp: only_adds_def owned_def split: if_splits)
    qed
  qed
  then show "only_adds nl (owned n) w w'" "r = Ok () \<Longrightarrow> ?d \<noteq> [] \<Longrightarrow> \<forall>i \<in> owned n. present nl i w'" by auto
qed

definition deletions_succeed :: "'w netlink \<Rightarrow> bool" where
  "deletions_succeed nl \<longleftrightarrow> (\<forall>k w. fst (LinkDel nl k w) = None)"

lemma deleteHostInterface_present:
  assumes "netlink_laws nl" and "deletions_succeed nl"
  shows "present nl i (snd (deleteHostInterface nl v name w)) \<longleftrightarrow> present nl i w \<and> (v \<noteq> 0 \<longrightarrow> i \<noteq> name)"
proof (cases "v = 0")
  case True
  then show ?thesis by (simp add: deleteHostInterface_def)
next
  case v: False
  show ?thesis
  proof (cases "LinkByName nl name w")
    case (Inl m)
    then have "\<not> present nl name w" by (simp add: present_def)
    with Inl v show ?thesis by (auto simp: deleteHostInterface_def)
  next
    case (Inr k)
    obtain w' where "LinkDel nl k w = (None, w')"
      using assms(2) unfolding deletions_succeed_def by (metis prod.collapse)
    with Inr v laws_del [OF assms(1) Inr] show ?thesis by (auto simp: deleteHostInterface_def)
  qed
qed

lemma deleteNetworks_present:
  assumes "netlink_laws nl" and "deletions_succeed nl" and "Device (opts n) \<noteq> []"
  shows "present nl i (snd (deleteNetworks nl n w)) \<longleftrightarrow> present nl i w \<and> i \<notin> owned n"
proof -
  let ?nid = "NetworkID (dn_Spec n)" and ?vlan = "Vlan (opts n)"
  have "snd (deleteNetworks nl n w) = snd (deleteHostInterface nl ?vlan (determineVlanHdev ?vlan ?nid (Device (opts n)))
      (snd (deleteHostInterface nl (Vxlan (opts n)) (''vx_'' @ ?nid) w)))"
    using assms(3) by (simp add: deleteNetworks_def Let_def split_beta)
  then show ?thesis
    by (auto simp: deleteHostInterface_present [OF assms(1,2)] owned_def determineVlanHdev_def)
qed

lemma replace_present:
  assumes laws: "netlink_laws nl" and del: "deletions_succeed nl" and dev: "Device (opts o') \<noteq> []"
    and r: "replace_host_interfaces nl o' n' w = (r, w')"
  shows "present nl i w \<Longrightarrow> i \<notin> owned o' \<Longrightarrow> present nl i w'"
    and "present nl i w' \<Longrightarrow> i \<in> owned n' \<or> (present nl i w \<and> i \<notin> owned o')"
proof -
  let ?w1 = "snd (deleteNetworks nl o' w)"
  obtain r2 where s: "setupHost nl n' ?w1 = (r2, w')"
    using r by (auto simp: replace_host_interfaces_def split: prod.splits res.splits)
  note a = setupHost_adds(1) [OF laws s] and d = deleteNetworks_present [OF laws del dev]
  show "present nl i w \<Longrightarrow> i \<notin> owned o' \<Longrightarrow> present nl i w'" using a d by (auto simp: only_adds_def)
  show "present nl i w' \<Longrightarrow> i \<in> owned n' \<or> (present nl i w \<and> i \<notin> owned o')" using a d by (auto simp: only_adds_def)
qed

lemma zero_simps [simp]:
  "Vlan (opts (zeroVlan n)) = 0" "Vxlan (opts (zeroVlan n)) = Vxlan (opts n)" "Device (opts (zeroVlan n)) = Device (opts n)"
  "Vlan (opts (zeroVxlan n)) = Vlan (opts n)" "Vxlan (opts (zeroVxlan n)) = 0" "Device (opts (zeroVxlan n)) = Device (opts n)"
  "dn_Spec (zeroVlan n) = (dn_Spec n)\<lparr>Options := (opts n)\<lparr>Vlan := 0\<rparr>\<rparr>"
  "dn_Spec (zeroVxlan n) = (dn_Spec n)\<lparr>Options := (opts n)\<lparr>Vxlan := 0\<rparr>\<rparr>"
  by (simp_all add: zeroVlan_def zeroVxlan_def set_opts_def)

text \<open>Nothing owned, nothing done.\<close>

lemma owned_empty_idle:
  assumes "Vlan (opts n) = 0" and "Vxlan (opts n) = 0"
  shows "deleteNetworks nl n w = (None, w)" "setupHost nl n w = (Ok (), w)"
  using assms by (simp_all add: deleteNetworks_def deleteHostInterface_def setupHost_def Let_def)

section \<open>Properties\<close>

text \<open>
  C25. Pods find the device they attach to: after a successful set-up of a network with a VLAN or a
  VxLAN the host has the interface whose name \<open>DetermineHostDeviceName\<close> gives the plugins,
  and every interface it had before.
\<close>

theorem setupHost_provides_device:
  assumes "netlink_laws nl" and "setupHost nl n w = (Ok (), w')"
    and "Device (opts n) \<noteq> []" and "Vlan (opts n) \<noteq> 0 \<or> Vxlan (opts n) \<noteq> 0"
  shows "present nl (DetermineHostDeviceName n) w' \<and> (\<forall>i. present nl i w \<longrightarrow> present nl i w')"
proof -
  have "DetermineHostDeviceName n \<in> owned n"
    using assms(4) by (auto simp: DetermineHostDeviceName_def owned_def)
  then show ?thesis using setupHost_adds [OF assms(1,2)] assms(3) by (auto simp: only_adds_def)
qed

definition toy_net :: DanmNet where
  "toy_net = \<lparr>dn_Kind = ''DanmNet'', dn_Meta = empty_meta\<lparr>mt_Name := ''n1''\<rparr>, dn_Spec = \<lparr>NetworkID = ''n1'',
     NetworkType = ''ipvlan'', AllowedTenants = None, Options = empty_options\<lparr>Vlan := 50, Device := ''ens4''\<rparr>\<rparr>\<rparr>"

lemma toy_net_fields:
  "Vlan (opts toy_net) = 50" "Vxlan (opts toy_net) = 0" "Device (opts toy_net) = ''ens4''"
  "NetworkID (dn_Spec toy_net) = ''n1''" "DetermineHostDeviceName toy_net = ''n1.50''"
  by code_simp+

lemma toy_deletions: "deletions_succeed toy_netlink"
  by (simp add: deletions_succeed_def toy_netlink_def)

theorem setupHost_provides_device_witness: "present toy_netlink ''n1.50'' {''ens4'', ''n1.50''}"
proof -
  have "setupHost toy_netlink toy_net {''ens4''} = (Ok (), {''ens4'', ''n1.50''})" by code_simp
  from setupHost_provides_device [OF toy_laws this] show ?thesis by (simp add: toy_net_fields)
qed

text \<open>
  An update of a ClusterNetwork follows the VLAN: if the VLAN changed on the same host device,
  the interface of the old VLAN is gone afterwards, no interface foreign to the network is
  touched, and if nothing changed the host is left exactly as it was.
\<close>

theorem cluster_update_follows_vlan:
  assumes laws: "netlink_laws nl" and del: "deletions_succeed nl"
    and net: "Device (opts old) \<noteq> []" "Device (opts new) = Device (opts old)"
      "NetworkID (dn_Spec new) = NetworkID (dn_Spec old)" "Vxlan (opts old) = 0" "Vxlan (opts new) = 0"
      "0 \<le> Vlan (opts old)" "0 \<le> Vlan (opts new)"
    and r: "UpdateClusterNetwork nl (OClusterNetwork old) (OClusterNetwork new) w = (r, w')"
  shows "if Vlan (opts new) = Vlan (opts old) then w' = w
    else (\<forall>i \<in> owned old. \<not> present nl i w') \<and>
      (\<forall>i. i \<notin> owned old \<union> owned new \<longrightarrow> present nl i w' = present nl i w)"
proof -
  let ?o = "ConvertCnetToDnet old" and ?n = "ConvertCnetToDnet new"
  have same: "dn_Spec ?o = dn_Spec old" "dn_Spec ?n = dn_Spec new" by (simp_all add: ConvertCnetToDnet_def)
  show ?thesis
  proof (cases "Vlan (opts new) = Vlan (opts old)")
    case True
    let ?o' = "zeroVxlan (zeroVlan ?o)" and ?n' = "zeroVxlan (zeroVlan ?n)"
    have "zeroVnis ?o ?n = (?o', ?n')" using True net same by (simp add: zeroVnis_def)
    moreover have "replace_host_interfaces nl ?o' ?n' w = (Ok (), w)"
      by (simp add: replace_host_interfaces_def owned_empty_idle)
    ultimately show ?thesis using r True by (simp add: UpdateClusterNetwork_def)
  next
    case False
    have z: "zeroVnis ?o ?n = (zeroVxlan ?o, zeroVxlan ?n)" using False net same by (simp add: zeroVnis_def)
    with r have rep: "replace_host_interfaces nl (zeroVxlan ?o) (zeroVxlan ?n) w = (r, w')"
      by (simp add: UpdateClusterNetwork_def)
    have owned: "owned (zeroVxlan ?o) = owned old" "owned (zeroVxlan ?n) = owned new"
      using net same by (simp_all add: owned_def)
    have "Device (opts (zeroVxlan ?o)) \<noteq> []" using net same by simp
    note p = replace_present [OF laws del this rep, unfolded owned]
    have "itoa (Vlan (opts old)) \<noteq> itoa (Vlan (opts new))" using False net itoa_inj by metis
    then have "owned old \<inter> owned new = {}" using net by (auto simp: owned_def)
    with p False show ?thesis by fastforce
  qed
qed

theorem cluster_update_follows_vlan_witness:
  "\<not> present toy_netlink ''n1.50'' {''ens4'', ''n1.60''}"
proof -
  let ?new = "set_opts (\<lambda>oo. oo\<lparr>Vlan := 60\<rparr>) toy_net"
  have r: "UpdateClusterNetwork toy_netlink (OClusterNetwork toy_net) (OClusterNetwork ?new) {''ens4'', ''n1.50''} =
      (Ok (), {''ens4'', ''n1.60''})" by code_simp
  have "owned toy_net = {''n1.50''}" by code_simp
  with cluster_update_follows_vlan [OF toy_laws toy_deletions _ _ _ _ _ _ _ r] show ?thesis
    by (simp add: toy_net_fields)
qed

text \<open>
  The cached DanmNets lose their VNIs: a resync passes one cached object as the old and the new
  one, and the handler zeroes its VNIs in the cache; when the VLAN changes later, the interface
  of the old VLAN stays on the host.
\<close>

theorem danmnet_resync_leaks_interface:
  assumes laws: "netlink_laws nl" and del: "deletions_succeed nl" and dev: "Device (opts n) \<noteq> []"
    and resync: "UpdateDanmNet nl (ODanmNet n) (ODanmNet n) w = ((r, c, c'), w1)"
    and change: "UpdateDanmNet nl c' (ODanmNet new) w1 = (x, w2)"
    and iface: "present nl i w" "i \<in> owned n"
  shows "present nl i w2"
proof -
  let ?n' = "zeroVxlan (zeroVlan n)"
  have "zeroVnis n n = (?n', ?n')" by (simp add: zeroVnis_def)
  moreover have "replace_host_interfaces nl ?n' ?n' w = (Ok (), w)"
    by (simp add: replace_host_interfaces_def owned_empty_idle)
  ultimately have c: "c' = ODanmNet ?n'" "w1 = w" using resync by (auto simp: UpdateDanmNet_def)
  obtain o2 n2 where z: "zeroVnis ?n' new = (o2, n2)" by fastforce
  then have o2: "Vlan (opts o2) = 0" "Vxlan (opts o2) = 0" "Device (opts o2) = Device (opts n)"
    by (auto simp: zeroVnis_def Let_def split: if_splits)
  obtain r2 where rep: "replace_host_interfaces nl o2 n2 w = (r2, w2)"
    using change c z by (auto simp: UpdateDanmNet_def split: prod.splits)
  have "Device (opts o2) \<noteq> []" "i \<notin> owned o2" using o2 dev by (simp_all add: owned_def)
  then show ?thesis using replace_present(1) [OF laws del _ rep] iface by blast
qed

theorem danmnet_resync_leaks_interface_witness:
  "present toy_netlink ''n1.50'' {''ens4'', ''n1.50'', ''n1.60''}"
proof -
  let ?w = "{''ens4'', ''n1.50''}" and ?n' = "zeroVxlan (zeroVlan toy_net)"
  have 1: "UpdateDanmNet toy_netlink (ODanmNet toy_net) (ODanmNet toy_net) ?w = ((Ok (), ODanmNet ?n', ODanmNet ?n'), ?w)"
    by code_simp
  let ?u = "UpdateDanmNet toy_netlink (ODanmNet ?n') (ODanmNet (set_opts (\<lambda>oo. oo\<lparr>Vlan := 60\<rparr>) toy_net)) ?w"
  have "snd ?u = {''ens4'', ''n1.50'', ''n1.60''}" by code_simp
  then have 2: "?u = (fst ?u, {''ens4'', ''n1.50'', ''n1.60''})" by (metis prod.collapse)
  have "''n1.50'' \<in> owned toy_net" by code_simp
  then show ?thesis
    using danmnet_resync_leaks_interface [OF toy_laws toy_deletions _ 1 2, of "''n1.50''"]
    by (simp add: toy_net_fields toy_present)
qed

text \<open>
  The watcher undoes its own set-up of a NetworkAttachmentDefinition: it writes the name of the
  VLAN interface it created into the definition as the parent device, and the update event of
  that write makes it delete the interface, which it then cannot create again on itself.
\<close>

theorem nad_master_update_removes_interface:
  assumes laws: "netlink_laws nl" and del: "deletions_succeed nl"
    and old: "convertNadToDnet env oldNad = Ok old" and new: "convertNadToDnet env newNad = Ok new"
    and vlan: "Vlan (opts old) \<noteq> 0" "Vxlan (opts old) = 0" "Device (opts old) \<noteq> []" "Device (opts old) \<noteq> DetermineHostDeviceName old"
    and patched: "new = old\<lparr>dn_Spec := (dn_Spec old)\<lparr>Options := (opts old)\<lparr>Device := DetermineHostDeviceName old\<rparr>\<rparr>\<rparr>"
    and r: "UpdateNad nl env (ONad oldNad) (ONad newNad) w = (r, w')"
  shows "r = Ok () \<and> \<not> present nl (DetermineHostDeviceName old) w'"
proof -
  let ?i = "DetermineHostDeviceName old"
  have i: "?i = NetworkID (dn_Spec old) @ ''.'' @ itoa (Vlan (opts old))" using vlan by (simp add: DetermineHostDeviceName_def)
  have fields: "Vlan (opts new) = Vlan (opts old)" "Vxlan (opts new) = 0" "Device (opts new) = ?i"
    "NetworkID (dn_Spec new) = NetworkID (dn_Spec old)" using patched vlan by simp_all
  then have same: "DetermineHostDeviceName new = ?i" using vlan by (simp add: DetermineHostDeviceName_def)
  have z: "zeroVnis old new = (old, new)" using vlan fields by (simp add: zeroVnis_def)
  let ?w1 = "snd (deleteNetworks nl old w)"
  have "\<not> present nl ?i ?w1"
    using deleteNetworks_present [OF laws del vlan(3)] vlan i by (auto simp: owned_def)
  then have "\<exists>m. LinkByName nl ?i ?w1 = Inl m" by (auto simp: present_def split: sum.splits)
  then obtain m where gone: "LinkByName nl ?i ?w1 = Inl m" ..
  have dev: "Device (opts new) \<noteq> []" using fields i by simp
  have hdev: "determineVlanHdev (Vlan (opts new)) (NetworkID (dn_Spec new)) (Device (opts new)) = ?i"
    using fields vlan i by (simp add: determineVlanHdev_def)
  have "\<exists>e. setupHost nl new ?w1 = (Err e, ?w1)"
    using gone dev vlan(1) fields hdev
    by (simp add: setupHost_eq bind_st_def setupVlan_def shouldInterfaceBeCreated_def Let_def)
  then have "replace_host_interfaces nl old new w = (Ok (), ?w1)" by (auto simp: replace_host_interfaces_def)
  then show ?thesis
    using r old new z same \<open>\<not> present nl ?i ?w1\<close> by (simp add: UpdateNad_def)
qed

text \<open>For the instance: configurations that name the parent device and use VLAN 50.\<close>

definition toy_nad_env :: "(string set, string) nad_env" where
  "toy_nad_env =
     \<lparr>LoadDelegateType = \<lambda>s. Inr ''macvlan'',
      UnmarshalNetConf = \<lambda>s. Inr \<lparr>nc_Name = ''n1'', nc_Type = ''macvlan'', nc_Kubeconfig = [], nc_CniConfigDir = [], nc_NamingScheme = [], nc_Master = s, nc_Vlan = 50, nc_Vxlan = 0\<rparr>,
      JsonObject = \<lambda>s. [(''master'', s)], JsonMarshal = \<lambda>m. snd (hd m), JsonString = \<lambda>s. s,
      NadUpdate = \<lambda>ns nad w. (None, w)\<rparr>"

definition toy_nad :: "string \<Rightarrow> Nad" where
  "toy_nad master = \<lparr>nad_Meta = empty_meta, nad_Config = master\<rparr>"

theorem nad_master_update_removes_interface_witness:
  "\<not> present toy_netlink ''n1.50'' (snd (UpdateNad toy_netlink toy_nad_env (ONad (toy_nad ''ens4''))
      (ONad (toy_nad ''n1.50'')) {''ens4'', ''n1.50''}))"
proof -
  obtain old new where c: "convertNadToDnet toy_nad_env (toy_nad ''ens4'') = Ok old"
    "convertNadToDnet toy_nad_env (toy_nad ''n1.50'') = Ok new"
    by (simp add: convertNadToDnet_def toy_nad_env_def)
  then have old: "Vlan (opts old) = 50" "Vxlan (opts old) = 0" "Device (opts old) = ''ens4''" "NetworkID (dn_Spec old) = ''n1''"
    by (auto simp: convertNadToDnet_def toy_nad_env_def toy_nad_def)
  have i: "DetermineHostDeviceName old = ''n1.50''"
  proof -
    have "itoa 50 = ''50''" by code_simp
    then show ?thesis using old by (simp add: DetermineHostDeviceName_def)
  qed
  have "new = old\<lparr>dn_Spec := (dn_Spec old)\<lparr>Options := (opts old)\<lparr>Device := ''n1.50''\<rparr>\<rparr>\<rparr>"
    using c by (auto simp: convertNadToDnet_def toy_nad_env_def toy_nad_def empty_options_def)
  then show ?thesis
    using nad_master_update_removes_interface [OF toy_laws toy_deletions c _ _ _ _ _ surjective_pairing,
        of "{''ens4'', ''n1.50''}"] old i by simp
qed

end
