(* ===== verification/SvcUtils.thy ===== *)
theory SvcUtils
  imports DanmTypes "HOL-Library.AList"
begin

text \<open>
  \<^verbatim>\<open>pkg/svccontrol/utils.go\<close>: which DanmEps a Service selects. The Kubernetes
  objects (Pod, Service, Endpoints) carry the fields that \<^verbatim>\<open>pkg/svccontrol\<close>
  reads or writes; of a service port the fields that are only compared are one text. Reading a
  JSON object of strings is the parameter \<open>parse\<close>.
\<close>

section \<open>Kubernetes objects\<close>

record Pod =
  pod_Meta :: ObjectMeta
  pod_Annotations :: gomap
  pod_Hostname :: string
  pod_NodeName :: string
  pod_Conditions :: "(string \<times> string) list"
  pod_Deleting :: bool

record ServicePort =
  sp_Name :: string
  sp_Port :: int
  sp_Protocol :: string
  sp_Rest :: string

record Service =
  svc_Meta :: ObjectMeta
  svc_Annotations :: gomap
  svc_Ports :: "ServicePort list"

record ObjectReference =
  or_Kind :: string
  or_Namespace :: string
  or_Name :: string
  or_ResourceVersion :: string
  or_UID :: string

record EndpointAddress =
  ea_IP :: string
  ea_Hostname :: string
  ea_NodeName :: string
  ea_TargetRef :: "ObjectReference option"

record EndpointPort =
  epp_Name :: string
  epp_Port :: int
  epp_Protocol :: string

record EndpointSubset =
  es_Addresses :: "EndpointAddress list"
  es_NotReadyAddresses :: "EndpointAddress list"
  es_Ports :: "EndpointPort list"

record Endpoints =
  eps_Meta :: ObjectMeta
  eps_Annotations :: gomap
  eps_Subsets :: "EndpointSubset list option"

section \<open>Selecting endpoints\<close>

type_synonym json_map = "string \<Rightarrow> string + gomap"

definition PodSelector :: string where "PodSelector = ''danm.io/selector''"
definition DanmNetSelector :: string where "DanmNetSelector = ''danm.io/network''"
definition TenantNetSelector :: string where "TenantNetSelector = ''danm.io/tenantNetwork''"
definition ClusterNetSelector :: string where "ClusterNetSelector = ''danm.io/clusterNetwork''"
definition TolerateUnreadyEps :: string where
  "TolerateUnreadyEps = ''service.alpha.kubernetes.io/tolerate-unready-endpoints''"

text \<open>Reading a key of a Go map that is not there gives the empty string.\<close>

definition lookup0 :: "gomap \<Rightarrow> string \<Rightarrow> string" where
  "lookup0 m k = (case map_of m k of None \<Rightarrow> [] | Some v \<Rightarrow> v)"

fun IsContain :: "gomap \<Rightarrow> gomap \<Rightarrow> bool" where
  "IsContain ep [] = True"
| "IsContain ep ((k, v) # svc) =
     (case map_of ep k of
        Some val \<Rightarrow> if val \<noteq> v then False else IsContain ep svc
      | None \<Rightarrow> False)"

definition net_selector :: "gomap \<Rightarrow> string \<Rightarrow> string \<Rightarrow> gomap" where
  "net_selector annotations key kind =
     (case map_of annotations key of
        Some net \<Rightarrow> if net \<noteq> [] then [(kind, net)] else []
      | None \<Rightarrow> [])"

definition GetDanmSvcAnnotations :: "json_map \<Rightarrow> gomap \<Rightarrow> string + gomap \<times> gomap" where
  "GetDanmSvcAnnotations parse annotations =
     (case (case map_of annotations PodSelector of
              Some danmSel \<Rightarrow> if danmSel \<noteq> [] then parse danmSel else Inr []
            | None \<Rightarrow> Inr []) of
        Inl err \<Rightarrow> Inl err
      | Inr selectorMap \<Rightarrow>
          Inr (selectorMap,
               net_selector annotations DanmNetSelector DanmNetKind @
               net_selector annotations TenantNetSelector TenantNetworkKind @
               net_selector annotations ClusterNetSelector ClusterNetworkKind))"

definition PodReady :: "Pod \<Rightarrow> bool" where
  "PodReady pod = list_ex (\<lambda>(type, status). type = ''Ready'' \<and> status = ''True'') (pod_Conditions pod)"

definition isDepSelectedBySvc :: "DanmEp \<Rightarrow> gomap \<Rightarrow> bool" where
  "isDepSelectedBySvc dep netSelectors =
     (if netSelectors = [] then False
      else if (case map_of netSelectors DanmNetKind of
                 Some danmNet \<Rightarrow> danmNet = ep_NetworkName (ep_Spec dep) \<and>
                   (DanmNetKind = ep_ApiType (ep_Spec dep) \<or> [] = ep_ApiType (ep_Spec dep))
               | None \<Rightarrow> False) then True
      else if (case map_of netSelectors TenantNetworkKind of
                 Some tenantNet \<Rightarrow> tenantNet = ep_NetworkName (ep_Spec dep) \<and>
                   TenantNetworkKind = ep_ApiType (ep_Spec dep)
               | None \<Rightarrow> False) then True
      else if (case map_of netSelectors ClusterNetworkKind of
                 Some clusterNet \<Rightarrow> clusterNet = ep_NetworkName (ep_Spec dep) \<and>
                   ClusterNetworkKind = ep_ApiType (ep_Spec dep)
               | None \<Rightarrow> False) then True
      else False)"

fun SelectDesMatchLabels :: "DanmEp list \<Rightarrow> gomap \<Rightarrow> gomap \<Rightarrow> string \<Rightarrow> DanmEp list" where
  "SelectDesMatchLabels [] selectorMap svcNets svcNs = []"
| "SelectDesMatchLabels (de # des) selectorMap svcNets svcNs =
     (let deFit = (if mt_Namespace (ep_Meta de) \<noteq> svcNs then False
                   else (let fit = IsContain (mt_Labels (ep_Meta de)) selectorMap
                         in if fit \<and> \<not> isDepSelectedBySvc de svcNets then False else fit));
          rest = SelectDesMatchLabels des selectorMap svcNets svcNs
      in if deFit then de # rest else rest)"

definition FindEpsForSvc :: "Endpoints list \<Rightarrow> string \<Rightarrow> string \<Rightarrow> bool" where
  "FindEpsForSvc eps svcName svcNs =
     list_ex (\<lambda>ep. mt_Name (eps_Meta ep) = svcName \<and> mt_Namespace (eps_Meta ep) = svcNs) eps"

text \<open>Maps are compared as maps, whatever their iteration order.\<close>

definition SvcChanged :: "json_map \<Rightarrow> Service \<Rightarrow> Service \<Rightarrow> bool" where
  "SvcChanged parse oldSvc newSvc =
     (case (GetDanmSvcAnnotations parse (svc_Annotations oldSvc), GetDanmSvcAnnotations parse (svc_Annotations newSvc)) of
        (Inr (oldSelMap, oldNets), Inr (newSelMap, newNets)) \<Rightarrow>
          (if gomap_eq (Some oldSelMap) (Some newSelMap) \<and> gomap_eq (Some oldNets) (Some newNets) \<and>
              svc_Ports oldSvc = svc_Ports newSvc \<and>
              lookup0 (svc_Annotations oldSvc) TolerateUnreadyEps = lookup0 (svc_Annotations newSvc) TolerateUnreadyEps
           then False else True)
      | _ \<Rightarrow> True)"

definition PodLabelChanged :: "Pod \<Rightarrow> Pod \<Rightarrow> bool" where
  "PodLabelChanged oldPod newPod =
     (if gomap_eq (Some (mt_Labels (pod_Meta oldPod))) (Some (mt_Labels (pod_Meta newPod))) then False else True)"

text \<open>A Service whose annotations cannot be read ends the search with what was found before it.\<close>

fun MatchExistingSvc :: "json_map \<Rightarrow> DanmEp \<Rightarrow> Service list \<Rightarrow> Service list" where
  "MatchExistingSvc parse de [] = []"
| "MatchExistingSvc parse de (svc # servicesList) =
     (case GetDanmSvcAnnotations parse (svc_Annotations svc) of
        Inl err \<Rightarrow> []
      | Inr (selectorMap, svcNets) \<Rightarrow>
          (if selectorMap = [] \<or> \<not> isDepSelectedBySvc de svcNets \<or>
              mt_Namespace (svc_Meta svc) \<noteq> mt_Namespace (ep_Meta de)
           then MatchExistingSvc parse de servicesList
           else if \<not> IsContain (mt_Labels (ep_Meta de)) selectorMap then MatchExistingSvc parse de servicesList
           else svc # MatchExistingSvc parse de servicesList))"

section \<open>Lemmas\<close>

lemma IsContain_iff: "IsContain ep svc \<longleftrightarrow> (\<forall>(k, v) \<in> set svc. map_of ep k = Some v)"
  by (induction ep svc rule: IsContain.induct) (auto split: option.splits)

lemma SelectDes_filter:
  "SelectDesMatchLabels des sel nets ns =
     filter (\<lambda>de. mt_Namespace (ep_Meta de) = ns \<and> IsContain (mt_Labels (ep_Meta de)) sel \<and> isDepSelectedBySvc de nets) des"
  by (induction des) (auto simp: Let_def)

lemma MatchExisting_filter:
  assumes "\<And>svc. svc \<in> set svcs \<Longrightarrow> \<exists>r. GetDanmSvcAnnotations parse (svc_Annotations svc) = Inr r"
  shows "MatchExistingSvc parse de svcs =
     filter (\<lambda>svc. case GetDanmSvcAnnotations parse (svc_Annotations svc) of
        Inl _ \<Rightarrow> False
      | Inr (sel, nets) \<Rightarrow> sel \<noteq> [] \<and> isDepSelectedBySvc de nets \<and>
          mt_Namespace (svc_Meta svc) = mt_Namespace (ep_Meta de) \<and> IsContain (mt_Labels (ep_Meta de)) sel) svcs"
  using assms
proof (induction svcs)
  case Nil
  then show ?case by simp
next
  case (Cons svc svcs)
  then obtain sel nets where "GetDanmSvcAnnotations parse (svc_Annotations svc) = Inr (sel, nets)"
    by fastforce
  with Cons show ?case by auto
qed

end
