(* ===== verification/SvcEndpoints.thy ===== *)
theory SvcEndpoints
  imports SvcUtils Ipam "HOL-Library.Multiset"
begin

text \<open>
  The part of \<^verbatim>\<open>pkg/svccontrol/controller.go\<close> that computes Endpoints: the
  address lists of a Service's Endpoints and how Pods and DanmEps change them. Indexing the first
  of no subsets panics. A Go map that is built and then ranged over is an association list whose
  order of iteration is the parameter \<open>order\<close>.
\<close>

definition first_subset :: "Endpoints \<Rightarrow> EndpointSubset res" where
  "first_subset eps = (case eps_Subsets eps of Some (s # rest) \<Rightarrow> Ok s | _ \<Rightarrow> Panic)"

definition set_subset :: "EndpointSubset \<Rightarrow> Endpoints \<Rightarrow> Endpoints" where
  "set_subset s eps =
     eps\<lparr>eps_Subsets := (case eps_Subsets eps of Some (x # rest) \<Rightarrow> Some (s # rest) | other \<Rightarrow> other)\<rparr>"

definition isIpInEp :: "string \<Rightarrow> Endpoints \<Rightarrow> bool res" where
  "isIpInEp ip eps =
     bind_res (first_subset eps) (\<lambda>s. Ok (list_ex (\<lambda>a. ea_IP a = ip) (es_Addresses s)))"

definition usable_address :: "string \<Rightarrow> bool" where
  "usable_address a \<longleftrightarrow> a \<noteq> [] \<and> a \<noteq> NoneAllocType \<and> a \<noteq> DynamicAllocType"

definition new_address :: "string \<Rightarrow> Pod \<Rightarrow> ObjectReference \<Rightarrow> EndpointAddress" where
  "new_address ip pod targetRef =
     \<lparr>ea_IP = ip, ea_Hostname = pod_Hostname pod, ea_NodeName = pod_NodeName pod, ea_TargetRef = Some targetRef\<rparr>"

definition add_address ::
  "string \<Rightarrow> Pod \<Rightarrow> Endpoints option \<Rightarrow> ObjectReference \<Rightarrow> EndpointAddress list \<Rightarrow> EndpointAddress list res" where
  "add_address ip pod eps targetRef epAddrs =
     (if usable_address ip then
        (case eps of
           None \<Rightarrow> Ok (epAddrs @ [new_address ip pod targetRef])
         | Some e \<Rightarrow> bind_res (isIpInEp ip e) (\<lambda>found.
             Ok (if \<not> found then epAddrs @ [new_address ip pod targetRef] else epAddrs)))
      else Ok epAddrs)"

definition createChangedEpAddressList ::
  "string \<Rightarrow> string \<Rightarrow> Pod \<Rightarrow> Endpoints option \<Rightarrow> ObjectReference \<Rightarrow> EndpointAddress list \<Rightarrow> EndpointAddress list res" where
  "createChangedEpAddressList v4Address v6Address pod eps targetRef epAddrs =
     bind_res (add_address v4Address pod eps targetRef epAddrs)
       (add_address v6Address pod eps targetRef)"

definition getIpsFromDanmEp :: "DanmEp \<Rightarrow> string \<times> string" where
  "getIpsFromDanmEp de =
     (let a4 = if_Address (ep_Iface (ep_Spec de)); a6 = if_AddressIPv6 (ep_Iface (ep_Spec de))
      in (if a4 \<noteq> [] then first_part (CHR ''/'') a4 else [], if a6 \<noteq> [] then first_part (CHR ''/'') a6 else []))"

text \<open>\<^verbatim>\<open>append(l[:i], l[i+1:]...)\<close>; the second slice panics when \<open>i\<close> is past the end.\<close>

definition deleteFromEpAddressList ::
  "string \<Rightarrow> string \<Rightarrow> nat \<Rightarrow> EndpointAddress \<Rightarrow> EndpointAddress list \<Rightarrow> EndpointAddress list res" where
  "deleteFromEpAddressList v4Address v6Address index address epAddrs =
     (if v4Address = ea_IP address \<or> v6Address = ea_IP address then
        (if index + 1 \<le> length epAddrs then Ok (take index epAddrs @ drop (index + 1) epAddrs) else Panic)
      else Ok epAddrs)"

text \<open>The loop over the addresses of the original list, deleting from the copy.\<close>

fun delete_addresses ::
  "string \<Rightarrow> string \<Rightarrow> nat \<Rightarrow> EndpointAddress list \<Rightarrow> EndpointAddress list \<Rightarrow> EndpointAddress list res" where
  "delete_addresses v4 v6 index [] epAddrs = Ok epAddrs"
| "delete_addresses v4 v6 index (address # rest) epAddrs =
     bind_res (deleteFromEpAddressList v4 v6 index address epAddrs) (delete_addresses v4 v6 (index + 1) rest)"

definition pod_ref :: "Pod \<Rightarrow> ObjectReference" where
  "pod_ref pod =
     \<lparr>or_Kind = ''pod'', or_Namespace = mt_Namespace (pod_Meta pod), or_Name = mt_Name (pod_Meta pod),
      or_ResourceVersion = mt_ResourceVersion (pod_Meta pod), or_UID = mt_UID (pod_Meta pod)\<rparr>"

definition targets_pod :: "Pod \<Rightarrow> EndpointAddress \<Rightarrow> bool" where
  "targets_pod pod a =
     (case ea_TargetRef a of
        None \<Rightarrow> False
      | Some ref \<Rightarrow> or_Name ref = mt_Name (pod_Meta pod) \<and> or_Namespace ref = mt_Namespace (pod_Meta pod) \<and>
          or_UID ref = mt_UID (pod_Meta pod))"

section \<open>A Pod changed its resource version\<close>

definition refresh_ref :: "Pod \<Rightarrow> EndpointAddress \<Rightarrow> EndpointAddress" where
  "refresh_ref pod a =
     (if targets_pod pod a
      then a\<lparr>ea_TargetRef := map_option (\<lambda>ref. ref\<lparr>or_ResourceVersion := mt_ResourceVersion (pod_Meta pod)\<rparr>) (ea_TargetRef a)\<rparr>
      else a)"

text \<open>
  The copy is appended once for every address of the Pod; all entries are the same object, which
  the loops go on changing, so each is its final value.
\<close>

fun UpdatePodRvInEps :: "Endpoints list \<Rightarrow> Pod \<Rightarrow> Endpoints list res" where
  "UpdatePodRvInEps [] pod = Ok []"
| "UpdatePodRvInEps (eps # epsList) pod =
     (if eps_Subsets eps = None then UpdatePodRvInEps epsList pod
      else bind_res (first_subset eps) (\<lambda>s.
        let newEps = set_subset (s\<lparr>es_Addresses := map (refresh_ref pod) (es_Addresses s),
                                   es_NotReadyAddresses := map (refresh_ref pod) (es_NotReadyAddresses s)\<rparr>) eps;
            matches = length (filter (targets_pod pod) (es_Addresses s)) +
                      length (filter (targets_pod pod) (es_NotReadyAddresses s))
        in bind_res (UpdatePodRvInEps epsList pod) (\<lambda>rest. Ok (replicate matches newEps @ rest))))"

section \<open>A Pod became ready or unready\<close>

type_synonym addr_map = "(string \<times> EndpointAddress) list"

definition address_map :: "EndpointAddress list \<Rightarrow> addr_map" where
  "address_map as = foldl (\<lambda>m a. AList.update (ea_IP a) a m) [] as"

fun move_unready :: "Pod \<Rightarrow> bool \<Rightarrow> EndpointAddress list \<Rightarrow> addr_map \<times> addr_map \<Rightarrow> addr_map \<times> addr_map" where
  "move_unready pod cond [] maps = maps"
| "move_unready pod cond (a # as) (readyAddrs, notReadyAddrs) =
     move_unready pod cond as
       (if cond \<and> targets_pod pod a
        then (AList.delete (ea_IP a) readyAddrs, AList.update (ea_IP a) a notReadyAddrs)
        else (readyAddrs, notReadyAddrs))"

fun move_ready :: "Pod \<Rightarrow> bool \<Rightarrow> EndpointAddress list \<Rightarrow> addr_map \<times> addr_map \<Rightarrow> addr_map \<times> addr_map" where
  "move_ready pod cond [] maps = maps"
| "move_ready pod cond (a # as) (readyAddrs, notReadyAddrs) =
     move_ready pod cond as
       (if cond \<and> targets_pod pod a
        then (AList.update (ea_IP a) a readyAddrs, AList.delete (ea_IP a) notReadyAddrs)
        else (readyAddrs, notReadyAddrs))"

text \<open>The two loops over the addresses and the two over the maps, for one Endpoints object.\<close>

definition moved_subset ::
  "(addr_map \<Rightarrow> addr_map) \<Rightarrow> Pod \<Rightarrow> bool \<Rightarrow> bool \<Rightarrow> bool \<Rightarrow> EndpointSubset \<Rightarrow> EndpointSubset" where
  "moved_subset order pod oldReady newReady early s =
     (let maps1 = move_unready pod ((oldReady \<or> (newReady \<and> early)) \<and> \<not> early) (es_Addresses s)
            (address_map (es_Addresses s), address_map (es_NotReadyAddresses s));
          (readyAddrs, notReadyAddrs) = move_ready pod newReady (es_NotReadyAddresses s) maps1
      in s\<lparr>es_Addresses := map snd (order readyAddrs), es_NotReadyAddresses := map snd (order notReadyAddrs)\<rparr>)"

fun UpdatePodStatusInEps ::
  "(addr_map \<Rightarrow> addr_map) \<Rightarrow> (string \<Rightarrow> string \<Rightarrow> string + Service) \<Rightarrow> Endpoints list \<Rightarrow> Pod \<Rightarrow> bool \<Rightarrow> bool \<Rightarrow> Endpoints list res" where
  "UpdatePodStatusInEps order getSvc [] pod oldReady newReady = Ok []"
| "UpdatePodStatusInEps order getSvc (eps # epsList) pod oldReady newReady =
     (case getSvc (mt_Namespace (eps_Meta eps)) (mt_Name (eps_Meta eps)) of
        Inl err \<Rightarrow> UpdatePodStatusInEps order getSvc epsList pod oldReady newReady
      | Inr svc \<Rightarrow>
          (if eps_Subsets eps = None then UpdatePodStatusInEps order getSvc epsList pod oldReady newReady
           else bind_res (first_subset eps) (\<lambda>s.
             let early = (lookup0 (svc_Annotations svc) TolerateUnreadyEps = ''true'')
             in bind_res (UpdatePodStatusInEps order getSvc epsList pod oldReady newReady) (\<lambda>rest.
                  Ok (set_subset (moved_subset order pod oldReady newReady early s) eps # rest)))))"

section \<open>The Endpoints of a new Service\<close>

fun endpoint_addresses ::
  "(string \<Rightarrow> string \<Rightarrow> string + Pod) \<Rightarrow> Service \<Rightarrow> DanmEp list \<Rightarrow>
   EndpointAddress list \<times> EndpointAddress list \<Rightarrow> (EndpointAddress list \<times> EndpointAddress list) res" where
  "endpoint_addresses getPod svc [] found = Ok found"
| "endpoint_addresses getPod svc (de # des) (readyEpAddrs, notReadyEpAddrs) =
     (case getPod (mt_Namespace (ep_Meta de)) (ep_Pod (ep_Spec de)) of
        Inl err \<Rightarrow> endpoint_addresses getPod svc des (readyEpAddrs, notReadyEpAddrs)
      | Inr pod \<Rightarrow>
          (let a4 = first_part (CHR ''/'') (if_Address (ep_Iface (ep_Spec de)));
               a6 = first_part (CHR ''/'') (if_AddressIPv6 (ep_Iface (ep_Spec de)))
           in if PodReady pod \<or> lookup0 (svc_Annotations svc) TolerateUnreadyEps = ''true''
              then bind_res (createChangedEpAddressList a4 a6 pod None (pod_ref pod) readyEpAddrs)
                (\<lambda>ready. endpoint_addresses getPod svc des (ready, notReadyEpAddrs))
              else bind_res (createChangedEpAddressList a4 a6 pod None (pod_ref pod) notReadyEpAddrs)
                (\<lambda>notReady. endpoint_addresses getPod svc des (readyEpAddrs, notReady))))"

definition endpoint_port :: "ServicePort \<Rightarrow> EndpointPort" where
  "endpoint_port p = \<lparr>epp_Name = sp_Name p, epp_Port = sp_Port p, epp_Protocol = sp_Protocol p\<rparr>"

definition MakeNewEps :: "(string \<Rightarrow> string \<Rightarrow> string + Pod) \<Rightarrow> Service \<Rightarrow> DanmEp list \<Rightarrow> Endpoints res" where
  "MakeNewEps getPod svc des =
     (let epNew = \<lparr>eps_Meta = empty_meta\<lparr>mt_Name := mt_Name (svc_Meta svc), mt_Namespace := mt_Namespace (svc_Meta svc)\<rparr>,
                   eps_Annotations = svc_Annotations svc, eps_Subsets = None\<rparr>
      in if des = [] then Ok epNew
         else bind_res (endpoint_addresses getPod svc des ([], [])) (\<lambda>(ready, notReady).
           Ok (epNew\<lparr>eps_Subsets := Some [\<lparr>es_Addresses = ready, es_NotReadyAddresses = notReady,
             es_Ports = map endpoint_port (svc_Ports svc)\<rparr>]\<rparr>)))"

end
