(* ===== verification/SvcController.thy ===== *)
theory SvcController
  imports SvcEndpoints DanmEps
begin

text \<open>
  The event handlers of \<^verbatim>\<open>pkg/svccontrol/controller.go\<close>. The listers (caches
  of the API server), the Endpoints client and the passing of time are the record
  \<open>svc_env\<close>: a lister reads the world, a call of the client and a sleep change it. What the
  informers deliver is a \<open>svc_obj\<close>; a handler that asserts another type panics.
\<close>

datatype svc_obj = ObjPod Pod | ObjSvc Service | ObjDep DanmEp | ObjTombstone

datatype informer = PodInformer | ServiceInformer | EndpointsInformer | DanmEpInformer

datatype get_error = NotFound string | OtherError string

record 'w svc_env =
  sv_Synced :: "informer \<Rightarrow> 'w \<Rightarrow> bool"
  sv_GetPod :: "'w \<Rightarrow> string \<Rightarrow> string \<Rightarrow> string + Pod"
  sv_GetService :: "'w \<Rightarrow> string \<Rightarrow> string \<Rightarrow> string + Service"
  sv_ListServices :: "'w \<Rightarrow> string \<Rightarrow> string + Service list"
  sv_GetEndpoints :: "'w \<Rightarrow> string \<Rightarrow> string \<Rightarrow> get_error + Endpoints"
  sv_ListEndpoints :: "'w \<Rightarrow> string \<Rightarrow> string + Endpoints list"
  sv_ListDanmEps :: "'w \<Rightarrow> string \<Rightarrow> string + DanmEp list"
  sv_UpdateEndpoints :: "string \<Rightarrow> Endpoints \<Rightarrow> 'w \<Rightarrow> string option \<times> 'w"
  sv_CreateEndpoints :: "string \<Rightarrow> Endpoints \<Rightarrow> 'w \<Rightarrow> string option \<times> 'w"
  sv_Sleep :: "'w \<Rightarrow> 'w"
  sv_Parse :: json_map
  sv_Order :: "addr_map \<Rightarrow> addr_map"
  sv_SplitKey :: "string \<Rightarrow> (string \<times> string) option"

definition MaxUpdateRetry :: nat where "MaxUpdateRetry = 400"

section \<open>Writing Endpoints\<close>

definition of_api :: "string option \<times> 'w \<Rightarrow> unit res \<times> 'w" where
  "of_api r = (case r of (None, w) \<Rightarrow> (Ok (), w) | (Some msg, w) \<Rightarrow> (Err (ApiError msg), w))"

definition UpdateEndpoints :: "'w svc_env \<Rightarrow> Endpoints \<Rightarrow> ('w, unit) st" where
  "UpdateEndpoints c eps =
     bind_st
       (return_st (if eps_Subsets eps = None then Ok eps
         else bind_res (first_subset eps) (\<lambda>s. Ok
           (if es_Addresses s = [] \<and> es_NotReadyAddresses s = [] then eps\<lparr>eps_Subsets := None\<rparr> else eps))))
       (\<lambda>eps' w. of_api (sv_UpdateEndpoints c (mt_Namespace (eps_Meta eps')) eps' w))"

fun UpdateEndpointsList :: "'w svc_env \<Rightarrow> Endpoints list \<Rightarrow> ('w, unit) st" where
  "UpdateEndpointsList c [] w = (Ok (), w)"
| "UpdateEndpointsList c (eps # epList) w =
     bind_st (UpdateEndpoints c eps) (\<lambda>_. UpdateEndpointsList c epList) w"

definition EpCheckUpdate ::
  "'w svc_env \<Rightarrow> string \<Rightarrow> string \<Rightarrow> Endpoints \<Rightarrow> Pod \<Rightarrow> bool \<Rightarrow> ('w, unit) st" where
  "EpCheckUpdate c ipAddr ip6Addr eps pod early =
     bind_st (return_st (isIpInEp ipAddr eps)) (\<lambda>wasIpv4AddressFound.
     bind_st (return_st (isIpInEp ip6Addr eps)) (\<lambda>wasIpv6AddressFound.
       if (wasIpv4AddressFound \<or> (ipAddr \<noteq> [] \<and> ipAddr \<noteq> NoneAllocType \<and> ipAddr \<noteq> DynamicAllocType)) \<and>
          (wasIpv6AddressFound \<or> (ip6Addr \<noteq> [] \<and> ip6Addr \<noteq> NoneAllocType \<and> ip6Addr \<noteq> DynamicAllocType))
       then return_st (Ok ())
       else bind_st (return_st (bind_res (first_subset eps) (\<lambda>s.
              if PodReady pod \<or> early
              then bind_res (createChangedEpAddressList ipAddr ip6Addr pod (Some eps) (pod_ref pod) (es_Addresses s))
                (\<lambda>as. Ok (set_subset (s\<lparr>es_Addresses := as\<rparr>) eps))
              else bind_res (createChangedEpAddressList ipAddr ip6Addr pod (Some eps) (pod_ref pod) (es_NotReadyAddresses s))
                (\<lambda>as. Ok (set_subset (s\<lparr>es_NotReadyAddresses := as\<rparr>) eps)))))
            (UpdateEndpoints c)))"

definition CreateModifyEndpoints :: "'w svc_env \<Rightarrow> Service \<Rightarrow> bool \<Rightarrow> DanmEp list \<Rightarrow> ('w, unit) st" where
  "CreateModifyEndpoints c svc doesEpAlreadyExist des w =
     bind_st (return_st (MakeNewEps (sv_GetPod c w) svc des)) (\<lambda>epNew w1. of_api
       (if doesEpAlreadyExist then sv_UpdateEndpoints c (mt_Namespace (svc_Meta svc)) epNew w1
        else sv_CreateEndpoints c (mt_Namespace (svc_Meta svc)) epNew w1)) w"

section \<open>Retries\<close>

text \<open>
  A pass of a \<^verbatim>\<open>for i := 0; i < MaxUpdateRetry; i++\<close> loop ends with
  \<^verbatim>\<open>continue\<close>, \<^verbatim>\<open>break\<close> or a
  \<^verbatim>\<open>return\<close> of the function. After a write, \<open>after_write\<close> tells a
  conflict, which is tried again after a pause, from the rest.
\<close>

datatype pass = Again | Break | Return

fun retry :: "nat \<Rightarrow> ('w, pass) st \<Rightarrow> ('w, pass) st" where
  "retry 0 body w = (Ok Break, w)"
| "retry (Suc k) body w =
     bind_st body (\<lambda>p. if p = Again then retry k body else return_st (Ok p)) w"

definition after_write :: "'w svc_env \<Rightarrow> ('w, unit) st \<Rightarrow> ('w, pass) st" where
  "after_write c op w =
     (case op w of
        (Ok _, w') \<Rightarrow> (Ok Break, w')
      | (Err e, w') \<Rightarrow>
          (if contains (error_text e) OptimisticLockErrorMsg then (Ok Again, sv_Sleep c w') else (Ok Break, w'))
      | (Panic, w') \<Rightarrow> (Panic, w')
      | (Hang, w') \<Rightarrow> (Hang, w'))"

section \<open>Changes of DanmEps\<close>

definition all_synced :: "'w svc_env \<Rightarrow> 'w \<Rightarrow> bool" where
  "all_synced c w \<longleftrightarrow>
     sv_Synced c PodInformer w \<and> sv_Synced c ServiceInformer w \<and> sv_Synced c EndpointsInformer w \<and>
     sv_Synced c DanmEpInformer w"

definition add_to_service :: "'w svc_env \<Rightarrow> DanmEp \<Rightarrow> Service \<Rightarrow> Pod \<Rightarrow> ('w, pass) st" where
  "add_to_service c de svc pod w =
     (let (ipAddr, ip6Addr) = getIpsFromDanmEp de;
          update_or_create = (\<lambda>eps. case eps of
              Some e \<Rightarrow>
                (if eps_Subsets e \<noteq> None
                 then after_write c (EpCheckUpdate c ipAddr ip6Addr e pod
                        (lookup0 (svc_Annotations svc) TolerateUnreadyEps = ''true''))
                 else after_write c (CreateModifyEndpoints c svc True [de]))
            | None \<Rightarrow> after_write c (CreateModifyEndpoints c svc True [de]))
      in case sv_GetEndpoints c w (mt_Namespace (svc_Meta svc)) (mt_Name (svc_Meta svc)) of
           Inl (OtherError err) \<Rightarrow> (Ok Break, w)
         | Inl (NotFound err) \<Rightarrow> update_or_create None w
         | Inr eps \<Rightarrow> update_or_create (Some eps) w)"

fun add_to_services :: "'w svc_env \<Rightarrow> DanmEp \<Rightarrow> Service list \<Rightarrow> ('w, unit) st" where
  "add_to_services c de [] w = (Ok (), w)"
| "add_to_services c de (svc # svcs) w =
     (case sv_GetPod c w (mt_Namespace (ep_Meta de)) (ep_Pod (ep_Spec de)) of
        Inl err \<Rightarrow> add_to_services c de svcs w
      | Inr pod \<Rightarrow> bind_st (retry MaxUpdateRetry (add_to_service c de svc pod)) (\<lambda>_. add_to_services c de svcs) w)"

definition addDanmep :: "'w svc_env \<Rightarrow> svc_obj \<Rightarrow> ('w, unit) st" where
  "addDanmep c obj w =
     (if \<not> all_synced c w then (Ok (), w)
      else (case obj of
        ObjDep de \<Rightarrow>
          (case sv_ListServices c w (mt_Namespace (ep_Meta de)) of
             Inl err \<Rightarrow> (Ok (), w)
           | Inr svcList \<Rightarrow> add_to_services c de (MatchExistingSvc (sv_Parse c) de svcList) w)
      | _ \<Rightarrow> (Panic, w)))"

text \<open>
  The Endpoints from which the addresses of a DanmEp are deleted, appended to \<open>epList\<close>;
  \<open>Err\<close> is the early return of the handler.
\<close>

fun without_danmep :: "json_map \<Rightarrow> DanmEp \<Rightarrow> Endpoints list \<Rightarrow> Endpoints list \<Rightarrow> Endpoints list res" where
  "without_danmep parse de [] epList = Ok epList"
| "without_danmep parse de (ep # epsList) epList =
     (if eps_Subsets ep = None then without_danmep parse de epsList epList
      else (case GetDanmSvcAnnotations parse (eps_Annotations ep) of
        Inl err \<Rightarrow> Err (ApiError err)
      | Inr (selectorMap, svcNets) \<Rightarrow>
          (if selectorMap = [] \<or> \<not> isDepSelectedBySvc de svcNets \<or>
              mt_Namespace (eps_Meta ep) \<noteq> mt_Namespace (ep_Meta de)
           then without_danmep parse de epsList epList
           else if \<not> IsContain (mt_Labels (ep_Meta de)) selectorMap then without_danmep parse de epsList epList
           else (let (ipAddr, ip6Addr) = getIpsFromDanmEp de in
             bind_res (first_subset ep) (\<lambda>s.
             bind_res (delete_addresses ipAddr ip6Addr 0 (es_Addresses s) (es_Addresses s)) (\<lambda>ready.
             bind_res (delete_addresses ipAddr ip6Addr 0 (es_NotReadyAddresses s) (es_NotReadyAddresses s)) (\<lambda>notReady.
               without_danmep parse de epsList
                 (epList @ [set_subset (s\<lparr>es_Addresses := ready, es_NotReadyAddresses := notReady\<rparr>) ep]))))))))"

text \<open>\<open>epList\<close> lives outside the loop: a pass appends to the list of the pass before.\<close>

fun delete_passes :: "'w svc_env \<Rightarrow> DanmEp \<Rightarrow> nat \<Rightarrow> Endpoints list \<Rightarrow> ('w, unit) st" where
  "delete_passes c de 0 epList w = (Ok (), w)"
| "delete_passes c de (Suc k) epList w =
     (case sv_ListEndpoints c w (mt_Namespace (ep_Meta de)) of
        Inl err \<Rightarrow> (Ok (), w)
      | Inr epsList \<Rightarrow>
          (case without_danmep (sv_Parse c) de epsList epList of
             Ok epList' \<Rightarrow>
               bind_st (if epList' \<noteq> [] then after_write c (UpdateEndpointsList c epList') else return_st (Ok Break))
                 (\<lambda>p. if p = Again then delete_passes c de k epList' else return_st (Ok ())) w
           | Err e \<Rightarrow> (Ok (), w)
           | Panic \<Rightarrow> (Panic, w)
           | Hang \<Rightarrow> (Hang, w)))"

definition delDanmep :: "'w svc_env \<Rightarrow> svc_obj \<Rightarrow> ('w, unit) st" where
  "delDanmep c obj w =
     (case obj of
        ObjDep de \<Rightarrow> delete_passes c de MaxUpdateRetry [] w
      | _ \<Rightarrow> (Panic, w))"

definition updateDanmep :: "'w svc_env \<Rightarrow> svc_obj \<Rightarrow> svc_obj \<Rightarrow> ('w, unit) st" where
  "updateDanmep c old new w =
     (case (old, new) of
        (ObjDep oldDanmEp, ObjDep newDanmEp) \<Rightarrow>
          (if mt_ResourceVersion (ep_Meta oldDanmEp) = mt_ResourceVersion (ep_Meta newDanmEp) then (Ok (), w)
           else bind_st (delDanmep c old) (\<lambda>_. addDanmep c new) w)
      | _ \<Rightarrow> (Panic, w))"

section \<open>Changes of Pods\<close>

definition update_eps_pass :: "'w svc_env \<Rightarrow> string \<Rightarrow> ('w \<Rightarrow> Endpoints list \<Rightarrow> Endpoints list res) \<Rightarrow> ('w, pass) st" where
  "update_eps_pass c ns change w =
     (case sv_ListEndpoints c w ns of
        Inl err \<Rightarrow> (Ok Return, w)
      | Inr epsList \<Rightarrow>
          bind_st (return_st (change w epsList)) (\<lambda>epList.
            if epList \<noteq> [] then after_write c (UpdateEndpointsList c epList) else return_st (Ok Break)) w)"

fun relabel_danmeps :: "'w DanmClient \<Rightarrow> Pod \<Rightarrow> DanmEp list \<Rightarrow> 'w \<Rightarrow> 'w" where
  "relabel_danmeps danmclient pod [] w = w"
| "relabel_danmeps danmclient pod (de # des) w =
     relabel_danmeps danmclient pod des
       (if ep_Pod (ep_Spec de) = mt_Name (pod_Meta pod) \<and> mt_Namespace (ep_Meta de) = mt_Namespace (pod_Meta pod) \<and>
           ep_PodUID (ep_Spec de) = mt_UID (pod_Meta pod)
        then snd (api_ep_update danmclient (mt_Namespace (ep_Meta de))
               (de\<lparr>ep_Meta := (ep_Meta de)\<lparr>mt_Labels := mt_Labels (pod_Meta pod)\<rparr>\<rparr>) w)
        else w)"

definition pod_label_change :: "'w svc_env \<Rightarrow> 'w DanmClient \<Rightarrow> Pod \<Rightarrow> 'w \<Rightarrow> 'w" where
  "pod_label_change c danmclient newPod w =
     (case sv_ListDanmEps c w (mt_Namespace (pod_Meta newPod)) of
        Inl err \<Rightarrow> w
      | Inr desList \<Rightarrow> relabel_danmeps danmclient newPod desList w)"

definition updatePod :: "'w svc_env \<Rightarrow> 'w DanmClient \<Rightarrow> svc_obj \<Rightarrow> svc_obj \<Rightarrow> ('w, unit) st" where
  "updatePod c danmclient old new w =
     (case (old, new) of
        (ObjPod oldPod, ObjPod newPod) \<Rightarrow>
          (if mt_ResourceVersion (pod_Meta oldPod) = mt_ResourceVersion (pod_Meta newPod) \<or> pod_Deleting newPod
           then (Ok (), w)
           else (let labelChange = PodLabelChanged oldPod newPod; oldReady = PodReady oldPod; newReady = PodReady newPod;
                     ns = mt_Namespace (pod_Meta newPod) in
             if oldReady = newReady \<and> \<not> labelChange
             then bind_st (retry MaxUpdateRetry (update_eps_pass c ns (\<lambda>_ epsList. UpdatePodRvInEps epsList newPod)))
                    (\<lambda>_. return_st (Ok ())) w
             else bind_st
               (if oldReady \<noteq> newReady
                then retry MaxUpdateRetry (update_eps_pass c ns (\<lambda>w epsList.
                  UpdatePodStatusInEps (sv_Order c) (sv_GetService c w) epsList newPod oldReady newReady))
                else return_st (Ok Break))
               (\<lambda>p w1. (Ok (), if p \<noteq> Return \<and> labelChange then pod_label_change c danmclient newPod w1 else w1)) w))
      | _ \<Rightarrow> (Panic, w))"

section \<open>Changes of Services\<close>

definition add_svc_pass :: "'w svc_env \<Rightarrow> Service \<Rightarrow> gomap \<Rightarrow> gomap \<Rightarrow> ('w, pass) st" where
  "add_svc_pass c svc selectorMap svcNets w =
     (let svcNs = mt_Namespace (svc_Meta svc); svcName = mt_Name (svc_Meta svc) in
      case sv_ListDanmEps c w svcNs of
        Inl err \<Rightarrow> (Ok Return, w)
      | Inr desList \<Rightarrow>
          (case sv_ListEndpoints c w svcNs of
             Inl err \<Rightarrow> (Ok Return, w)
           | Inr epsList \<Rightarrow>
               after_write c (CreateModifyEndpoints c svc (FindEpsForSvc epsList svcName svcNs)
                 (SelectDesMatchLabels desList selectorMap svcNets svcNs)) w))"

definition addSvc :: "'w svc_env \<Rightarrow> svc_obj \<Rightarrow> ('w, unit) st" where
  "addSvc c obj w =
     (if \<not> all_synced c w then (Ok (), w)
      else (case obj of
        ObjSvc svc \<Rightarrow>
          (case GetDanmSvcAnnotations (sv_Parse c) (svc_Annotations svc) of
             Inl err \<Rightarrow> (Ok (), w)
           | Inr (selectorMap, svcNets) \<Rightarrow>
               (if selectorMap \<noteq> [] \<and> svcNets \<noteq> []
                then bind_st (retry MaxUpdateRetry (add_svc_pass c svc selectorMap svcNets)) (\<lambda>_. return_st (Ok ())) w
                else (Ok (), w)))
      | _ \<Rightarrow> (Panic, w)))"

definition updateSvc :: "'w svc_env \<Rightarrow> svc_obj \<Rightarrow> svc_obj \<Rightarrow> ('w, unit) st" where
  "updateSvc c old new w =
     (case (old, new) of
        (ObjSvc oldSvc, ObjSvc newSvc) \<Rightarrow>
          (if mt_ResourceVersion (svc_Meta oldSvc) = mt_ResourceVersion (svc_Meta newSvc) \<or>
              \<not> SvcChanged (sv_Parse c) oldSvc newSvc
           then (Ok (), w)
           else addSvc c new w)
      | _ \<Rightarrow> (Panic, w))"

section \<open>The event loop\<close>

text \<open>What the informers deliver, and the handlers \<^verbatim>\<open>NewController\<close> registers for it.\<close>

datatype svc_event =
    PodUpdated svc_obj svc_obj
  | SvcAdded svc_obj
  | SvcUpdated svc_obj svc_obj
  | DepAdded svc_obj
  | DepUpdated svc_obj svc_obj
  | DepDeleted svc_obj

fun dispatch :: "'w svc_env \<Rightarrow> 'w DanmClient \<Rightarrow> svc_event \<Rightarrow> ('w, unit) st" where
  "dispatch c danmclient (PodUpdated old new) = updatePod c danmclient old new"
| "dispatch c danmclient (SvcAdded obj) = addSvc c obj"
| "dispatch c danmclient (SvcUpdated old new) = updateSvc c old new"
| "dispatch c danmclient (DepAdded obj) = addDanmep c obj"
| "dispatch c danmclient (DepUpdated old new) = updateDanmep c old new"
| "dispatch c danmclient (DepDeleted obj) = delDanmep c obj"

text \<open>
  The work queue hands out keys until it shuts down. A pass of the worker reports whether to go
  on and what became of the item; nothing is done for a key but splitting it.
\<close>

datatype queue_item = Key string | OtherItem
datatype item_fate = Forgotten | Failed

definition syncHandler :: "'w svc_env \<Rightarrow> string \<Rightarrow> string option" where
  "syncHandler c key =
     (case sv_SplitKey c key of None \<Rightarrow> None | Some (ns, name) \<Rightarrow> None)"

definition processNextWorkItem :: "'w svc_env \<Rightarrow> queue_item list \<Rightarrow> bool \<times> item_fate option \<times> queue_item list" where
  "processNextWorkItem c queue =
     (case queue of
        [] \<Rightarrow> (False, None, [])
      | OtherItem # rest \<Rightarrow> (True, Some Forgotten, rest)
      | Key key # rest \<Rightarrow>
          (case syncHandler c key of
             Some err \<Rightarrow> (True, Some Failed, rest)
           | None \<Rightarrow> (True, Some Forgotten, rest)))"

end
