(* ===== verification/SvcProps.thy ===== *)
theory SvcProps
  imports SvcController
begin

text \<open>
  What the controller of \<^verbatim>\<open>pkg/svccontrol\<close> guarantees: the two directions of
  selection agree, a Pod's addresses follow its readiness, single addresses are published and
  withdrawn exactly; and where its handling of two addresses and of conflicts goes wrong.
\<close>

section \<open>Deleting from an address list\<close>

definition hit :: "string \<Rightarrow> string \<Rightarrow> EndpointAddress \<Rightarrow> bool" where
  "hit v4 v6 a \<longleftrightarrow> ea_IP a = v4 \<or> ea_IP a = v6"

lemma delete_addresses_append:
  "delete_addresses v4 v6 i (xs @ ys) zs =
     bind_res (delete_addresses v4 v6 i xs zs) (delete_addresses v4 v6 (i + length xs) ys)"
proof (induction xs arbitrary: i zs)
  case Nil
  then show ?case by simp
next
  case (Cons x xs)
  then show ?case by (cases "deleteFromEpAddressList v4 v6 i x zs") simp_all
qed

lemma delete_addresses_miss:
  "(\<And>a. a \<in> set xs \<Longrightarrow> \<not> hit v4 v6 a) \<Longrightarrow> delete_addresses v4 v6 i xs zs = Ok zs"
  by (induction xs arbitrary: i) (auto simp: deleteFromEpAddressList_def hit_def)

lemma deleteFrom_hit:
  "hit v4 v6 a \<Longrightarrow> deleteFromEpAddressList v4 v6 i a zs =
     (if i + 1 \<le> length zs then Ok (take i zs @ drop (i + 1) zs) else Panic)"
  "\<not> hit v4 v6 a \<Longrightarrow> deleteFromEpAddressList v4 v6 i a zs = Ok zs"
  by (auto simp: deleteFromEpAddressList_def hit_def)

lemma delete_one_address:
  assumes "\<And>a. a \<in> set pre \<union> set post \<Longrightarrow> \<not> hit v4 v6 a" and "hit v4 v6 x"
  shows "delete_addresses v4 v6 0 (pre @ x # post) (pre @ x # post) = Ok (pre @ post)"
  using assms by (simp add: bind_res.simps delete_addresses_append delete_addresses_miss deleteFrom_hit)

lemma delete_two_addresses:
  assumes "\<And>a. a \<in> set pre \<union> set post \<Longrightarrow> \<not> hit v4 v6 a" and "hit v4 v6 x" "hit v4 v6 y"
  shows "delete_addresses v4 v6 0 (pre @ x # y # post) (pre @ x # y # post) =
     (if post = [] then Panic else Ok (pre @ y # tl post))"
  using assms by (cases post) (simp_all add: delete_addresses_append delete_addresses_miss deleteFrom_hit)

section \<open>Maps of addresses\<close>

abbreviation by_ip :: "EndpointAddress \<Rightarrow> string \<times> EndpointAddress" where
  "by_ip a \<equiv> (ea_IP a, a)"

lemma update_fresh: "k \<notin> fst ` set m \<Longrightarrow> AList.update k v m = m @ [(k, v)]"
  by (induction m) auto

lemma delete_by_ip:
  assumes "inj_on ea_IP (set R)" and "a \<in> set R"
  shows "AList.delete (ea_IP a) (map by_ip R) = map by_ip (filter (\<lambda>x. x \<noteq> a) R)"
proof -
  have "filter (\<lambda>x. ea_IP x \<noteq> ea_IP a) R = filter (\<lambda>x. x \<noteq> a) R"
    using assms by (intro filter_cong) (auto dest: inj_onD)
  then show ?thesis by (simp add: AList.delete_eq filter_map comp_def eq_commute)
qed

lemma address_map_distinct: "distinct (map ea_IP as) \<Longrightarrow> address_map as = map by_ip as"
proof (induction as rule: rev_induct)
  case Nil
  then show ?case by (simp add: address_map_def)
next
  case (snoc a as)
  then have "address_map as = map by_ip as" by simp
  moreover have "ea_IP a \<notin> fst ` set (map by_ip as)" using snoc.prems by auto
  ultimately show ?case by (simp add: address_map_def update_fresh)
qed

lemma move_unready_eq:
  assumes "inj_on ea_IP (set R)" and "set as \<subseteq> set R" and "distinct (map ea_IP (N @ as))"
  shows "move_unready pod cond as (map by_ip R, map by_ip N) =
     (map by_ip (filter (\<lambda>a. \<not> (cond \<and> a \<in> set as \<and> targets_pod pod a)) R),
      map by_ip (N @ filter (\<lambda>a. cond \<and> targets_pod pod a) as))"
  using assms
proof (induction as arbitrary: R N)
  case Nil
  then show ?case by simp
next
  case (Cons a as)
  show ?case
  proof (cases "cond \<and> targets_pod pod a")
    case True
    have fresh: "ea_IP a \<notin> fst ` set (map by_ip N)" using Cons.prems(3) by auto
    let ?R = "filter (\<lambda>x. x \<noteq> a) R"
    have new: "a \<notin> set as" using Cons.prems(3) by auto
    have "inj_on ea_IP (set ?R)" using Cons.prems(1) by (auto simp: inj_on_def)
    moreover have "set as \<subseteq> set ?R" using Cons.prems(2) new by auto
    moreover have "distinct (map ea_IP ((N @ [a]) @ as))" using Cons.prems(3) by auto
    ultimately have IH: "move_unready pod cond as (map by_ip ?R, map by_ip (N @ [a])) =
       (map by_ip (filter (\<lambda>a. \<not> (cond \<and> a \<in> set as \<and> targets_pod pod a)) ?R),
        map by_ip ((N @ [a]) @ filter (\<lambda>a. cond \<and> targets_pod pod a) as))"
      by (rule Cons.IH)
    have "filter (\<lambda>x. \<not> (cond \<and> x \<in> set as \<and> targets_pod pod x)) ?R =
       filter (\<lambda>x. \<not> (cond \<and> x \<in> set (a # as) \<and> targets_pod pod x)) R"
      using True by (auto simp: filter_filter intro!: filter_cong)
    with IH True show ?thesis
      using delete_by_ip [OF Cons.prems(1), of a] Cons.prems(2) update_fresh [OF fresh, of a] by simp
  next
    case False
    have "move_unready pod cond as (map by_ip R, map by_ip N) =
       (map by_ip (filter (\<lambda>a. \<not> (cond \<and> a \<in> set as \<and> targets_pod pod a)) R),
        map by_ip (N @ filter (\<lambda>a. cond \<and> targets_pod pod a) as))"
      using Cons.prems by (intro Cons.IH) auto
    moreover have "filter (\<lambda>x. \<not> (cond \<and> x \<in> set as \<and> targets_pod pod x)) R =
       filter (\<lambda>x. \<not> (cond \<and> x \<in> set (a # as) \<and> targets_pod pod x)) R"
      using False by (auto intro!: filter_cong)
    ultimately show ?thesis using False by auto
  qed
qed

text \<open>Moving to the ready addresses is moving to the others with the two maps exchanged.\<close>

lemma move_ready_swap:
  "move_ready pod cond as (R, N) = (let (n, r) = move_unready pod cond as (N, R) in (r, n))"
  by (induction as arbitrary: cond R N) (auto simp: Let_def)

lemma moved_subset_sets:
  fixes early :: bool and pod :: Pod
  assumes ips: "distinct (map ea_IP (es_Addresses s @ es_NotReadyAddresses s))"
    and order: "\<And>m. set (order m) = set m" and change: "oldReady \<noteq> newReady"
  defines "s' \<equiv> moved_subset order pod oldReady newReady early s"
  shows "set (es_Addresses s') =
       {a \<in> set (es_Addresses s). \<not> (targets_pod pod a \<and> oldReady \<and> \<not> early)} \<union>
       {a \<in> set (es_NotReadyAddresses s). targets_pod pod a \<and> newReady}"
    and "set (es_NotReadyAddresses s') =
       {a \<in> set (es_NotReadyAddresses s). \<not> (targets_pod pod a \<and> newReady)} \<union>
       {a \<in> set (es_Addresses s). targets_pod pod a \<and> oldReady \<and> \<not> early}"
    and "es_Ports s' = es_Ports s"
proof -
  let ?A = "es_Addresses s" and ?N = "es_NotReadyAddresses s" and ?t = "targets_pod pod"
  let ?c = "(oldReady \<or> (newReady \<and> early)) \<and> \<not> early"
  have c: "?c \<longleftrightarrow> oldReady \<and> \<not> early" by auto
  have maps: "address_map ?A = map by_ip ?A" "address_map ?N = map by_ip ?N"
    using ips by (simp_all add: address_map_distinct)
  let ?R1 = "filter (\<lambda>a. \<not> (?c \<and> a \<in> set ?A \<and> ?t a)) ?A"
  let ?N1 = "?N @ filter (\<lambda>a. ?c \<and> ?t a) ?A"
  have first: "move_unready pod ?c ?A (map by_ip ?A, map by_ip ?N) = (map by_ip ?R1, map by_ip ?N1)"
    using ips by (intro move_unready_eq) (auto simp: distinct_map)
  have inj: "inj_on ea_IP (set ?A \<union> set ?N)" using ips by (simp only: map_append [symmetric] distinct_map set_append)
  have dist: "distinct (map ea_IP ?A)" "distinct (map ea_IP ?N)" "ea_IP ` set ?A \<inter> ea_IP ` set ?N = {}"
    using ips by (simp_all add: set_map)
  have second: "move_unready pod newReady ?N (map by_ip ?N1, map by_ip ?R1) =
      (map by_ip (filter (\<lambda>a. \<not> (newReady \<and> a \<in> set ?N \<and> ?t a)) ?N1),
       map by_ip (?R1 @ filter (\<lambda>a. newReady \<and> ?t a) ?N))"
  proof (rule move_unready_eq)
    show "inj_on ea_IP (set ?N1)" using inj by (rule inj_on_subset) auto
    show "set ?N \<subseteq> set ?N1" by auto
    show "distinct (map ea_IP (?R1 @ ?N))" using dist by (auto simp: distinct_map_filter)
  qed
  have s': "s' = s\<lparr>es_Addresses := map snd (order (map by_ip (?R1 @ filter (\<lambda>a. newReady \<and> ?t a) ?N))),
      es_NotReadyAddresses := map snd (order (map by_ip (filter (\<lambda>a. \<not> (newReady \<and> a \<in> set ?N \<and> ?t a)) ?N1)))\<rparr>"
    by (simp only: s'_def moved_subset_def maps first move_ready_swap second Let_def prod.case)
  have AN: "set ?A \<inter> set ?N = {}" using dist(3) by auto
  let ?X = "?R1 @ filter (\<lambda>a. newReady \<and> ?t a) ?N"
  let ?Y = "filter (\<lambda>a. \<not> (newReady \<and> a \<in> set ?N \<and> ?t a)) ?N1"
  have img: "\<And>xs. set (map snd (order (map by_ip xs))) = set xs" by (simp add: order image_image)
  have "es_Addresses s' = map snd (order (map by_ip ?X))" unfolding s' by simp
  then have "set (es_Addresses s') = set ?X" by (simp only: img)
  then show "set (es_Addresses s') = {a \<in> set ?A. \<not> (?t a \<and> oldReady \<and> \<not> early)} \<union> {a \<in> set ?N. ?t a \<and> newReady}"
    by auto
  have "es_NotReadyAddresses s' = map snd (order (map by_ip ?Y))" unfolding s' by simp
  then have "set (es_NotReadyAddresses s') = set ?Y" by (simp only: img)
  then show "set (es_NotReadyAddresses s') = {a \<in> set ?N. \<not> (?t a \<and> newReady)} \<union> {a \<in> set ?A. ?t a \<and> oldReady \<and> \<not> early}"
    using AN by auto
  show "es_Ports s' = es_Ports s" unfolding s' by simp
qed

section \<open>Deleting a DanmEp\<close>

definition publishes :: "json_map \<Rightarrow> DanmEp \<Rightarrow> Endpoints \<Rightarrow> bool" where
  "publishes parse de eps \<longleftrightarrow>
     (case GetDanmSvcAnnotations parse (eps_Annotations eps) of
        Inl _ \<Rightarrow> False
      | Inr (sel, nets) \<Rightarrow> sel \<noteq> [] \<and> isDepSelectedBySvc de nets \<and>
          mt_Namespace (eps_Meta eps) = mt_Namespace (ep_Meta de) \<and> IsContain (mt_Labels (ep_Meta de)) sel)"

lemma without_danmep_publishes:
  assumes "publishes parse de eps" and "eps_Subsets eps = Some (s # rest)" and "getIpsFromDanmEp de = (ip4, ip6)"
  shows "without_danmep parse de (eps # epsList) epList =
    bind_res (delete_addresses ip4 ip6 0 (es_Addresses s) (es_Addresses s)) (\<lambda>ready.
    bind_res (delete_addresses ip4 ip6 0 (es_NotReadyAddresses s) (es_NotReadyAddresses s)) (\<lambda>notReady.
      without_danmep parse de epsList
        (epList @ [set_subset (s\<lparr>es_Addresses := ready, es_NotReadyAddresses := notReady\<rparr>) eps])))"
  using assms by (auto simp: publishes_def first_subset_def split: sum.splits)

lemma without_danmep_extends:
  "without_danmep parse de l acc = bind_res (without_danmep parse de l []) (\<lambda>l'. Ok (acc @ l'))"
proof (induction l arbitrary: acc)
  case Nil
  then show ?case by simp
next
  case (Cons ep l)
  have step: "\<And>x. without_danmep parse de l (acc @ [x]) = bind_res (without_danmep parse de l [x]) (\<lambda>l'. Ok (acc @ l'))"
  proof -
    fix x
    show "without_danmep parse de l (acc @ [x]) = bind_res (without_danmep parse de l [x]) (\<lambda>l'. Ok (acc @ l'))"
      using Cons [of "acc @ [x]"] Cons [of "[x]"] by (cases "without_danmep parse de l []") simp_all
  qed
  show ?case
    using Cons [of acc]
    by (auto simp: step bind_res_assoc Let_def split: sum.splits prod.splits)
qed

text \<open>A list that starts with Endpoints the server keeps rejecting is never written.\<close>

lemma delete_passes_stuck:
  assumes "\<And>w. UpdateEndpoints c stale w = (Err (ApiError msg), w)" and "contains msg OptimisticLockErrorMsg"
    and "\<And>w. \<exists>l l'. sv_ListEndpoints c w (mt_Namespace (ep_Meta de)) = Inr l \<and> without_danmep (sv_Parse c) de l [] = Ok l'"
  shows "delete_passes c de k (stale # acc) w = (Ok (), (sv_Sleep c ^^ k) w)"
proof (induction k arbitrary: acc w)
  case 0
  then show ?case by simp
next
  case (Suc k)
  obtain l l' where l: "sv_ListEndpoints c w (mt_Namespace (ep_Meta de)) = Inr l" "without_danmep (sv_Parse c) de l [] = Ok l'"
    using assms(3) by blast
  have ext: "without_danmep (sv_Parse c) de l (stale # acc) = Ok (stale # acc @ l')"
    using l(2) without_danmep_extends [of "sv_Parse c" de l "stale # acc"] by simp
  have "after_write c (UpdateEndpointsList c (stale # acc @ l')) w = (Ok Again, sv_Sleep c w)"
    using assms(1,2) by (simp add: after_write_def)
  then have "delete_passes c de (Suc k) (stale # acc) w = delete_passes c de k (stale # acc @ l') (sv_Sleep c w)"
    using l(1) ext by simp
  also have "\<dots> = (Ok (), (sv_Sleep c ^^ k) (sv_Sleep c w))" by (rule Suc)
  finally show ?case by (simp only: funpow_Suc_right comp_def)
qed

section \<open>Properties\<close>


text \<open>
  C22. A change of a Pod's readiness moves its addresses and no others: in an Endpoints object whose
  addresses are distinct they go to the ready addresses when the Pod becomes ready, to the others
  when it stops being ready, and stay ready in the latter case if the Service tolerates unready
  endpoints; ports and metadata are kept. This holds for every order in which Go ranges over maps.
\<close>

theorem readiness_moves_pod_addresses:
  assumes "getSvc (mt_Namespace (eps_Meta eps)) (mt_Name (eps_Meta eps)) = Inr svc"
    and "eps_Subsets eps = Some (s # rest)"
    and "distinct (map ea_IP (es_Addresses s @ es_NotReadyAddresses s))"
    and "\<And>m. set (order m) = set m" and "oldReady \<noteq> newReady"
  shows "\<exists>s'. UpdatePodStatusInEps order getSvc [eps] pod oldReady newReady =
       Ok [eps\<lparr>eps_Subsets := Some (s' # rest)\<rparr>] \<and>
     set (es_Addresses s') =
       {a \<in> set (es_Addresses s).
          targets_pod pod a \<and> oldReady \<longrightarrow> lookup0 (svc_Annotations svc) TolerateUnreadyEps = ''true''} \<union>
       {a \<in> set (es_NotReadyAddresses s). targets_pod pod a \<and> newReady} \<and>
     set (es_Addresses s') \<union> set (es_NotReadyAddresses s') = set (es_Addresses s) \<union> set (es_NotReadyAddresses s) \<and>
     set (es_Addresses s') \<inter> set (es_NotReadyAddresses s') = {} \<and> es_Ports s' = es_Ports s"
proof -
  let ?early = "lookup0 (svc_Annotations svc) TolerateUnreadyEps = ''true''"
  let ?s = "moved_subset order pod oldReady newReady ?early s"
  have run: "UpdatePodStatusInEps order getSvc [eps] pod oldReady newReady = Ok [eps\<lparr>eps_Subsets := Some (?s # rest)\<rparr>]"
    using assms(1,2) by (simp add: first_subset_def set_subset_def Let_def)
  note moved = moved_subset_sets [OF assms(3,4,5), where pod = pod and early = ?early]
  have "set (es_Addresses s) \<inter> set (es_NotReadyAddresses s) = {}" using assms(3) by auto
  then show ?thesis by (intro exI [of _ ?s] conjI run) (auto simp: moved)
qed

text \<open>
  An address is withdrawn exactly: deleting an endpoint that has one address among those of the
  Service removes this address and keeps all others in their order.
\<close>

theorem withdraws_single_address:
  assumes "\<And>a. a \<in> set pre \<union> set post \<Longrightarrow> ea_IP a \<noteq> v4 \<and> ea_IP a \<noteq> v6" and "ea_IP x = v4 \<or> ea_IP x = v6"
  shows "delete_addresses v4 v6 0 (pre @ x # post) (pre @ x # post) = Ok (pre @ post)"
  using assms by (intro delete_one_address) (auto simp: hit_def)

text \<open>
  A dual-stack DanmEp is never added to Endpoints that already list addresses: the check that
  skips the update when both addresses are there also holds when both are merely usable, so that
  the handler returns without an update although neither address is published.
\<close>

theorem dual_stack_endpoint_not_published:
  assumes "usable_address ip4" and "usable_address ip6" and "eps_Subsets eps = Some (s # rest)"
  shows "EpCheckUpdate c ip4 ip6 eps pod early w = (Ok (), w)"
  using assms
  by (simp add: EpCheckUpdate_def isIpInEp_def first_subset_def usable_address_def)

text \<open>
  A DanmEp with an IPv4 address only is published: the update sends the Endpoints with the
  address appended, among the ready addresses if the Pod is ready or the Service tolerates unready
  endpoints, among the others otherwise.
\<close>

theorem single_stack_endpoint_published:
  assumes "usable_address ip4" and "eps_Subsets eps = Some (s # rest)"
    and "\<And>a. a \<in> set (es_Addresses s) \<Longrightarrow> ea_IP a \<noteq> ip4 \<and> ea_IP a \<noteq> []"
  shows "EpCheckUpdate c ip4 [] eps pod early w =
    of_api (sv_UpdateEndpoints c (mt_Namespace (eps_Meta eps))
      (eps\<lparr>eps_Subsets := Some
         ((if PodReady pod \<or> early
           then s\<lparr>es_Addresses := es_Addresses s @ [new_address ip4 pod (pod_ref pod)]\<rparr>
           else s\<lparr>es_NotReadyAddresses := es_NotReadyAddresses s @ [new_address ip4 pod (pod_ref pod)]\<rparr>) # rest)\<rparr>) w)"
proof -
  have no4: "\<not> list_ex (\<lambda>a. ea_IP a = ip4) (es_Addresses s)" and no6: "\<not> list_ex (\<lambda>a. ea_IP a = []) (es_Addresses s)"
    using assms(3) by (auto simp: list_ex_iff)
  show ?thesis
    using assms(1,2) no4 no6
    by (simp add: EpCheckUpdate_def isIpInEp_def first_subset_def createChangedEpAddressList_def add_address_def
        usable_address_def UpdateEndpoints_def set_subset_def)
qed

text \<open>
  C39. Deleting a dual-stack DanmEp harms its Service: the indices of the original address list are
  used on the list that has already become shorter. If its two addresses are the last ones, the
  handler panics; otherwise its second address stays and the address after it, another Pod's, is
  removed.
\<close>

theorem dual_stack_deletion_harms:
  assumes "sv_ListEndpoints c w (mt_Namespace (ep_Meta de)) = Inr [eps]" and "publishes (sv_Parse c) de eps"
    and "eps_Subsets eps = Some [s]" and "es_Addresses s = pre @ x # y # post" and "es_NotReadyAddresses s = []"
    and "getIpsFromDanmEp de = (ea_IP x, ea_IP y)"
    and "\<And>a. a \<in> set pre \<union> set post \<Longrightarrow> ea_IP a \<noteq> ea_IP x \<and> ea_IP a \<noteq> ea_IP y"
  shows "if post = [] then delDanmep c (ObjDep de) w = (Panic, w)
    else without_danmep (sv_Parse c) de [eps] [] =
      Ok [eps\<lparr>eps_Subsets := Some [s\<lparr>es_Addresses := pre @ y # tl post\<rparr>]\<rparr>]"
proof -
  have del: "delete_addresses (ea_IP x) (ea_IP y) 0 (es_Addresses s) (es_Addresses s) =
      (if post = [] then Panic else Ok (pre @ y # tl post))"
    unfolding assms(4) using assms(7) by (intro delete_two_addresses) (auto simp: hit_def)
  show ?thesis
  proof (cases "post = []")
    case True
    then have "without_danmep (sv_Parse c) de [eps] [] = Panic"
      using del by (simp add: without_danmep_publishes [OF assms(2,3,6)] del: without_danmep.simps(2))
    then have passes: "delete_passes c de (Suc k) [] w = (Panic, w)" for k
      using assms(1) by (simp del: without_danmep.simps(2))
    have "MaxUpdateRetry = Suc 399" by (simp add: MaxUpdateRetry_def)
    then have "delDanmep c (ObjDep de) w = (Panic, w)"
      using passes [of 399] unfolding delDanmep_def svc_obj.case by (simp only:)
    then show ?thesis using True by simp
  next
    case False
    then show ?thesis
      using del assms(3,5) by (simp add: without_danmep_publishes [OF assms(2,3,6)] set_subset_def del: without_danmep.simps(2))
  qed
qed

text \<open>
  C37. A deletion that meets one conflict never succeeds: the rejected Endpoints stay at the front of
  the list of the next pass, are rejected again, and keep the fresh copies behind them from being
  written. The handler ends after its 400 pauses having changed nothing.
\<close>

theorem conflicting_deletion_never_recovers:
  assumes "sv_ListEndpoints c w (mt_Namespace (ep_Meta de)) = Inr epsList"
    and "without_danmep (sv_Parse c) de epsList [] = Ok (stale # fresh)"
    and "\<And>w. UpdateEndpoints c stale w = (Err (ApiError msg), w)" and "contains msg OptimisticLockErrorMsg"
    and "\<And>w. \<exists>l l'. sv_ListEndpoints c w (mt_Namespace (ep_Meta de)) = Inr l \<and>
      without_danmep (sv_Parse c) de l [] = Ok l'"
  shows "delDanmep c (ObjDep de) w = (Ok (), (sv_Sleep c ^^ MaxUpdateRetry) w)"
proof -
  have "after_write c (UpdateEndpointsList c (stale # fresh)) w = (Ok Again, sv_Sleep c w)"
    using assms(3,4) by (simp add: after_write_def)
  then have "delete_passes c de (Suc k) [] w = delete_passes c de k (stale # fresh) (sv_Sleep c w)" for k
    using assms(1,2) by simp
  moreover have "delete_passes c de k (stale # fresh) (sv_Sleep c w) = (Ok (), (sv_Sleep c ^^ k) (sv_Sleep c w))" for k
    using assms(3-5) by (rule delete_passes_stuck)
  ultimately have passes: "delete_passes c de (Suc k) [] w = (Ok (), (sv_Sleep c ^^ Suc k) w)" for k
    by (simp only: funpow_Suc_right comp_def)
  have "MaxUpdateRetry = Suc 399" by (simp add: MaxUpdateRetry_def)
  then show ?thesis using passes [of 399] unfolding delDanmep_def svc_obj.case by (simp only:)
qed

section \<open>Witnesses\<close>

definition demo_parse :: json_map where
  "demo_parse text = Inr [(''app'', text)]"

definition demo_annotations :: gomap where
  "demo_annotations = [(PodSelector, ''web''), (ClusterNetSelector, ''internet'')]"

definition demo_meta :: "string \<Rightarrow> string \<Rightarrow> ObjectMeta" where
  "demo_meta name ver = \<lparr>mt_Name = name, mt_Namespace = ''ns1'', mt_ResourceVersion = ver, mt_UID = name @ ''-uid'',
     mt_Labels = [(''app'', ''web'')]\<rparr>"

definition demo_service :: Service where
  "demo_service = \<lparr>svc_Meta = demo_meta ''web'' ''7'', svc_Annotations = demo_annotations,
     svc_Ports = [\<lparr>sp_Name = ''http'', sp_Port = 80, sp_Protocol = ''TCP'', sp_Rest = []\<rparr>]\<rparr>"

definition demo_pod :: Pod where
  "demo_pod = \<lparr>pod_Meta = demo_meta ''pod1'' ''3'', pod_Annotations = [], pod_Hostname = ''pod1'', pod_NodeName = ''n1'',
     pod_Conditions = [(''Ready'', ''True'')], pod_Deleting = False\<rparr>"

definition demo_dep :: "string \<Rightarrow> string \<Rightarrow> DanmEp" where
  "demo_dep a4 a6 = \<lparr>ep_Kind = ''DanmEp'', ep_Meta = demo_meta ''ep1'' ''5'',
     ep_Spec = \<lparr>ep_NetworkName = ''internet'', ep_NetworkType = ''ipvlan'', ep_EndpointID = ''ep1'',
       ep_Iface = \<lparr>if_Name = ''eth0'', if_Address = a4, if_AddressIPv6 = a6, if_MacAddress = [], if_Proutes = None,
         if_Proutes6 = None, if_DeviceID = []\<rparr>,
       ep_Host = ''n1'', ep_Pod = ''pod1'', ep_PodUID = ''pod1-uid'', ep_CID = ''c1'', ep_Netns = [],
       ep_ApiType = ''ClusterNetwork''\<rparr>\<rparr>"

definition demo_address :: "string \<Rightarrow> EndpointAddress" where
  "demo_address ip = new_address ip demo_pod (pod_ref demo_pod)"

definition demo_endpoints :: "string \<Rightarrow> EndpointAddress list \<Rightarrow> Endpoints" where
  "demo_endpoints ver as = \<lparr>eps_Meta = demo_meta ''web'' ver, eps_Annotations = demo_annotations,
     eps_Subsets = Some [\<lparr>es_Addresses = as, es_NotReadyAddresses = [], es_Ports = []\<rparr>]\<rparr>"

text \<open>
  A server whose Endpoints are at version 2; the cache still shows version 1 at time 0. The
  world is the time, moved on by an accepted update to 1000 and more.
\<close>

definition demo_svc :: "(string \<Rightarrow> Endpoints) \<Rightarrow> nat svc_env" where
  "demo_svc eps =
     \<lparr>sv_Synced = \<lambda>_ _. True, sv_GetPod = \<lambda>w ns name. Inr demo_pod, sv_GetService = \<lambda>w ns name. Inr demo_service,
      sv_ListServices = \<lambda>w ns. Inr [demo_service],
      sv_GetEndpoints = \<lambda>w ns name. Inr (eps (if w = 0 then ''1'' else ''2'')),
      sv_ListEndpoints = \<lambda>w ns. Inr [eps (if w = 0 then ''1'' else ''2'')],
      sv_ListDanmEps = \<lambda>w ns. Inr [],
      sv_UpdateEndpoints = \<lambda>ns e w. if mt_ResourceVersion (eps_Meta e) = ''2'' then (None, w + 1000)
        else (Some OptimisticLockErrorMsg, w),
      sv_CreateEndpoints = \<lambda>ns e w. (None, w), sv_Sleep = Suc, sv_Parse = demo_parse, sv_Order = \<lambda>m. m,
      sv_SplitKey = \<lambda>k. Some ([], k)\<rparr>"

lemmas demo_svc_defs = demo_svc_def demo_endpoints_def demo_address_def demo_dep_def demo_pod_def demo_service_def
  demo_meta_def demo_annotations_def demo_parse_def new_address_def pod_ref_def PodSelector_def ClusterNetSelector_def

lemma demo_annotations_read:
  "GetDanmSvcAnnotations demo_parse demo_annotations = Inr ([(''app'', ''web'')], [(''ClusterNetwork'', ''internet'')])"
  by code_simp


theorem readiness_moves_pod_addresses_witness:
  "\<exists>s'. UpdatePodStatusInEps (\<lambda>m. m) (\<lambda>ns name. Inr demo_service) [demo_endpoints ''1'' [demo_address ''10.0.0.1'']]
      demo_pod True False = Ok [(demo_endpoints ''1'' [demo_address ''10.0.0.1''])\<lparr>eps_Subsets := Some [s']\<rparr>] \<and>
    es_Addresses s' = [] \<and> demo_address ''10.0.0.1'' \<in> set (es_NotReadyAddresses s')"
proof -
  let ?e = "demo_endpoints ''1'' [demo_address ''10.0.0.1'']"
  have t: "targets_pod demo_pod (demo_address ''10.0.0.1'')" by code_simp
  have n: "lookup0 (svc_Annotations demo_service) TolerateUnreadyEps \<noteq> ''true''" by code_simp
  let ?s = "\<lparr>es_Addresses = [demo_address ''10.0.0.1''], es_NotReadyAddresses = [], es_Ports = []\<rparr>"
  have sub: "eps_Subsets ?e = Some [?s]" by (simp add: demo_endpoints_def)
  have ips: "distinct (map ea_IP (es_Addresses ?s @ es_NotReadyAddresses ?s))" by simp
  obtain s' where s': "UpdatePodStatusInEps (\<lambda>m. m) (\<lambda>ns name. Inr demo_service) [?e] demo_pod True False =
        Ok [?e\<lparr>eps_Subsets := Some [s']\<rparr>]"
      and ready: "set (es_Addresses s') = {a \<in> set (es_Addresses ?s). targets_pod demo_pod a \<and> True \<longrightarrow>
          lookup0 (svc_Annotations demo_service) TolerateUnreadyEps = ''true''} \<union>
        {a \<in> set (es_NotReadyAddresses ?s). targets_pod demo_pod a \<and> False}"
      and all: "set (es_Addresses s') \<union> set (es_NotReadyAddresses s') = set (es_Addresses ?s) \<union> set (es_NotReadyAddresses ?s)"
    using readiness_moves_pod_addresses [OF _ sub ips, of "\<lambda>ns name. Inr demo_service" demo_service "\<lambda>m. m" True False demo_pod]
    by blast
  have none: "set (es_Addresses s') = {}" using ready t n by auto
  moreover have "demo_address ''10.0.0.1'' \<in> set (es_NotReadyAddresses s')" using all none by simp
  moreover note s'
  ultimately show ?thesis by (intro exI [of _ s']) (simp only: set_empty simp_thms)
qed

theorem withdraws_single_address_witness:
  "delete_addresses ''10.0.0.2'' [] 0 (map demo_address [''10.0.0.1'', ''10.0.0.2'', ''10.0.0.3''])
     (map demo_address [''10.0.0.1'', ''10.0.0.2'', ''10.0.0.3'']) = Ok (map demo_address [''10.0.0.1'', ''10.0.0.3''])"
proof -
  let ?pre = "[demo_address ''10.0.0.1'']" and ?x = "demo_address ''10.0.0.2''" and ?post = "[demo_address ''10.0.0.3'']"
  have "delete_addresses ''10.0.0.2'' [] 0 (?pre @ ?x # ?post) (?pre @ ?x # ?post) = Ok (?pre @ ?post)"
    by (rule withdraws_single_address) (auto simp: demo_address_def new_address_def)
  then show ?thesis by (simp del: delete_addresses.simps)
qed

theorem dual_stack_endpoint_not_published_witness:
  "EpCheckUpdate (demo_svc (\<lambda>ver. demo_endpoints ver [])) ''10.0.0.1'' ''fd00::1''
     (demo_endpoints ''2'' [demo_address ''10.0.0.9'']) demo_pod False 1 = (Ok (), 1)"
  by (rule dual_stack_endpoint_not_published)
    (simp_all add: usable_address_def alloc_type_defs demo_endpoints_def)

theorem single_stack_endpoint_published_witness:
  "EpCheckUpdate (demo_svc (\<lambda>ver. demo_endpoints ver [])) ''10.0.0.1'' []
     (demo_endpoints ''2'' [demo_address ''10.0.0.9'']) demo_pod False 1 = (Ok (), 1001)"
  by (subst single_stack_endpoint_published [where
        s = "\<lparr>es_Addresses = [demo_address ''10.0.0.9''], es_NotReadyAddresses = [], es_Ports = []\<rparr>" and rest = "[]"])
    (simp_all add: usable_address_def alloc_type_defs demo_svc_defs of_api_def)

theorem dual_stack_deletion_harms_witness:
  "delDanmep (demo_svc (\<lambda>ver. demo_endpoints ver (map demo_address [''10.0.0.1'', ''fd00::1''])))
     (ObjDep (demo_dep ''10.0.0.1/24'' ''fd00::1/64'')) 0 = (Panic, 0)"
proof -
  let ?c = "demo_svc (\<lambda>ver. demo_endpoints ver (map demo_address [''10.0.0.1'', ''fd00::1'']))"
  let ?de = "demo_dep ''10.0.0.1/24'' ''fd00::1/64''"
  let ?e = "demo_endpoints ''1'' (map demo_address [''10.0.0.1'', ''fd00::1''])"
  have "publishes demo_parse ?de ?e" by code_simp
  moreover have "getIpsFromDanmEp ?de = (''10.0.0.1'', ''fd00::1'')" by code_simp
  ultimately show ?thesis
    using dual_stack_deletion_harms [of ?c 0 ?de ?e
        "\<lparr>es_Addresses = map demo_address [''10.0.0.1'', ''fd00::1''], es_NotReadyAddresses = [], es_Ports = []\<rparr>"
        "[]" "demo_address ''10.0.0.1''" "demo_address ''fd00::1''" "[]"]
    by (simp add: demo_svc_defs)
qed

theorem conflicting_deletion_never_recovers_witness:
  "delDanmep (demo_svc (\<lambda>ver. demo_endpoints ver (map demo_address [''10.0.0.1'', ''10.0.0.2''])))
     (ObjDep (demo_dep ''10.0.0.1/24'' [])) 0 = (Ok (), 400)"
proof -
  let ?c = "demo_svc (\<lambda>ver. demo_endpoints ver (map demo_address [''10.0.0.1'', ''10.0.0.2'']))"
  let ?de = "demo_dep ''10.0.0.1/24'' []"
  have read: "without_danmep demo_parse ?de [demo_endpoints ver (map demo_address [''10.0.0.1'', ''10.0.0.2''])] [] =
      Ok [demo_endpoints ver [demo_address ''10.0.0.2'']]" for ver
  proof -
    have pub: "publishes demo_parse ?de (demo_endpoints ver as)" for as
      by (simp add: publishes_def demo_endpoints_def demo_annotations_read) code_simp
    have ips: "getIpsFromDanmEp ?de = (''10.0.0.1'', [])" by code_simp
    show ?thesis
      by (subst without_danmep_publishes [OF pub _ ips, where
            s = "\<lparr>es_Addresses = map demo_address [''10.0.0.1'', ''10.0.0.2''], es_NotReadyAddresses = [], es_Ports = []\<rparr>"
            and rest = "[]"])
        (simp_all add: deleteFromEpAddressList_def set_subset_def demo_endpoints_def demo_address_def new_address_def)
  qed
  have "delDanmep ?c (ObjDep ?de) 0 = (Ok (), (sv_Sleep ?c ^^ MaxUpdateRetry) 0)"
  proof (rule conflicting_deletion_never_recovers)
    show "sv_ListEndpoints ?c 0 (mt_Namespace (ep_Meta ?de)) = Inr [demo_endpoints ''1'' (map demo_address [''10.0.0.1'', ''10.0.0.2''])]"
      by (simp add: demo_svc_def)
    show "without_danmep (sv_Parse ?c) ?de [demo_endpoints ''1'' (map demo_address [''10.0.0.1'', ''10.0.0.2''])] [] =
        Ok (demo_endpoints ''1'' [demo_address ''10.0.0.2''] # [])"
      using read [of "''1''"] by (simp add: demo_svc_def)
    show "UpdateEndpoints ?c (demo_endpoints ''1'' [demo_address ''10.0.0.2'']) w = (Err (ApiError OptimisticLockErrorMsg), w)" for w
      by (simp add: UpdateEndpoints_def first_subset_def of_api_def demo_svc_def demo_endpoints_def demo_meta_def)
    show "contains OptimisticLockErrorMsg OptimisticLockErrorMsg" by code_simp
    show "\<exists>l l'. sv_ListEndpoints ?c w (mt_Namespace (ep_Meta ?de)) = Inr l \<and> without_danmep (sv_Parse ?c) ?de l [] = Ok l'" for w
      using read by (fastforce simp: demo_svc_def)
  qed
  moreover have "(Suc ^^ n) 0 = n" for n :: nat by (induction n) simp_all
  ultimately show ?thesis by (simp add: demo_svc_def MaxUpdateRetry_def)
qed

end
