(* ===== verification/PodIface.thy ===== *)
theory PodIface
  imports DanmEps HostNet
begin

text \<open>
  \<^verbatim>\<open>pkg/danmep/ep.go\<close> and the interface functions of
  \<^verbatim>\<open>pkg/danmep/danmep.go\<close>: creating, configuring and deleting the network
  interface of a Pod inside its network namespace. The kernel's namespaces, addresses, routes and
  rules are the record \<open>pod_host\<close>; namespaces are numbers, the current one is part of the
  world. Closing a namespace and locking the thread have no effect here. MAC addresses are read
  and printed by Go's \<^verbatim>\<open>net\<close> package.
\<close>

section \<open>MAC addresses\<close>

definition InvalidMacAddress :: string where "InvalidMacAddress = ''00:00:00:00:00:00''"

text \<open>\<^verbatim>\<open>xtoi2(s, e)\<close>: two hexadecimal digits, followed by \<open>e\<close> if by anything.\<close>

definition xtoi2 :: "string \<Rightarrow> char option \<Rightarrow> nat option" where
  "xtoi2 s e =
     (if length s > 2 \<and> Some (s ! 2) \<noteq> e then None
      else (case xtoi (take 2 s) of Some (n, []) \<Rightarrow> if length s \<ge> 2 then Some n else None | _ \<Rightarrow> None))"

fun mac_pairs :: "nat \<Rightarrow> char option \<Rightarrow> string \<Rightarrow> byte list option" where
  "mac_pairs 0 e s = Some []"
| "mac_pairs (Suc k) e s =
     (case xtoi2 s e of
        None \<Rightarrow> None
      | Some b \<Rightarrow> (case mac_pairs k e (drop 3 s) of None \<Rightarrow> None | Some bs \<Rightarrow> Some (word_of_nat b # bs)))"

fun mac_quads :: "nat \<Rightarrow> string \<Rightarrow> byte list option" where
  "mac_quads 0 s = Some []"
| "mac_quads (Suc k) s =
     (case (xtoi2 (take 2 s) None, xtoi2 (drop 2 s) (Some (CHR ''.''))) of
        (Some b, Some c) \<Rightarrow>
          (case mac_quads k (drop 5 s) of None \<Rightarrow> None | Some bs \<Rightarrow> Some (word_of_nat b # word_of_nat c # bs))
      | _ \<Rightarrow> None)"

text \<open>The empty list is the nil address of a text that is none.\<close>

definition ParseMAC :: "string \<Rightarrow> byte list" where
  "ParseMAC s =
     (if length s < 14 then []
      else if s ! 2 = CHR '':'' \<or> s ! 2 = CHR ''-'' then
        (let n = (length s + 1) div 3 in
         if (length s + 1) mod 3 \<noteq> 0 \<or> n \<notin> {6, 8, 20} then []
         else (case mac_pairs n (Some (s ! 2)) s of Some bs \<Rightarrow> bs | None \<Rightarrow> []))
      else if s ! 4 = CHR ''.'' then
        (let n = 2 * (length s + 1) div 5 in
         if (length s + 1) mod 5 \<noteq> 0 \<or> n \<notin> {6, 8, 20} then []
         else (case mac_quads (n div 2) s of Some bs \<Rightarrow> bs | None \<Rightarrow> []))
      else [])"

fun mac_string :: "byte list \<Rightarrow> string" where
  "mac_string [] = []"
| "mac_string [b] = hex_bytes [b]"
| "mac_string (b # c # bs) = hex_bytes [b] @ CHR '':'' # mac_string (c # bs)"

section \<open>The kernel\<close>

record 'w pod_host =
  ph_net :: "'w netlink"
  ph_env :: "'w host_env"
  GetCurrentNS :: "'w \<Rightarrow> string + nat"
  GetNS :: "string \<Rightarrow> 'w \<Rightarrow> string + nat"
  SetNS :: "nat \<Rightarrow> 'w \<Rightarrow> string option \<times> 'w"
  IsNSorErr :: "string \<Rightarrow> 'w \<Rightarrow> string option"
  LinkSetNsFd :: "link \<Rightarrow> nat \<Rightarrow> 'w \<Rightarrow> string option \<times> 'w"
  LinkSetName :: "link \<Rightarrow> string \<Rightarrow> 'w \<Rightarrow> string option \<times> 'w"
  LinkSetAlias :: "new_link \<Rightarrow> string \<Rightarrow> 'w \<Rightarrow> string option \<times> 'w"
  AddrAdd :: "link \<Rightarrow> ipnet \<Rightarrow> bool \<Rightarrow> 'w \<Rightarrow> string option \<times> 'w"
  AddrReplace :: "link \<Rightarrow> ipnet \<Rightarrow> bool \<Rightarrow> 'w \<Rightarrow> string option \<times> 'w"
  RouteAdd :: "int \<Rightarrow> ipnet \<Rightarrow> ip \<Rightarrow> int \<Rightarrow> 'w \<Rightarrow> string option \<times> 'w"
  RuleAdd :: "ipnet \<Rightarrow> int \<Rightarrow> 'w \<Rightarrow> string option \<times> 'w"
  GratuitousArp :: "ip \<Rightarrow> string \<Rightarrow> 'w \<Rightarrow> 'w"
  HasDpdkDriver :: "string \<Rightarrow> 'w \<Rightarrow> bool"

text \<open>\<open>try_op f r\<close>: a kernel call whose error is wrapped by \<open>f\<close>; \<open>read_op\<close> for one that only reads.\<close>

definition try_op :: "(string \<Rightarrow> string) \<Rightarrow> ('w \<Rightarrow> string option \<times> 'w) \<Rightarrow> ('w, unit) st" where
  "try_op f oper w = (case oper w of (None, w') \<Rightarrow> (Ok (), w') | (Some msg, w') \<Rightarrow> (Err (Msg (f msg)), w'))"

definition read_op :: "(string \<Rightarrow> string) \<Rightarrow> ('w \<Rightarrow> string + 'a) \<Rightarrow> ('w, 'a) st" where
  "read_op f oper w = (case oper w of Inl msg \<Rightarrow> (Err (Msg (f msg)), w) | Inr x \<Rightarrow> (Ok x, w))"

text \<open>A slice \<^verbatim>\<open>s[0:n]\<close> of a shorter text panics.\<close>

definition slice_to :: "nat \<Rightarrow> string \<Rightarrow> string res" where
  "slice_to n s = (if n \<le> length s then Ok (take n s) else Panic)"

text \<open>The deferred return to the original namespace, which also runs after an error or a panic.\<close>

definition back_to :: "'w pod_host \<Rightarrow> nat \<Rightarrow> ('w, 'a) st \<Rightarrow> ('w, 'a) st" where
  "back_to h origns body w = (let (r, w') = body w in (r, snd (SetNS h origns w')))"

definition used :: "string \<Rightarrow> bool" where
  "used addr \<longleftrightarrow> addr \<noteq> [] \<and> addr \<noteq> NoneAllocType"

abbreviation iface_of :: "DanmEp \<Rightarrow> DanmEpIface" where
  "iface_of ep \<equiv> ep_Iface (ep_Spec ep)"

section \<open>Addresses and routes\<close>

definition addIpToLink :: "'w pod_host \<Rightarrow> string \<Rightarrow> link \<Rightarrow> ('w, unit) st" where
  "addIpToLink h addr_text iface w =
     (case ParseCIDR addr_text of
        None \<Rightarrow> (Err (Msg (''cannot parse IP address because:'' @ ''invalid CIDR address: '' @ addr_text)), w)
      | Some (addr, pref) \<Rightarrow>
          try_op (\<lambda>m. ''cannot add IP address to link because:'' @ m)
            (AddrAdd h iface \<lparr>net_IP = addr, net_Mask = net_Mask pref\<rparr> (To4 addr = [])) w)"

definition configureLink :: "'w pod_host \<Rightarrow> link \<Rightarrow> DanmEp \<Rightarrow> ('w, unit) st" where
  "configureLink h iface ep =
     (let name = if_Name (iface_of ep); a4 = if_Address (iface_of ep); a6 = if_AddressIPv6 (iface_of ep) in
      bind_st (if a4 \<noteq> [] \<and> a4 \<noteq> NoneAllocType then addIpToLink h a4 iface else return_st (Ok ())) (\<lambda>_.
      bind_st (if a6 \<noteq> [] \<and> a6 \<noteq> NoneAllocType then addIpToLink h a6 iface else return_st (Ok ())) (\<lambda>_.
      bind_st (try_op (\<lambda>m. ''cannot rename link:'' @ name @ '' because:'' @ m) (LinkSetName h iface name)) (\<lambda>_.
        try_op (\<lambda>m. ''cannot set link:'' @ name @ '' UP because:'' @ m) (LinkSetUp (ph_net h) (Found iface))))))"

text \<open>Routes with an unreadable destination or gateway are ignored.\<close>

fun add_routes :: "'w pod_host \<Rightarrow> int \<Rightarrow> link \<Rightarrow> gomap \<Rightarrow> ('w, unit) st" where
  "add_routes h rtable lnk [] w = (Ok (), w)"
| "add_routes h rtable lnk ((key, v) # rest) w =
     (case ParseCIDR key of
        None \<Rightarrow> add_routes h rtable lnk rest w
      | Some (_, dst) \<Rightarrow>
          (let gw = ParseIP v in
           if gw = [] then add_routes h rtable lnk rest w
           else bind_st
             (try_op (\<lambda>m. ''Adding IP route with destination:'' @ ipnet_string dst @ '' and gateway:'' @ ip_string gw @
                ''failed with error:'' @ m) (RouteAdd h (lk_Index lnk) dst gw rtable))
             (\<lambda>_. add_routes h rtable lnk rest) w))"

definition addRouteForLink :: "'w pod_host \<Rightarrow> gomap option \<Rightarrow> string \<Rightarrow> int \<Rightarrow> link \<Rightarrow> ('w, unit) st" where
  "addRouteForLink h routes allocatedIp rtable lnk =
     (case routes of
        None \<Rightarrow> return_st (Ok ())
      | Some rs \<Rightarrow>
          (if allocatedIp = [] \<or> allocatedIp = NoneAllocType then return_st (Ok ()) else add_routes h rtable lnk rs))"

definition addPolicyRouteForLink :: "'w pod_host \<Rightarrow> int \<Rightarrow> string \<Rightarrow> gomap option \<Rightarrow> link \<Rightarrow> ('w, unit) st" where
  "addPolicyRouteForLink h rtable cidr proutes lnk =
     (if rtable = 0 \<or> cidr = [] \<or> cidr = NoneAllocType \<or> proutes = None then return_st (Ok ())
      else (case ParseCIDR cidr of
        None \<Rightarrow> return_st Panic
      | Some (srcIp, srcNet) \<Rightarrow>
          bind_st (try_op (\<lambda>m. ''cannot add rule for policy-based IP routes because:'' @ m)
              (RuleAdd h \<lparr>net_IP = srcIp, net_Mask = net_Mask srcNet\<rparr> rtable))
            (\<lambda>_. addRouteForLink h proutes cidr rtable lnk)))"

definition addIpRoutes :: "'w pod_host \<Rightarrow> link \<Rightarrow> DanmEp \<Rightarrow> DanmNet \<Rightarrow> ('w, unit) st" where
  "addIpRoutes h lnk ep dnet =
     bind_st (addRouteForLink h (Routes (opts dnet)) (if_Address (iface_of ep)) 0 lnk) (\<lambda>_.
     bind_st (addRouteForLink h (Routes6 (opts dnet)) (if_AddressIPv6 (iface_of ep)) 0 lnk) (\<lambda>_.
     bind_st (addPolicyRouteForLink h (RTables (opts dnet)) (if_Address (iface_of ep)) (if_Proutes (iface_of ep)) lnk) (\<lambda>_.
       addPolicyRouteForLink h (RTables (opts dnet)) (if_AddressIPv6 (iface_of ep)) (if_Proutes6 (iface_of ep)) lnk)))"

definition disableDadOnIface :: "'w pod_host \<Rightarrow> link \<Rightarrow> DanmEp \<Rightarrow> 'w \<Rightarrow> string option res \<times> 'w" where
  "disableDadOnIface h lnk ep w =
     (let a6 = if_AddressIPv6 (iface_of ep) in
      if ep_NetworkType (ep_Spec ep) = ''ipvlan'' \<or> a6 = [] \<or> a6 = NoneAllocType then (Ok None, w)
      else (case ParseCIDR a6 of
        None \<Rightarrow> (Panic, w)
      | Some (addr, pref) \<Rightarrow>
          (let (e, w') = AddrReplace h lnk \<lparr>net_IP = addr, net_Mask = net_Mask pref\<rparr> True w in (Ok e, w'))))"

section \<open>IPVLAN interfaces\<close>

definition gratuitous_arp :: "'w pod_host \<Rightarrow> DanmEp \<Rightarrow> 'w \<Rightarrow> 'w" where
  "gratuitous_arp h ep w =
     (let a4 = if_Address (iface_of ep) in
      if a4 \<noteq> [] \<and> a4 \<noteq> NoneAllocType
      then GratuitousArp h (case ParseCIDR a4 of None \<Rightarrow> [] | Some (addr, _) \<Rightarrow> addr) (if_Name (iface_of ep)) w
      else w)"

text \<open>The link is created in the host's namespace, moved to the Pod's, found there and configured.\<close>

definition move_iface :: "'w pod_host \<Rightarrow> DanmEp \<Rightarrow> string \<Rightarrow> nat \<Rightarrow> ('w, unit) st" where
  "move_iface h ep device hns =
     (let nl = ph_net h in
      bind_st (read_op (\<lambda>m. ''cannot find host device because:'' @ m) (LinkByName nl device)) (\<lambda>parent.
      bind_st (return_st (slice_to 15 (ep_EndpointID (ep_Spec ep)))) (\<lambda>outer.
      bind_st (try_op (\<lambda>m. ''cannot create IPVLAN interface because:'' @ m)
          (LinkAdd nl (NewIpvlan outer (lk_Index parent) (lk_MTU parent)))) (\<lambda>_.
      bind_st (read_op (\<lambda>m. ''cannot find created IPVLAN interface because:'' @ m) (LinkByName nl outer)) (\<lambda>peer.
      bind_st (\<lambda>w. case LinkSetNsFd h peer hns w of
            (None, w') \<Rightarrow> (Ok (), w')
          | (Some m, w') \<Rightarrow>
              (Err (Msg (''cannot move IPVLAN interface to netns because:'' @ m)), snd (LinkDel nl peer w'))) (\<lambda>_.
      bind_st (try_op (\<lambda>m. ''failed to enter network namespace of CID:'' @ ep_Netns (ep_Spec ep) @ '' with error:'' @ m)
          (SetNS h hns)) (\<lambda>_.
      bind_st (read_op (\<lambda>m. ''cannot find IPVLAN interface in network namespace:'' @ m) (LinkByName nl outer)) (\<lambda>iface.
      bind_st (configureLink h iface ep) (\<lambda>_ w. (Ok (), gratuitous_arp h ep w))))))))))"

definition createContainerIface :: "'w pod_host \<Rightarrow> DanmEp \<Rightarrow> string \<Rightarrow> ('w, unit) st" where
  "createContainerIface h ep device =
     bind_st (read_op (\<lambda>_. ''getting current namespace failed'') (GetCurrentNS h)) (\<lambda>origns.
     bind_st (read_op (\<lambda>_. ''cannot open network namespace:'' @ ep_Netns (ep_Spec ep)) (GetNS h (ep_Netns (ep_Spec ep)))) (\<lambda>hns.
       back_to h origns (move_iface h ep device hns)))"

definition createIpvlanInterface :: "'w pod_host \<Rightarrow> DanmNet \<Rightarrow> DanmEp \<Rightarrow> ('w, unit) st" where
  "createIpvlanInterface h dnet ep w =
     (case Hostname (ph_env h) of
        Inl msg \<Rightarrow> (Err (Msg (''cannot get hostname because:'' @ msg)), w)
      | Inr host \<Rightarrow>
          (if host \<noteq> ep_Host (ep_Spec ep) then (Ok (), w)
           else if IsNSorErr h (ep_Netns (ep_Spec ep)) w \<noteq> None then (Err (Msg ''Cannot get container pid!''), w)
           else createContainerIface h ep (DetermineHostDeviceName dnet) w))"

definition AddIpvlanInterface :: "'w pod_host \<Rightarrow> DanmNet \<Rightarrow> DanmEp \<Rightarrow> ('w, unit) st" where
  "AddIpvlanInterface h dnet ep =
     (if ep_NetworkType (ep_Spec ep) \<noteq> ''ipvlan'' then return_st (Ok ()) else createIpvlanInterface h dnet ep)"

definition remove_iface :: "'w pod_host \<Rightarrow> DanmEp \<Rightarrow> nat \<Rightarrow> ('w, unit) st" where
  "remove_iface h ep hns =
     (let device = if_Name (iface_of ep) in
      bind_st (try_op (\<lambda>_. ''failed to enter network namespace'' @ ep_Netns (ep_Spec ep)) (SetNS h hns)) (\<lambda>_.
      bind_st (read_op (\<lambda>_. ''cannot find device:'' @ device) (LinkByName (ph_net h) device)) (\<lambda>iface.
        try_op (\<lambda>_. ''cannot delete device:'' @ device) (LinkDel (ph_net h) iface))))"

definition deleteContainerIface :: "'w pod_host \<Rightarrow> DanmEp \<Rightarrow> ('w, unit) st" where
  "deleteContainerIface h ep =
     bind_st (read_op (\<lambda>_. ''getting the current netNS failed'') (GetCurrentNS h)) (\<lambda>origns.
     bind_st (read_op (\<lambda>_. ''cannot open network namespace:'' @ ep_Netns (ep_Spec ep)) (GetNS h (ep_Netns (ep_Spec ep)))) (\<lambda>hns.
       back_to h origns (remove_iface h ep hns)))"

definition determineIfName :: "DanmNet \<Rightarrow> string" where
  "determineIfName dnet =
     (let isVlanDefined = (Vlan (opts dnet) \<noteq> 0); isVxlanDefined = (Vxlan (opts dnet) \<noteq> 0) in
      if isVxlanDefined then ''vx_'' @ NetworkID (dn_Spec dnet)
      else if isVlanDefined then NetworkID (dn_Spec dnet) @ ''.'' @ itoa (Vlan (opts dnet))
      else Device (opts dnet))"

definition deleteEp :: "'w pod_host \<Rightarrow> DanmEp \<Rightarrow> ('w, unit) st" where
  "deleteEp h ep w =
     (if IsNSorErr h (ep_Netns (ep_Spec ep)) w \<noteq> None then (Err (Msg ''Cannot find netns''), w)
      else deleteContainerIface h ep w)"

definition DeleteIpvlanInterface :: "'w pod_host \<Rightarrow> DanmEp \<Rightarrow> ('w, unit) st" where
  "DeleteIpvlanInterface h ep = deleteEp h ep"

section \<open>Post-processing\<close>

text \<open>
  With a VLAN the error of the sysctls of the underlying dummy is overwritten, so that it is
  ignored; a panic of theirs is not possible.
\<close>

definition dummy_vlan :: "'w pod_host \<Rightarrow> DanmEp \<Rightarrow> DanmNet \<Rightarrow> string \<Rightarrow> byte list \<Rightarrow> ('w, unit) st" where
  "dummy_vlan h ep dnet origDummyName mac =
     (let nl = ph_net h; name = if_Name (iface_of ep);
          healthy = (mac_string mac \<noteq> [] \<and> mac_string mac \<noteq> InvalidMacAddress) in
      bind_st (try_op (\<lambda>m. ''cannot set dummy link UP because:'' @ m)
          (LinkSetUp nl (Created (NewDummy origDummyName (if healthy then mac else []))))) (\<lambda>_.
      bind_st (return_st (slice_to 14 (mt_Name (ep_Meta ep)))) (\<lambda>dummyName.
      bind_st (\<lambda>w. (Ok (), snd (setDanmEpSysctls (ph_env h)
          (ep\<lparr>ep_Spec := (ep_Spec ep)\<lparr>ep_Iface := (iface_of ep)\<lparr>if_Name := dummyName\<rparr>\<rparr>\<rparr>) w))) (\<lambda>_.
      bind_st (read_op (\<lambda>m. ''cannot find freshly created dummy interface because:'' @ m)
          (LinkByName nl origDummyName)) (\<lambda>iface.
        let vlan = NewVlanMac name (lk_Index iface) (Vlan (opts dnet)) (if healthy then mac else []) in
      bind_st (try_op (\<lambda>m. ''cannot create VLAN on dummy interface with MAC:'' @ mac_string mac @ '' for DPDK because:'' @ m)
          (LinkAdd nl vlan)) (\<lambda>_.
        try_op (\<lambda>m. ''cannot add PCI ID alias to VLAN dummy interface for DPDK because:'' @ m)
          (LinkSetAlias h vlan (if_DeviceID (iface_of ep)))))))))"

definition createDummyInterface :: "'w pod_host \<Rightarrow> DanmEp \<Rightarrow> DanmNet \<Rightarrow> ('w, unit) st" where
  "createDummyInterface h ep dnet =
     (let nl = ph_net h; mac = ParseMAC (if_MacAddress (iface_of ep));
          healthy = (mac_string mac \<noteq> [] \<and> mac_string mac \<noteq> InvalidMacAddress) in
      bind_st (return_st (if Vlan (opts dnet) \<noteq> 0 then slice_to 14 (mt_Name (ep_Meta ep)) else Ok (if_Name (iface_of ep))))
        (\<lambda>origDummyName.
      bind_st (try_op (\<lambda>m. ''cannot create dummy interface with MAC:'' @ mac_string mac @ ''for DPDK because:'' @ m)
          (LinkAdd nl (NewDummy origDummyName (if healthy then mac else [])))) (\<lambda>_.
      bind_st (if Vlan (opts dnet) = 0
          then try_op (\<lambda>m. ''cannot add PCI ID alias to dummy interface for DPDK because:'' @ m)
            (LinkSetAlias h (NewDummy origDummyName (if healthy then mac else [])) (if_DeviceID (iface_of ep)))
          else dummy_vlan h ep dnet origDummyName mac) (\<lambda>_.
      bind_st (read_op (\<lambda>m. ''cannot find freshly created dummy interface because:'' @ m)
          (LinkByName nl (if_Name (iface_of ep)))) (\<lambda>iface.
        configureLink h iface ep)))))"

definition rewrap :: "(string \<Rightarrow> string) \<Rightarrow> ('w, 'a) st \<Rightarrow> ('w, 'a) st" where
  "rewrap f m w = (case m w of (Err e, w') \<Rightarrow> (Err (Msg (f (error_text e))), w') | r \<Rightarrow> r)"

text \<open>A link that does not exist ends the post-processing without an error.\<close>

definition post_process :: "'w pod_host \<Rightarrow> DanmEp \<Rightarrow> DanmNet \<Rightarrow> nat \<Rightarrow> ('w, unit) st" where
  "post_process h ep dnet hns =
     (let name = if_Name (iface_of ep) in
      bind_st (try_op (\<lambda>m. ''failed to enter network namespace of CID:'' @ ep_Netns (ep_Spec ep) @ '' with error:'' @ m)
          (SetNS h hns)) (\<lambda>_.
      bind_st (\<lambda>w. if HasDpdkDriver h (if_DeviceID (iface_of ep)) w
          then rewrap (\<lambda>m. ''failed to create dummy kernel interface for '' @ name @ '' because:'' @ m)
            (createDummyInterface h ep dnet) w
          else (Ok (), w)) (\<lambda>_ w.
      case LinkByName (ph_net h) name w of
        Inl _ \<Rightarrow> (Ok (), w)
      | Inr lnk \<Rightarrow>
          bind_st (rewrap (\<lambda>m. ''failed to set kernel configs for interface'' @ name @ '' because:'' @ m)
            (setDanmEpSysctls (ph_env h) ep)) (\<lambda>_.
          bind_st (\<lambda>w. disableDadOnIface h lnk ep w) (\<lambda>e. case e of
              Some m \<Rightarrow> return_st (Err (Msg (''failed to disable DAD for address'' @ if_AddressIPv6 (iface_of ep) @
                '' because:'' @ m)))
            | None \<Rightarrow> addIpRoutes h lnk ep dnet)) w)))"

definition PostProcessInterface :: "'w pod_host \<Rightarrow> DanmEp \<Rightarrow> DanmNet \<Rightarrow> ('w, unit) st" where
  "PostProcessInterface h ep dnet =
     bind_st (read_op (\<lambda>_. ''getting current namespace failed'') (GetCurrentNS h)) (\<lambda>origNs.
     bind_st (read_op (\<lambda>_. ''cannot open network namespace:'' @ ep_Netns (ep_Spec ep)) (GetNS h (ep_Netns (ep_Spec ep)))) (\<lambda>hns.
       back_to h origNs (post_process h ep dnet hns)))"

section \<open>Lemmas\<close>

text \<open>
  An operation restores the namespace of its thread when it ends where it started, unless the
  switch back, its last call, failed.
\<close>

definition restores :: "('w \<Rightarrow> nat) \<Rightarrow> 'w pod_host \<Rightarrow> ('w, 'a) st \<Rightarrow> bool" where
  "restores ns_of h m \<longleftrightarrow>
     (\<forall>w. ns_of (snd (m w)) = ns_of w \<or> (\<exists>msg w1. SetNS h (ns_of w) w1 = (Some msg, snd (m w))))"

lemma back_to_restores:
  assumes enters: "\<And>n w w'. SetNS h n w = (None, w') \<Longrightarrow> ns_of w' = n"
  shows "ns_of (snd (back_to h n body w)) = n \<or> (\<exists>msg w1. SetNS h n w1 = (Some msg, snd (back_to h n body w)))"
proof -
  obtain e w1 where sw: "SetNS h n (snd (body w)) = (e, w1)" by (cases "SetNS h n (snd (body w))")
  then have "snd (back_to h n body w) = w1" by (cases "body w") (simp add: back_to_def)
  with sw enters show ?thesis by (cases e) auto
qed

lemma in_namespace:
  assumes "\<And>n w w'. SetNS h n w = (None, w') \<Longrightarrow> ns_of w' = n"
    and "\<And>n w. GetCurrentNS h w = Inr n \<Longrightarrow> n = ns_of w"
  shows "restores ns_of h (bind_st (read_op f (GetCurrentNS h)) (\<lambda>orig. bind_st (read_op g (GetNS h path)) (\<lambda>hns.
    back_to h orig (body hns))))"
  unfolding restores_def
proof
  fix w
  show "ns_of (snd (bind_st (read_op f (GetCurrentNS h)) (\<lambda>orig. bind_st (read_op g (GetNS h path)) (\<lambda>hns.
      back_to h orig (body hns))) w)) = ns_of w \<or>
    (\<exists>msg w1. SetNS h (ns_of w) w1 = (Some msg, snd (bind_st (read_op f (GetCurrentNS h)) (\<lambda>orig.
      bind_st (read_op g (GetNS h path)) (\<lambda>hns. back_to h orig (body hns))) w)))"
    using assms(2) [of w] back_to_restores [where ns_of = ns_of and h = h, OF assms(1)]
    by (cases "GetCurrentNS h w"; cases "GetNS h path w") (simp_all add: bind_st_def read_op_def)
qed

end
