(* ===== verification/MetaCni.thy ===== *)
theory MetaCni
  imports PodIface Cnidel SvcUtils
begin

text \<open>
  \<^verbatim>\<open>pkg/metacni/metacni.go\<close>: the CNI plugin itself. A CNI ADD reads the Pod's
  annotation, finds the networks, starts one goroutine per connection and merges their results; a
  CNI DEL removes every endpoint of a container. The global \<^verbatim>\<open>DanmConfig\<close> is an
  argument; creating clients, parsing JSON and CNI arguments, and Kubelet's device allocations are
  the record \<open>meta_env\<close>.

  A goroutine is a step on the world and the list of results. Steps run in the order
  \<open>me_Schedule\<close> gives, and \<open>me_Finished i\<close> of them are through when the waiting loop
  polls for the \<open>i\<close>-th time. A panic of a goroutine ends the process.
\<close>

section \<open>Arguments and environment\<close>

record CmdArgs =
  ca_Netns :: string
  ca_Args :: string
  ca_StdinData :: string

record CniCall = CniArgs +
  call_StdIn :: string
  call_Interfaces :: "Interface list"
  call_Pod :: "Pod option"
  call_DefaultNetwork :: "DanmNet option"

definition danmIfDefinitionSyntax :: string where "danmIfDefinitionSyntax = ''danm.io/interfaces''"
definition defaultNetworkName :: string where "defaultNetworkName = ''default''"
definition defaultIfName :: string where "defaultIfName = ''eth''"
definition DefaultCniDir :: string where "DefaultCniDir = ''/etc/cni/net.d''"

record K8sArgs =
  K8S_POD_NAME :: string
  K8S_POD_NAMESPACE :: string
  K8S_POD_INFRA_CONTAINER_ID :: string

type_synonym devices = "(string \<times> string list option) list"

type_synonym task = "Interface \<times> DanmNet"

record 'w meta_env =
  me_LoadArgs :: "string \<Rightarrow> string + K8sArgs"
  me_ParseNetConf :: "string \<Rightarrow> string + NetConf"
  me_BuildConfig :: "string \<Rightarrow> string option"
  me_NewDanmClient :: "string \<Rightarrow> string + 'w DanmClient"
  me_NewK8sClient :: "string \<Rightarrow> string option"
  me_GetPod :: "string \<Rightarrow> string \<Rightarrow> 'w \<Rightarrow> (string + Pod) \<times> 'w"
  me_DecodeInterfaces :: "string \<Rightarrow> string + Interface list"
  me_ResourceClient :: "string option"
  me_PodResourceMap :: "Pod \<Rightarrow> 'w \<Rightarrow> string + (string \<times> string list) list"
  me_SetCommand :: "string \<Rightarrow> 'w \<Rightarrow> 'w"
  me_Schedule :: "task list \<Rightarrow> task list"
  me_DelSchedule :: "DanmEp list \<Rightarrow> DanmEp list"
  me_Finished :: "nat \<Rightarrow> nat"
  me_Host :: "'w pod_host"
  me_Cni :: "'w cni_env"
  me_Cidr :: go_cidr

type_synonym synch = "(string \<times> string, cni_ip, string) Syncher"

section \<open>Reading the call\<close>

definition getClientConfig :: "'w meta_env \<Rightarrow> string \<Rightarrow> string option" where
  "getClientConfig env kubeConfig = me_BuildConfig env kubeConfig"

definition CreateDanmClient :: "'w meta_env \<Rightarrow> string \<Rightarrow> 'w DanmClient res" where
  "CreateDanmClient env kubeConfig =
     (case getClientConfig env kubeConfig of
        Some err \<Rightarrow> Err (Msg (''Parsing kubeconfig failed with error:'' @ err))
      | None \<Rightarrow>
          (case me_NewDanmClient env kubeConfig of
             Inl err \<Rightarrow> Err (Msg (''Creation of K8s Danm REST client failed with error:'' @ err))
           | Inr client \<Rightarrow> Ok client))"

definition createK8sClient :: "'w meta_env \<Rightarrow> string \<Rightarrow> string option" where
  "createK8sClient env kubeconfig =
     (case me_BuildConfig env kubeconfig of Some err \<Rightarrow> Some err | None \<Rightarrow> me_NewK8sClient env kubeconfig)"

definition loadNetConf :: "'w meta_env \<Rightarrow> string \<Rightarrow> NetConf res" where
  "loadNetConf env bytes =
     (case me_ParseNetConf env bytes of
        Inl err \<Rightarrow> Err (Msg (''Failed to parse DANM's CNI config file:'' @ err))
      | Inr netconf \<Rightarrow> Ok (if nc_CniConfigDir netconf = [] then netconf\<lparr>nc_CniConfigDir := DefaultCniDir\<rparr> else netconf))"

definition extractCniArgs :: "'w meta_env \<Rightarrow> CmdArgs \<Rightarrow> CniCall res" where
  "extractCniArgs env args =
     (case me_LoadArgs env (ca_Args args) of
        Inl err \<Rightarrow> Err (Msg err)
      | Inr kubeArgs \<Rightarrow> Ok
          \<lparr>arg_Namespace = K8S_POD_NAMESPACE kubeArgs, arg_Netns = ca_Netns args, arg_PodName = K8S_POD_NAME kubeArgs,
           arg_ContainerId = K8S_POD_INFRA_CONTAINER_ID kubeArgs, arg_PodUID = [], arg_PodLabels = [],
           call_StdIn = ca_StdinData args, call_Interfaces = [], call_Pod = None, call_DefaultNetwork = None\<rparr>)"

text \<open>The UID and labels of the Pod, which endpoints take from it, are kept beside it.\<close>

definition getPod :: "'w meta_env \<Rightarrow> NetConf \<Rightarrow> CniCall \<Rightarrow> ('w, CniCall) st" where
  "getPod env conf args w =
     (case createK8sClient env (nc_Kubeconfig conf) of
        Some err \<Rightarrow> (Err (Msg (''cannot create K8s REST client due to error:'' @ err)), w)
      | None \<Rightarrow>
          (case me_GetPod env (arg_Namespace args) (arg_PodName args) w of
             (Inl err, w') \<Rightarrow> (Err (Msg (''failed to get Pod info from K8s API server due to:'' @ err)), w')
           | (Inr pod, w') \<Rightarrow> (Ok (args\<lparr>call_Pod := Some pod, arg_PodUID := mt_UID (pod_Meta pod),
               arg_PodLabels := mt_Labels (pod_Meta pod)\<rparr>), w')))"

text \<open>\<open>args.Pod\<close> is dereferenced: nil panics.\<close>

definition pod_of :: "CniCall \<Rightarrow> Pod res" where
  "pod_of args = (case call_Pod args of None \<Rightarrow> Panic | Some pod \<Rightarrow> Ok pod)"

fun validate_from :: "nat \<Rightarrow> Interface list \<Rightarrow> unit res" where
  "validate_from ifaceId [] = Ok ()"
| "validate_from ifaceId (iface # ifaces) =
     (let definedNetworks = (if ifc_Network iface \<noteq> [] then 1 else 0) +
            (if ifc_TenantNetwork iface \<noteq> [] then 1 else 0) + (if ifc_ClusterNetwork iface \<noteq> [] then 1 else (0::nat))
      in if definedNetworks \<noteq> 1
         then Err (Msg (''network connection no.:'' @ itoa (int ifaceId) @
                '' contains invalid number of network references:'' @ itoa (int definedNetworks)))
         else validate_from (ifaceId + 1) ifaces)"

definition validateAnnotation :: "Interface list \<Rightarrow> unit res" where
  "validateAnnotation ifaces = validate_from 0 ifaces"

definition extractConnections :: "'w meta_env \<Rightarrow> CniCall \<Rightarrow> CniCall res" where
  "extractConnections env args =
     bind_res (pod_of args) (\<lambda>pod.
     let name = mt_Name (pod_Meta pod) in
     bind_res
       (case find (\<lambda>(key, v). contains key danmIfDefinitionSyntax) (pod_Annotations pod) of
          None \<Rightarrow> Ok []
        | Some (_, v) \<Rightarrow>
            (case me_DecodeInterfaces env v of
               Inr ifaces \<Rightarrow> Ok ifaces
             | Inl err \<Rightarrow> Err (Msg (''Can't create network interfaces for Pod: '' @ name @ '' due to badly formatted '' @
                 danmIfDefinitionSyntax @ '' definition in Pod annotation:'' @ err))))
       (\<lambda>ifaces. case validateAnnotation ifaces of
            Err e \<Rightarrow> Err (Msg (''DANM annotation is invalid for Pod: '' @ name @ '', because:'' @ error_text e))
          | _ \<Rightarrow> Ok (args\<lparr>call_Interfaces := ifaces\<rparr>)))"

section \<open>Devices and tenants\<close>

definition isTenantAllowed :: "CniCall \<Rightarrow> DanmNet \<Rightarrow> bool res" where
  "isTenantAllowed args netInfo =
     (case AllowedTenants (dn_Spec netInfo) of
        None \<Rightarrow> Ok True
      | Some tenants \<Rightarrow>
          (if tenants = [] then Ok True
           else bind_res (pod_of args) (\<lambda>pod. Ok (list_ex (\<lambda>tenantName. tenantName = mt_Namespace (pod_Meta pod)) tenants))))"

definition getAllocatedDevices :: "'w meta_env \<Rightarrow> CniCall \<Rightarrow> string \<Rightarrow> 'w \<Rightarrow> string list res" where
  "getAllocatedDevices env args devicePool w =
     bind_res (pod_of args) (\<lambda>pod.
       case me_PodResourceMap env pod w of
         Inl err \<Rightarrow> Err (Msg (''failed to retrieve Pod info from Kubelet Pod Resource client due to:'' @ err))
       | Inr resourceMap \<Rightarrow>
           (if resourceMap = [] then Err (Msg ''there were no Devices allocated for the Pod'')
            else (case map_of resourceMap devicePool of
              None \<Rightarrow> Err (Msg ''failed to retrieve resources of DevicePool'')
            | Some devices \<Rightarrow> Ok devices)))"

text \<open>A missing or nil entry of the map is dereferenced.\<close>

definition popDevice :: "string \<Rightarrow> devices \<Rightarrow> (string \<times> devices) res" where
  "popDevice devicePool allocatedDevices =
     (if allocatedDevices = [] then Err (Msg ''allocatedDevices is empty'')
      else (case map_of allocatedDevices devicePool of
        Some (Some devs) \<Rightarrow>
          (if devs = [] then Err (Msg ''devicePool is empty'')
           else Ok (last devs, AList.update devicePool (Some (butlast devs)) allocatedDevices))
      | _ \<Rightarrow> Panic))"

text \<open>
  The goroutine to start, or the error, and the devices left. The assignment of the devices
  happens although their query failed: the pool is then in the map, with a nil pointer.
\<close>

definition createIface ::
  "'w meta_env \<Rightarrow> CniCall \<Rightarrow> DanmNet \<Rightarrow> Interface \<Rightarrow> devices \<Rightarrow> 'w \<Rightarrow> ((error + task) \<times> devices) res" where
  "createIface env args netInfo nicParams allocatedDevices w =
     bind_res (isTenantAllowed args netInfo) (\<lambda>allowed.
     if \<not> allowed
     then Ok (Inl (Msg (''Pod:'' @ arg_PodName args @ '''s namespace:'' @ arg_Namespace args @
            '' is not in the AllowedTenants whitelist of network:'' @ mt_Name (dn_Meta netInfo))), allocatedDevices)
     else if \<not> IsDeviceNeeded (NetworkType (dn_Spec netInfo)) then Ok (Inr (nicParams, netInfo), allocatedDevices)
     else (let pool = DevicePool (opts netInfo);
               pop = (\<lambda>devs. case popDevice pool devs of
                   Ok (device, devs') \<Rightarrow> Ok (Inr (nicParams\<lparr>ifc_Device := device\<rparr>, netInfo), devs')
                 | Err e \<Rightarrow> Ok (Inl (Msg (''failed to pop devices due to:'' @ error_text e)), devs)
                 | Panic \<Rightarrow> Panic
                 | Hang \<Rightarrow> Hang) in
       if map_of allocatedDevices pool \<noteq> None then pop allocatedDevices
       else (case me_ResourceClient env of
         Some err \<Rightarrow> Ok (Inl (Msg (''failed to instantiate Kubelet Pord Resource client due to:'' @ err)), allocatedDevices)
       | None \<Rightarrow>
           (case getAllocatedDevices env args pool w of
              Ok devs \<Rightarrow> pop (AList.update pool (Some devs) allocatedDevices)
            | Err e \<Rightarrow> Ok (Inl (Msg (''failed to get allocated devices due to:'' @ error_text e)),
                AList.update pool None allocatedDevices)
            | Panic \<Rightarrow> Panic
            | Hang \<Rightarrow> Hang))))"

section \<open>One connection\<close>

definition AddIfaceToResult :: "string \<Rightarrow> string \<Rightarrow> current_result \<Rightarrow> current_result" where
  "AddIfaceToResult ifName sandBox cniResult = cniResult\<lparr>Interfaces := Interfaces cniResult @ [(ifName, sandBox)]\<rparr>"

text \<open>An address that cannot be parsed is dereferenced as nil.\<close>

definition AddIpToResult :: "string \<Rightarrow> string \<Rightarrow> current_result \<Rightarrow> current_result res" where
  "AddIpToResult addr_text version cniResult =
     (if addr_text \<noteq> [] \<and> addr_text \<noteq> NoneAllocType then
        (case ParseCIDR addr_text of
           None \<Rightarrow> Panic
         | Some (addr, n) \<Rightarrow> Ok (cniResult\<lparr>IPs := IPs cniResult @
             [CniIp version (ipnet_string \<lparr>net_IP = addr, net_Mask = net_Mask n\<rparr>)]\<rparr>))
      else Ok cniResult)"

definition createDanmInterface ::
  "'w meta_env \<Rightarrow> CniCall \<Rightarrow> DanmEp \<Rightarrow> DanmNet \<Rightarrow> ('w, current_result) st" where
  "createDanmInterface env args ep netInfo =
     bind_st (rewrap (\<lambda>m. ''IPVLAN interface could not be created due to error:'' @ m)
         (AddIpvlanInterface (me_Host env) netInfo ep)) (\<lambda>_. return_st
       (bind_res (AddIpToResult (if_Address (iface_of ep)) ''4''
            (AddIfaceToResult (if_Name (iface_of ep)) (arg_ContainerId args) empty_result))
          (AddIpToResult (if_AddressIPv6 (iface_of ep)) ''6'')))"

text \<open>
  Result, error and the endpoint, which the delegate's addresses change in place: when the call
  itself fails the endpoint keeps its addresses.
\<close>

definition createDelegatedInterface ::
  "'w meta_env \<Rightarrow> NetConf \<Rightarrow> 'w DanmClient \<Rightarrow> bool \<Rightarrow> DanmEp \<Rightarrow> DanmNet \<Rightarrow> 'w \<Rightarrow>
   (current_result option \<times> error option \<times> DanmEp) res \<times> 'w" where
  "createDelegatedInterface env conf danmClient wasIpReservedByDanmIpam ep netInfo w =
     (let origV4Address = if_Address (iface_of ep); origV6Address = if_AddressIPv6 (iface_of ep); cni = me_Cni env in
      case DelegateInterfaceSetup cni (nc_CniConfigDir conf) wasIpReservedByDanmIpam netInfo ep w of
        (Ok (delegatedResult, ep'), w1) \<Rightarrow>
          (let a4 = if_Address (iface_of ep'); a6 = if_AddressIPv6 (iface_of ep') in
           if (origV4Address \<noteq> a4 \<and> origV4Address \<noteq> NoneAllocType) \<or> (origV6Address \<noteq> a6 \<and> origV6Address \<noteq> NoneAllocType)
           then (case UpdateDanmEp danmClient ep' w1 of
               (Ok _, w2) \<Rightarrow> (Ok (delegatedResult, None, ep'), w2)
             | (Err e, w2) \<Rightarrow>
                 (Ok (delegatedResult, Some (Msg (''could not update DanmEp:'' @ mt_Name (ep_Meta ep') @ '' in namespace:'' @
                      mt_Namespace (ep_Meta ep') @ '' with the result returned by CNI plugin:'' @
                      NetworkType (dn_Spec netInfo) @ '' because:'' @ error_text e)), ep'),
                  snd (FreeDelegatedIps cni netInfo a4 a6 w2))
             | (Panic, w2) \<Rightarrow> (Panic, w2)
             | (Hang, w2) \<Rightarrow> (Hang, w2))
           else (Ok (delegatedResult, None, ep'), w1))
      | (Err e, w1) \<Rightarrow>
          (Ok (None, Some (Msg (''CNI delegation failed due to error:'' @ error_text e)), ep),
           snd (FreeDelegatedIps cni netInfo origV4Address origV6Address w1))
      | (Panic, w1) \<Rightarrow> (Panic, w1)
      | (Hang, w1) \<Rightarrow> (Hang, w1))"

text \<open>Deleting an endpoint as a clean-up: its error is ignored, its panic is not.\<close>

definition cleanup_ep :: "'w DanmClient \<Rightarrow> DanmEp \<Rightarrow> DanmNet option \<Rightarrow> ('w, unit) st" where
  "cleanup_ep danmClient ep netInfo w =
     (case DeleteDanmEp danmClient ep netInfo w of (Err e, w') \<Rightarrow> (Ok (), w') | r \<Rightarrow> r)"

definition push :: "string \<Rightarrow> error option \<Rightarrow> current_result option \<Rightarrow> string \<Rightarrow> synch \<Rightarrow> synch" where
  "push name err result ifName = PushResult name (map_option error_text err) result ifName"

text \<open>The network the endpoint was created on: nil if it could not be read again.\<close>

definition isIpReservationNeeded :: "Interface \<Rightarrow> DanmNet \<Rightarrow> bool" where
  "isIpReservationNeeded iface netInfo \<longleftrightarrow>
     IsDanmIpamNeededForDelegation iface netInfo \<or> NetworkType (dn_Spec netInfo) = ''ipvlan''"

definition finish_nic ::
  "'w meta_env \<Rightarrow> NetConf \<Rightarrow> 'w DanmClient \<Rightarrow> CniCall \<Rightarrow> bool \<Rightarrow> DanmEp \<Rightarrow> DanmNet \<Rightarrow> synch \<Rightarrow> ('w, synch) st" where
  "finish_nic env conf danmClient args reserved ep netInfo synch =
     bind_st (\<lambda>w. if IsDelegationRequired netInfo
         then createDelegatedInterface env conf danmClient reserved ep netInfo w
         else (case createDanmInterface env args ep netInfo w of
             (Ok r, w') \<Rightarrow> (Ok (Some r, None, ep), w')
           | (Err e, w') \<Rightarrow> (Ok (None, Some e, ep), w')
           | (Panic, w') \<Rightarrow> (Panic, w')
           | (Hang, w') \<Rightarrow> (Hang, w')))
       (\<lambda>(cniResult, err, ep').
         let name = ep_NetworkName (ep_Spec ep'); ifName = if_Name (iface_of ep') in
         case err of
           Some e \<Rightarrow> bind_st (cleanup_ep danmClient ep' (Some netInfo)) (\<lambda>_. return_st (Ok (push name (Some e) cniResult [] synch)))
         | None \<Rightarrow> (\<lambda>w. case PostProcessInterface (me_Host env) ep' netInfo w of
               (Ok _, w1) \<Rightarrow> (Ok (push name None cniResult ifName synch), w1)
             | (Err e, w1) \<Rightarrow> bind_st (cleanup_ep danmClient ep' (Some netInfo)) (\<lambda>_. return_st
                 (Ok (push name (Some (Msg (''Post-processing failed for interface:'' @ ifName @ '' because:'' @ error_text e)))
                   None [] synch))) w1
             | (Panic, w1) \<Rightarrow> (Panic, w1)
             | (Hang, w1) \<Rightarrow> (Hang, w1)))"

definition createNic ::
  "'w meta_env \<Rightarrow> NetConf \<Rightarrow> 'w DanmClient \<Rightarrow> CniCall \<Rightarrow> Interface \<Rightarrow> DanmNet \<Rightarrow> synch \<Rightarrow> ('w, synch) st" where
  "createNic env conf danmClient args iface netInfo synch =
     bind_st (CreateDanmEp (me_Cidr env) (ph_env (me_Host env)) danmClient (nc_NamingScheme conf)
         (isIpReservationNeeded iface netInfo) netInfo iface (CniArgs.truncate args)) (\<lambda>created.
       case er_Err created of
         Some err \<Rightarrow>
           bind_st (case er_Ep created of
               Some ep \<Rightarrow> cleanup_ep danmClient ep (er_Net created)
             | None \<Rightarrow> return_st (Ok ())) (\<lambda>_. return_st
             (case er_Net created of
                None \<Rightarrow> Panic
              | Some n \<Rightarrow> Ok (push (mt_Name (dn_Meta n)) (Some err) None [] synch)))
       | None \<Rightarrow>
           (case (er_Ep created, er_Net created) of
              (Some ep, Some n) \<Rightarrow> finish_nic env conf danmClient args (isIpReservationNeeded iface netInfo) ep n synch
            | _ \<Rightarrow> return_st Panic))"

section \<open>CNI ADD\<close>

definition preparePodForIpv6 :: "'w meta_env \<Rightarrow> CniCall \<Rightarrow> ('w, unit) st" where
  "preparePodForIpv6 env args =
     (let h = me_Host env in
      bind_st (read_op (\<lambda>m. ''failed to get current network namespace due to:'' @ m) (GetCurrentNS h)) (\<lambda>origNs.
      bind_st (read_op (\<lambda>m. ''failed to get Pod's network namespace due to:'' @ m) (GetNS h (arg_Netns args))) (\<lambda>podNs.
      bind_st (try_op (\<lambda>m. ''failed to switch to Pod's network namespace due to:'' @ m) (SetNS h podNs)) (\<lambda>_.
        back_to h origNs (try_op (\<lambda>m. ''failed to set sysctl due to:'' @ m)
          (Sysctl (ph_env h) ''net.ipv6.conf.all.disable_ipv6'' ''0''))))))"

text \<open>The errors of listing and of reading a network are ignored; a network that cannot be read is nil.\<close>

fun clean_outdated :: "'w DanmClient \<Rightarrow> Pod \<Rightarrow> DanmEp list \<Rightarrow> ('w, unit) st" where
  "clean_outdated danmClient pod [] w = (Ok (), w)"
| "clean_outdated danmClient pod (dep # deps) w =
     (if ep_PodUID (ep_Spec dep) = mt_UID (pod_Meta pod)
      then (case GetNetworkFromEp danmClient dep w of
          (Panic, w1) \<Rightarrow> (Panic, w1)
        | (Hang, w1) \<Rightarrow> (Hang, w1)
        | (r, w1) \<Rightarrow> bind_st (cleanup_ep danmClient dep (case r of Ok n \<Rightarrow> Some n | _ \<Rightarrow> None))
            (\<lambda>_. clean_outdated danmClient pod deps) w1)
      else clean_outdated danmClient pod deps w)"

definition cleanOutdatedAllocations :: "'w DanmClient \<Rightarrow> CniCall \<Rightarrow> ('w, unit) st" where
  "cleanOutdatedAllocations danmClient args =
     bind_st (return_st (pod_of args)) (\<lambda>pod w.
       case FindByPodName danmClient (mt_Name (pod_Meta pod)) (mt_Namespace (pod_Meta pod)) w of
         (Ok deps, w') \<Rightarrow> clean_outdated danmClient pod deps w'
       | (Err e, w') \<Rightarrow> (Ok (), w')
       | (Panic, w') \<Rightarrow> (Panic, w')
       | (Hang, w') \<Rightarrow> (Hang, w'))"

text \<open>The connections of the annotation, in order: results pushed, devices left, goroutines to start.\<close>

record plan =
  pl_Synch :: synch
  pl_Devices :: devices
  pl_Tasks :: "task list"

definition plan_iface :: "'w meta_env \<Rightarrow> CniCall \<Rightarrow> DanmNet \<Rightarrow> Interface \<Rightarrow> plan \<Rightarrow> ('w, plan) st" where
  "plan_iface env args netInfo nicParams p w =
     (bind_res (createIface env args netInfo nicParams (pl_Devices p) w) (\<lambda>(r, devs). Ok
        (case r of
           Inl err \<Rightarrow> p\<lparr>pl_Devices := devs, pl_Synch := push (mt_Name (dn_Meta netInfo)) (Some err) None [] (pl_Synch p)\<rparr>
         | Inr task \<Rightarrow> p\<lparr>pl_Devices := devs, pl_Tasks := pl_Tasks p @ [task]\<rparr>)), w)"

fun plan_ifaces :: "'w meta_env \<Rightarrow> 'w DanmClient \<Rightarrow> CniCall \<Rightarrow> nat \<Rightarrow> Interface list \<Rightarrow> plan \<Rightarrow> ('w, plan) st" where
  "plan_ifaces env danmClient args nicID [] p w = (Ok p, w)"
| "plan_ifaces env danmClient args nicID (nic # nics) p w =
     bind_st (return_st (pod_of args)) (\<lambda>pod w.
       let nicParams = nic\<lparr>ifc_SequenceId := int nicID, ifc_DefaultIfaceName := defaultIfName\<rparr> in
       case GetNetworkFromInterface danmClient nicParams (mt_Namespace (pod_Meta pod)) w of
         (Ok netInfo, w1) \<Rightarrow>
           bind_st (plan_iface env args netInfo nicParams p) (plan_ifaces env danmClient args (nicID + 1) nics) w1
       | (Err e, w1) \<Rightarrow>
           plan_ifaces env danmClient args (nicID + 1) nics
             (p\<lparr>pl_Synch := push [] (Some (Msg (''failed to get network object for Pod:'' @ mt_Name (pod_Meta pod) @
                '''s connection no.:'' @ itoa (int nicID) @ '' due to:'' @ error_text e))) None [] (pl_Synch p)\<rparr>) w1
       | (Panic, w1) \<Rightarrow> (Panic, w1)
       | (Hang, w1) \<Rightarrow> (Hang, w1)) w"

fun run_nics :: "'w meta_env \<Rightarrow> NetConf \<Rightarrow> 'w DanmClient \<Rightarrow> CniCall \<Rightarrow> task list \<Rightarrow> synch \<Rightarrow> ('w, synch) st" where
  "run_nics env conf danmClient args [] synch w = (Ok synch, w)"
| "run_nics env conf danmClient args ((iface, netInfo) # tasks) synch w =
     bind_st (createNic env conf danmClient args iface netInfo synch) (run_nics env conf danmClient args tasks) w"

text \<open>The poll at which the waiting loop ends, counted like its passes.\<close>

fun wait_end :: "nat \<Rightarrow> (nat \<Rightarrow> synch) \<Rightarrow> nat \<Rightarrow> nat" where
  "wait_end 0 obs i = i"
| "wait_end (Suc k) obs i =
     (if ExpectedNumOfResults (obs i) > int (length (CniResults (obs i))) then wait_end k obs (Suc i) else i)"

text \<open>
  Waiting for goroutines of which the first \<open>k\<close> give \<open>progress k\<close>. The result is the list
  as it is at the last poll and the error of the waiting loop.
\<close>

definition wait_for :: "'w meta_env \<Rightarrow> (nat \<Rightarrow> synch res \<times> 'w) \<Rightarrow> (synch \<times> unit res) res \<times> 'w" where
  "wait_for env progress =
     (let obs = (\<lambda>i. case fst (progress (me_Finished env i)) of Ok s \<Rightarrow> s | _ \<Rightarrow> NewSyncher 0);
          last_poll = wait_end MaximumAllowedTime obs 0;
          (r, w) = progress (me_Finished env last_poll)
      in (bind_res r (\<lambda>synch. Ok (synch, GetAggregatedResult obs)), w))"

definition setupNetworking :: "'w meta_env \<Rightarrow> NetConf \<Rightarrow> CniCall \<Rightarrow> ('w, current_result \<times> error option) st" where
  "setupNetworking env conf args =
     bind_st (rewrap (\<lambda>m. ''failed to prepare Pod for IPv6 due to:'' @ m) (preparePodForIpv6 env args)) (\<lambda>_.
     bind_st (return_st (CreateDanmClient env (nc_Kubeconfig conf))) (\<lambda>danmClient.
     bind_st (cleanOutdatedAllocations danmClient args) (\<lambda>_.
     let start = \<lparr>pl_Synch = NewSyncher (int (length (call_Interfaces args))), pl_Devices = [], pl_Tasks = []\<rparr> in
     bind_st (case call_DefaultNetwork args of
         None \<Rightarrow> return_st (Ok start)
       | Some n \<Rightarrow> plan_iface env args n (empty_iface\<lparr>ifc_Ip := ''dynamic''\<rparr>)
           (start\<lparr>pl_Synch := (pl_Synch start)\<lparr>ExpectedNumOfResults := ExpectedNumOfResults (pl_Synch start) + 1\<rparr>\<rparr>)) (\<lambda>p.
     bind_st (plan_ifaces env danmClient args 0 (call_Interfaces args) p) (\<lambda>p w.
     (let tasks = me_Schedule env (pl_Tasks p);
          (r, w') = wait_for env (\<lambda>k. run_nics env conf danmClient args (take k tasks) (pl_Synch p) w)
      in (bind_res r (\<lambda>(synch, err). Ok (MergeCniResults synch, case err of Err e \<Rightarrow> Some e | _ \<Rightarrow> None)), w')))))))"

section \<open>CNI DEL\<close>

definition deleteNic :: "'w meta_env \<Rightarrow> NetConf \<Rightarrow> DanmNet \<Rightarrow> DanmEp \<Rightarrow> ('w, unit) st" where
  "deleteNic env conf netInfo ep =
     (if ep_NetworkType (ep_Spec ep) \<noteq> ''ipvlan''
      then DelegateInterfaceDelete (me_Cni env) (nc_CniConfigDir conf) netInfo ep
      else DeleteIpvlanInterface (me_Host env) ep)"

text \<open>A step whose error is collected: its text if it failed.\<close>

definition collected :: "('w, 'a) st \<Rightarrow> ('w, error + 'a) st" where
  "collected m w = (case m w of (Ok x, w') \<Rightarrow> (Ok (Inr x), w') | (Err e, w') \<Rightarrow> (Ok (Inl e), w')
     | (Panic, w') \<Rightarrow> (Panic, w') | (Hang, w') \<Rightarrow> (Hang, w'))"

definition failure :: "string \<Rightarrow> error + 'a \<Rightarrow> string" where
  "failure what r = (case r of Inl e \<Rightarrow> what @ error_text e @ ''; '' | Inr _ \<Rightarrow> [])"

definition deleteInterface ::
  "'w meta_env \<Rightarrow> NetConf \<Rightarrow> 'w DanmClient \<Rightarrow> DanmEp \<Rightarrow> synch \<Rightarrow> ('w, synch) st" where
  "deleteInterface env conf danmClient ep synch =
     bind_st (collected (GetNetworkFromEp danmClient ep)) (\<lambda>found.
     bind_st (case found of
         Inr netInfo \<Rightarrow> collected (deleteNic env conf netInfo ep)
       | Inl e \<Rightarrow> return_st (Ok (Inr ()))) (\<lambda>removed.
     bind_st (collected (DeleteDanmEp danmClient ep (case found of Inr n \<Rightarrow> Some n | Inl _ \<Rightarrow> None))) (\<lambda>deleted.
       let aggregatedError = failure ''failed to get network:'' found @
             failure ''failed to delete container NIC:'' removed @ failure ''failed to delete DanmEp:'' deleted
       in return_st (Ok (if aggregatedError \<noteq> []
            then push (ep_NetworkName (ep_Spec ep)) (Some (Msg aggregatedError)) None [] synch
            else push (ep_NetworkName (ep_Spec ep)) None None (if_Name (iface_of ep)) synch)))))"

fun run_deletions :: "'w meta_env \<Rightarrow> NetConf \<Rightarrow> 'w DanmClient \<Rightarrow> DanmEp list \<Rightarrow> synch \<Rightarrow> ('w, synch) st" where
  "run_deletions env conf danmClient [] synch w = (Ok synch, w)"
| "run_deletions env conf danmClient (ep # eps) synch w =
     bind_st (deleteInterface env conf danmClient ep synch) (run_deletions env conf danmClient eps) w"

text \<open>
  Errors are only logged. When the CNI arguments cannot be loaded the log line before the check
  dereferences the nil arguments.
\<close>

definition DeleteInterfaces :: "'w meta_env \<Rightarrow> CmdArgs \<Rightarrow> ('w, unit) st" where
  "DeleteInterfaces env args w =
     (case extractCniArgs env args of
        Ok cniArgs \<Rightarrow>
          (case loadNetConf env (call_StdIn cniArgs) of
             Ok conf \<Rightarrow>
               (case CreateDanmClient env (nc_Kubeconfig conf) of
                  Ok danmClient \<Rightarrow>
                    (case FindByCid danmClient (arg_ContainerId cniArgs) w of
                       (Ok eplist, w1) \<Rightarrow>
                         (let (r, w') = wait_for env (\<lambda>k. run_deletions env conf danmClient
                                (take k (me_DelSchedule env eplist)) (NewSyncher (int (length eplist))) w1)
                          in (bind_res r (\<lambda>_. Ok ()), w'))
                     | (Err e, w1) \<Rightarrow> (Ok (), w1)
                     | (Panic, w1) \<Rightarrow> (Panic, w1)
                     | (Hang, w1) \<Rightarrow> (Hang, w1))
                | _ \<Rightarrow> (Ok (), w))
           | _ \<Rightarrow> (Ok (), w))
      | _ \<Rightarrow> (Panic, w))"

section \<open>The plugin's commands\<close>

definition missing_default :: error where
  "missing_default = Msg ''there are no network connections defined, and there is no suitable default network configured in the cluster''"

definition default_connection :: "'w meta_env \<Rightarrow> NetConf \<Rightarrow> CniCall \<Rightarrow> ('w, CniCall) st" where
  "default_connection env conf args =
     (if call_Interfaces args \<noteq> [] then return_st (Ok args)
      else bind_st (rewrap (\<lambda>m. ''ERROR: cannot instantiate K8s client: '' @ m)
          (return_st (CreateDanmClient env (nc_Kubeconfig conf)))) (\<lambda>danmClient.
        bind_st (return_st (pod_of args)) (\<lambda>pod w.
          case GetDefaultNetwork danmClient defaultNetworkName (mt_Namespace (pod_Meta pod)) w of
            (Ok n, w') \<Rightarrow> (Ok (args\<lparr>call_DefaultNetwork := Some n\<rparr>), w')
          | (Err e, w') \<Rightarrow> (Err missing_default, w')
          | (Panic, w') \<Rightarrow> (Panic, w')
          | (Hang, w') \<Rightarrow> (Hang, w'))))"

text \<open>The printed result is the value. A failed set-up is cleaned up by a CNI DEL.\<close>

definition CreateInterfaces :: "'w meta_env \<Rightarrow> CmdArgs \<Rightarrow> ('w, current_result) st" where
  "CreateInterfaces env args =
     bind_st (rewrap (\<lambda>m. ''CNI args cannot be loaded with error: '' @ m) (return_st (extractCniArgs env args))) (\<lambda>cniArgs.
     bind_st (rewrap (\<lambda>m. ''ERROR: ADD: cannot load DANM CNI config due to error:'' @ m)
         (return_st (loadNetConf env (call_StdIn cniArgs)))) (\<lambda>conf.
     bind_st (rewrap (\<lambda>m. ''Pod manifest could not be parsed with error: '' @ m) (getPod env conf cniArgs)) (\<lambda>cniArgs.
     bind_st (rewrap (\<lambda>m. ''DANM annotation cannot be parsed: '' @ m) (return_st (extractConnections env cniArgs))) (\<lambda>cniArgs.
     bind_st (default_connection env conf cniArgs) (\<lambda>cniArgs w.
       let failed = (\<lambda>e w. bind_st (DeleteInterfaces env args)
             (\<lambda>_. return_st (Err (Msg (''CNI network could not be set up: '' @ error_text e)))) (me_SetCommand env ''DEL'' w))
       in case setupNetworking env conf cniArgs w of
            (Ok (cniResult, None), w1) \<Rightarrow> (Ok cniResult, w1)
          | (Ok (cniResult, Some e), w1) \<Rightarrow> failed e w1
          | (Err e, w1) \<Rightarrow> failed e w1
          | (Panic, w1) \<Rightarrow> (Panic, w1)
          | (Hang, w1) \<Rightarrow> (Hang, w1))))))"

definition GetInterfaces :: "CmdArgs \<Rightarrow> unit res" where
  "GetInterfaces args = Ok ()"

end
