(* ===== verification/MetaProps.thy ===== *)
theory MetaProps
  imports MetaCni
begin

text \<open>
  What the CNI plugin guarantees for the connections of one Pod: which it accepts, which devices
  and tenants it admits, that every connection reports once, that namespaces are restored; and
  the calls on which it panics or reports an interface that does not exist.
\<close>

section \<open>Postconditions of operations on the world\<close>

definition st_post :: "('a \<Rightarrow> bool) \<Rightarrow> ('w, 'a) st \<Rightarrow> bool" where
  "st_post P m \<longleftrightarrow> (\<forall>w x w'. m w = (Ok x, w') \<longrightarrow> P x)"

lemma st_post_bind: "(\<And>x. st_post P (f x)) \<Longrightarrow> st_post P (bind_st m f)"
  unfolding st_post_def by (blast elim: bind_st_OkE)

lemma st_post_bindQ: "st_post Q m \<Longrightarrow> (\<And>x. Q x \<Longrightarrow> st_post P (f x)) \<Longrightarrow> st_post P (bind_st m f)"
  unfolding st_post_def by (blast elim: bind_st_OkE)

lemma st_post_return: "ok_post P r \<Longrightarrow> st_post P (return_st r)"
  by (auto simp: st_post_def)

lemma st_post_Ok: "P x \<Longrightarrow> st_post P (return_st (Ok x))"
  by (simp add: st_post_def)

lemma st_post_Panic: "st_post P (return_st Panic)"
  by (simp add: st_post_def)

lemma st_post_cases: "st_post P m \<Longrightarrow> m w = (Ok x, w') \<Longrightarrow> P x"
  by (auto simp: st_post_def)

lemma st_post_fun: "(\<And>w. st_post P (\<lambda>_. m w)) \<Longrightarrow> st_post P m"
  by (auto simp: st_post_def)

section \<open>Every connection reports once\<close>

definition grown :: "synch \<Rightarrow> synch \<Rightarrow> bool" where
  "grown s s' \<longleftrightarrow> (\<exists>r. s' = s\<lparr>CniResults := CniResults s @ [r]\<rparr>)"

lemma grown_push: "grown s (push name err result ifName s)"
  by (auto simp: grown_def push_def PushResult_def)

lemma grown_counts:
  "grown s s' \<Longrightarrow> length (CniResults s') = Suc (length (CniResults s)) \<and> ExpectedNumOfResults s' = ExpectedNumOfResults s"
  by (auto simp: grown_def)

lemma finish_nic_grown: "st_post (grown s) (finish_nic env conf client args reserved ep n s)"
  unfolding finish_nic_def
  by (rule st_post_bind)
    (auto simp: st_post_def Let_def bind_st_def grown_push split: prod.splits res.splits option.splits)

lemma createNic_grown: "st_post (grown s) (createNic env conf client args iface n s)"
  unfolding createNic_def
proof (rule st_post_bind)
  fix created
  show "st_post (grown s) (case er_Err created of
      None \<Rightarrow> (case (er_Ep created, er_Net created) of
          (Some ep, Some n') \<Rightarrow> finish_nic env conf client args (isIpReservationNeeded iface n) ep n' s
        | _ \<Rightarrow> return_st Panic)
    | Some err \<Rightarrow> bind_st (case er_Ep created of
          Some ep \<Rightarrow> cleanup_ep client ep (er_Net created) | None \<Rightarrow> return_st (Ok ()))
        (\<lambda>_. return_st (case er_Net created of
            None \<Rightarrow> Panic | Some n \<Rightarrow> Ok (push (mt_Name (dn_Meta n)) (Some err) None [] s))))"
    by (cases "er_Err created"; cases "er_Ep created"; cases "er_Net created")
      (auto intro!: st_post_bind st_post_return finish_nic_grown grown_push)
qed

lemma run_nics_counts:
  "run_nics env conf client args tasks s w = (Ok s', w') \<Longrightarrow>
   length (CniResults s') = length (CniResults s) + length tasks \<and> ExpectedNumOfResults s' = ExpectedNumOfResults s"
proof (induction env conf client args tasks s w arbitrary: w' rule: run_nics.induct)
  case 1
  then show ?case by simp
next
  case (2 env conf client args iface netInfo tasks s w)
  from "2.prems" obtain s1 w1 where first: "createNic env conf client args iface netInfo s w = (Ok s1, w1)"
    and rest: "run_nics env conf client args tasks s1 w1 = (Ok s', w')"
    by (auto elim: bind_st_OkE)
  have "grown s s1" using createNic_grown first by (rule st_post_cases)
  with "2.IH" [OF rest] show ?case by (auto dest: grown_counts)
qed

text \<open>Results pushed and goroutines planned, together as many as connections looked at.\<close>

definition reports :: "plan \<Rightarrow> nat" where
  "reports p = length (CniResults (pl_Synch p)) + length (pl_Tasks p)"

lemma push_counts [simp]:
  "length (CniResults (push name err result ifName s)) = Suc (length (CniResults s))"
  "ExpectedNumOfResults (push name err result ifName s) = ExpectedNumOfResults s"
  by (simp_all add: push_def PushResult_def)

lemma plan_iface_cases:
  assumes "plan_iface env args n nic p w = (Ok p1, w1)"
  obtains (task) t devs where "createIface env args n nic (pl_Devices p) w = Ok (Inr t, devs)"
      and "p1 = p\<lparr>pl_Devices := devs, pl_Tasks := pl_Tasks p @ [t]\<rparr>"
    | (error) e devs where "createIface env args n nic (pl_Devices p) w = Ok (Inl e, devs)"
      and "p1 = p\<lparr>pl_Devices := devs, pl_Synch := push (mt_Name (dn_Meta n)) (Some e) None [] (pl_Synch p)\<rparr>"
proof -
  from assms obtain r devs where r: "createIface env args n nic (pl_Devices p) w = Ok (r, devs)"
    and p1: "p1 = (case r of
        Inl e \<Rightarrow> p\<lparr>pl_Devices := devs, pl_Synch := push (mt_Name (dn_Meta n)) (Some e) None [] (pl_Synch p)\<rparr>
      | Inr t \<Rightarrow> p\<lparr>pl_Devices := devs, pl_Tasks := pl_Tasks p @ [t]\<rparr>)"
    by (auto simp: plan_iface_def)
  show thesis using r p1 by (cases r) (auto intro: task error)
qed

lemma plan_iface_reports:
  "plan_iface env args n nic p w = (Ok p', w') \<Longrightarrow>
   reports p' = Suc (reports p) \<and> ExpectedNumOfResults (pl_Synch p') = ExpectedNumOfResults (pl_Synch p)"
  by (erule plan_iface_cases) (simp_all add: reports_def)

lemma plan_ifaces_cases:
  assumes "plan_ifaces env client args i (nic # nics) p w = (Ok p', w')"
  obtains (planned) pod n w1 p1 w2 where "call_Pod args = Some pod"
      and "plan_iface env args n (nic\<lparr>ifc_SequenceId := int i, ifc_DefaultIfaceName := defaultIfName\<rparr>) p w1 = (Ok p1, w2)"
      and "plan_ifaces env client args (i + 1) nics p1 w2 = (Ok p', w')"
    | (unknown) msg w1 where "plan_ifaces env client args (i + 1) nics
        (p\<lparr>pl_Synch := push [] (Some msg) None [] (pl_Synch p)\<rparr>) w1 = (Ok p', w')"
  using assms
  by (auto simp: Let_def pod_of_def split: prod.splits res.splits option.splits elim!: bind_st_OkE)

lemma plan_ifaces_reports:
  "plan_ifaces env client args i nics p w = (Ok p', w') \<Longrightarrow>
   reports p' = reports p + length nics \<and> ExpectedNumOfResults (pl_Synch p') = ExpectedNumOfResults (pl_Synch p)"
proof (induction nics arbitrary: i p w)
  case Nil
  then show ?case by simp
next
  case (Cons nic nics)
  from Cons.prems show ?case
  proof (cases rule: plan_ifaces_cases)
    case (planned pod n w1 p1 w2)
    then show ?thesis using Cons.IH [OF planned(3)] plan_iface_reports [OF planned(2)] by simp
  next
    case (unknown msg w1)
    then show ?thesis using Cons.IH [OF unknown] by (simp add: reports_def)
  qed
qed

section \<open>Planning\<close>

text \<open>What holds of a plan and is kept by every planned connection holds of the whole plan.\<close>

lemma plan_ifaces_invariant:
  assumes "plan_ifaces env client args i nics p w = (Ok p', w')" and "I (pl_Devices p) (pl_Tasks p)"
    and step: "\<And>n nic p w p1 w1. plan_iface env args n nic p w = (Ok p1, w1) \<Longrightarrow>
      I (pl_Devices p) (pl_Tasks p) \<Longrightarrow> I (pl_Devices p1) (pl_Tasks p1)"
  shows "I (pl_Devices p') (pl_Tasks p')"
  using assms(1,2)
proof (induction nics arbitrary: i p w)
  case Nil
  then show ?case by simp
next
  case (Cons nic nics)
  from Cons.prems(1) show ?case
  proof (cases rule: plan_ifaces_cases)
    case (planned pod n w1 p1 w2)
    show ?thesis by (rule Cons.IH [OF planned(3) step [OF planned(2) Cons.prems(2)]])
  next
    case (unknown msg w1)
    show ?thesis by (rule Cons.IH [OF unknown]) (simp add: Cons.prems(2))
  qed
qed

text \<open>The cases of a connection that is planned, and of one that fails.\<close>

lemma createIface_task:
  assumes "createIface env args n nic devs w = Ok (Inr (i, n'), devs')"
  shows "n' = n" and "isTenantAllowed args n = Ok True"
    and "(\<not> IsDeviceNeeded (NetworkType (dn_Spec n)) \<and> devs' = devs) \<or>
      (IsDeviceNeeded (NetworkType (dn_Spec n)) \<and>
       (\<exists>ds. ds \<noteq> [] \<and> ifc_Device i = last ds \<and>
          devs' = AList.update (DevicePool (opts n)) (Some (butlast ds))
            (if map_of devs (DevicePool (opts n)) = None then AList.update (DevicePool (opts n)) (Some ds) devs else devs) \<and>
          (map_of devs (DevicePool (opts n)) = Some (Some ds) \<or>
           map_of devs (DevicePool (opts n)) = None \<and> getAllocatedDevices env args (DevicePool (opts n)) w = Ok ds)))"
  using assms
  by (auto simp: createIface_def Let_def popDevice_def update_conv'
      split: if_splits option.splits res.splits prod.splits list.splits)

lemma createIface_error:
  assumes "createIface env args n nic devs w = Ok (Inl e, devs')"
  shows "devs' = devs \<or> (map_of devs (DevicePool (opts n)) = None \<and>
    (devs' = AList.update (DevicePool (opts n)) None devs \<or>
     (\<exists>ds. getAllocatedDevices env args (DevicePool (opts n)) w = Ok ds \<and>
        devs' = AList.update (DevicePool (opts n)) (Some ds) devs)))"
  using assms
  by (auto simp: createIface_def Let_def popDevice_def update_conv'
      split: if_splits option.splits res.splits prod.splits list.splits)

section \<open>Devices\<close>

text \<open>The devices the planned connections to networks of one pool were given.\<close>

definition pool_devices :: "string \<Rightarrow> task list \<Rightarrow> string list" where
  "pool_devices pool tasks =
     map (\<lambda>(i, n). ifc_Device i)
       (filter (\<lambda>(i, n). IsDeviceNeeded (NetworkType (dn_Spec n)) \<and> DevicePool (opts n) = pool) tasks)"

lemma pool_devices_simps [simp]:
  "pool_devices pool [] = []"
  "pool_devices pool (tasks @ [(i, n)]) =
     pool_devices pool tasks @
     (if IsDeviceNeeded (NetworkType (dn_Spec n)) \<and> DevicePool (opts n) = pool then [ifc_Device i] else [])"
  by (simp_all add: pool_devices_def)

definition pool_ok :: "string set \<Rightarrow> string list option option \<Rightarrow> string list \<Rightarrow> bool" where
  "pool_ok A entry given \<longleftrightarrow>
     (case entry of
        Some (Some ds) \<Rightarrow> distinct (given @ ds) \<and> set (given @ ds) \<subseteq> A
      | _ \<Rightarrow> given = [])"

definition devices_ok :: "(string \<Rightarrow> string set) \<Rightarrow> devices \<Rightarrow> task list \<Rightarrow> bool" where
  "devices_ok A devs tasks \<longleftrightarrow> (\<forall>pool. pool_ok (A pool) (map_of devs pool) (pool_devices pool tasks))"

lemma devices_okD: "devices_ok A devs tasks \<Longrightarrow> pool_ok (A pool) (map_of devs pool) (pool_devices pool tasks)"
  by (simp add: devices_ok_def)

lemma map_of_update: "map_of (AList.update k v m) q = (if q = k then Some v else map_of m q)"
  by (simp add: update_conv')

lemma devices_ok_upd:
  assumes ok: "devices_ok A devs tasks" and new: "pool_ok (A pool) (Some entry) (pool_devices pool tasks')"
    and same: "\<And>q. q \<noteq> pool \<Longrightarrow> pool_devices q tasks' = pool_devices q tasks"
  shows "devices_ok A (AList.update pool entry devs) tasks'"
  unfolding devices_ok_def map_of_update
proof
  fix q
  show "pool_ok (A q) (if q = pool then Some entry else map_of devs q) (pool_devices q tasks')"
    using devices_okD [OF ok, of q] new same [of q] by (cases "q = pool") simp_all
qed

lemma devices_ok_new_pool:
  assumes ok: "devices_ok A devs tasks" and none: "map_of devs pool = None"
  shows "distinct ds \<Longrightarrow> set ds \<subseteq> A pool \<Longrightarrow> devices_ok A (AList.update pool (Some ds) devs) tasks"
    and "devices_ok A (AList.update pool None devs) tasks"
proof -
  have "pool_devices pool tasks = []" using devices_okD [OF ok, of pool] none by (simp add: pool_ok_def)
  then have new: "pool_ok (A pool) (Some (Some ds)) (pool_devices pool tasks) \<longleftrightarrow> distinct ds \<and> set ds \<subseteq> A pool"
    and nil: "pool_ok (A pool) (Some None) (pool_devices pool tasks)" for ds
    by (simp_all add: pool_ok_def)
  show "devices_ok A (AList.update pool (Some ds) devs) tasks" if "distinct ds" "set ds \<subseteq> A pool"
    using that new by (intro devices_ok_upd [OF ok]) simp_all
  show "devices_ok A (AList.update pool None devs) tasks"
    by (rule devices_ok_upd [OF ok nil]) simp
qed

lemma devices_ok_pop:
  assumes ok: "devices_ok A devs tasks" and ds: "map_of devs (DevicePool (opts n)) = Some (Some ds)" "ds \<noteq> []"
    and dev: "ifc_Device i = last ds" "IsDeviceNeeded (NetworkType (dn_Spec n))"
  shows "devices_ok A (AList.update (DevicePool (opts n)) (Some (butlast ds)) devs) (tasks @ [(i, n)])"
proof (rule devices_ok_upd [OF ok])
  obtain xs x where split: "ds = xs @ [x]" using ds(2) by (cases ds rule: rev_cases) auto
  show "pool_ok (A (DevicePool (opts n))) (Some (Some (butlast ds))) (pool_devices (DevicePool (opts n)) (tasks @ [(i, n)]))"
    using devices_okD [OF ok, of "DevicePool (opts n)"] ds(1) dev by (simp add: pool_ok_def split)
qed simp

lemma devices_ok_step:
  assumes alloc: "\<And>pod w m pool ds. call_Pod args = Some pod \<Longrightarrow> me_PodResourceMap env pod w = Inr m \<Longrightarrow>
      map_of m pool = Some ds \<Longrightarrow> distinct ds \<and> set ds \<subseteq> A pool"
    and plan: "plan_iface env args n nic p w = (Ok p1, w1)" and ok: "devices_ok A (pl_Devices p) (pl_Tasks p)"
  shows "devices_ok A (pl_Devices p1) (pl_Tasks p1)"
proof -
  let ?pool = "DevicePool (opts n)"
  have got: "distinct ds" "set ds \<subseteq> A pool" if "getAllocatedDevices env args pool w = Ok ds" for pool ds
  proof -
    from that obtain pod where this_pod: "call_Pod args = Some pod" and pod: "(case me_PodResourceMap env pod w of
         Inl err \<Rightarrow> Err (Msg (''failed to retrieve Pod info from Kubelet Pod Resource client due to:'' @ err))
       | Inr m \<Rightarrow>
           (if m = [] then Err (Msg ''there were no Devices allocated for the Pod'')
            else (case map_of m pool of
              None \<Rightarrow> Err (Msg ''failed to retrieve resources of DevicePool'')
            | Some devices \<Rightarrow> Ok devices))) = Ok ds"
      by (auto simp: getAllocatedDevices_def pod_of_def split: option.splits)
    then obtain m where "me_PodResourceMap env pod w = Inr m" by (cases "me_PodResourceMap env pod w") auto
    moreover from this pod have "map_of m pool = Some ds" by (auto split: if_splits option.splits)
    ultimately show "distinct ds" "set ds \<subseteq> A pool" using alloc [OF this_pod] by blast+
  qed
  from plan show ?thesis
  proof (cases rule: plan_iface_cases)
    case (task t devs)
    obtain i n' where t: "t = (i, n')" by (cases t)
    note facts = createIface_task [OF task(1) [unfolded t]]
    from facts(3) have "devices_ok A devs (pl_Tasks p @ [(i, n)])"
    proof (elim disjE conjE exE)
      assume "\<not> IsDeviceNeeded (NetworkType (dn_Spec n))" and "devs = pl_Devices p"
      then show ?thesis using ok by (simp add: devices_ok_def)
    next
      fix ds
      assume ds: "IsDeviceNeeded (NetworkType (dn_Spec n))" "ds \<noteq> []" "ifc_Device i = last ds"
        and devs: "devs = AList.update ?pool (Some (butlast ds))
            (if map_of (pl_Devices p) ?pool = None then AList.update ?pool (Some ds) (pl_Devices p) else pl_Devices p)"
        and src: "map_of (pl_Devices p) ?pool = Some (Some ds)"
      show ?thesis using devices_ok_pop [OF ok src ds(2,3,1)] devs src by simp
    next
      fix ds
      assume ds: "IsDeviceNeeded (NetworkType (dn_Spec n))" "ds \<noteq> []" "ifc_Device i = last ds"
        and devs: "devs = AList.update ?pool (Some (butlast ds))
            (if map_of (pl_Devices p) ?pool = None then AList.update ?pool (Some ds) (pl_Devices p) else pl_Devices p)"
        and src: "map_of (pl_Devices p) ?pool = None" "getAllocatedDevices env args ?pool w = Ok ds"
      have "devices_ok A (AList.update ?pool (Some ds) (pl_Devices p)) (pl_Tasks p)"
        using devices_ok_new_pool(1) [OF ok src(1) got [OF src(2)]] .
      from devices_ok_pop [OF this _ ds(2,3,1)] show ?thesis using devs src(1) by (simp add: map_of_update)
    qed
    then show ?thesis using task(2) t facts(1) by simp
  next
    case (error e devs)
    from createIface_error [OF error(1)] have "devices_ok A devs (pl_Tasks p)"
      using ok devices_ok_new_pool [OF ok] got by metis
    then show ?thesis using error(2) by simp
  qed
qed

section \<open>Waiting\<close>

lemma poll_at_end:
  "poll k obs i =
     (if wait_end k obs i = i + k
      then Err (Msg (''CNI operation timed-out after '' @ itoa (int (MaximumAllowedTime * RetryInterval div 1000)) @ '' seconds''))
      else if wasAnyErroneous (CniResults (obs (wait_end k obs i)))
      then Err (mergeErrorMessages (obs (wait_end k obs i))) else Ok ())"
proof (induction k arbitrary: i)
  case 0
  then show ?case by simp
next
  case (Suc k)
  have "wait_end k obs (Suc i) = Suc i + k \<longleftrightarrow> wait_end k obs (Suc i) = i + Suc k" by simp
  then show ?case using Suc.IH [of "Suc i"] by simp
qed

lemma wait_end_found:
  "i \<le> j \<Longrightarrow> j < i + k \<Longrightarrow> ExpectedNumOfResults (obs j) \<le> int (length (CniResults (obs j))) \<Longrightarrow>
   wait_end k obs i < i + k \<and>
   ExpectedNumOfResults (obs (wait_end k obs i)) \<le> int (length (CniResults (obs (wait_end k obs i))))"
proof (induction k arbitrary: i)
  case 0
  then show ?case by simp
next
  case (Suc k)
  show ?case
  proof (cases "ExpectedNumOfResults (obs i) > int (length (CniResults (obs i)))")
    case True
    then have "i \<noteq> j" using Suc.prems by auto
    then show ?thesis using Suc.IH [of "Suc i"] Suc.prems True by simp
  qed simp
qed

lemma run_nics_append:
  "run_nics env conf client args (xs @ ys) s w =
     bind_st (run_nics env conf client args xs s) (run_nics env conf client args ys) w"
proof (induction xs arbitrary: s w)
  case Nil
  then show ?case by (simp add: bind_st_def)
next
  case (Cons t xs)
  then show ?case by (cases t) (auto simp: bind_st_def split: prod.splits res.splits)
qed

lemma run_nics_prefix:
  assumes "run_nics env conf client args tasks s w = (Ok s', w')"
  shows "\<exists>s1 w1. run_nics env conf client args (take k tasks) s w = (Ok s1, w1)"
proof -
  have "run_nics env conf client args (take k tasks @ drop k tasks) s w = (Ok s', w')"
    unfolding append_take_drop_id by (rule assms)
  then show ?thesis unfolding run_nics_append by (blast elim: bind_st_OkE)
qed

section \<open>Properties\<close>

text \<open>
  An annotation is accepted exactly if each of its connections names one network, of one kind.
\<close>

theorem annotation_accepted_iff:
  "validateAnnotation ifaces = Ok () \<longleftrightarrow>
     list_all (\<lambda>c. length (filter (\<lambda>n. n \<noteq> []) [ifc_Network c, ifc_TenantNetwork c, ifc_ClusterNetwork c]) = 1) ifaces"
proof -
  have "validate_from k ifaces = Ok () \<longleftrightarrow>
     list_all (\<lambda>c. length (filter (\<lambda>n. n \<noteq> []) [ifc_Network c, ifc_TenantNetwork c, ifc_ClusterNetwork c]) = 1) ifaces" for k
    by (induction ifaces arbitrary: k) (auto simp: Let_def)
  then show ?thesis by (simp add: validateAnnotation_def)
qed

text \<open>
  C9. No device is given twice and none of another Pod: when the lists that Kubelet answers for this
  Pod have no repetitions and only name devices allocated to it, whatever it answers for other
  Pods, the planned connections of the Pod to networks of one device pool get different devices,
  all of them allocated to this Pod from this pool.
\<close>

theorem planned_devices_distinct:
  assumes "call_Pod args = Some pod"
    and "\<And>w m pool ds. me_PodResourceMap env pod w = Inr m \<Longrightarrow> map_of m pool = Some ds \<Longrightarrow>
      distinct ds \<and> set ds \<subseteq> A pool"
    and "plan_ifaces env client args 0 nics \<lparr>pl_Synch = synch, pl_Devices = [], pl_Tasks = []\<rparr> w = (Ok p, w')"
  shows "distinct (pool_devices pool (pl_Tasks p)) \<and> set (pool_devices pool (pl_Tasks p)) \<subseteq> A pool"
proof -
  have "devices_ok A (pl_Devices p) (pl_Tasks p)"
  proof (rule plan_ifaces_invariant [where I = "devices_ok A", OF assms(3)])
    show "devices_ok A (pl_Devices \<lparr>pl_Synch = synch, pl_Devices = [], pl_Tasks = []\<rparr>)
        (pl_Tasks \<lparr>pl_Synch = synch, pl_Devices = [], pl_Tasks = []\<rparr>)" by (simp add: devices_ok_def pool_ok_def)
  next
    fix n nic and p p1 :: plan and w w1
    assume "plan_iface env args n nic p w = (Ok p1, w1)" and "devices_ok A (pl_Devices p) (pl_Tasks p)"
    then show "devices_ok A (pl_Devices p1) (pl_Tasks p1)"
      by (rule devices_ok_step [rotated 1]) (simp_all only: assms(1) option.inject assms(2))
  qed
  from devices_okD [OF this, of pool] show ?thesis by (auto simp: pool_ok_def split: option.splits)
qed

text \<open>
  C12. A Pod is connected only to networks open to its tenant: a connection is started only if the
  network has no list of tenants or the list contains the Pod's namespace.
\<close>

theorem planned_networks_allow_tenant:
  assumes "plan_ifaces env client args 0 nics \<lparr>pl_Synch = synch, pl_Devices = [], pl_Tasks = []\<rparr> w = (Ok p, w')"
    and "call_Pod args = Some pod" and "(iface, n) \<in> set (pl_Tasks p)"
  shows "AllowedTenants (dn_Spec n) \<in> {None, Some []} \<or>
    (\<exists>tenants. AllowedTenants (dn_Spec n) = Some tenants \<and> mt_Namespace (pod_Meta pod) \<in> set tenants)"
proof -
  have "\<forall>(i, n) \<in> set (pl_Tasks p). isTenantAllowed args n = Ok True"
  proof (rule plan_ifaces_invariant [where I = "\<lambda>_ tasks. \<forall>(i, n) \<in> set tasks. isTenantAllowed args n = Ok True",
        OF assms(1)])
    fix n nic and p p1 :: plan and w w1
    assume "plan_iface env args n nic p w = (Ok p1, w1)" and "\<forall>(i, n) \<in> set (pl_Tasks p). isTenantAllowed args n = Ok True"
    then show "\<forall>(i, n) \<in> set (pl_Tasks p1). isTenantAllowed args n = Ok True"
      by (cases rule: plan_iface_cases) (auto dest: createIface_task(1,2))
  qed simp
  then have "isTenantAllowed args n = Ok True" using assms(3) by auto
  then show ?thesis
    using assms(2) by (auto simp: isTenantAllowed_def pod_of_def list_ex_iff split: option.splits if_splits)
qed

text \<open>
  C10. Every connection reports exactly once, so that a CNI ADD never waits for a result that does not
  come: if the started goroutines are through by some poll before the last, the waiting loop ends
  with the results of all connections and answers with their errors, if any, not with a time-out.
\<close>

theorem every_connection_reports:
  assumes "plan_ifaces env client args 0 nics
      \<lparr>pl_Synch = NewSyncher (int (length nics)), pl_Devices = [], pl_Tasks = []\<rparr> w = (Ok p, w1)"
    and "length (me_Schedule env (pl_Tasks p)) = length (pl_Tasks p)"
    and "run_nics env conf client args (me_Schedule env (pl_Tasks p)) (pl_Synch p) w1 = (Ok s, w2)"
    and "i < MaximumAllowedTime" and "length (pl_Tasks p) \<le> me_Finished env i"
  shows "\<exists>s'. fst (wait_for env (\<lambda>k. run_nics env conf client args (take k (me_Schedule env (pl_Tasks p))) (pl_Synch p) w1)) =
      Ok (s', if wasAnyErroneous (CniResults s') then Err (mergeErrorMessages s') else Ok ()) \<and>
    length (CniResults s') = length nics"
proof -
  let ?tasks = "me_Schedule env (pl_Tasks p)"
  let ?run = "\<lambda>k. run_nics env conf client args (take k ?tasks) (pl_Synch p) w1"
  let ?obs = "\<lambda>j. case fst (?run (me_Finished env j)) of Ok s \<Rightarrow> s | _ \<Rightarrow> NewSyncher 0"
  let ?e = "wait_end MaximumAllowedTime ?obs 0"
  have plan: "reports p = length nics" "ExpectedNumOfResults (pl_Synch p) = int (length nics)"
    using plan_ifaces_reports [OF assms(1)] by (simp_all add: reports_def NewSyncher_def)
  have run: "\<exists>s1. fst (?run k) = Ok s1 \<and> ExpectedNumOfResults s1 = int (length nics) \<and>
      length (CniResults s1) = length (CniResults (pl_Synch p)) + min k (length (pl_Tasks p))" for k
  proof -
    obtain s1 w1' where r: "?run k = (Ok s1, w1')" using run_nics_prefix [OF assms(3)] by blast
    then show ?thesis using run_nics_counts [OF r] plan assms(2) by (auto simp: min_def)
  qed
  have obs: "ExpectedNumOfResults (?obs j) = int (length nics)"
      "length (CniResults (?obs j)) = length (CniResults (pl_Synch p)) + min (me_Finished env j) (length (pl_Tasks p))" for j
    using run [of "me_Finished env j"] by auto
  have "ExpectedNumOfResults (?obs i) \<le> int (length (CniResults (?obs i)))"
    using assms(5) plan(1) by (simp add: obs reports_def)
  then have e: "?e < MaximumAllowedTime" "ExpectedNumOfResults (?obs ?e) \<le> int (length (CniResults (?obs ?e)))"
    using wait_end_found [of 0 i MaximumAllowedTime ?obs] assms(4) by simp_all
  obtain s1 where s1: "fst (?run (me_Finished env ?e)) = Ok s1" using run by blast
  then have at_end: "?obs ?e = s1" by simp
  have "length (CniResults s1) = length nics"
    using e(2) obs [of ?e] plan(1) unfolding at_end by (simp add: reports_def)
  moreover have "GetAggregatedResult ?obs =
      (if wasAnyErroneous (CniResults s1) then Err (mergeErrorMessages s1) else Ok ())"
    unfolding GetAggregatedResult_def poll_at_end using e(1) at_end by simp
  moreover have "fst (wait_for env ?run) = bind_res (fst (?run (me_Finished env ?e))) (\<lambda>s. Ok (s, GetAggregatedResult ?obs))"
    by (simp add: wait_for_def Let_def split: prod.split)
  ultimately show ?thesis using s1 by auto
qed

text \<open>
  A Pod with two connections to one device pool crashes the plugin when Kubelet cannot tell the
  pool's devices: the failed query of the first leaves a nil pointer in the map of devices, which
  the second dereferences.
\<close>

theorem second_device_request_panics:
  assumes "isTenantAllowed args n1 = Ok True" and "isTenantAllowed args n2 = Ok True"
    and "IsDeviceNeeded (NetworkType (dn_Spec n1))" and "IsDeviceNeeded (NetworkType (dn_Spec n2))"
    and "DevicePool (opts n1) = pool" and "DevicePool (opts n2) = pool"
    and "me_ResourceClient env = None" and "getAllocatedDevices env args pool w = Err e"
  shows "createIface env args n1 nic1 [] w =
      Ok (Inl (Msg (''failed to get allocated devices due to:'' @ error_text e)), [(pool, None)]) \<and>
    createIface env args n2 nic2 [(pool, None)] w' = Panic"
  using assms by (simp add: createIface_def popDevice_def)

text \<open>
  A network whose type is written \<^verbatim>\<open>IPVLAN\<close> gets no interface: the choice between
  delegation and DANM's own interface ignores case, the creation of the latter does not. The
  connection succeeds and its result lists an interface that was never created.
\<close>

theorem mixed_case_ipvlan_no_interface:
  assumes "to_lower (NetworkType (dn_Spec n)) = ''ipvlan''" and "NetworkType (dn_Spec n) \<noteq> ''ipvlan''"
    and "ep_NetworkType (ep_Spec ep) = NetworkType (dn_Spec n)"
    and "ParseCIDR (if_Address (iface_of ep)) = Some (addr, net)" and "if_AddressIPv6 (iface_of ep) = []"
  shows "\<not> IsDelegationRequired n \<and>
    (\<exists>r. createDanmInterface env args ep n w = (Ok r, w) \<and>
      Interfaces r = [(if_Name (iface_of ep), arg_ContainerId args)])"
  using assms
  by (auto simp: IsDelegationRequired_def createDanmInterface_def AddIpvlanInterface_def rewrap_def AddIpToResult_def
      AddIfaceToResult_def empty_result_def)

text \<open>
  C40. A connection whose network cannot be read again after its endpoint was stored crashes the
  plugin: the error is reported under the name of a network that is nil by then.
\<close>

theorem refresh_failure_panics:
  assumes "isIpReservationNeeded iface n" and "ifc_Device iface = []"
    and "Reserve (me_Cidr env) client n (ifc_Ip iface) (ifc_Ip6 iface) w = (Ok (ip4, ip6), w1)"
    and "\<And>e. createDanmEp (ph_env (me_Host env)) client e n (CniArgs.truncate args) w1 = (Ok (ep e), w2)"
    and "\<And>e. GetNetworkFromEp client (ep e) w2 = (Err err, w3)"
  shows "fst (createNic env conf client args iface n synch w) = Panic"
proof -
  have total: "\<exists>r w'. cleanup_ep client e None w3 = (r, w') \<and> r \<in> {Ok (), Panic}" for e
    by (auto simp: cleanup_ep_def DeleteDanmEp_def Let_def)
  let ?e = "\<lparr>if_Name = calculateIfaceName (nc_NamingScheme conf) (NicPrefix (opts n)) (ifc_DefaultIfaceName iface)
      (ifc_SequenceId iface), if_Address = ip4, if_AddressIPv6 = ip6, if_MacAddress = [],
      if_Proutes = ifc_Proutes iface, if_Proutes6 = ifc_Proutes6 iface, if_DeviceID = []\<rparr>"
  have "CreateDanmEp (me_Cidr env) (ph_env (me_Host env)) client (nc_NamingScheme conf)
      (isIpReservationNeeded iface n) n iface (CniArgs.truncate args) w =
      (Ok \<lparr>er_Ep = Some (ep ?e), er_Net = None, er_Err = Some (EpNetUnreadable err)\<rparr>, w3)"
    using assms by (simp add: CreateDanmEp_def Let_def)
  moreover obtain r w' where "cleanup_ep client (ep ?e) None w3 = (r, w')" "r \<in> {Ok (), Panic}"
    using total by blast
  ultimately show ?thesis by (auto simp: createNic_def bind_st_def)
qed

lemma prepare_restores:
  assumes enters: "\<And>n w w'. SetNS (me_Host env) n w = (None, w') \<Longrightarrow> ns_of w' = n"
    and stays: "\<And>n w msg w'. SetNS (me_Host env) n w = (Some msg, w') \<Longrightarrow> ns_of w' = ns_of w"
    and current: "\<And>n w. GetCurrentNS (me_Host env) w = Inr n \<Longrightarrow> n = ns_of w"
  shows "restores ns_of (me_Host env) (preparePodForIpv6 env args)"
  unfolding restores_def
proof
  fix w
  let ?h = "me_Host env" and ?m = "preparePodForIpv6 env args"
  show "ns_of (snd (?m w)) = ns_of w \<or> (\<exists>msg w1. SetNS ?h (ns_of w) w1 = (Some msg, snd (?m w)))"
  proof (cases "(\<exists>e. GetCurrentNS ?h w = Inl e) \<or> (\<exists>e. GetNS ?h (arg_Netns args) w = Inl e)")
    case True
    then show ?thesis
      by (cases "GetCurrentNS ?h w") (auto simp: preparePodForIpv6_def Let_def bind_st_def read_op_def)
  next
    case False
    then obtain orig pod where here: "GetCurrentNS ?h w = Inr orig" and there: "GetNS ?h (arg_Netns args) w = Inr pod"
      by (cases "GetCurrentNS ?h w"; cases "GetNS ?h (arg_Netns args) w") auto
    obtain e w1 where sw: "SetNS ?h pod w = (e, w1)" by (cases "SetNS ?h pod w")
    show ?thesis
    proof (cases e)
      case None
      then have "\<exists>body. ?m w = back_to ?h (ns_of w) body w1"
        using here there sw current [OF here]
        by (auto simp: preparePodForIpv6_def Let_def bind_st_def read_op_def try_op_def [where oper = "SetNS ?h pod"])
      then obtain body where m: "?m w = back_to ?h (ns_of w) body w1" by blast
      show ?thesis unfolding m by (rule back_to_restores [where ns_of = ns_of]) (erule enters)
    next
      case (Some msg)
      then have "snd (?m w) = w1"
        using here there sw
        by (simp add: preparePodForIpv6_def Let_def bind_st_def read_op_def try_op_def [where oper = "SetNS ?h pod"])
      then show ?thesis using stays [of pod w msg w1] sw Some by simp
    qed
  qed
qed

text \<open>The deletion of a Pod's interface does not reach into another namespace.\<close>

lemma delete_stays_inside:
  assumes enters: "\<And>n w w'. SetNS h n w = (None, w') \<Longrightarrow> ns_of w' = n"
    and "\<And>n w. links (snd (SetNS h n w)) = links w"
    and "\<And>l w k. k \<noteq> ns_of w \<Longrightarrow> links (snd (LinkDel (ph_net h) l w)) k = links w k"
    and "GetNS h (ep_Netns (ep_Spec ep)) w \<noteq> Inr k"
  shows "links (snd (deleteContainerIface h ep w)) k = links w k"
proof -
  have removed: "links (snd (remove_iface h ep hns w)) k = links w k" if "hns \<noteq> k" for hns w
  proof -
    obtain e w1 where sw: "SetNS h hns w = (e, w1)" by (cases "SetNS h hns w")
    then have same: "links w1 = links w" using assms(2) [of hns w] by simp
    have "k \<noteq> ns_of w1" if "e = None" using enters sw that \<open>hns \<noteq> k\<close> by auto
    then have "links (snd (LinkDel (ph_net h) l w1)) k = links w k" if "e = None" for l using assms(3) same that by simp
    then show ?thesis
      by (auto simp: remove_iface_def Let_def bind_st_def try_op_def read_op_def sw same split: option.splits sum.splits prod.splits)
        (metis snd_conv)+
  qed
  show ?thesis
    using assms(4) assms(2) removed
    by (cases "GetCurrentNS h w"; cases "GetNS h (ep_Netns (ep_Spec ep)) w")
      (auto simp: deleteContainerIface_def bind_st_def read_op_def back_to_def split: prod.splits, metis snd_conv)
qed


text \<open>
  The device DANM attaches a Pod to is the one its watcher created for the network: the two
  functions that name it agree.
\<close>

theorem device_names_agree: "determineIfName n = DetermineHostDeviceName n"
  by (simp add: determineIfName_def DetermineHostDeviceName_def)

section \<open>Witnesses\<close>

text \<open>
  A host on which every kernel call succeeds, its world being the current namespace, and a
  cluster with a network delegated to a plugin, one of SR-IOV devices, and no other.
\<close>

definition toy_link :: "string \<Rightarrow> link" where
  "toy_link name = \<lparr>lk_Name = name, lk_Index = 1, lk_MTU = 1500\<rparr>"

definition toy_host :: "nat pod_host" where
  "toy_host =
     \<lparr>ph_net = \<lparr>LinkByName = \<lambda>name w. Inr (toy_link name), LinkAdd = \<lambda>l w. (None, w), LinkDel = \<lambda>l w. (None, w),
        LinkSetUp = \<lambda>l w. (None, w), AddrList = \<lambda>l f w. Inr [], CidrHost = \<lambda>n i. Inl []\<rparr>,
      ph_env = \<lparr>NewUuid = \<lambda>w. (Inr ''c0ffee00-0000-4000-8000-000000000001'', w), Hostname = Inr ''n1'',
        PfNameOf = \<lambda>d. [], VfidOf = \<lambda>d p. None, PfVfMacs = \<lambda>p. None, Sysctl = \<lambda>k v w. (None, w)\<rparr>,
      GetCurrentNS = \<lambda>w. Inr w, GetNS = \<lambda>path w. Inr 7, SetNS = \<lambda>n w. (None, n), IsNSorErr = \<lambda>path w. None,
      LinkSetNsFd = \<lambda>l n w. (None, w), LinkSetName = \<lambda>l n w. (None, w), LinkSetAlias = \<lambda>l a w. (None, w),
      AddrAdd = \<lambda>l a d w. (None, w), AddrReplace = \<lambda>l a d w. (None, w), RouteAdd = \<lambda>i d g t w. (None, w),
      RuleAdd = \<lambda>src t w. (None, w), GratuitousArp = \<lambda>a n w. w, HasDpdkDriver = \<lambda>d w. False\<rparr>"

definition toy_cni :: "nat cni_env" where
  "toy_cni =
     \<lparr>GetPfName = \<lambda>d. Inr ''ens4'', ReadConfFile = \<lambda>path w. Some ''{}'', Getenv = \<lambda>k. [], LookupEnv = \<lambda>k. None,
      FindInPath = \<lambda>t paths. Inr (''/opt/cni/bin/'' @ t), RawExec = \<lambda>path conf args w. (Inr ''raw'', w),
      DecodeVersion = \<lambda>raw. Some ''0.3.1'', NewResult = \<lambda>v raw. Some raw,
      NewResultFromResult = \<lambda>raw. Some \<lparr>Interfaces = [(''eth0'', ''c1'')], IPs = [CniIp ''4'' ''10.244.0.5/24''], CniRoutes = []\<rparr>,
      RemoveFile = \<lambda>path w. w\<rparr>"

definition toy_network :: "string \<Rightarrow> string \<Rightarrow> string \<Rightarrow> DanmNet" where
  "toy_network name type pool =
     empty_net\<lparr>dn_Kind := ''DanmNet'', dn_Meta := empty_meta\<lparr>mt_Name := name, mt_Namespace := ''ns1''\<rparr>,
       dn_Spec := \<lparr>NetworkID = name, NetworkType = type, AllowedTenants = None, Options = empty_options\<lparr>DevicePool := pool\<rparr>\<rparr>\<rparr>"

definition toy_client :: "nat DanmClient" where
  "toy_client =
     \<lparr>api_net_update = \<lambda>a ns n w. (None, w),
      api_net_get = \<lambda>a ns name w. (if name = ''flannel'' then Inr (toy_network ''flannel'' ''flannel'' [])
        else if name = ''fast'' then Inr (toy_network ''fast'' ''sriov'' ''pool1'') else Inl ''not found'', w),
      api_tconf_list = \<lambda>w. (Inr None, w), api_tconf_update = \<lambda>t w. (None, w), api_tconf_get = \<lambda>n w. (Inl [], w),
      api_ep_list = \<lambda>ns w. (Inr None, w), api_ep_create = \<lambda>ns e w. (Inr e, w), api_ep_update = \<lambda>ns e w. (None, w),
      api_ep_delete = \<lambda>ns n w. (None, w)\<rparr>"

definition toy_pod :: Pod where
  "toy_pod = \<lparr>pod_Meta = empty_meta\<lparr>mt_Name := ''pod1'', mt_Namespace := ''ns1'', mt_UID := ''u1''\<rparr>, pod_Annotations = [],
     pod_Hostname = [], pod_NodeName = ''n1'', pod_Conditions = [], pod_Deleting = False\<rparr>"

definition toy_meta :: "(string + (string \<times> string list) list) \<Rightarrow> nat meta_env" where
  "toy_meta resources =
     \<lparr>me_LoadArgs = \<lambda>a. Inl ''unused'', me_ParseNetConf = \<lambda>b. Inl ''unused'', me_BuildConfig = \<lambda>k. None,
      me_NewDanmClient = \<lambda>k. Inr toy_client, me_NewK8sClient = \<lambda>k. None, me_GetPod = \<lambda>ns n w. (Inr toy_pod, w),
      me_DecodeInterfaces = \<lambda>v. Inr [], me_ResourceClient = None, me_PodResourceMap = \<lambda>pod w.
        (if mt_Name (pod_Meta pod) = ''pod1'' then resources else Inr [(''pool1'', [''0000:18:0a.0'', ''0000:18:0a.0''])]),
      me_SetCommand = \<lambda>c w. w, me_Schedule = \<lambda>ts. ts, me_DelSchedule = \<lambda>es. es, me_Finished = \<lambda>i. i,
      me_Host = toy_host, me_Cni = toy_cni,
      me_Cidr = \<lparr>AddressRange = \<lambda>n. ([], []), IncIp = \<lambda>a. a, DecIp = \<lambda>a. a, AddressCount = \<lambda>n. 0\<rparr>\<rparr>"

definition toy_conf :: NetConf where
  "toy_conf = \<lparr>nc_Name = ''danm'', nc_Type = ''danm'', nc_Kubeconfig = ''/kube'', nc_CniConfigDir = DefaultCniDir,
     nc_NamingScheme = [], nc_Master = [], nc_Vlan = 0, nc_Vxlan = 0\<rparr>"

definition toy_call :: CniCall where
  "toy_call = \<lparr>arg_Namespace = ''ns1'', arg_Netns = ''/proc/7/ns/net'', arg_PodName = ''pod1'', arg_ContainerId = ''c1'',
     arg_PodUID = ''u1'', arg_PodLabels = [], call_StdIn = [], call_Interfaces = [], call_Pod = Some toy_pod,
     call_DefaultNetwork = None\<rparr>"

definition toy_nic :: "string \<Rightarrow> Interface" where
  "toy_nic name = empty_iface\<lparr>ifc_Network := name\<rparr>"

definition toy_start :: "nat \<Rightarrow> plan" where
  "toy_start k = \<lparr>pl_Synch = NewSyncher (int k), pl_Devices = [], pl_Tasks = []\<rparr>"

definition toy_devices :: "string + (string \<times> string list) list" where
  "toy_devices = Inr [(''pool1'', [''0000:18:02.1'', ''0000:18:02.2''])]"

definition toy_plan :: "Interface list \<Rightarrow> plan" where
  "toy_plan nics =
     (case fst (plan_ifaces (toy_meta toy_devices) toy_client toy_call 0 nics (toy_start (length nics)) 1) of
        Ok p \<Rightarrow> p | _ \<Rightarrow> toy_start 0)"

lemma toy_fast_planned:
  "plan_ifaces (toy_meta toy_devices) toy_client toy_call 0 [toy_nic ''fast'', toy_nic ''fast''] (toy_start 2) 1 =
     (Ok (toy_plan [toy_nic ''fast'', toy_nic ''fast'']), 1)"
  by code_simp

theorem planned_devices_distinct_witness:
  "distinct (pool_devices ''pool1'' (pl_Tasks (toy_plan [toy_nic ''fast'', toy_nic ''fast'']))) \<and>
   set (pool_devices ''pool1'' (pl_Tasks (toy_plan [toy_nic ''fast'', toy_nic ''fast'']))) \<subseteq>
     {''0000:18:02.1'', ''0000:18:02.2''} \<and>
   length (pool_devices ''pool1'' (pl_Tasks (toy_plan [toy_nic ''fast'', toy_nic ''fast'']))) = 2"
proof -
  let ?A = "\<lambda>pool. if pool = ''pool1'' then {''0000:18:02.1'', ''0000:18:02.2''} else {}"
  have alloc: "me_PodResourceMap (toy_meta toy_devices) toy_pod w = Inr m \<Longrightarrow> map_of m pool = Some ds \<Longrightarrow>
      distinct ds \<and> set ds \<subseteq> ?A pool" for w m pool ds
    by (auto simp: toy_meta_def toy_devices_def toy_pod_def split: if_splits)
  have pod: "call_Pod toy_call = Some toy_pod" by (simp add: toy_call_def)
  have "length (pool_devices ''pool1'' (pl_Tasks (toy_plan [toy_nic ''fast'', toy_nic ''fast'']))) = 2" by code_simp
  moreover have "distinct (pool_devices ''pool1'' (pl_Tasks (toy_plan [toy_nic ''fast'', toy_nic ''fast'']))) \<and>
      set (pool_devices ''pool1'' (pl_Tasks (toy_plan [toy_nic ''fast'', toy_nic ''fast'']))) \<subseteq> ?A ''pool1''"
    by (rule planned_devices_distinct [where A = ?A, OF pod _ toy_fast_planned [unfolded toy_start_def]]) (rule alloc)
  ultimately show ?thesis by simp
qed

theorem planned_networks_allow_tenant_witness:
  "AllowedTenants (dn_Spec (snd (hd (pl_Tasks (toy_plan [toy_nic ''fast'', toy_nic ''fast'']))))) = None"
proof -
  let ?p = "toy_plan [toy_nic ''fast'', toy_nic ''fast'']"
  have "pl_Tasks ?p \<noteq> []" by code_simp
  then have "(fst (hd (pl_Tasks ?p)), snd (hd (pl_Tasks ?p))) \<in> set (pl_Tasks ?p)" by simp
  moreover have "call_Pod toy_call = Some toy_pod" by (simp add: toy_call_def)
  moreover have "AllowedTenants (dn_Spec (snd (hd (pl_Tasks ?p)))) \<in> {None, Some []} \<or>
      (\<exists>tenants. AllowedTenants (dn_Spec (snd (hd (pl_Tasks ?p)))) = Some tenants \<and> mt_Namespace (pod_Meta toy_pod) \<in> set tenants)"
    using planned_networks_allow_tenant [OF toy_fast_planned [unfolded toy_start_def]] calculation by blast
  moreover have "AllowedTenants (dn_Spec (snd (hd (pl_Tasks ?p)))) \<noteq> Some []" by code_simp
  moreover have "list_all (\<lambda>(_, n). \<not> (case AllowedTenants (dn_Spec n) of Some ts \<Rightarrow> ''ns1'' \<in> set ts | None \<Rightarrow> False)) (pl_Tasks ?p)"
    by code_simp
  ultimately show ?thesis by (auto simp: list_all_iff toy_pod_def split: option.splits)
qed

lemma Ok_pair: "snd r = w \<Longrightarrow> (case fst r of Ok s \<Rightarrow> True | _ \<Rightarrow> False) \<Longrightarrow> \<exists>s. r = (Ok s, w)"
  by (cases r) (auto split: res.splits)

theorem every_connection_reports_witness:
  "\<exists>s' r. fst (wait_for (toy_meta toy_devices) (\<lambda>k. run_nics (toy_meta toy_devices) toy_conf toy_client toy_call
       (take k (pl_Tasks (toy_plan [toy_nic ''flannel'', toy_nic ''none'']))) (pl_Synch (toy_plan [toy_nic ''flannel'', toy_nic ''none''])) 1)) =
     Ok (s', r) \<and> length (CniResults s') = 2"
proof -
  let ?nics = "[toy_nic ''flannel'', toy_nic ''none'']"
  let ?p = "toy_plan ?nics" and ?env = "toy_meta toy_devices"
  have planned: "plan_ifaces ?env toy_client toy_call 0 ?nics (toy_start 2) 1 = (Ok ?p, 1)" by code_simp
  have tasks: "length (pl_Tasks ?p) = 1" by code_simp
  have "\<exists>s. run_nics ?env toy_conf toy_client toy_call (me_Schedule ?env (pl_Tasks ?p)) (pl_Synch ?p) 1 = (Ok s, 1)"
  proof -
    have "snd (run_nics ?env toy_conf toy_client toy_call (me_Schedule ?env (pl_Tasks ?p)) (pl_Synch ?p) 1) = 1" by code_simp
    moreover have "(case fst (run_nics ?env toy_conf toy_client toy_call (me_Schedule ?env (pl_Tasks ?p)) (pl_Synch ?p) 1) of
        Ok s \<Rightarrow> True | _ \<Rightarrow> False)" by code_simp
    ultimately show ?thesis by (rule Ok_pair)
  qed
  then obtain s where s: "run_nics ?env toy_conf toy_client toy_call (me_Schedule ?env (pl_Tasks ?p)) (pl_Synch ?p) 1 = (Ok s, 1)"
    by blast
  have sched: "me_Schedule ?env ts = ts" "me_Finished ?env i = i" for ts i by (simp_all add: toy_meta_def)
  have start: "toy_start 2 = \<lparr>pl_Synch = NewSyncher (int (length ?nics)), pl_Devices = [], pl_Tasks = []\<rparr>"
    by (simp add: toy_start_def)
  have "\<exists>s'. fst (wait_for ?env (\<lambda>k. run_nics ?env toy_conf toy_client toy_call
       (take k (me_Schedule ?env (pl_Tasks ?p))) (pl_Synch ?p) 1)) =
      Ok (s', if wasAnyErroneous (CniResults s') then Err (mergeErrorMessages s') else Ok ()) \<and>
    length (CniResults s') = length ?nics"
    by (rule every_connection_reports [OF planned [unfolded start] _ s, where i = 1])
      (simp_all add: tasks sched MaximumAllowedTime_def)
  then show ?thesis unfolding sched by auto
qed

theorem second_device_request_panics_witness:
  "createIface (toy_meta (Inl ''no kubelet'')) toy_call (toy_network ''b'' ''sriov'' ''pool1'') (toy_nic ''b'')
     [(''pool1'', None)] 1 = Panic"
proof -
  have "isTenantAllowed toy_call (toy_network name ''sriov'' ''pool1'') = Ok True" for name
    by (simp add: isTenantAllowed_def toy_network_def)
  moreover have "IsDeviceNeeded (NetworkType (dn_Spec (toy_network name ''sriov'' ''pool1'')))" for name
  proof -
    have "IsDeviceNeeded ''sriov''" by code_simp
    then show ?thesis by (simp add: toy_network_def)
  qed
  moreover have "getAllocatedDevices (toy_meta (Inl ''no kubelet'')) toy_call ''pool1'' 1 =
      Err (Msg (''failed to retrieve Pod info from Kubelet Pod Resource client due to:'' @ ''no kubelet''))"
    by (simp add: getAllocatedDevices_def pod_of_def toy_call_def toy_meta_def toy_pod_def)
  moreover have "DevicePool (opts (toy_network name ''sriov'' ''pool1'')) = ''pool1''" for name
    by (simp add: toy_network_def)
  moreover have "me_ResourceClient (toy_meta (Inl ''no kubelet'')) = None" by (simp add: toy_meta_def)
  ultimately show ?thesis
    using second_device_request_panics [where args = toy_call and ?n1.0 = "toy_network ''a'' ''sriov'' ''pool1''" and
        ?n2.0 = "toy_network ''b'' ''sriov'' ''pool1''" and env = "toy_meta (Inl ''no kubelet'')" and ?nic2.0 = "toy_nic ''b''"
        and w = 1 and w' = 1]
    by blast
qed

definition toy_ep :: "string \<Rightarrow> DanmEp" where
  "toy_ep type = new_ep ''c0ffee00-0000-4000-8000-000000000001'' ''n1''
     \<lparr>if_Name = ''eth0'', if_Address = ''10.0.0.5/24'', if_AddressIPv6 = [], if_MacAddress = [], if_Proutes = None,
      if_Proutes6 = None, if_DeviceID = []\<rparr> (toy_network ''n'' type []) (CniArgs.truncate toy_call)"

theorem mixed_case_ipvlan_no_interface_witness:
  "\<exists>r. createDanmInterface (toy_meta toy_devices) toy_call (toy_ep ''IPVLAN'') (toy_network ''n'' ''IPVLAN'' []) 1 = (Ok r, 1) \<and>
     Interfaces r = [(''eth0'', ''c1'')]"
proof -
  let ?n = "toy_network ''n'' ''IPVLAN'' []" and ?ep = "toy_ep ''IPVLAN''"
  have "to_lower (NetworkType (dn_Spec ?n)) = ''ipvlan''" "NetworkType (dn_Spec ?n) \<noteq> ''ipvlan''" by code_simp+
  moreover have "ep_NetworkType (ep_Spec ?ep) = NetworkType (dn_Spec ?n)" "if_AddressIPv6 (iface_of ?ep) = []"
      "if_Name (iface_of ?ep) = ''eth0''"
    by (simp_all add: toy_ep_def new_ep_def)
  moreover have "ParseCIDR (if_Address (iface_of ?ep)) \<noteq> None" by code_simp
  then obtain addr k where "ParseCIDR (if_Address (iface_of ?ep)) = Some (addr, k)" by auto
  ultimately show ?thesis
    using mixed_case_ipvlan_no_interface [of ?n ?ep addr k "toy_meta toy_devices" toy_call 1]
    by (auto simp: toy_call_def)
qed

theorem refresh_failure_panics_witness:
  "fst (createNic (toy_meta toy_devices) toy_conf toy_client toy_call (toy_nic ''gone'') (toy_network ''gone'' ''ipvlan'' [])
     (NewSyncher 1) 1) = Panic"
proof (rule refresh_failure_panics)
  let ?n = "toy_network ''gone'' ''ipvlan'' []" and ?env = "toy_meta toy_devices"
  show "isIpReservationNeeded (toy_nic ''gone'') ?n" by (simp add: isIpReservationNeeded_def toy_network_def)
  show "ifc_Device (toy_nic ''gone'') = []" by (simp add: toy_nic_def empty_iface_def)
  show "Reserve (me_Cidr ?env) toy_client ?n (ifc_Ip (toy_nic ''gone'')) (ifc_Ip6 (toy_nic ''gone'')) 1 = (Ok ([], []), 1)"
    by (simp add: Reserve_def run_loop_def Reserve_loop.simps allocateIps_def allocate4_def allocate6_def toy_nic_def empty_iface_def)
  show "createDanmEp (ph_env (me_Host ?env)) toy_client e ?n (CniArgs.truncate toy_call) 1 =
      (Ok (new_ep ''c0ffee00-0000-4000-8000-000000000001'' ''n1'' e ?n (CniArgs.truncate toy_call)), 1)" for e
    by (simp add: createDanmEp_def toy_meta_def toy_host_def toy_client_def)
  show "GetNetworkFromEp toy_client (new_ep ''c0ffee00-0000-4000-8000-000000000001'' ''n1'' e ?n (CniArgs.truncate toy_call)) 1 =
      (Err (NetNotFound ''gone'' ''DanmNet'' ''ns1''), 1)" for e
    by (simp add: GetNetworkFromEp_def GetNetworkFromInterface_def get_named_def new_ep_def dummy_iface_def toy_network_def
        toy_client_def empty_iface_def kind_defs toy_call_def CniArgs.truncate_def)
qed

text \<open>
  A host whose world is the thread's namespace and the links of all namespaces, on which only the
  namespaces below 8 can be entered.
\<close>

definition ns_host :: "(nat \<times> (nat \<times> string) list) pod_host" where
  "ns_host =
     \<lparr>ph_net = \<lparr>LinkByName = \<lambda>name w. if (fst w, name) \<in> set (snd w) then Inr (toy_link name) else Inl ''Link not found'',
        LinkAdd = \<lambda>l w. (Some ''operation not permitted'', w),
        LinkDel = \<lambda>l w. (None, (fst w, removeAll (fst w, lk_Name l) (snd w))), LinkSetUp = \<lambda>l w. (None, w),
        AddrList = \<lambda>l f w. Inr [], CidrHost = \<lambda>n i. Inl []\<rparr>,
      ph_env = \<lparr>NewUuid = \<lambda>w. (Inr ''c0ffee00-0000-4000-8000-000000000001'', w), Hostname = Inr ''n1'',
        PfNameOf = \<lambda>d. [], VfidOf = \<lambda>d p. None, PfVfMacs = \<lambda>p. None, Sysctl = \<lambda>k v w. (None, w)\<rparr>,
      GetCurrentNS = \<lambda>w. Inr (fst w), GetNS = \<lambda>path w. Inr (if path = ''/proc/7/ns/net'' then 7 else 9),
      SetNS = \<lambda>n w. (if n < 8 then (None, (n, snd w)) else (Some ''invalid argument'', w)), IsNSorErr = \<lambda>path w. None,
      LinkSetNsFd = \<lambda>l n w. (None, w), LinkSetName = \<lambda>l n w. (None, w), LinkSetAlias = \<lambda>l a w. (None, w),
      AddrAdd = \<lambda>l a d w. (None, w), AddrReplace = \<lambda>l a d w. (None, w), RouteAdd = \<lambda>i d g t w. (None, w),
      RuleAdd = \<lambda>src t w. (None, w), GratuitousArp = \<lambda>a n w. w, HasDpdkDriver = \<lambda>d w. False\<rparr>"

definition ns_meta :: "(nat \<times> (nat \<times> string) list) meta_env" where
  "ns_meta =
     \<lparr>me_LoadArgs = \<lambda>a. Inl ''unused'', me_ParseNetConf = \<lambda>b. Inl ''unused'', me_BuildConfig = \<lambda>k. None,
      me_NewDanmClient = \<lambda>k. Inl ''unused'', me_NewK8sClient = \<lambda>k. None, me_GetPod = \<lambda>ns n w. (Inr toy_pod, w),
      me_DecodeInterfaces = \<lambda>v. Inr [], me_ResourceClient = None, me_PodResourceMap = \<lambda>pod w. Inr [],
      me_SetCommand = \<lambda>c w. w, me_Schedule = \<lambda>ts. ts, me_DelSchedule = \<lambda>es. es, me_Finished = \<lambda>i. i,
      me_Host = ns_host,
      me_Cni = \<lparr>GetPfName = \<lambda>d. Inr ''ens4'', ReadConfFile = \<lambda>path w. Some ''{}'', Getenv = \<lambda>k. [], LookupEnv = \<lambda>k. None,
        FindInPath = \<lambda>t paths. Inr t, RawExec = \<lambda>path conf args w. (Inr ''raw'', w), DecodeVersion = \<lambda>raw. Some ''0.3.1'',
        NewResult = \<lambda>v raw. Some raw, NewResultFromResult = \<lambda>raw. None, RemoveFile = \<lambda>path w. w\<rparr>,
      me_Cidr = \<lparr>AddressRange = \<lambda>n. ([], []), IncIp = \<lambda>a. a, DecIp = \<lambda>a. a, AddressCount = \<lambda>n. 0\<rparr>\<rparr>"


end
