(* ===== verification/FakeIpam.thy ===== *)
theory FakeIpam
  imports MetaCni AdmitFlow Ip6Text
begin

text \<open>
  The commands of \<^verbatim>\<open>cmd/\<close>: the IPAM plugin that hands DANM's addresses to
  a delegated CNI plugin (\<^verbatim>\<open>cmd/fakeipam\<close>), and which functions the CNI binary and
  the webhook serve. Reading the standard input as JSON is the parameter \<open>parse\<close>; a printed
  result is the value.
\<close>

section \<open>The IPAM plugin\<close>

definition loadIpamConfig :: "(string \<Rightarrow> string + IpamConfig) \<Rightarrow> string \<Rightarrow> IpamConfig res" where
  "loadIpamConfig parse rawConfig =
     (case parse rawConfig of
        Inl err \<Rightarrow> Err (Msg err)
      | Inr ipam \<Rightarrow> (if ipam_Ips ipam = [] then Err (Msg ''No IP was passed to fake IPAM'') else Ok ipam))"

fun result_ips :: "IpamIp list \<Rightarrow> cni_ip list res" where
  "result_ips [] = Ok []"
| "result_ips (ipamIp # ips) =
     (case ParseCIDR (IpCidr ipamIp) of
        None \<Rightarrow> Err (Msg (''Unable to parse the given IpamConfig.IpCidr: '' @ IpCidr ipamIp))
      | Some (a, ipNet) \<Rightarrow>
          bind_res (result_ips ips) (\<lambda>rest. Ok
            (CniIp (itoa (ip_Version ipamIp)) (ipnet_string \<lparr>net_IP = a, net_Mask = net_Mask ipNet\<rparr>) # rest)))"

definition createCniResult :: "IpamConfig \<Rightarrow> current_result res" where
  "createCniResult ipamConf =
     bind_res (result_ips (ipam_Ips ipamConf)) (\<lambda>ips. Ok (empty_result\<lparr>IPs := ips\<rparr>))"

definition reserveIp :: "(string \<Rightarrow> string + IpamConfig) \<Rightarrow> CmdArgs \<Rightarrow> current_result res" where
  "reserveIp parse args = bind_res (loadIpamConfig parse (ca_StdinData args)) createCniResult"

definition freeIp :: "CmdArgs \<Rightarrow> unit res" where "freeIp args = Ok ()"

definition checkIp :: "CmdArgs \<Rightarrow> unit res" where "checkIp args = Ok ()"

section \<open>Commands\<close>

datatype cni_command = CniAdd | CniCheck | CniDel

text \<open>A command prints a result or nothing.\<close>

definition danm_main :: "'w meta_env \<Rightarrow> cni_command \<Rightarrow> CmdArgs \<Rightarrow> ('w, current_result option) st" where
  "danm_main env cmd args =
     (case cmd of
        CniAdd \<Rightarrow> bind_st (CreateInterfaces env args) (\<lambda>r. return_st (Ok (Some r)))
      | CniCheck \<Rightarrow> bind_st (return_st (GetInterfaces args)) (\<lambda>_. return_st (Ok None))
      | CniDel \<Rightarrow> bind_st (DeleteInterfaces env args) (\<lambda>_. return_st (Ok None)))"

definition fakeipam_main ::
  "(string \<Rightarrow> string + IpamConfig) \<Rightarrow> cni_command \<Rightarrow> CmdArgs \<Rightarrow> current_result option res" where
  "fakeipam_main parse cmd args =
     (case cmd of
        CniAdd \<Rightarrow> bind_res (reserveIp parse args) (\<lambda>r. Ok (Some r))
      | CniCheck \<Rightarrow> bind_res (checkIp args) (\<lambda>_. Ok None)
      | CniDel \<Rightarrow> bind_res (freeIp args) (\<lambda>_. Ok None))"

text \<open>The paths the webhook serves.\<close>

definition webhook_handler :: "'w admit_env \<Rightarrow> string \<Rightarrow> (http_body \<Rightarrow> ('w, AdmissionResponse) st) option" where
  "webhook_handler env path =
     (if path = ''/netvalidation'' then Some (ValidateNetwork env)
      else if path = ''/confvalidation'' then Some (ValidateTenantConfig env)
      else if path = ''/netdeletion'' then Some (DeleteNetwork env)
      else None)"

section \<open>Lemmas\<close>

text \<open>A text that is printed as it was read.\<close>

definition canonical :: "string \<Rightarrow> bool" where
  "canonical s \<longleftrightarrow> (case ParseCIDR s of None \<Rightarrow> False
     | Some (a, n) \<Rightarrow> ipnet_string \<lparr>net_IP = a, net_Mask = net_Mask n\<rparr> = s)"

lemma canonical_dotted:
  assumes "length q = 4" and "p \<le> 32"
  shows "canonical (dotted q @ CHR ''/'' # itoa_nat p)"
proof -
  have "length (CIDRMask p 32) = 4" using assms(2) by (simp add: take_12_mask_16)
  moreover have "simpleMaskLength (CIDRMask p 32) = Some p"
    using assms(2) simpleMaskLength_mask [of p 4] by (simp add: CIDRMask_def)
  ultimately have "ipnet_string \<lparr>net_IP = IPv4 q, net_Mask = CIDRMask p 32\<rparr> = dotted q @ CHR ''/'' # itoa_nat p"
    using assms by (auto simp: ipnet_string_def networkNumberAndMask_def ip_string_def Let_def)
  then show ?thesis using ParseCIDR_dotted [OF assms] by (simp add: canonical_def net_of_def)
qed

lemma itoa_small: "itoa 4 = ''4''" "itoa 6 = ''6''"
  by code_simp+

lemma result_ips_canonical:
  "canonical s \<Longrightarrow> result_ips (\<lparr>IpCidr = s, ip_Version = v\<rparr> # ips) =
     bind_res (result_ips ips) (\<lambda>rest. Ok (CniIp (itoa v) s # rest))"
  by (auto simp: canonical_def split: option.splits)

lemma canonical_ipv6:
  assumes "length a = 16" "To4 a = []" "p \<le> 128"
  shows "canonical (ip_string a @ CHR ''/'' # itoa_nat p)"
proof -
  have "length (CIDRMask p 128) = 16" using assms(3) by (simp add: take_12_mask_16)
  moreover have "simpleMaskLength (CIDRMask p 128) = Some p"
    using assms(3) simpleMaskLength_mask [of p 16] by (simp add: CIDRMask_def)
  ultimately have "ipnet_string \<lparr>net_IP = a, net_Mask = CIDRMask p 128\<rparr> = ip_string a @ CHR ''/'' # itoa_nat p"
    using assms by (simp add: ipnet_string_def networkNumberAndMask_def Let_def)
  then show ?thesis using ParseCIDR_ipv6 [OF assms] by (simp add: canonical_def net_of_def)
qed

text \<open>The address section of the configuration a plugin gets.\<close>

fun config_ipam :: "cni_config \<Rightarrow> IpamConfig option" where
  "config_ipam (SriovConf c) = Some (sr_Ipam c)"
| "config_ipam (MacvlanConf c) = Some (mv_Ipam c)"
| "config_ipam (FileConf raw ipam) = ipam"

lemma config_carries_ipam:
  assumes "getCniPluginConfig env confDir net conf ep w = Ok cfg" and "ipam_Ips conf \<noteq> []"
  shows "config_ipam cfg = Some conf"
  using assms by (auto simp: getCniPluginConfig_def getSriovCniConfig_def getMacvlanCniConfig_def
      readCniConfigFile_def Let_def split: option.splits native_cni.splits sum.splits)

abbreviation no_address :: "string \<Rightarrow> bool" where
  "no_address s \<equiv> s = [] \<or> s = NoneAllocType"

lemma result_of_addresses:
  assumes "no_address a4 \<or> canonical a4" and "no_address a6 \<or> canonical a6"
  shows "createCniResult (getCniIpamConfig a4 a6) = Ok (empty_result\<lparr>IPs :=
    (if no_address a4 then [] else [CniIp ''4'' a4]) @ (if no_address a6 then [] else [CniIp ''6'' a6])\<rparr>)"
  using assms by (auto simp: createCniResult_def getCniIpamConfig_def result_ips_canonical itoa_small empty_result_def
      simp del: result_ips.simps(2))

section \<open>Properties\<close>

text \<open>
  C27. The addresses DANM reserved survive the delegation unchanged: put into the configuration of the
  delegated plugin, printed by the IPAM plugin it calls, and read back from its result, they are
  exactly the IPv4 and the IPv6 address of the endpoint, which stays as it was. The addresses
  are an IPv4 address with any prefix, any IPv6 address that is no IPv4-mapped one in the form
  Go prints, or both. The delegated plugin passes its configuration on to its IPAM plugin, which
  reads it as it was written, and reports the addresses the IPAM plugin printed.
\<close>

theorem reserved_addresses_survive_delegation:
  assumes ep: "if_Address (ep_Iface (ep_Spec ep)) = a4" "if_AddressIPv6 (ep_Iface (ep_Spec ep)) = a6"
    and v4: "no_address a4 \<or> (\<exists>q p. length q = 4 \<and> p \<le> 32 \<and> a4 = dotted q @ CHR ''/'' # itoa_nat p)"
    and v6: "no_address a6 \<or> (\<exists>a p. length a = 16 \<and> To4 a = [] \<and> p \<le> 128 \<and> a6 = ip_string a @ CHR ''/'' # itoa_nat p)"
    and reserved: "\<not> no_address a4 \<or> \<not> no_address a6"
    and config: "getCniPluginConfig env confDir net (getCniIpamConfig a4 a6) ep w = Ok cfg"
    and stdin: "\<And>conf. config_ipam cfg = Some conf \<Longrightarrow> parse (ca_StdinData (args cfg)) = Inr conf"
    and plugin: "\<And>printed. fakeipam_main parse CniAdd (args cfg) = Ok (Some printed) \<Longrightarrow>
      \<exists>r w'. execCniPlugin env (NetworkType (dn_Spec net)) CniAddOp cfg ep w = (Inr (Some r), w') \<and> IPs r = IPs printed"
  shows "\<exists>r w'. DelegateInterfaceSetup env confDir True net ep w = (Ok (Some r, ep), w') \<and>
    IPs r = (if no_address a4 then [] else [CniIp ''4'' a4]) @ (if no_address a6 then [] else [CniIp ''6'' a6])"
proof -
  let ?conf = "getCniIpamConfig a4 a6"
  let ?ips = "(if no_address a4 then [] else [CniIp ''4'' a4]) @ (if no_address a6 then [] else [CniIp ''6'' a6])"
  have c4: "no_address a4 \<or> canonical a4" using v4 canonical_dotted by auto
  have c6: "no_address a6 \<or> canonical a6" using v6 canonical_ipv6 by auto
  have ips: "ipam_Ips ?conf \<noteq> []" using reserved ipam_ips_cases [of a4 a6] by auto
  have "parse (ca_StdinData (args cfg)) = Inr ?conf"
    by (rule stdin [OF config_carries_ipam [OF config ips]])
  then have "fakeipam_main parse CniAdd (args cfg) = Ok (Some (empty_result\<lparr>IPs := ?ips\<rparr>))"
    using ips by (simp add: fakeipam_main_def reserveIp_def loadIpamConfig_def result_of_addresses [OF c4 c6])
  from plugin [OF this] obtain r w' where
    r: "execCniPlugin env (NetworkType (dn_Spec net)) CniAddOp cfg ep w = (Inr (Some r), w')" "IPs r = ?ips" by auto
  have "setEpIfaceAddress ?ips (ep_Iface (ep_Spec ep)) = ep_Iface (ep_Spec ep)" using ep by auto
  then have "DelegateInterfaceSetup env confDir True net ep w = (Ok (Some r, ep), w')"
    using config ep r by (simp add: DelegateInterfaceSetup_def)
  with r(2) show ?thesis by blast
qed

definition demo_plugin :: "unit cni_env" where
  "demo_plugin = \<lparr>GetPfName = \<lambda>_. Inl [], ReadConfFile = \<lambda>_ _. None, Getenv = \<lambda>_. [], LookupEnv = \<lambda>_. None,
     FindInPath = \<lambda>t _. Inr t, RawExec = \<lambda>_ _ _ w. (Inr ''result'', w), DecodeVersion = \<lambda>_. Some ''0.3.1'',
     NewResult = \<lambda>_ raw. Some raw,
     NewResultFromResult = \<lambda>_. Some (empty_result\<lparr>IPs := [CniIp ''4'' ''10.0.0.5/24'', CniIp ''6'' ''fd00::5/64'']\<rparr>),
     RemoveFile = \<lambda>_ w. w\<rparr>"

definition demo_delegated :: DanmEp where
  "demo_delegated = \<lparr>ep_Kind = [], ep_Meta = empty_meta, ep_Spec =
     \<lparr>ep_NetworkName = ''n1'', ep_NetworkType = ''macvlan'', ep_EndpointID = [], ep_Iface =
       \<lparr>if_Name = ''eth0'', if_Address = ''10.0.0.5/24'', if_AddressIPv6 = ''fd00::5/64'', if_MacAddress = [],
        if_Proutes = None, if_Proutes6 = None, if_DeviceID = []\<rparr>,
      ep_Host = [], ep_Pod = [], ep_PodUID = [], ep_CID = [], ep_Netns = [], ep_ApiType = []\<rparr>\<rparr>"

definition demo_macvlan :: DanmNet where
  "demo_macvlan = empty_net\<lparr>dn_Spec := (dn_Spec empty_net)\<lparr>NetworkID := ''n1'', NetworkType := ''macvlan''\<rparr>\<rparr>"

lemma demo_macvlan_config:
  "getCniPluginConfig demo_plugin [] demo_macvlan conf ep () = Ok (MacvlanConf
     \<lparr>mv_CNIVersion = ''0.3.1'', mv_Name = ''n1'', mv_Master = DetermineHostDeviceName demo_macvlan, mv_Mode = ''bridge'',
      mv_MTU = 1500, mv_Ipam = (if ipam_Ips conf \<noteq> [] then conf else empty_ipam)\<rparr>)"
proof -
  have "SupportedNativeCnis (to_lower ''macvlan'') =
      Some \<lparr>CNIVersion = ''0.3.1'', ReadConfig = MacvlanCni, IpamNeeded = True, DeviceNeeded = False\<rparr>"
    by code_simp
  then show ?thesis by (simp add: getCniPluginConfig_def getMacvlanCniConfig_def demo_macvlan_def)
qed

lemma demo_canonical_texts: "canonical ''10.0.0.5/24''" "canonical ''fd00::5/64''"
  "dotted [10, 0, 0, 5] @ CHR ''/'' # itoa_nat 24 = ''10.0.0.5/24''"
  "ip_string ([253, 0] @ replicate 13 0 @ [5]) @ CHR ''/'' # itoa_nat 64 = ''fd00::5/64''"
  "To4 ([253, 0] @ replicate 13 0 @ [5]) = []" "NoneAllocType = ''none''"
  by code_simp+

theorem reserved_addresses_survive_delegation_witness:
  "\<exists>r w'. DelegateInterfaceSetup demo_plugin [] True demo_macvlan demo_delegated () = (Ok (Some r, demo_delegated), w') \<and>
     IPs r = [CniIp ''4'' ''10.0.0.5/24'', CniIp ''6'' ''fd00::5/64'']"
proof -
  let ?conf = "getCniIpamConfig ''10.0.0.5/24'' ''fd00::5/64''"
  let ?args = "\<lparr>ca_Netns = [], ca_Args = [], ca_StdinData = ''conf''\<rparr>"
  have v4: "\<exists>q p. length q = 4 \<and> p \<le> 32 \<and> ''10.0.0.5/24'' = dotted q @ CHR ''/'' # itoa_nat p"
    using demo_canonical_texts(3) by (intro exI [of _ "[10, 0, 0, 5]"] exI [of _ 24]) simp
  have v6: "\<exists>a p. length a = 16 \<and> To4 a = [] \<and> p \<le> 128 \<and> ''fd00::5/64'' = ip_string a @ CHR ''/'' # itoa_nat p"
    using demo_canonical_texts(4,5)
    by (intro exI [of _ "[253, 0] @ replicate 13 0 @ [5]"] exI [of _ 64]) simp
  have nonempty: "ipam_Ips ?conf \<noteq> []" by (simp add: getCniIpamConfig_def demo_canonical_texts(6))
  have "fakeipam_main (\<lambda>_. Inr ?conf) CniAdd ?args = Ok (Some (empty_result\<lparr>IPs :=
      [CniIp ''4'' ''10.0.0.5/24'', CniIp ''6'' ''fd00::5/64'']\<rparr>))"
    using result_of_addresses [of "''10.0.0.5/24''" "''fd00::5/64''"] nonempty
    by (simp add: fakeipam_main_def reserveIp_def loadIpamConfig_def demo_canonical_texts(1,2,6))
  moreover have "execCniPlugin demo_plugin (NetworkType (dn_Spec demo_macvlan)) CniAddOp cfg demo_delegated () =
      (Inr (Some (empty_result\<lparr>IPs := [CniIp ''4'' ''10.0.0.5/24'', CniIp ''6'' ''fd00::5/64'']\<rparr>)), ())" for cfg
    by (simp add: execCniPlugin_def getExecCniParams_def demo_plugin_def convertCniResult_def)
  ultimately show ?thesis
    using reserved_addresses_survive_delegation [of demo_delegated "''10.0.0.5/24''" "''fd00::5/64''" demo_plugin "[]"
        demo_macvlan "()" _ "\<lambda>_. Inr ?conf" "\<lambda>_. ?args", OF _ _ disjI2 [OF v4] disjI2 [OF v6] _ demo_macvlan_config] nonempty
    by (simp add: demo_delegated_def demo_canonical_texts(6))
qed

end
