(* ===== verification/DeepCopy.thy ===== *)
theory DeepCopy
  imports DanmTypes
begin

text \<open>
  \<^verbatim>\<open>zz_generated.deepcopy.go\<close> of \<^verbatim>\<open>crd/apis/danm/v1\<close> and
  \<^verbatim>\<open>crd/apis/k8s.cni.cncf.io/v1\<close>: copies of the API objects that share
  no memory with the original. Maps and slices live in a store under addresses; an object in
  memory holds addresses where its Go struct holds a map or slice, \<open>None\<close> for nil. The copy of
  Kubernetes' \<^verbatim>\<open>ObjectMeta\<close> is the parameter \<open>mc\<close>; the list metadata is left out.
\<close>

section \<open>Memory\<close>

record meta_obj =
  mo_flat :: ObjectMeta
  mo_Labels :: "nat option"

record option_obj =
  oo_flat :: DanmNetOption
  oo_Routes :: "nat option"
  oo_Routes6 :: "nat option"

record spec_obj =
  so_flat :: DanmNetSpec
  so_AllowedTenants :: "nat option"
  so_Options :: option_obj

record net_obj =
  no_Kind :: string
  no_Meta :: meta_obj
  no_Spec :: spec_obj

record iface_obj =
  io_flat :: DanmEpIface
  io_Proutes :: "nat option"
  io_Proutes6 :: "nat option"

record epspec_obj =
  eo_flat :: DanmEpSpec
  eo_Iface :: iface_obj

record ep_obj =
  po_Kind :: string
  po_Meta :: meta_obj
  po_Spec :: epspec_obj

record conf_obj =
  co_Kind :: string
  co_Meta :: meta_obj
  co_HostDevices :: "nat option"
  co_NetworkIds :: "nat option"

record nad_obj =
  na_Kind :: string
  na_Meta :: meta_obj
  na_Config :: string

text \<open>The devices a network status may name.\<close>

record PciDevice =
  pci_PciAddress :: string
  pci_Vhostnet :: string
  pci_RdmaDevice :: string
  pci_PfPciAddress :: string

record VdpaDevice =
  vdpa_ParentDevice :: string
  vdpa_Driver :: string
  vdpa_Path :: string
  vdpa_PciAddress :: string
  vdpa_PfPciAddress :: string

record VhostDevice =
  vhost_Mode :: string
  vhost_Path :: string

record MemifDevice =
  memif_Role :: string
  memif_Path :: string
  memif_Mode :: string

record device_obj =
  dev_Type :: string
  dev_Version :: string
  dev_Pci :: "nat option"
  dev_Vdpa :: "nat option"
  dev_VhostUser :: "nat option"
  dev_Memif :: "nat option"

text \<open>The slices \<^verbatim>\<open>Items\<close> of the list types hold structs, which hold addresses again.\<close>

record mem =
  mem_next :: nat
  mem_maps :: "nat \<Rightarrow> gomap"
  mem_strings :: "nat \<Rightarrow> string list"
  mem_profiles :: "nat \<Rightarrow> IfaceProfile list"
  mem_nets :: "nat \<Rightarrow> net_obj list"
  mem_eps :: "nat \<Rightarrow> ep_obj list"
  mem_confs :: "nat \<Rightarrow> conf_obj list"
  mem_nads :: "nat \<Rightarrow> nad_obj list"
  mem_pci :: "nat \<Rightarrow> PciDevice"
  mem_vdpa :: "nat \<Rightarrow> VdpaDevice"
  mem_vhost :: "nat \<Rightarrow> VhostDevice"
  mem_memif :: "nat \<Rightarrow> MemifDevice"

definition put_map :: "nat \<Rightarrow> gomap \<Rightarrow> mem \<Rightarrow> mem" where
  "put_map a x m = m\<lparr>mem_maps := (mem_maps m)(a := x)\<rparr>"

definition put_strings :: "nat \<Rightarrow> string list \<Rightarrow> mem \<Rightarrow> mem" where
  "put_strings a x m = m\<lparr>mem_strings := (mem_strings m)(a := x)\<rparr>"

definition put_profiles :: "nat \<Rightarrow> IfaceProfile list \<Rightarrow> mem \<Rightarrow> mem" where
  "put_profiles a x m = m\<lparr>mem_profiles := (mem_profiles m)(a := x)\<rparr>"

definition put_nets :: "nat \<Rightarrow> net_obj list \<Rightarrow> mem \<Rightarrow> mem" where
  "put_nets a x m = m\<lparr>mem_nets := (mem_nets m)(a := x)\<rparr>"

definition put_eps :: "nat \<Rightarrow> ep_obj list \<Rightarrow> mem \<Rightarrow> mem" where
  "put_eps a x m = m\<lparr>mem_eps := (mem_eps m)(a := x)\<rparr>"

definition put_confs :: "nat \<Rightarrow> conf_obj list \<Rightarrow> mem \<Rightarrow> mem" where
  "put_confs a x m = m\<lparr>mem_confs := (mem_confs m)(a := x)\<rparr>"

definition put_nads :: "nat \<Rightarrow> nad_obj list \<Rightarrow> mem \<Rightarrow> mem" where
  "put_nads a x m = m\<lparr>mem_nads := (mem_nads m)(a := x)\<rparr>"

definition put_pci :: "nat \<Rightarrow> PciDevice \<Rightarrow> mem \<Rightarrow> mem" where
  "put_pci a x m = m\<lparr>mem_pci := (mem_pci m)(a := x)\<rparr>"

definition put_vdpa :: "nat \<Rightarrow> VdpaDevice \<Rightarrow> mem \<Rightarrow> mem" where
  "put_vdpa a x m = m\<lparr>mem_vdpa := (mem_vdpa m)(a := x)\<rparr>"

definition put_vhost :: "nat \<Rightarrow> VhostDevice \<Rightarrow> mem \<Rightarrow> mem" where
  "put_vhost a x m = m\<lparr>mem_vhost := (mem_vhost m)(a := x)\<rparr>"

definition put_memif :: "nat \<Rightarrow> MemifDevice \<Rightarrow> mem \<Rightarrow> mem" where
  "put_memif a x m = m\<lparr>mem_memif := (mem_memif m)(a := x)\<rparr>"

text \<open>
  \<^verbatim>\<open>make\<close> and the loop that fills the new map, or \<^verbatim>\<open>copy\<close>
  for a slice of values; nothing for nil.
\<close>

definition copy_cell ::
  "(mem \<Rightarrow> nat \<Rightarrow> 'a) \<Rightarrow> (nat \<Rightarrow> 'a \<Rightarrow> mem \<Rightarrow> mem) \<Rightarrow> nat option \<Rightarrow> mem \<Rightarrow> nat option \<times> mem" where
  "copy_cell get put src m =
     (case src of
        None \<Rightarrow> (None, m)
      | Some a \<Rightarrow> (Some (mem_next m), put (mem_next m) (get m a) (m\<lparr>mem_next := mem_next m + 1\<rparr>)))"

definition copy_map :: "nat option \<Rightarrow> mem \<Rightarrow> nat option \<times> mem" where
  "copy_map = copy_cell mem_maps put_map"

definition copy_strings :: "nat option \<Rightarrow> mem \<Rightarrow> nat option \<times> mem" where
  "copy_strings = copy_cell mem_strings put_strings"

definition copy_profiles :: "nat option \<Rightarrow> mem \<Rightarrow> nat option \<times> mem" where
  "copy_profiles = copy_cell mem_profiles put_profiles"

text \<open>A slice of structs: a new array, whose elements are copied one after the other.\<close>

fun copy_all :: "('a \<Rightarrow> mem \<Rightarrow> 'a \<times> mem) \<Rightarrow> 'a list \<Rightarrow> mem \<Rightarrow> 'a list \<times> mem" where
  "copy_all into [] m = ([], m)"
| "copy_all into (x # xs) m =
     (let (y, m1) = into x m; (ys, m2) = copy_all into xs m1 in (y # ys, m2))"

definition copy_items ::
  "(mem \<Rightarrow> nat \<Rightarrow> 'a list) \<Rightarrow> (nat \<Rightarrow> 'a list \<Rightarrow> mem \<Rightarrow> mem) \<Rightarrow> ('a \<Rightarrow> mem \<Rightarrow> 'a \<times> mem) \<Rightarrow>
   nat option \<Rightarrow> mem \<Rightarrow> nat option \<times> mem" where
  "copy_items get put into src m =
     (case src of
        None \<Rightarrow> (None, m)
      | Some a \<Rightarrow>
          (let (ys, m1) = copy_all into (get m a) (m\<lparr>mem_next := mem_next m + 1\<rparr>)
           in (Some (mem_next m), put (mem_next m) ys m1)))"

text \<open>\<^verbatim>\<open>DeepCopy\<close>: nil for nil, else a new struct filled by \<^verbatim>\<open>DeepCopyInto\<close>.\<close>

definition new_copy :: "('a \<Rightarrow> mem \<Rightarrow> 'a \<times> mem) \<Rightarrow> 'a option \<Rightarrow> mem \<Rightarrow> 'a option \<times> mem" where
  "new_copy into src m =
     (case src of None \<Rightarrow> (None, m) | Some x \<Rightarrow> (let (out, m') = into x m in (Some out, m')))"

section \<open>Copying\<close>

type_synonym meta_copier = "meta_obj \<Rightarrow> mem \<Rightarrow> meta_obj \<times> mem"

definition IpPool_DeepCopyInto :: "IpPool \<Rightarrow> mem \<Rightarrow> IpPool \<times> mem" where
  "IpPool_DeepCopyInto src m = (src, m)"

definition IpPoolV6_DeepCopyInto :: "IpPoolV6 \<Rightarrow> mem \<Rightarrow> IpPoolV6 \<times> mem" where
  "IpPoolV6_DeepCopyInto src m = (src\<lparr>Start := Start src, End := End src, LastIp := LastIp src\<rparr>, m)"

definition IfaceProfile_DeepCopyInto :: "IfaceProfile \<Rightarrow> mem \<Rightarrow> IfaceProfile \<times> mem" where
  "IfaceProfile_DeepCopyInto src m = (src, m)"

definition DanmNetOption_DeepCopyInto :: "option_obj \<Rightarrow> mem \<Rightarrow> option_obj \<times> mem" where
  "DanmNetOption_DeepCopyInto src m =
     (let (routes, m1) = copy_map (oo_Routes src) m;
          (routes6, m2) = copy_map (oo_Routes6 src) m1
      in (src\<lparr>oo_Routes := routes, oo_Routes6 := routes6\<rparr>, m2))"

definition DanmNetSpec_DeepCopyInto :: "spec_obj \<Rightarrow> mem \<Rightarrow> spec_obj \<times> mem" where
  "DanmNetSpec_DeepCopyInto src m =
     (let (tenants, m1) = copy_strings (so_AllowedTenants src) m;
          (options, m2) = DanmNetOption_DeepCopyInto (so_Options src) m1
      in (src\<lparr>so_AllowedTenants := tenants, so_Options := options\<rparr>, m2))"

definition DanmEpIface_DeepCopyInto :: "iface_obj \<Rightarrow> mem \<Rightarrow> iface_obj \<times> mem" where
  "DanmEpIface_DeepCopyInto src m =
     (let (proutes, m1) = copy_map (io_Proutes src) m;
          (proutes6, m2) = copy_map (io_Proutes6 src) m1
      in (src\<lparr>io_Proutes := proutes, io_Proutes6 := proutes6\<rparr>, m2))"

definition DanmEpSpec_DeepCopyInto :: "epspec_obj \<Rightarrow> mem \<Rightarrow> epspec_obj \<times> mem" where
  "DanmEpSpec_DeepCopyInto src m =
     (let (ifc, m1) = DanmEpIface_DeepCopyInto (eo_Iface src) m in (src\<lparr>eo_Iface := ifc\<rparr>, m1))"

definition DanmEp_DeepCopyInto :: "meta_copier \<Rightarrow> ep_obj \<Rightarrow> mem \<Rightarrow> ep_obj \<times> mem" where
  "DanmEp_DeepCopyInto mc src m =
     (let (meta, m1) = mc (po_Meta src) m; (spec, m2) = DanmEpSpec_DeepCopyInto (po_Spec src) m1
      in (src\<lparr>po_Meta := meta, po_Spec := spec\<rparr>, m2))"

definition DanmNet_DeepCopyInto :: "meta_copier \<Rightarrow> net_obj \<Rightarrow> mem \<Rightarrow> net_obj \<times> mem" where
  "DanmNet_DeepCopyInto mc src m =
     (let (meta, m1) = mc (no_Meta src) m; (spec, m2) = DanmNetSpec_DeepCopyInto (no_Spec src) m1
      in (src\<lparr>no_Meta := meta, no_Spec := spec\<rparr>, m2))"

definition TenantNetwork_DeepCopyInto :: "meta_copier \<Rightarrow> net_obj \<Rightarrow> mem \<Rightarrow> net_obj \<times> mem" where
  "TenantNetwork_DeepCopyInto mc src m =
     (let (meta, m1) = mc (no_Meta src) m; (spec, m2) = DanmNetSpec_DeepCopyInto (no_Spec src) m1
      in (src\<lparr>no_Meta := meta, no_Spec := spec\<rparr>, m2))"

definition ClusterNetwork_DeepCopyInto :: "meta_copier \<Rightarrow> net_obj \<Rightarrow> mem \<Rightarrow> net_obj \<times> mem" where
  "ClusterNetwork_DeepCopyInto mc src m =
     (let (meta, m1) = mc (no_Meta src) m; (spec, m2) = DanmNetSpec_DeepCopyInto (no_Spec src) m1
      in (src\<lparr>no_Meta := meta, no_Spec := spec\<rparr>, m2))"

definition TenantConfig_DeepCopyInto :: "meta_copier \<Rightarrow> conf_obj \<Rightarrow> mem \<Rightarrow> conf_obj \<times> mem" where
  "TenantConfig_DeepCopyInto mc src m =
     (let (meta, m1) = mc (co_Meta src) m;
          (devices, m2) = copy_profiles (co_HostDevices src) m1;
          (ids, m3) = copy_map (co_NetworkIds src) m2
      in (src\<lparr>co_Meta := meta, co_HostDevices := devices, co_NetworkIds := ids\<rparr>, m3))"

definition ClusterNetworkList_DeepCopyInto :: "meta_copier \<Rightarrow> nat option \<Rightarrow> mem \<Rightarrow> nat option \<times> mem" where
  "ClusterNetworkList_DeepCopyInto mc src m = copy_items mem_nets put_nets (ClusterNetwork_DeepCopyInto mc) src m"

definition DanmEpList_DeepCopyInto :: "meta_copier \<Rightarrow> nat option \<Rightarrow> mem \<Rightarrow> nat option \<times> mem" where
  "DanmEpList_DeepCopyInto mc src m = copy_items mem_eps put_eps (DanmEp_DeepCopyInto mc) src m"

definition DanmNetList_DeepCopyInto :: "meta_copier \<Rightarrow> nat option \<Rightarrow> mem \<Rightarrow> nat option \<times> mem" where
  "DanmNetList_DeepCopyInto mc src m = copy_items mem_nets put_nets (DanmNet_DeepCopyInto mc) src m"

definition TenantConfigList_DeepCopyInto :: "meta_copier \<Rightarrow> nat option \<Rightarrow> mem \<Rightarrow> nat option \<times> mem" where
  "TenantConfigList_DeepCopyInto mc src m = copy_items mem_confs put_confs (TenantConfig_DeepCopyInto mc) src m"

definition TenantNetworkList_DeepCopyInto :: "meta_copier \<Rightarrow> nat option \<Rightarrow> mem \<Rightarrow> nat option \<times> mem" where
  "TenantNetworkList_DeepCopyInto mc src m = copy_items mem_nets put_nets (TenantNetwork_DeepCopyInto mc) src m"

definition NetworkAttachmentDefinition_DeepCopyInto :: "meta_copier \<Rightarrow> nad_obj \<Rightarrow> mem \<Rightarrow> nad_obj \<times> mem" where
  "NetworkAttachmentDefinition_DeepCopyInto mc src m =
     (let (meta, m1) = mc (na_Meta src) m in (src\<lparr>na_Meta := meta\<rparr>, m1))"

definition NetworkAttachmentDefinitionList_DeepCopyInto :: "meta_copier \<Rightarrow> nat option \<Rightarrow> mem \<Rightarrow> nat option \<times> mem" where
  "NetworkAttachmentDefinitionList_DeepCopyInto mc src m =
     copy_items mem_nads put_nads (NetworkAttachmentDefinition_DeepCopyInto mc) src m"

definition NetworkAttachmentDefinitionSpec_DeepCopyInto :: "string \<Rightarrow> mem \<Rightarrow> string \<times> mem" where
  "NetworkAttachmentDefinitionSpec_DeepCopyInto src m = (src, m)"

definition PciDevice_DeepCopyInto :: "PciDevice \<Rightarrow> mem \<Rightarrow> PciDevice \<times> mem" where
  "PciDevice_DeepCopyInto src m = (src, m)"

definition VdpaDevice_DeepCopyInto :: "VdpaDevice \<Rightarrow> mem \<Rightarrow> VdpaDevice \<times> mem" where
  "VdpaDevice_DeepCopyInto src m = (src, m)"

definition VhostDevice_DeepCopyInto :: "VhostDevice \<Rightarrow> mem \<Rightarrow> VhostDevice \<times> mem" where
  "VhostDevice_DeepCopyInto src m = (src, m)"

definition MemifDevice_DeepCopyInto :: "MemifDevice \<Rightarrow> mem \<Rightarrow> MemifDevice \<times> mem" where
  "MemifDevice_DeepCopyInto src m = (src, m)"

text \<open>A device is behind a pointer: \<^verbatim>\<open>new\<close> and an assignment, nothing for nil.\<close>

definition DeviceInfo_DeepCopyInto :: "device_obj \<Rightarrow> mem \<Rightarrow> device_obj \<times> mem" where
  "DeviceInfo_DeepCopyInto src m =
     (let (pci, m1) = copy_cell mem_pci put_pci (dev_Pci src) m;
          (vdpa, m2) = copy_cell mem_vdpa put_vdpa (dev_Vdpa src) m1;
          (vhost, m3) = copy_cell mem_vhost put_vhost (dev_VhostUser src) m2;
          (memif, m4) = copy_cell mem_memif put_memif (dev_Memif src) m3
      in (src\<lparr>dev_Pci := pci, dev_Vdpa := vdpa, dev_VhostUser := vhost, dev_Memif := memif\<rparr>, m4))"

text \<open>
  A list is its \<^verbatim>\<open>Items\<close>. The copies of whole objects, which \<^verbatim>\<open>DeepCopy\<close> returns by
  pointer, and which \<^verbatim>\<open>DeepCopyObject\<close> returns as \<^verbatim>\<open>runtime.Object\<close>s.
\<close>

datatype runtime_object =
    ObjDanmNet net_obj
  | ObjTenantNetwork net_obj
  | ObjClusterNetwork net_obj
  | ObjDanmEp ep_obj
  | ObjTenantConfig conf_obj
  | ObjDanmNetList "nat option"
  | ObjTenantNetworkList "nat option"
  | ObjClusterNetworkList "nat option"
  | ObjDanmEpList "nat option"
  | ObjTenantConfigList "nat option"
  | ObjNetworkAttachmentDefinition nad_obj
  | ObjNetworkAttachmentDefinitionList "nat option"

definition IpPool_DeepCopy :: "IpPool option \<Rightarrow> mem \<Rightarrow> IpPool option \<times> mem" where
  "IpPool_DeepCopy = new_copy IpPool_DeepCopyInto"

definition IpPoolV6_DeepCopy :: "IpPoolV6 option \<Rightarrow> mem \<Rightarrow> IpPoolV6 option \<times> mem" where
  "IpPoolV6_DeepCopy = new_copy IpPoolV6_DeepCopyInto"

definition IfaceProfile_DeepCopy :: "IfaceProfile option \<Rightarrow> mem \<Rightarrow> IfaceProfile option \<times> mem" where
  "IfaceProfile_DeepCopy = new_copy IfaceProfile_DeepCopyInto"

definition DanmNetOption_DeepCopy :: "option_obj option \<Rightarrow> mem \<Rightarrow> option_obj option \<times> mem" where
  "DanmNetOption_DeepCopy = new_copy DanmNetOption_DeepCopyInto"

definition DanmNetSpec_DeepCopy :: "spec_obj option \<Rightarrow> mem \<Rightarrow> spec_obj option \<times> mem" where
  "DanmNetSpec_DeepCopy = new_copy DanmNetSpec_DeepCopyInto"

definition DanmEpIface_DeepCopy :: "iface_obj option \<Rightarrow> mem \<Rightarrow> iface_obj option \<times> mem" where
  "DanmEpIface_DeepCopy = new_copy DanmEpIface_DeepCopyInto"

definition DanmEpSpec_DeepCopy :: "epspec_obj option \<Rightarrow> mem \<Rightarrow> epspec_obj option \<times> mem" where
  "DanmEpSpec_DeepCopy = new_copy DanmEpSpec_DeepCopyInto"

definition DanmNet_DeepCopy :: "meta_copier \<Rightarrow> net_obj option \<Rightarrow> mem \<Rightarrow> net_obj option \<times> mem" where
  "DanmNet_DeepCopy mc = new_copy (DanmNet_DeepCopyInto mc)"

definition DanmNet_DeepCopyObject :: "meta_copier \<Rightarrow> net_obj option \<Rightarrow> mem \<Rightarrow> runtime_object option \<times> mem" where
  "DanmNet_DeepCopyObject mc src m =
     (case DanmNet_DeepCopy mc src m of (Some c, m') \<Rightarrow> (Some (ObjDanmNet c), m') | (None, m') \<Rightarrow> (None, m'))"

definition DanmNetList_DeepCopy :: "meta_copier \<Rightarrow> nat option option \<Rightarrow> mem \<Rightarrow> nat option option \<times> mem" where
  "DanmNetList_DeepCopy mc = new_copy (DanmNetList_DeepCopyInto mc)"

definition DanmNetList_DeepCopyObject :: "meta_copier \<Rightarrow> nat option option \<Rightarrow> mem \<Rightarrow> runtime_object option \<times> mem" where
  "DanmNetList_DeepCopyObject mc src m =
     (case DanmNetList_DeepCopy mc src m of (Some c, m') \<Rightarrow> (Some (ObjDanmNetList c), m') | (None, m') \<Rightarrow> (None, m'))"

definition TenantNetwork_DeepCopy :: "meta_copier \<Rightarrow> net_obj option \<Rightarrow> mem \<Rightarrow> net_obj option \<times> mem" where
  "TenantNetwork_DeepCopy mc = new_copy (TenantNetwork_DeepCopyInto mc)"

definition TenantNetwork_DeepCopyObject :: "meta_copier \<Rightarrow> net_obj option \<Rightarrow> mem \<Rightarrow> runtime_object option \<times> mem" where
  "TenantNetwork_DeepCopyObject mc src m =
     (case TenantNetwork_DeepCopy mc src m of (Some c, m') \<Rightarrow> (Some (ObjTenantNetwork c), m') | (None, m') \<Rightarrow> (None, m'))"

definition TenantNetworkList_DeepCopy :: "meta_copier \<Rightarrow> nat option option \<Rightarrow> mem \<Rightarrow> nat option option \<times> mem" where
  "TenantNetworkList_DeepCopy mc = new_copy (TenantNetworkList_DeepCopyInto mc)"

definition TenantNetworkList_DeepCopyObject :: "meta_copier \<Rightarrow> nat option option \<Rightarrow> mem \<Rightarrow> runtime_object option \<times> mem" where
  "TenantNetworkList_DeepCopyObject mc src m =
     (case TenantNetworkList_DeepCopy mc src m of (Some c, m') \<Rightarrow> (Some (ObjTenantNetworkList c), m') | (None, m') \<Rightarrow> (None, m'))"

definition ClusterNetwork_DeepCopy :: "meta_copier \<Rightarrow> net_obj option \<Rightarrow> mem \<Rightarrow> net_obj option \<times> mem" where
  "ClusterNetwork_DeepCopy mc = new_copy (ClusterNetwork_DeepCopyInto mc)"

definition ClusterNetwork_DeepCopyObject :: "meta_copier \<Rightarrow> net_obj option \<Rightarrow> mem \<Rightarrow> runtime_object option \<times> mem" where
  "ClusterNetwork_DeepCopyObject mc src m =
     (case ClusterNetwork_DeepCopy mc src m of (Some c, m') \<Rightarrow> (Some (ObjClusterNetwork c), m') | (None, m') \<Rightarrow> (None, m'))"

definition ClusterNetworkList_DeepCopy :: "meta_copier \<Rightarrow> nat option option \<Rightarrow> mem \<Rightarrow> nat option option \<times> mem" where
  "ClusterNetworkList_DeepCopy mc = new_copy (ClusterNetworkList_DeepCopyInto mc)"

definition ClusterNetworkList_DeepCopyObject :: "meta_copier \<Rightarrow> nat option option \<Rightarrow> mem \<Rightarrow> runtime_object option \<times> mem" where
  "ClusterNetworkList_DeepCopyObject mc src m =
     (case ClusterNetworkList_DeepCopy mc src m of (Some c, m') \<Rightarrow> (Some (ObjClusterNetworkList c), m') | (None, m') \<Rightarrow> (None, m'))"

definition DanmEp_DeepCopy :: "meta_copier \<Rightarrow> ep_obj option \<Rightarrow> mem \<Rightarrow> ep_obj option \<times> mem" where
  "DanmEp_DeepCopy mc = new_copy (DanmEp_DeepCopyInto mc)"

definition DanmEp_DeepCopyObject :: "meta_copier \<Rightarrow> ep_obj option \<Rightarrow> mem \<Rightarrow> runtime_object option \<times> mem" where
  "DanmEp_DeepCopyObject mc src m =
     (case DanmEp_DeepCopy mc src m of (Some c, m') \<Rightarrow> (Some (ObjDanmEp c), m') | (None, m') \<Rightarrow> (None, m'))"

definition DanmEpList_DeepCopy :: "meta_copier \<Rightarrow> nat option option \<Rightarrow> mem \<Rightarrow> nat option option \<times> mem" where
  "DanmEpList_DeepCopy mc = new_copy (DanmEpList_DeepCopyInto mc)"

definition DanmEpList_DeepCopyObject :: "meta_copier \<Rightarrow> nat option option \<Rightarrow> mem \<Rightarrow> runtime_object option \<times> mem" where
  "DanmEpList_DeepCopyObject mc src m =
     (case DanmEpList_DeepCopy mc src m of (Some c, m') \<Rightarrow> (Some (ObjDanmEpList c), m') | (None, m') \<Rightarrow> (None, m'))"

definition TenantConfig_DeepCopy :: "meta_copier \<Rightarrow> conf_obj option \<Rightarrow> mem \<Rightarrow> conf_obj option \<times> mem" where
  "TenantConfig_DeepCopy mc = new_copy (TenantConfig_DeepCopyInto mc)"

definition TenantConfig_DeepCopyObject :: "meta_copier \<Rightarrow> conf_obj option \<Rightarrow> mem \<Rightarrow> runtime_object option \<times> mem" where
  "TenantConfig_DeepCopyObject mc src m =
     (case TenantConfig_DeepCopy mc src m of (Some c, m') \<Rightarrow> (Some (ObjTenantConfig c), m') | (None, m') \<Rightarrow> (None, m'))"

definition TenantConfigList_DeepCopy :: "meta_copier \<Rightarrow> nat option option \<Rightarrow> mem \<Rightarrow> nat option option \<times> mem" where
  "TenantConfigList_DeepCopy mc = new_copy (TenantConfigList_DeepCopyInto mc)"

definition TenantConfigList_DeepCopyObject :: "meta_copier \<Rightarrow> nat option option \<Rightarrow> mem \<Rightarrow> runtime_object option \<times> mem" where
  "TenantConfigList_DeepCopyObject mc src m =
     (case TenantConfigList_DeepCopy mc src m of (Some c, m') \<Rightarrow> (Some (ObjTenantConfigList c), m') | (None, m') \<Rightarrow> (None, m'))"

definition NetworkAttachmentDefinition_DeepCopy :: "meta_copier \<Rightarrow> nad_obj option \<Rightarrow> mem \<Rightarrow> nad_obj option \<times> mem" where
  "NetworkAttachmentDefinition_DeepCopy mc = new_copy (NetworkAttachmentDefinition_DeepCopyInto mc)"

definition NetworkAttachmentDefinition_DeepCopyObject :: "meta_copier \<Rightarrow> nad_obj option \<Rightarrow> mem \<Rightarrow> runtime_object option \<times> mem" where
  "NetworkAttachmentDefinition_DeepCopyObject mc src m =
     (case NetworkAttachmentDefinition_DeepCopy mc src m of
        (Some c, m') \<Rightarrow> (Some (ObjNetworkAttachmentDefinition c), m')
      | (None, m') \<Rightarrow> (None, m'))"

definition NetworkAttachmentDefinitionList_DeepCopy :: "meta_copier \<Rightarrow> nat option option \<Rightarrow> mem \<Rightarrow> nat option option \<times> mem" where
  "NetworkAttachmentDefinitionList_DeepCopy mc = new_copy (NetworkAttachmentDefinitionList_DeepCopyInto mc)"

definition NetworkAttachmentDefinitionList_DeepCopyObject :: "meta_copier \<Rightarrow> nat option option \<Rightarrow> mem \<Rightarrow> runtime_object option \<times> mem" where
  "NetworkAttachmentDefinitionList_DeepCopyObject mc src m =
     (case NetworkAttachmentDefinitionList_DeepCopy mc src m of
        (Some c, m') \<Rightarrow> (Some (ObjNetworkAttachmentDefinitionList c), m')
      | (None, m') \<Rightarrow> (None, m'))"

definition NetworkAttachmentDefinitionSpec_DeepCopy :: "string option \<Rightarrow> mem \<Rightarrow> string option \<times> mem" where
  "NetworkAttachmentDefinitionSpec_DeepCopy = new_copy NetworkAttachmentDefinitionSpec_DeepCopyInto"

definition DeviceInfo_DeepCopy :: "device_obj option \<Rightarrow> mem \<Rightarrow> device_obj option \<times> mem" where
  "DeviceInfo_DeepCopy = new_copy DeviceInfo_DeepCopyInto"

definition PciDevice_DeepCopy :: "PciDevice option \<Rightarrow> mem \<Rightarrow> PciDevice option \<times> mem" where
  "PciDevice_DeepCopy = new_copy PciDevice_DeepCopyInto"

definition VdpaDevice_DeepCopy :: "VdpaDevice option \<Rightarrow> mem \<Rightarrow> VdpaDevice option \<times> mem" where
  "VdpaDevice_DeepCopy = new_copy VdpaDevice_DeepCopyInto"

definition VhostDevice_DeepCopy :: "VhostDevice option \<Rightarrow> mem \<Rightarrow> VhostDevice option \<times> mem" where
  "VhostDevice_DeepCopy = new_copy VhostDevice_DeepCopyInto"

definition MemifDevice_DeepCopy :: "MemifDevice option \<Rightarrow> mem \<Rightarrow> MemifDevice option \<times> mem" where
  "MemifDevice_DeepCopy = new_copy MemifDevice_DeepCopyInto"

end
