(* ===== verification/DeepCopyProps.thy ===== *)
theory DeepCopyProps
  imports DeepCopy
begin

text \<open>
  What a deep copy is: equal to the original, and made of memory nobody else has. The contract is
  the locale \<open>deep_copier\<close>; it is built up from maps and slices (\<open>cell\<close>, \<open>slice\<close>) through pairs and
  structs, and every generated copy of an API object is an instance.
\<close>

section \<open>Memory that stays as it is\<close>

definition agree :: "nat set \<Rightarrow> mem \<Rightarrow> mem \<Rightarrow> bool" where
  "agree A m m' \<longleftrightarrow> (\<forall>a \<in> A. mem_maps m' a = mem_maps m a \<and> mem_strings m' a = mem_strings m a \<and>
     mem_profiles m' a = mem_profiles m a \<and> mem_nets m' a = mem_nets m a \<and> mem_eps m' a = mem_eps m a \<and>
     mem_confs m' a = mem_confs m a \<and> mem_nads m' a = mem_nads m a \<and> mem_pci m' a = mem_pci m a \<and>
     mem_vdpa m' a = mem_vdpa m a \<and> mem_vhost m' a = mem_vhost m a \<and> mem_memif m' a = mem_memif m a)"

definition extended :: "mem \<Rightarrow> mem \<Rightarrow> bool" where
  "extended m m' \<longleftrightarrow> mem_next m \<le> mem_next m' \<and> agree {..<mem_next m} m m'"

lemma agree_mono: "agree B m m' \<Longrightarrow> A \<subseteq> B \<Longrightarrow> agree A m m'"
  by (auto simp: agree_def)

lemma agree_trans: "agree A m m' \<Longrightarrow> agree A m' m'' \<Longrightarrow> agree A m m''"
  by (simp add: agree_def)

lemma agree_next [simp]: "agree A m (m\<lparr>mem_next := n\<rparr>)"
  by (simp add: agree_def)

lemma extended_refl [simp]: "extended m m"
  by (simp add: extended_def agree_def)

lemma extended_trans: "extended m m' \<Longrightarrow> extended m' m'' \<Longrightarrow> extended m m''"
  unfolding extended_def by (auto intro: agree_trans agree_mono)

lemma extended_agree: "extended m m' \<Longrightarrow> A \<subseteq> {..<mem_next m} \<Longrightarrow> agree A m m'"
  by (auto simp: extended_def intro: agree_mono)

section \<open>Deep copies\<close>

text \<open>
  \<open>val m x\<close> is the value \<open>x\<close> stands for in the memory \<open>m\<close>, \<open>refs m x\<close> the addresses it is made of.
\<close>

locale deep_copier =
  fixes into :: "'a \<Rightarrow> mem \<Rightarrow> 'a \<times> mem"
    and val :: "mem \<Rightarrow> 'a \<Rightarrow> 'v"
    and refs :: "mem \<Rightarrow> 'a \<Rightarrow> nat set"
  assumes frame: "agree (refs m x) m m' \<Longrightarrow> val m' x = val m x \<and> refs m' x = refs m x"
    and copies: "into x m = (y, m') \<Longrightarrow> refs m x \<subseteq> {..<mem_next m} \<Longrightarrow>
      extended m m' \<and> val m' y = val m x \<and> refs m' y \<subseteq> {mem_next m..<mem_next m'}"
begin

lemma original_kept:
  assumes "extended m m'" and "refs m x \<subseteq> {..<mem_next m}"
  shows "val m' x = val m x" "refs m' x = refs m x"
  using frame extended_agree [OF assms] by blast+

text \<open>Whatever is written to the memory of the copy, the original keeps its value.\<close>

lemma independent:
  assumes "into x m = (y, m')" and "refs m x \<subseteq> {..<mem_next m}" and "agree (- refs m' y) m' m''"
  shows "val m' y = val m x \<and> val m'' x = val m x"
proof -
  from copies [OF assms(1,2)] have c: "extended m m'" "val m' y = val m x" "refs m' y \<subseteq> {mem_next m..<mem_next m'}"
    by auto
  have kept: "val m' x = val m x" "refs m' x = refs m x" by (rule original_kept [OF c(1) assms(2)])+
  have "refs m' x \<subseteq> - refs m' y" using c(3) assms(2) kept(2) by force
  from frame [OF agree_mono [OF assms(3) this]] kept c(2) show ?thesis by simp
qed

text \<open>A copy stays what it is while more copies are made.\<close>

lemma copy_kept:
  assumes "into x m = (y, m')" and "refs m x \<subseteq> {..<mem_next m}" and "extended m' m''"
  shows "extended m m''" "val m'' y = val m x" "refs m'' y \<subseteq> {mem_next m..<mem_next m''}"
proof -
  from copies [OF assms(1,2)] have c: "extended m m'" "val m' y = val m x" "refs m' y \<subseteq> {mem_next m..<mem_next m'}"
    by auto
  have "refs m' y \<subseteq> {..<mem_next m'}" using c(3) by auto
  note k = original_kept [OF assms(3) this]
  show "extended m m''" by (rule extended_trans [OF c(1) assms(3)])
  show "val m'' y = val m x" using k(1) c(2) by simp
  have "mem_next m' \<le> mem_next m''" using assms(3) by (simp add: extended_def)
  then show "refs m'' y \<subseteq> {mem_next m..<mem_next m''}" using k(2) c(3) by fastforce
qed

end

text \<open>Values without addresses, pairs, lists, and structs with parts that are copied.\<close>

lemma flat_copier: "deep_copier (\<lambda>x m. (x, m)) (\<lambda>m x. v x) (\<lambda>m x. {})"
  by unfold_locales auto

lemma pair_copier:
  assumes f: "deep_copier f v r" and g: "deep_copier g u s"
  shows "deep_copier (\<lambda>(x, y) m. let (x', m1) = f x m; (y', m2) = g y m1 in ((x', y'), m2))
    (\<lambda>m (x, y). (v m x, u m y)) (\<lambda>m (x, y). r m x \<union> s m y)"
proof (unfold_locales, goal_cases)
  case (1 m p m')
  then show ?case
    using deep_copier.frame [OF f agree_mono [OF 1]] deep_copier.frame [OF g agree_mono [OF 1]] by (cases p) auto
next
  case (2 p m q m')
  obtain x y where p: "p = (x, y)" by (cases p)
  obtain x' m1 where x': "f x m = (x', m1)" by (cases "f x m")
  obtain y' m2 where y': "g y m1 = (y', m2)" by (cases "g y m1")
  have q: "q = (x', y')" "m' = m2" using 2(1) p x' y' by auto
  have r: "r m x \<subseteq> {..<mem_next m}" "s m y \<subseteq> {..<mem_next m}" using 2(2) p by auto
  have extended1: "extended m m1" using deep_copier.copies [OF f x' r(1)] by simp
  note orig = deep_copier.original_kept [OF g extended1 r(2)]
  have r1: "s m1 y \<subseteq> {..<mem_next m1}" using orig(2) r(2) extended1 by (auto simp: extended_def)
  note y = deep_copier.copies [OF g y' r1]
  note x = deep_copier.copy_kept [OF f x' r(1) conjunct1 [OF y]]
  have "s m2 y' \<subseteq> {mem_next m..<mem_next m2}" using y extended1 by (auto simp: extended_def)
  with x y orig(1) q p show ?case by simp
qed

lemma via_copier:
  assumes "deep_copier f v r" and "\<And>x p. part (put x p) = p" and "\<And>x p q. V (put x p) q = V x q"
  shows "deep_copier (\<lambda>x m. let (p, m') = f (part x) m in (put x p, m')) (\<lambda>m x. V x (v m (part x))) (\<lambda>m x. r m (part x))"
proof (unfold_locales, goal_cases)
  case (1 m x m')
  then show ?case using deep_copier.frame [OF assms(1)] by simp
next
  case (2 x m y m')
  obtain p m1 where p: "f (part x) m = (p, m1)" by (cases "f (part x) m")
  then have "y = put x p" "m' = m1" using 2(1) by auto
  with deep_copier.copies [OF assms(1) p 2(2)] show ?case by (simp add: assms(2,3))
qed

lemma all_copier:
  assumes f: "deep_copier f v r"
  shows "deep_copier (copy_all f) (\<lambda>m. map (v m)) (\<lambda>m xs. \<Union>(r m ` set xs))"
proof (unfold_locales, goal_cases)
  case (1 m xs m')
  have "v m' x = v m x \<and> r m' x = r m x" if "x \<in> set xs" for x
    using that by (intro deep_copier.frame [OF f] agree_mono [OF 1]) auto
  then show ?case by (simp cong: map_cong SUP_cong)
next
  case (2 xs m ys m')
  then show ?case
  proof (induction xs arbitrary: m ys)
    case Nil
    then show ?case by simp
  next
    case (Cons x xs)
    obtain x' m1 where x': "f x m = (x', m1)" by (cases "f x m")
    obtain zs m2 where zs: "copy_all f xs m1 = (zs, m2)" by (cases "copy_all f xs m1")
    have q: "ys = x' # zs" "m' = m2" using Cons.prems(1) x' zs by auto
    have r: "r m x \<subseteq> {..<mem_next m}" and rs: "\<And>y. y \<in> set xs \<Longrightarrow> r m y \<subseteq> {..<mem_next m}" using Cons.prems(2) by auto
    have extended1: "extended m m1" using deep_copier.copies [OF f x' r] by simp
    note orig = deep_copier.original_kept [OF f extended1 rs]
    have "\<Union>(r m1 ` set xs) \<subseteq> {..<mem_next m1}" using orig(2) rs extended1 by (fastforce simp: extended_def)
    then have zs': "extended m1 m2" "map (v m2) zs = map (v m1) xs" "\<Union>(r m2 ` set zs) \<subseteq> {mem_next m1..<mem_next m2}"
      using Cons.IH [of m1 zs] zs q(2) by auto
    note x = deep_copier.copy_kept [OF f x' r zs'(1)]
    have "map (v m1) xs = map (v m) xs" using orig(1) by simp
    moreover have "\<Union>(r m2 ` set zs) \<subseteq> {mem_next m..<mem_next m2}" using zs'(3) extended1 by (force simp: extended_def)
    ultimately show ?case using x zs' q by simp
  qed
qed

section \<open>Maps and slices\<close>

locale cell =
  fixes get :: "mem \<Rightarrow> nat \<Rightarrow> 'a" and put :: "nat \<Rightarrow> 'a \<Rightarrow> mem \<Rightarrow> mem"
  assumes get_put: "get (put a x m) = (get m)(a := x)"
    and put_next: "mem_next (put a x m) = mem_next m"
    and put_agree: "a \<notin> A \<Longrightarrow> agree A m (put a x m)"
    and get_agree: "agree A m m' \<Longrightarrow> a \<in> A \<Longrightarrow> get m' a = get m a"
begin

lemma get_next: "get (m\<lparr>mem_next := n\<rparr>) a = get m a"
  by (rule get_agree [of UNIV]) simp_all

lemma cell_copier: "deep_copier (copy_cell get put) (\<lambda>m. map_option (get m)) (\<lambda>m. set_option)"
proof (unfold_locales, goal_cases)
  case (1 m x m')
  then show ?case using get_agree by (cases x) auto
next
  case (2 x m y m')
  show ?case
  proof (cases x)
    case None
    with 2 show ?thesis by (simp add: copy_cell_def)
  next
    case (Some a)
    with 2 have "y = Some (mem_next m)"
      "m' = put (mem_next m) (get m a) (m\<lparr>mem_next := mem_next m + 1\<rparr>)" by (auto simp: copy_cell_def)
    moreover have "agree {..<mem_next m} m (put (mem_next m) (get m a) (m\<lparr>mem_next := mem_next m + 1\<rparr>))"
      by (rule agree_trans [OF agree_next put_agree]) simp
    ultimately show ?thesis using Some by (simp add: get_put put_next extended_def)
  qed
qed

end

locale slice = cell get put for get :: "mem \<Rightarrow> nat \<Rightarrow> 'a list" and put
begin

lemma items_copier:
  assumes f: "deep_copier f v r"
  shows "deep_copier (copy_items get put f) (\<lambda>m. map_option (\<lambda>a. map (v m) (get m a)))
    (\<lambda>m x. case x of None \<Rightarrow> {} | Some a \<Rightarrow> insert a (\<Union>(r m ` set (get m a))))"
proof (unfold_locales, goal_cases)
  case (1 m x m')
  show ?case
  proof (cases x)
    case (Some a)
    with 1 have g: "get m' a = get m a" using get_agree by auto
    have "agree (\<Union>(r m ` set (get m a))) m m'" using 1 Some by (auto intro: agree_mono)
    from deep_copier.frame [OF all_copier [OF f] this] Some g show ?thesis by simp
  qed simp
next
  case (2 x m y m')
  show ?case
  proof (cases x)
    case None
    with 2 show ?thesis by (simp add: copy_items_def)
  next
    case (Some a)
    let ?m = "m\<lparr>mem_next := mem_next m + 1\<rparr>" and ?b = "mem_next m"
    obtain ys m1 where ys: "copy_all f (get m a) ?m = (ys, m1)" by (cases "copy_all f (get m a) ?m")
    with 2 Some have y: "y = Some ?b" "m' = put ?b ys m1" by (auto simp: copy_items_def)
    have refs: "\<Union>(r m ` set (get m a)) \<subseteq> {..<mem_next m}" using 2(2) Some by auto
    have step: "extended m ?m" by (simp add: extended_def)
    note orig = deep_copier.original_kept [OF all_copier [OF f] step refs]
    have "\<Union>(r ?m ` set (get m a)) \<subseteq> {..<mem_next ?m}"
      unfolding orig(2) by (rule subset_trans [OF refs]) auto
    note c = deep_copier.copies [OF all_copier [OF f] ys this]
    then have le: "mem_next m + 1 \<le> mem_next m1" by (simp add: extended_def)
    have "?b \<notin> \<Union>(r m1 ` set ys)" using c by auto
    then have rest: "agree (\<Union>(r m1 ` set ys)) m1 m'" unfolding y(2) by (rule put_agree)
    note kept = deep_copier.frame [OF all_copier [OF f] rest]
    from c have "agree {..<mem_next ?m} ?m m1" by (simp add: extended_def)
    then have "agree {..<mem_next m} ?m m1" by (rule agree_mono) auto
    then have "agree {..<mem_next m} m m1" by (rule agree_trans [OF agree_next])
    then have "agree {..<mem_next m} m m'" unfolding y(2) by (rule agree_trans) (rule put_agree, simp)
    then have extended: "extended m m'" using le y(2) by (simp add: extended_def put_next)
    have "\<Union>(r m' ` set ys) \<subseteq> {mem_next ?m..<mem_next m1}" using kept c by (simp only:)
    then have "insert ?b (\<Union>(r m' ` set ys)) \<subseteq> {mem_next m..<mem_next m'}" using le y(2) by (auto simp: put_next)
    moreover have "map (v m') ys = map (v m) (get m a)" using kept c orig(1) by (simp only:)
    moreover have "get m' ?b = ys" using y(2) by (simp add: get_put)
    ultimately show ?thesis using extended Some y(1) by simp
  qed
qed

end

interpretation maps: cell mem_maps put_map
  by unfold_locales (auto simp: put_map_def agree_def)

interpretation strings: cell mem_strings put_strings
  by unfold_locales (auto simp: put_strings_def agree_def)

interpretation profiles: cell mem_profiles put_profiles
  by unfold_locales (auto simp: put_profiles_def agree_def)

interpretation nets: slice mem_nets put_nets
  by unfold_locales (auto simp: put_nets_def agree_def)

interpretation eps: slice mem_eps put_eps
  by unfold_locales (auto simp: put_eps_def agree_def)

interpretation confs: slice mem_confs put_confs
  by unfold_locales (auto simp: put_confs_def agree_def)

interpretation nads: slice mem_nads put_nads
  by unfold_locales (auto simp: put_nads_def agree_def)

interpretation pci: cell mem_pci put_pci
  by unfold_locales (auto simp: put_pci_def agree_def)

interpretation vdpa: cell mem_vdpa put_vdpa
  by unfold_locales (auto simp: put_vdpa_def agree_def)

interpretation vhost: cell mem_vhost put_vhost
  by unfold_locales (auto simp: put_vhost_def agree_def)

interpretation memif: cell mem_memif put_memif
  by unfold_locales (auto simp: put_memif_def agree_def)

section \<open>The generated copies\<close>

text \<open>What the objects in memory stand for, and the addresses they are made of.\<close>

definition val_meta :: "mem \<Rightarrow> meta_obj \<Rightarrow> ObjectMeta" where
  "val_meta m x = (mo_flat x)\<lparr>mt_Labels := (case map_option (mem_maps m) (mo_Labels x) of None \<Rightarrow> [] | Some l \<Rightarrow> l)\<rparr>"

definition refs_meta :: "mem \<Rightarrow> meta_obj \<Rightarrow> nat set" where
  "refs_meta m x = set_option (mo_Labels x)"

definition val_option :: "mem \<Rightarrow> option_obj \<Rightarrow> DanmNetOption" where
  "val_option m x = (oo_flat x)\<lparr>Routes := map_option (mem_maps m) (oo_Routes x),
     Routes6 := map_option (mem_maps m) (oo_Routes6 x)\<rparr>"

definition refs_option :: "mem \<Rightarrow> option_obj \<Rightarrow> nat set" where
  "refs_option m x = set_option (oo_Routes x) \<union> set_option (oo_Routes6 x)"

definition val_spec :: "mem \<Rightarrow> spec_obj \<Rightarrow> DanmNetSpec" where
  "val_spec m x = (so_flat x)\<lparr>AllowedTenants := map_option (mem_strings m) (so_AllowedTenants x),
     Options := val_option m (so_Options x)\<rparr>"

definition refs_spec :: "mem \<Rightarrow> spec_obj \<Rightarrow> nat set" where
  "refs_spec m x = set_option (so_AllowedTenants x) \<union> refs_option m (so_Options x)"

definition val_net :: "mem \<Rightarrow> net_obj \<Rightarrow> DanmNet" where
  "val_net m x = \<lparr>dn_Kind = no_Kind x, dn_Meta = val_meta m (no_Meta x), dn_Spec = val_spec m (no_Spec x)\<rparr>"

definition refs_net :: "mem \<Rightarrow> net_obj \<Rightarrow> nat set" where
  "refs_net m x = refs_meta m (no_Meta x) \<union> refs_spec m (no_Spec x)"

definition val_iface :: "mem \<Rightarrow> iface_obj \<Rightarrow> DanmEpIface" where
  "val_iface m x = (io_flat x)\<lparr>if_Proutes := map_option (mem_maps m) (io_Proutes x),
     if_Proutes6 := map_option (mem_maps m) (io_Proutes6 x)\<rparr>"

definition refs_iface :: "mem \<Rightarrow> iface_obj \<Rightarrow> nat set" where
  "refs_iface m x = set_option (io_Proutes x) \<union> set_option (io_Proutes6 x)"

definition val_epspec :: "mem \<Rightarrow> epspec_obj \<Rightarrow> DanmEpSpec" where
  "val_epspec m x = (eo_flat x)\<lparr>ep_Iface := val_iface m (eo_Iface x)\<rparr>"

definition refs_epspec :: "mem \<Rightarrow> epspec_obj \<Rightarrow> nat set" where
  "refs_epspec m x = refs_iface m (eo_Iface x)"

definition val_ep :: "mem \<Rightarrow> ep_obj \<Rightarrow> DanmEp" where
  "val_ep m x = \<lparr>ep_Kind = po_Kind x, ep_Meta = val_meta m (po_Meta x), ep_Spec = val_epspec m (po_Spec x)\<rparr>"

definition refs_ep :: "mem \<Rightarrow> ep_obj \<Rightarrow> nat set" where
  "refs_ep m x = refs_meta m (po_Meta x) \<union> refs_epspec m (po_Spec x)"

definition val_conf :: "mem \<Rightarrow> conf_obj \<Rightarrow> TenantConfig" where
  "val_conf m x = \<lparr>tc_Kind = co_Kind x, tc_Meta = val_meta m (co_Meta x),
     HostDevices = (case map_option (mem_profiles m) (co_HostDevices x) of None \<Rightarrow> [] | Some l \<Rightarrow> l),
     NetworkIds = (case map_option (mem_maps m) (co_NetworkIds x) of None \<Rightarrow> [] | Some l \<Rightarrow> l)\<rparr>"

definition refs_conf :: "mem \<Rightarrow> conf_obj \<Rightarrow> nat set" where
  "refs_conf m x = refs_meta m (co_Meta x) \<union> (set_option (co_HostDevices x) \<union> set_option (co_NetworkIds x))"

definition val_nad :: "mem \<Rightarrow> nad_obj \<Rightarrow> string \<times> ObjectMeta \<times> string" where
  "val_nad m x = (na_Kind x, val_meta m (na_Meta x), na_Config x)"

definition refs_nad :: "mem \<Rightarrow> nad_obj \<Rightarrow> nat set" where
  "refs_nad m x = refs_meta m (na_Meta x)"

definition val_device ::
  "mem \<Rightarrow> device_obj \<Rightarrow> string \<times> string \<times> PciDevice option \<times> VdpaDevice option \<times> VhostDevice option \<times> MemifDevice option" where
  "val_device m x = (dev_Type x, dev_Version x, map_option (mem_pci m) (dev_Pci x), map_option (mem_vdpa m) (dev_Vdpa x),
     map_option (mem_vhost m) (dev_VhostUser x), map_option (mem_memif m) (dev_Memif x))"

definition refs_device :: "mem \<Rightarrow> device_obj \<Rightarrow> nat set" where
  "refs_device m x = set_option (dev_Pci x) \<union> (set_option (dev_Vdpa x) \<union>
     (set_option (dev_VhostUser x) \<union> set_option (dev_Memif x)))"

definition val_items :: "(mem \<Rightarrow> nat \<Rightarrow> 'a list) \<Rightarrow> (mem \<Rightarrow> 'a \<Rightarrow> 'v) \<Rightarrow> mem \<Rightarrow> nat option \<Rightarrow> 'v list option" where
  "val_items get v m = map_option (\<lambda>a. map (v m) (get m a))"

definition refs_items :: "(mem \<Rightarrow> nat \<Rightarrow> 'a list) \<Rightarrow> (mem \<Rightarrow> 'a \<Rightarrow> nat set) \<Rightarrow> mem \<Rightarrow> nat option \<Rightarrow> nat set" where
  "refs_items get r m x = (case x of None \<Rightarrow> {} | Some a \<Rightarrow> insert a (\<Union>(r m ` set (get m a))))"

text \<open>Each copy is a pair of copies stored back in a struct.\<close>

lemma copier_by:
  assumes "deep_copier f v r" and "\<And>x p. part (put x p) = p" and "\<And>x p q. V (put x p) q = V x q"
    and "\<And>x m. into x m = (let (p, m') = f (part x) m in (put x p, m'))"
    and "\<And>m x. val m x = V x (v m (part x))" and "\<And>m x. refs m x = r m (part x)"
  shows "deep_copier into val refs"
proof -
  have "into = (\<lambda>x m. let (p, m') = f (part x) m in (put x p, m'))" "val = (\<lambda>m x. V x (v m (part x)))"
    "refs = (\<lambda>m x. r m (part x))" by (auto simp: fun_eq_iff assms(4-6))
  moreover have "deep_copier (\<lambda>x m. let (p, m') = f (part x) m in (put x p, m'))
      (\<lambda>m x. V x (v m (part x))) (\<lambda>m x. r m (part x))"
    by (rule via_copier) (fact assms(1-3))+
  ultimately show ?thesis by (simp only:)
qed

lemmas map_copier = maps.cell_copier [folded copy_map_def]
lemmas strings_copier = strings.cell_copier [folded copy_strings_def]
lemmas profiles_copier = profiles.cell_copier [folded copy_profiles_def]

interpretation option_copy: deep_copier DanmNetOption_DeepCopyInto val_option refs_option
  by (rule copier_by [OF pair_copier [OF map_copier map_copier],
        where part = "\<lambda>x. (oo_Routes x, oo_Routes6 x)" and put = "\<lambda>x (a, b). x\<lparr>oo_Routes := a, oo_Routes6 := b\<rparr>"
          and V = "\<lambda>x (a, b). (oo_flat x)\<lparr>Routes := a, Routes6 := b\<rparr>"])
    (auto simp: DanmNetOption_DeepCopyInto_def val_option_def refs_option_def split: prod.split)

interpretation spec_copy: deep_copier DanmNetSpec_DeepCopyInto val_spec refs_spec
  by (rule copier_by [OF pair_copier [OF strings_copier option_copy.deep_copier_axioms],
        where part = "\<lambda>x. (so_AllowedTenants x, so_Options x)"
          and put = "\<lambda>x (a, b). x\<lparr>so_AllowedTenants := a, so_Options := b\<rparr>"
          and V = "\<lambda>x (a, b). (so_flat x)\<lparr>AllowedTenants := a, Options := b\<rparr>"])
    (auto simp: DanmNetSpec_DeepCopyInto_def val_spec_def refs_spec_def split: prod.split)

interpretation iface_copy: deep_copier DanmEpIface_DeepCopyInto val_iface refs_iface
  by (rule copier_by [OF pair_copier [OF map_copier map_copier],
        where part = "\<lambda>x. (io_Proutes x, io_Proutes6 x)" and put = "\<lambda>x (a, b). x\<lparr>io_Proutes := a, io_Proutes6 := b\<rparr>"
          and V = "\<lambda>x (a, b). (io_flat x)\<lparr>if_Proutes := a, if_Proutes6 := b\<rparr>"])
    (auto simp: DanmEpIface_DeepCopyInto_def val_iface_def refs_iface_def split: prod.split)

interpretation epspec_copy: deep_copier DanmEpSpec_DeepCopyInto val_epspec refs_epspec
  by (rule copier_by [OF iface_copy.deep_copier_axioms,
        where part = eo_Iface and put = "\<lambda>x a. x\<lparr>eo_Iface := a\<rparr>" and V = "\<lambda>x a. (eo_flat x)\<lparr>ep_Iface := a\<rparr>"])
    (auto simp: DanmEpSpec_DeepCopyInto_def val_epspec_def refs_epspec_def split: prod.split)

lemma net_copier:
  assumes "deep_copier mc val_meta refs_meta"
  shows "deep_copier (DanmNet_DeepCopyInto mc) val_net refs_net"
  by (rule copier_by [OF pair_copier [OF assms spec_copy.deep_copier_axioms],
        where part = "\<lambda>x. (no_Meta x, no_Spec x)" and put = "\<lambda>x (a, b). x\<lparr>no_Meta := a, no_Spec := b\<rparr>"
          and V = "\<lambda>x (a, b). \<lparr>dn_Kind = no_Kind x, dn_Meta = a, dn_Spec = b\<rparr>"])
    (auto simp: DanmNet_DeepCopyInto_def val_net_def refs_net_def split: prod.split)

lemma same_net_copies:
  "TenantNetwork_DeepCopyInto = DanmNet_DeepCopyInto" "ClusterNetwork_DeepCopyInto = DanmNet_DeepCopyInto"
  by (simp_all add: fun_eq_iff DanmNet_DeepCopyInto_def TenantNetwork_DeepCopyInto_def ClusterNetwork_DeepCopyInto_def)

lemma ep_copier:
  assumes "deep_copier mc val_meta refs_meta"
  shows "deep_copier (DanmEp_DeepCopyInto mc) val_ep refs_ep"
  by (rule copier_by [OF pair_copier [OF assms epspec_copy.deep_copier_axioms],
        where part = "\<lambda>x. (po_Meta x, po_Spec x)" and put = "\<lambda>x (a, b). x\<lparr>po_Meta := a, po_Spec := b\<rparr>"
          and V = "\<lambda>x (a, b). \<lparr>ep_Kind = po_Kind x, ep_Meta = a, ep_Spec = b\<rparr>"])
    (auto simp: DanmEp_DeepCopyInto_def val_ep_def refs_ep_def split: prod.split)

lemma conf_copier:
  assumes "deep_copier mc val_meta refs_meta"
  shows "deep_copier (TenantConfig_DeepCopyInto mc) val_conf refs_conf"
  by (rule copier_by [OF pair_copier [OF assms pair_copier [OF profiles_copier map_copier]],
        where part = "\<lambda>x. (co_Meta x, co_HostDevices x, co_NetworkIds x)"
          and put = "\<lambda>x (a, b, c). x\<lparr>co_Meta := a, co_HostDevices := b, co_NetworkIds := c\<rparr>"
          and V = "\<lambda>x (a, b, c). \<lparr>tc_Kind = co_Kind x, tc_Meta = a,
            HostDevices = (case b of None \<Rightarrow> [] | Some l \<Rightarrow> l), NetworkIds = (case c of None \<Rightarrow> [] | Some l \<Rightarrow> l)\<rparr>"])
    (auto simp: TenantConfig_DeepCopyInto_def val_conf_def refs_conf_def split: prod.split)

lemma nad_copier:
  assumes "deep_copier mc val_meta refs_meta"
  shows "deep_copier (NetworkAttachmentDefinition_DeepCopyInto mc) val_nad refs_nad"
  by (rule copier_by [OF assms, where part = na_Meta and put = "\<lambda>x a. x\<lparr>na_Meta := a\<rparr>"
          and V = "\<lambda>x a. (na_Kind x, a, na_Config x)"])
    (auto simp: NetworkAttachmentDefinition_DeepCopyInto_def val_nad_def refs_nad_def split: prod.split)

text \<open>The device of a network status is no API object; its copy is deep as well.\<close>

interpretation device_copy: deep_copier DeviceInfo_DeepCopyInto val_device refs_device
  by (rule copier_by [OF pair_copier [OF pci.cell_copier pair_copier [OF vdpa.cell_copier
          pair_copier [OF vhost.cell_copier memif.cell_copier]]],
        where part = "\<lambda>x. (dev_Pci x, dev_Vdpa x, dev_VhostUser x, dev_Memif x)"
          and put = "\<lambda>x (a, b, c, d). x\<lparr>dev_Pci := a, dev_Vdpa := b, dev_VhostUser := c, dev_Memif := d\<rparr>"
          and V = "\<lambda>x (a, b, c, d). (dev_Type x, dev_Version x, a, b, c, d)"])
    (auto simp: DeviceInfo_DeepCopyInto_def val_device_def refs_device_def split: prod.split)

section \<open>Every API object\<close>

text \<open>The method \<^verbatim>\<open>DeepCopyObject\<close> of a \<^verbatim>\<open>runtime.Object\<close>, by its dynamic type.\<close>

definition returned :: "runtime_object \<Rightarrow> runtime_object option \<times> mem \<Rightarrow> runtime_object \<times> mem" where
  "returned x r = (case fst r of None \<Rightarrow> x | Some y \<Rightarrow> y, snd r)"

fun object_copy :: "meta_copier \<Rightarrow> runtime_object \<Rightarrow> mem \<Rightarrow> runtime_object \<times> mem" where
  "object_copy mc (ObjDanmNet x) m = returned (ObjDanmNet x) (DanmNet_DeepCopyObject mc (Some x) m)"
| "object_copy mc (ObjTenantNetwork x) m = returned (ObjTenantNetwork x) (TenantNetwork_DeepCopyObject mc (Some x) m)"
| "object_copy mc (ObjClusterNetwork x) m = returned (ObjClusterNetwork x) (ClusterNetwork_DeepCopyObject mc (Some x) m)"
| "object_copy mc (ObjDanmEp x) m = returned (ObjDanmEp x) (DanmEp_DeepCopyObject mc (Some x) m)"
| "object_copy mc (ObjTenantConfig x) m = returned (ObjTenantConfig x) (TenantConfig_DeepCopyObject mc (Some x) m)"
| "object_copy mc (ObjDanmNetList x) m = returned (ObjDanmNetList x) (DanmNetList_DeepCopyObject mc (Some x) m)"
| "object_copy mc (ObjTenantNetworkList x) m = returned (ObjTenantNetworkList x) (TenantNetworkList_DeepCopyObject mc (Some x) m)"
| "object_copy mc (ObjClusterNetworkList x) m = returned (ObjClusterNetworkList x) (ClusterNetworkList_DeepCopyObject mc (Some x) m)"
| "object_copy mc (ObjDanmEpList x) m = returned (ObjDanmEpList x) (DanmEpList_DeepCopyObject mc (Some x) m)"
| "object_copy mc (ObjTenantConfigList x) m = returned (ObjTenantConfigList x) (TenantConfigList_DeepCopyObject mc (Some x) m)"
| "object_copy mc (ObjNetworkAttachmentDefinition x) m =
     returned (ObjNetworkAttachmentDefinition x) (NetworkAttachmentDefinition_DeepCopyObject mc (Some x) m)"
| "object_copy mc (ObjNetworkAttachmentDefinitionList x) m =
     returned (ObjNetworkAttachmentDefinitionList x) (NetworkAttachmentDefinitionList_DeepCopyObject mc (Some x) m)"

datatype object_value =
    IsDanmNet DanmNet | IsTenantNetwork DanmNet | IsClusterNetwork DanmNet | IsDanmEp DanmEp | IsTenantConfig TenantConfig
  | IsDanmNetList "DanmNet list option" | IsTenantNetworkList "DanmNet list option"
  | IsClusterNetworkList "DanmNet list option" | IsDanmEpList "DanmEp list option"
  | IsTenantConfigList "TenantConfig list option" | IsNad "string \<times> ObjectMeta \<times> string"
  | IsNadList "(string \<times> ObjectMeta \<times> string) list option"

fun val_object :: "mem \<Rightarrow> runtime_object \<Rightarrow> object_value" where
  "val_object m (ObjDanmNet x) = IsDanmNet (val_net m x)"
| "val_object m (ObjTenantNetwork x) = IsTenantNetwork (val_net m x)"
| "val_object m (ObjClusterNetwork x) = IsClusterNetwork (val_net m x)"
| "val_object m (ObjDanmEp x) = IsDanmEp (val_ep m x)"
| "val_object m (ObjTenantConfig x) = IsTenantConfig (val_conf m x)"
| "val_object m (ObjDanmNetList x) = IsDanmNetList (val_items mem_nets val_net m x)"
| "val_object m (ObjTenantNetworkList x) = IsTenantNetworkList (val_items mem_nets val_net m x)"
| "val_object m (ObjClusterNetworkList x) = IsClusterNetworkList (val_items mem_nets val_net m x)"
| "val_object m (ObjDanmEpList x) = IsDanmEpList (val_items mem_eps val_ep m x)"
| "val_object m (ObjTenantConfigList x) = IsTenantConfigList (val_items mem_confs val_conf m x)"
| "val_object m (ObjNetworkAttachmentDefinition x) = IsNad (val_nad m x)"
| "val_object m (ObjNetworkAttachmentDefinitionList x) = IsNadList (val_items mem_nads val_nad m x)"

fun refs_object :: "mem \<Rightarrow> runtime_object \<Rightarrow> nat set" where
  "refs_object m (ObjDanmNet x) = refs_net m x"
| "refs_object m (ObjTenantNetwork x) = refs_net m x"
| "refs_object m (ObjClusterNetwork x) = refs_net m x"
| "refs_object m (ObjDanmEp x) = refs_ep m x"
| "refs_object m (ObjTenantConfig x) = refs_conf m x"
| "refs_object m (ObjDanmNetList x) = refs_items mem_nets refs_net m x"
| "refs_object m (ObjTenantNetworkList x) = refs_items mem_nets refs_net m x"
| "refs_object m (ObjClusterNetworkList x) = refs_items mem_nets refs_net m x"
| "refs_object m (ObjDanmEpList x) = refs_items mem_eps refs_ep m x"
| "refs_object m (ObjTenantConfigList x) = refs_items mem_confs refs_conf m x"
| "refs_object m (ObjNetworkAttachmentDefinition x) = refs_nad m x"
| "refs_object m (ObjNetworkAttachmentDefinitionList x) = refs_items mem_nads refs_nad m x"

lemmas object_copies = DanmNet_DeepCopyObject_def TenantNetwork_DeepCopyObject_def ClusterNetwork_DeepCopyObject_def
  DanmEp_DeepCopyObject_def TenantConfig_DeepCopyObject_def DanmNetList_DeepCopyObject_def
  TenantNetworkList_DeepCopyObject_def ClusterNetworkList_DeepCopyObject_def DanmEpList_DeepCopyObject_def
  TenantConfigList_DeepCopyObject_def DanmNet_DeepCopy_def TenantNetwork_DeepCopy_def ClusterNetwork_DeepCopy_def
  DanmEp_DeepCopy_def TenantConfig_DeepCopy_def DanmNetList_DeepCopy_def TenantNetworkList_DeepCopy_def
  ClusterNetworkList_DeepCopy_def DanmEpList_DeepCopy_def TenantConfigList_DeepCopy_def NetworkAttachmentDefinition_DeepCopyObject_def
  NetworkAttachmentDefinitionList_DeepCopyObject_def NetworkAttachmentDefinition_DeepCopy_def
  NetworkAttachmentDefinitionList_DeepCopy_def new_copy_def returned_def

lemma list_copiers:
  assumes mc: "deep_copier mc val_meta refs_meta"
  shows "deep_copier (DanmNetList_DeepCopyInto mc) (val_items mem_nets val_net) (refs_items mem_nets refs_net)"
    "deep_copier (TenantNetworkList_DeepCopyInto mc) (val_items mem_nets val_net) (refs_items mem_nets refs_net)"
    "deep_copier (ClusterNetworkList_DeepCopyInto mc) (val_items mem_nets val_net) (refs_items mem_nets refs_net)"
    "deep_copier (DanmEpList_DeepCopyInto mc) (val_items mem_eps val_ep) (refs_items mem_eps refs_ep)"
    "deep_copier (TenantConfigList_DeepCopyInto mc) (val_items mem_confs val_conf) (refs_items mem_confs refs_conf)"
    "deep_copier (NetworkAttachmentDefinitionList_DeepCopyInto mc) (val_items mem_nads val_nad) (refs_items mem_nads refs_nad)"
  using nets.items_copier [OF net_copier [OF mc]] eps.items_copier [OF ep_copier [OF mc]]
    confs.items_copier [OF conf_copier [OF mc]] nads.items_copier [OF nad_copier [OF mc]]
  by (simp_all add: val_items_def [abs_def] refs_items_def [abs_def] DanmNetList_DeepCopyInto_def [abs_def]
      TenantNetworkList_DeepCopyInto_def [abs_def] ClusterNetworkList_DeepCopyInto_def [abs_def]
      DanmEpList_DeepCopyInto_def [abs_def] TenantConfigList_DeepCopyInto_def [abs_def]
      NetworkAttachmentDefinitionList_DeepCopyInto_def [abs_def] same_net_copies)

lemma object_copier:
  assumes mc: "deep_copier mc val_meta refs_meta"
  shows "deep_copier (object_copy mc) val_object refs_object"
proof (unfold_locales, goal_cases)
  case (1 m x m')
  then show ?case
    using deep_copier.frame [OF net_copier [OF mc]] deep_copier.frame [OF ep_copier [OF mc]]
      deep_copier.frame [OF conf_copier [OF mc]] deep_copier.frame [OF list_copiers(1) [OF mc]]
      deep_copier.frame [OF list_copiers(4) [OF mc]] deep_copier.frame [OF list_copiers(5) [OF mc]]
      deep_copier.frame [OF nad_copier [OF mc]] deep_copier.frame [OF list_copiers(6) [OF mc]]
    by (cases x) auto
next
  case (2 x m y m')
  note net = deep_copier.copies [OF net_copier [OF mc]]
  note eps = deep_copier.copies [OF ep_copier [OF mc]]
  note conf = deep_copier.copies [OF conf_copier [OF mc]]
  note nad = deep_copier.copies [OF nad_copier [OF mc]]
  note items = list_copiers [OF mc, THEN deep_copier.copies]
  show ?case
    using 2 by (cases x) (auto simp: object_copies same_net_copies split: prod.splits dest!: net eps conf nad items)
qed

section \<open>Properties\<close>

text \<open>
  C31. A deep copy of any API object stands for the same value as the original and shares no memory
  with it: whatever is written afterwards through the maps and slices of the copy, the original,
  for instance the object of an informer's cache, keeps its value. The copy of Kubernetes'
  \<^verbatim>\<open>ObjectMeta\<close> is assumed to be a deep copy itself.
\<close>

theorem deep_copies_share_nothing:
  assumes "deep_copier mc val_meta refs_meta" and "refs_object m x \<subseteq> {..<mem_next m}"
    and "object_copy mc x m = (y, m')" and "agree (- refs_object m' y) m' m''"
  shows "val_object m' y = val_object m x \<and> val_object m'' x = val_object m x"
  by (rule deep_copier.independent [OF object_copier [OF assms(1)] assms(3,2,4)])

definition demo_meta_copy :: meta_copier where
  "demo_meta_copy x m = (let (l, m1) = copy_map (mo_Labels x) m in (x\<lparr>mo_Labels := l\<rparr>, m1))"

lemma demo_meta_copier: "deep_copier demo_meta_copy val_meta refs_meta"
  by (rule copier_by [OF map_copier, where part = mo_Labels and put = "\<lambda>x a. x\<lparr>mo_Labels := a\<rparr>"
          and V = "\<lambda>x a. (mo_flat x)\<lparr>mt_Labels := (case a of None \<Rightarrow> [] | Some l \<Rightarrow> l)\<rparr>"])
    (auto simp: demo_meta_copy_def val_meta_def refs_meta_def split: prod.split)

text \<open>A cached endpoint with a label, whose copy gets another one.\<close>

definition demo_ep_obj :: ep_obj where
  "demo_ep_obj = \<lparr>po_Kind = ''DanmEp'', po_Meta = \<lparr>mo_flat = empty_meta, mo_Labels = Some 0\<rparr>,
     po_Spec = \<lparr>eo_flat = \<lparr>ep_NetworkName = ''n1'', ep_NetworkType = ''ipvlan'', ep_EndpointID = ''e1'',
         ep_Iface = \<lparr>if_Name = ''eth0'', if_Address = [], if_AddressIPv6 = [], if_MacAddress = [],
           if_Proutes = None, if_Proutes6 = None, if_DeviceID = []\<rparr>,
         ep_Host = [], ep_Pod = ''p1'', ep_PodUID = [], ep_CID = [], ep_Netns = [], ep_ApiType = ''DanmNet''\<rparr>,
       eo_Iface = \<lparr>io_flat = \<lparr>if_Name = ''eth0'', if_Address = [], if_AddressIPv6 = [], if_MacAddress = [],
           if_Proutes = None, if_Proutes6 = None, if_DeviceID = []\<rparr>,
         io_Proutes = None, io_Proutes6 = Some 1\<rparr>\<rparr>\<rparr>"

definition demo_mem :: mem where
  "demo_mem = \<lparr>mem_next = 2, mem_maps = (\<lambda>a. if a = 0 then [(''app'', ''a'')] else []), mem_strings = (\<lambda>_. []),
     mem_profiles = (\<lambda>_. []), mem_nets = (\<lambda>_. []), mem_eps = (\<lambda>_. []), mem_confs = (\<lambda>_. []), mem_nads = (\<lambda>_. []),
     mem_pci = (\<lambda>_. \<lparr>pci_PciAddress = [], pci_Vhostnet = [], pci_RdmaDevice = [], pci_PfPciAddress = []\<rparr>),
     mem_vdpa = (\<lambda>_. \<lparr>vdpa_ParentDevice = [], vdpa_Driver = [], vdpa_Path = [], vdpa_PciAddress = [], vdpa_PfPciAddress = []\<rparr>),
     mem_vhost = (\<lambda>_. \<lparr>vhost_Mode = [], vhost_Path = []\<rparr>),
     mem_memif = (\<lambda>_. \<lparr>memif_Role = [], memif_Path = [], memif_Mode = []\<rparr>)\<rparr>"

theorem deep_copies_share_nothing_witness:
  "\<exists>y m'. object_copy demo_meta_copy (ObjDanmEp demo_ep_obj) demo_mem = (y, m') \<and> 2 \<in> refs_object m' y \<and>
     val_object (put_map 2 [(''app'', ''b'')] m') (ObjDanmEp demo_ep_obj) = val_object demo_mem (ObjDanmEp demo_ep_obj)"
proof -
  obtain y m' where c: "object_copy demo_meta_copy (ObjDanmEp demo_ep_obj) demo_mem = (y, m')"
    by (cases "object_copy demo_meta_copy (ObjDanmEp demo_ep_obj) demo_mem")
  have refs: "refs_object demo_mem (ObjDanmEp demo_ep_obj) \<subseteq> {..<mem_next demo_mem}"
    by (simp add: refs_ep_def refs_meta_def refs_epspec_def refs_iface_def demo_ep_obj_def demo_mem_def)
  have "refs_object m' y = {2, 3}"
    using c by (auto simp: object_copies DanmEp_DeepCopyInto_def demo_meta_copy_def copy_map_def copy_cell_def
        DanmEpSpec_DeepCopyInto_def DanmEpIface_DeepCopyInto_def demo_ep_obj_def demo_mem_def put_map_def
        refs_ep_def refs_meta_def refs_epspec_def refs_iface_def)
  then have y: "2 \<in> refs_object m' y" by simp
  then have "agree (- refs_object m' y) m' (put_map 2 [(''app'', ''b'')] m')" by (intro maps.put_agree) simp
  with deep_copies_share_nothing [OF demo_meta_copier refs c] c y show ?thesis by blast
qed

end
