(* ===== verification/RestClient.thy ===== *)
theory RestClient
  imports Complex_Main NetWatcher
begin

text \<open>
  The generated clients under \<^verbatim>\<open>crd/client/clientset\<close> and
  \<^verbatim>\<open>crd/client/nad/clientset\<close>: one typed client per API, the clients of the two
  API groups, and the clientsets. A call describes a request to the REST client of client-go, which
  is a parameter: a request is the sequence of calls the code makes on its builder. The context
  of a call is never cancelled and is left out.
\<close>

section \<open>Requests\<close>

text \<open>
  Of the options of Kubernetes those are kept that the code reads or writes: get options are the
  resource version, options of writes and deletions the dry-run directives.
\<close>

type_synonym GetOptions = string
type_synonym WriteOptions = "string list"
type_synonym DeleteOptions = "string list"

record ListOptions =
  lo_LabelSelector :: string
  lo_FieldSelector :: string
  lo_Watch :: bool
  lo_ResourceVersion :: string
  lo_TimeoutSeconds :: "64 word option"

datatype rest_params =
    GetParams GetOptions
  | ListParams ListOptions
  | WriteParams WriteOptions

datatype rest_body =
    NetBody DanmNet
  | EpBody DanmEp
  | ConfBody TenantConfig
  | NadBody Nad
  | DeleteBody DeleteOptions
  | BytesBody "8 word list"

datatype rest_call =
    GET | POST | PUT | DELETE | PATCH string
  | Namespace string
  | Resource string
  | Name string
  | SubResource "string list"
  | VersionedParams rest_params
  | Timeout "64 word"
  | Body rest_body

text \<open>
  What ends the chain: \<^verbatim>\<open>Do(ctx).Into(result)\<close> decodes the answer into the
  object it is given, \<^verbatim>\<open>Do(ctx).Error()\<close> and \<^verbatim>\<open>Watch(ctx)\<close>, which
  returns a watch or an error. The items of a list are \<open>None\<close> when the answer has none.
\<close>

type_synonym 'a answer = "'a \<times> string option"
type_synonym watch = nat

record 'w rest_interface =
  DoNet :: "rest_call list \<Rightarrow> DanmNet \<Rightarrow> 'w \<Rightarrow> DanmNet answer \<times> 'w"
  DoNets :: "rest_call list \<Rightarrow> DanmNet list option \<Rightarrow> 'w \<Rightarrow> DanmNet list option answer \<times> 'w"
  DoEp :: "rest_call list \<Rightarrow> DanmEp \<Rightarrow> 'w \<Rightarrow> DanmEp answer \<times> 'w"
  DoEps :: "rest_call list \<Rightarrow> DanmEp list option \<Rightarrow> 'w \<Rightarrow> DanmEp list option answer \<times> 'w"
  DoConf :: "rest_call list \<Rightarrow> TenantConfig \<Rightarrow> 'w \<Rightarrow> TenantConfig answer \<times> 'w"
  DoConfs :: "rest_call list \<Rightarrow> TenantConfig list option \<Rightarrow> 'w \<Rightarrow> TenantConfig list option answer \<times> 'w"
  DoNad :: "rest_call list \<Rightarrow> Nad \<Rightarrow> 'w \<Rightarrow> Nad answer \<times> 'w"
  DoNads :: "rest_call list \<Rightarrow> Nad list option \<Rightarrow> 'w \<Rightarrow> Nad list option answer \<times> 'w"
  DoError :: "rest_call list \<Rightarrow> 'w \<Rightarrow> string option \<times> 'w"
  DoWatch :: "rest_call list \<Rightarrow> 'w \<Rightarrow> (string + watch) \<times> 'w"

text \<open>Seconds as a \<^verbatim>\<open>time.Duration\<close> of nanoseconds, which wraps at 64 bits.\<close>

definition list_timeout :: "ListOptions \<Rightarrow> 64 word" where
  "list_timeout options =
     (case lo_TimeoutSeconds options of None \<Rightarrow> 0 | Some seconds \<Rightarrow> seconds * 1000000000)"

definition empty_ep :: DanmEp where
  "empty_ep =
     \<lparr>ep_Kind = [], ep_Meta = empty_meta,
      ep_Spec = \<lparr>ep_NetworkName = [], ep_NetworkType = [], ep_EndpointID = [],
        ep_Iface = \<lparr>if_Name = [], if_Address = [], if_AddressIPv6 = [], if_MacAddress = [],
          if_Proutes = None, if_Proutes6 = None, if_DeviceID = []\<rparr>,
        ep_Host = [], ep_Pod = [], ep_PodUID = [], ep_CID = [], ep_Netns = [], ep_ApiType = []\<rparr>\<rparr>"

definition empty_conf :: TenantConfig where
  "empty_conf = \<lparr>tc_Kind = [], tc_Meta = empty_meta, HostDevices = [], NetworkIds = []\<rparr>"

definition empty_nad :: Nad where
  "empty_nad = \<lparr>nad_Meta = empty_meta, nad_Config = []\<rparr>"

section \<open>Objects\<close>

text \<open>
  A group, version and resource or kind; and \<^verbatim>\<open>runtime.Object\<close>, the objects and lists of the
  six APIs, with the type assertions.
\<close>

type_synonym gvr = "string \<times> string \<times> string"

datatype runtime_obj =
    RDanmNet DanmNet
  | RDanmNetList "DanmNet list option"
  | RTenantNetwork DanmNet
  | RTenantNetworkList "DanmNet list option"
  | RClusterNetwork DanmNet
  | RClusterNetworkList "DanmNet list option"
  | RDanmEp DanmEp
  | RDanmEpList "DanmEp list option"
  | RTenantConfig TenantConfig
  | RTenantConfigList "TenantConfig list option"
  | RNad Nad
  | RNadList "Nad list option"

definition as_RDanmNet :: "runtime_obj \<Rightarrow> (DanmNet) option" where
  "as_RDanmNet obj = (case obj of RDanmNet x \<Rightarrow> Some x | _ \<Rightarrow> None)"

definition as_RDanmNetList :: "runtime_obj \<Rightarrow> (DanmNet list option) option" where
  "as_RDanmNetList obj = (case obj of RDanmNetList x \<Rightarrow> Some x | _ \<Rightarrow> None)"

definition as_RTenantNetwork :: "runtime_obj \<Rightarrow> (DanmNet) option" where
  "as_RTenantNetwork obj = (case obj of RTenantNetwork x \<Rightarrow> Some x | _ \<Rightarrow> None)"

definition as_RTenantNetworkList :: "runtime_obj \<Rightarrow> (DanmNet list option) option" where
  "as_RTenantNetworkList obj = (case obj of RTenantNetworkList x \<Rightarrow> Some x | _ \<Rightarrow> None)"

definition as_RClusterNetwork :: "runtime_obj \<Rightarrow> (DanmNet) option" where
  "as_RClusterNetwork obj = (case obj of RClusterNetwork x \<Rightarrow> Some x | _ \<Rightarrow> None)"

definition as_RClusterNetworkList :: "runtime_obj \<Rightarrow> (DanmNet list option) option" where
  "as_RClusterNetworkList obj = (case obj of RClusterNetworkList x \<Rightarrow> Some x | _ \<Rightarrow> None)"

definition as_RDanmEp :: "runtime_obj \<Rightarrow> (DanmEp) option" where
  "as_RDanmEp obj = (case obj of RDanmEp x \<Rightarrow> Some x | _ \<Rightarrow> None)"

definition as_RDanmEpList :: "runtime_obj \<Rightarrow> (DanmEp list option) option" where
  "as_RDanmEpList obj = (case obj of RDanmEpList x \<Rightarrow> Some x | _ \<Rightarrow> None)"

definition as_RTenantConfig :: "runtime_obj \<Rightarrow> (TenantConfig) option" where
  "as_RTenantConfig obj = (case obj of RTenantConfig x \<Rightarrow> Some x | _ \<Rightarrow> None)"

definition as_RTenantConfigList :: "runtime_obj \<Rightarrow> (TenantConfig list option) option" where
  "as_RTenantConfigList obj = (case obj of RTenantConfigList x \<Rightarrow> Some x | _ \<Rightarrow> None)"

definition as_RNad :: "runtime_obj \<Rightarrow> (Nad) option" where
  "as_RNad obj = (case obj of RNad x \<Rightarrow> Some x | _ \<Rightarrow> None)"

definition as_RNadList :: "runtime_obj \<Rightarrow> (Nad list option) option" where
  "as_RNadList obj = (case obj of RNadList x \<Rightarrow> Some x | _ \<Rightarrow> None)"

section \<open>Typed clients\<close>

text \<open>
  The struct of every typed client: the REST client, and the namespace for the namespaced APIs
  (cluster-wide APIs have no such field and their requests name no namespace).
\<close>

record 'w root_client =
  tyc_client :: "'w rest_interface"

record 'w typed_client = "'w root_client" +
  tyc_ns :: string

type_synonym 'w danmNets = "'w typed_client"
type_synonym 'w tenantNetworks = "'w typed_client"
type_synonym 'w clusterNetworks = "'w root_client"
type_synonym 'w danmEps = "'w typed_client"
type_synonym 'w tenantConfigs = "'w root_client"
type_synonym 'w nads = "'w typed_client"

subsection \<open>DanmNet\<close>

text \<open>\<^verbatim>\<open>danmnet.go\<close>.\<close>

definition danmNets_Get :: "'w danmNets \<Rightarrow> string \<Rightarrow> GetOptions \<Rightarrow> 'w \<Rightarrow> DanmNet answer \<times> 'w" where
  "danmNets_Get c name options =
     DoNet (tyc_client c)
       [GET, Namespace (tyc_ns c), Resource ''danmnets'', Name name, VersionedParams (GetParams options)] empty_net"

definition danmNets_List :: "'w danmNets \<Rightarrow> ListOptions \<Rightarrow> 'w \<Rightarrow> DanmNet list option answer \<times> 'w" where
  "danmNets_List c options =
     DoNets (tyc_client c)
       [GET, Namespace (tyc_ns c), Resource ''danmnets'', VersionedParams (ListParams options),
        Timeout (list_timeout options)] None"

definition danmNets_Watch :: "'w danmNets \<Rightarrow> ListOptions \<Rightarrow> 'w \<Rightarrow> (string + watch) \<times> 'w" where
  "danmNets_Watch c options =
     (let timeout = list_timeout options; options' = options\<lparr>lo_Watch := True\<rparr> in
      DoWatch (tyc_client c)
        [GET, Namespace (tyc_ns c), Resource ''danmnets'', VersionedParams (ListParams options'), Timeout timeout])"

definition danmNets_Create :: "'w danmNets \<Rightarrow> DanmNet \<Rightarrow> WriteOptions \<Rightarrow> 'w \<Rightarrow> DanmNet answer \<times> 'w" where
  "danmNets_Create c danmNet options =
     DoNet (tyc_client c)
       [POST, Namespace (tyc_ns c), Resource ''danmnets'', VersionedParams (WriteParams options), Body (NetBody danmNet)] empty_net"

definition danmNets_Update :: "'w danmNets \<Rightarrow> DanmNet \<Rightarrow> WriteOptions \<Rightarrow> 'w \<Rightarrow> DanmNet answer \<times> 'w" where
  "danmNets_Update c danmNet options =
     DoNet (tyc_client c)
       [PUT, Namespace (tyc_ns c), Resource ''danmnets'', Name (mt_Name (dn_Meta danmNet)), VersionedParams (WriteParams options),
        Body (NetBody danmNet)] empty_net"

definition danmNets_Delete :: "'w danmNets \<Rightarrow> string \<Rightarrow> DeleteOptions \<Rightarrow> 'w \<Rightarrow> string option \<times> 'w" where
  "danmNets_Delete c name options =
     DoError (tyc_client c)
       [DELETE, Namespace (tyc_ns c), Resource ''danmnets'', Name name, Body (DeleteBody options)]"

definition danmNets_DeleteCollection :: "'w danmNets \<Rightarrow> DeleteOptions \<Rightarrow> ListOptions \<Rightarrow> 'w \<Rightarrow> string option \<times> 'w" where
  "danmNets_DeleteCollection c options listOpts =
     DoError (tyc_client c)
       [DELETE, Namespace (tyc_ns c), Resource ''danmnets'', VersionedParams (ListParams listOpts),
        Timeout (list_timeout listOpts), Body (DeleteBody options)]"

definition danmNets_Patch ::
  "'w danmNets \<Rightarrow> string \<Rightarrow> string \<Rightarrow> 8 word list \<Rightarrow> WriteOptions \<Rightarrow> string list \<Rightarrow> 'w \<Rightarrow> DanmNet answer \<times> 'w" where
  "danmNets_Patch c name pt data options subresources =
     DoNet (tyc_client c)
       [PATCH pt, Namespace (tyc_ns c), Resource ''danmnets'', Name name, SubResource subresources,
        VersionedParams (WriteParams options), Body (BytesBody data)] empty_net"

subsection \<open>TenantNetwork\<close>

text \<open>\<^verbatim>\<open>tenantnetwork.go\<close>.\<close>

definition tenantNetworks_Get :: "'w tenantNetworks \<Rightarrow> string \<Rightarrow> GetOptions \<Rightarrow> 'w \<Rightarrow> DanmNet answer \<times> 'w" where
  "tenantNetworks_Get c name options =
     DoNet (tyc_client c)
       [GET, Namespace (tyc_ns c), Resource ''tenantnetworks'', Name name, VersionedParams (GetParams options)] empty_net"

definition tenantNetworks_List :: "'w tenantNetworks \<Rightarrow> ListOptions \<Rightarrow> 'w \<Rightarrow> DanmNet list option answer \<times> 'w" where
  "tenantNetworks_List c options =
     DoNets (tyc_client c)
       [GET, Namespace (tyc_ns c), Resource ''tenantnetworks'', VersionedParams (ListParams options),
        Timeout (list_timeout options)] None"

definition tenantNetworks_Watch :: "'w tenantNetworks \<Rightarrow> ListOptions \<Rightarrow> 'w \<Rightarrow> (string + watch) \<times> 'w" where
  "tenantNetworks_Watch c options =
     (let timeout = list_timeout options; options' = options\<lparr>lo_Watch := True\<rparr> in
      DoWatch (tyc_client c)
        [GET, Namespace (tyc_ns c), Resource ''tenantnetworks'', VersionedParams (ListParams options'), Timeout timeout])"

definition tenantNetworks_Create :: "'w tenantNetworks \<Rightarrow> DanmNet \<Rightarrow> WriteOptions \<Rightarrow> 'w \<Rightarrow> DanmNet answer \<times> 'w" where
  "tenantNetworks_Create c tenantNetwork options =
     DoNet (tyc_client c)
       [POST, Namespace (tyc_ns c), Resource ''tenantnetworks'', VersionedParams (WriteParams options), Body (NetBody tenantNetwork)] empty_net"

definition tenantNetworks_Update :: "'w tenantNetworks \<Rightarrow> DanmNet \<Rightarrow> WriteOptions \<Rightarrow> 'w \<Rightarrow> DanmNet answer \<times> 'w" where
  "tenantNetworks_Update c tenantNetwork options =
     DoNet (tyc_client c)
       [PUT, Namespace (tyc_ns c), Resource ''tenantnetworks'', Name (mt_Name (dn_Meta tenantNetwork)), VersionedParams (WriteParams options),
        Body (NetBody tenantNetwork)] empty_net"

definition tenantNetworks_Delete :: "'w tenantNetworks \<Rightarrow> string \<Rightarrow> DeleteOptions \<Rightarrow> 'w \<Rightarrow> string option \<times> 'w" where
  "tenantNetworks_Delete c name options =
     DoError (tyc_client c)
       [DELETE, Namespace (tyc_ns c), Resource ''tenantnetworks'', Name name, Body (DeleteBody options)]"

definition tenantNetworks_DeleteCollection :: "'w tenantNetworks \<Rightarrow> DeleteOptions \<Rightarrow> ListOptions \<Rightarrow> 'w \<Rightarrow> string option \<times> 'w" where
  "tenantNetworks_DeleteCollection c options listOpts =
     DoError (tyc_client c)
       [DELETE, Namespace (tyc_ns c), Resource ''tenantnetworks'', VersionedParams (ListParams listOpts),
        Timeout (list_timeout listOpts), Body (DeleteBody options)]"

definition tenantNetworks_Patch ::
  "'w tenantNetworks \<Rightarrow> string \<Rightarrow> string \<Rightarrow> 8 word list \<Rightarrow> WriteOptions \<Rightarrow> string list \<Rightarrow> 'w \<Rightarrow> DanmNet answer \<times> 'w" where
  "tenantNetworks_Patch c name pt data options subresources =
     DoNet (tyc_client c)
       [PATCH pt, Namespace (tyc_ns c), Resource ''tenantnetworks'', Name name, SubResource subresources,
        VersionedParams (WriteParams options), Body (BytesBody data)] empty_net"

subsection \<open>ClusterNetwork\<close>

text \<open>\<^verbatim>\<open>clusternetwork.go\<close>.\<close>

definition clusterNetworks_Get :: "'w clusterNetworks \<Rightarrow> string \<Rightarrow> GetOptions \<Rightarrow> 'w \<Rightarrow> DanmNet answer \<times> 'w" where
  "clusterNetworks_Get c name options =
     DoNet (tyc_client c)
       [GET, Resource ''clusternetworks'', Name name, VersionedParams (GetParams options)] empty_net"

definition clusterNetworks_List :: "'w clusterNetworks \<Rightarrow> ListOptions \<Rightarrow> 'w \<Rightarrow> DanmNet list option answer \<times> 'w" where
  "clusterNetworks_List c options =
     DoNets (tyc_client c)
       [GET, Resource ''clusternetworks'', VersionedParams (ListParams options),
        Timeout (list_timeout options)] None"

definition clusterNetworks_Watch :: "'w clusterNetworks \<Rightarrow> ListOptions \<Rightarrow> 'w \<Rightarrow> (string + watch) \<times> 'w" where
  "clusterNetworks_Watch c options =
     (let timeout = list_timeout options; options' = options\<lparr>lo_Watch := True\<rparr> in
      DoWatch (tyc_client c)
        [GET, Resource ''clusternetworks'', VersionedParams (ListParams options'), Timeout timeout])"

definition clusterNetworks_Create :: "'w clusterNetworks \<Rightarrow> DanmNet \<Rightarrow> WriteOptions \<Rightarrow> 'w \<Rightarrow> DanmNet answer \<times> 'w" where
  "clusterNetworks_Create c clusterNetwork options =
     DoNet (tyc_client c)
       [POST, Resource ''clusternetworks'', VersionedParams (WriteParams options), Body (NetBody clusterNetwork)] empty_net"

definition clusterNetworks_Update :: "'w clusterNetworks \<Rightarrow> DanmNet \<Rightarrow> WriteOptions \<Rightarrow> 'w \<Rightarrow> DanmNet answer \<times> 'w" where
  "clusterNetworks_Update c clusterNetwork options =
     DoNet (tyc_client c)
       [PUT, Resource ''clusternetworks'', Name (mt_Name (dn_Meta clusterNetwork)), VersionedParams (WriteParams options),
        Body (NetBody clusterNetwork)] empty_net"

definition clusterNetworks_Delete :: "'w clusterNetworks \<Rightarrow> string \<Rightarrow> DeleteOptions \<Rightarrow> 'w \<Rightarrow> string option \<times> 'w" where
  "clusterNetworks_Delete c name options =
     DoError (tyc_client c)
       [DELETE, Resource ''clusternetworks'', Name name, Body (DeleteBody options)]"

definition clusterNetworks_DeleteCollection :: "'w clusterNetworks \<Rightarrow> DeleteOptions \<Rightarrow> ListOptions \<Rightarrow> 'w \<Rightarrow> string option \<times> 'w" where
  "clusterNetworks_DeleteCollection c options listOpts =
     DoError (tyc_client c)
       [DELETE, Resource ''clusternetworks'', VersionedParams (ListParams listOpts),
        Timeout (list_timeout listOpts), Body (DeleteBody options)]"

definition clusterNetworks_Patch ::
  "'w clusterNetworks \<Rightarrow> string \<Rightarrow> string \<Rightarrow> 8 word list \<Rightarrow> WriteOptions \<Rightarrow> string list \<Rightarrow> 'w \<Rightarrow> DanmNet answer \<times> 'w" where
  "clusterNetworks_Patch c name pt data options subresources =
     DoNet (tyc_client c)
       [PATCH pt, Resource ''clusternetworks'', Name name, SubResource subresources,
        VersionedParams (WriteParams options), Body (BytesBody data)] empty_net"

subsection \<open>DanmEp\<close>

text \<open>\<^verbatim>\<open>danmep.go\<close>.\<close>

definition danmEps_Get :: "'w danmEps \<Rightarrow> string \<Rightarrow> GetOptions \<Rightarrow> 'w \<Rightarrow> DanmEp answer \<times> 'w" where
  "danmEps_Get c name options =
     DoEp (tyc_client c)
       [GET, Namespace (tyc_ns c), Resource ''danmeps'', Name name, VersionedParams (GetParams options)] empty_ep"

definition danmEps_List :: "'w danmEps \<Rightarrow> ListOptions \<Rightarrow> 'w \<Rightarrow> DanmEp list option answer \<times> 'w" where
  "danmEps_List c options =
     DoEps (tyc_client c)
       [GET, Namespace (tyc_ns c), Resource ''danmeps'', VersionedParams (ListParams options),
        Timeout (list_timeout options)] None"

definition danmEps_Watch :: "'w danmEps \<Rightarrow> ListOptions \<Rightarrow> 'w \<Rightarrow> (string + watch) \<times> 'w" where
  "danmEps_Watch c options =
     (let timeout = list_timeout options; options' = options\<lparr>lo_Watch := True\<rparr> in
      DoWatch (tyc_client c)
        [GET, Namespace (tyc_ns c), Resource ''danmeps'', VersionedParams (ListParams options'), Timeout timeout])"

definition danmEps_Create :: "'w danmEps \<Rightarrow> DanmEp \<Rightarrow> WriteOptions \<Rightarrow> 'w \<Rightarrow> DanmEp answer \<times> 'w" where
  "danmEps_Create c danmEp options =
     DoEp (tyc_client c)
       [POST, Namespace (tyc_ns c), Resource ''danmeps'', VersionedParams (WriteParams options), Body (EpBody danmEp)] empty_ep"

definition danmEps_Update :: "'w danmEps \<Rightarrow> DanmEp \<Rightarrow> WriteOptions \<Rightarrow> 'w \<Rightarrow> DanmEp answer \<times> 'w" where
  "danmEps_Update c danmEp options =
     DoEp (tyc_client c)
       [PUT, Namespace (tyc_ns c), Resource ''danmeps'', Name (mt_Name (ep_Meta danmEp)), VersionedParams (WriteParams options),
        Body (EpBody danmEp)] empty_ep"

definition danmEps_Delete :: "'w danmEps \<Rightarrow> string \<Rightarrow> DeleteOptions \<Rightarrow> 'w \<Rightarrow> string option \<times> 'w" where
  "danmEps_Delete c name options =
     DoError (tyc_client c)
       [DELETE, Namespace (tyc_ns c), Resource ''danmeps'', Name name, Body (DeleteBody options)]"

definition danmEps_DeleteCollection :: "'w danmEps \<Rightarrow> DeleteOptions \<Rightarrow> ListOptions \<Rightarrow> 'w \<Rightarrow> string option \<times> 'w" where
  "danmEps_DeleteCollection c options listOpts =
     DoError (tyc_client c)
       [DELETE, Namespace (tyc_ns c), Resource ''danmeps'', VersionedParams (ListParams listOpts),
        Timeout (list_timeout listOpts), Body (DeleteBody options)]"

definition danmEps_Patch ::
  "'w danmEps \<Rightarrow> string \<Rightarrow> string \<Rightarrow> 8 word list \<Rightarrow> WriteOptions \<Rightarrow> string list \<Rightarrow> 'w \<Rightarrow> DanmEp answer \<times> 'w" where
  "danmEps_Patch c name pt data options subresources =
     DoEp (tyc_client c)
       [PATCH pt, Namespace (tyc_ns c), Resource ''danmeps'', Name name, SubResource subresources,
        VersionedParams (WriteParams options), Body (BytesBody data)] empty_ep"

subsection \<open>TenantConfig\<close>

text \<open>\<^verbatim>\<open>tenantconfig.go\<close>.\<close>

definition tenantConfigs_Get :: "'w tenantConfigs \<Rightarrow> string \<Rightarrow> GetOptions \<Rightarrow> 'w \<Rightarrow> TenantConfig answer \<times> 'w" where
  "tenantConfigs_Get c name options =
     DoConf (tyc_client c)
       [GET, Resource ''tenantconfigs'', Name name, VersionedParams (GetParams options)] empty_conf"

definition tenantConfigs_List :: "'w tenantConfigs \<Rightarrow> ListOptions \<Rightarrow> 'w \<Rightarrow> TenantConfig list option answer \<times> 'w" where
  "tenantConfigs_List c options =
     DoConfs (tyc_client c)
       [GET, Resource ''tenantconfigs'', VersionedParams (ListParams options),
        Timeout (list_timeout options)] None"

definition tenantConfigs_Watch :: "'w tenantConfigs \<Rightarrow> ListOptions \<Rightarrow> 'w \<Rightarrow> (string + watch) \<times> 'w" where
  "tenantConfigs_Watch c options =
     (let timeout = list_timeout options; options' = options\<lparr>lo_Watch := True\<rparr> in
      DoWatch (tyc_client c)
        [GET, Resource ''tenantconfigs'', VersionedParams (ListParams options'), Timeout timeout])"

definition tenantConfigs_Create :: "'w tenantConfigs \<Rightarrow> TenantConfig \<Rightarrow> WriteOptions \<Rightarrow> 'w \<Rightarrow> TenantConfig answer \<times> 'w" where
  "tenantConfigs_Create c tenantConfig options =
     DoConf (tyc_client c)
       [POST, Resource ''tenantconfigs'', VersionedParams (WriteParams options), Body (ConfBody tenantConfig)] empty_conf"

definition tenantConfigs_Update :: "'w tenantConfigs \<Rightarrow> TenantConfig \<Rightarrow> WriteOptions \<Rightarrow> 'w \<Rightarrow> TenantConfig answer \<times> 'w" where
  "tenantConfigs_Update c tenantConfig options =
     DoConf (tyc_client c)
       [PUT, Resource ''tenantconfigs'', Name (mt_Name (tc_Meta tenantConfig)), VersionedParams (WriteParams options),
        Body (ConfBody tenantConfig)] empty_conf"

definition tenantConfigs_Delete :: "'w tenantConfigs \<Rightarrow> string \<Rightarrow> DeleteOptions \<Rightarrow> 'w \<Rightarrow> string option \<times> 'w" where
  "tenantConfigs_Delete c name options =
     DoError (tyc_client c)
       [DELETE, Resource ''tenantconfigs'', Name name, Body (DeleteBody options)]"

definition tenantConfigs_DeleteCollection :: "'w tenantConfigs \<Rightarrow> DeleteOptions \<Rightarrow> ListOptions \<Rightarrow> 'w \<Rightarrow> string option \<times> 'w" where
  "tenantConfigs_DeleteCollection c options listOpts =
     DoError (tyc_client c)
       [DELETE, Resource ''tenantconfigs'', VersionedParams (ListParams listOpts),
        Timeout (list_timeout listOpts), Body (DeleteBody options)]"

definition tenantConfigs_Patch ::
  "'w tenantConfigs \<Rightarrow> string \<Rightarrow> string \<Rightarrow> 8 word list \<Rightarrow> WriteOptions \<Rightarrow> string list \<Rightarrow> 'w \<Rightarrow> TenantConfig answer \<times> 'w" where
  "tenantConfigs_Patch c name pt data options subresources =
     DoConf (tyc_client c)
       [PATCH pt, Resource ''tenantconfigs'', Name name, SubResource subresources,
        VersionedParams (WriteParams options), Body (BytesBody data)] empty_conf"

subsection \<open>NetworkAttachmentDefinition\<close>

text \<open>\<^verbatim>\<open>networkattachmentdefinition.go\<close>.\<close>

definition nads_Get :: "'w nads \<Rightarrow> string \<Rightarrow> GetOptions \<Rightarrow> 'w \<Rightarrow> Nad answer \<times> 'w" where
  "nads_Get c name options =
     DoNad (tyc_client c)
       [GET, Namespace (tyc_ns c), Resource ''network-attachment-definitions'', Name name, VersionedParams (GetParams options)] empty_nad"

definition nads_List :: "'w nads \<Rightarrow> ListOptions \<Rightarrow> 'w \<Rightarrow> Nad list option answer \<times> 'w" where
  "nads_List c options =
     DoNads (tyc_client c)
       [GET, Namespace (tyc_ns c), Resource ''network-attachment-definitions'', VersionedParams (ListParams options),
        Timeout (list_timeout options)] None"

definition nads_Watch :: "'w nads \<Rightarrow> ListOptions \<Rightarrow> 'w \<Rightarrow> (string + watch) \<times> 'w" where
  "nads_Watch c options =
     (let timeout = list_timeout options; options' = options\<lparr>lo_Watch := True\<rparr> in
      DoWatch (tyc_client c)
        [GET, Namespace (tyc_ns c), Resource ''network-attachment-definitions'', VersionedParams (ListParams options'), Timeout timeout])"

definition nads_Create :: "'w nads \<Rightarrow> Nad \<Rightarrow> WriteOptions \<Rightarrow> 'w \<Rightarrow> Nad answer \<times> 'w" where
  "nads_Create c nad options =
     DoNad (tyc_client c)
       [POST, Namespace (tyc_ns c), Resource ''network-attachment-definitions'', VersionedParams (WriteParams options), Body (NadBody nad)] empty_nad"

definition nads_Update :: "'w nads \<Rightarrow> Nad \<Rightarrow> WriteOptions \<Rightarrow> 'w \<Rightarrow> Nad answer \<times> 'w" where
  "nads_Update c nad options =
     DoNad (tyc_client c)
       [PUT, Namespace (tyc_ns c), Resource ''network-attachment-definitions'', Name (mt_Name (nad_Meta nad)), VersionedParams (WriteParams options),
        Body (NadBody nad)] empty_nad"

definition nads_Delete :: "'w nads \<Rightarrow> string \<Rightarrow> DeleteOptions \<Rightarrow> 'w \<Rightarrow> string option \<times> 'w" where
  "nads_Delete c name options =
     DoError (tyc_client c)
       [DELETE, Namespace (tyc_ns c), Resource ''network-attachment-definitions'', Name name, Body (DeleteBody options)]"

definition nads_DeleteCollection :: "'w nads \<Rightarrow> DeleteOptions \<Rightarrow> ListOptions \<Rightarrow> 'w \<Rightarrow> string option \<times> 'w" where
  "nads_DeleteCollection c options listOpts =
     DoError (tyc_client c)
       [DELETE, Namespace (tyc_ns c), Resource ''network-attachment-definitions'', VersionedParams (ListParams listOpts),
        Timeout (list_timeout listOpts), Body (DeleteBody options)]"

definition nads_Patch ::
  "'w nads \<Rightarrow> string \<Rightarrow> string \<Rightarrow> 8 word list \<Rightarrow> WriteOptions \<Rightarrow> string list \<Rightarrow> 'w \<Rightarrow> Nad answer \<times> 'w" where
  "nads_Patch c name pt data options subresources =
     DoNad (tyc_client c)
       [PATCH pt, Namespace (tyc_ns c), Resource ''network-attachment-definitions'', Name name, SubResource subresources,
        VersionedParams (WriteParams options), Body (BytesBody data)] empty_nad"

section \<open>Clients of an API group\<close>

text \<open>
  \<^verbatim>\<open>danm_client.go\<close> and \<^verbatim>\<open>k8s.cni.cncf.io_client.go\<close>. A nil group client
  has no REST client; the receivers of the other methods are the clients that the constructors
  return, which are never nil.
\<close>

record 'w DanmV1Client =
  restClient :: "'w rest_interface"

record 'w K8sCniCncfIoV1Client =
  nad_restClient :: "'w rest_interface"

definition V1_RESTClient :: "'w DanmV1Client option \<Rightarrow> 'w rest_interface option" where
  "V1_RESTClient c = map_option restClient c"

definition Nad_RESTClient :: "'w K8sCniCncfIoV1Client option \<Rightarrow> 'w rest_interface option" where
  "Nad_RESTClient c = map_option nad_restClient c"

definition newDanmNets :: "'w DanmV1Client \<Rightarrow> string \<Rightarrow> 'w danmNets" where
  "newDanmNets c namespace = \<lparr>tyc_client = the (V1_RESTClient (Some c)), tyc_ns = namespace\<rparr>"

definition newTenantNetworks :: "'w DanmV1Client \<Rightarrow> string \<Rightarrow> 'w tenantNetworks" where
  "newTenantNetworks c namespace = \<lparr>tyc_client = the (V1_RESTClient (Some c)), tyc_ns = namespace\<rparr>"

definition newClusterNetworks :: "'w DanmV1Client \<Rightarrow> 'w clusterNetworks" where
  "newClusterNetworks c = \<lparr>tyc_client = the (V1_RESTClient (Some c))\<rparr>"

definition newDanmEps :: "'w DanmV1Client \<Rightarrow> string \<Rightarrow> 'w danmEps" where
  "newDanmEps c namespace = \<lparr>tyc_client = the (V1_RESTClient (Some c)), tyc_ns = namespace\<rparr>"

definition newTenantConfigs :: "'w DanmV1Client \<Rightarrow> 'w tenantConfigs" where
  "newTenantConfigs c = \<lparr>tyc_client = the (V1_RESTClient (Some c))\<rparr>"

definition newNetworkAttachmentDefinitions :: "'w K8sCniCncfIoV1Client \<Rightarrow> string \<Rightarrow> 'w nads" where
  "newNetworkAttachmentDefinitions c namespace =
     \<lparr>tyc_client = the (Nad_RESTClient (Some c)), tyc_ns = namespace\<rparr>"

definition V1_DanmNets :: "'w DanmV1Client \<Rightarrow> string \<Rightarrow> 'w danmNets" where
  "V1_DanmNets c namespace = newDanmNets c namespace"

definition V1_TenantNetworks :: "'w DanmV1Client \<Rightarrow> string \<Rightarrow> 'w tenantNetworks" where
  "V1_TenantNetworks c namespace = newTenantNetworks c namespace"

definition V1_ClusterNetworks :: "'w DanmV1Client \<Rightarrow> 'w clusterNetworks" where
  "V1_ClusterNetworks c = newClusterNetworks c"

definition V1_DanmEps :: "'w DanmV1Client \<Rightarrow> string \<Rightarrow> 'w danmEps" where
  "V1_DanmEps c namespace = newDanmEps c namespace"

definition V1_TenantConfigs :: "'w DanmV1Client \<Rightarrow> 'w tenantConfigs" where
  "V1_TenantConfigs c = newTenantConfigs c"

definition NetworkAttachmentDefinitions :: "'w K8sCniCncfIoV1Client \<Rightarrow> string \<Rightarrow> 'w nads" where
  "NetworkAttachmentDefinitions c namespace = newNetworkAttachmentDefinitions c namespace"

definition V1_New :: "'w rest_interface \<Rightarrow> 'w DanmV1Client" where
  "V1_New c = \<lparr>restClient = c\<rparr>"

definition Nad_New :: "'w rest_interface \<Rightarrow> 'w K8sCniCncfIoV1Client" where
  "Nad_New c = \<lparr>nad_restClient = c\<rparr>"

section \<open>Configurations\<close>

text \<open>
  A configuration with its rate limiter of type \<open>'l\<close>, and what client-go makes of one: a REST
  client, a discovery client of type \<open>'d\<close>, a limiter. The codecs are named by their package.
\<close>

record 'l RestConfig =
  rc_GroupVersion :: "(string \<times> string) option"
  rc_APIPath :: string
  rc_NegotiatedSerializer :: string
  rc_UserAgent :: string
  rc_QPS :: rat
  rc_Burst :: int
  rc_RateLimiter :: "'l option"

record ('l, 'd, 'w) client_go =
  RESTClientFor :: "'l RestConfig \<Rightarrow> string + 'w rest_interface"
  NewDiscoveryClientForConfig :: "'l RestConfig \<Rightarrow> string + 'd"
  NewDiscoveryClient :: "'w rest_interface \<Rightarrow> 'd"
  NewTokenBucketRateLimiter :: "rat \<Rightarrow> int \<Rightarrow> 'l"
  DefaultKubernetesUserAgent :: string

definition V1_setConfigDefaults :: "('l, 'd, 'w) client_go \<Rightarrow> 'l RestConfig \<Rightarrow> 'l RestConfig" where
  "V1_setConfigDefaults cgo config =
     (let config1 = config\<lparr>rc_GroupVersion := Some (''danm.io'', ''v1''), rc_APIPath := ''/apis'',
            rc_NegotiatedSerializer := ''danm''\<rparr>
      in if rc_UserAgent config1 = [] then config1\<lparr>rc_UserAgent := DefaultKubernetesUserAgent cgo\<rparr>
         else config1)"

definition Nad_setConfigDefaults :: "('l, 'd, 'w) client_go \<Rightarrow> 'l RestConfig \<Rightarrow> 'l RestConfig" where
  "Nad_setConfigDefaults cgo config =
     (let config1 = config\<lparr>rc_GroupVersion := Some (''k8s.cni.cncf.io'', ''v1''), rc_APIPath := ''/apis'',
            rc_NegotiatedSerializer := ''nad''\<rparr>
      in if rc_UserAgent config1 = [] then config1\<lparr>rc_UserAgent := DefaultKubernetesUserAgent cgo\<rparr>
         else config1)"

definition V1_NewForConfig :: "('l, 'd, 'w) client_go \<Rightarrow> 'l RestConfig \<Rightarrow> string + 'w DanmV1Client" where
  "V1_NewForConfig cgo c =
     (case RESTClientFor cgo (V1_setConfigDefaults cgo c) of
        Inl err \<Rightarrow> Inl err
      | Inr client \<Rightarrow> Inr \<lparr>restClient = client\<rparr>)"

definition Nad_NewForConfig :: "('l, 'd, 'w) client_go \<Rightarrow> 'l RestConfig \<Rightarrow> string + 'w K8sCniCncfIoV1Client" where
  "Nad_NewForConfig cgo c =
     (case RESTClientFor cgo (Nad_setConfigDefaults cgo c) of
        Inl err \<Rightarrow> Inl err
      | Inr client \<Rightarrow> Inr \<lparr>nad_restClient = client\<rparr>)"

text \<open>The variants that panic.\<close>

definition V1_NewForConfigOrDie :: "('l, 'd, 'w) client_go \<Rightarrow> 'l RestConfig \<Rightarrow> 'w DanmV1Client res" where
  "V1_NewForConfigOrDie cgo c = (case V1_NewForConfig cgo c of Inl _ \<Rightarrow> Panic | Inr client \<Rightarrow> Ok client)"

definition Nad_NewForConfigOrDie :: "('l, 'd, 'w) client_go \<Rightarrow> 'l RestConfig \<Rightarrow> 'w K8sCniCncfIoV1Client res" where
  "Nad_NewForConfigOrDie cgo c = (case Nad_NewForConfig cgo c of Inl _ \<Rightarrow> Panic | Inr client \<Rightarrow> Ok client)"

section \<open>Clientsets\<close>

record ('d, 'w) Clientset =
  cs_DiscoveryClient :: 'd
  cs_danmV1 :: "'w DanmV1Client"

record ('d, 'w) NadClientset =
  ncs_DiscoveryClient :: 'd
  ncs_k8sCniCncfIoV1 :: "'w K8sCniCncfIoV1Client"

definition DanmV1 :: "('d, 'w) Clientset \<Rightarrow> 'w DanmV1Client" where
  "DanmV1 c = cs_danmV1 c"

definition K8sCniCncfIoV1 :: "('d, 'w) NadClientset \<Rightarrow> 'w K8sCniCncfIoV1Client" where
  "K8sCniCncfIoV1 c = ncs_k8sCniCncfIoV1 c"

definition Clientset_Discovery :: "('d, 'w) Clientset option \<Rightarrow> 'd option" where
  "Clientset_Discovery c = map_option cs_DiscoveryClient c"

definition NadClientset_Discovery :: "('d, 'w) NadClientset option \<Rightarrow> 'd option" where
  "NadClientset_Discovery c = map_option ncs_DiscoveryClient c"

definition burst_required :: string where
  "burst_required =
     ''burst is required to be greater than 0 when RateLimiter is not set and QPS is set to greater than 0''"

text \<open>Both clients of a clientset share one limiter, made when the configuration has none.\<close>

definition with_limiter :: "('l, 'd, 'w) client_go \<Rightarrow> 'l RestConfig \<Rightarrow> string + 'l RestConfig" where
  "with_limiter cgo config =
     (if rc_RateLimiter config = None \<and> 0 < rc_QPS config then
        (if rc_Burst config \<le> 0 then Inl burst_required
         else Inr (config\<lparr>rc_RateLimiter := Some (NewTokenBucketRateLimiter cgo (rc_QPS config) (rc_Burst config))\<rparr>))
      else Inr config)"

definition Clientset_NewForConfig :: "('l, 'd, 'w) client_go \<Rightarrow> 'l RestConfig \<Rightarrow> string + ('d, 'w) Clientset" where
  "Clientset_NewForConfig cgo c =
     (case with_limiter cgo c of
        Inl err \<Rightarrow> Inl err
      | Inr configShallowCopy \<Rightarrow>
          (case V1_NewForConfig cgo configShallowCopy of
             Inl err \<Rightarrow> Inl err
           | Inr danmV1 \<Rightarrow>
               (case NewDiscoveryClientForConfig cgo configShallowCopy of
                  Inl err \<Rightarrow> Inl err
                | Inr discovery \<Rightarrow> Inr \<lparr>cs_DiscoveryClient = discovery, cs_danmV1 = danmV1\<rparr>)))"

definition NadClientset_NewForConfig :: "('l, 'd, 'w) client_go \<Rightarrow> 'l RestConfig \<Rightarrow> string + ('d, 'w) NadClientset" where
  "NadClientset_NewForConfig cgo c =
     (case with_limiter cgo c of
        Inl err \<Rightarrow> Inl err
      | Inr configShallowCopy \<Rightarrow>
          (case Nad_NewForConfig cgo configShallowCopy of
             Inl err \<Rightarrow> Inl err
           | Inr nadV1 \<Rightarrow>
               (case NewDiscoveryClientForConfig cgo configShallowCopy of
                  Inl err \<Rightarrow> Inl err
                | Inr discovery \<Rightarrow> Inr \<lparr>ncs_DiscoveryClient = discovery, ncs_k8sCniCncfIoV1 = nadV1\<rparr>)))"

text \<open>These variants use the configuration as it is, without a limiter of their own.\<close>

definition Clientset_NewForConfigOrDie :: "('l, 'd, 'w) client_go \<Rightarrow> 'l RestConfig \<Rightarrow> ('d, 'w) Clientset res" where
  "Clientset_NewForConfigOrDie cgo c =
     bind_res (V1_NewForConfigOrDie cgo c) (\<lambda>danmV1.
       case NewDiscoveryClientForConfig cgo c of
         Inl _ \<Rightarrow> Panic
       | Inr discovery \<Rightarrow> Ok \<lparr>cs_DiscoveryClient = discovery, cs_danmV1 = danmV1\<rparr>)"

definition NadClientset_NewForConfigOrDie :: "('l, 'd, 'w) client_go \<Rightarrow> 'l RestConfig \<Rightarrow> ('d, 'w) NadClientset res" where
  "NadClientset_NewForConfigOrDie cgo c =
     bind_res (Nad_NewForConfigOrDie cgo c) (\<lambda>nadV1.
       case NewDiscoveryClientForConfig cgo c of
         Inl _ \<Rightarrow> Panic
       | Inr discovery \<Rightarrow> Ok \<lparr>ncs_DiscoveryClient = discovery, ncs_k8sCniCncfIoV1 = nadV1\<rparr>)"

definition Clientset_New :: "('l, 'd, 'w) client_go \<Rightarrow> 'w rest_interface \<Rightarrow> ('d, 'w) Clientset" where
  "Clientset_New cgo c = \<lparr>cs_DiscoveryClient = NewDiscoveryClient cgo c, cs_danmV1 = V1_New c\<rparr>"

definition NadClientset_New :: "('l, 'd, 'w) client_go \<Rightarrow> 'w rest_interface \<Rightarrow> ('d, 'w) NadClientset" where
  "NadClientset_New cgo c = \<lparr>ncs_DiscoveryClient = NewDiscoveryClient cgo c, ncs_k8sCniCncfIoV1 = Nad_New c\<rparr>"

end
