(* ===== verification/ClientProps.thy ===== *)
theory ClientProps
  imports RestClient LockServer EpProps
begin

text \<open>
  The generated clients as the client of the other packages (\<open>danm_clientset\<close>), and what they
  achieve there: objects that are written are read back by the program's other operations.
\<close>

section \<open>The clientset behind the program's API calls\<close>

text \<open>
  The calls the packages make: which typed client, which method, with empty options. Callers
  use the object of an answer only when there is no error.
\<close>

definition answer_of :: "'a answer \<times> 'w \<Rightarrow> (string + 'a) \<times> 'w" where
  "answer_of r = (case r of ((x, None), w) \<Rightarrow> (Inr x, w) | ((x, Some msg), w) \<Rightarrow> (Inl msg, w))"

definition error_of :: "'a answer \<times> 'w \<Rightarrow> string option \<times> 'w" where
  "error_of r = (snd (fst r), snd r)"

definition no_list_options :: ListOptions where
  "no_list_options = \<lparr>lo_LabelSelector = [], lo_FieldSelector = [], lo_Watch = False,
     lo_ResourceVersion = [], lo_TimeoutSeconds = None\<rparr>"

definition danm_clientset :: "'w rest_interface \<Rightarrow> 'w DanmClient" where
  "danm_clientset r =
     (let c = V1_New r in
      \<lparr>api_net_update = (\<lambda>api ns n w. error_of
         (case api of
            DanmNets \<Rightarrow> danmNets_Update (V1_DanmNets c ns) n [] w
          | TenantNetworks \<Rightarrow> tenantNetworks_Update (V1_TenantNetworks c ns) n [] w
          | ClusterNetworks \<Rightarrow> clusterNetworks_Update (V1_ClusterNetworks c) n [] w)),
       api_net_get = (\<lambda>api ns name w. answer_of
         (case api of
            DanmNets \<Rightarrow> danmNets_Get (V1_DanmNets c ns) name [] w
          | TenantNetworks \<Rightarrow> tenantNetworks_Get (V1_TenantNetworks c ns) name [] w
          | ClusterNetworks \<Rightarrow> clusterNetworks_Get (V1_ClusterNetworks c) name [] w)),
       api_tconf_list = (\<lambda>w. answer_of (tenantConfigs_List (V1_TenantConfigs c) no_list_options w)),
       api_tconf_update = (\<lambda>t w. error_of (tenantConfigs_Update (V1_TenantConfigs c) t [] w)),
       api_tconf_get = (\<lambda>name w. answer_of (tenantConfigs_Get (V1_TenantConfigs c) name [] w)),
       api_ep_list = (\<lambda>ns w. answer_of (danmEps_List (V1_DanmEps c ns) no_list_options w)),
       api_ep_create = (\<lambda>ns ep w. answer_of (danmEps_Create (V1_DanmEps c ns) ep [] w)),
       api_ep_update = (\<lambda>ns ep w. error_of (danmEps_Update (V1_DanmEps c ns) ep [] w)),
       api_ep_delete = (\<lambda>ns name w. danmEps_Delete (V1_DanmEps c ns) name [] w)\<rparr>)"

text \<open>What a request addresses: namespace, resource and name.\<close>

definition rq_namespace :: "rest_call list \<Rightarrow> string" where
  "rq_namespace cs = concat (map (\<lambda>c. case c of Namespace s \<Rightarrow> s | _ \<Rightarrow> []) cs)"

definition rq_resource :: "rest_call list \<Rightarrow> string" where
  "rq_resource cs = concat (map (\<lambda>c. case c of Resource s \<Rightarrow> s | _ \<Rightarrow> []) cs)"

definition rq_name :: "rest_call list \<Rightarrow> string" where
  "rq_name cs = concat (map (\<lambda>c. case c of Name s \<Rightarrow> s | _ \<Rightarrow> []) cs)"

type_synonym target = "string \<times> string \<times> string"

definition rq_target :: "rest_call list \<Rightarrow> target" where
  "rq_target cs = (rq_resource cs, rq_namespace cs, rq_name cs)"

definition net_resource :: "net_api \<Rightarrow> string" where
  "net_resource api =
     (case api of DanmNets \<Rightarrow> ''danmnets'' | TenantNetworks \<Rightarrow> ''tenantnetworks''
      | ClusterNetworks \<Rightarrow> ''clusternetworks'')"

definition net_target :: "net_api \<Rightarrow> string \<Rightarrow> string \<Rightarrow> target" where
  "net_target api ns name = (net_resource api, api_scope api ns, name)"

lemmas rq_defs = rq_target_def rq_namespace_def rq_resource_def rq_name_def

lemmas client_defs = danm_clientset_def V1_New_def V1_DanmNets_def V1_TenantNetworks_def
  V1_ClusterNetworks_def V1_DanmEps_def V1_TenantConfigs_def newDanmNets_def newTenantNetworks_def
  newClusterNetworks_def newDanmEps_def newTenantConfigs_def V1_RESTClient_def

lemmas net_request_defs = danmNets_Update_def tenantNetworks_Update_def clusterNetworks_Update_def
  danmNets_Get_def tenantNetworks_Get_def clusterNetworks_Get_def

text \<open>Every call on a network is one request that addresses this network.\<close>

definition net_path :: "net_api \<Rightarrow> string \<Rightarrow> rest_call list" where
  "net_path api ns =
     (if api = ClusterNetworks then [] else [Namespace ns]) @ [Resource (net_resource api)]"

definition put_net :: "net_api \<Rightarrow> string \<Rightarrow> DanmNet \<Rightarrow> rest_call list" where
  "put_net api ns n = PUT # net_path api ns @
     [Name (mt_Name (dn_Meta n)), VersionedParams (WriteParams []), Body (NetBody n)]"

definition get_net :: "net_api \<Rightarrow> string \<Rightarrow> string \<Rightarrow> rest_call list" where
  "get_net api ns name = GET # net_path api ns @ [Name name, VersionedParams (GetParams [])]"

lemma update_request:
  "api_net_update (danm_clientset r) api (api_scope api ns) n w = error_of (DoNet r (put_net api ns n) empty_net w)"
  by (cases api) (simp_all add: client_defs net_request_defs put_net_def net_path_def net_resource_def api_scope_def Let_def)

lemma get_request:
  "api_net_get (danm_clientset r) api (api_scope api ns) name w = answer_of (DoNet r (get_net api ns name) empty_net w)"
  by (cases api) (simp_all add: client_defs net_request_defs get_net_def net_path_def net_resource_def api_scope_def Let_def)

lemma net_targets [simp]:
  "rq_target (put_net api ns n) = net_target api ns (mt_Name (dn_Meta n))"
  "rq_target (get_net api ns name) = net_target api ns name"
  "Body (NetBody n) \<in> set (put_net api ns n)" "hd (put_net api ns n) = PUT" "hd (get_net api ns name) = GET"
  by (simp_all add: put_net_def get_net_def net_path_def rq_defs net_target_def api_scope_def)

text \<open>
  What the API server documents of a write: after it accepted an object, a read of the same
  target answers with the specification and the name it was given.
\<close>

definition read_after_write :: "'w rest_interface \<Rightarrow> bool" where
  "read_after_write r \<longleftrightarrow>
     (\<forall>cs cs' n w res w'.
        hd cs = PUT \<and> Body (NetBody n) \<in> set cs \<and> DoNet r cs empty_net w = ((res, None), w') \<and>
        hd cs' = GET \<and> rq_target cs' = rq_target cs \<longrightarrow>
        (\<exists>m. DoNet r cs' empty_net w' = ((m, None), w') \<and> dn_Spec m = dn_Spec n \<and>
           mt_Name (dn_Meta m) = mt_Name (dn_Meta n)))"

lemma written_net_read:
  assumes "read_after_write r"
    and "api_net_update (danm_clientset r) api (api_scope api ns) n w = (None, w')"
  obtains m where "get_named (danm_clientset r) api (api_scope api ns) (mt_Name (dn_Meta n)) w' = (Some m, w')"
    and "dn_Spec m = dn_Spec n" and "mt_Name (dn_Meta m) = mt_Name (dn_Meta n)"
proof -
  obtain res where "DoNet r (put_net api ns n) empty_net w = ((res, None), w')"
    using assms(2) by (cases "DoNet r (put_net api ns n) empty_net w") (auto simp: update_request error_of_def)
  then obtain m where "DoNet r (get_net api ns (mt_Name (dn_Meta n))) empty_net w' = ((m, None), w')"
    and m: "dn_Spec m = dn_Spec n" "mt_Name (dn_Meta m) = mt_Name (dn_Meta n)"
    using assms(1) unfolding read_after_write_def by (metis net_targets)
  then have "get_named (danm_clientset r) api (api_scope api ns) (mt_Name (dn_Meta n)) w' = (Some m, w')"
    by (simp add: get_named_def get_request answer_of_def)
  with m that show ?thesis by blast
qed

text \<open>
  C14. A network that was written is what everybody reads: after \<open>PutNetwork\<close> was accepted, a
  refresh of the network and every interface request that names it, from Pods of its namespace,
  find the written specification, whichever of the three APIs the network belongs to.
\<close>

theorem written_network_read_back:
  assumes "read_after_write r" and "mt_Name (dn_Meta n) \<noteq> []"
    and "PutNetwork (danm_clientset r) n w = (Ok False, w')"
    and "requested iface = map_option (\<lambda>api. (api, mt_Name (dn_Meta n))) (api_of_kind (dn_Kind n))"
  shows "\<exists>m. RefreshNetwork (danm_clientset r) n w' = (Ok m, w') \<and>
    GetNetworkFromInterface (danm_clientset r) iface (mt_Namespace (dn_Meta n)) w' = (Ok m, w') \<and>
    dn_Spec m = dn_Spec n \<and> api_of_kind (dn_Kind m) = api_of_kind (dn_Kind n)"
proof -
  from assms(3) obtain api where api: "api_of_kind (dn_Kind n) = Some api"
    and "api_net_update (danm_clientset r) api (api_scope api (mt_Namespace (dn_Meta n))) n w = (None, w')"
    by (auto simp: PutNetwork_eq split: option.splits prod.splits if_splits)
  from written_net_read [OF assms(1) this(2)] obtain m
    where "get_named (danm_clientset r) api (api_scope api (mt_Namespace (dn_Meta n))) (mt_Name (dn_Meta n)) w' = (Some m, w')"
      and "dn_Spec m = dn_Spec n" by metis
  with api assms(2,4) show ?thesis
    by (simp add: RefreshNetwork_eq GetNetworkFromInterface_requested)
qed

section \<open>Endpoints\<close>

text \<open>After an endpoint was created, a list of all its namespace or of all namespaces has it.\<close>

definition listed_after_create :: "'w rest_interface \<Rightarrow> bool" where
  "listed_after_create r \<longleftrightarrow>
     (\<forall>cs cs' e w res w'.
        hd cs = POST \<and> Body (EpBody e) \<in> set cs \<and> DoEp r cs empty_ep w = ((res, None), w') \<and>
        hd cs' = GET \<and> rq_resource cs' = rq_resource cs \<and> rq_namespace cs' \<in> {[], rq_namespace cs} \<and>
        VersionedParams (ListParams no_list_options) \<in> set cs' \<longrightarrow>
        (\<exists>es m. DoEps r cs' None w' = ((Some es, None), w') \<and> m \<in> set es \<and> ep_Spec m = ep_Spec e))"

definition post_ep :: "string \<Rightarrow> DanmEp \<Rightarrow> rest_call list" where
  "post_ep ns e = [POST, Namespace ns, Resource ''danmeps'', VersionedParams (WriteParams []), Body (EpBody e)]"

definition list_eps :: "string \<Rightarrow> rest_call list" where
  "list_eps ns = [GET, Namespace ns, Resource ''danmeps'',
     VersionedParams (ListParams no_list_options), Timeout 0]"

lemma create_request:
  "api_ep_create (danm_clientset r) ns e w = answer_of (DoEp r (post_ep ns e) empty_ep w)"
  by (simp add: client_defs danmEps_Create_def post_ep_def Let_def)

lemma list_request:
  "api_ep_list (danm_clientset r) ns w = answer_of (DoEps r (list_eps ns) None w)"
  by (simp add: client_defs danmEps_List_def list_eps_def list_timeout_def no_list_options_def Let_def)

lemma created_ep_listed:
  assumes "listed_after_create r" and "api_ep_create (danm_clientset r) ns e w = (Inr e', w')"
    and "ns' \<in> {[], ns}"
  obtains es m where "api_ep_list (danm_clientset r) ns' w' = (Inr (Some es), w')"
    and "m \<in> set es" and "ep_Spec m = ep_Spec e"
proof -
  have "DoEp r (post_ep ns e) empty_ep w = ((e', None), w')"
    using assms(2) by (auto simp: create_request answer_of_def split: prod.splits option.splits)
  moreover have "hd (post_ep ns e) = POST" "Body (EpBody e) \<in> set (post_ep ns e)" "hd (list_eps ns') = GET"
    "rq_resource (list_eps ns') = rq_resource (post_ep ns e)" "rq_namespace (list_eps ns') \<in> {[], rq_namespace (post_ep ns e)}"
    "VersionedParams (ListParams no_list_options) \<in> set (list_eps ns')"
    using assms(3) by (auto simp: post_ep_def list_eps_def rq_defs)
  ultimately obtain es m where "DoEps r (list_eps ns') None w' = ((Some es, None), w')"
    "m \<in> set es" "ep_Spec m = ep_Spec e"
    using assms(1) unfolding listed_after_create_def by meson
  with that show ?thesis by (simp add: list_request answer_of_def)
qed

text \<open>
  C18. An endpoint that was created is found again by everything the program looks for it with: the
  deletion of its container finds it by the container, and the Services by its Pod, with the
  interface and the addresses that the creation recorded.
\<close>

theorem created_endpoint_found:
  assumes "listed_after_create r"
    and "createDanmEp env (danm_clientset r) epInput netInfo args w = (Ok ep, w')"
  shows "\<exists>byCid byPod m. FindByCid (danm_clientset r) (arg_ContainerId args) w' = (Ok byCid, w') \<and>
    m \<in> set byCid \<and> ep_Iface (ep_Spec m) = epInput \<and> ep_NetworkName (ep_Spec m) = mt_Name (dn_Meta netInfo) \<and>
    FindByPodName (danm_clientset r) (arg_PodName args) (arg_Namespace args) w' = (Ok byPod, w') \<and>
    (\<exists>k \<in> set byPod. ep_Spec k = ep_Spec m)"
proof -
  from assms(2) obtain epid host w1
    where create: "api_ep_create (danm_clientset r) (arg_Namespace args) (new_ep epid host epInput netInfo args) w1 = (Inr ep, w')"
    by (auto simp: createDanmEp_def split: prod.splits sum.splits)
  from created_ep_listed [OF assms(1) create, of "[]"] obtain es m
    where es: "api_ep_list (danm_clientset r) [] w' = (Inr (Some es), w')" "m \<in> set es"
      "ep_Spec m = ep_Spec (new_ep epid host epInput netInfo args)" by auto
  from created_ep_listed [OF assms(1) create, of "arg_Namespace args"] obtain ks k
    where ks: "api_ep_list (danm_clientset r) (arg_Namespace args) w' = (Inr (Some ks), w')" "k \<in> set ks"
      "ep_Spec k = ep_Spec (new_ep epid host epInput netInfo args)" by auto
  have "FindByCid (danm_clientset r) (arg_ContainerId args) w' = (Ok (filter (\<lambda>ep. ep_CID (ep_Spec ep) = arg_ContainerId args) es), w')"
    using es(1) by (simp add: FindByCid_def MaxRetryCount_def numeral_eq_Suc ep_items_def)
  moreover have "FindByPodName (danm_clientset r) (arg_PodName args) (arg_Namespace args) w' =
      (Ok (filter (\<lambda>ep. \<not> (arg_PodName args \<noteq> [] \<and> ep_Pod (ep_Spec ep) \<noteq> arg_PodName args)) ks), w')"
    using ks(1) by (simp add: FindByPodName_def ep_items_def)
  moreover have "ep_CID (ep_Spec m) = arg_ContainerId args" "ep_Pod (ep_Spec k) = arg_PodName args"
    "ep_Iface (ep_Spec m) = epInput" "ep_NetworkName (ep_Spec m) = mt_Name (dn_Meta netInfo)" "ep_Spec k = ep_Spec m"
    using es(3) ks(3) by (simp_all add: new_ep_def)
  ultimately show ?thesis using es(2) ks(2) by fastforce
qed

section \<open>A server of objects\<close>

text \<open>
  A server that keeps networks under what requests address, with the optimistic lock of their
  resource versions, and a list of endpoints.
\<close>

record obj_store =
  os_nets :: "target \<Rightarrow> DanmNet option"
  os_eps :: "DanmEp list"

definition body_nets :: "rest_call list \<Rightarrow> DanmNet list" where
  "body_nets cs = concat (map (\<lambda>c. case c of Body (NetBody n) \<Rightarrow> [n] | _ \<Rightarrow> []) cs)"

definition body_eps :: "rest_call list \<Rightarrow> DanmEp list" where
  "body_eps cs = concat (map (\<lambda>c. case c of Body (EpBody e) \<Rightarrow> [e] | _ \<Rightarrow> []) cs)"

definition serve_net :: "rest_call list \<Rightarrow> DanmNet \<Rightarrow> obj_store \<Rightarrow> DanmNet answer \<times> obj_store" where
  "serve_net cs x w =
     (case os_nets w (rq_target cs) of
        None \<Rightarrow> ((x, Some ''not found''), w)
      | Some old \<Rightarrow>
          (if hd cs = GET then ((old, None), w)
           else case body_nets cs of
             [n] \<Rightarrow>
               (if rv n = rv old
                then ((bump n, None), w\<lparr>os_nets := (os_nets w)(rq_target cs \<mapsto> bump n)\<rparr>)
                else ((x, Some OptimisticLockErrorMsg), w))
           | _ \<Rightarrow> ((x, Some ''bad request''), w)))"

definition serve_ep :: "rest_call list \<Rightarrow> DanmEp \<Rightarrow> obj_store \<Rightarrow> DanmEp answer \<times> obj_store" where
  "serve_ep cs x w =
     (case body_eps cs of
        [e] \<Rightarrow> if hd cs = POST \<and> mt_Namespace (ep_Meta e) = rq_namespace cs
               then ((e, None), w\<lparr>os_eps := e # os_eps w\<rparr>) else ((x, Some ''bad request''), w)
      | _ \<Rightarrow> ((x, Some ''bad request''), w))"

definition serve_eps :: "rest_call list \<Rightarrow> DanmEp list option \<Rightarrow> obj_store \<Rightarrow> DanmEp list option answer \<times> obj_store" where
  "serve_eps cs x w =
     ((Some (filter (\<lambda>e. rq_namespace cs \<in> {[], mt_Namespace (ep_Meta e)}) (os_eps w)), None), w)"

text \<open>Deleting an endpoint: by its namespace and name.\<close>

definition ep_key :: "DanmEp \<Rightarrow> string \<times> string" where
  "ep_key e = (mt_Namespace (ep_Meta e), mt_Name (ep_Meta e))"

definition serve_error :: "rest_call list \<Rightarrow> obj_store \<Rightarrow> string option \<times> obj_store" where
  "serve_error cs w =
     (let key = (rq_namespace cs, rq_name cs) in
      if hd cs = DELETE \<and> rq_resource cs = ''danmeps'' then
        (if key \<in> set (map ep_key (os_eps w))
         then (None, w\<lparr>os_eps := filter (\<lambda>e. ep_key e \<noteq> key) (os_eps w)\<rparr>) else (Some ''not found'', w))
      else (None, w))"

definition object_server :: "obj_store rest_interface" where
  "object_server =
     \<lparr>DoNet = serve_net, DoNets = (\<lambda>_ x w. ((x, None), w)), DoEp = serve_ep, DoEps = serve_eps,
      DoConf = (\<lambda>_ x w. ((x, Some ''not found''), w)), DoConfs = (\<lambda>_ x w. ((x, None), w)),
      DoNad = (\<lambda>_ x w. ((x, Some ''not found''), w)), DoNads = (\<lambda>_ x w. ((x, None), w)),
      DoError = serve_error, DoWatch = (\<lambda>_ w. (Inr 0, w))\<rparr>"

lemma body_nets_mem: "Body (NetBody n) \<in> set cs \<Longrightarrow> n \<in> set (body_nets cs)"
  and body_eps_mem: "Body (EpBody e) \<in> set cs \<Longrightarrow> e \<in> set (body_eps cs)"
  by (force simp: body_nets_def body_eps_def)+

lemma object_server_read_after_write: "read_after_write object_server"
  unfolding read_after_write_def
proof (intro allI impI, elim conjE)
  fix cs cs' n w res w'
  assume put: "hd cs = PUT" and body: "Body (NetBody n) \<in> set cs"
    and acc: "DoNet object_server cs empty_net w = ((res, None), w')"
    and get: "hd cs' = GET" "rq_target cs' = rq_target cs"
  from acc put body_nets_mem [OF body] have "w' = w\<lparr>os_nets := (os_nets w)(rq_target cs \<mapsto> bump n)\<rparr>"
    by (auto simp: object_server_def serve_net_def split: option.splits list.splits if_splits)
  with get show "\<exists>m. DoNet object_server cs' empty_net w' = ((m, None), w') \<and> dn_Spec m = dn_Spec n \<and>
      mt_Name (dn_Meta m) = mt_Name (dn_Meta n)"
    by (simp add: object_server_def serve_net_def)
qed

lemma object_server_lists: "listed_after_create object_server"
  unfolding listed_after_create_def
proof (intro allI impI, elim conjE)
  fix cs cs' e w res w'
  assume body: "Body (EpBody e) \<in> set cs" and acc: "DoEp object_server cs empty_ep w = ((res, None), w')"
    and ns: "rq_namespace cs' \<in> {[], rq_namespace cs}"
  from acc body_eps_mem [OF body] have "w' = w\<lparr>os_eps := e # os_eps w\<rparr>" "mt_Namespace (ep_Meta e) = rq_namespace cs"
    by (auto simp: object_server_def serve_ep_def split: list.splits if_splits)
  with ns show "\<exists>es m. DoEps object_server cs' None w' = ((Some es, None), w') \<and> m \<in> set es \<and> ep_Spec m = ep_Spec e"
    by (auto simp: object_server_def serve_eps_def)
qed


section \<open>Witnesses\<close>

definition demo_store :: obj_store where
  "demo_store = \<lparr>os_nets = Map.empty(net_target TenantNetworks ''ns'' ''n1'' \<mapsto> demo_object ''1'' ''wQ==''), os_eps = []\<rparr>"

definition demo_tnet :: DanmNet where
  "demo_tnet = (demo_object ''1'' ''wf8='')\<lparr>dn_Kind := TenantNetworkKind\<rparr>"

lemma demo_tnet_simps [simp]:
  "mt_Name (dn_Meta demo_tnet) = ''n1''" "mt_Namespace (dn_Meta demo_tnet) = ''ns''" "rv demo_tnet = ''1''"
  "dn_Kind demo_tnet = TenantNetworkKind"
  by (simp_all add: demo_tnet_def)

lemma demo_store_net [simp]: "os_nets demo_store (net_target TenantNetworks ''ns'' ''n1'') = Some (demo_object ''1'' ''wQ=='')"
  by (simp add: demo_store_def)

lemma body_nets_put: "body_nets (put_net api ns n) = [n]"
  by (simp add: body_nets_def put_net_def net_path_def)


theorem written_network_read_back_witness:
  "\<exists>m w'. PutNetwork (danm_clientset object_server) demo_tnet demo_store = (Ok False, w') \<and>
     GetNetworkFromInterface (danm_clientset object_server) (empty_iface\<lparr>ifc_TenantNetwork := ''n1''\<rparr>) ''ns'' w' = (Ok m, w') \<and>
     dn_Spec m = dn_Spec demo_tnet"
proof -
  let ?w = "demo_store\<lparr>os_nets := (os_nets demo_store)(net_target TenantNetworks ''ns'' ''n1'' \<mapsto> bump demo_tnet)\<rparr>"
  have put: "PutNetwork (danm_clientset object_server) demo_tnet demo_store = (Ok False, ?w)"
    by (simp add: PutNetwork_eq update_request object_server_def serve_net_def body_nets_put error_of_def)
  have req: "requested (empty_iface\<lparr>ifc_TenantNetwork := ''n1''\<rparr>) =
      map_option (\<lambda>api. (api, mt_Name (dn_Meta demo_tnet))) (api_of_kind (dn_Kind demo_tnet))"
    by (simp add: requested_def empty_iface_def)
  from written_network_read_back [OF object_server_read_after_write _ put req] put show ?thesis by auto
qed

definition demo_host :: "obj_store host_env" where
  "demo_host = \<lparr>NewUuid = (\<lambda>w. (Inr ''e1'', w)), Hostname = Inr ''h1'', PfNameOf = (\<lambda>_. []),
     VfidOf = (\<lambda>_ _. None), PfVfMacs = (\<lambda>_. None), Sysctl = (\<lambda>_ _ w. (None, w))\<rparr>"

theorem created_endpoint_found_witness:
  "\<exists>ep w' byCid. createDanmEp demo_host (danm_clientset object_server) demo_ep_iface demo_tnet demo_args demo_store = (Ok ep, w') \<and>
     FindByCid (danm_clientset object_server) (arg_ContainerId demo_args) w' = (Ok byCid, w') \<and> byCid \<noteq> []"
proof -
  let ?e = "new_ep ''e1'' ''h1'' demo_ep_iface demo_tnet demo_args"
  have "createDanmEp demo_host (danm_clientset object_server) demo_ep_iface demo_tnet demo_args demo_store =
      (Ok ?e, demo_store\<lparr>os_eps := [?e]\<rparr>)"
    by (simp add: createDanmEp_def demo_host_def create_request answer_of_def object_server_def serve_ep_def
        body_eps_def post_ep_def rq_defs demo_store_def new_ep_def)
  from created_endpoint_found [OF object_server_lists this] this show ?thesis by fastforce
qed

end
