(* ===== verification/FakeClient.thy ===== *)
theory FakeClient
  imports RestClient
begin

text \<open>
  The generated fake clients under \<^verbatim>\<open>crd/client/**/fake\<close>, which stand for the API
  server in unit tests: a call becomes an action for the \<^verbatim>\<open>testing.Fake\<close> of
  client-go, a parameter, whose answer is an object (or nil) and an error.
\<close>

section \<open>Actions\<close>

text \<open>
  The actions of client-go's testing package, in the variants for namespaced objects and for
  cluster-wide ones; a patch names its subresources.
\<close>

datatype fake_action =
    GetAction gvr string string
  | ListAction gvr gvr string ListOptions
  | WatchAction gvr string ListOptions
  | CreateAction gvr string runtime_obj
  | UpdateAction gvr string runtime_obj
  | DeleteAction gvr string string
  | DeleteCollectionAction gvr string ListOptions
  | PatchAction gvr string string string "8 word list" "string list"
  | RootGetAction gvr string
  | RootListAction gvr gvr ListOptions
  | RootWatchAction gvr ListOptions
  | RootCreateAction gvr runtime_obj
  | RootUpdateAction gvr runtime_obj
  | RootDeleteAction gvr string
  | RootDeleteCollectionAction gvr ListOptions
  | RootPatchAction gvr string string "8 word list" "string list"

text \<open>
  \<^verbatim>\<open>testing.Fake\<close>; \<open>ExtractFromListOptions\<close> gives the label selector of list
  options, nil for none.
\<close>

record 'w fake =
  Invokes :: "fake_action \<Rightarrow> runtime_obj \<Rightarrow> 'w \<Rightarrow> (runtime_obj option \<times> string option) \<times> 'w"
  InvokesWatch :: "fake_action \<Rightarrow> 'w \<Rightarrow> (string + watch) \<times> 'w"
  ExtractFromListOptions :: "ListOptions \<Rightarrow> (gomap \<Rightarrow> bool) option"

text \<open>
  A nil answer is nil with its error, any other one is asserted to be of the client's type.
\<close>

type_synonym 'a fake_answer = "('a option \<times> string option) res"

definition asserted :: "(runtime_obj \<Rightarrow> 'a option) \<Rightarrow> runtime_obj option \<times> string option \<Rightarrow> 'a fake_answer" where
  "asserted sel r =
     (case r of
        (None, err) \<Rightarrow> Ok (None, err)
      | (Some obj, err) \<Rightarrow> (case sel obj of None \<Rightarrow> Panic | Some x \<Rightarrow> Ok (Some x, err)))"

text \<open>The items of a list that match the labels, appended to a nil slice.\<close>

definition matching_items :: "(gomap \<Rightarrow> bool) option \<Rightarrow> ('a \<Rightarrow> gomap) \<Rightarrow> 'a list option \<Rightarrow> 'a list option" where
  "matching_items label labels_of items =
     (let matches = (case label of None \<Rightarrow> (\<lambda>_. True) | Some f \<Rightarrow> f);
          xs = filter (\<lambda>x. matches (labels_of x)) (case items of None \<Rightarrow> [] | Some ys \<Rightarrow> ys)
      in if xs = [] then None else Some xs)"

definition with_labels ::
  "(gomap \<Rightarrow> bool) option \<Rightarrow> ('a \<Rightarrow> gomap) \<Rightarrow> 'a list option fake_answer \<Rightarrow> 'a list option fake_answer" where
  "with_labels label labels_of r =
     bind_res r (\<lambda>(obj, err). Ok (map_option (matching_items label labels_of) obj, err))"

section \<open>Fake typed clients\<close>

record 'w root_fake =
  fk_Fake :: "'w fake"

record 'w typed_fake = "'w root_fake" +
  fk_ns :: string

type_synonym 'w FakeDanmNets = "'w typed_fake"
type_synonym 'w FakeTenantNetworks = "'w typed_fake"
type_synonym 'w FakeClusterNetworks = "'w root_fake"
type_synonym 'w FakeDanmEps = "'w typed_fake"
type_synonym 'w FakeTenantConfigs = "'w root_fake"
type_synonym 'w FakeNads = "'w typed_fake"

subsection \<open>DanmNet\<close>

definition danmnetsResource :: gvr where "danmnetsResource = (''danm.io'', ''v1'', ''danmnets'')"
definition danmnetsKind :: gvr where "danmnetsKind = (''danm.io'', ''v1'', ''DanmNet'')"

definition FakeDanmNets_Get :: "'w FakeDanmNets \<Rightarrow> string \<Rightarrow> GetOptions \<Rightarrow> 'w \<Rightarrow> DanmNet fake_answer \<times> 'w" where
  "FakeDanmNets_Get c name options w =
     (let (r, w') = Invokes (fk_Fake c) (GetAction danmnetsResource (fk_ns c) name) (RDanmNet empty_net) w
      in (asserted as_RDanmNet r, w'))"

definition FakeDanmNets_List :: "'w FakeDanmNets \<Rightarrow> ListOptions \<Rightarrow> 'w \<Rightarrow> DanmNet list option fake_answer \<times> 'w" where
  "FakeDanmNets_List c options w =
     (let (r, w') = Invokes (fk_Fake c) (ListAction danmnetsResource danmnetsKind (fk_ns c) options) (RDanmNetList None) w
      in (with_labels (ExtractFromListOptions (fk_Fake c) options) (\<lambda>x. mt_Labels (dn_Meta x)) (asserted as_RDanmNetList r), w'))"

definition FakeDanmNets_Watch :: "'w FakeDanmNets \<Rightarrow> ListOptions \<Rightarrow> 'w \<Rightarrow> (string + watch) \<times> 'w" where
  "FakeDanmNets_Watch c options w = InvokesWatch (fk_Fake c) (WatchAction danmnetsResource (fk_ns c) options) w"

definition FakeDanmNets_Create :: "'w FakeDanmNets \<Rightarrow> DanmNet \<Rightarrow> WriteOptions \<Rightarrow> 'w \<Rightarrow> DanmNet fake_answer \<times> 'w" where
  "FakeDanmNets_Create c obj options w =
     (let (r, w') = Invokes (fk_Fake c) (CreateAction danmnetsResource (fk_ns c) (RDanmNet obj)) (RDanmNet empty_net) w
      in (asserted as_RDanmNet r, w'))"

definition FakeDanmNets_Update :: "'w FakeDanmNets \<Rightarrow> DanmNet \<Rightarrow> WriteOptions \<Rightarrow> 'w \<Rightarrow> DanmNet fake_answer \<times> 'w" where
  "FakeDanmNets_Update c obj options w =
     (let (r, w') = Invokes (fk_Fake c) (UpdateAction danmnetsResource (fk_ns c) (RDanmNet obj)) (RDanmNet empty_net) w
      in (asserted as_RDanmNet r, w'))"

definition FakeDanmNets_Delete :: "'w FakeDanmNets \<Rightarrow> string \<Rightarrow> DeleteOptions \<Rightarrow> 'w \<Rightarrow> string option \<times> 'w" where
  "FakeDanmNets_Delete c name options w =
     (let ((_, err), w') = Invokes (fk_Fake c) (DeleteAction danmnetsResource (fk_ns c) name) (RDanmNet empty_net) w
      in (err, w'))"

definition FakeDanmNets_DeleteCollection :: "'w FakeDanmNets \<Rightarrow> DeleteOptions \<Rightarrow> ListOptions \<Rightarrow> 'w \<Rightarrow> string option \<times> 'w" where
  "FakeDanmNets_DeleteCollection c options listOpts w =
     (let action = DeleteCollectionAction danmnetsResource (fk_ns c) listOpts;
          ((_, err), w') = Invokes (fk_Fake c) action (RDanmNetList None) w
      in (err, w'))"

definition FakeDanmNets_Patch ::
  "'w FakeDanmNets \<Rightarrow> string \<Rightarrow> string \<Rightarrow> 8 word list \<Rightarrow> WriteOptions \<Rightarrow> string list \<Rightarrow> 'w \<Rightarrow> DanmNet fake_answer \<times> 'w" where
  "FakeDanmNets_Patch c name pt data options subresources w =
     (let (r, w') = Invokes (fk_Fake c) (PatchAction danmnetsResource (fk_ns c) name pt data subresources) (RDanmNet empty_net) w
      in (asserted as_RDanmNet r, w'))"

subsection \<open>TenantNetwork\<close>

definition tenantnetworksResource :: gvr where "tenantnetworksResource = (''danm.io'', ''v1'', ''tenantnetworks'')"
definition tenantnetworksKind :: gvr where "tenantnetworksKind = (''danm.io'', ''v1'', ''TenantNetwork'')"

definition FakeTenantNetworks_Get :: "'w FakeTenantNetworks \<Rightarrow> string \<Rightarrow> GetOptions \<Rightarrow> 'w \<Rightarrow> DanmNet fake_answer \<times> 'w" where
  "FakeTenantNetworks_Get c name options w =
     (let (r, w') = Invokes (fk_Fake c) (GetAction tenantnetworksResource (fk_ns c) name) (RTenantNetwork empty_net) w
      in (asserted as_RTenantNetwork r, w'))"

definition FakeTenantNetworks_List :: "'w FakeTenantNetworks \<Rightarrow> ListOptions \<Rightarrow> 'w \<Rightarrow> DanmNet list option fake_answer \<times> 'w" where
  "FakeTenantNetworks_List c options w =
     (let (r, w') = Invokes (fk_Fake c) (ListAction tenantnetworksResource tenantnetworksKind (fk_ns c) options) (RTenantNetworkList None) w
      in (with_labels (ExtractFromListOptions (fk_Fake c) options) (\<lambda>x. mt_Labels (dn_Meta x)) (asserted as_RTenantNetworkList r), w'))"

definition FakeTenantNetworks_Watch :: "'w FakeTenantNetworks \<Rightarrow> ListOptions \<Rightarrow> 'w \<Rightarrow> (string + watch) \<times> 'w" where
  "FakeTenantNetworks_Watch c options w = InvokesWatch (fk_Fake c) (WatchAction tenantnetworksResource (fk_ns c) options) w"

definition FakeTenantNetworks_Create :: "'w FakeTenantNetworks \<Rightarrow> DanmNet \<Rightarrow> WriteOptions \<Rightarrow> 'w \<Rightarrow> DanmNet fake_answer \<times> 'w" where
  "FakeTenantNetworks_Create c obj options w =
     (let (r, w') = Invokes (fk_Fake c) (CreateAction tenantnetworksResource (fk_ns c) (RTenantNetwork obj)) (RTenantNetwork empty_net) w
      in (asserted as_RTenantNetwork r, w'))"

definition FakeTenantNetworks_Update :: "'w FakeTenantNetworks \<Rightarrow> DanmNet \<Rightarrow> WriteOptions \<Rightarrow> 'w \<Rightarrow> DanmNet fake_answer \<times> 'w" where
  "FakeTenantNetworks_Update c obj options w =
     (let (r, w') = Invokes (fk_Fake c) (UpdateAction tenantnetworksResource (fk_ns c) (RTenantNetwork obj)) (RTenantNetwork empty_net) w
      in (asserted as_RTenantNetwork r, w'))"

definition FakeTenantNetworks_Delete :: "'w FakeTenantNetworks \<Rightarrow> string \<Rightarrow> DeleteOptions \<Rightarrow> 'w \<Rightarrow> string option \<times> 'w" where
  "FakeTenantNetworks_Delete c name options w =
     (let ((_, err), w') = Invokes (fk_Fake c) (DeleteAction tenantnetworksResource (fk_ns c) name) (RTenantNetwork empty_net) w
      in (err, w'))"

definition FakeTenantNetworks_DeleteCollection :: "'w FakeTenantNetworks \<Rightarrow> DeleteOptions \<Rightarrow> ListOptions \<Rightarrow> 'w \<Rightarrow> string option \<times> 'w" where
  "FakeTenantNetworks_DeleteCollection c options listOpts w =
     (let action = DeleteCollectionAction tenantnetworksResource (fk_ns c) listOpts;
          ((_, err), w') = Invokes (fk_Fake c) action (RTenantNetworkList None) w
      in (err, w'))"

definition FakeTenantNetworks_Patch ::
  "'w FakeTenantNetworks \<Rightarrow> string \<Rightarrow> string \<Rightarrow> 8 word list \<Rightarrow> WriteOptions \<Rightarrow> string list \<Rightarrow> 'w \<Rightarrow> DanmNet fake_answer \<times> 'w" where
  "FakeTenantNetworks_Patch c name pt data options subresources w =
     (let (r, w') = Invokes (fk_Fake c) (PatchAction tenantnetworksResource (fk_ns c) name pt data subresources) (RTenantNetwork empty_net) w
      in (asserted as_RTenantNetwork r, w'))"

subsection \<open>ClusterNetwork\<close>

definition clusternetworksResource :: gvr where "clusternetworksResource = (''danm.io'', ''v1'', ''clusternetworks'')"
definition clusternetworksKind :: gvr where "clusternetworksKind = (''danm.io'', ''v1'', ''ClusterNetwork'')"

definition FakeClusterNetworks_Get :: "'w FakeClusterNetworks \<Rightarrow> string \<Rightarrow> GetOptions \<Rightarrow> 'w \<Rightarrow> DanmNet fake_answer \<times> 'w" where
  "FakeClusterNetworks_Get c name options w =
     (let (r, w') = Invokes (fk_Fake c) (RootGetAction clusternetworksResource name) (RClusterNetwork empty_net) w
      in (asserted as_RClusterNetwork r, w'))"

definition FakeClusterNetworks_List :: "'w FakeClusterNetworks \<Rightarrow> ListOptions \<Rightarrow> 'w \<Rightarrow> DanmNet list option fake_answer \<times> 'w" where
  "FakeClusterNetworks_List c options w =
     (let (r, w') = Invokes (fk_Fake c) (RootListAction clusternetworksResource clusternetworksKind options) (RClusterNetworkList None) w
      in (with_labels (ExtractFromListOptions (fk_Fake c) options) (\<lambda>x. mt_Labels (dn_Meta x)) (asserted as_RClusterNetworkList r), w'))"

definition FakeClusterNetworks_Watch :: "'w FakeClusterNetworks \<Rightarrow> ListOptions \<Rightarrow> 'w \<Rightarrow> (string + watch) \<times> 'w" where
  "FakeClusterNetworks_Watch c options w = InvokesWatch (fk_Fake c) (RootWatchAction clusternetworksResource options) w"

definition FakeClusterNetworks_Create :: "'w FakeClusterNetworks \<Rightarrow> DanmNet \<Rightarrow> WriteOptions \<Rightarrow> 'w \<Rightarrow> DanmNet fake_answer \<times> 'w" where
  "FakeClusterNetworks_Create c obj options w =
     (let (r, w') = Invokes (fk_Fake c) (RootCreateAction clusternetworksResource (RClusterNetwork obj)) (RClusterNetwork empty_net) w
      in (asserted as_RClusterNetwork r, w'))"

definition FakeClusterNetworks_Update :: "'w FakeClusterNetworks \<Rightarrow> DanmNet \<Rightarrow> WriteOptions \<Rightarrow> 'w \<Rightarrow> DanmNet fake_answer \<times> 'w" where
  "FakeClusterNetworks_Update c obj options w =
     (let (r, w') = Invokes (fk_Fake c) (RootUpdateAction clusternetworksResource (RClusterNetwork obj)) (RClusterNetwork empty_net) w
      in (asserted as_RClusterNetwork r, w'))"

definition FakeClusterNetworks_Delete :: "'w FakeClusterNetworks \<Rightarrow> string \<Rightarrow> DeleteOptions \<Rightarrow> 'w \<Rightarrow> string option \<times> 'w" where
  "FakeClusterNetworks_Delete c name options w =
     (let ((_, err), w') = Invokes (fk_Fake c) (RootDeleteAction clusternetworksResource name) (RClusterNetwork empty_net) w
      in (err, w'))"

definition FakeClusterNetworks_DeleteCollection :: "'w FakeClusterNetworks \<Rightarrow> DeleteOptions \<Rightarrow> ListOptions \<Rightarrow> 'w \<Rightarrow> string option \<times> 'w" where
  "FakeClusterNetworks_DeleteCollection c options listOpts w =
     (let action = RootDeleteCollectionAction clusternetworksResource listOpts;
          ((_, err), w') = Invokes (fk_Fake c) action (RClusterNetworkList None) w
      in (err, w'))"

definition FakeClusterNetworks_Patch ::
  "'w FakeClusterNetworks \<Rightarrow> string \<Rightarrow> string \<Rightarrow> 8 word list \<Rightarrow> WriteOptions \<Rightarrow> string list \<Rightarrow> 'w \<Rightarrow> DanmNet fake_answer \<times> 'w" where
  "FakeClusterNetworks_Patch c name pt data options subresources w =
     (let (r, w') = Invokes (fk_Fake c) (RootPatchAction clusternetworksResource name pt data subresources) (RClusterNetwork empty_net) w
      in (asserted as_RClusterNetwork r, w'))"

subsection \<open>DanmEp\<close>

definition danmepsResource :: gvr where "danmepsResource = (''danm.io'', ''v1'', ''danmeps'')"
definition danmepsKind :: gvr where "danmepsKind = (''danm.io'', ''v1'', ''DanmEp'')"

definition FakeDanmEps_Get :: "'w FakeDanmEps \<Rightarrow> string \<Rightarrow> GetOptions \<Rightarrow> 'w \<Rightarrow> DanmEp fake_answer \<times> 'w" where
  "FakeDanmEps_Get c name options w =
     (let (r, w') = Invokes (fk_Fake c) (GetAction danmepsResource (fk_ns c) name) (RDanmEp empty_ep) w
      in (asserted as_RDanmEp r, w'))"

definition FakeDanmEps_List :: "'w FakeDanmEps \<Rightarrow> ListOptions \<Rightarrow> 'w \<Rightarrow> DanmEp list option fake_answer \<times> 'w" where
  "FakeDanmEps_List c options w =
     (let (r, w') = Invokes (fk_Fake c) (ListAction danmepsResource danmepsKind (fk_ns c) options) (RDanmEpList None) w
      in (with_labels (ExtractFromListOptions (fk_Fake c) options) (\<lambda>x. mt_Labels (ep_Meta x)) (asserted as_RDanmEpList r), w'))"

definition FakeDanmEps_Watch :: "'w FakeDanmEps \<Rightarrow> ListOptions \<Rightarrow> 'w \<Rightarrow> (string + watch) \<times> 'w" where
  "FakeDanmEps_Watch c options w = InvokesWatch (fk_Fake c) (WatchAction danmepsResource (fk_ns c) options) w"

definition FakeDanmEps_Create :: "'w FakeDanmEps \<Rightarrow> DanmEp \<Rightarrow> WriteOptions \<Rightarrow> 'w \<Rightarrow> DanmEp fake_answer \<times> 'w" where
  "FakeDanmEps_Create c obj options w =
     (let (r, w') = Invokes (fk_Fake c) (CreateAction danmepsResource (fk_ns c) (RDanmEp obj)) (RDanmEp empty_ep) w
      in (asserted as_RDanmEp r, w'))"

definition FakeDanmEps_Update :: "'w FakeDanmEps \<Rightarrow> DanmEp \<Rightarrow> WriteOptions \<Rightarrow> 'w \<Rightarrow> DanmEp fake_answer \<times> 'w" where
  "FakeDanmEps_Update c obj options w =
     (let (r, w') = Invokes (fk_Fake c) (UpdateAction danmepsResource (fk_ns c) (RDanmEp obj)) (RDanmEp empty_ep) w
      in (asserted as_RDanmEp r, w'))"

definition FakeDanmEps_Delete :: "'w FakeDanmEps \<Rightarrow> string \<Rightarrow> DeleteOptions \<Rightarrow> 'w \<Rightarrow> string option \<times> 'w" where
  "FakeDanmEps_Delete c name options w =
     (let ((_, err), w') = Invokes (fk_Fake c) (DeleteAction danmepsResource (fk_ns c) name) (RDanmEp empty_ep) w
      in (err, w'))"

definition FakeDanmEps_DeleteCollection :: "'w FakeDanmEps \<Rightarrow> DeleteOptions \<Rightarrow> ListOptions \<Rightarrow> 'w \<Rightarrow> string option \<times> 'w" where
  "FakeDanmEps_DeleteCollection c options listOpts w =
     (let action = DeleteCollectionAction danmepsResource (fk_ns c) listOpts;
          ((_, err), w') = Invokes (fk_Fake c) action (RDanmEpList None) w
      in (err, w'))"

definition FakeDanmEps_Patch ::
  "'w FakeDanmEps \<Rightarrow> string \<Rightarrow> string \<Rightarrow> 8 word list \<Rightarrow> WriteOptions \<Rightarrow> string list \<Rightarrow> 'w \<Rightarrow> DanmEp fake_answer \<times> 'w" where
  "FakeDanmEps_Patch c name pt data options subresources w =
     (let (r, w') = Invokes (fk_Fake c) (PatchAction danmepsResource (fk_ns c) name pt data subresources) (RDanmEp empty_ep) w
      in (asserted as_RDanmEp r, w'))"

subsection \<open>TenantConfig\<close>

definition tenantconfigsResource :: gvr where "tenantconfigsResource = (''danm.io'', ''v1'', ''tenantconfigs'')"
definition tenantconfigsKind :: gvr where "tenantconfigsKind = (''danm.io'', ''v1'', ''TenantConfig'')"

definition FakeTenantConfigs_Get :: "'w FakeTenantConfigs \<Rightarrow> string \<Rightarrow> GetOptions \<Rightarrow> 'w \<Rightarrow> TenantConfig fake_answer \<times> 'w" where
  "FakeTenantConfigs_Get c name options w =
     (let (r, w') = Invokes (fk_Fake c) (RootGetAction tenantconfigsResource name) (RTenantConfig empty_conf) w
      in (asserted as_RTenantConfig r, w'))"

definition FakeTenantConfigs_List :: "'w FakeTenantConfigs \<Rightarrow> ListOptions \<Rightarrow> 'w \<Rightarrow> TenantConfig list option fake_answer \<times> 'w" where
  "FakeTenantConfigs_List c options w =
     (let (r, w') = Invokes (fk_Fake c) (RootListAction tenantconfigsResource tenantconfigsKind options) (RTenantConfigList None) w
      in (with_labels (ExtractFromListOptions (fk_Fake c) options) (\<lambda>x. mt_Labels (tc_Meta x)) (asserted as_RTenantConfigList r), w'))"

definition FakeTenantConfigs_Watch :: "'w FakeTenantConfigs \<Rightarrow> ListOptions \<Rightarrow> 'w \<Rightarrow> (string + watch) \<times> 'w" where
  "FakeTenantConfigs_Watch c options w = InvokesWatch (fk_Fake c) (RootWatchAction tenantconfigsResource options) w"

definition FakeTenantConfigs_Create :: "'w FakeTenantConfigs \<Rightarrow> TenantConfig \<Rightarrow> WriteOptions \<Rightarrow> 'w \<Rightarrow> TenantConfig fake_answer \<times> 'w" where
  "FakeTenantConfigs_Create c obj options w =
     (let (r, w') = Invokes (fk_Fake c) (RootCreateAction tenantconfigsResource (RTenantConfig obj)) (RTenantConfig empty_conf) w
      in (asserted as_RTenantConfig r, w'))"

definition FakeTenantConfigs_Update :: "'w FakeTenantConfigs \<Rightarrow> TenantConfig \<Rightarrow> WriteOptions \<Rightarrow> 'w \<Rightarrow> TenantConfig fake_answer \<times> 'w" where
  "FakeTenantConfigs_Update c obj options w =
     (let (r, w') = Invokes (fk_Fake c) (RootUpdateAction tenantconfigsResource (RTenantConfig obj)) (RTenantConfig empty_conf) w
      in (asserted as_RTenantConfig r, w'))"

definition FakeTenantConfigs_Delete :: "'w FakeTenantConfigs \<Rightarrow> string \<Rightarrow> DeleteOptions \<Rightarrow> 'w \<Rightarrow> string option \<times> 'w" where
  "FakeTenantConfigs_Delete c name options w =
     (let ((_, err), w') = Invokes (fk_Fake c) (RootDeleteAction tenantconfigsResource name) (RTenantConfig empty_conf) w
      in (err, w'))"

definition FakeTenantConfigs_DeleteCollection :: "'w FakeTenantConfigs \<Rightarrow> DeleteOptions \<Rightarrow> ListOptions \<Rightarrow> 'w \<Rightarrow> string option \<times> 'w" where
  "FakeTenantConfigs_DeleteCollection c options listOpts w =
     (let action = RootDeleteCollectionAction tenantconfigsResource listOpts;
          ((_, err), w') = Invokes (fk_Fake c) action (RTenantConfigList None) w
      in (err, w'))"

definition FakeTenantConfigs_Patch ::
  "'w FakeTenantConfigs \<Rightarrow> string \<Rightarrow> string \<Rightarrow> 8 word list \<Rightarrow> WriteOptions \<Rightarrow> string list \<Rightarrow> 'w \<Rightarrow> TenantConfig fake_answer \<times> 'w" where
  "FakeTenantConfigs_Patch c name pt data options subresources w =
     (let (r, w') = Invokes (fk_Fake c) (RootPatchAction tenantconfigsResource name pt data subresources) (RTenantConfig empty_conf) w
      in (asserted as_RTenantConfig r, w'))"

subsection \<open>NetworkAttachmentDefinition\<close>

definition networkattachmentdefinitionsResource :: gvr where "networkattachmentdefinitionsResource = (''k8s.cni.cncf.io'', ''v1'', ''network-attachment-definitions'')"
definition networkattachmentdefinitionsKind :: gvr where "networkattachmentdefinitionsKind = (''k8s.cni.cncf.io'', ''v1'', ''NetworkAttachmentDefinition'')"

definition FakeNads_Get :: "'w FakeNads \<Rightarrow> string \<Rightarrow> GetOptions \<Rightarrow> 'w \<Rightarrow> Nad fake_answer \<times> 'w" where
  "FakeNads_Get c name options w =
     (let (r, w') = Invokes (fk_Fake c) (GetAction networkattachmentdefinitionsResource (fk_ns c) name) (RNad empty_nad) w
      in (asserted as_RNad r, w'))"

definition FakeNads_List :: "'w FakeNads \<Rightarrow> ListOptions \<Rightarrow> 'w \<Rightarrow> Nad list option fake_answer \<times> 'w" where
  "FakeNads_List c options w =
     (let (r, w') = Invokes (fk_Fake c) (ListAction networkattachmentdefinitionsResource networkattachmentdefinitionsKind (fk_ns c) options) (RNadList None) w
      in (with_labels (ExtractFromListOptions (fk_Fake c) options) (\<lambda>x. mt_Labels (nad_Meta x)) (asserted as_RNadList r), w'))"

definition FakeNads_Watch :: "'w FakeNads \<Rightarrow> ListOptions \<Rightarrow> 'w \<Rightarrow> (string + watch) \<times> 'w" where
  "FakeNads_Watch c options w = InvokesWatch (fk_Fake c) (WatchAction networkattachmentdefinitionsResource (fk_ns c) options) w"

definition FakeNads_Create :: "'w FakeNads \<Rightarrow> Nad \<Rightarrow> WriteOptions \<Rightarrow> 'w \<Rightarrow> Nad fake_answer \<times> 'w" where
  "FakeNads_Create c obj options w =
     (let (r, w') = Invokes (fk_Fake c) (CreateAction networkattachmentdefinitionsResource (fk_ns c) (RNad obj)) (RNad empty_nad) w
      in (asserted as_RNad r, w'))"

definition FakeNads_Update :: "'w FakeNads \<Rightarrow> Nad \<Rightarrow> WriteOptions \<Rightarrow> 'w \<Rightarrow> Nad fake_answer \<times> 'w" where
  "FakeNads_Update c obj options w =
     (let (r, w') = Invokes (fk_Fake c) (UpdateAction networkattachmentdefinitionsResource (fk_ns c) (RNad obj)) (RNad empty_nad) w
      in (asserted as_RNad r, w'))"

definition FakeNads_Delete :: "'w FakeNads \<Rightarrow> string \<Rightarrow> DeleteOptions \<Rightarrow> 'w \<Rightarrow> string option \<times> 'w" where
  "FakeNads_Delete c name options w =
     (let ((_, err), w') = Invokes (fk_Fake c) (DeleteAction networkattachmentdefinitionsResource (fk_ns c) name) (RNad empty_nad) w
      in (err, w'))"

definition FakeNads_DeleteCollection :: "'w FakeNads \<Rightarrow> DeleteOptions \<Rightarrow> ListOptions \<Rightarrow> 'w \<Rightarrow> string option \<times> 'w" where
  "FakeNads_DeleteCollection c options listOpts w =
     (let action = DeleteCollectionAction networkattachmentdefinitionsResource (fk_ns c) listOpts;
          ((_, err), w') = Invokes (fk_Fake c) action (RNadList None) w
      in (err, w'))"

definition FakeNads_Patch ::
  "'w FakeNads \<Rightarrow> string \<Rightarrow> string \<Rightarrow> 8 word list \<Rightarrow> WriteOptions \<Rightarrow> string list \<Rightarrow> 'w \<Rightarrow> Nad fake_answer \<times> 'w" where
  "FakeNads_Patch c name pt data options subresources w =
     (let (r, w') = Invokes (fk_Fake c) (PatchAction networkattachmentdefinitionsResource (fk_ns c) name pt data subresources) (RNad empty_nad) w
      in (asserted as_RNad r, w'))"

section \<open>Fake group clients and clientsets\<close>

text \<open>The group clients embed the \<^verbatim>\<open>testing.Fake\<close>; they have no REST client.\<close>

record 'w FakeDanmV1 = fv_Fake :: "'w fake"
record 'w FakeK8sCniCncfIoV1 = fn_Fake :: "'w fake"

definition FakeV1_ClusterNetworks :: "'w FakeDanmV1 \<Rightarrow> 'w FakeClusterNetworks" where
  "FakeV1_ClusterNetworks c = \<lparr>fk_Fake = fv_Fake c\<rparr>"

definition FakeV1_DanmEps :: "'w FakeDanmV1 \<Rightarrow> string \<Rightarrow> 'w FakeDanmEps" where
  "FakeV1_DanmEps c namespace = \<lparr>fk_Fake = fv_Fake c, fk_ns = namespace\<rparr>"

definition FakeV1_DanmNets :: "'w FakeDanmV1 \<Rightarrow> string \<Rightarrow> 'w FakeDanmNets" where
  "FakeV1_DanmNets c namespace = \<lparr>fk_Fake = fv_Fake c, fk_ns = namespace\<rparr>"

definition FakeV1_TenantConfigs :: "'w FakeDanmV1 \<Rightarrow> 'w FakeTenantConfigs" where
  "FakeV1_TenantConfigs c = \<lparr>fk_Fake = fv_Fake c\<rparr>"

definition FakeV1_TenantNetworks :: "'w FakeDanmV1 \<Rightarrow> string \<Rightarrow> 'w FakeTenantNetworks" where
  "FakeV1_TenantNetworks c namespace = \<lparr>fk_Fake = fv_Fake c, fk_ns = namespace\<rparr>"

definition FakeNad_NetworkAttachmentDefinitions :: "'w FakeK8sCniCncfIoV1 \<Rightarrow> string \<Rightarrow> 'w FakeNads" where
  "FakeNad_NetworkAttachmentDefinitions c namespace = \<lparr>fk_Fake = fn_Fake c, fk_ns = namespace\<rparr>"

text \<open>
  A fake clientset answers from an object tracker of client-go, which it fills with the given
  objects; an object the tracker refuses panics. Watches come from the tracker too.
\<close>

fun add_objects :: "(runtime_obj \<Rightarrow> 't \<Rightarrow> string + 't) \<Rightarrow> runtime_obj list \<Rightarrow> 't \<Rightarrow> 't res" where
  "add_objects Add [] tracker = Ok tracker"
| "add_objects Add (obj # objs) tracker =
     (case Add obj tracker of Inl err \<Rightarrow> Panic | Inr tracker' \<Rightarrow> add_objects Add objs tracker')"

definition watch_reactor :: "(gvr \<Rightarrow> string \<Rightarrow> string + watch) \<Rightarrow> gvr \<Rightarrow> string \<Rightarrow> bool \<times> watch option \<times> string option" where
  "watch_reactor tracker_watch gvr ns =
     (case tracker_watch gvr ns of
        Inl err \<Rightarrow> (False, None, Some err)
      | Inr w \<Rightarrow> (True, Some w, None))"

end
