(* ===== verification/FakeProps.thy ===== *)
theory FakeProps
  imports FakeClient ClientProps
begin

text \<open>
  The interfaces that the generated clients and their fakes both implement, and their agreement:
  a fake turns every call into the action that stands for the request of the real client.
\<close>

section \<open>The interface of a typed client\<close>

text \<open>
  \<^verbatim>\<open>DanmNetInterface\<close> and its five siblings, which differ in the type of their objects.
\<close>

record ('a, 'w) api_interface =
  ai_Create :: "'a \<Rightarrow> WriteOptions \<Rightarrow> 'w \<Rightarrow> 'a fake_answer \<times> 'w"
  ai_Update :: "'a \<Rightarrow> WriteOptions \<Rightarrow> 'w \<Rightarrow> 'a fake_answer \<times> 'w"
  ai_Delete :: "string \<Rightarrow> DeleteOptions \<Rightarrow> 'w \<Rightarrow> string option \<times> 'w"
  ai_DeleteCollection :: "DeleteOptions \<Rightarrow> ListOptions \<Rightarrow> 'w \<Rightarrow> string option \<times> 'w"
  ai_Get :: "string \<Rightarrow> GetOptions \<Rightarrow> 'w \<Rightarrow> 'a fake_answer \<times> 'w"
  ai_List :: "ListOptions \<Rightarrow> 'w \<Rightarrow> 'a list option fake_answer \<times> 'w"
  ai_Watch :: "ListOptions \<Rightarrow> 'w \<Rightarrow> (string + watch) \<times> 'w"
  ai_Patch :: "string \<Rightarrow> string \<Rightarrow> 8 word list \<Rightarrow> WriteOptions \<Rightarrow> string list \<Rightarrow> 'w \<Rightarrow> 'a fake_answer \<times> 'w"

text \<open>The real clients always return an object beside their error.\<close>

definition as_fake :: "'a answer \<times> 'w \<Rightarrow> 'a fake_answer \<times> 'w" where
  "as_fake r = (Ok (Some (fst (fst r)), snd (fst r)), snd r)"

definition danmNets_interface :: "'w danmNets \<Rightarrow> (DanmNet, 'w) api_interface" where
  "danmNets_interface c =
     \<lparr>ai_Create = (\<lambda>x options w. as_fake (danmNets_Create c x options w)),
      ai_Update = (\<lambda>x options w. as_fake (danmNets_Update c x options w)),
      ai_Delete = danmNets_Delete c, ai_DeleteCollection = danmNets_DeleteCollection c,
      ai_Get = (\<lambda>name options w. as_fake (danmNets_Get c name options w)),
      ai_List = (\<lambda>options w. as_fake (danmNets_List c options w)), ai_Watch = danmNets_Watch c,
      ai_Patch = (\<lambda>name pt data options subs w. as_fake (danmNets_Patch c name pt data options subs w))\<rparr>"

definition FakeDanmNets_interface :: "'w FakeDanmNets \<Rightarrow> (DanmNet, 'w) api_interface" where
  "FakeDanmNets_interface c =
     \<lparr>ai_Create = FakeDanmNets_Create c, ai_Update = FakeDanmNets_Update c, ai_Delete = FakeDanmNets_Delete c,
      ai_DeleteCollection = FakeDanmNets_DeleteCollection c, ai_Get = FakeDanmNets_Get c, ai_List = FakeDanmNets_List c,
      ai_Watch = FakeDanmNets_Watch c, ai_Patch = FakeDanmNets_Patch c\<rparr>"

definition tenantNetworks_interface :: "'w tenantNetworks \<Rightarrow> (DanmNet, 'w) api_interface" where
  "tenantNetworks_interface c =
     \<lparr>ai_Create = (\<lambda>x options w. as_fake (tenantNetworks_Create c x options w)),
      ai_Update = (\<lambda>x options w. as_fake (tenantNetworks_Update c x options w)),
      ai_Delete = tenantNetworks_Delete c, ai_DeleteCollection = tenantNetworks_DeleteCollection c,
      ai_Get = (\<lambda>name options w. as_fake (tenantNetworks_Get c name options w)),
      ai_List = (\<lambda>options w. as_fake (tenantNetworks_List c options w)), ai_Watch = tenantNetworks_Watch c,
      ai_Patch = (\<lambda>name pt data options subs w. as_fake (tenantNetworks_Patch c name pt data options subs w))\<rparr>"

definition FakeTenantNetworks_interface :: "'w FakeTenantNetworks \<Rightarrow> (DanmNet, 'w) api_interface" where
  "FakeTenantNetworks_interface c =
     \<lparr>ai_Create = FakeTenantNetworks_Create c, ai_Update = FakeTenantNetworks_Update c, ai_Delete = FakeTenantNetworks_Delete c,
      ai_DeleteCollection = FakeTenantNetworks_DeleteCollection c, ai_Get = FakeTenantNetworks_Get c, ai_List = FakeTenantNetworks_List c,
      ai_Watch = FakeTenantNetworks_Watch c, ai_Patch = FakeTenantNetworks_Patch c\<rparr>"

definition clusterNetworks_interface :: "'w clusterNetworks \<Rightarrow> (DanmNet, 'w) api_interface" where
  "clusterNetworks_interface c =
     \<lparr>ai_Create = (\<lambda>x options w. as_fake (clusterNetworks_Create c x options w)),
      ai_Update = (\<lambda>x options w. as_fake (clusterNetworks_Update c x options w)),
      ai_Delete = clusterNetworks_Delete c, ai_DeleteCollection = clusterNetworks_DeleteCollection c,
      ai_Get = (\<lambda>name options w. as_fake (clusterNetworks_Get c name options w)),
      ai_List = (\<lambda>options w. as_fake (clusterNetworks_List c options w)), ai_Watch = clusterNetworks_Watch c,
      ai_Patch = (\<lambda>name pt data options subs w. as_fake (clusterNetworks_Patch c name pt data options subs w))\<rparr>"

definition FakeClusterNetworks_interface :: "'w FakeClusterNetworks \<Rightarrow> (DanmNet, 'w) api_interface" where
  "FakeClusterNetworks_interface c =
     \<lparr>ai_Create = FakeClusterNetworks_Create c, ai_Update = FakeClusterNetworks_Update c, ai_Delete = FakeClusterNetworks_Delete c,
      ai_DeleteCollection = FakeClusterNetworks_DeleteCollection c, ai_Get = FakeClusterNetworks_Get c, ai_List = FakeClusterNetworks_List c,
      ai_Watch = FakeClusterNetworks_Watch c, ai_Patch = FakeClusterNetworks_Patch c\<rparr>"

definition danmEps_interface :: "'w danmEps \<Rightarrow> (DanmEp, 'w) api_interface" where
  "danmEps_interface c =
     \<lparr>ai_Create = (\<lambda>x options w. as_fake (danmEps_Create c x options w)),
      ai_Update = (\<lambda>x options w. as_fake (danmEps_Update c x options w)),
      ai_Delete = danmEps_Delete c, ai_DeleteCollection = danmEps_DeleteCollection c,
      ai_Get = (\<lambda>name options w. as_fake (danmEps_Get c name options w)),
      ai_List = (\<lambda>options w. as_fake (danmEps_List c options w)), ai_Watch = danmEps_Watch c,
      ai_Patch = (\<lambda>name pt data options subs w. as_fake (danmEps_Patch c name pt data options subs w))\<rparr>"

definition FakeDanmEps_interface :: "'w FakeDanmEps \<Rightarrow> (DanmEp, 'w) api_interface" where
  "FakeDanmEps_interface c =
     \<lparr>ai_Create = FakeDanmEps_Create c, ai_Update = FakeDanmEps_Update c, ai_Delete = FakeDanmEps_Delete c,
      ai_DeleteCollection = FakeDanmEps_DeleteCollection c, ai_Get = FakeDanmEps_Get c, ai_List = FakeDanmEps_List c,
      ai_Watch = FakeDanmEps_Watch c, ai_Patch = FakeDanmEps_Patch c\<rparr>"

definition tenantConfigs_interface :: "'w tenantConfigs \<Rightarrow> (TenantConfig, 'w) api_interface" where
  "tenantConfigs_interface c =
     \<lparr>ai_Create = (\<lambda>x options w. as_fake (tenantConfigs_Create c x options w)),
      ai_Update = (\<lambda>x options w. as_fake (tenantConfigs_Update c x options w)),
      ai_Delete = tenantConfigs_Delete c, ai_DeleteCollection = tenantConfigs_DeleteCollection c,
      ai_Get = (\<lambda>name options w. as_fake (tenantConfigs_Get c name options w)),
      ai_List = (\<lambda>options w. as_fake (tenantConfigs_List c options w)), ai_Watch = tenantConfigs_Watch c,
      ai_Patch = (\<lambda>name pt data options subs w. as_fake (tenantConfigs_Patch c name pt data options subs w))\<rparr>"

definition FakeTenantConfigs_interface :: "'w FakeTenantConfigs \<Rightarrow> (TenantConfig, 'w) api_interface" where
  "FakeTenantConfigs_interface c =
     \<lparr>ai_Create = FakeTenantConfigs_Create c, ai_Update = FakeTenantConfigs_Update c, ai_Delete = FakeTenantConfigs_Delete c,
      ai_DeleteCollection = FakeTenantConfigs_DeleteCollection c, ai_Get = FakeTenantConfigs_Get c, ai_List = FakeTenantConfigs_List c,
      ai_Watch = FakeTenantConfigs_Watch c, ai_Patch = FakeTenantConfigs_Patch c\<rparr>"

definition nads_interface :: "'w nads \<Rightarrow> (Nad, 'w) api_interface" where
  "nads_interface c =
     \<lparr>ai_Create = (\<lambda>x options w. as_fake (nads_Create c x options w)),
      ai_Update = (\<lambda>x options w. as_fake (nads_Update c x options w)),
      ai_Delete = nads_Delete c, ai_DeleteCollection = nads_DeleteCollection c,
      ai_Get = (\<lambda>name options w. as_fake (nads_Get c name options w)),
      ai_List = (\<lambda>options w. as_fake (nads_List c options w)), ai_Watch = nads_Watch c,
      ai_Patch = (\<lambda>name pt data options subs w. as_fake (nads_Patch c name pt data options subs w))\<rparr>"

definition FakeNads_interface :: "'w FakeNads \<Rightarrow> (Nad, 'w) api_interface" where
  "FakeNads_interface c =
     \<lparr>ai_Create = FakeNads_Create c, ai_Update = FakeNads_Update c, ai_Delete = FakeNads_Delete c,
      ai_DeleteCollection = FakeNads_DeleteCollection c, ai_Get = FakeNads_Get c, ai_List = FakeNads_List c,
      ai_Watch = FakeNads_Watch c, ai_Patch = FakeNads_Patch c\<rparr>"

section \<open>Calls and what they address\<close>

datatype 'a api_call =
    CreateCall 'a WriteOptions
  | UpdateCall 'a WriteOptions
  | DeleteCall string DeleteOptions
  | DeleteCollectionCall DeleteOptions ListOptions
  | GetCall string GetOptions
  | ListCall ListOptions
  | WatchCall ListOptions
  | PatchCall string string "8 word list" WriteOptions "string list"

fun perform :: "('a, 'w) api_interface \<Rightarrow> 'a api_call \<Rightarrow> 'w \<Rightarrow> 'w" where
  "perform i (CreateCall x options) w = snd (ai_Create i x options w)"
| "perform i (UpdateCall x options) w = snd (ai_Update i x options w)"
| "perform i (DeleteCall name options) w = snd (ai_Delete i name options w)"
| "perform i (DeleteCollectionCall options listOptions) w = snd (ai_DeleteCollection i options listOptions w)"
| "perform i (GetCall name options) w = snd (ai_Get i name options w)"
| "perform i (ListCall options) w = snd (ai_List i options w)"
| "perform i (WatchCall options) w = snd (ai_Watch i options w)"
| "perform i (PatchCall name pt data options subs) w = snd (ai_Patch i name pt data options subs w)"

text \<open>A server that records the method and the target of every request.\<close>

type_synonym request_log = "(rest_call \<times> target) list"

definition note_request :: "rest_call list \<Rightarrow> request_log \<Rightarrow> request_log" where
  "note_request cs w = (hd cs, rq_target cs) # w"

definition recording_rest :: "request_log rest_interface" where
  "recording_rest =
     \<lparr>DoNet = (\<lambda>cs x w. ((x, None), note_request cs w)), DoNets = (\<lambda>cs x w. ((x, None), note_request cs w)),
      DoEp = (\<lambda>cs x w. ((x, None), note_request cs w)), DoEps = (\<lambda>cs x w. ((x, None), note_request cs w)),
      DoConf = (\<lambda>cs x w. ((x, None), note_request cs w)), DoConfs = (\<lambda>cs x w. ((x, None), note_request cs w)),
      DoNad = (\<lambda>cs x w. ((x, None), note_request cs w)), DoNads = (\<lambda>cs x w. ((x, None), note_request cs w)),
      DoError = (\<lambda>cs w. (None, note_request cs w)), DoWatch = (\<lambda>cs w. (Inr 0, note_request cs w))\<rparr>"

text \<open>The request an action stands for; an update is addressed by the name of its object.\<close>

fun object_name :: "runtime_obj \<Rightarrow> string" where
  "object_name (RDanmNet x) = mt_Name (dn_Meta x)"
| "object_name (RTenantNetwork x) = mt_Name (dn_Meta x)"
| "object_name (RClusterNetwork x) = mt_Name (dn_Meta x)"
| "object_name (RDanmEp x) = mt_Name (ep_Meta x)"
| "object_name (RTenantConfig x) = mt_Name (tc_Meta x)"
| "object_name (RNad x) = mt_Name (nad_Meta x)"
| "object_name _ = []"

fun action_request :: "fake_action \<Rightarrow> rest_call \<times> target" where
  "action_request (GetAction (g, v, r) ns name) = (GET, r, ns, name)"
| "action_request (ListAction (g, v, r) k ns options) = (GET, r, ns, [])"
| "action_request (WatchAction (g, v, r) ns options) = (GET, r, ns, [])"
| "action_request (CreateAction (g, v, r) ns obj) = (POST, r, ns, [])"
| "action_request (UpdateAction (g, v, r) ns obj) = (PUT, r, ns, object_name obj)"
| "action_request (DeleteAction (g, v, r) ns name) = (DELETE, r, ns, name)"
| "action_request (DeleteCollectionAction (g, v, r) ns options) = (DELETE, r, ns, [])"
| "action_request (PatchAction (g, v, r) ns name pt data subs) = (PATCH pt, r, ns, name)"
| "action_request (RootGetAction (g, v, r) name) = (GET, r, [], name)"
| "action_request (RootListAction (g, v, r) k options) = (GET, r, [], [])"
| "action_request (RootWatchAction (g, v, r) options) = (GET, r, [], [])"
| "action_request (RootCreateAction (g, v, r) obj) = (POST, r, [], [])"
| "action_request (RootUpdateAction (g, v, r) obj) = (PUT, r, [], object_name obj)"
| "action_request (RootDeleteAction (g, v, r) name) = (DELETE, r, [], name)"
| "action_request (RootDeleteCollectionAction (g, v, r) options) = (DELETE, r, [], [])"
| "action_request (RootPatchAction (g, v, r) name pt data subs) = (PATCH pt, r, [], name)"

definition recording_fake :: "request_log fake" where
  "recording_fake =
     \<lparr>Invokes = (\<lambda>a x w. ((Some x, None), action_request a # w)),
      InvokesWatch = (\<lambda>a w. (Inr 0, action_request a # w)), ExtractFromListOptions = (\<lambda>_. None)\<rparr>"

lemmas record_defs = as_fake_def recording_rest_def recording_fake_def note_request_def rq_defs Let_def
  client_defs NetworkAttachmentDefinitions_def newNetworkAttachmentDefinitions_def Nad_RESTClient_def Nad_New_def
  FakeV1_DanmNets_def FakeV1_TenantNetworks_def FakeV1_ClusterNetworks_def FakeV1_DanmEps_def
  FakeV1_TenantConfigs_def FakeNad_NetworkAttachmentDefinitions_def

lemma danmNets_agree:
  "perform (danmNets_interface (V1_DanmNets (V1_New recording_rest) ns)) call w =
   perform (FakeDanmNets_interface (FakeV1_DanmNets \<lparr>fv_Fake = recording_fake\<rparr> ns)) call w"
  by (cases call)
    (simp_all add: danmNets_interface_def FakeDanmNets_interface_def record_defs danmnetsResource_def danmnetsKind_def
      danmNets_Get_def danmNets_List_def danmNets_Watch_def danmNets_Create_def danmNets_Update_def danmNets_Delete_def danmNets_DeleteCollection_def danmNets_Patch_def
      FakeDanmNets_Get_def FakeDanmNets_List_def FakeDanmNets_Watch_def FakeDanmNets_Create_def FakeDanmNets_Update_def FakeDanmNets_Delete_def FakeDanmNets_DeleteCollection_def FakeDanmNets_Patch_def)

lemma tenantNetworks_agree:
  "perform (tenantNetworks_interface (V1_TenantNetworks (V1_New recording_rest) ns)) call w =
   perform (FakeTenantNetworks_interface (FakeV1_TenantNetworks \<lparr>fv_Fake = recording_fake\<rparr> ns)) call w"
  by (cases call)
    (simp_all add: tenantNetworks_interface_def FakeTenantNetworks_interface_def record_defs tenantnetworksResource_def tenantnetworksKind_def
      tenantNetworks_Get_def tenantNetworks_List_def tenantNetworks_Watch_def tenantNetworks_Create_def tenantNetworks_Update_def tenantNetworks_Delete_def tenantNetworks_DeleteCollection_def tenantNetworks_Patch_def
      FakeTenantNetworks_Get_def FakeTenantNetworks_List_def FakeTenantNetworks_Watch_def FakeTenantNetworks_Create_def FakeTenantNetworks_Update_def FakeTenantNetworks_Delete_def FakeTenantNetworks_DeleteCollection_def FakeTenantNetworks_Patch_def)

lemma clusterNetworks_agree:
  "perform (clusterNetworks_interface (V1_ClusterNetworks (V1_New recording_rest))) call w =
   perform (FakeClusterNetworks_interface (FakeV1_ClusterNetworks \<lparr>fv_Fake = recording_fake\<rparr>)) call w"
  by (cases call)
    (simp_all add: clusterNetworks_interface_def FakeClusterNetworks_interface_def record_defs clusternetworksResource_def clusternetworksKind_def
      clusterNetworks_Get_def clusterNetworks_List_def clusterNetworks_Watch_def clusterNetworks_Create_def clusterNetworks_Update_def clusterNetworks_Delete_def clusterNetworks_DeleteCollection_def clusterNetworks_Patch_def
      FakeClusterNetworks_Get_def FakeClusterNetworks_List_def FakeClusterNetworks_Watch_def FakeClusterNetworks_Create_def FakeClusterNetworks_Update_def FakeClusterNetworks_Delete_def FakeClusterNetworks_DeleteCollection_def FakeClusterNetworks_Patch_def)

lemma danmEps_agree:
  "perform (danmEps_interface (V1_DanmEps (V1_New recording_rest) ns)) call w =
   perform (FakeDanmEps_interface (FakeV1_DanmEps \<lparr>fv_Fake = recording_fake\<rparr> ns)) call w"
  by (cases call)
    (simp_all add: danmEps_interface_def FakeDanmEps_interface_def record_defs danmepsResource_def danmepsKind_def
      danmEps_Get_def danmEps_List_def danmEps_Watch_def danmEps_Create_def danmEps_Update_def danmEps_Delete_def danmEps_DeleteCollection_def danmEps_Patch_def
      FakeDanmEps_Get_def FakeDanmEps_List_def FakeDanmEps_Watch_def FakeDanmEps_Create_def FakeDanmEps_Update_def FakeDanmEps_Delete_def FakeDanmEps_DeleteCollection_def FakeDanmEps_Patch_def)

lemma tenantConfigs_agree:
  "perform (tenantConfigs_interface (V1_TenantConfigs (V1_New recording_rest))) call w =
   perform (FakeTenantConfigs_interface (FakeV1_TenantConfigs \<lparr>fv_Fake = recording_fake\<rparr>)) call w"
  by (cases call)
    (simp_all add: tenantConfigs_interface_def FakeTenantConfigs_interface_def record_defs tenantconfigsResource_def tenantconfigsKind_def
      tenantConfigs_Get_def tenantConfigs_List_def tenantConfigs_Watch_def tenantConfigs_Create_def tenantConfigs_Update_def tenantConfigs_Delete_def tenantConfigs_DeleteCollection_def tenantConfigs_Patch_def
      FakeTenantConfigs_Get_def FakeTenantConfigs_List_def FakeTenantConfigs_Watch_def FakeTenantConfigs_Create_def FakeTenantConfigs_Update_def FakeTenantConfigs_Delete_def FakeTenantConfigs_DeleteCollection_def FakeTenantConfigs_Patch_def)

lemma nads_agree:
  "perform (nads_interface (NetworkAttachmentDefinitions (Nad_New recording_rest) ns)) call w =
   perform (FakeNads_interface (FakeNad_NetworkAttachmentDefinitions \<lparr>fn_Fake = recording_fake\<rparr> ns)) call w"
  by (cases call)
    (simp_all add: nads_interface_def FakeNads_interface_def record_defs networkattachmentdefinitionsResource_def networkattachmentdefinitionsKind_def
      nads_Get_def nads_List_def nads_Watch_def nads_Create_def nads_Update_def nads_Delete_def nads_DeleteCollection_def nads_Patch_def
      FakeNads_Get_def FakeNads_List_def FakeNads_Watch_def FakeNads_Create_def FakeNads_Update_def FakeNads_Delete_def FakeNads_DeleteCollection_def FakeNads_Patch_def)

text \<open>
  C32. Unit tests with the fake clientsets exercise what production does: for every API and every
  call, the action a fake invokes has the method, resource, namespace and name of the request the
  real client sends.
\<close>

theorem fake_clients_agree:
  "perform (danmNets_interface (V1_DanmNets (V1_New recording_rest) ns)) netCall w =
     perform (FakeDanmNets_interface (FakeV1_DanmNets \<lparr>fv_Fake = recording_fake\<rparr> ns)) netCall w \<and>
   perform (tenantNetworks_interface (V1_TenantNetworks (V1_New recording_rest) ns)) netCall w =
     perform (FakeTenantNetworks_interface (FakeV1_TenantNetworks \<lparr>fv_Fake = recording_fake\<rparr> ns)) netCall w \<and>
   perform (clusterNetworks_interface (V1_ClusterNetworks (V1_New recording_rest))) netCall w =
     perform (FakeClusterNetworks_interface (FakeV1_ClusterNetworks \<lparr>fv_Fake = recording_fake\<rparr>)) netCall w \<and>
   perform (danmEps_interface (V1_DanmEps (V1_New recording_rest) ns)) epCall w =
     perform (FakeDanmEps_interface (FakeV1_DanmEps \<lparr>fv_Fake = recording_fake\<rparr> ns)) epCall w \<and>
   perform (tenantConfigs_interface (V1_TenantConfigs (V1_New recording_rest))) confCall w =
     perform (FakeTenantConfigs_interface (FakeV1_TenantConfigs \<lparr>fv_Fake = recording_fake\<rparr>)) confCall w \<and>
   perform (nads_interface (NetworkAttachmentDefinitions (Nad_New recording_rest) ns)) nadCall w =
     perform (FakeNads_interface (FakeNad_NetworkAttachmentDefinitions \<lparr>fn_Fake = recording_fake\<rparr> ns)) nadCall w"
  by (intro conjI danmNets_agree tenantNetworks_agree clusterNetworks_agree danmEps_agree tenantConfigs_agree nads_agree)

end
