(* ===== verification/Informers.thy ===== *)
theory Informers
  imports FakeClient
begin

text \<open>
  The generated informers under \<^verbatim>\<open>crd/client/informers\<close> and
  \<^verbatim>\<open>crd/client/nad/informers\<close>: the factory that makes one shared informer per type and
  starts each of them once, and the informers of the APIs. An informer of client-go's
  \<^verbatim>\<open>cache\<close> is the record of what it is made from; running one is third-party code, so
  that starting returns the informers to run. A factory is a pointer in the code and a state here.
  Its mutex makes every operation one step.
\<close>

section \<open>The factory\<close>

type_synonym duration = "64 word"

datatype obj_type = TDanmNet | TTenantNetwork | TClusterNetwork | TDanmEp | TTenantConfig | TNad

record 'w shared_informer =
  si_ListFunc :: "ListOptions \<Rightarrow> 'w \<Rightarrow> runtime_obj answer \<times> 'w"
  si_WatchFunc :: "ListOptions \<Rightarrow> 'w \<Rightarrow> (string + watch) \<times> 'w"
  si_Type :: obj_type
  si_Resync :: duration
  si_Indexers :: "string list"

type_synonym TweakListOptionsFunc = "ListOptions \<Rightarrow> ListOptions"
type_synonym ('c, 'w) NewInformerFunc = "'c \<Rightarrow> duration \<Rightarrow> 'w shared_informer"

record ('c, 'w) sharedInformerFactory =
  fa_client :: 'c
  fa_namespace :: string
  fa_tweakListOptions :: "TweakListOptionsFunc option"
  fa_defaultResync :: duration
  fa_customResync :: "(obj_type \<times> duration) list"
  fa_informers :: "(obj_type \<times> 'w shared_informer) list"
  fa_startedInformers :: "(obj_type \<times> bool) list"

type_synonym ('c, 'w) SharedInformerOption = "('c, 'w) sharedInformerFactory \<Rightarrow> ('c, 'w) sharedInformerFactory"

definition WithCustomResyncConfig :: "(obj_type \<times> duration) list \<Rightarrow> ('c, 'w) SharedInformerOption" where
  "WithCustomResyncConfig resyncConfig factory =
     factory\<lparr>fa_customResync := fold (\<lambda>(k, v) m. AList.update k v m) resyncConfig (fa_customResync factory)\<rparr>"

definition WithTweakListOptions :: "TweakListOptionsFunc option \<Rightarrow> ('c, 'w) SharedInformerOption" where
  "WithTweakListOptions tweakListOptions factory = factory\<lparr>fa_tweakListOptions := tweakListOptions\<rparr>"

definition WithNamespace :: "string \<Rightarrow> ('c, 'w) SharedInformerOption" where
  "WithNamespace namespace factory = factory\<lparr>fa_namespace := namespace\<rparr>"

definition NewSharedInformerFactoryWithOptions ::
  "'c \<Rightarrow> duration \<Rightarrow> ('c, 'w) SharedInformerOption list \<Rightarrow> ('c, 'w) sharedInformerFactory" where
  "NewSharedInformerFactoryWithOptions client defaultResync options =
     fold (\<lambda>opt factory. opt factory) options
       \<lparr>fa_client = client, fa_namespace = [], fa_tweakListOptions = None, fa_defaultResync = defaultResync,
        fa_customResync = [], fa_informers = [], fa_startedInformers = []\<rparr>"

definition NewSharedInformerFactory :: "'c \<Rightarrow> duration \<Rightarrow> ('c, 'w) sharedInformerFactory" where
  "NewSharedInformerFactory client defaultResync = NewSharedInformerFactoryWithOptions client defaultResync []"

definition NewFilteredSharedInformerFactory ::
  "'c \<Rightarrow> duration \<Rightarrow> string \<Rightarrow> TweakListOptionsFunc option \<Rightarrow> ('c, 'w) sharedInformerFactory" where
  "NewFilteredSharedInformerFactory client defaultResync namespace tweakListOptions =
     NewSharedInformerFactoryWithOptions client defaultResync
       [WithNamespace namespace, WithTweakListOptions tweakListOptions]"

text \<open>The loop of \<^verbatim>\<open>Start\<close>: the informers it runs, and who is started then.\<close>

definition is_started :: "(obj_type \<times> bool) list \<Rightarrow> obj_type \<Rightarrow> bool" where
  "is_started started t \<longleftrightarrow> map_of started t = Some True"

fun start_loop ::
  "(obj_type \<times> 'w shared_informer) list \<Rightarrow> (obj_type \<times> bool) list \<Rightarrow>
   (obj_type \<times> 'w shared_informer) list \<times> (obj_type \<times> bool) list" where
  "start_loop [] started = ([], started)"
| "start_loop ((informerType, informer) # rest) started =
     (if \<not> is_started started informerType then
        (let (runs, started') = start_loop rest (AList.update informerType True started)
         in ((informerType, informer) # runs, started'))
      else start_loop rest started)"

definition factory_Start ::
  "('c, 'w) sharedInformerFactory \<Rightarrow> (obj_type \<times> 'w shared_informer) list \<times> ('c, 'w) sharedInformerFactory" where
  "factory_Start f =
     (let (runs, started) = start_loop (fa_informers f) (fa_startedInformers f)
      in (runs, f\<lparr>fa_startedInformers := started\<rparr>))"

text \<open>Waiting for one informer is the cache package's; the result is whether it synced.\<close>

definition factory_WaitForCacheSync ::
  "('w shared_informer \<Rightarrow> bool) \<Rightarrow> ('c, 'w) sharedInformerFactory \<Rightarrow> (obj_type \<times> bool) list" where
  "factory_WaitForCacheSync wait f =
     (let informers = filter (\<lambda>(informerType, informer). is_started (fa_startedInformers f) informerType) (fa_informers f)
      in map (\<lambda>(informType, informer). (informType, wait informer)) informers)"

definition InformerFor ::
  "obj_type \<Rightarrow> ('c, 'w) NewInformerFunc \<Rightarrow> ('c, 'w) sharedInformerFactory \<Rightarrow>
   'w shared_informer \<times> ('c, 'w) sharedInformerFactory" where
  "InformerFor informerType newFunc f =
     (case map_of (fa_informers f) informerType of
        Some informer \<Rightarrow> (informer, f)
      | None \<Rightarrow>
          (let resyncPeriod = (case map_of (fa_customResync f) informerType of
                                 None \<Rightarrow> fa_defaultResync f | Some d \<Rightarrow> d);
               informer = newFunc (fa_client f) resyncPeriod
           in (informer, f\<lparr>fa_informers := AList.update informerType informer (fa_informers f)\<rparr>)))"

section \<open>Informers of the APIs\<close>

text \<open>
  Filters are applied to the options of every list and watch. The struct of an informer holds
  its factory, which the operations take as the state, the filter and the namespace.
\<close>

definition tweaked :: "TweakListOptionsFunc option \<Rightarrow> ListOptions \<Rightarrow> ListOptions" where
  "tweaked tweakListOptions options =
     (case tweakListOptions of None \<Rightarrow> options | Some tweak \<Rightarrow> tweak options)"

definition as_object :: "('a \<Rightarrow> runtime_obj) \<Rightarrow> 'a answer \<times> 'w \<Rightarrow> runtime_obj answer \<times> 'w" where
  "as_object f r = (case r of ((x, err), w) \<Rightarrow> ((f x, err), w))"

definition NamespaceIndex :: string where "NamespaceIndex = ''namespace''"

record api_informer =
  inf_tweakListOptions :: "TweakListOptionsFunc option"

record namespaced_informer = api_informer +
  inf_namespace :: string

subsection \<open>DanmNet\<close>

definition NewFilteredDanmNetInformer ::
  "('d, 'w) Clientset \<Rightarrow> string \<Rightarrow> duration \<Rightarrow> string list \<Rightarrow> TweakListOptionsFunc option \<Rightarrow> 'w shared_informer" where
  "NewFilteredDanmNetInformer client namespace resyncPeriod indexers tweakListOptions =
     \<lparr>si_ListFunc = (\<lambda>options w. as_object RDanmNetList
        (danmNets_List (V1_DanmNets (DanmV1 client) namespace) (tweaked tweakListOptions options) w)),
      si_WatchFunc = (\<lambda>options w. danmNets_Watch (V1_DanmNets (DanmV1 client) namespace) (tweaked tweakListOptions options) w),
      si_Type = TDanmNet, si_Resync = resyncPeriod, si_Indexers = indexers\<rparr>"

definition NewDanmNetInformer :: "('d, 'w) Clientset \<Rightarrow> string \<Rightarrow> duration \<Rightarrow> string list \<Rightarrow> 'w shared_informer" where
  "NewDanmNetInformer client namespace resyncPeriod indexers =
     NewFilteredDanmNetInformer client namespace resyncPeriod indexers None"

definition danmNetInformer_defaultInformer ::
  "namespaced_informer \<Rightarrow> (('d, 'w) Clientset, 'w) NewInformerFunc" where
  "danmNetInformer_defaultInformer f client resyncPeriod =
     NewFilteredDanmNetInformer client (inf_namespace f) resyncPeriod [NamespaceIndex] (inf_tweakListOptions f)"

definition danmNetInformer_Informer ::
  "namespaced_informer \<Rightarrow> (('d, 'w) Clientset, 'w) sharedInformerFactory \<Rightarrow>
   'w shared_informer \<times> (('d, 'w) Clientset, 'w) sharedInformerFactory" where
  "danmNetInformer_Informer f factory = InformerFor TDanmNet (danmNetInformer_defaultInformer f) factory"

subsection \<open>TenantNetwork\<close>

definition NewFilteredTenantNetworkInformer ::
  "('d, 'w) Clientset \<Rightarrow> string \<Rightarrow> duration \<Rightarrow> string list \<Rightarrow> TweakListOptionsFunc option \<Rightarrow> 'w shared_informer" where
  "NewFilteredTenantNetworkInformer client namespace resyncPeriod indexers tweakListOptions =
     \<lparr>si_ListFunc = (\<lambda>options w. as_object RTenantNetworkList
        (tenantNetworks_List (V1_TenantNetworks (DanmV1 client) namespace) (tweaked tweakListOptions options) w)),
      si_WatchFunc = (\<lambda>options w. tenantNetworks_Watch (V1_TenantNetworks (DanmV1 client) namespace) (tweaked tweakListOptions options) w),
      si_Type = TTenantNetwork, si_Resync = resyncPeriod, si_Indexers = indexers\<rparr>"

definition NewTenantNetworkInformer :: "('d, 'w) Clientset \<Rightarrow> string \<Rightarrow> duration \<Rightarrow> string list \<Rightarrow> 'w shared_informer" where
  "NewTenantNetworkInformer client namespace resyncPeriod indexers =
     NewFilteredTenantNetworkInformer client namespace resyncPeriod indexers None"

definition tenantNetworkInformer_defaultInformer ::
  "namespaced_informer \<Rightarrow> (('d, 'w) Clientset, 'w) NewInformerFunc" where
  "tenantNetworkInformer_defaultInformer f client resyncPeriod =
     NewFilteredTenantNetworkInformer client (inf_namespace f) resyncPeriod [NamespaceIndex] (inf_tweakListOptions f)"

definition tenantNetworkInformer_Informer ::
  "namespaced_informer \<Rightarrow> (('d, 'w) Clientset, 'w) sharedInformerFactory \<Rightarrow>
   'w shared_informer \<times> (('d, 'w) Clientset, 'w) sharedInformerFactory" where
  "tenantNetworkInformer_Informer f factory = InformerFor TTenantNetwork (tenantNetworkInformer_defaultInformer f) factory"

subsection \<open>ClusterNetwork\<close>

definition NewFilteredClusterNetworkInformer ::
  "('d, 'w) Clientset \<Rightarrow> duration \<Rightarrow> string list \<Rightarrow> TweakListOptionsFunc option \<Rightarrow> 'w shared_informer" where
  "NewFilteredClusterNetworkInformer client resyncPeriod indexers tweakListOptions =
     \<lparr>si_ListFunc = (\<lambda>options w. as_object RClusterNetworkList
        (clusterNetworks_List (V1_ClusterNetworks (DanmV1 client)) (tweaked tweakListOptions options) w)),
      si_WatchFunc = (\<lambda>options w. clusterNetworks_Watch (V1_ClusterNetworks (DanmV1 client)) (tweaked tweakListOptions options) w),
      si_Type = TClusterNetwork, si_Resync = resyncPeriod, si_Indexers = indexers\<rparr>"

definition NewClusterNetworkInformer :: "('d, 'w) Clientset \<Rightarrow> duration \<Rightarrow> string list \<Rightarrow> 'w shared_informer" where
  "NewClusterNetworkInformer client resyncPeriod indexers =
     NewFilteredClusterNetworkInformer client resyncPeriod indexers None"

definition clusterNetworkInformer_defaultInformer ::
  "api_informer \<Rightarrow> (('d, 'w) Clientset, 'w) NewInformerFunc" where
  "clusterNetworkInformer_defaultInformer f client resyncPeriod =
     NewFilteredClusterNetworkInformer client resyncPeriod [NamespaceIndex] (inf_tweakListOptions f)"

definition clusterNetworkInformer_Informer ::
  "api_informer \<Rightarrow> (('d, 'w) Clientset, 'w) sharedInformerFactory \<Rightarrow>
   'w shared_informer \<times> (('d, 'w) Clientset, 'w) sharedInformerFactory" where
  "clusterNetworkInformer_Informer f factory = InformerFor TClusterNetwork (clusterNetworkInformer_defaultInformer f) factory"

subsection \<open>DanmEp\<close>

definition NewFilteredDanmEpInformer ::
  "('d, 'w) Clientset \<Rightarrow> string \<Rightarrow> duration \<Rightarrow> string list \<Rightarrow> TweakListOptionsFunc option \<Rightarrow> 'w shared_informer" where
  "NewFilteredDanmEpInformer client namespace resyncPeriod indexers tweakListOptions =
     \<lparr>si_ListFunc = (\<lambda>options w. as_object RDanmEpList
        (danmEps_List (V1_DanmEps (DanmV1 client) namespace) (tweaked tweakListOptions options) w)),
      si_WatchFunc = (\<lambda>options w. danmEps_Watch (V1_DanmEps (DanmV1 client) namespace) (tweaked tweakListOptions options) w),
      si_Type = TDanmEp, si_Resync = resyncPeriod, si_Indexers = indexers\<rparr>"

definition NewDanmEpInformer :: "('d, 'w) Clientset \<Rightarrow> string \<Rightarrow> duration \<Rightarrow> string list \<Rightarrow> 'w shared_informer" where
  "NewDanmEpInformer client namespace resyncPeriod indexers =
     NewFilteredDanmEpInformer client namespace resyncPeriod indexers None"

definition danmEpInformer_defaultInformer ::
  "namespaced_informer \<Rightarrow> (('d, 'w) Clientset, 'w) NewInformerFunc" where
  "danmEpInformer_defaultInformer f client resyncPeriod =
     NewFilteredDanmEpInformer client (inf_namespace f) resyncPeriod [NamespaceIndex] (inf_tweakListOptions f)"

definition danmEpInformer_Informer ::
  "namespaced_informer \<Rightarrow> (('d, 'w) Clientset, 'w) sharedInformerFactory \<Rightarrow>
   'w shared_informer \<times> (('d, 'w) Clientset, 'w) sharedInformerFactory" where
  "danmEpInformer_Informer f factory = InformerFor TDanmEp (danmEpInformer_defaultInformer f) factory"

subsection \<open>TenantConfig\<close>

definition NewFilteredTenantConfigInformer ::
  "('d, 'w) Clientset \<Rightarrow> duration \<Rightarrow> string list \<Rightarrow> TweakListOptionsFunc option \<Rightarrow> 'w shared_informer" where
  "NewFilteredTenantConfigInformer client resyncPeriod indexers tweakListOptions =
     \<lparr>si_ListFunc = (\<lambda>options w. as_object RTenantConfigList
        (tenantConfigs_List (V1_TenantConfigs (DanmV1 client)) (tweaked tweakListOptions options) w)),
      si_WatchFunc = (\<lambda>options w. tenantConfigs_Watch (V1_TenantConfigs (DanmV1 client)) (tweaked tweakListOptions options) w),
      si_Type = TTenantConfig, si_Resync = resyncPeriod, si_Indexers = indexers\<rparr>"

definition NewTenantConfigInformer :: "('d, 'w) Clientset \<Rightarrow> duration \<Rightarrow> string list \<Rightarrow> 'w shared_informer" where
  "NewTenantConfigInformer client resyncPeriod indexers =
     NewFilteredTenantConfigInformer client resyncPeriod indexers None"

definition tenantConfigInformer_defaultInformer ::
  "api_informer \<Rightarrow> (('d, 'w) Clientset, 'w) NewInformerFunc" where
  "tenantConfigInformer_defaultInformer f client resyncPeriod =
     NewFilteredTenantConfigInformer client resyncPeriod [NamespaceIndex] (inf_tweakListOptions f)"

definition tenantConfigInformer_Informer ::
  "api_informer \<Rightarrow> (('d, 'w) Clientset, 'w) sharedInformerFactory \<Rightarrow>
   'w shared_informer \<times> (('d, 'w) Clientset, 'w) sharedInformerFactory" where
  "tenantConfigInformer_Informer f factory = InformerFor TTenantConfig (tenantConfigInformer_defaultInformer f) factory"

subsection \<open>NetworkAttachmentDefinition\<close>

definition NewFilteredNadInformer ::
  "('d, 'w) NadClientset \<Rightarrow> string \<Rightarrow> duration \<Rightarrow> string list \<Rightarrow> TweakListOptionsFunc option \<Rightarrow> 'w shared_informer" where
  "NewFilteredNadInformer client namespace resyncPeriod indexers tweakListOptions =
     \<lparr>si_ListFunc = (\<lambda>options w. as_object RNadList
        (nads_List (NetworkAttachmentDefinitions (K8sCniCncfIoV1 client) namespace) (tweaked tweakListOptions options) w)),
      si_WatchFunc = (\<lambda>options w. nads_Watch (NetworkAttachmentDefinitions (K8sCniCncfIoV1 client) namespace) (tweaked tweakListOptions options) w),
      si_Type = TNad, si_Resync = resyncPeriod, si_Indexers = indexers\<rparr>"

definition NewNadInformer :: "('d, 'w) NadClientset \<Rightarrow> string \<Rightarrow> duration \<Rightarrow> string list \<Rightarrow> 'w shared_informer" where
  "NewNadInformer client namespace resyncPeriod indexers =
     NewFilteredNadInformer client namespace resyncPeriod indexers None"

definition nadInformer_defaultInformer ::
  "namespaced_informer \<Rightarrow> (('d, 'w) NadClientset, 'w) NewInformerFunc" where
  "nadInformer_defaultInformer f client resyncPeriod =
     NewFilteredNadInformer client (inf_namespace f) resyncPeriod [NamespaceIndex] (inf_tweakListOptions f)"

definition nadInformer_Informer ::
  "namespaced_informer \<Rightarrow> (('d, 'w) NadClientset, 'w) sharedInformerFactory \<Rightarrow>
   'w shared_informer \<times> (('d, 'w) NadClientset, 'w) sharedInformerFactory" where
  "nadInformer_Informer f factory = InformerFor TNad (nadInformer_defaultInformer f) factory"

section \<open>Groups, versions and resources\<close>

text \<open>
  The accessors of a group and of a version pass the namespace and the filter of the factory on
  to the informers: \<^verbatim>\<open>danm.New\<close>, \<^verbatim>\<open>V1\<close>, and one method per API.
\<close>

record version =
  ver_namespace :: string
  ver_tweakListOptions :: "TweakListOptionsFunc option"

definition informers_New :: "string \<Rightarrow> TweakListOptionsFunc option \<Rightarrow> version" where
  "informers_New namespace tweakListOptions = \<lparr>ver_namespace = namespace, ver_tweakListOptions = tweakListOptions\<rparr>"

definition group_V1 :: "version \<Rightarrow> version" where
  "group_V1 g = informers_New (ver_namespace g) (ver_tweakListOptions g)"

definition factory_Danm :: "('c, 'w) sharedInformerFactory \<Rightarrow> version" where
  "factory_Danm f = informers_New (fa_namespace f) (fa_tweakListOptions f)"

definition factory_K8sCniCncfIo :: "('c, 'w) sharedInformerFactory \<Rightarrow> version" where
  "factory_K8sCniCncfIo f = informers_New (fa_namespace f) (fa_tweakListOptions f)"

definition version_ClusterNetworks :: "version \<Rightarrow> api_informer" where
  "version_ClusterNetworks v = \<lparr>inf_tweakListOptions = ver_tweakListOptions v\<rparr>"

definition version_DanmEps :: "version \<Rightarrow> namespaced_informer" where
  "version_DanmEps v = \<lparr>inf_tweakListOptions = ver_tweakListOptions v, inf_namespace = ver_namespace v\<rparr>"

definition version_DanmNets :: "version \<Rightarrow> namespaced_informer" where
  "version_DanmNets v = \<lparr>inf_tweakListOptions = ver_tweakListOptions v, inf_namespace = ver_namespace v\<rparr>"

definition version_TenantConfigs :: "version \<Rightarrow> api_informer" where
  "version_TenantConfigs v = \<lparr>inf_tweakListOptions = ver_tweakListOptions v\<rparr>"

definition version_TenantNetworks :: "version \<Rightarrow> namespaced_informer" where
  "version_TenantNetworks v = \<lparr>inf_tweakListOptions = ver_tweakListOptions v, inf_namespace = ver_namespace v\<rparr>"

definition version_NetworkAttachmentDefinitions :: "version \<Rightarrow> namespaced_informer" where
  "version_NetworkAttachmentDefinitions v =
     \<lparr>inf_tweakListOptions = ver_tweakListOptions v, inf_namespace = ver_namespace v\<rparr>"

text \<open>Generic access by group, version and resource, an error for unknown ones.\<close>

record 'w genericInformer =
  gi_informer :: "'w shared_informer"
  gi_resource :: "string \<times> string"

definition danm_resource :: "string \<Rightarrow> gvr" where
  "danm_resource r = (''danm.io'', ''v1'', r)"

definition group_resource :: "gvr \<Rightarrow> string \<times> string" where
  "group_resource g = (fst g, snd (snd g))"

definition ForResource ::
  "gvr \<Rightarrow> (('d, 'w) Clientset, 'w) sharedInformerFactory \<Rightarrow>
   'w genericInformer option \<times> (('d, 'w) Clientset, 'w) sharedInformerFactory" where
  "ForResource resource f =
     (let v1 = group_V1 (factory_Danm f);
          generic = (\<lambda>(informer, f'). (Some \<lparr>gi_informer = informer, gi_resource = group_resource resource\<rparr>, f'))
      in if resource = danm_resource ''clusternetworks'' then
           generic (clusterNetworkInformer_Informer (version_ClusterNetworks v1) f)
         else if resource = danm_resource ''danmeps'' then
           generic (danmEpInformer_Informer (version_DanmEps v1) f)
         else if resource = danm_resource ''danmnets'' then
           generic (danmNetInformer_Informer (version_DanmNets v1) f)
         else if resource = danm_resource ''tenantconfigs'' then
           generic (tenantConfigInformer_Informer (version_TenantConfigs v1) f)
         else if resource = danm_resource ''tenantnetworks'' then
           generic (tenantNetworkInformer_Informer (version_TenantNetworks v1) f)
         else (None, f))"

definition Nad_ForResource ::
  "gvr \<Rightarrow> (('d, 'w) NadClientset, 'w) sharedInformerFactory \<Rightarrow>
   'w genericInformer option \<times> (('d, 'w) NadClientset, 'w) sharedInformerFactory" where
  "Nad_ForResource resource f =
     (if resource = (''k8s.cni.cncf.io'', ''v1'', ''network-attachment-definitions'') then
        (let (informer, f') = nadInformer_Informer
               (version_NetworkAttachmentDefinitions (group_V1 (factory_K8sCniCncfIo f))) f
         in (Some \<lparr>gi_informer = informer, gi_resource = group_resource resource\<rparr>, f'))
      else (None, f))"

end
