(* ===== verification/Listers.thy ===== *)
theory Listers
  imports Informers
begin

text \<open>
  The generated listers under \<^verbatim>\<open>crd/client/listers\<close> and
  \<^verbatim>\<open>crd/client/nad/listers\<close>: reading the caches that informers fill. The cache itself is
  client-go's \<^verbatim>\<open>cache.Indexer\<close>, a parameter.
\<close>

type_synonym selector = "gomap \<Rightarrow> bool"

text \<open>
  \<open>GetByKey\<close> gives the object if it exists, and an error; the list functions of the cache
  package give the objects they pass on, in order, and an error.
\<close>

record indexer =
  GetByKey :: "string \<Rightarrow> runtime_obj option \<times> string option"
  ListAll :: "selector \<Rightarrow> runtime_obj list \<times> string option"
  ListAllByNamespace :: "string \<Rightarrow> selector \<Rightarrow> runtime_obj list \<times> string option"

datatype lister_error =
    IndexerError string
  | NotFound "string \<times> string" string

record namespace_lister =
  nl_indexer :: indexer
  nl_namespace :: string

text \<open>Every object is asserted to be of the lister's type.\<close>

fun append_objects :: "(runtime_obj \<Rightarrow> 'a option) \<Rightarrow> runtime_obj list \<Rightarrow> 'a list res" where
  "append_objects sel [] = Ok []"
| "append_objects sel (m # ms) =
     (case sel m of
        None \<Rightarrow> Panic
      | Some x \<Rightarrow> bind_res (append_objects sel ms) (\<lambda>xs. Ok (x # xs)))"

definition listed :: "(runtime_obj \<Rightarrow> 'a option) \<Rightarrow> runtime_obj list \<times> string option \<Rightarrow> ('a list \<times> string option) res" where
  "listed sel r = bind_res (append_objects sel (fst r)) (\<lambda>ret. Ok (ret, snd r))"

definition found ::
  "(runtime_obj \<Rightarrow> 'a option) \<Rightarrow> string \<times> string \<Rightarrow> string \<Rightarrow> runtime_obj option \<times> string option \<Rightarrow>
   (lister_error + 'a) res" where
  "found sel resource name r =
     (case r of
        (_, Some err) \<Rightarrow> Ok (Inl (IndexerError err))
      | (None, None) \<Rightarrow> Ok (Inl (NotFound resource name))
      | (Some obj, None) \<Rightarrow> (case sel obj of None \<Rightarrow> Panic | Some x \<Rightarrow> Ok (Inr x)))"

text \<open>The group-qualified resources of not-found errors.\<close>

definition danm_Resource :: "string \<Rightarrow> string \<times> string" where
  "danm_Resource r = (''danm.io'', r)"

definition nad_Resource :: "string \<Rightarrow> string \<times> string" where
  "nad_Resource r = (''k8s.cni.cncf.io'', r)"

subsection \<open>DanmNet\<close>

definition NewDanmNetLister :: "indexer \<Rightarrow> indexer" where
  "NewDanmNetLister indexer = indexer"

definition danmNetLister_List :: "indexer \<Rightarrow> selector \<Rightarrow> (DanmNet list \<times> string option) res" where
  "danmNetLister_List s selector = listed as_RDanmNet (ListAll s selector)"

definition danmNetLister_DanmNets :: "indexer \<Rightarrow> string \<Rightarrow> namespace_lister" where
  "danmNetLister_DanmNets s namespace = \<lparr>nl_indexer = s, nl_namespace = namespace\<rparr>"

definition danmNetNamespaceLister_List :: "namespace_lister \<Rightarrow> selector \<Rightarrow> (DanmNet list \<times> string option) res" where
  "danmNetNamespaceLister_List s selector =
     listed as_RDanmNet (ListAllByNamespace (nl_indexer s) (nl_namespace s) selector)"

definition danmNetNamespaceLister_Get :: "namespace_lister \<Rightarrow> string \<Rightarrow> (lister_error + DanmNet) res" where
  "danmNetNamespaceLister_Get s name =
     found as_RDanmNet (danm_Resource ''danmnet'') name (GetByKey (nl_indexer s) (nl_namespace s @ ''/'' @ name))"

definition danmNetInformer_Lister ::
  "('w shared_informer \<Rightarrow> indexer) \<Rightarrow> namespaced_informer \<Rightarrow> (('d, 'w) Clientset, 'w) sharedInformerFactory \<Rightarrow>
   indexer \<times> (('d, 'w) Clientset, 'w) sharedInformerFactory" where
  "danmNetInformer_Lister GetIndexer f factory =
     (let (informer, factory') = danmNetInformer_Informer f factory
      in (NewDanmNetLister (GetIndexer informer), factory'))"

subsection \<open>TenantNetwork\<close>

definition NewTenantNetworkLister :: "indexer \<Rightarrow> indexer" where
  "NewTenantNetworkLister indexer = indexer"

definition tenantNetworkLister_List :: "indexer \<Rightarrow> selector \<Rightarrow> (DanmNet list \<times> string option) res" where
  "tenantNetworkLister_List s selector = listed as_RTenantNetwork (ListAll s selector)"

definition tenantNetworkLister_TenantNetworks :: "indexer \<Rightarrow> string \<Rightarrow> namespace_lister" where
  "tenantNetworkLister_TenantNetworks s namespace = \<lparr>nl_indexer = s, nl_namespace = namespace\<rparr>"

definition tenantNetworkNamespaceLister_List :: "namespace_lister \<Rightarrow> selector \<Rightarrow> (DanmNet list \<times> string option) res" where
  "tenantNetworkNamespaceLister_List s selector =
     listed as_RTenantNetwork (ListAllByNamespace (nl_indexer s) (nl_namespace s) selector)"

definition tenantNetworkNamespaceLister_Get :: "namespace_lister \<Rightarrow> string \<Rightarrow> (lister_error + DanmNet) res" where
  "tenantNetworkNamespaceLister_Get s name =
     found as_RTenantNetwork (danm_Resource ''tenantnetwork'') name (GetByKey (nl_indexer s) (nl_namespace s @ ''/'' @ name))"

definition tenantNetworkInformer_Lister ::
  "('w shared_informer \<Rightarrow> indexer) \<Rightarrow> namespaced_informer \<Rightarrow> (('d, 'w) Clientset, 'w) sharedInformerFactory \<Rightarrow>
   indexer \<times> (('d, 'w) Clientset, 'w) sharedInformerFactory" where
  "tenantNetworkInformer_Lister GetIndexer f factory =
     (let (informer, factory') = tenantNetworkInformer_Informer f factory
      in (NewTenantNetworkLister (GetIndexer informer), factory'))"

subsection \<open>ClusterNetwork\<close>

definition NewClusterNetworkLister :: "indexer \<Rightarrow> indexer" where
  "NewClusterNetworkLister indexer = indexer"

definition clusterNetworkLister_List :: "indexer \<Rightarrow> selector \<Rightarrow> (DanmNet list \<times> string option) res" where
  "clusterNetworkLister_List s selector = listed as_RClusterNetwork (ListAll s selector)"

definition clusterNetworkLister_Get :: "indexer \<Rightarrow> string \<Rightarrow> (lister_error + DanmNet) res" where
  "clusterNetworkLister_Get s name = found as_RClusterNetwork (danm_Resource ''clusternetwork'') name (GetByKey s name)"

definition clusterNetworkInformer_Lister ::
  "('w shared_informer \<Rightarrow> indexer) \<Rightarrow> api_informer \<Rightarrow> (('d, 'w) Clientset, 'w) sharedInformerFactory \<Rightarrow>
   indexer \<times> (('d, 'w) Clientset, 'w) sharedInformerFactory" where
  "clusterNetworkInformer_Lister GetIndexer f factory =
     (let (informer, factory') = clusterNetworkInformer_Informer f factory
      in (NewClusterNetworkLister (GetIndexer informer), factory'))"

subsection \<open>DanmEp\<close>

definition NewDanmEpLister :: "indexer \<Rightarrow> indexer" where
  "NewDanmEpLister indexer = indexer"

definition danmEpLister_List :: "indexer \<Rightarrow> selector \<Rightarrow> (DanmEp list \<times> string option) res" where
  "danmEpLister_List s selector = listed as_RDanmEp (ListAll s selector)"

definition danmEpLister_DanmEps :: "indexer \<Rightarrow> string \<Rightarrow> namespace_lister" where
  "danmEpLister_DanmEps s namespace = \<lparr>nl_indexer = s, nl_namespace = namespace\<rparr>"

definition danmEpNamespaceLister_List :: "namespace_lister \<Rightarrow> selector \<Rightarrow> (DanmEp list \<times> string option) res" where
  "danmEpNamespaceLister_List s selector =
     listed as_RDanmEp (ListAllByNamespace (nl_indexer s) (nl_namespace s) selector)"

definition danmEpNamespaceLister_Get :: "namespace_lister \<Rightarrow> string \<Rightarrow> (lister_error + DanmEp) res" where
  "danmEpNamespaceLister_Get s name =
     found as_RDanmEp (danm_Resource ''danmep'') name (GetByKey (nl_indexer s) (nl_namespace s @ ''/'' @ name))"

definition danmEpInformer_Lister ::
  "('w shared_informer \<Rightarrow> indexer) \<Rightarrow> namespaced_informer \<Rightarrow> (('d, 'w) Clientset, 'w) sharedInformerFactory \<Rightarrow>
   indexer \<times> (('d, 'w) Clientset, 'w) sharedInformerFactory" where
  "danmEpInformer_Lister GetIndexer f factory =
     (let (informer, factory') = danmEpInformer_Informer f factory
      in (NewDanmEpLister (GetIndexer informer), factory'))"

subsection \<open>TenantConfig\<close>

definition NewTenantConfigLister :: "indexer \<Rightarrow> indexer" where
  "NewTenantConfigLister indexer = indexer"

definition tenantConfigLister_List :: "indexer \<Rightarrow> selector \<Rightarrow> (TenantConfig list \<times> string option) res" where
  "tenantConfigLister_List s selector = listed as_RTenantConfig (ListAll s selector)"

definition tenantConfigLister_Get :: "indexer \<Rightarrow> string \<Rightarrow> (lister_error + TenantConfig) res" where
  "tenantConfigLister_Get s name = found as_RTenantConfig (danm_Resource ''tenantconfig'') name (GetByKey s name)"

definition tenantConfigInformer_Lister ::
  "('w shared_informer \<Rightarrow> indexer) \<Rightarrow> api_informer \<Rightarrow> (('d, 'w) Clientset, 'w) sharedInformerFactory \<Rightarrow>
   indexer \<times> (('d, 'w) Clientset, 'w) sharedInformerFactory" where
  "tenantConfigInformer_Lister GetIndexer f factory =
     (let (informer, factory') = tenantConfigInformer_Informer f factory
      in (NewTenantConfigLister (GetIndexer informer), factory'))"

subsection \<open>NetworkAttachmentDefinition\<close>

definition NewNadLister :: "indexer \<Rightarrow> indexer" where
  "NewNadLister indexer = indexer"

definition nadLister_List :: "indexer \<Rightarrow> selector \<Rightarrow> (Nad list \<times> string option) res" where
  "nadLister_List s selector = listed as_RNad (ListAll s selector)"

definition nadLister_NetworkAttachmentDefinitions :: "indexer \<Rightarrow> string \<Rightarrow> namespace_lister" where
  "nadLister_NetworkAttachmentDefinitions s namespace = \<lparr>nl_indexer = s, nl_namespace = namespace\<rparr>"

definition nadNamespaceLister_List :: "namespace_lister \<Rightarrow> selector \<Rightarrow> (Nad list \<times> string option) res" where
  "nadNamespaceLister_List s selector =
     listed as_RNad (ListAllByNamespace (nl_indexer s) (nl_namespace s) selector)"

definition nadNamespaceLister_Get :: "namespace_lister \<Rightarrow> string \<Rightarrow> (lister_error + Nad) res" where
  "nadNamespaceLister_Get s name =
     found as_RNad (nad_Resource ''networkattachmentdefinition'') name (GetByKey (nl_indexer s) (nl_namespace s @ ''/'' @ name))"

definition nadInformer_Lister ::
  "('w shared_informer \<Rightarrow> indexer) \<Rightarrow> namespaced_informer \<Rightarrow> (('d, 'w) NadClientset, 'w) sharedInformerFactory \<Rightarrow>
   indexer \<times> (('d, 'w) NadClientset, 'w) sharedInformerFactory" where
  "nadInformer_Lister GetIndexer f factory =
     (let (informer, factory') = nadInformer_Informer f factory
      in (NewNadLister (GetIndexer informer), factory'))"

end
