(* ===== verification/InformerProps.thy ===== *)
theory InformerProps
  imports Listers FakeProps
begin

text \<open>
  What the informer factory and the listers guarantee: informers are shared and run once, each
  lists and watches its own API in the factory's namespace, and a lister finds exactly the objects
  of its cache.
\<close>

section \<open>Maps of types\<close>

lemma update_keys: "set (map fst (AList.update k v xs)) = insert k (set (map fst xs))"
  by (induction xs) auto

lemma update_distinct: "distinct (map fst xs) \<Longrightarrow> distinct (map fst (AList.update k v xs))"
  by (rule distinct_update)

lemma is_started_update [simp]: "is_started (AList.update t True started) u \<longleftrightarrow> u = t \<or> is_started started u"
  by (auto simp: is_started_def update_conv)

section \<open>Starting\<close>

text \<open>The loop runs exactly the informers that were not started, and all are started then.\<close>

lemma start_loop_runs:
  "distinct (map fst informers) \<Longrightarrow>
   fst (start_loop informers started) = filter (\<lambda>p. \<not> is_started started (fst p)) informers"
proof (induction informers arbitrary: started)
  case (Cons p rest)
  obtain t i where p [simp]: "p = (t, i)" by (cases p)
  have "filter (\<lambda>p. fst p \<noteq> t \<and> \<not> is_started started (fst p)) rest = filter (\<lambda>p. \<not> is_started started (fst p)) rest"
    using Cons.prems by (intro filter_cong refl) force
  with Cons show ?case by (simp add: split_beta)
qed simp

lemma start_loop_started:
  "is_started (snd (start_loop informers started)) t \<longleftrightarrow> t \<in> fst ` set informers \<or> is_started started t"
  by (induction informers started rule: start_loop.induct) (auto simp: split_beta)

lemma keys_covered:
  assumes "A \<subseteq> B"
  shows "f ` (A \<union> {x \<in> B. f x \<notin> f ` A}) = f ` B"
proof
  show "f ` (A \<union> {x \<in> B. f x \<notin> f ` A}) \<subseteq> f ` B" using assms by (intro image_mono) blast
  show "f ` B \<subseteq> f ` (A \<union> {x \<in> B. f x \<notin> f ` A})"
  proof
    fix y assume "y \<in> f ` B"
    then obtain x where "x \<in> B" "y = f x" by (elim imageE) simp
    then show "y \<in> f ` (A \<union> {x \<in> B. f x \<notin> f ` A})" by (cases "y \<in> f ` A") (simp_all add: image_Un)
  qed
qed

section \<open>A factory in use\<close>

text \<open>
  Requests for informers and starts in any order. \<open>allowed\<close> restricts the constructors that
  requests bring; the log holds every informer that was run, with the type it was requested for.
\<close>

type_synonym ('c, 'w) factory_state = "('c, 'w) sharedInformerFactory \<times> (obj_type \<times> 'w shared_informer) list"

inductive factory_step ::
  "(obj_type \<Rightarrow> ('c, 'w) NewInformerFunc \<Rightarrow> bool) \<Rightarrow> ('c, 'w) factory_state \<Rightarrow> ('c, 'w) factory_state \<Rightarrow> bool"
  for allowed where
  request: "allowed t newFunc \<Longrightarrow> factory_step allowed (f, past) (snd (InformerFor t newFunc f), past)"
| start: "factory_Start f = (runs, f') \<Longrightarrow> factory_step allowed (f, past) (f', past @ runs)"

inductive_cases factory_stepE: "factory_step allowed s s'"

definition made_by :: "(obj_type \<Rightarrow> ('c, 'w) NewInformerFunc \<Rightarrow> bool) \<Rightarrow> 'c \<Rightarrow> obj_type \<times> 'w shared_informer \<Rightarrow> bool" where
  "made_by allowed client p \<longleftrightarrow> (\<exists>newFunc resync. allowed (fst p) newFunc \<and> snd p = newFunc client resync)"

definition factory_inv :: "(obj_type \<Rightarrow> ('c, 'w) NewInformerFunc \<Rightarrow> bool) \<Rightarrow> ('c, 'w) sharedInformerFactory \<Rightarrow> ('c, 'w) factory_state \<Rightarrow> bool" where
  "factory_inv allowed f0 s \<longleftrightarrow>
     (let (f, past) = s in
      distinct (map fst (fa_informers f)) \<and> distinct (map fst past) \<and> set past \<subseteq> set (fa_informers f) \<and>
      (\<forall>t. is_started (fa_startedInformers f) t \<longleftrightarrow> t \<in> fst ` set past) \<and>
      (\<forall>p \<in> set (fa_informers f). made_by allowed (fa_client f0) p) \<and>
      fa_client f = fa_client f0 \<and> fa_namespace f = fa_namespace f0 \<and>
      fa_tweakListOptions f = fa_tweakListOptions f0)"

lemma InformerFor_factory:
  "snd (InformerFor t newFunc f) =
     (if t \<in> fst ` set (fa_informers f) then f
      else f\<lparr>fa_informers := fa_informers f @ [(t, fst (InformerFor t newFunc f))]\<rparr>)"
proof (cases "map_of (fa_informers f) t")
  case None
  then have "t \<notin> fst ` set (fa_informers f)" by (simp add: map_of_eq_None_iff)
  moreover have "AList.update t x xs = xs @ [(t, x)]" if "t \<notin> fst ` set xs" for x and xs :: "(obj_type \<times> 'b shared_informer) list"
    using that by (induction xs) auto
  ultimately show ?thesis using None by (simp add: InformerFor_def Let_def)
next
  case (Some i)
  then have "t \<in> fst ` set (fa_informers f)" by (metis domI dom_map_of_conv_image_fst)
  with Some show ?thesis by (simp add: InformerFor_def)
qed

lemma InformerFor_new:
  "t \<notin> fst ` set (fa_informers f) \<Longrightarrow> \<exists>resync. fst (InformerFor t newFunc f) = newFunc (fa_client f) resync"
  by (auto simp: InformerFor_def Let_def map_of_eq_None_iff [symmetric])

lemma factory_step_inv:
  assumes "factory_step allowed s s'" and "factory_inv allowed f0 s"
  shows "factory_inv allowed f0 s'"
  using assms
proof (cases rule: factory_step.cases)
  case (request t newFunc f past)
  show ?thesis
  proof (cases "t \<in> fst ` set (fa_informers f)")
    case True
    with request assms(2) show ?thesis by (simp add: InformerFor_factory)
  next
    case False
    have "made_by allowed (fa_client f) (t, fst (InformerFor t newFunc f))"
      using InformerFor_new [OF False, of newFunc] request(3) by (auto simp: made_by_def)
    with False request assms(2) show ?thesis by (auto simp: InformerFor_factory factory_inv_def)
  qed
next
  case (start f runs f' past)
  then have f': "f' = f\<lparr>fa_startedInformers := snd (start_loop (fa_informers f) (fa_startedInformers f))\<rparr>"
    and "runs = fst (start_loop (fa_informers f) (fa_startedInformers f))"
    by (auto simp: factory_Start_def split_beta)
  moreover have inv: "factory_inv allowed f0 (f, past)" using start assms(2) by simp
  ultimately have runs: "runs = filter (\<lambda>p. \<not> is_started (fa_startedInformers f) (fst p)) (fa_informers f)"
    by (simp add: start_loop_runs factory_inv_def)
  have d: "distinct (map fst runs)"
    using inv unfolding runs by (auto simp: factory_inv_def intro: distinct_map_filter)
  have started: "is_started (fa_startedInformers f) t \<longleftrightarrow> t \<in> fst ` set past" for t
    using inv by (simp add: factory_inv_def)
  have n: "fst ` set past \<inter> fst ` set runs = {}"
  proof (rule equals0I)
    fix t assume t: "t \<in> fst ` set past \<inter> fst ` set runs"
    then obtain p where "p \<in> set runs" "t = fst p" by (elim IntE imageE) simp
    with t started [of t] show False unfolding runs by simp
  qed
  have past: "set past \<subseteq> set (fa_informers f)" using inv by (simp add: factory_inv_def)
  then have "fst ` set (past @ runs) = fst ` set (fa_informers f)"
    by (simp add: runs started keys_covered)
  moreover have "is_started (fa_startedInformers f') t \<longleftrightarrow> t \<in> fst ` set (fa_informers f)" for t
    using past started unfolding f' by (auto simp: start_loop_started)
  ultimately have "\<forall>t. is_started (fa_startedInformers f') t \<longleftrightarrow> t \<in> fst ` set (past @ runs)" by simp
  moreover have "set (past @ runs) \<subseteq> set (fa_informers f)" using past unfolding runs by auto
  ultimately show ?thesis using inv d n unfolding start(2) by (simp add: factory_inv_def f')
qed

lemma factory_reachable_inv:
  assumes "(factory_step allowed)\<^sup>*\<^sup>* (NewFilteredSharedInformerFactory client resync ns tweak, []) s"
  shows "factory_inv allowed (NewFilteredSharedInformerFactory client resync ns tweak) s"
  using assms
proof (induction rule: rtranclp_induct)
  case base
  show ?case
    by (simp add: factory_inv_def NewFilteredSharedInformerFactory_def NewSharedInformerFactoryWithOptions_def
        WithNamespace_def WithTweakListOptions_def is_started_def)
next
  case (step s t)
  then show ?case by (blast intro: factory_step_inv)
qed

lemma InformerFor_stored:
  "(t, fst (InformerFor t newFunc f)) \<in> set (fa_informers (snd (InformerFor t newFunc f)))"
proof (cases "map_of (fa_informers f) t")
  case None
  then have "t \<notin> fst ` set (fa_informers f)" by (simp add: map_of_eq_None_iff)
  then show ?thesis by (simp add: InformerFor_factory)
next
  case (Some i)
  then show ?thesis by (auto simp: InformerFor_def dest: map_of_SomeD)
qed

lemma one_more_start:
  assumes "factory_inv allowed f0 (f, past)"
  shows "fst ` set (past @ fst (factory_Start f)) = fst ` set (fa_informers f)"
proof -
  have "fst (factory_Start f) = filter (\<lambda>p. \<not> is_started (fa_startedInformers f) (fst p)) (fa_informers f)"
    using assms by (simp add: factory_Start_def split_beta start_loop_runs factory_inv_def)
  moreover have "is_started (fa_startedInformers f) t \<longleftrightarrow> t \<in> fst ` set past" and "set past \<subseteq> set (fa_informers f)" for t
    using assms by (simp_all add: factory_inv_def)
  ultimately show ?thesis by (simp add: keys_covered)
qed

text \<open>
  C29. Informers are shared and run once: whatever the order of requests and starts, no type is ever
  run twice, only informers of the factory are run, one more start leaves no requested informer
  without being run, and a second request for a type returns the first informer, whatever
  constructor it brings.
\<close>

theorem informers_run_once:
  assumes "(factory_step allowed)\<^sup>*\<^sup>* (NewFilteredSharedInformerFactory client resync ns tweak, []) (f, past)"
  shows "distinct (map fst past) \<and> set past \<subseteq> set (fa_informers f) \<and>
    fst ` set (past @ fst (factory_Start f)) = fst ` set (fa_informers f) \<and>
    fst (InformerFor t newFunc' (snd (InformerFor t newFunc f))) = fst (InformerFor t newFunc f)"
proof -
  have inv: "factory_inv allowed (NewFilteredSharedInformerFactory client resync ns tweak) (f, past)"
    by (rule factory_reachable_inv [OF assms])
  moreover have "fst (InformerFor t newFunc' (snd (InformerFor t newFunc f))) = fst (InformerFor t newFunc f)"
    by (simp add: InformerFor_def Let_def update_conv split: option.split)
  ultimately show ?thesis using one_more_start [OF inv] by (auto simp: factory_inv_def)
qed

section \<open>Which API an informer watches\<close>

text \<open>The constructors the generated code requests informers with, and the resources of the types.\<close>

definition danm_newFunc :: "version \<Rightarrow> obj_type \<Rightarrow> (('d, 'w) Clientset, 'w) NewInformerFunc option" where
  "danm_newFunc v t =
     (case t of
        TDanmNet \<Rightarrow> Some (danmNetInformer_defaultInformer (version_DanmNets v))
      | TTenantNetwork \<Rightarrow> Some (tenantNetworkInformer_defaultInformer (version_TenantNetworks v))
      | TClusterNetwork \<Rightarrow> Some (clusterNetworkInformer_defaultInformer (version_ClusterNetworks v))
      | TDanmEp \<Rightarrow> Some (danmEpInformer_defaultInformer (version_DanmEps v))
      | TTenantConfig \<Rightarrow> Some (tenantConfigInformer_defaultInformer (version_TenantConfigs v))
      | TNad \<Rightarrow> None)"

definition type_resource :: "obj_type \<Rightarrow> string" where
  "type_resource t =
     (case t of
        TDanmNet \<Rightarrow> ''danmnets'' | TTenantNetwork \<Rightarrow> ''tenantnetworks''
      | TClusterNetwork \<Rightarrow> ''clusternetworks'' | TDanmEp \<Rightarrow> ''danmeps''
      | TTenantConfig \<Rightarrow> ''tenantconfigs'' | TNad \<Rightarrow> ''network-attachment-definitions'')"

definition cluster_wide :: "string \<Rightarrow> bool" where
  "cluster_wide r \<longleftrightarrow> r = ''clusternetworks'' \<or> r = ''tenantconfigs''"

abbreviation generated :: "version \<Rightarrow> obj_type \<Rightarrow> (('d, 'w) Clientset, 'w) NewInformerFunc \<Rightarrow> bool" where
  "generated v t newFunc \<equiv> danm_newFunc v t = Some newFunc"

lemmas informer_defs = danmNetInformer_defaultInformer_def tenantNetworkInformer_defaultInformer_def
  clusterNetworkInformer_defaultInformer_def danmEpInformer_defaultInformer_def
  tenantConfigInformer_defaultInformer_def NewFilteredDanmNetInformer_def
  NewFilteredTenantNetworkInformer_def NewFilteredClusterNetworkInformer_def
  NewFilteredDanmEpInformer_def NewFilteredTenantConfigInformer_def version_DanmNets_def
  version_TenantNetworks_def version_ClusterNetworks_def version_DanmEps_def version_TenantConfigs_def

lemmas list_watch_defs = danmNets_List_def tenantNetworks_List_def clusterNetworks_List_def
  danmEps_List_def tenantConfigs_List_def danmNets_Watch_def tenantNetworks_Watch_def
  clusterNetworks_Watch_def danmEps_Watch_def tenantConfigs_Watch_def

lemma generated_requests:
  assumes "made_by (generated v) (Clientset_New cgo recording_rest) (t, i)"
  defines "r \<equiv> type_resource t"
  shows "snd (si_ListFunc i options w) = (GET, r, (if cluster_wide r then [] else ver_namespace v), []) # w \<and>
    snd (si_WatchFunc i options w) = (GET, r, (if cluster_wide r then [] else ver_namespace v), []) # w"
  using assms
  by (auto simp: made_by_def danm_newFunc_def type_resource_def cluster_wide_def informer_defs list_watch_defs
      as_object_def Clientset_New_def DanmV1_def record_defs split: obj_type.splits)

lemma ForResource_request:
  assumes "ForResource (danm_resource r) f = (Some g, f')"
  obtains t newFunc where "generated (group_V1 (factory_Danm f)) t newFunc" and "type_resource t = r"
    and "gi_informer g = fst (InformerFor t newFunc f)" and "f' = snd (InformerFor t newFunc f)"
proof -
  have "\<exists>t newFunc. generated (group_V1 (factory_Danm f)) t newFunc \<and> type_resource t = r \<and>
      gi_informer g = fst (InformerFor t newFunc f) \<and> f' = snd (InformerFor t newFunc f)"
    using assms
    by (auto simp: ForResource_def danm_resource_def Let_def split_beta danm_newFunc_def type_resource_def
        clusterNetworkInformer_Informer_def danmEpInformer_Informer_def danmNetInformer_Informer_def
        tenantConfigInformer_Informer_def tenantNetworkInformer_Informer_def split: if_splits obj_type.splits)
  with that show ?thesis by blast
qed

text \<open>
  C30. Each informer watches its own API: in every state of a factory whose informers are requested by
  the generated code, generic access to a resource gives an informer that lists and watches exactly
  this resource, in the namespace of the factory unless the API is cluster-wide, and that is the
  informer the factory will start.
\<close>

theorem resource_informer_lists_resource:
  assumes "f0 = NewFilteredSharedInformerFactory (Clientset_New cgo recording_rest) resync ns tweak"
    and "(factory_step (generated (group_V1 (factory_Danm f0))))\<^sup>*\<^sup>* (f0, []) (f, past)"
    and "ForResource (danm_resource r) f = (Some g, f')"
  shows "snd (si_ListFunc (gi_informer g) options w) = (GET, r, (if cluster_wide r then [] else ns), []) # w \<and>
    snd (si_WatchFunc (gi_informer g) options w) = (GET, r, (if cluster_wide r then [] else ns), []) # w \<and>
    gi_informer g \<in> snd ` set (fa_informers f')"
proof -
  let ?v = "group_V1 (factory_Danm f0)"
  have inv: "factory_inv (generated ?v) f0 (f, past)"
    using factory_reachable_inv [of "generated ?v" "Clientset_New cgo recording_rest" resync ns tweak "(f, past)"] assms(1,2)
    by simp
  have f0: "fa_client f0 = Clientset_New cgo recording_rest" "fa_namespace f0 = ns"
    by (simp_all add: assms(1) NewFilteredSharedInformerFactory_def NewSharedInformerFactoryWithOptions_def
        WithNamespace_def WithTweakListOptions_def)
  have v: "group_V1 (factory_Danm f) = ?v" "ver_namespace ?v = ns"
    using inv f0 by (simp_all add: factory_inv_def factory_Danm_def group_V1_def informers_New_def)
  from ForResource_request [OF assms(3)] obtain t newFunc where req: "generated ?v t newFunc" "type_resource t = r"
    and g: "gi_informer g = fst (InformerFor t newFunc f)" and f': "f' = snd (InformerFor t newFunc f)"
    using v by metis
  have "factory_step (generated ?v) (f, past) (f', past)" unfolding f'
    using factory_step.request [of "generated ?v" t newFunc f past] req(1) by simp
  from factory_step_inv [OF this inv] have "factory_inv (generated ?v) f0 (f', past)" .
  moreover have stored: "(t, gi_informer g) \<in> set (fa_informers f')" unfolding g f' by (rule InformerFor_stored)
  ultimately have "made_by (generated ?v) (Clientset_New cgo recording_rest) (t, gi_informer g)"
    using f0 by (simp add: factory_inv_def)
  from generated_requests [OF this] v(2) req(2) stored show ?thesis by force
qed

section \<open>Reading the caches\<close>

text \<open>
  A cache of client-go keeps its objects under namespace and name. Names and namespaces of
  Kubernetes objects have no slash.
\<close>

fun object_meta :: "runtime_obj \<Rightarrow> ObjectMeta" where
  "object_meta (RDanmNet x) = dn_Meta x"
| "object_meta (RTenantNetwork x) = dn_Meta x"
| "object_meta (RClusterNetwork x) = dn_Meta x"
| "object_meta (RDanmEp x) = ep_Meta x"
| "object_meta (RTenantConfig x) = tc_Meta x"
| "object_meta (RNad x) = nad_Meta x"
| "object_meta _ = empty_meta"

definition object_key :: "runtime_obj \<Rightarrow> string" where
  "object_key o1 =
     (if mt_Namespace (object_meta o1) = [] then mt_Name (object_meta o1)
      else mt_Namespace (object_meta o1) @ ''/'' @ mt_Name (object_meta o1))"

definition no_slash :: "string \<Rightarrow> bool" where
  "no_slash s \<longleftrightarrow> CHR ''/'' \<notin> set s"

text \<open>The cache of endpoints \<open>eps\<close>, each under its own key.\<close>

definition caches_eps :: "DanmEp list \<Rightarrow> indexer \<Rightarrow> bool" where
  "caches_eps eps ix \<longleftrightarrow>
     distinct (map (\<lambda>e. object_key (RDanmEp e)) eps) \<and>
     (\<forall>e \<in> set eps. no_slash (mt_Namespace (ep_Meta e)) \<and> no_slash (mt_Name (ep_Meta e))) \<and>
     (\<forall>key. GetByKey ix key = (map_option RDanmEp (find (\<lambda>e. object_key (RDanmEp e) = key) eps), None)) \<and>
     (\<forall>ns sel. ListAllByNamespace ix ns sel =
        (map RDanmEp (filter (\<lambda>e. mt_Namespace (ep_Meta e) = ns \<and> sel (mt_Labels (ep_Meta e))) eps), None))"

lemma split_slash:
  "no_slash a \<Longrightarrow> no_slash c \<Longrightarrow> a @ CHR ''/'' # b = c @ CHR ''/'' # d \<longleftrightarrow> a = c \<and> b = d"
  by (auto simp: no_slash_def append_eq_append_conv2 append_eq_Cons_conv Cons_eq_append_conv)

lemma ep_key:
  assumes "no_slash (mt_Namespace (ep_Meta e))" and "no_slash (mt_Name (ep_Meta e))" and "no_slash ns"
  shows "object_key (RDanmEp e) = ns @ ''/'' @ name \<longleftrightarrow>
    mt_Namespace (ep_Meta e) \<noteq> [] \<and> mt_Namespace (ep_Meta e) = ns \<and> mt_Name (ep_Meta e) = name"
  using assms by (auto simp: object_key_def split_slash) (auto simp: no_slash_def)

lemma append_objects_map: "(\<And>x. sel (f x) = Some x) \<Longrightarrow> append_objects sel (map f xs) = Ok xs"
  by (induction xs) simp_all

lemma find_unique:
  "distinct (map k xs) \<Longrightarrow> find (\<lambda>x. k x = y) xs = Some x \<longleftrightarrow> x \<in> set xs \<and> k x = y"
  by (induction xs) auto

text \<open>
  The lister of endpoints finds exactly what is cached: a lookup by namespace and name gives the
  endpoint with this namespace and name, not-found if and only if there is none, and a list gives
  the endpoints of the namespace whose labels are selected.
\<close>

theorem lister_finds_exactly:
  fixes ns ix
  defines "lister \<equiv> danmEpLister_DanmEps (NewDanmEpLister ix) ns"
  assumes "caches_eps eps ix" and "no_slash ns" and "ns \<noteq> []"
  shows "(danmEpNamespaceLister_Get lister name = Ok (Inr e) \<longleftrightarrow>
      e \<in> set eps \<and> mt_Namespace (ep_Meta e) = ns \<and> mt_Name (ep_Meta e) = name) \<and>
    (danmEpNamespaceLister_Get lister name = Ok (Inl (NotFound (''danm.io'', ''danmep'') name)) \<longleftrightarrow>
      (\<nexists>x. x \<in> set eps \<and> mt_Namespace (ep_Meta x) = ns \<and> mt_Name (ep_Meta x) = name)) \<and>
    danmEpNamespaceLister_List lister sel =
      Ok (filter (\<lambda>x. mt_Namespace (ep_Meta x) = ns \<and> sel (mt_Labels (ep_Meta x))) eps, None)"
proof -
  have key: "object_key (RDanmEp x) = ns @ ''/'' @ name \<longleftrightarrow>
      mt_Namespace (ep_Meta x) = ns \<and> mt_Name (ep_Meta x) = name" if "x \<in> set eps" for x
    using ep_key [of x ns name] that assms by (auto simp: caches_eps_def)
  have get: "danmEpNamespaceLister_Get lister name =
      (case find (\<lambda>x. object_key (RDanmEp x) = ns @ ''/'' @ name) eps of
         None \<Rightarrow> Ok (Inl (NotFound (''danm.io'', ''danmep'') name)) | Some x \<Rightarrow> Ok (Inr x))"
    using assms(2) by (simp add: lister_def danmEpNamespaceLister_Get_def danmEpLister_DanmEps_def NewDanmEpLister_def
        caches_eps_def found_def danm_Resource_def as_RDanmEp_def split: option.split)
  have "distinct (map (\<lambda>x. object_key (RDanmEp x)) eps)" using assms(2) by (simp add: caches_eps_def)
  note find = find_unique [OF this, of "ns @ ''/'' @ name"]
  have "danmEpNamespaceLister_Get lister name = Ok (Inr e) \<longleftrightarrow>
      find (\<lambda>x. object_key (RDanmEp x) = ns @ ''/'' @ name) eps = Some e"
    unfolding get by (simp split: option.split)
  moreover have "danmEpNamespaceLister_Get lister name = Ok (Inl (NotFound (''danm.io'', ''danmep'') name)) \<longleftrightarrow>
      find (\<lambda>x. object_key (RDanmEp x) = ns @ ''/'' @ name) eps = None"
    unfolding get by (simp split: option.split)
  moreover have "danmEpNamespaceLister_List lister sel =
      Ok (filter (\<lambda>x. mt_Namespace (ep_Meta x) = ns \<and> sel (mt_Labels (ep_Meta x))) eps, None)"
    using assms(2) by (simp add: lister_def danmEpNamespaceLister_List_def danmEpLister_DanmEps_def NewDanmEpLister_def
        caches_eps_def listed_def append_objects_map as_RDanmEp_def)
  ultimately show ?thesis using find key by (auto simp: find_None_iff)
qed

section \<open>Witnesses\<close>

definition demo_client_go :: "(unit, unit, request_log) client_go" where
  "demo_client_go =
     \<lparr>RESTClientFor = (\<lambda>_. Inr recording_rest), NewDiscoveryClientForConfig = (\<lambda>_. Inr ()),
      NewDiscoveryClient = (\<lambda>_. ()), NewTokenBucketRateLimiter = (\<lambda>_ _. ()), DefaultKubernetesUserAgent = ''danm''\<rparr>"

definition demo_factory :: "((unit, request_log) Clientset, request_log) sharedInformerFactory" where
  "demo_factory = NewFilteredSharedInformerFactory (Clientset_New demo_client_go recording_rest) 60 ''ns'' None"

definition demo_requested :: "request_log shared_informer \<times> ((unit, request_log) Clientset, request_log) sharedInformerFactory" where
  "demo_requested = danmEpInformer_Informer (version_DanmEps (group_V1 (factory_Danm demo_factory))) demo_factory"

theorem informers_run_once_witness:
  "\<exists>f past. (factory_step (\<lambda>_ _. True))\<^sup>*\<^sup>* (demo_factory, []) (f, past) \<and> map fst past = [TDanmEp] \<and>
     fst (factory_Start f) = [] \<and> distinct (map fst past)"
proof -
  obtain i f1 where req: "demo_requested = (i, f1)" by (cases demo_requested)
  have new: "fa_informers demo_factory = []" "fa_startedInformers demo_factory = []"
    by (simp_all add: demo_factory_def NewFilteredSharedInformerFactory_def NewSharedInformerFactoryWithOptions_def
        WithNamespace_def WithTweakListOptions_def)
  with req have f1: "fa_informers f1 = [(TDanmEp, i)]" "fa_startedInformers f1 = []"
    by (auto simp: demo_requested_def danmEpInformer_Informer_def InformerFor_def Let_def)
  have start: "factory_Start f1 = ([(TDanmEp, i)], f1\<lparr>fa_startedInformers := [(TDanmEp, True)]\<rparr>)"
    by (simp add: factory_Start_def f1 is_started_def)
  let ?f = "f1\<lparr>fa_startedInformers := [(TDanmEp, True)]\<rparr>"
  have "f1 = snd (InformerFor TDanmEp (danmEpInformer_defaultInformer (version_DanmEps (group_V1 (factory_Danm demo_factory)))) demo_factory)"
    using req by (simp add: demo_requested_def danmEpInformer_Informer_def)
  then have "factory_step (\<lambda>_ _. True) (demo_factory, []) (f1, [])"
    using factory_step.request [of "\<lambda>_ _. True"] by simp
  moreover have "factory_step (\<lambda>_ _. True) (f1, []) (?f, [] @ [(TDanmEp, i)])"
    by (rule factory_step.start [OF start])
  ultimately have run: "(factory_step (\<lambda>_ _. True))\<^sup>*\<^sup>* (demo_factory, []) (?f, [(TDanmEp, i)])"
    by (simp add: converse_rtranclp_into_rtranclp)
  from informers_run_once [OF run [unfolded demo_factory_def]] have "distinct (map fst [(TDanmEp, i)])" by blast
  moreover have "fst (factory_Start ?f) = []" by (simp add: factory_Start_def f1 is_started_def)
  ultimately show ?thesis using run by (intro exI [of _ ?f] exI [of _ "[(TDanmEp, i)]"]) simp
qed

theorem resource_informer_lists_resource_witness:
  "\<exists>g f'. ForResource (danm_resource ''danmeps'') demo_factory = (Some g, f') \<and>
     snd (si_ListFunc (gi_informer g) no_list_options []) = [(GET, ''danmeps'', ''ns'', [])]"
proof -
  obtain g f' where r: "ForResource (danm_resource ''danmeps'') demo_factory = (Some g, f')"
    by (auto simp: ForResource_def danm_resource_def Let_def split_beta)
  from resource_informer_lists_resource [OF demo_factory_def rtranclp.rtrancl_refl r, of no_list_options "[]"] r
  show ?thesis by (simp add: cluster_wide_def)
qed

definition demo_cache :: indexer where
  "demo_cache =
     \<lparr>GetByKey = (\<lambda>key. (map_option RDanmEp (find (\<lambda>e. object_key (RDanmEp e) = key) [demo_ep demo_tnet]), None)),
      ListAll = (\<lambda>sel. ([RDanmEp (demo_ep demo_tnet)], None)),
      ListAllByNamespace = (\<lambda>ns sel. (map RDanmEp (filter (\<lambda>e. mt_Namespace (ep_Meta e) = ns \<and>
        sel (mt_Labels (ep_Meta e))) [demo_ep demo_tnet]), None))\<rparr>"

theorem lister_finds_exactly_witness:
  "danmEpNamespaceLister_Get (danmEpLister_DanmEps (NewDanmEpLister demo_cache) ''ns'') ''e1'' = Ok (Inr (demo_ep demo_tnet))"
proof -
  have meta: "mt_Namespace (ep_Meta (demo_ep demo_tnet)) = ''ns''" "mt_Name (ep_Meta (demo_ep demo_tnet)) = ''e1''"
    by (simp_all add: demo_ep_def new_ep_def demo_args_def)
  then have "caches_eps [demo_ep demo_tnet] demo_cache" by (simp add: caches_eps_def demo_cache_def no_slash_def)
  from lister_finds_exactly [OF this, of "''ns''" "''e1''" "demo_ep demo_tnet"] meta show ?thesis
    by (simp add: no_slash_def)
qed

end
