(* ===== verification/NadInformers.thy ===== *)
theory NadInformers
  imports InformerProps
begin

text \<open>
  The informer factory generated for NetworkAttachmentDefinitions
  (\<^verbatim>\<open>crd/client/nad/informers/externalversions\<close>). It repeats the code of
  \<^verbatim>\<open>crd/client/informers/externalversions\<close> over another clientset: the operations are
  those of \<open>Informers\<close> at this type, which carries its properties over.
\<close>

section \<open>The factory\<close>

type_synonym ('d, 'w) nad_factory = "(('d, 'w) NadClientset, 'w) sharedInformerFactory"
type_synonym ('d, 'w) NadInformerOption = "('d, 'w) nad_factory \<Rightarrow> ('d, 'w) nad_factory"
type_synonym ('d, 'w) NewNadInformerFunc = "('d, 'w) NadClientset \<Rightarrow> duration \<Rightarrow> 'w shared_informer"

definition nad_WithCustomResyncConfig :: "(obj_type \<times> duration) list \<Rightarrow> ('d, 'w) NadInformerOption" where
  "nad_WithCustomResyncConfig resyncConfig factory =
     factory\<lparr>fa_customResync := fold (\<lambda>(k, v) m. AList.update k v m) resyncConfig (fa_customResync factory)\<rparr>"

definition nad_WithTweakListOptions :: "TweakListOptionsFunc option \<Rightarrow> ('d, 'w) NadInformerOption" where
  "nad_WithTweakListOptions tweakListOptions factory = factory\<lparr>fa_tweakListOptions := tweakListOptions\<rparr>"

definition nad_WithNamespace :: "string \<Rightarrow> ('d, 'w) NadInformerOption" where
  "nad_WithNamespace namespace factory = factory\<lparr>fa_namespace := namespace\<rparr>"

definition nad_NewSharedInformerFactoryWithOptions ::
  "('d, 'w) NadClientset \<Rightarrow> duration \<Rightarrow> ('d, 'w) NadInformerOption list \<Rightarrow> ('d, 'w) nad_factory" where
  "nad_NewSharedInformerFactoryWithOptions client defaultResync options =
     fold (\<lambda>opt factory. opt factory) options
       \<lparr>fa_client = client, fa_namespace = [], fa_tweakListOptions = None, fa_defaultResync = defaultResync,
        fa_customResync = [], fa_informers = [], fa_startedInformers = []\<rparr>"

definition nad_NewSharedInformerFactory :: "('d, 'w) NadClientset \<Rightarrow> duration \<Rightarrow> ('d, 'w) nad_factory" where
  "nad_NewSharedInformerFactory client defaultResync = nad_NewSharedInformerFactoryWithOptions client defaultResync []"

definition nad_NewFilteredSharedInformerFactory ::
  "('d, 'w) NadClientset \<Rightarrow> duration \<Rightarrow> string \<Rightarrow> TweakListOptionsFunc option \<Rightarrow> ('d, 'w) nad_factory" where
  "nad_NewFilteredSharedInformerFactory client defaultResync namespace tweakListOptions =
     nad_NewSharedInformerFactoryWithOptions client defaultResync
       [nad_WithNamespace namespace, nad_WithTweakListOptions tweakListOptions]"

definition nad_factory_Start ::
  "('d, 'w) nad_factory \<Rightarrow> (obj_type \<times> 'w shared_informer) list \<times> ('d, 'w) nad_factory" where
  "nad_factory_Start f =
     (let (runs, started) = start_loop (fa_informers f) (fa_startedInformers f)
      in (runs, f\<lparr>fa_startedInformers := started\<rparr>))"

definition nad_factory_WaitForCacheSync ::
  "('w shared_informer \<Rightarrow> bool) \<Rightarrow> ('d, 'w) nad_factory \<Rightarrow> (obj_type \<times> bool) list" where
  "nad_factory_WaitForCacheSync wait f =
     (let informers = filter (\<lambda>(informerType, informer). is_started (fa_startedInformers f) informerType) (fa_informers f)
      in map (\<lambda>(informType, informer). (informType, wait informer)) informers)"

definition nad_InformerFor ::
  "obj_type \<Rightarrow> ('d, 'w) NewNadInformerFunc \<Rightarrow> ('d, 'w) nad_factory \<Rightarrow> 'w shared_informer \<times> ('d, 'w) nad_factory" where
  "nad_InformerFor informerType newFunc f =
     (case map_of (fa_informers f) informerType of
        Some informer \<Rightarrow> (informer, f)
      | None \<Rightarrow>
          (let resyncPeriod = (case map_of (fa_customResync f) informerType of
                                 None \<Rightarrow> fa_defaultResync f | Some d \<Rightarrow> d);
               informer = newFunc (fa_client f) resyncPeriod
           in (informer, f\<lparr>fa_informers := AList.update informerType informer (fa_informers f)\<rparr>)))"

text \<open>The group and its version, \<^verbatim>\<open>k8s.cni.cncf.io\<close>.\<close>

definition nad_informers_New :: "string \<Rightarrow> TweakListOptionsFunc option \<Rightarrow> version" where
  "nad_informers_New namespace tweakListOptions = \<lparr>ver_namespace = namespace, ver_tweakListOptions = tweakListOptions\<rparr>"

definition nad_group_V1 :: "version \<Rightarrow> version" where
  "nad_group_V1 g = nad_informers_New (ver_namespace g) (ver_tweakListOptions g)"

section \<open>Its properties\<close>

lemmas nad_defs = nad_WithCustomResyncConfig_def nad_WithTweakListOptions_def nad_WithNamespace_def
  nad_NewSharedInformerFactoryWithOptions_def nad_NewSharedInformerFactory_def nad_NewFilteredSharedInformerFactory_def
  nad_factory_Start_def nad_factory_WaitForCacheSync_def nad_InformerFor_def nad_informers_New_def nad_group_V1_def

lemma nad_factory_same:
  "nad_WithCustomResyncConfig = WithCustomResyncConfig" "nad_WithTweakListOptions = WithTweakListOptions"
  "nad_WithNamespace = WithNamespace" "nad_NewSharedInformerFactoryWithOptions = NewSharedInformerFactoryWithOptions"
  "nad_NewSharedInformerFactory = NewSharedInformerFactory"
  "nad_NewFilteredSharedInformerFactory = NewFilteredSharedInformerFactory"
  "nad_factory_Start = factory_Start" "nad_factory_WaitForCacheSync = factory_WaitForCacheSync"
  "nad_InformerFor = InformerFor" "nad_informers_New = informers_New" "nad_group_V1 = group_V1"
  by (intro ext; simp add: nad_defs WithCustomResyncConfig_def WithTweakListOptions_def WithNamespace_def
      NewSharedInformerFactoryWithOptions_def NewSharedInformerFactory_def NewFilteredSharedInformerFactory_def
      factory_Start_def factory_WaitForCacheSync_def InformerFor_def informers_New_def group_V1_def)+

text \<open>
  A request for the informer of NetworkAttachmentDefinitions, by name or by resource, and a start. Whatever
  their order, the informer is run at most once, and one more start leaves it run if it was requested.
\<close>

inductive nad_factory_step ::
  "('d, 'w) nad_factory \<times> (obj_type \<times> 'w shared_informer) list \<Rightarrow>
   ('d, 'w) nad_factory \<times> (obj_type \<times> 'w shared_informer) list \<Rightarrow> bool" where
  request: "nad_factory_step (f, past)
     (snd (nad_InformerFor TNad (nadInformer_defaultInformer (version_NetworkAttachmentDefinitions (nad_group_V1 (factory_K8sCniCncfIo f)))) f), past)"
| generic: "nad_factory_step (f, past) (snd (Nad_ForResource resource f), past)"
| start: "nad_factory_Start f = (runs, f') \<Longrightarrow> nad_factory_step (f, past) (f', past @ runs)"

lemma nad_step_is_step:
  assumes "nad_factory_step s s'"
  shows "(factory_step (\<lambda>t _. t = TNad))\<^sup>*\<^sup>* s s'"
  using assms
proof cases
  case (request f past)
  then show ?thesis
    by (auto simp: nad_factory_same intro!: r_into_rtranclp factory_step.request)
next
  case (generic f past resource)
  then show ?thesis
    by (auto simp: Nad_ForResource_def nadInformer_Informer_def split_beta Let_def intro!: r_into_rtranclp factory_step.request)
next
  case (start f runs f' past)
  then show ?thesis by (auto simp: nad_factory_same intro!: r_into_rtranclp factory_step.start)
qed

theorem nad_informer_runs_once:
  assumes "nad_factory_step\<^sup>*\<^sup>* (nad_NewFilteredSharedInformerFactory client resync ns tweak, []) (f, past)"
  shows "distinct (map fst past) \<and> fst ` set past \<subseteq> {TNad} \<and>
    fst ` set (past @ fst (nad_factory_Start f)) = fst ` set (fa_informers f)"
proof -
  let ?f0 = "NewFilteredSharedInformerFactory client resync ns tweak"
  have "(factory_step (\<lambda>t _. t = TNad))\<^sup>*\<^sup>* (?f0, []) s" if "nad_factory_step\<^sup>*\<^sup>* (?f0, []) s" for s
    using that
  proof (induction rule: rtranclp_induct)
    case (step s t)
    with nad_step_is_step [of s t] show ?case by (meson rtranclp_trans)
  qed simp
  then have "(factory_step (\<lambda>t _. t = TNad))\<^sup>*\<^sup>* (?f0, []) (f, past)" using assms by (simp add: nad_factory_same)
  from factory_reachable_inv [OF this] have inv: "factory_inv (\<lambda>t _. t = TNad) ?f0 (f, past)" .
  then have "fst ` set past \<subseteq> {TNad}" by (fastforce simp: factory_inv_def made_by_def)
  with inv one_more_start [OF inv] show ?thesis by (simp add: factory_inv_def nad_factory_same)
qed

end
