(* ===== verification/Schemes.thy ===== *)
theory Schemes
  imports FakeClient
begin

text \<open>
  Registration of the API types: \<^verbatim>\<open>register.go\<close> of the two groups under
  \<^verbatim>\<open>crd/apis\<close>, and the schemes of the two clientsets and of their fakes; and how a fake
  clientset is made, which decodes with its scheme. A scheme is state of apimachinery: the record
  \<open>apimachinery\<close> holds what the code calls of it.
\<close>

section \<open>Group versions\<close>

type_synonym group_version = "string \<times> string"

definition danm_GroupVersion :: group_version where
  "danm_GroupVersion = (''danm.io'', ''v1'')"

definition nad_GroupVersion :: group_version where
  "nad_GroupVersion = (''k8s.cni.cncf.io'', ''v1'')"

definition danm_Kind :: "string \<Rightarrow> string \<times> string" where
  "danm_Kind kind = (fst danm_GroupVersion, kind)"

section \<open>Known types\<close>

text \<open>
  A type is known under the name of its Go struct, which is its kind. A scheme builder is a list of
  functions; \<open>ApplyBuilder\<close> is its \<^verbatim>\<open>AddToScheme\<close>.
\<close>

type_synonym 's scheme_func = "'s \<Rightarrow> string option \<times> 's"

record 's apimachinery =
  NewScheme :: 's
  AddKnownTypes :: "group_version \<Rightarrow> string list \<Rightarrow> 's \<Rightarrow> 's"
  AddToGroupVersion :: "group_version \<Rightarrow> 's \<Rightarrow> 's"
  ApplyBuilder :: "'s scheme_func list \<Rightarrow> 's scheme_func"

definition danm_addKnownTypes :: "'s apimachinery \<Rightarrow> 's scheme_func" where
  "danm_addKnownTypes api scheme =
     (None, AddToGroupVersion api danm_GroupVersion
       (AddKnownTypes api danm_GroupVersion
         [''DanmEp'', ''DanmEpList'', ''DanmNet'', ''DanmNetList'', ''ClusterNetwork'', ''ClusterNetworkList'',
          ''TenantNetwork'', ''TenantNetworkList'', ''TenantConfig'', ''TenantConfigList''] scheme))"

definition danm_SchemeBuilder :: "'s apimachinery \<Rightarrow> 's scheme_func list" where
  "danm_SchemeBuilder api = [danm_addKnownTypes api]"

definition danm_AddToScheme :: "'s apimachinery \<Rightarrow> 's scheme_func" where
  "danm_AddToScheme api = ApplyBuilder api (danm_SchemeBuilder api)"

definition nad_addKnownTypes :: "'s apimachinery \<Rightarrow> 's scheme_func" where
  "nad_addKnownTypes api scheme =
     (None, AddToGroupVersion api nad_GroupVersion
       (AddKnownTypes api nad_GroupVersion [''NetworkAttachmentDefinition'', ''NetworkAttachmentDefinitionList''] scheme))"

text \<open>The builder is empty until \<^verbatim>\<open>init\<close> registers the function.\<close>

definition nad_SchemeBuilder :: "'s apimachinery \<Rightarrow> 's scheme_func list" where
  "nad_SchemeBuilder api = [] @ [nad_addKnownTypes api]"

definition nad_AddToScheme :: "'s apimachinery \<Rightarrow> 's scheme_func" where
  "nad_AddToScheme api = ApplyBuilder api (nad_SchemeBuilder api)"

section \<open>The schemes of the clientsets\<close>

text \<open>
  A clientset, real or fake, has a new scheme of its own, to which the \<^verbatim>\<open>init\<close> of its
  package adds the group; \<^verbatim>\<open>Must\<close> panics on an error.
\<close>

definition clientset_AddToScheme :: "'s apimachinery \<Rightarrow> 's scheme_func" where
  "clientset_AddToScheme api = ApplyBuilder api [danm_AddToScheme api]"

definition clientset_init :: "'s apimachinery \<Rightarrow> 's res" where
  "clientset_init api =
     (let scheme = AddToGroupVersion api ([], ''v1'') (NewScheme api) in
      case clientset_AddToScheme api scheme of (None, scheme') \<Rightarrow> Ok scheme' | (Some err, scheme') \<Rightarrow> Panic)"

definition fake_AddToScheme :: "'s apimachinery \<Rightarrow> 's scheme_func" where
  "fake_AddToScheme api = ApplyBuilder api [danm_AddToScheme api]"

definition fake_init :: "'s apimachinery \<Rightarrow> 's res" where
  "fake_init api =
     (let scheme = AddToGroupVersion api ([], ''v1'') (NewScheme api) in
      case fake_AddToScheme api scheme of (None, scheme') \<Rightarrow> Ok scheme' | (Some err, scheme') \<Rightarrow> Panic)"

definition nad_clientset_AddToScheme :: "'s apimachinery \<Rightarrow> 's scheme_func" where
  "nad_clientset_AddToScheme api = ApplyBuilder api [nad_AddToScheme api]"

definition nad_clientset_init :: "'s apimachinery \<Rightarrow> 's res" where
  "nad_clientset_init api =
     (let scheme = AddToGroupVersion api ([], ''v1'') (NewScheme api) in
      case nad_clientset_AddToScheme api scheme of (None, scheme') \<Rightarrow> Ok scheme' | (Some err, scheme') \<Rightarrow> Panic)"

definition nad_fake_AddToScheme :: "'s apimachinery \<Rightarrow> 's scheme_func" where
  "nad_fake_AddToScheme api = ApplyBuilder api [nad_AddToScheme api]"

definition nad_fake_init :: "'s apimachinery \<Rightarrow> 's res" where
  "nad_fake_init api =
     (let scheme = AddToGroupVersion api ([], ''v1'') (NewScheme api) in
      case nad_fake_AddToScheme api scheme of (None, scheme') \<Rightarrow> Ok scheme' | (Some err, scheme') \<Rightarrow> Panic)"

section \<open>Fake clientsets\<close>

text \<open>
  A fake clientset embeds client-go's \<^verbatim>\<open>testing.Fake\<close>, which its reactors make answer
  from an object tracker. \<open>AddReactor\<close> is given the tracker whose \<^verbatim>\<open>ObjectReaction\<close>
  it adds; the discovery client holds a pointer to the fake, as it is once the reactors are added.
\<close>

record ('s, 't, 'w, 'd) testing_library =
  NewObjectTracker :: "'s \<Rightarrow> 't"
  TrackerAdd :: "runtime_obj \<Rightarrow> 't \<Rightarrow> string + 't"
  TrackerWatch :: "'t \<Rightarrow> gvr \<Rightarrow> string \<Rightarrow> string + watch"
  EmptyFake :: "'w fake"
  FakeDiscovery :: "'w fake \<Rightarrow> 'd"
  AddReactor :: "string \<Rightarrow> string \<Rightarrow> 't \<Rightarrow> 'w fake \<Rightarrow> 'w fake"
  AddWatchReactor :: "string \<Rightarrow> (gvr \<Rightarrow> string \<Rightarrow> bool \<times> watch option \<times> string option) \<Rightarrow> 'w fake \<Rightarrow> 'w fake"

record ('t, 'w, 'd) fake_Clientset =
  fc_Fake :: "'w fake"
  fc_discovery :: 'd
  fc_tracker :: 't

definition NewSimpleClientset ::
  "('s, 't, 'w, 'd) testing_library \<Rightarrow> 's \<Rightarrow> runtime_obj list \<Rightarrow> ('t, 'w, 'd) fake_Clientset res" where
  "NewSimpleClientset lib scheme objects =
     bind_res (add_objects (TrackerAdd lib) objects (NewObjectTracker lib scheme)) (\<lambda>tracker.
       (let fake = AddWatchReactor lib ''*'' (watch_reactor (TrackerWatch lib tracker))
                     (AddReactor lib ''*'' ''*'' tracker (EmptyFake lib))
        in Ok \<lparr>fc_Fake = fake, fc_discovery = FakeDiscovery lib fake, fc_tracker = tracker\<rparr>))"

definition fake_Clientset_Discovery :: "('t, 'w, 'd) fake_Clientset \<Rightarrow> 'd" where
  "fake_Clientset_Discovery c = fc_discovery c"

definition fake_Clientset_Tracker :: "('t, 'w, 'd) fake_Clientset \<Rightarrow> 't" where
  "fake_Clientset_Tracker c = fc_tracker c"

definition fake_Clientset_DanmV1 :: "('t, 'w, 'd) fake_Clientset \<Rightarrow> 'w FakeDanmV1" where
  "fake_Clientset_DanmV1 c = \<lparr>fv_Fake = fc_Fake c\<rparr>"

text \<open>The fake clientset of NetworkAttachmentDefinitions has its own scheme and typed client.\<close>

record ('t, 'w, 'd) nad_fake_Clientset =
  nfc_Fake :: "'w fake"
  nfc_discovery :: 'd
  nfc_tracker :: 't

definition nad_NewSimpleClientset ::
  "('s, 't, 'w, 'd) testing_library \<Rightarrow> 's \<Rightarrow> runtime_obj list \<Rightarrow> ('t, 'w, 'd) nad_fake_Clientset res" where
  "nad_NewSimpleClientset lib scheme objects =
     bind_res (add_objects (TrackerAdd lib) objects (NewObjectTracker lib scheme)) (\<lambda>tracker.
       (let fake = AddWatchReactor lib ''*'' (watch_reactor (TrackerWatch lib tracker))
                     (AddReactor lib ''*'' ''*'' tracker (EmptyFake lib))
        in Ok \<lparr>nfc_Fake = fake, nfc_discovery = FakeDiscovery lib fake, nfc_tracker = tracker\<rparr>))"

definition nad_fake_Clientset_Discovery :: "('t, 'w, 'd) nad_fake_Clientset \<Rightarrow> 'd" where
  "nad_fake_Clientset_Discovery c = nfc_discovery c"

definition nad_fake_Clientset_Tracker :: "('t, 'w, 'd) nad_fake_Clientset \<Rightarrow> 't" where
  "nad_fake_Clientset_Tracker c = nfc_tracker c"

definition nad_fake_Clientset_K8sCniCncfIoV1 :: "('t, 'w, 'd) nad_fake_Clientset \<Rightarrow> 'w FakeK8sCniCncfIoV1" where
  "nad_fake_Clientset_K8sCniCncfIoV1 c = \<lparr>fn_Fake = nfc_Fake c\<rparr>"

section \<open>Every object can be decoded\<close>

text \<open>
  What apimachinery documents: adding types adds exactly these, adding the group version keeps all
  that is known, and a builder applies its functions in order until one fails.
\<close>

definition scheme_laws :: "'s apimachinery \<Rightarrow> ('s \<Rightarrow> group_version \<times> string \<Rightarrow> bool) \<Rightarrow> bool" where
  "scheme_laws api known \<longleftrightarrow>
     (\<forall>gv ts s k. known (AddKnownTypes api gv ts s) k \<longleftrightarrow> known s k \<or> (fst k = gv \<and> snd k \<in> set ts)) \<and>
     (\<forall>gv s k. known s k \<longrightarrow> known (AddToGroupVersion api gv s) k) \<and>
     (\<forall>s. ApplyBuilder api [] s = (None, s)) \<and>
     (\<forall>f fs s. ApplyBuilder api (f # fs) s =
        (case f s of (None, s') \<Rightarrow> ApplyBuilder api fs s' | (Some err, s') \<Rightarrow> (Some err, s')))"

text \<open>The group version and kind of an object of the API.\<close>

primrec object_kind :: "runtime_obj \<Rightarrow> group_version \<times> string" where
  "object_kind (RDanmNet x) = (danm_GroupVersion, ''DanmNet'')"
| "object_kind (RDanmNetList x) = (danm_GroupVersion, ''DanmNetList'')"
| "object_kind (RTenantNetwork x) = (danm_GroupVersion, ''TenantNetwork'')"
| "object_kind (RTenantNetworkList x) = (danm_GroupVersion, ''TenantNetworkList'')"
| "object_kind (RClusterNetwork x) = (danm_GroupVersion, ''ClusterNetwork'')"
| "object_kind (RClusterNetworkList x) = (danm_GroupVersion, ''ClusterNetworkList'')"
| "object_kind (RDanmEp x) = (danm_GroupVersion, ''DanmEp'')"
| "object_kind (RDanmEpList x) = (danm_GroupVersion, ''DanmEpList'')"
| "object_kind (RTenantConfig x) = (danm_GroupVersion, ''TenantConfig'')"
| "object_kind (RTenantConfigList x) = (danm_GroupVersion, ''TenantConfigList'')"
| "object_kind (RNad x) = (nad_GroupVersion, ''NetworkAttachmentDefinition'')"
| "object_kind (RNadList x) = (nad_GroupVersion, ''NetworkAttachmentDefinitionList'')"

lemma init_registers:
  assumes "scheme_laws api known"
  shows "\<exists>s. clientset_init api = Ok s \<and> (\<forall>obj. fst (object_kind obj) = danm_GroupVersion \<longrightarrow> known s (object_kind obj))"
    and "\<exists>s. nad_clientset_init api = Ok s \<and> (\<forall>obj. fst (object_kind obj) = nad_GroupVersion \<longrightarrow> known s (object_kind obj))"
proof -
  have one: "ApplyBuilder api [f] s = f s" for f s
    using assms by (auto simp: scheme_laws_def split: prod.splits option.splits)
  have types: "known (AddToGroupVersion api gv (AddKnownTypes api gv ts s)) (gv, t)" if "t \<in> set ts" for gv ts s t
  proof -
    have "known (AddKnownTypes api gv ts s) (gv, t)"
      using assms that unfolding scheme_laws_def by (elim conjE) (metis fst_conv snd_conv)
    then show ?thesis using assms unfolding scheme_laws_def by blast
  qed
  have danm: "snd (object_kind obj) \<in> set [''DanmEp'', ''DanmEpList'', ''DanmNet'', ''DanmNetList'', ''ClusterNetwork'',
      ''ClusterNetworkList'', ''TenantNetwork'', ''TenantNetworkList'', ''TenantConfig'', ''TenantConfigList'']"
    if "fst (object_kind obj) = danm_GroupVersion" for obj
    using that by (cases obj) (simp_all add: danm_GroupVersion_def nad_GroupVersion_def)
  have nad: "snd (object_kind obj) \<in> set [''NetworkAttachmentDefinition'', ''NetworkAttachmentDefinitionList'']"
    if "fst (object_kind obj) = nad_GroupVersion" for obj
    using that by (cases obj) (simp_all add: danm_GroupVersion_def nad_GroupVersion_def)
  show "\<exists>s. clientset_init api = Ok s \<and> (\<forall>obj. fst (object_kind obj) = danm_GroupVersion \<longrightarrow> known s (object_kind obj))"
    using types [OF danm] by (auto simp: clientset_init_def clientset_AddToScheme_def danm_AddToScheme_def
        danm_SchemeBuilder_def one danm_addKnownTypes_def Let_def) (metis prod.collapse)
  show "\<exists>s. nad_clientset_init api = Ok s \<and> (\<forall>obj. fst (object_kind obj) = nad_GroupVersion \<longrightarrow> known s (object_kind obj))"
    using types [OF nad] by (auto simp: nad_clientset_init_def nad_clientset_AddToScheme_def nad_AddToScheme_def
        nad_SchemeBuilder_def one nad_addKnownTypes_def Let_def) (metis prod.collapse)
qed

text \<open>
  Starting a program never fails on its types, and every object or list that a clientset sends or receives,
  real or fake, is of a type its scheme knows.
\<close>

theorem every_object_is_registered:
  assumes "scheme_laws api known"
  shows "\<exists>s t. clientset_init api = Ok s \<and> fake_init api = Ok s \<and> nad_clientset_init api = Ok t \<and> nad_fake_init api = Ok t \<and>
    (\<forall>obj. known s (object_kind obj) \<or> known t (object_kind obj))"
proof -
  obtain s t where s: "clientset_init api = Ok s" "\<And>obj. fst (object_kind obj) = danm_GroupVersion \<Longrightarrow> known s (object_kind obj)"
    and t: "nad_clientset_init api = Ok t" "\<And>obj. fst (object_kind obj) = nad_GroupVersion \<Longrightarrow> known t (object_kind obj)"
    using init_registers [OF assms] by blast
  have "fake_init api = Ok s" "nad_fake_init api = Ok t"
    using s(1) t(1) by (simp_all add: fake_init_def clientset_init_def fake_AddToScheme_def clientset_AddToScheme_def
        nad_fake_init_def nad_clientset_init_def nad_fake_AddToScheme_def nad_clientset_AddToScheme_def)
  moreover have "fst (object_kind obj) = danm_GroupVersion \<or> fst (object_kind obj) = nad_GroupVersion" for obj
    by (cases obj) simp_all
  ultimately show ?thesis using s t by blast
qed

text \<open>
  A fake clientset is made of any objects of its group, when the tracker takes the kinds the scheme
  knows: \<^verbatim>\<open>NewSimpleClientset\<close> does not panic, and its tracker holds the objects.
\<close>

lemma add_objects_accepts:
  assumes "\<And>obj t. obj \<in> set objects \<Longrightarrow> \<exists>t'. Add obj t = Inr t'"
  shows "\<exists>t'. add_objects Add objects t = Ok t'"
  using assms
proof (induction objects arbitrary: t)
  case (Cons obj objects)
  obtain t' where "Add obj t = Inr t'" using Cons.prems [of obj] by auto
  with Cons.IH [of t'] Cons.prems show ?case by simp
qed simp

theorem fake_clientset_takes_its_group:
  assumes laws: "scheme_laws api known" and scheme: "fake_init api = Ok s"
    and tracker: "\<And>obj t. known s (object_kind obj) \<Longrightarrow> \<exists>t'. TrackerAdd lib obj t = Inr t'"
    and group: "\<forall>obj \<in> set objects. fst (object_kind obj) = danm_GroupVersion"
  shows "\<exists>cs. NewSimpleClientset lib s objects = Ok cs \<and>
    add_objects (TrackerAdd lib) objects (NewObjectTracker lib s) = Ok (fake_Clientset_Tracker cs)"
proof -
  have "clientset_init api = Ok s"
    using scheme by (simp add: fake_init_def clientset_init_def fake_AddToScheme_def clientset_AddToScheme_def)
  then have "known s (object_kind obj)" if "obj \<in> set objects" for obj
    using init_registers(1) [OF laws] group that by auto
  then have "\<exists>t'. TrackerAdd lib obj t = Inr t'" if "obj \<in> set objects" for obj t using tracker that by blast
  then obtain t where "add_objects (TrackerAdd lib) objects (NewObjectTracker lib s) = Ok t"
    using add_objects_accepts [of objects "TrackerAdd lib"] by blast
  then show ?thesis by (simp add: NewSimpleClientset_def fake_Clientset_Tracker_def Let_def)
qed

text \<open>The instance: a scheme as the set of its kinds.\<close>

definition set_apimachinery :: "((group_version \<times> string) set) apimachinery" where
  "set_apimachinery =
     \<lparr>NewScheme = {}, AddKnownTypes = (\<lambda>gv ts s. s \<union> Pair gv ` set ts),
      AddToGroupVersion = (\<lambda>gv s. insert (gv, ''ListOptions'') s),
      ApplyBuilder = (\<lambda>fs s. foldl (\<lambda>(e, s) f. if e = None then f s else (e, s)) (None, s) fs)\<rparr>"

lemma foldl_error: "foldl (\<lambda>(e, s) f. if e = None then f s else (e, s)) (Some err, s) fs = (Some err, s)"
  by (induction fs) simp_all

theorem every_object_is_registered_witness:
  "\<exists>s. clientset_init set_apimachinery = Ok s \<and> fake_init set_apimachinery = Ok s"
proof -
  have "scheme_laws set_apimachinery (\<lambda>s k. k \<in> s)"
    by (auto simp: scheme_laws_def set_apimachinery_def foldl_error split: prod.splits option.splits)
  from every_object_is_registered [OF this] show ?thesis by blast
qed

end
