(* ===== verification/GoFlags.thy ===== *)
theory GoFlags
  imports GoNet "HOL-Library.AList"
begin

text \<open>
  The parts of Go's \<^verbatim>\<open>flag\<close> and \<^verbatim>\<open>strconv\<close> packages that the commands
  start with: flags of three types, their values after parsing, and how parsing fails.
\<close>

section \<open>Integers\<close>

text \<open>
  \<^verbatim>\<open>strconv.ParseInt(s, 0, 64)\<close>: a sign, a base prefix (a leading zero means octal),
  digits, and underscores between digits. A number out of range is reported when the digit that
  leaves 64 bits is read, before the rest of the text is.
\<close>

datatype num_error = ErrSyntax | ErrRange

definition base_prefix :: "string \<Rightarrow> nat \<times> string" where
  "base_prefix s =
     (case s of
        z # rest \<Rightarrow>
          (if z \<noteq> CHR ''0'' then (10, s)
           else (case rest of
             c # d # digits \<Rightarrow>
               (if c = CHR ''b'' \<or> c = CHR ''B'' then (2, d # digits)
                else if c = CHR ''o'' \<or> c = CHR ''O'' then (8, d # digits)
                else if c = CHR ''x'' \<or> c = CHR ''X'' then (16, d # digits)
                else (8, rest))
           | _ \<Rightarrow> (8, rest)))
      | [] \<Rightarrow> (10, []))"

text \<open>The value read and whether there are underscores. No base is above sixteen.\<close>

fun parse_digits :: "nat \<Rightarrow> nat \<Rightarrow> bool \<Rightarrow> string \<Rightarrow> num_error + nat \<times> bool" where
  "parse_digits base n underscores [] = Inr (n, underscores)"
| "parse_digits base n underscores (c # cs) =
     (if c = CHR ''_'' then parse_digits base n True cs
      else (case hex_val c of
        None \<Rightarrow> Inl ErrSyntax
      | Some d \<Rightarrow>
          if d \<ge> base then Inl ErrSyntax
          else if n * base + d \<ge> 2 ^ 64 then Inl ErrRange
          else parse_digits base (n * base + d) underscores cs))"

text \<open>
  Underscores follow and are followed by a digit or the base prefix. The last character is a digit,
  an underscore or something else.
\<close>

datatype last_seen = Start | DigitSeen | UnderscoreSeen | OtherSeen

fun underscores_ok :: "bool \<Rightarrow> last_seen \<Rightarrow> string \<Rightarrow> bool" where
  "underscores_ok hex i [] = (i \<noteq> UnderscoreSeen)"
| "underscores_ok hex i (c # cs) =
     (if is_digit c \<or> hex \<and> hex_val c \<noteq> None then underscores_ok hex DigitSeen cs
      else if c = CHR ''_'' then i = DigitSeen \<and> underscores_ok hex UnderscoreSeen cs
      else i \<noteq> UnderscoreSeen \<and> underscores_ok hex OtherSeen cs)"

definition unsigned_part :: "string \<Rightarrow> string" where
  "unsigned_part s = (if take 1 s = ''+'' \<or> take 1 s = ''-'' then tl s else s)"

definition underscoreOK :: "string \<Rightarrow> bool" where
  "underscoreOK s0 =
     (case unsigned_part s0 of
        z # c # rest \<Rightarrow>
          (if z = CHR ''0'' \<and> c \<in> set ''bBoOxX'' then underscores_ok (c \<in> set ''xX'') DigitSeen rest
           else underscores_ok False Start (z # c # rest))
      | s \<Rightarrow> underscores_ok False Start s)"

definition ParseUint :: "string \<Rightarrow> num_error + nat" where
  "ParseUint s0 =
     (if s0 = [] then Inl ErrSyntax
      else let (base, s) = base_prefix s0 in
        case parse_digits base 0 False s of
          Inl e \<Rightarrow> Inl e
        | Inr (n, underscores) \<Rightarrow> if underscores \<and> \<not> underscoreOK s0 then Inl ErrSyntax else Inr n)"

definition ParseInt :: "string \<Rightarrow> num_error + int" where
  "ParseInt s0 =
     (if s0 = [] then Inl ErrSyntax
      else let neg = (take 1 s0 = ''-'') in
        case ParseUint (unsigned_part s0) of
          Inl e \<Rightarrow> Inl e
        | Inr un \<Rightarrow>
            if \<not> neg \<and> un \<ge> 2 ^ 63 then Inl ErrRange
            else if neg \<and> un > 2 ^ 63 then Inl ErrRange
            else Inr (if neg then - int un else int un))"

section \<open>Parsing a command line\<close>

text \<open>
  Go's \<^verbatim>\<open>flag\<close>: the flags that are declared so far, their values after parsing, and
  how the process ends when the command line is wrong. A boolean flag takes a value only after an
  equals sign. Parsing stops at the first argument that is no flag.
\<close>

datatype flag_kind = BoolFlag | StringFlag | IntFlag

datatype flag_error =
    HelpRequested
  | BadSyntax string
  | NotDefined string
  | InvalidBool string string
  | InvalidInt string string num_error
  | NeedsArgument string

type_synonym flag_decls = "(string \<times> flag_kind) list"
type_synonym flag_values = "(string \<times> string) list"

definition bool_texts :: "string list" where
  "bool_texts = [''1'', ''t'', ''T'', ''TRUE'', ''true'', ''True'', ''0'', ''f'', ''F'', ''FALSE'', ''false'', ''False'']"

definition flag_name :: "string \<Rightarrow> string" where
  "flag_name s = (if take 2 s = ''--'' then drop 2 s else drop 1 s)"

definition flag_key :: "string \<Rightarrow> string" where
  "flag_key name = takeWhile (\<lambda>c. c \<noteq> CHR ''='') name"

definition flag_value :: "string \<Rightarrow> string option" where
  "flag_value name = (if CHR ''='' \<in> set name then Some (tl (dropWhile (\<lambda>c. c \<noteq> CHR ''='') name)) else None)"

text \<open>One step: what the first argument asks for, given the arguments after it.\<close>

datatype flag_outcome = Stop | Fail flag_error | Assign string string "string list"

definition set_flag :: "flag_kind \<Rightarrow> string \<Rightarrow> string \<Rightarrow> string list \<Rightarrow> flag_outcome" where
  "set_flag kind key v rest =
     (case kind of
        BoolFlag \<Rightarrow> (if v \<in> set bool_texts then Assign key v rest else Fail (InvalidBool v key))
      | StringFlag \<Rightarrow> Assign key v rest
      | IntFlag \<Rightarrow> (case ParseInt v of Inl e \<Rightarrow> Fail (InvalidInt v key e) | Inr i \<Rightarrow> Assign key v rest))"

definition flag_step :: "flag_decls \<Rightarrow> string \<Rightarrow> string list \<Rightarrow> flag_outcome" where
  "flag_step decls s rest =
     (let name = flag_name s; key = flag_key name in
      if length s < 2 \<or> hd s \<noteq> CHR ''-'' \<or> s = ''--'' then Stop
      else if name = [] \<or> hd name = CHR ''-'' \<or> hd name = CHR ''='' then Fail (BadSyntax s)
      else case map_of decls key of
             None \<Rightarrow> Fail (if key = ''help'' \<or> key = ''h'' then HelpRequested else NotDefined key)
           | Some kind \<Rightarrow>
               (case (flag_value name, rest) of
                  (Some v, _) \<Rightarrow> set_flag kind key v rest
                | (None, v # rest') \<Rightarrow>
                    if kind = BoolFlag then Assign key ''true'' rest else set_flag kind key v rest'
                | (None, []) \<Rightarrow>
                    if kind = BoolFlag then Assign key ''true'' rest else Fail (NeedsArgument key)))"

lemma set_flag_assigns: "set_flag kind key v rest = Assign key' v' rest' \<Longrightarrow> key' = key \<and> v' = v \<and> rest' = rest"
  by (auto simp: set_flag_def split: flag_kind.splits if_splits sum.splits)

lemma flag_step_shorter: "flag_step decls s rest = Assign key v rest' \<Longrightarrow> length rest' \<le> length rest"
  by (auto simp: flag_step_def Let_def dest!: set_flag_assigns split: if_splits option.splits list.splits)

function flag_Parse :: "flag_decls \<Rightarrow> flag_values \<Rightarrow> string list \<Rightarrow> flag_error + flag_values" where
  "flag_Parse decls vals [] = Inr vals"
| "flag_Parse decls vals (s # rest) =
     (case flag_step decls s rest of
        Stop \<Rightarrow> Inr vals
      | Fail e \<Rightarrow> Inl e
      | Assign key v rest' \<Rightarrow> flag_Parse decls (AList.update key v vals) rest')"
  by pat_completeness auto
termination
  by (relation "measure (\<lambda>(decls, vals, args). length args)") (auto dest!: flag_step_shorter)

definition flag_bool :: "flag_values \<Rightarrow> string \<Rightarrow> bool" where
  "flag_bool vals key \<longleftrightarrow>
     (case map_of vals key of None \<Rightarrow> False | Some v \<Rightarrow> v \<in> {''1'', ''t'', ''T'', ''TRUE'', ''true'', ''True''})"

definition flag_string :: "flag_values \<Rightarrow> string \<Rightarrow> string" where
  "flag_string vals key = (case map_of vals key of None \<Rightarrow> [] | Some v \<Rightarrow> v)"

definition flag_int :: "flag_values \<Rightarrow> string \<Rightarrow> int \<Rightarrow> int" where
  "flag_int vals key dflt =
     (case map_of vals key of
        None \<Rightarrow> dflt
      | Some v \<Rightarrow> (case ParseInt v of Inl e \<Rightarrow> dflt | Inr i \<Rightarrow> i))"

section \<open>Lemmas\<close>

lemma flag_step_more:
  assumes "\<And>e. flag_step decls s rest \<noteq> Fail e" and "map_of decls \<subseteq>\<^sub>m map_of decls'"
  shows "flag_step decls' s rest = flag_step decls s rest"
proof (cases "map_of decls (flag_key (flag_name s))")
  case None
  have "flag_step decls s rest = Stop"
  proof (cases "flag_step decls s rest")
    case (Assign k v r)
    with None show ?thesis by (simp add: flag_step_def Let_def split: if_splits)
  qed (use assms(1) in simp_all)
  then have "length s < 2 \<or> hd s \<noteq> CHR ''-'' \<or> s = ''--''"
    using None by (simp add: flag_step_def Let_def split: if_splits)
  then show ?thesis by (simp add: flag_step_def Let_def)
next
  case (Some k)
  then have "map_of decls' (flag_key (flag_name s)) = Some k"
    using assms(2) by (metis domI map_le_def)
  with Some show ?thesis by (simp add: flag_step_def Let_def)
qed

lemma flag_step_key: "flag_step decls s rest = Assign key v rest' \<Longrightarrow> key \<in> dom (map_of decls)"
  by (auto simp: flag_step_def Let_def dest!: set_flag_assigns split: if_splits option.splits list.splits)

text \<open>A command line that a smaller set of flags accepts sets no other flag of a larger set.\<close>

lemma flag_Parse_more:
  assumes "flag_Parse decls vals args = Inr r" and "map_of decls \<subseteq>\<^sub>m map_of decls'"
    and "flag_Parse decls' vals' args = Inr r'" and "key \<notin> dom (map_of decls)"
  shows "map_of r' key = map_of vals' key"
  using assms
proof (induction decls vals args arbitrary: vals' rule: flag_Parse.induct)
  case (2 decls vals s rest)
  show ?case
  proof (cases "flag_step decls s rest")
    case Stop
    with 2 flag_step_more [of decls s rest decls'] show ?thesis by auto
  next
    case (Fail e)
    with 2(2) show ?thesis by simp
  next
    case (Assign k v rest')
    then have same: "flag_step decls' s rest = Assign k v rest'"
      using 2(3) flag_step_more [of decls s rest decls'] by auto
    have "k \<noteq> key" using flag_step_key [OF Assign] 2(5) by auto
    with 2 Assign same show ?thesis by (auto simp: update_conv)
  qed
qed auto

lemma flag_Parse_other:
  assumes "flag_Parse decls vals args = Inr r" and "key \<notin> dom (map_of decls)"
  shows "map_of r key = map_of vals key"
  using flag_Parse_more [OF assms(1) map_le_refl assms] .

lemma undeclared_flag:
  assumes "map_of decls key = None" and "key \<noteq> []" and "hd key \<noteq> CHR ''-''" and "CHR ''='' \<notin> set key"
    and "key \<noteq> ''help''" and "key \<noteq> ''h''"
  shows "flag_Parse decls vals ((CHR ''-'' # key) # rest) = Inl (NotDefined key)"
proof -
  have key: "flag_key key = key"
    using assms(4) unfolding flag_key_def takeWhile_eq_all_conv by metis
  obtain c cs where cs: "key = c # cs" "c \<noteq> CHR ''-''" "c \<noteq> CHR ''=''"
    using assms(2-4) by (cases key) auto
  then have "flag_name (CHR ''-'' # key) = key" "hd key \<noteq> CHR ''=''"
    "\<not> length (CHR ''-'' # key) < 2" "CHR ''-'' # key \<noteq> ''--''"
    by (simp_all add: flag_name_def)
  with key have "flag_step decls (CHR ''-'' # key) rest = Fail (NotDefined key)"
    using assms(1-3,5,6) unfolding flag_step_def Let_def by (simp del: length_Cons)
  then show ?thesis by simp
qed

text \<open>A decimal number without leading zeros is read as it was printed.\<close>

lemma digits_val_ge: "n \<le> digits_val n cs"
proof (induction n cs rule: digits_val.induct)
  case (2 n c cs)
  have "n \<le> n * 10 + digit_val c" by simp
  then show ?case using 2 by simp
qed simp

lemma hex_val_digit: "is_digit c \<Longrightarrow> hex_val c = Some (digit_val c) \<and> digit_val c < 10"
  by (auto simp: is_digit_def hex_val_def digit_val_def Let_def)

lemma parse_digits_decimal:
  "\<forall>c \<in> set cs. is_digit c \<Longrightarrow> digits_val n cs < 2 ^ 64 \<Longrightarrow> parse_digits 10 n u cs = Inr (digits_val n cs, u)"
proof (induction n cs rule: digits_val.induct)
  case (2 n c cs)
  have "n * 10 + digit_val c < 2 ^ 64"
    using le_less_trans [OF digits_val_ge [of "n * 10 + digit_val c" cs]] 2(3) by simp
  moreover have "c \<noteq> CHR ''_''" using 2(2) by (auto simp: is_digit_def)
  ultimately show ?case using 2 hex_val_digit [of c] by simp
qed simp

lemma itoa_nat_leading: "0 < n \<Longrightarrow> \<exists>c cs. itoa_nat n = c # cs \<and> c \<noteq> CHR ''0''"
proof (induction n rule: itoa_nat.induct)
  case (1 n)
  show ?case
  proof (cases "n < 10")
    case True
    then have "digit_val (digit_char n) = n" by simp
    moreover have "digit_val CHR ''0'' = 0" by (simp add: digit_val_def)
    ultimately have "digit_char n \<noteq> CHR ''0''" using 1(2) by auto
    with True show ?thesis by (simp add: itoa_nat.simps [of n])
  next
    case False
    then have "0 < n div 10" by simp
    with 1(1) False show ?thesis by (auto simp: itoa_nat.simps [of n])
  qed
qed

lemma ParseInt_itoa:
  assumes "n < 2 ^ 63"
  shows "ParseInt (itoa_nat n) = Inr (int n)"
proof (cases "n = 0")
  case True
  have "ParseInt ''0'' = Inr 0" "itoa_nat 0 = ''0''" by code_simp+
  with True show ?thesis by simp
next
  case False
  then obtain c cs where cs: "itoa_nat n = c # cs" "c \<noteq> CHR ''0''" using itoa_nat_leading [of n] by auto
  have "is_digit c" using itoa_nat_digits [of n] cs(1) by simp
  then have c: "c \<noteq> CHR ''-''" "c \<noteq> CHR ''+''" by (auto simp: is_digit_def)
  have "parse_digits 10 0 False (itoa_nat n) = Inr (n, False)"
    using parse_digits_decimal [OF itoa_nat_digits [of n], of 0 False] assms by (simp add: digits_val_itoa)
  moreover have "base_prefix (itoa_nat n) = (10, itoa_nat n)" using cs by (simp add: base_prefix_def)
  moreover have "unsigned_part (itoa_nat n) = itoa_nat n" using cs(1) c by (simp add: unsigned_part_def)
  ultimately show ?thesis using assms cs(1) c by (simp add: ParseInt_def ParseUint_def del: power_numeral)
qed

end
