(* ===== verification/Commands.thy ===== *)
theory Commands
  imports InformerProps FakeIpam SvcController GoFlags "HOL-Library.Sublist"
begin

text \<open>
  How the four commands start: their flags, the configuration they give to client-go, what the CNI
  binary and the webhook serve, and the informers, handlers and workers of the two controllers.
  Building a configuration, the Kubernetes clients other than DANM's, TLS certificates, the log
  file and leader election are parameters.
\<close>

section \<open>How a command goes on\<close>

text \<open>
  It ends with a usage message, prints its version, logs an error and returns from
  \<^verbatim>\<open>main\<close>, ends with an error status, runs, or crashes.
\<close>

datatype 'a command =
    UsageExit flag_error
  | PrintsVersion
  | Returns string
  | FatalExit string
  | Running 'a
  | Crashed

text \<open>An exit status of zero: the shell and the kubelet take it for success.\<close>

definition exits_zero :: "'a command \<Rightarrow> bool" where
  "exits_zero c = (case c of PrintsVersion \<Rightarrow> True | Returns msg \<Rightarrow> True | _ \<Rightarrow> False)"

section \<open>The CNI binary\<close>

text \<open>
  Opening the log file may fail, which is only logged. \<open>danm_main\<close> is what the CNI library
  calls then.
\<close>

definition danm_command ::
  "flag_decls \<Rightarrow> ('w \<Rightarrow> string option \<times> 'w) \<Rightarrow> 'w meta_env \<Rightarrow> cni_command \<Rightarrow> CmdArgs \<Rightarrow> string list \<Rightarrow> 'w \<Rightarrow>
   current_result option res command \<times> 'w" where
  "danm_command others OpenLog env cmd cni_args args w =
     (case flag_Parse ((''version'', BoolFlag) # others) [] args of
        Inl e \<Rightarrow> (UsageExit e, w)
      | Inr vals \<Rightarrow>
          (if flag_bool vals ''version'' then (PrintsVersion, w)
           else let (err, w1) = OpenLog w; (r, w2) = danm_main env cmd cni_args w1
                in (Running r, w2)))"

section \<open>The webhook\<close>

definition CreateNewValidator :: "'w meta_env \<Rightarrow> 'w DanmClient res" where
  "CreateNewValidator env = bind_res (CreateDanmClient env []) (\<lambda>danmClient. Ok danmClient)"

text \<open>
  Defining a flag returns a pointer to its value. \<open>admit\<close> puts the client of the validator into
  the environment of the handlers; a running webhook is about to listen.
\<close>

record ('crt, 'w) webhook_server =
  ws_Addr :: string
  ws_Certificates :: "'crt list"
  ws_Handler :: "string \<Rightarrow> (http_body \<Rightarrow> ('w, AdmissionResponse) st) option"

definition flag_pointer :: "flag_values \<Rightarrow> string \<Rightarrow> string option" where
  "flag_pointer vals key = Some (flag_string vals key)"

definition webhook_decls :: "flag_decls \<Rightarrow> flag_decls" where
  "webhook_decls others =
     [(''version'', BoolFlag), (''bind-address'', StringFlag), (''bind-port'', IntFlag),
      (''tls-private-key-file'', StringFlag), (''tls-cert-bundle'', StringFlag)] @ others"

definition webhook_main ::
  "flag_decls \<Rightarrow> (string \<Rightarrow> string \<Rightarrow> string + 'crt) \<Rightarrow> 'w meta_env \<Rightarrow> ('w DanmClient \<Rightarrow> 'w admit_env) \<Rightarrow>
   string list \<Rightarrow> ('crt, 'w) webhook_server command" where
  "webhook_main others LoadX509KeyPair env admit args =
     (case flag_Parse (webhook_decls others) [] args of
        Inl e \<Rightarrow> UsageExit e
      | Inr vals \<Rightarrow>
          (if flag_bool vals ''version'' then PrintsVersion
           else case (flag_pointer vals ''tls-cert-bundle'', flag_pointer vals ''tls-private-key-file'') of
             (Some cert, Some key) \<Rightarrow>
               (case LoadX509KeyPair cert key of
                  Inl err \<Rightarrow> Returns (''TLS configuration could not be initialized, because:'' @ err)
                | Inr tlsConf \<Rightarrow>
                    (case CreateNewValidator env of
                       Ok validator \<Rightarrow> Running
                         \<lparr>ws_Addr = flag_string vals ''bind-address'' @ '':'' @ itoa (flag_int vals ''bind-port'' 8443),
                          ws_Certificates = [tlsConf], ws_Handler = webhook_handler (admit validator)\<rparr>
                     | Err e \<Rightarrow> Returns (''Cannot create DANM REST client, because:'' @ error_text e)
                     | _ \<Rightarrow> Crashed))
           | _ \<Rightarrow> Returns ''Configuring TLS is mandatory, --tls-cert-bundle and --tls-private-key-file cannot be empty!''))"

section \<open>The netwatcher\<close>

record 'cfg config_source =
  BuildConfigFromFlags :: "string \<Rightarrow> string \<Rightarrow> string + 'cfg"
  InClusterConfig :: "string + 'cfg"

definition netwatcher_getClientConfig :: "'cfg config_source \<Rightarrow> string option \<Rightarrow> string + 'cfg" where
  "netwatcher_getClientConfig src kubeConfig =
     (case kubeConfig of
        Some path \<Rightarrow> BuildConfigFromFlags src [] path
      | None \<Rightarrow> InClusterConfig src)"

text \<open>
  The command line is parsed twice: with the version flag alone, and again after the second flag
  is declared. \<open>others\<close> are the flags that the imported packages declare themselves,
  \<open>cluster\<close> is the cluster a configuration leads to; a running netwatcher is the kinds of
  the controllers it runs.
\<close>

definition netwatcher_main ::
  "flag_decls \<Rightarrow> 'cfg config_source \<Rightarrow> ('cfg \<Rightarrow> 'w cluster) \<Rightarrow> string list \<Rightarrow> 'w \<Rightarrow>
   string list command \<times> 'w" where
  "netwatcher_main others src cluster args w =
     (case flag_Parse ((''version'', BoolFlag) # others) [] args of
        Inl e \<Rightarrow> (UsageExit e, w)
      | Inr vals \<Rightarrow>
          (if flag_bool vals ''version'' then (PrintsVersion, w)
           else case flag_Parse ((''kubeconf'', StringFlag) # (''version'', BoolFlag) # others) vals args of
             Inl e \<Rightarrow> (UsageExit e, w)
           | Inr vals' \<Rightarrow>
               (case netwatcher_getClientConfig src (Some (flag_string vals' ''kubeconf'')) of
                  Inl err \<Rightarrow> (FatalExit err, w)
                | Inr config \<Rightarrow>
                    (case NewWatcher (cluster config) w of
                       (Ok controllers, w') \<Rightarrow> (Running controllers, w')
                     | (Err e, w') \<Rightarrow> (FatalExit (error_text e), w')
                     | (_, w') \<Rightarrow> (Crashed, w')))))"

text \<open>The informer behind each controller, from a factory of its own with a resync of ten minutes.\<close>

definition seconds :: "nat \<Rightarrow> duration" where
  "seconds n = of_nat n * 1000000000"

definition dnet_controller :: "('d, 'w) Clientset \<Rightarrow> 'w shared_informer" where
  "dnet_controller dnetClient =
     (let f = NewSharedInformerFactory dnetClient (seconds 600)
      in fst (danmNetInformer_Informer (version_DanmNets (group_V1 (factory_Danm f))) f))"

definition tnet_controller :: "('d, 'w) Clientset \<Rightarrow> 'w shared_informer" where
  "tnet_controller tnetClient =
     (let f = NewSharedInformerFactory tnetClient (seconds 600)
      in fst (tenantNetworkInformer_Informer (version_TenantNetworks (group_V1 (factory_Danm f))) f))"

definition cnet_controller :: "('d, 'w) Clientset \<Rightarrow> 'w shared_informer" where
  "cnet_controller cnetClient =
     (let f = NewSharedInformerFactory cnetClient (seconds 600)
      in fst (clusterNetworkInformer_Informer (version_ClusterNetworks (group_V1 (factory_Danm f))) f))"

definition nad_controller :: "('d, 'w) NadClientset \<Rightarrow> 'w shared_informer" where
  "nad_controller nadClient =
     (let f = NewSharedInformerFactory nadClient (seconds 600)
      in fst (nadInformer_Informer (version_NetworkAttachmentDefinitions (group_V1 (factory_K8sCniCncfIo f))) f))"

text \<open>
  Running starts every controller that was discovered, each in a goroutine of its own: the
  handlers of its events, under its kind.
\<close>

definition controller_handlers ::
  "'w netlink \<Rightarrow> ('w, 'j) nad_env \<Rightarrow> string \<Rightarrow> watch_event \<Rightarrow> ('w, unit) st" where
  "controller_handlers nl env kind =
     (if kind = DanmNetKind then createDnetInformer nl
      else if kind = TenantNetworkKind then createTnetInformer nl
      else if kind = ClusterNetworkKind then createCnetInformer nl
      else createNadInformer nl env)"

definition netwatcher_Run ::
  "'w netlink \<Rightarrow> ('w, 'j) nad_env \<Rightarrow> string list \<Rightarrow> (string \<times> (watch_event \<Rightarrow> ('w, unit) st)) list" where
  "netwatcher_Run nl env controllers = map (\<lambda>kind. (kind, controller_handlers nl env kind)) controllers"

section \<open>The controller of the svcwatcher\<close>

text \<open>
  The informers of Kubernetes' own objects are client-go's: an accessor for the lister and one
  for the informer, whose \<^verbatim>\<open>HasSynced\<close> is a function of it. Those of DanmEps come from
  the generated factory, whose state \<^verbatim>\<open>NewController\<close> changes.
\<close>

record ('l, 'i) kube_informer =
  ki_Lister :: 'l
  ki_Informer :: 'i

record ('l, 'i) kube_informers =
  ki_Pods :: "('l, 'i) kube_informer"
  ki_Services :: "('l, 'i) kube_informer"
  ki_Endpoints :: "('l, 'i) kube_informer"

record ('k, 'l, 'i, 'd, 'w) Controller =
  ctl_kubeclient :: 'k
  ctl_danmclient :: "('d, 'w) Clientset"
  ctl_podLister :: 'l
  ctl_podSynced :: 'i
  ctl_serviceLister :: 'l
  ctl_serviceSynced :: 'i
  ctl_epsLister :: 'l
  ctl_epsSynced :: 'i
  ctl_danmepLister :: indexer
  ctl_danmepSynced :: "'w shared_informer"
  ctl_workqueue :: "queue_item list"

datatype svc_handler = HUpdatePod | HAddSvc | HUpdateSvc | HAddDanmep | HUpdateDanmep | HDelDanmep

text \<open>
  The controller, its handlers by informer, and the factory afterwards. A new queue is empty.
\<close>

definition NewController ::
  "('w shared_informer \<Rightarrow> indexer) \<Rightarrow> 'k \<Rightarrow> ('d, 'w) Clientset \<Rightarrow> ('l, 'i) kube_informers \<Rightarrow>
   namespaced_informer \<Rightarrow> (('d, 'w) Clientset, 'w) sharedInformerFactory \<Rightarrow>
   ('k, 'l, 'i, 'd, 'w) Controller \<times> (('i + 'w shared_informer) \<times> svc_handler list) list \<times>
   (('d, 'w) Clientset, 'w) sharedInformerFactory" where
  "NewController GetIndexer kubeclient danmclient kube danmepInformer f =
     (let (danmepLister, f1) = danmEpInformer_Lister GetIndexer danmepInformer f;
          (synced, f2) = danmEpInformer_Informer danmepInformer f1;
          controller =
            \<lparr>ctl_kubeclient = kubeclient, ctl_danmclient = danmclient,
             ctl_podLister = ki_Lister (ki_Pods kube), ctl_podSynced = ki_Informer (ki_Pods kube),
             ctl_serviceLister = ki_Lister (ki_Services kube), ctl_serviceSynced = ki_Informer (ki_Services kube),
             ctl_epsLister = ki_Lister (ki_Endpoints kube), ctl_epsSynced = ki_Informer (ki_Endpoints kube),
             ctl_danmepLister = danmepLister, ctl_danmepSynced = synced, ctl_workqueue = []\<rparr>;
          (handled, f3) = danmEpInformer_Informer danmepInformer f2
      in (controller,
          [(Inl (ki_Informer (ki_Pods kube)), [HUpdatePod]),
           (Inl (ki_Informer (ki_Services kube)), [HAddSvc, HUpdateSvc]),
           (Inr handled, [HAddDanmep, HUpdateDanmep, HDelDanmep])], f3))"

text \<open>
  \<^verbatim>\<open>Run\<close> waits for the four caches and starts that many workers, \<open>wait\<close> being
  whether an informer synced before the stop signal. A worker takes items until the queue shuts
  down.
\<close>

definition controller_Run ::
  "('i + 'w shared_informer \<Rightarrow> bool) \<Rightarrow> nat \<Rightarrow> ('k, 'l, 'i, 'd, 'w) Controller \<Rightarrow> string + nat" where
  "controller_Run wait threadiness c =
     (if \<not> list_all wait [Inl (ctl_serviceSynced c), Inl (ctl_epsSynced c), Inl (ctl_podSynced c), Inr (ctl_danmepSynced c)]
      then Inl ''failed to wait for caches to sync''
      else Inr threadiness)"

lemma processNextWorkItem_shorter:
  "processNextWorkItem c queue = (True, fate, rest) \<Longrightarrow> length rest < length queue"
  by (auto simp: processNextWorkItem_def split: list.splits queue_item.splits option.splits)

function runWorker :: "'w svc_env \<Rightarrow> queue_item list \<Rightarrow> item_fate option list" where
  "runWorker c queue =
     (case processNextWorkItem c queue of
        (True, fate, rest) \<Rightarrow> fate # runWorker c rest
      | (False, _, _) \<Rightarrow> [])"
  by pat_completeness auto
termination
  by (relation "measure (\<lambda>(c, queue). length queue)") (auto dest: processNextWorkItem_shorter [OF sym] processNextWorkItem_shorter)

declare runWorker.simps [simp del]

section \<open>The svcwatcher\<close>

definition danm_factory :: "('d, 'w) Clientset \<Rightarrow> (('d, 'w) Clientset, 'w) sharedInformerFactory" where
  "danm_factory danmClient = NewSharedInformerFactory danmClient (seconds 30)"

definition svc_setup ::
  "('w shared_informer \<Rightarrow> indexer) \<Rightarrow> 'k \<Rightarrow> ('d, 'w) Clientset \<Rightarrow> ('l, 'i) kube_informers \<Rightarrow>
   ('k, 'l, 'i, 'd, 'w) Controller \<times> (('i + 'w shared_informer) \<times> svc_handler list) list \<times>
   (('d, 'w) Clientset, 'w) sharedInformerFactory" where
  "svc_setup GetIndexer kubeClient danmClient kube =
     (let f = danm_factory danmClient
      in NewController GetIndexer kubeClient danmClient kube (version_DanmEps (group_V1 (factory_Danm f))) f)"

text \<open>
  What the command uses of client-go: wrapping the configuration with the context, the client
  and the informers of Kubernetes, the caches of informers, and making a lock of a namespace, a
  name and an identity.
\<close>

record ('lim, 'k, 'l, 'i, 'd, 'w, 'lock) svc_library =
  sl_Wrap :: "'lim RestConfig \<Rightarrow> 'lim RestConfig"
  sl_NewKube :: "'lim RestConfig \<Rightarrow> string + 'k"
  sl_Danm :: "('lim, 'd, 'w) client_go"
  sl_KubeInformers :: "'k \<Rightarrow> duration \<Rightarrow> ('l, 'i) kube_informers"
  sl_GetIndexer :: "'w shared_informer \<Rightarrow> indexer"
  sl_Hostname :: "string + string"
  sl_NewLock :: "'k \<Rightarrow> string \<Rightarrow> string \<Rightarrow> string \<Rightarrow> string + 'lock"

definition GetHostname :: "string + string \<Rightarrow> string + string" where
  "GetHostname hostname = (case hostname of Inl err \<Rightarrow> Inl (''hostname '' @ err) | Inr ret \<Rightarrow> Inr ret)"

text \<open>
  The callback of a new leader: it starts the factory and runs the controller with ten workers;
  the process ends when the caches do not sync.
\<close>

definition lead ::
  "('k, 'l, 'i, 'd, 'w) Controller \<Rightarrow> (('d, 'w) Clientset, 'w) sharedInformerFactory \<Rightarrow>
   ('i + 'w shared_informer \<Rightarrow> bool) \<Rightarrow> (obj_type \<times> 'w shared_informer) list \<times> nat command" where
  "lead controller f wait =
     (fst (factory_Start f),
      case controller_Run wait 10 controller of
        Inl err \<Rightarrow> FatalExit (''Error running controller: '' @ err)
      | Inr workers \<Rightarrow> Running workers)"

record ('lock, 'run) LeaderElectionConfig =
  le_Lock :: 'lock
  le_LeaseDuration :: duration
  le_RenewDeadline :: duration
  le_RetryPeriod :: duration
  le_OnStartedLeading :: 'run

definition svc_elect ::
  "('lim, 'k, 'l, 'i, 'd, 'w, 'lock) svc_library \<Rightarrow> 'lim RestConfig \<Rightarrow>
   string + ('lock, ('i + 'w shared_informer \<Rightarrow> bool) \<Rightarrow> (obj_type \<times> 'w shared_informer) list \<times> nat command) LeaderElectionConfig" where
  "svc_elect lib cfg =
     (case sl_NewKube lib (sl_Wrap lib cfg) of
        Inl err \<Rightarrow> Inl (''Error building kubernetes clientset: '' @ err)
      | Inr kubeClient \<Rightarrow>
          (case Clientset_NewForConfig (sl_Danm lib) (sl_Wrap lib cfg) of
             Inl err \<Rightarrow> Inl (''Error building example clientset: '' @ err)
           | Inr danmClient \<Rightarrow>
               (let (controller, handlers, f) = svc_setup (sl_GetIndexer lib) kubeClient danmClient
                      (sl_KubeInformers lib kubeClient (seconds 30))
                in case GetHostname (sl_Hostname lib) of
                     Inl err \<Rightarrow> Inl err
                   | Inr identity \<Rightarrow>
                       (case sl_NewLock lib kubeClient ''kube-system'' ''danm-svc-controller'' identity of
                          Inl err \<Rightarrow> Inl (''Error creating lock: '' @ err)
                        | Inr rl \<Rightarrow> Inr \<lparr>le_Lock = rl, le_LeaseDuration = seconds 10, le_RenewDeadline = seconds 5,
                            le_RetryPeriod = seconds 3, le_OnStartedLeading = lead controller f\<rparr>))))"

text \<open>
  \<open>RunOrDie\<close> tells whether the election returns, which it does when the lease is lost.
\<close>

definition svcwatcher_main ::
  "flag_decls \<Rightarrow> 'lim RestConfig config_source \<Rightarrow> ('lim, 'k, 'l, 'i, 'd, 'w, 'lock) svc_library \<Rightarrow>
   (('lock, ('i + 'w shared_informer \<Rightarrow> bool) \<Rightarrow> (obj_type \<times> 'w shared_informer) list \<times> nat command) LeaderElectionConfig \<Rightarrow> bool) \<Rightarrow>
   string list \<Rightarrow>
   ('lock, ('i + 'w shared_informer \<Rightarrow> bool) \<Rightarrow> (obj_type \<times> 'w shared_informer) list \<times> nat command) LeaderElectionConfig command" where
  "svcwatcher_main others src lib RunOrDie args =
     (case flag_Parse ((''version'', BoolFlag) # (''kubeconfig'', StringFlag) # others) [] args of
        Inl e \<Rightarrow> UsageExit e
      | Inr vals \<Rightarrow>
          (if flag_bool vals ''version'' then PrintsVersion
           else case BuildConfigFromFlags src [] (flag_string vals ''kubeconfig'') of
             Inl err \<Rightarrow> FatalExit (''Error building kubeconfig: '' @ err)
           | Inr cfg \<Rightarrow>
               (case svc_elect lib cfg of
                  Inl err \<Rightarrow> FatalExit err
                | Inr config \<Rightarrow> if RunOrDie config then FatalExit ''Lost lease'' else Running config)))"

section \<open>Starting the netwatcher\<close>

text \<open>
  The flag of the netwatcher for a kube config cannot be used: as the command line is parsed before
  the flag is declared, giving it ends the process with a usage error. Whatever other arguments the
  netwatcher runs with, its configuration comes from an empty path.
\<close>

theorem kubeconf_cannot_be_given:
  assumes "map_of others ''kubeconf'' = None"
  shows "netwatcher_main others src cluster ([''-kubeconf'', path] @ rest) w = (UsageExit (NotDefined ''kubeconf''), w) \<and>
    (netwatcher_main others src cluster args w = (Running controllers, w') \<longrightarrow>
       (\<exists>cfg. BuildConfigFromFlags src [] [] = Inr cfg \<and> NewWatcher (cluster cfg) w = (Ok controllers, w')))"
proof (intro conjI impI)
  show "netwatcher_main others src cluster ([''-kubeconf'', path] @ rest) w = (UsageExit (NotDefined ''kubeconf''), w)"
    using undeclared_flag [of "(''version'', BoolFlag) # others" "''kubeconf''" "[]" "path # rest"] assms
    by (simp add: netwatcher_main_def)
next
  let ?first = "(''version'', BoolFlag) # others" and ?second = "(''kubeconf'', StringFlag) # (''version'', BoolFlag) # others"
  assume run: "netwatcher_main others src cluster args w = (Running controllers, w')"
  then obtain vals where first: "flag_Parse ?first [] args = Inr vals"
    by (cases "flag_Parse ?first [] args") (simp_all add: netwatcher_main_def)
  with run obtain vals' where second: "flag_Parse ?second vals args = Inr vals'"
    by (cases "flag_Parse ?second vals args") (simp_all add: netwatcher_main_def split: if_splits)
  have new: "''kubeconf'' \<notin> dom (map_of ?first)" using assms by auto
  have "map_of ?first \<subseteq>\<^sub>m map_of ?second" using new by (auto simp: map_le_def)
  from flag_Parse_more [OF first this second new] flag_Parse_other [OF first new]
  have "flag_string vals' ''kubeconf'' = []" by (simp add: flag_string_def)
  with run first second show "\<exists>cfg. BuildConfigFromFlags src [] [] = Inr cfg \<and> NewWatcher (cluster cfg) w = (Ok controllers, w')"
    by (auto simp: netwatcher_main_def netwatcher_getClientConfig_def split: if_splits sum.splits prod.splits res.splits)
qed

definition demo_source :: "string config_source" where
  "demo_source = \<lparr>BuildConfigFromFlags = (\<lambda>_ path. if path = [] then Inr ''in-cluster'' else Inr path),
     InClusterConfig = Inr ''in-cluster''\<rparr>"

definition demo_cluster :: "string \<Rightarrow> string list cluster" where
  "demo_cluster cfg = \<lparr>NewForConfig = (\<lambda>kind w. (None, w)), ListApi = (\<lambda>kind w. (None, w @ [cfg]))\<rparr>"

theorem kubeconf_cannot_be_given_witness:
  "fst (netwatcher_main [(''v'', StringFlag)] demo_source demo_cluster [''-kubeconf'', ''/etc/kube.conf''] []) =
     UsageExit (NotDefined ''kubeconf'') \<and>
   (\<exists>controllers w. netwatcher_main [(''v'', StringFlag)] demo_source demo_cluster [''-v'', ''5''] [] = (Running controllers, w))"
proof -
  have "netwatcher_main [(''v'', StringFlag)] demo_source demo_cluster [''-v'', ''5''] [] =
      (Running [DanmNetKind, TenantNetworkKind, ClusterNetworkKind, NadKind], [''in-cluster'', ''in-cluster'', ''in-cluster'', ''in-cluster''])"
    by code_simp
  moreover have "map_of [(''v'', StringFlag)] ''kubeconf'' = None" by simp
  ultimately show ?thesis
    using kubeconf_cannot_be_given [of "[(''v'', StringFlag)]" demo_source demo_cluster "''/etc/kube.conf''" "[]" "[]"
        "[''-v'', ''5'']" "[DanmNetKind, TenantNetworkKind, ClusterNetworkKind, NadKind]"] by simp
qed

section \<open>What the controllers watch\<close>

lemmas controller_defs = dnet_controller_def tnet_controller_def cnet_controller_def Let_def
  danmNetInformer_Informer_def tenantNetworkInformer_Informer_def clusterNetworkInformer_Informer_def
  InformerFor_def NewSharedInformerFactory_def NewSharedInformerFactoryWithOptions_def factory_Danm_def
  group_V1_def informers_New_def

text \<open>
  Each controller watches all objects of its own API: the informers of the netwatcher list
  DanmNets, TenantNetworks and ClusterNetworks of every namespace. The svcwatcher's waiting,
  handlers and lister of DanmEps share one informer, which lists the endpoints of every namespace
  and is all that leading starts of DANM's; leading runs ten workers once all four caches synced.
\<close>

theorem controllers_watch_their_apis:
  "snd (si_ListFunc (dnet_controller (Clientset_New cgo recording_rest)) options w) = (GET, ''danmnets'', [], []) # w \<and>
   snd (si_ListFunc (tnet_controller (Clientset_New cgo recording_rest)) options w) = (GET, ''tenantnetworks'', [], []) # w \<and>
   snd (si_ListFunc (cnet_controller (Clientset_New cgo recording_rest)) options w) = (GET, ''clusternetworks'', [], []) # w \<and>
   (let (c, handlers, f) = svc_setup GetIndexer kubeClient (Clientset_New cgo recording_rest) kube;
        i = ctl_danmepSynced c
    in ctl_danmepLister c = GetIndexer i \<and>
       (Inr i, [HAddDanmep, HUpdateDanmep, HDelDanmep]) \<in> set handlers \<and>
       lead c f wait = ([(TDanmEp, i)],
         if wait (Inl (ctl_podSynced c)) \<and> wait (Inl (ctl_serviceSynced c)) \<and> wait (Inl (ctl_epsSynced c)) \<and> wait (Inr i)
         then Running 10 else FatalExit ''Error running controller: failed to wait for caches to sync'') \<and>
       snd (si_ListFunc i options w) = (GET, ''danmeps'', [], []) # w)"
proof -
  let ?C = "Clientset_New cgo recording_rest"
  have "made_by (generated (informers_New [] None)) ?C (TDanmNet, dnet_controller ?C)"
    "made_by (generated (informers_New [] None)) ?C (TTenantNetwork, tnet_controller ?C)"
    "made_by (generated (informers_New [] None)) ?C (TClusterNetwork, cnet_controller ?C)"
    by (auto simp: made_by_def danm_newFunc_def controller_defs)
  note requests = this [THEN generated_requests, of options w]
  obtain c handlers f where parts: "svc_setup GetIndexer kubeClient ?C kube = (c, handlers, f)"
    by (cases "svc_setup GetIndexer kubeClient ?C kube")
  let ?i = "ctl_danmepSynced c"
  from parts have "ctl_danmepLister c = GetIndexer ?i" "fa_informers f = [(TDanmEp, ?i)]"
    "(Inr ?i, [HAddDanmep, HUpdateDanmep, HDelDanmep]) \<in> set handlers"
    "fa_startedInformers f = []" and made: "made_by (generated (informers_New [] None)) ?C (TDanmEp, ?i)"
    by (auto simp: made_by_def danm_newFunc_def controller_defs svc_setup_def danm_factory_def NewController_def
        danmEpInformer_Lister_def danmEpInformer_Informer_def NewDanmEpLister_def)
  with parts requests generated_requests [OF made, of options w] show ?thesis
    by (simp add: type_resource_def cluster_wide_def informers_New_def factory_Start_def is_started_def
        lead_def controller_Run_def)
qed

text \<open>No item of the queue is retried or fails: a worker forgets them one by one.\<close>

lemma worker_forgets_every_item: "runWorker c queue = map (\<lambda>_. Some Forgotten) queue"
proof (induction queue)
  case (Cons x queue)
  then show ?case
    by (cases x) (simp_all add: runWorker.simps [of c "_ # queue"] processNextWorkItem_def syncHandler_def split: option.splits)
qed (simp add: runWorker.simps processNextWorkItem_def)

text \<open>The lease outlives the renewal deadline, which leaves room for a retry with its jitter of 120 percent.\<close>

lemma election_periods:
  assumes "svc_elect lib cfg = Inr config"
  shows "le_RenewDeadline config < le_LeaseDuration config"
    and "12 * uint (le_RetryPeriod config) < 10 * uint (le_RenewDeadline config)"
  using assms by (auto simp: svc_elect_def seconds_def split: sum.splits prod.splits)

section \<open>Starting the webhook\<close>

text \<open>
  The webhook listens on the port it is told in decimal, with the handlers of the validator. As the pointers of flags are never nil,
  a missing certificate is not noticed by the check for it but by loading the empty path, and
  this error, like that of creating the client, ends the process with status zero.
\<close>

lemma flag_step_string:
  assumes "map_of decls key = Some kind" and "kind \<noteq> BoolFlag" and "key \<noteq> []" and "hd key \<noteq> CHR ''-''" and "CHR ''='' \<notin> set key"
  shows "flag_step decls (CHR ''-'' # key) (v # rest) = set_flag kind key v rest"
proof -
  have key: "flag_key key = key" "flag_value key = None"
    using assms(5) takeWhile_eq_all_conv [of "\<lambda>c. c \<noteq> CHR ''=''" key] by (auto simp: flag_key_def flag_value_def)
  obtain c cs where cs: "key = c # cs" "c \<noteq> CHR ''-''" "c \<noteq> CHR ''=''"
    using assms(3-5) by (cases key) auto
  then have "flag_name (CHR ''-'' # key) = key" "hd key \<noteq> CHR ''=''" "hd key \<noteq> CHR ''-''"
    "\<not> length (CHR ''-'' # key) < 2" "CHR ''-'' # key \<noteq> ''--''"
    by (simp_all add: flag_name_def)
  with key assms(1-3) show ?thesis unfolding flag_step_def Let_def by (simp del: length_Cons)
qed

theorem webhook_starts:
  assumes "n < 2 ^ 63"
  shows "webhook_main others LoadX509KeyPair env admit
      [''-tls-cert-bundle'', c, ''-tls-private-key-file'', k, ''-bind-port'', itoa_nat n] =
     (case LoadX509KeyPair c k of
        Inl err \<Rightarrow> Returns (''TLS configuration could not be initialized, because:'' @ err)
      | Inr tlsConf \<Rightarrow>
          (case CreateDanmClient env [] of
             Ok client \<Rightarrow> Running \<lparr>ws_Addr = '':'' @ itoa_nat n, ws_Certificates = [tlsConf],
                                   ws_Handler = webhook_handler (admit client)\<rparr>
           | Err e \<Rightarrow> Returns (''Cannot create DANM REST client, because:'' @ error_text e)
           | _ \<Rightarrow> Crashed))"
proof -
  let ?d = "webhook_decls others"
  have port: "ParseInt (itoa_nat n) = Inr (int n)" using ParseInt_itoa assms .
  have kinds: "map_of ?d ''tls-cert-bundle'' = Some StringFlag" "map_of ?d ''tls-private-key-file'' = Some StringFlag"
    "map_of ?d ''bind-port'' = Some IntFlag"
    by (simp_all add: webhook_decls_def)
  note steps = flag_step_string [OF kinds(1)] flag_step_string [OF kinds(2)] flag_step_string [OF kinds(3)]
  have "flag_Parse ?d [] [''-tls-cert-bundle'', c, ''-tls-private-key-file'', k, ''-bind-port'', itoa_nat n] =
      Inr [(''tls-cert-bundle'', c), (''tls-private-key-file'', k), (''bind-port'', itoa_nat n)]"
    by (simp add: steps set_flag_def port)
  then show ?thesis
    by (cases "CreateDanmClient env []")
      (auto simp: webhook_main_def flag_pointer_def flag_string_def flag_bool_def flag_int_def port itoa_def
        CreateNewValidator_def split: sum.splits)
qed

theorem webhook_failure_status:
  assumes "flag_Parse (webhook_decls others) [] args = Inr vals" and "\<not> flag_bool vals ''version''"
    and "LoadX509KeyPair (flag_string vals ''tls-cert-bundle'') (flag_string vals ''tls-private-key-file'') = Inl err"
  shows "webhook_main others LoadX509KeyPair env admit args =
      Returns (''TLS configuration could not be initialized, because:'' @ err)"
    and "exits_zero (webhook_main others LoadX509KeyPair env admit args)"
  using assms by (simp_all add: webhook_main_def flag_pointer_def exits_zero_def)

corollary webhook_without_certificate:
  assumes "LoadX509KeyPair [] [] = Inl err"
  shows "webhook_main others LoadX509KeyPair env admit [] =
      Returns (''TLS configuration could not be initialized, because:'' @ err)"
  using webhook_failure_status(1) [of others "[]" "[]" LoadX509KeyPair err] assms
  by (simp add: flag_bool_def flag_string_def)

section \<open>Running the netwatcher\<close>

text \<open>
  The controllers of a netwatcher are of different kinds, in the order the APIs are tried, so that
  an event reaches one handler, that of its API.
\<close>

lemma discover_all_subseq:
  "discover_all cl kinds acc w = (Ok r, w') \<Longrightarrow> \<exists>ks. subseq ks kinds \<and> r = acc @ ks"
proof (induction cl kinds acc w rule: discover_all.induct)
  case (2 cl kind kinds acc w)
  then show ?case
    by (auto split: prod.splits option.splits if_splits) (metis append.assoc append_Cons append_Nil list_emb_Cons subseq_Cons2 subseq_Cons')+
qed auto

theorem netwatcher_controllers:
  assumes "NewWatcher cl w = (Ok controllers, w')"
  shows "distinct (map fst (netwatcher_Run nl env controllers)) \<and> netwatcher_Run nl env controllers \<noteq> [] \<and>
    subseq (map fst (netwatcher_Run nl env controllers)) [DanmNetKind, TenantNetworkKind, ClusterNetworkKind, NadKind]"
proof -
  have "subseq controllers [DanmNetKind, TenantNetworkKind, ClusterNetworkKind, NadKind]" "controllers \<noteq> []"
    using assms discover_all_subseq [of cl "[DanmNetKind, TenantNetworkKind, ClusterNetworkKind, NadKind]" "[]" w]
    by (auto simp: NewWatcher_def bind_st_def return_st_def split: prod.splits res.splits if_splits)
  moreover have "distinct [DanmNetKind, TenantNetworkKind, ClusterNetworkKind, NadKind]" by code_simp
  ultimately show ?thesis by (auto simp: netwatcher_Run_def comp_def subseq_conv_nths distinct_nthsI)
qed

end
