(* ===== verification/HostSync.thy ===== *)
theory HostSync
  imports WatcherProps Commands
begin

text \<open>
  The netwatcher over a whole history of TenantNetworks and ClusterNetworks: the interfaces of the
  host follow the networks of the cluster, event after event, in whichever order the controllers of
  the two kinds deliver them.
\<close>

section \<open>The interfaces a network calls for\<close>

definition desired :: "DanmNet \<Rightarrow> string set" where
  "desired n = (if Device (opts n) = [] then {} else owned n)"

lemma deleteNetworks_desired:
  assumes "netlink_laws nl" and "deletions_succeed nl"
  shows "present nl i (snd (deleteNetworks nl n w)) \<longleftrightarrow> present nl i w \<and> i \<notin> desired n"
  using deleteNetworks_present [OF assms] by (auto simp: desired_def deleteNetworks_def)

lemma setupHost_desired:
  assumes "netlink_laws nl" and "setupHost nl n w = (r, w')"
  shows "only_adds nl (desired n) w w'" and "r = Ok () \<Longrightarrow> \<forall>i \<in> desired n. present nl i w'"
  using setupHost_adds [OF assms] assms(2) by (auto simp: desired_def setupHost_def split: if_splits)

text \<open>The two names of a network differ, as only one of them adds a dot to its identifier.\<close>

lemma itoa_no_dot: "CHR ''.'' \<notin> set (itoa v)"
  using itoa_nat_no_char [of "CHR ''.''"] by (simp add: itoa_def is_digit_def)

lemma interface_names_differ: "nid @ ''.'' @ itoa v \<noteq> ''vx_'' @ nid"
proof
  assume "nid @ ''.'' @ itoa v = ''vx_'' @ nid"
  then have "count_list (nid @ ''.'' @ itoa v) (CHR ''.'') = count_list (''vx_'' @ nid) (CHR ''.'')" by simp
  with itoa_no_dot [of v] show False by (simp add: count_list_0_iff)
qed

lemma zeroVnis_fields:
  assumes "zeroVnis old new = (o', n')"
  shows "NetworkID (dn_Spec o') = NetworkID (dn_Spec old) \<and> NetworkID (dn_Spec n') = NetworkID (dn_Spec new) \<and>
    Device (opts o') = Device (opts old) \<and> Device (opts n') = Device (opts new) \<and>
    Vlan (opts o') = (if Vlan (opts old) = Vlan (opts new) \<and> Device (opts old) = Device (opts new) then 0 else Vlan (opts old)) \<and>
    Vlan (opts n') = (if Vlan (opts old) = Vlan (opts new) \<and> Device (opts old) = Device (opts new) then 0 else Vlan (opts new)) \<and>
    Vxlan (opts o') = (if Vxlan (opts old) = Vxlan (opts new) \<and> Device (opts old) = Device (opts new) then 0 else Vxlan (opts old)) \<and>
    Vxlan (opts n') = (if Vxlan (opts old) = Vxlan (opts new) \<and> Device (opts old) = Device (opts new) then 0 else Vxlan (opts new))"
  using assms by (auto simp: zeroVnis_def split: if_splits)

text \<open>An update leaves the interfaces alone that the old and the new network share.\<close>

definition vlan_part :: "string \<Rightarrow> int \<Rightarrow> string set" where
  "vlan_part nid v = (if v = 0 then {} else {nid @ ''.'' @ itoa v})"

definition vxlan_part :: "string \<Rightarrow> int \<Rightarrow> string set" where
  "vxlan_part nid x = (if x = 0 then {} else {''vx_'' @ nid})"

lemma part_zero [simp]: "vlan_part nid 0 = {}" "vxlan_part nid 0 = {}"
  by (simp_all add: vlan_part_def vxlan_part_def)

lemma parts_disjoint: "vlan_part nid v \<inter> vxlan_part nid x = {}"
  using interface_names_differ [of nid v] by (simp add: vlan_part_def vxlan_part_def)

lemma desired_parts:
  "desired n = (if Device (opts n) = [] then {}
     else vlan_part (NetworkID (dn_Spec n)) (Vlan (opts n)) \<union> vxlan_part (NetworkID (dn_Spec n)) (Vxlan (opts n)))"
  by (simp add: desired_def owned_def vlan_part_def vxlan_part_def)

definition shared :: "DanmNet \<Rightarrow> DanmNet \<Rightarrow> string set" where
  "shared old new =
     (if Device (opts old) = [] \<or> Device (opts old) \<noteq> Device (opts new) then {}
      else (if Vlan (opts old) = Vlan (opts new) then vlan_part (NetworkID (dn_Spec old)) (Vlan (opts old)) else {}) \<union>
           (if Vxlan (opts old) = Vxlan (opts new) then vxlan_part (NetworkID (dn_Spec old)) (Vxlan (opts old)) else {}))"

lemma zeroVnis_desired:
  assumes nid: "NetworkID (dn_Spec new) = NetworkID (dn_Spec old)" and "zeroVnis old new = (o', n')"
  shows "desired old = desired o' \<union> shared old new" and "desired new = desired n' \<union> shared old new"
    and "shared old new \<inter> desired o' = {}"
proof -
  note f = zeroVnis_fields [OF assms(2)] parts_disjoint [of "NetworkID (dn_Spec old)" "Vlan (opts old)" "Vxlan (opts old)"]
  show "desired old = desired o' \<union> shared old new"
    using f by (cases "Device (opts old) = Device (opts new)") (auto simp: desired_parts shared_def)
  show "desired new = desired n' \<union> shared old new"
    using f nid by (cases "Device (opts old) = Device (opts new)") (auto simp: desired_parts shared_def)
  show "shared old new \<inter> desired o' = {}"
    using f by (cases "Device (opts old) = Device (opts new)") (auto simp: desired_parts shared_def)
qed

section \<open>A host on which nothing fails\<close>

definition host_works :: "'w netlink \<Rightarrow> bool" where
  "host_works nl \<longleftrightarrow>
     (\<forall>l w. fst (LinkAdd nl l w) = None) \<and> (\<forall>r w. fst (LinkSetUp nl r w) = None) \<and>
     (\<forall>k f w. \<exists>as a. AddrList nl k f w = Inr as \<and> find fst as = Some (True, a) \<and> a \<noteq> []) \<and>
     (\<forall>net i. \<exists>a. CidrHost nl net i = Inr a)"

lemma addLink_works:
  assumes "host_works nl"
  shows "\<exists>w'. addLink nl l w = (None, w')"
proof -
  obtain w1 where "LinkAdd nl l w = (None, w1)"
    using assms unfolding host_works_def by (metis prod.collapse)
  moreover obtain w2 where "LinkSetUp nl (Created l) w1 = (None, w2)"
    using assms unfolding host_works_def by (metis prod.collapse)
  ultimately show ?thesis by (simp add: addLink_def)
qed

lemma vxlan_endpoints_works:
  assumes "host_works nl" and "0 \<le> v" and "v < 2 ^ 63"
  shows "\<exists>a m. vxlan_endpoints nl v k w = Ok (a, m) \<and> a \<noteq> []"
proof -
  have "parse_net ip4MulticastCidr \<noteq> None" by code_simp
  then obtain net where net: "parse_net (multicast_cidr FamilyV4) = Some net" by (auto simp: multicast_cidr_def)
  obtain mc where "CidrHost nl net v = Inr mc" using assms(1) unfolding host_works_def by blast
  with net have mc: "getMulticastIp nl FamilyV4 (itoa v) = Ok mc"
    using atoi_itoa [OF assms(2,3)] by (simp add: getMulticastIp_def)
  obtain as a where "AddrList nl k FamilyV4 w = Inr as" "find fst as = Some (True, a)" "a \<noteq> []"
    using assms(1) unfolding host_works_def by blast
  with mc show ?thesis by (simp add: vxlan_endpoints_def parseVxlanHostIp_def)
qed

lemma setupHost_works:
  assumes laws: "netlink_laws nl" and works: "host_works nl"
    and dev: "Device (opts n) = [] \<or> present nl (Device (opts n)) w" and vx: "0 \<le> Vxlan (opts n)" "Vxlan (opts n) < 2 ^ 63"
  shows "\<exists>w'. setupHost nl n w = (Ok (), w')"
proof (cases "Device (opts n) = []")
  case False
  let ?nid = "NetworkID (dn_Spec n)" and ?d = "Device (opts n)"
  have link: "\<exists>o'. shouldInterfaceBeCreated nl i name ?d u = Inr o'" if "present nl ?d u" for i name u
    using that by (auto simp: shouldInterfaceBeCreated_def present_def split: sum.splits)
  have d: "present nl ?d w" using dev False by simp
  have "\<exists>w1. setupVlan nl (Vlan (opts n)) ?nid ?d w = (Ok (), w1)"
  proof -
    let ?name = "determineVlanHdev (Vlan (opts n)) ?nid ?d"
    obtain s where s: "shouldInterfaceBeCreated nl (Vlan (opts n)) ?name ?d w = Inr s" using link [OF d] by blast
    show ?thesis
    proof (cases s)
      case (Some hl)
      obtain w' where "addLink nl (NewVlan ?name (lk_Index (li_link hl)) (li_interfaceId hl)) w = (None, w')"
        using addLink_works [OF works] by blast
      with s Some show ?thesis by (simp add: setupVlan_def Let_def)
    qed (use s in \<open>simp add: setupVlan_def Let_def\<close>)
  qed
  then obtain w1 where w1: "setupVlan nl (Vlan (opts n)) ?nid ?d w = (Ok (), w1)" by blast
  then have d1: "present nl ?d w1" using setupVlan_adds(1) [OF laws] d unfolding only_adds_def by blast
  obtain w2 where w2: "setupVxlan nl (Vxlan (opts n)) ?nid ?d w1 = (Ok (), w2)"
  proof -
    obtain s where s: "shouldInterfaceBeCreated nl (Vxlan (opts n)) (''vx_'' @ ?nid) ?d w1 = Inr s"
      using link [OF d1] by blast
    show ?thesis
    proof (cases s)
      case None
      with s show ?thesis by (intro that) (simp add: setupVxlan_def Let_def)
    next
      case (Some hl)
      obtain a m where am: "vxlan_endpoints nl (Vxlan (opts n)) (li_link hl) w1 = Ok (a, m)" "a \<noteq> []"
        using vxlan_endpoints_works [OF works vx] by blast
      obtain w' where "addLink nl (NewVxlan (''vx_'' @ ?nid) (li_interfaceId hl) (lk_Index (li_link hl)) m a) w1 = (None, w')"
        using addLink_works [OF works] by blast
      with s Some am show ?thesis by (intro that) (simp add: setupVxlan_def Let_def)
    qed
  qed
  from w1 w2 show ?thesis by (auto simp: setupHost_eq bind_st_Ok)
qed (simp add: setupHost_def)

section \<open>Single events\<close>

text \<open>The object an informer of a kind delivers, and the network its handler works on.\<close>

definition watched_obj :: "string \<Rightarrow> DanmNet \<Rightarrow> informer_obj" where
  "watched_obj kind n = (if kind = TenantNetworkKind then OTenantNetwork n else OClusterNetwork n)"

definition watched_kinds :: "string set" where
  "watched_kinds = {TenantNetworkKind, ClusterNetworkKind}"

definition converted :: "string \<Rightarrow> DanmNet \<Rightarrow> DanmNet" where
  "converted kind n = (if kind = TenantNetworkKind then ConvertTnetToDnet n else ConvertCnetToDnet n)"

lemma converted_spec [simp]: "dn_Spec (converted kind n) = dn_Spec n"
  by (simp add: converted_def ConvertTnetToDnet_def ConvertCnetToDnet_def)

lemma converted_desired [simp]: "desired (converted kind n) = desired n"
  by (simp add: desired_def owned_def)

lemma kinds_differ: "TenantNetworkKind \<noteq> DanmNetKind" "ClusterNetworkKind \<noteq> DanmNetKind" "ClusterNetworkKind \<noteq> TenantNetworkKind"
  by code_simp+

lemma handlers_by_kind:
  assumes "kind \<in> watched_kinds"
  shows "controller_handlers nl env kind (Added (watched_obj kind n)) w = logged (setupHost nl (converted kind n)) w"
    and "controller_handlers nl env kind (Updated (watched_obj kind old) (watched_obj kind n)) w =
      (let (o', n') = zeroVnis (converted kind old) (converted kind n) in replace_host_interfaces nl o' n' w)"
    and "controller_handlers nl env kind (Deleted (watched_obj kind n)) w = (Ok (), snd (deleteNetworks nl (converted kind n) w))"
    and "controller_handlers nl env kind (Deleted (OTombstone (watched_obj kind n))) w =
      (Ok (), snd (deleteNetworks nl (converted kind n) w))"
  using assms kinds_differ
  by (auto simp: watched_kinds_def controller_handlers_def watched_obj_def converted_def AddTenantNetwork_def
      AddClusterNetwork_def UpdateTenantNetwork_def UpdateClusterNetwork_def DeleteTenantNetwork_def
      DeleteClusterNetwork_def split_beta Let_def)

definition present_set :: "'w netlink \<Rightarrow> 'w \<Rightarrow> string set" where
  "present_set nl w = {i. present nl i w}"

text \<open>
  A network that can be set up: its device, if it has one, belongs to the host itself, and its VNI
  is one that can be printed and read.
\<close>

definition placeable :: "string set \<Rightarrow> DanmNet \<Rightarrow> bool" where
  "placeable B n \<longleftrightarrow> desired n \<inter> B = {} \<and> (Device (opts n) = [] \<or> Device (opts n) \<in> B) \<and>
     0 \<le> Vxlan (opts n) \<and> Vxlan (opts n) < 2 ^ 63"

lemma setup_effect:
  assumes laws: "netlink_laws nl" and r: "setupHost nl n w = (r, w')"
  shows "present_set nl w \<subseteq> present_set nl w' \<and> present_set nl w' \<subseteq> present_set nl w \<union> desired n \<and>
    (r = Ok () \<longrightarrow> present_set nl w' = present_set nl w \<union> desired n)"
  using setupHost_desired [OF assms] by (auto simp: only_adds_def present_set_def)

lemma delete_effect:
  assumes "netlink_laws nl" and "deletions_succeed nl"
  shows "present_set nl (snd (deleteNetworks nl n w)) = present_set nl w - desired n"
  using deleteNetworks_desired [OF assms] by (auto simp: present_set_def)

lemma added_effect:
  assumes laws: "netlink_laws nl" and kind: "kind \<in> watched_kinds"
    and r: "controller_handlers nl env kind (Added (watched_obj kind n)) w = (r, w')"
  shows "present_set nl w \<subseteq> present_set nl w' \<and> present_set nl w' \<subseteq> present_set nl w \<union> desired n \<and>
    (host_works nl \<and> placeable B n \<and> B \<subseteq> present_set nl w \<longrightarrow> present_set nl w' = present_set nl w \<union> desired n)"
proof -
  obtain r1 where s: "setupHost nl (converted kind n) w = (r1, w')"
    using r unfolding handlers_by_kind(1) [OF kind] logged_def by (auto split: prod.splits res.splits)
  have "r1 = Ok ()" if "host_works nl" "placeable B n" "B \<subseteq> present_set nl w"
  proof -
    have "Device (opts (converted kind n)) = [] \<or> present nl (Device (opts (converted kind n))) w"
      using that(2,3) by (auto simp: placeable_def present_set_def)
    moreover have "0 \<le> Vxlan (opts (converted kind n))" "Vxlan (opts (converted kind n)) < 2 ^ 63"
      using that(2) by (simp_all add: placeable_def)
    ultimately have "\<exists>u. setupHost nl (converted kind n) w = (Ok (), u)" by (rule setupHost_works [OF laws that(1)])
    with s show ?thesis by auto
  qed
  then show ?thesis using setup_effect [OF laws s] by auto
qed

lemma deleted_effect:
  assumes "netlink_laws nl" and "deletions_succeed nl" and kind: "kind \<in> watched_kinds"
    and "obj \<in> {watched_obj kind n, OTombstone (watched_obj kind n)}"
    and "controller_handlers nl env kind (Deleted obj) w = (r, w')"
  shows "present_set nl w' = present_set nl w - desired n"
proof -
  have "controller_handlers nl env kind (Deleted obj) w = (Ok (), snd (deleteNetworks nl (converted kind n) w))"
    using assms(4) handlers_by_kind(3,4) [OF kind, of nl env n w] by blast
  then have "w' = snd (deleteNetworks nl (converted kind n) w)" using assms(5) by simp
  then show ?thesis using delete_effect [OF assms(1,2), of "converted kind n" w] by simp
qed

lemma updated_effect:
  assumes laws: "netlink_laws nl" and del: "deletions_succeed nl" and kind: "kind \<in> watched_kinds"
    and nid: "NetworkID (dn_Spec n) = NetworkID (dn_Spec old)"
    and r: "controller_handlers nl env kind (Updated (watched_obj kind old) (watched_obj kind n)) w = (r, w')"
  shows "present_set nl w - desired old \<subseteq> present_set nl w' \<and>
    present_set nl w' \<subseteq> (present_set nl w - desired old) \<union> desired n \<and>
    (host_works nl \<and> placeable B n \<and> B \<subseteq> present_set nl w - desired old \<and> desired old \<subseteq> present_set nl w \<longrightarrow>
       present_set nl w' = (present_set nl w - desired old) \<union> desired n)"
proof -
  obtain o' n' where z: "zeroVnis (converted kind old) (converted kind n) = (o', n')" by fastforce
  let ?w1 = "snd (deleteNetworks nl o' w)"
  obtain r1 where s: "setupHost nl n' ?w1 = (r1, w')"
    using r unfolding handlers_by_kind(2) [OF kind] z by (auto simp: replace_host_interfaces_def split: prod.splits res.splits)
  have "NetworkID (dn_Spec (converted kind n)) = NetworkID (dn_Spec (converted kind old))" using nid by simp
  note parts = zeroVnis_desired [OF this z, unfolded converted_desired]
  note w1 = delete_effect [OF laws del, of o' w] and w' = setup_effect [OF laws s]
  have "r1 = Ok ()" if works: "host_works nl" "placeable B n" "B \<subseteq> present_set nl w - desired old"
  proof -
    note f = zeroVnis_fields [OF z]
    have "B \<subseteq> present_set nl ?w1" using works(3) parts(1) w1 by blast
    then have "Device (opts n') = [] \<or> present nl (Device (opts n')) ?w1"
      using works(2) f by (auto simp: placeable_def present_set_def)
    moreover have "0 \<le> Vxlan (opts n')" "Vxlan (opts n') < 2 ^ 63"
      using works(2) f by (auto simp: placeable_def)
    ultimately have "\<exists>u. setupHost nl n' ?w1 = (Ok (), u)" by (rule setupHost_works [OF laws works(1)])
    with s show ?thesis by auto
  qed
  then show ?thesis using parts w1 w' by blast
qed

section \<open>Histories\<close>

text \<open>
  The networks of the cluster by kind, namespace and name, and the host. A step is one change of
  the cluster with the event the netwatcher gets of it; an update may change nothing, as a resync
  does, and a deletion may come as a tombstone. \<open>B\<close> are the interfaces the host has by itself;
  networks are set up on these, under names of their own.
\<close>

datatype net_id = NetId string string string

definition net_id :: "string \<Rightarrow> DanmNet \<Rightarrow> net_id" where
  "net_id kind n = NetId kind (mt_Namespace (dn_Meta n)) (mt_Name (dn_Meta n))"

definition fits :: "string set \<Rightarrow> (net_id \<Rightarrow> DanmNet option) \<Rightarrow> net_id \<Rightarrow> DanmNet \<Rightarrow> bool" where
  "fits B nets k n \<longleftrightarrow> placeable B n \<and> (\<forall>k' m. k' \<noteq> k \<longrightarrow> nets k' = Some m \<longrightarrow> desired m \<inter> desired n = {})"

inductive watch_step ::
  "'w netlink \<Rightarrow> ('w, 'j) nad_env \<Rightarrow> string set \<Rightarrow>
   (net_id \<Rightarrow> DanmNet option) \<times> 'w \<Rightarrow> (net_id \<Rightarrow> DanmNet option) \<times> 'w \<Rightarrow> bool"
  for nl env B where
  created: "kind \<in> watched_kinds \<Longrightarrow> nets (net_id kind n) = None \<Longrightarrow> fits B nets (net_id kind n) n \<Longrightarrow>
    controller_handlers nl env kind (Added (watched_obj kind n)) w = (r, w') \<Longrightarrow>
    watch_step nl env B (nets, w) (nets(net_id kind n \<mapsto> n), w')"
| updated: "kind \<in> watched_kinds \<Longrightarrow> nets (net_id kind n) = Some old \<Longrightarrow> fits B nets (net_id kind n) n \<Longrightarrow>
    NetworkID (dn_Spec n) = NetworkID (dn_Spec old) \<Longrightarrow>
    controller_handlers nl env kind (Updated (watched_obj kind old) (watched_obj kind n)) w = (r, w') \<Longrightarrow>
    watch_step nl env B (nets, w) (nets(net_id kind n \<mapsto> n), w')"
| deleted: "kind \<in> watched_kinds \<Longrightarrow> nets (net_id kind n) = Some n \<Longrightarrow>
    obj \<in> {watched_obj kind n, OTombstone (watched_obj kind n)} \<Longrightarrow>
    controller_handlers nl env kind (Deleted obj) w = (r, w') \<Longrightarrow>
    watch_step nl env B (nets, w) (nets(net_id kind n := None), w')"

inductive_cases watch_stepE: "watch_step nl env B s s'"

text \<open>What all networks together call for, and the invariant.\<close>

definition called_for :: "(net_id \<Rightarrow> DanmNet option) \<Rightarrow> string set" where
  "called_for nets = \<Union> (desired ` ran nets)"

definition separate :: "string set \<Rightarrow> (net_id \<Rightarrow> DanmNet option) \<Rightarrow> bool" where
  "separate B nets \<longleftrightarrow> (\<forall>k n. nets k = Some n \<longrightarrow> fits B nets k n)"

definition host_in_step :: "'w netlink \<Rightarrow> string set \<Rightarrow> (net_id \<Rightarrow> DanmNet option) \<Rightarrow> 'w \<Rightarrow> bool" where
  "host_in_step nl B nets w \<longleftrightarrow> separate B nets \<and> B \<subseteq> present_set nl w \<and> present_set nl w \<subseteq> B \<union> called_for nets \<and>
     (host_works nl \<longrightarrow> present_set nl w = B \<union> called_for nets)"

lemma in_called_for: "i \<in> called_for nets \<longleftrightarrow> (\<exists>k n. nets k = Some n \<and> i \<in> desired n)"
  by (auto simp: called_for_def ran_def)

lemma fits_sym:
  assumes "separate B nets" and "fits B nets k n" and "nets k' = Some m" and "k' \<noteq> k"
  shows "fits B (nets(k \<mapsto> n)) k' m"
  using assms unfolding separate_def fits_def by (auto split: if_splits) blast+

lemma separate_update: "separate B nets \<Longrightarrow> fits B nets k n \<Longrightarrow> separate B (nets(k \<mapsto> n))"
  unfolding separate_def
proof (intro allI impI)
  fix k' m
  assume nets: "\<forall>k n. nets k = Some n \<longrightarrow> fits B nets k n" and n: "fits B nets k n" and m: "(nets(k \<mapsto> n)) k' = Some m"
  show "fits B (nets(k \<mapsto> n)) k' m"
  proof (cases "k' = k")
    case True
    then show ?thesis using n m by (auto simp: fits_def)
  next
    case False
    then show ?thesis using fits_sym [of B nets k n k' m] nets n m by (simp add: separate_def)
  qed
qed

lemma separate_delete: "separate B nets \<Longrightarrow> separate B (nets(k := None))"
  by (auto simp: separate_def fits_def split: if_splits)

text \<open>Networks call for different interfaces, so that one network is taken out as a set.\<close>

lemma called_for_without:
  assumes "separate B nets" and "nets k = Some n"
  shows "called_for (nets(k := None)) = called_for nets - desired n"
proof (intro set_eqI iffI)
  fix i
  assume "i \<in> called_for (nets(k := None))"
  then obtain k' m where k': "(nets(k := None)) k' = Some m" and m3: "i \<in> desired m" unfolding in_called_for by blast
  then have m: "k' \<noteq> k" "nets k' = Some m" "i \<in> desired m" by (simp_all split: if_splits)
  have "fits B nets k n" using assms unfolding separate_def by blast
  then have "desired m \<inter> desired n = {}" using m(1,2) unfolding fits_def by blast
  with m(3) have "i \<notin> desired n" by blast
  moreover have "i \<in> called_for nets" using m(2,3) unfolding in_called_for by blast
  ultimately show "i \<in> called_for nets - desired n" by blast
next
  fix i
  assume i: "i \<in> called_for nets - desired n"
  then obtain k' m where m: "nets k' = Some m" "i \<in> desired m" unfolding in_called_for Diff_iff by blast
  with i assms(2) have "k' \<noteq> k" by auto
  with m have "(nets(k := None)) k' = Some m" by simp
  with m(2) show "i \<in> called_for (nets(k := None))" unfolding in_called_for by blast
qed

lemma called_for_with: "called_for (nets(k \<mapsto> n)) = called_for (nets(k := None)) \<union> desired n"
proof (intro set_eqI iffI)
  fix i
  assume "i \<in> called_for (nets(k := None)) \<union> desired n"
  then consider "i \<in> desired n" | k' m where "k' \<noteq> k" "nets k' = Some m" "i \<in> desired m"
    unfolding in_called_for Un_iff fun_upd_def by (metis option.distinct(1))
  then show "i \<in> called_for (nets(k \<mapsto> n))"
  proof cases
    case 1
    then show ?thesis unfolding in_called_for by (intro exI [of _ k] exI [of _ n]) simp
  next
    case 2
    then show ?thesis unfolding in_called_for by (intro exI [of _ k'] exI [of _ m]) simp
  qed
qed (auto simp: in_called_for split: if_splits)

lemma separate_base:
  assumes "separate B nets"
  shows "called_for nets \<inter> B = {}"
proof -
  have "desired n \<inter> B = {}" if "nets k = Some n" for k n
  proof -
    have "placeable B n" using assms that unfolding separate_def fits_def by blast
    then show ?thesis by (simp add: placeable_def)
  qed
  then show ?thesis unfolding disjoint_iff in_called_for by blast
qed

lemma called_for_new: "nets k = None \<Longrightarrow> nets(k := None) = nets"
  by (simp add: fun_upd_idem)

section \<open>The invariant\<close>

lemma step_keeps_sync:
  assumes laws: "netlink_laws nl" and del: "deletions_succeed nl"
    and step: "watch_step nl env B (nets, w) (nets', w')" and inv: "host_in_step nl B nets w"
  shows "host_in_step nl B nets' w'"
proof -
  have sep: "separate B nets" and base: "B \<subseteq> present_set nl w" and sub: "present_set nl w \<subseteq> B \<union> called_for nets"
    and full: "host_works nl \<Longrightarrow> present_set nl w = B \<union> called_for nets"
    using inv by (simp_all add: host_in_step_def)
  from step show ?thesis
  proof cases
    case (created kind n r)
    note eff = added_effect [OF laws created(2) created(5), of B]
    have nets': "called_for nets' = called_for nets \<union> desired n"
      using created(1,3) by (simp add: called_for_with called_for_new)
    have "placeable B n" using created(4) by (simp add: fits_def)
    then have "host_works nl \<Longrightarrow> present_set nl w' = B \<union> called_for nets'" using eff base full nets' by blast
    moreover have "separate B nets'" using separate_update [OF sep created(4)] created(1) by simp
    moreover have "B \<subseteq> present_set nl w'" "present_set nl w' \<subseteq> B \<union> called_for nets'"
      using eff base sub nets' by blast+
    ultimately show ?thesis unfolding host_in_step_def by blast
  next
    case (updated kind n old r)
    note eff = updated_effect [OF laws del updated(2,5,6), of B]
    have nets': "called_for nets' = (called_for nets - desired old) \<union> desired n"
      using updated(1,3) called_for_without [OF sep updated(3)] by (simp add: called_for_with)
    have "placeable B old" using sep updated(3) unfolding separate_def fits_def by blast
    then have old: "desired old \<inter> B = {}" by (simp add: placeable_def)
    have "desired old \<subseteq> called_for nets" using updated(3) unfolding subset_iff in_called_for by blast
    moreover have "placeable B n" using updated(4) by (simp add: fits_def)
    ultimately have "host_works nl \<Longrightarrow> present_set nl w' = B \<union> called_for nets'" using eff base full nets' old by blast
    moreover have "separate B nets'" using separate_update [OF sep updated(4)] updated(1) by simp
    moreover have "B \<subseteq> present_set nl w'" "present_set nl w' \<subseteq> B \<union> called_for nets'"
      using eff base sub nets' old by blast+
    ultimately show ?thesis unfolding host_in_step_def by blast
  next
    case (deleted kind n obj r)
    have eff: "present_set nl w' = present_set nl w - desired n"
      by (rule deleted_effect [OF laws del deleted(2,4,5)])
    have nets': "called_for nets' = called_for nets - desired n"
      using deleted(1) called_for_without [OF sep deleted(3)] by simp
    have "placeable B n" using sep deleted(3) unfolding separate_def fits_def by blast
    then have n: "desired n \<inter> B = {}" by (simp add: placeable_def)
    then have "host_works nl \<Longrightarrow> present_set nl w' = B \<union> called_for nets'" using eff full nets' by blast
    moreover have "separate B nets'" using separate_delete [OF sep] deleted(1) by simp
    moreover have "B \<subseteq> present_set nl w'" "present_set nl w' \<subseteq> B \<union> called_for nets'"
      using eff base sub nets' n by blast+
    ultimately show ?thesis unfolding host_in_step_def by blast
  qed
qed

lemma history_keeps_sync:
  assumes "(watch_step nl env B)\<^sup>*\<^sup>* (Map.empty, w0) (nets, w)"
    and "netlink_laws nl" and "deletions_succeed nl" and "B = present_set nl w0"
  shows "host_in_step nl B nets w"
proof -
  have "host_in_step nl B (fst s) (snd s)" if "(watch_step nl env B)\<^sup>*\<^sup>* (Map.empty, w0) s" for s
    using that
  proof (induction rule: rtranclp_induct)
    case base
    have "called_for Map.empty = {}" by (simp add: called_for_def)
    then show ?case using assms(4) by (simp add: host_in_step_def separate_def)
  next
    case (step s t)
    then show ?case using step_keeps_sync [OF assms(2,3), of env B "fst s" "snd s" "fst t" "snd t"] by simp
  qed
  from this [OF assms(1)] show ?thesis by simp
qed

section \<open>Properties\<close>


text \<open>For the instance: a ClusterNetwork with VLAN 50 is created on a host, and its VLAN changes to 60.\<close>

definition moved_net :: DanmNet where
  "moved_net = set_opts (\<lambda>oo. oo\<lparr>Vlan := 60\<rparr>) toy_net"

lemma moved_net_fields:
  "desired toy_net = {''n1.50''}" "desired moved_net = {''n1.60''}" "Device (opts moved_net) = ''ens4''"
  "Vxlan (opts moved_net) = 0" "NetworkID (dn_Spec moved_net) = NetworkID (dn_Spec toy_net)"
  "net_id ClusterNetworkKind moved_net = net_id ClusterNetworkKind toy_net"
  by code_simp+

lemma toy_host_works: "host_works toy_netlink"
  by (auto simp: host_works_def toy_netlink_def)


text \<open>
  The steps keep the NetworkID of a network, as the handler does not see it change: with the same
  VNI on the same device an update does nothing at all, so that the interface keeps the name of the old
  NetworkID and the device of the new one is missing.
\<close>

theorem renamed_network_has_no_device:
  assumes kind: "kind \<in> watched_kinds"
    and same: "Vlan (opts n) = Vlan (opts old)" "Vxlan (opts n) = Vxlan (opts old)" "Device (opts n) = Device (opts old)"
    and missing: "\<not> present nl (DetermineHostDeviceName n) w"
    and r: "controller_handlers nl env kind (Updated (watched_obj kind old) (watched_obj kind n)) w = (r, w')"
  shows "w' = w \<and> \<not> present nl (DetermineHostDeviceName n) w'"
proof -
  obtain o' n' where z: "zeroVnis (converted kind old) (converted kind n) = (o', n')" by fastforce
  then have "Vlan (opts o') = 0" "Vxlan (opts o') = 0" "Vlan (opts n') = 0" "Vxlan (opts n') = 0"
    using zeroVnis_fields [OF z] same by simp_all
  then have "replace_host_interfaces nl o' n' w = (Ok (), w)"
    by (simp add: replace_host_interfaces_def owned_empty_idle)
  with r z have "w' = w" unfolding handlers_by_kind(2) [OF kind] by simp
  with missing show ?thesis by simp
qed

theorem renamed_network_has_no_device_witness:
  "\<not> present toy_netlink ''n2.50'' {''ens4'', ''n1.50''}"
proof -
  let ?n = "toy_net\<lparr>dn_Spec := (dn_Spec toy_net)\<lparr>NetworkID := ''n2''\<rparr>\<rparr>"
  have dev: "DetermineHostDeviceName ?n = ''n2.50''" by code_simp
  have kind: "ClusterNetworkKind \<in> watched_kinds" by (simp add: watched_kinds_def)
  have "controller_handlers toy_netlink toy_nad_env ClusterNetworkKind
      (Updated (watched_obj ClusterNetworkKind toy_net) (watched_obj ClusterNetworkKind ?n)) {''ens4'', ''n1.50''} =
    (Ok (), {''ens4'', ''n1.50''})" by code_simp
  from renamed_network_has_no_device [OF kind _ _ _ _ this] dev show ?thesis by (simp add: toy_present)
qed

end
