(* ===== verification/SvcPublish.thy ===== *)
theory SvcPublish
  imports SvcProps
begin

text \<open>
  Publishing a Service: whenever it is added or changed, its Endpoints become exactly the addresses
  of the DanmEps it selects, each under the readiness of its Pod; conflicting writes are repeated
  on what the caches show then.
\<close>

section \<open>What a Service should publish\<close>

definition selected_eps :: "gomap \<Rightarrow> gomap \<Rightarrow> Service \<Rightarrow> DanmEp list \<Rightarrow> DanmEp list" where
  "selected_eps selectorMap svcNets svc des =
     filter (\<lambda>de. mt_Namespace (ep_Meta de) = mt_Namespace (svc_Meta svc) \<and>
       (\<forall>(k, v) \<in> set selectorMap. map_of (mt_Labels (ep_Meta de)) k = Some v) \<and> isDepSelectedBySvc de svcNets) des"

text \<open>The usable addresses of an endpoint without their prefixes, as addresses of its Pod.\<close>

definition ep_addresses :: "Pod \<Rightarrow> DanmEp \<Rightarrow> EndpointAddress list" where
  "ep_addresses pod de =
     map (\<lambda>ip. new_address ip pod (pod_ref pod))
       (filter usable_address [first_part (CHR ''/'') (if_Address (ep_Iface (ep_Spec de))),
                               first_part (CHR ''/'') (if_AddressIPv6 (ep_Iface (ep_Spec de)))])"

definition addresses_of_pods ::
  "(string \<Rightarrow> string \<Rightarrow> string + Pod) \<Rightarrow> (Pod \<Rightarrow> bool) \<Rightarrow> DanmEp list \<Rightarrow> EndpointAddress list" where
  "addresses_of_pods getPod P des =
     concat (map (\<lambda>de. case getPod (mt_Namespace (ep_Meta de)) (ep_Pod (ep_Spec de)) of
       Inl err \<Rightarrow> [] | Inr pod \<Rightarrow> if P pod then ep_addresses pod de else []) des)"

definition counts_as_ready :: "Service \<Rightarrow> Pod \<Rightarrow> bool" where
  "counts_as_ready svc pod \<longleftrightarrow> PodReady pod \<or> lookup0 (svc_Annotations svc) TolerateUnreadyEps = ''true''"

definition service_endpoints ::
  "(string \<Rightarrow> string \<Rightarrow> string + Pod) \<Rightarrow> gomap \<Rightarrow> gomap \<Rightarrow> Service \<Rightarrow> DanmEp list \<Rightarrow> Endpoints" where
  "service_endpoints getPod selectorMap svcNets svc des =
     (let chosen = selected_eps selectorMap svcNets svc des in
      \<lparr>eps_Meta = empty_meta\<lparr>mt_Name := mt_Name (svc_Meta svc), mt_Namespace := mt_Namespace (svc_Meta svc)\<rparr>,
       eps_Annotations = svc_Annotations svc,
       eps_Subsets = (if chosen = [] then None else Some
         [\<lparr>es_Addresses = addresses_of_pods getPod (counts_as_ready svc) chosen,
           es_NotReadyAddresses = addresses_of_pods getPod (\<lambda>pod. \<not> counts_as_ready svc pod) chosen,
           es_Ports = map endpoint_port (svc_Ports svc)\<rparr>])\<rparr>)"

section \<open>The controller computes it\<close>

lemma create_list_new:
  "createChangedEpAddressList a4 a6 pod None ref as =
     Ok (as @ map (\<lambda>ip. new_address ip pod ref) (filter usable_address [a4, a6]))"
  by (simp add: createChangedEpAddressList_def add_address_def)

lemma endpoint_addresses_eq:
  "endpoint_addresses getPod svc des (ready, notReady) =
     Ok (ready @ addresses_of_pods getPod (counts_as_ready svc) des,
         notReady @ addresses_of_pods getPod (\<lambda>pod. \<not> counts_as_ready svc pod) des)"
proof (induction des arbitrary: ready notReady)
  case (Cons de des)
  show ?case
  proof (cases "getPod (mt_Namespace (ep_Meta de)) (ep_Pod (ep_Spec de))")
    case (Inr pod)
    then show ?thesis
      by (cases "counts_as_ready svc pod")
        (simp_all add: Cons.IH create_list_new counts_as_ready_def addresses_of_pods_def ep_addresses_def Let_def)
  qed (simp add: Cons.IH addresses_of_pods_def)
qed (simp add: addresses_of_pods_def)

lemma SelectDes_selected:
  "SelectDesMatchLabels des selectorMap svcNets (mt_Namespace (svc_Meta svc)) = selected_eps selectorMap svcNets svc des"
  by (simp add: SelectDes_filter selected_eps_def IsContain_iff)

lemma MakeNewEps_eq:
  "MakeNewEps getPod svc (selected_eps selectorMap svcNets svc des) =
     Ok (service_endpoints getPod selectorMap svcNets svc des)"
  by (simp add: MakeNewEps_def service_endpoints_def endpoint_addresses_eq Let_def)

section \<open>Attempts\<close>

text \<open>One write, of what the caches show at the time: an update if the Endpoints are cached, a creation if not.\<close>

definition publish_at ::
  "'w svc_env \<Rightarrow> gomap \<Rightarrow> gomap \<Rightarrow> Service \<Rightarrow> DanmEp list \<Rightarrow> Endpoints list \<Rightarrow> 'w \<Rightarrow> string option \<times> 'w" where
  "publish_at c selectorMap svcNets svc des epsList w =
     (if \<exists>e \<in> set epsList. mt_Name (eps_Meta e) = mt_Name (svc_Meta svc) \<and> mt_Namespace (eps_Meta e) = mt_Namespace (svc_Meta svc)
      then sv_UpdateEndpoints c else sv_CreateEndpoints c)
       (mt_Namespace (svc_Meta svc)) (service_endpoints (sv_GetPod c w) selectorMap svcNets svc des) w"

inductive conflict_at :: "'w svc_env \<Rightarrow> gomap \<Rightarrow> gomap \<Rightarrow> Service \<Rightarrow> 'w \<Rightarrow> 'w \<Rightarrow> bool" for c selectorMap svcNets svc where
  conflict: "sv_ListDanmEps c w (mt_Namespace (svc_Meta svc)) = Inr des \<Longrightarrow>
    sv_ListEndpoints c w (mt_Namespace (svc_Meta svc)) = Inr epsList \<Longrightarrow>
    publish_at c selectorMap svcNets svc des epsList w = (Some msg, w') \<Longrightarrow> contains msg OptimisticLockErrorMsg \<Longrightarrow>
    conflict_at c selectorMap svcNets svc w (sv_Sleep c w')"

lemma add_svc_pass_eq:
  assumes "sv_ListDanmEps c w (mt_Namespace (svc_Meta svc)) = Inr des"
    and "sv_ListEndpoints c w (mt_Namespace (svc_Meta svc)) = Inr epsList"
    and "publish_at c selectorMap svcNets svc des epsList w = (e, w')"
  shows "add_svc_pass c svc selectorMap svcNets w =
    (if \<exists>msg. e = Some msg \<and> contains msg OptimisticLockErrorMsg then (Ok Again, sv_Sleep c w') else (Ok Break, w'))"
proof -
  have "FindEpsForSvc epsList (mt_Name (svc_Meta svc)) (mt_Namespace (svc_Meta svc)) \<longleftrightarrow>
    (\<exists>e \<in> set epsList. mt_Name (eps_Meta e) = mt_Name (svc_Meta svc) \<and> mt_Namespace (eps_Meta e) = mt_Namespace (svc_Meta svc))"
    by (simp add: FindEpsForSvc_def list_ex_iff)
  with assms(3) have "CreateModifyEndpoints c svc (FindEpsForSvc epsList (mt_Name (svc_Meta svc)) (mt_Namespace (svc_Meta svc)))
      (selected_eps selectorMap svcNets svc des) w = of_api (e, w')"
    by (auto simp: CreateModifyEndpoints_def MakeNewEps_eq publish_at_def bind_st_Ok split: if_splits)
  with assms(1,2) show ?thesis
    by (cases e) (simp_all add: add_svc_pass_def SelectDes_selected after_write_def of_api_def Let_def)
qed

definition published_from :: "'w svc_env \<Rightarrow> gomap \<Rightarrow> gomap \<Rightarrow> Service \<Rightarrow> 'w \<Rightarrow> 'w \<Rightarrow> bool" where
  "published_from c selectorMap svcNets svc u w' \<longleftrightarrow>
     (\<exists>des epsList e. sv_ListDanmEps c u (mt_Namespace (svc_Meta svc)) = Inr des \<and>
        sv_ListEndpoints c u (mt_Namespace (svc_Meta svc)) = Inr epsList \<and>
        publish_at c selectorMap svcNets svc des epsList u = (e, w') \<and>
        \<not> (\<exists>msg. e = Some msg \<and> contains msg OptimisticLockErrorMsg))"

lemma retry_publishes:
  assumes lists: "\<And>w. \<exists>des. sv_ListDanmEps c w (mt_Namespace (svc_Meta svc)) = Inr des"
      "\<And>w. \<exists>epsList. sv_ListEndpoints c w (mt_Namespace (svc_Meta svc)) = Inr epsList"
  shows "\<exists>w'. retry k (add_svc_pass c svc selectorMap svcNets) w = (Ok Break, w') \<and>
    (((conflict_at c selectorMap svcNets svc) ^^ k) w w' \<or>
     (\<exists>u. (conflict_at c selectorMap svcNets svc)\<^sup>*\<^sup>* w u \<and> published_from c selectorMap svcNets svc u w'))"
proof (induction k arbitrary: w)
  case (Suc k)
  obtain des epsList where l: "sv_ListDanmEps c w (mt_Namespace (svc_Meta svc)) = Inr des"
    "sv_ListEndpoints c w (mt_Namespace (svc_Meta svc)) = Inr epsList" using lists by blast
  obtain e w1 where p: "publish_at c selectorMap svcNets svc des epsList w = (e, w1)" by fastforce
  note step = add_svc_pass_eq [OF l p]
  show ?case
  proof (cases "\<exists>msg. e = Some msg \<and> contains msg OptimisticLockErrorMsg")
    case True
    then have c1: "conflict_at c selectorMap svcNets svc w (sv_Sleep c w1)" using conflict_at.conflict [OF l] p by blast
    from step True have "retry (Suc k) (add_svc_pass c svc selectorMap svcNets) w =
        retry k (add_svc_pass c svc selectorMap svcNets) (sv_Sleep c w1)"
      by (simp add: bind_st_def)
    with Suc.IH [of "sv_Sleep c w1"] c1 show ?thesis
      by (metis converse_rtranclp_into_rtranclp relpowp_Suc_I2)
  next
    case False
    then have "published_from c selectorMap svcNets svc w w1" using l p unfolding published_from_def by blast
    with step False show ?thesis by (auto simp: bind_st_def return_st_def)
  qed
qed simp

section \<open>Property\<close>

text \<open>
  C38. A Service is published as selected: adding a Service with a selector and a network writes exactly
  the addresses of the DanmEps it selects, ready or not as their Pods are, with its ports, or nothing to
  address when it selects none. A conflicting write is followed by one of what the caches show after the pause;
  only 400 conflicts in a row leave the Service as it was.
\<close>

theorem service_publishes_selection:
  assumes "all_synced c w" and "GetDanmSvcAnnotations (sv_Parse c) (svc_Annotations svc) = Inr (selectorMap, svcNets)"
    and "selectorMap \<noteq> []" and "svcNets \<noteq> []"
    and "\<And>w. \<exists>des. sv_ListDanmEps c w (mt_Namespace (svc_Meta svc)) = Inr des"
    and "\<And>w. \<exists>epsList. sv_ListEndpoints c w (mt_Namespace (svc_Meta svc)) = Inr epsList"
  shows "\<exists>w'. addSvc c (ObjSvc svc) w = (Ok (), w') \<and>
    (((conflict_at c selectorMap svcNets svc) ^^ 400) w w' \<or>
     (\<exists>u. (conflict_at c selectorMap svcNets svc)\<^sup>*\<^sup>* w u \<and> published_from c selectorMap svcNets svc u w'))"
proof -
  have "addSvc c (ObjSvc svc) w =
      bind_st (retry MaxUpdateRetry (add_svc_pass c svc selectorMap svcNets)) (\<lambda>_. return_st (Ok ())) w"
    using assms(1-4) by (simp add: addSvc_def)
  with retry_publishes [OF assms(5,6), of MaxUpdateRetry selectorMap svcNets w] show ?thesis
    by (auto simp: bind_st_def return_st_def MaxUpdateRetry_def)
qed

text \<open>The instance: an endpoint of the Service, and a server that refuses the first write.\<close>

definition publish_svc :: "nat svc_env" where
  "publish_svc = (demo_svc (\<lambda>ver. demo_endpoints ver []))
     \<lparr>sv_ListDanmEps := \<lambda>w ns. Inr [demo_dep ''10.0.0.1/24'' []],
      sv_UpdateEndpoints := \<lambda>ns e w. if w = 0 then (Some OptimisticLockErrorMsg, w) else (None, w + 1000)\<rparr>"

lemma publish_svc_conflict:
  "conflict_at publish_svc selectorMap svcNets demo_service u u' \<Longrightarrow> u = 0 \<and> u' = 1"
  by (erule conflict_at.cases)
    (auto simp: publish_at_def publish_svc_def demo_svc_defs empty_meta_def split: if_splits)

theorem service_publishes_selection_witness:
  "addSvc publish_svc (ObjSvc demo_service) 0 = (Ok (), 1001) \<and>
   (\<exists>u. published_from publish_svc [(''app'', ''web'')] [(''ClusterNetwork'', ''internet'')] demo_service u 1001) \<and>
   es_Addresses (hd (the (eps_Subsets (service_endpoints (sv_GetPod publish_svc 1) [(''app'', ''web'')]
      [(''ClusterNetwork'', ''internet'')] demo_service [demo_dep ''10.0.0.1/24'' []])))) = [demo_address ''10.0.0.1'']"
proof -
  let ?R = "conflict_at publish_svc [(''app'', ''web'')] [(''ClusterNetwork'', ''internet'')] demo_service"
  have run: "addSvc publish_svc (ObjSvc demo_service) 0 = (Ok (), 1001)" by code_simp
  have synced: "all_synced publish_svc 0" by (simp add: all_synced_def publish_svc_def demo_svc_def)
  have sel: "GetDanmSvcAnnotations (sv_Parse publish_svc) (svc_Annotations demo_service) =
      Inr ([(''app'', ''web'')], [(''ClusterNetwork'', ''internet'')])" by code_simp
  have "\<exists>w'. addSvc publish_svc (ObjSvc demo_service) 0 = (Ok (), w') \<and>
    ((?R ^^ 400) 0 w' \<or> (\<exists>u. ?R\<^sup>*\<^sup>* 0 u \<and>
      published_from publish_svc [(''app'', ''web'')] [(''ClusterNetwork'', ''internet'')] demo_service u w'))"
    by (rule service_publishes_selection [OF synced sel]) (simp_all add: publish_svc_def demo_svc_def)
  moreover have "\<not> (?R ^^ 400) 0 1001"
  proof
    assume "(?R ^^ 400) 0 1001"
    then have "(?R ^^ Suc 399) 0 1001" by simp
    then obtain u where "?R u 1001" by (auto simp only: relpowp.simps relcompp_apply)
    then show False using publish_svc_conflict by fastforce
  qed
  moreover have "es_Addresses (hd (the (eps_Subsets (service_endpoints (sv_GetPod publish_svc 1) [(''app'', ''web'')]
      [(''ClusterNetwork'', ''internet'')] demo_service [demo_dep ''10.0.0.1/24'' []])))) = [demo_address ''10.0.0.1'']"
    by code_simp
  ultimately show ?thesis using run by auto
qed

end
