(* ===== verification/CniTest.thy ===== *)
theory CniTest
  imports MetaCni
begin

text \<open>
  \<^verbatim>\<open>cmd/cnitest/cnitest.go\<close>: the CNI plugin DANM's own tests delegate to. It compares
  its environment and the configuration it receives with the expectations of a file, and answers
  with the result the file asks for. Reading the file and parsing JSON are the record
  \<open>test_env\<close>; a map is the list of its entries in the order the loop visits them.
\<close>

record CniExpectations =
  ex_CniType :: string
  ex_Ip :: string
  ex_Ip6 :: string
  ex_Env :: "(string \<times> string) list"
  ex_ReturnType :: string

text \<open>
  Parsed configurations. \<^verbatim>\<open>reflect.DeepEqual\<close> tells a nil slice from an empty one, so
  addresses that are not expected_versions are \<open>None\<close>. The embedded \<^verbatim>\<open>NetConf\<close>s are the types of other
  libraries.
\<close>

record ParsedIpam =
  pi_Type :: string
  pi_Ips :: "IpamIp list option"

record 's ParsedSriov =
  ps_NetConf :: 's
  ps_Ipam :: ParsedIpam

record 'm ParsedMacvlan =
  pm_NetConf :: 'm
  pm_Master :: string
  pm_Mode :: string
  pm_MTU :: int
  pm_Ipam :: ParsedIpam

record FlannelDelegate =
  IsHairPinMode :: bool
  IsDefGw :: bool

record FlannelConf =
  fl_Name :: string
  fl_Type :: string
  fl_Delegate :: FlannelDelegate

record types020_result =
  IP4 :: "ipnet option"
  IP6 :: "ipnet option"

datatype test_result = CurrentResult current_result | Type020Result types020_result

text \<open>\<open>UnmarshalX\<close> parses a configuration, \<open>UnmarshalXTest\<close> the one in the file of expectations.\<close>

record ('s, 'm) test_env =
  te_ReadFile :: "string + string"
  te_Getenv :: "string \<Rightarrow> string"
  UnmarshalTestConfig :: "string \<Rightarrow> string + CniExpectations"
  UnmarshalSriov :: "string \<Rightarrow> string + 's ParsedSriov"
  UnmarshalSriovTest :: "string \<Rightarrow> string + 's ParsedSriov"
  UnmarshalMacvlan :: "string \<Rightarrow> string + 'm ParsedMacvlan"
  UnmarshalMacvlanTest :: "string \<Rightarrow> string + 'm ParsedMacvlan"
  UnmarshalFlannel :: "string \<Rightarrow> string + FlannelConf"
  UnmarshalFlannelTest :: "string \<Rightarrow> string + FlannelConf"
  PrintResult :: "test_result \<Rightarrow> string option"

definition or_fail :: "string \<Rightarrow> string + 'a \<Rightarrow> 'a res" where
  "or_fail prefix r = (case r of Inl msg \<Rightarrow> Err (Msg (prefix @ msg)) | Inr x \<Rightarrow> Ok x)"

section \<open>Validation\<close>

fun checkEnvVars :: "(string \<Rightarrow> string) \<Rightarrow> (string \<times> string) list \<Rightarrow> unit res" where
  "checkEnvVars getenv [] = Ok ()"
| "checkEnvVars getenv ((key, expValue) # vars) =
     (if getenv key \<noteq> expValue then
        Err (Msg (''expected env value:'' @ expValue @ '' for key:'' @ key @ '' does not match observed env value:'' @ getenv key))
      else checkEnvVars getenv vars)"

definition validateSriovConfig :: "('s, 'm) test_env \<Rightarrow> string \<Rightarrow> string \<Rightarrow> unit res" where
  "validateSriovConfig env receivedCniConfig expectedCniConfig =
     bind_res (or_fail ''Received SR-IOV config could not be unmarshalled, because:'' (UnmarshalSriov env receivedCniConfig)) (\<lambda>rec.
     bind_res (or_fail ''Expected SR-IOV config could not be unmarshalled, because:'' (UnmarshalSriovTest env expectedCniConfig)) (\<lambda>expected.
       if rec \<noteq> expected then Err (Msg ''Received SR-IOV delegate configuration does not match with expected!'')
       else Ok ()))"

text \<open>
  When an IPv6 address is expected, addresses of IPv6 are taken out before the comparison: the test
  cannot know a dynamic one.
\<close>

definition without_v6 :: "IpamIp list \<Rightarrow> ParsedIpam" where
  "without_v6 ips =
     (let kept = filter (\<lambda>ip. ip_Version ip \<noteq> 6) ips
      in \<lparr>pi_Type = ''fakeipam'', pi_Ips = (if kept = [] then None else Some kept)\<rparr>)"

definition validateMacvlanConfig :: "('s, 'm) test_env \<Rightarrow> string \<Rightarrow> string \<Rightarrow> CniExpectations \<Rightarrow> unit res" where
  "validateMacvlanConfig env receivedCniConfig expectedCniConfig tcConf =
     bind_res (or_fail ''Received CNI config could not be unmarshalled, because:'' (UnmarshalMacvlan env receivedCniConfig)) (\<lambda>rec.
     bind_res (or_fail ''Expected CNI config could not be unmarshalled, because:'' (UnmarshalMacvlanTest env expectedCniConfig)) (\<lambda>expected.
     bind_res
       (if ex_Ip6 tcConf = [] then Ok rec
        else case pi_Ips (pm_Ipam rec) of
               None \<Rightarrow> Err (Msg ''Received CNI config does not contain IPv6 address under ipam section, but it shall!'')
             | Some ips \<Rightarrow> Ok (rec\<lparr>pm_Ipam := without_v6 ips\<rparr>)) (\<lambda>rec.
       if rec \<noteq> expected then Err (Msg ''Received delegate configuration does not match with expected!'')
       else Ok ())))"

definition validateFlannelConfig :: "('s, 'm) test_env \<Rightarrow> string \<Rightarrow> string \<Rightarrow> unit res" where
  "validateFlannelConfig env receivedCniConfig expectedCniConfig =
     bind_res (or_fail ''Received Flannel config could not be unmarshalled, because:'' (UnmarshalFlannel env receivedCniConfig)) (\<lambda>rec.
     bind_res (or_fail ''Expected Flannel config could not be unmarshalled, because:'' (UnmarshalFlannelTest env expectedCniConfig)) (\<lambda>expected.
       if rec \<noteq> expected then Err (Msg ''Received Flannel delegate configuration does not match with expected!'')
       else Ok ()))"

section \<open>Results\<close>

definition createCurrentCniResult :: "CniExpectations \<Rightarrow> current_result res" where
  "createCurrentCniResult tcConf =
     (let cniRes = (if ex_Ip tcConf \<noteq> [] \<or> ex_Ip6 tcConf \<noteq> [] then AddIfaceToResult ''eth0'' ''hululululu'' empty_result
                    else empty_result)
      in bind_res (if ex_Ip tcConf \<noteq> [] then AddIpToResult (ex_Ip tcConf) ''4'' cniRes else Ok cniRes) (\<lambda>cniRes.
         if ex_Ip6 tcConf \<noteq> [] then AddIpToResult (ex_Ip6 tcConf) ''6'' cniRes else Ok cniRes))"

text \<open>The network an address is in, without the address; nil is dereferenced when it does not parse.\<close>

definition addIpToType20 :: "string \<Rightarrow> int \<Rightarrow> types020_result \<Rightarrow> types020_result res" where
  "addIpToType20 ip version cniRes =
     (case ParseCIDR ip of
        None \<Rightarrow> Panic
      | Some (_, ipNet) \<Rightarrow>
          Ok (if version = 4 then cniRes\<lparr>IP4 := Some ipNet\<rparr>
              else if version = 6 then cniRes\<lparr>IP6 := Some ipNet\<rparr>
              else cniRes))"

definition createType020CniResult :: "CniExpectations \<Rightarrow> types020_result res" where
  "createType020CniResult tcConf =
     bind_res (if ex_Ip tcConf \<noteq> [] then addIpToType20 (ex_Ip tcConf) 4 \<lparr>IP4 = None, IP6 = None\<rparr>
               else Ok \<lparr>IP4 = None, IP6 = None\<rparr>) (\<lambda>cniRes.
     if ex_Ip6 tcConf \<noteq> [] then addIpToType20 (ex_Ip6 tcConf) 6 cniRes else Ok cniRes)"

section \<open>The commands\<close>

definition testSetup :: "('s, 'm) test_env \<Rightarrow> string \<Rightarrow> test_result res" where
  "testSetup env stdinData =
     bind_res (or_fail ''could not read expected CNI config from disk, because:'' (te_ReadFile env)) (\<lambda>expectedCniConf.
     bind_res (or_fail ''could not unmarshal test CNI config, because:'' (UnmarshalTestConfig env expectedCniConf)) (\<lambda>tcConf.
     bind_res (case checkEnvVars (te_Getenv env) (ex_Env tcConf) of
                 Err e \<Rightarrow> Err (Msg (''ENV variables were not set to expected value:'' @ error_text e))
               | r \<Rightarrow> r) (\<lambda>_.
     bind_res (if ex_CniType tcConf = ''sriov'' then validateSriovConfig env stdinData expectedCniConf
               else if ex_CniType tcConf = ''macvlan'' then validateMacvlanConfig env stdinData expectedCniConf tcConf
               else if ex_CniType tcConf = ''flannel'' then validateFlannelConfig env stdinData expectedCniConf
               else Ok ()) (\<lambda>_.
     bind_res (if ex_ReturnType tcConf = [] \<or> ex_ReturnType tcConf = ''current''
               then bind_res (createCurrentCniResult tcConf) (\<lambda>r. Ok (CurrentResult r))
               else bind_res (createType020CniResult tcConf) (\<lambda>r. Ok (Type020Result r))) (\<lambda>cniRes.
     case PrintResult env cniRes of None \<Rightarrow> Ok cniRes | Some msg \<Rightarrow> Err (Msg msg))))))"

definition testDelete :: "('s, 'm) test_env \<Rightarrow> string \<Rightarrow> unit res" where
  "testDelete env stdinData =
     bind_res (or_fail ''DEL could not read expected CNI config from disk, because:'' (te_ReadFile env)) (\<lambda>expectedCniConf.
     bind_res (or_fail ''DEL could not unmarshal test CNI config, because:'' (UnmarshalTestConfig env expectedCniConf)) (\<lambda>tcConf.
     bind_res (case checkEnvVars (te_Getenv env) (ex_Env tcConf) of
                 Err e \<Rightarrow> Err (Msg (''DEL ENV variables were not set to expected value:'' @ error_text e))
               | r \<Rightarrow> r) (\<lambda>_.
     if ex_CniType tcConf = ''macvlan'' then validateMacvlanConfig env stdinData expectedCniConf tcConf
     else if ex_CniType tcConf = ''flannel'' then validateFlannelConfig env stdinData expectedCniConf
     else Ok ())))"

definition testCheck :: "string \<Rightarrow> unit res" where
  "testCheck stdinData = Ok ()"

section \<open>Lemmas\<close>

lemma or_fail_Ok [simp]: "or_fail prefix r = Ok x \<longleftrightarrow> r = Inr x"
  by (simp add: or_fail_def split: sum.split)

lemma checkEnvVars_Ok: "checkEnvVars getenv vars = Ok u \<longleftrightarrow> (\<forall>(key, v) \<in> set vars. getenv key = v)"
  by (induction getenv vars rule: checkEnvVars.induct) (auto split: if_splits)

lemma validateSriovConfig_Ok:
  "validateSriovConfig env rec f = Ok u \<Longrightarrow>
   \<exists>c. UnmarshalSriov env rec = Inr c \<and> UnmarshalSriovTest env f = Inr c"
  by (auto simp: validateSriovConfig_def split: if_splits)

lemma validateFlannelConfig_Ok:
  "validateFlannelConfig env rec f = Ok u \<Longrightarrow>
   \<exists>c. UnmarshalFlannel env rec = Inr c \<and> UnmarshalFlannelTest env f = Inr c"
  by (auto simp: validateFlannelConfig_def split: if_splits)

lemma validateMacvlanConfig_Ok:
  "validateMacvlanConfig env rec f tcConf = Ok u \<Longrightarrow>
   \<exists>c. UnmarshalMacvlan env rec = Inr c \<and>
     (if ex_Ip6 tcConf = [] then UnmarshalMacvlanTest env f = Inr c
      else \<exists>ips. pi_Ips (pm_Ipam c) = Some ips \<and>
        UnmarshalMacvlanTest env f = Inr (c\<lparr>pm_Ipam := without_v6 ips\<rparr>))"
  by (auto simp: validateMacvlanConfig_def split: if_splits option.splits)

definition expected_versions :: "string \<Rightarrow> string \<Rightarrow> string list" where
  "expected_versions ip version = (if ip = [] \<or> ip = NoneAllocType then [] else [version])"

lemma AddIpToResult_versions:
  "AddIpToResult ip version r = Ok r' \<Longrightarrow>
   map cip_version (IPs r') = map cip_version (IPs r) @ expected_versions ip version"
  by (auto simp: AddIpToResult_def expected_versions_def split: if_splits option.splits)

lemma createCurrentCniResult_versions:
  "createCurrentCniResult tcConf = Ok r \<Longrightarrow>
   map cip_version (IPs r) = expected_versions (ex_Ip tcConf) ''4'' @ expected_versions (ex_Ip6 tcConf) ''6''"
  by (auto simp: createCurrentCniResult_def Let_def AddIfaceToResult_def empty_result_def expected_versions_def
      dest!: AddIpToResult_versions split: if_splits)

text \<open>
  The result of the old version names the network only: the test address 192.168.1.65/26 is
  reported as 192.168.1.64, the current version keeps it.
\<close>

lemma type020_drops_host_bits:
  "createType020CniResult \<lparr>ex_CniType = ''macvlan'', ex_Ip = ''192.168.1.65/26'', ex_Ip6 = [], ex_Env = [], ex_ReturnType = ''020''\<rparr> =
     Ok \<lparr>IP4 = Some \<lparr>net_IP = [192, 168, 1, 64], net_Mask = [255, 255, 255, 192]\<rparr>, IP6 = None\<rparr>"
  by code_simp

section \<open>Properties\<close>

text \<open>
  A passing test vouches for what DANM sent: the environment had every expected value, the received
  configuration was the expected one, but for the addresses of IPv6 when one was expected, and a
  result of the current version has one address for each that was expected.
\<close>

theorem passing_test_vouches:
  assumes "testSetup env received = Ok r" and "te_ReadFile env = Inr f" and "UnmarshalTestConfig env f = Inr ex"
  shows "(\<forall>(key, v) \<in> set (ex_Env ex). te_Getenv env key = v) \<and>
    (ex_CniType ex = ''sriov'' \<longrightarrow> UnmarshalSriov env received = UnmarshalSriovTest env f) \<and>
    (ex_CniType ex = ''flannel'' \<longrightarrow> UnmarshalFlannel env received = UnmarshalFlannelTest env f) \<and>
    (ex_CniType ex = ''macvlan'' \<and> ex_Ip6 ex = [] \<longrightarrow> UnmarshalMacvlan env received = UnmarshalMacvlanTest env f) \<and>
    (ex_CniType ex = ''macvlan'' \<and> ex_Ip6 ex \<noteq> [] \<longrightarrow>
       (\<exists>c ips. UnmarshalMacvlan env received = Inr c \<and> pi_Ips (pm_Ipam c) = Some ips \<and>
          UnmarshalMacvlanTest env f = Inr (c\<lparr>pm_Ipam := without_v6 ips\<rparr>))) \<and>
    (\<forall>c. r = CurrentResult c \<longrightarrow> map cip_version (IPs c) = expected_versions (ex_Ip ex) ''4'' @ expected_versions (ex_Ip6 ex) ''6'')"
proof -
  have env: "checkEnvVars (te_Getenv env) (ex_Env ex) = Ok ()"
    using assms by (cases "checkEnvVars (te_Getenv env) (ex_Env ex)") (simp_all add: testSetup_def)
  have valid: "(if ex_CniType ex = ''sriov'' then validateSriovConfig env received f
      else if ex_CniType ex = ''macvlan'' then validateMacvlanConfig env received f ex
      else if ex_CniType ex = ''flannel'' then validateFlannelConfig env received f else Ok ()) = Ok ()"
    using assms env by (auto simp: testSetup_def)
  have "createCurrentCniResult ex = Ok c" if "r = CurrentResult c" for c
    using assms env that by (auto simp: testSetup_def split: if_splits option.splits)
  then have "\<forall>c. r = CurrentResult c \<longrightarrow> map cip_version (IPs c) = expected_versions (ex_Ip ex) ''4'' @ expected_versions (ex_Ip6 ex) ''6''"
    using createCurrentCniResult_versions by blast
  moreover have "\<forall>(key, v) \<in> set (ex_Env ex). te_Getenv env key = v" using env by (simp add: checkEnvVars_Ok)
  moreover have "UnmarshalSriov env received = UnmarshalSriovTest env f" if "ex_CniType ex = ''sriov''"
    using valid that validateSriovConfig_Ok [of env received f] by auto
  moreover have "UnmarshalFlannel env received = UnmarshalFlannelTest env f" if "ex_CniType ex = ''flannel''"
    using valid that validateFlannelConfig_Ok [of env received f] by auto
  moreover have "\<exists>c. UnmarshalMacvlan env received = Inr c \<and>
     (if ex_Ip6 ex = [] then UnmarshalMacvlanTest env f = Inr c
      else \<exists>ips. pi_Ips (pm_Ipam c) = Some ips \<and> UnmarshalMacvlanTest env f = Inr (c\<lparr>pm_Ipam := without_v6 ips\<rparr>))"
    if "ex_CniType ex = ''macvlan''"
    using valid that validateMacvlanConfig_Ok [of env received f ex] by simp
  ultimately show ?thesis by auto
qed

text \<open>The dual stack test of the repository, whose dynamic IPv6 address is not in the file.\<close>

definition demo_parsed :: "IpamIp list \<Rightarrow> string ParsedMacvlan" where
  "demo_parsed ips = \<lparr>pm_NetConf = ''macvlan-ds'', pm_Master = ''ens1f1'', pm_Mode = ''bridge'', pm_MTU = 1500,
     pm_Ipam = \<lparr>pi_Type = ''fakeipam'', pi_Ips = Some ips\<rparr>\<rparr>"

definition demo_expect :: CniExpectations where
  "demo_expect = \<lparr>ex_CniType = ''macvlan'', ex_Ip = ''192.168.1.65/26'', ex_Ip6 = ''2a00:8a00:a000:1193::/64'',
     ex_Env = [(''CNI_COMMAND'', ''ADD''), (''CNI_IFNAME'', ''ens1f1'')], ex_ReturnType = []\<rparr>"

definition demo_test_env :: "(string, string) test_env" where
  "demo_test_env = \<lparr>te_ReadFile = Inr ''file'',
     te_Getenv = (\<lambda>k. if k = ''CNI_COMMAND'' then ''ADD'' else if k = ''CNI_IFNAME'' then ''ens1f1'' else []),
     UnmarshalTestConfig = (\<lambda>_. Inr demo_expect),
     UnmarshalSriov = (\<lambda>_. Inl ''no''), UnmarshalSriovTest = (\<lambda>_. Inl ''no''),
     UnmarshalMacvlan = (\<lambda>_. Inr (demo_parsed [\<lparr>IpCidr = ''192.168.1.65/26'', ip_Version = 4\<rparr>,
       \<lparr>IpCidr = ''2a00:8a00:a000:1193::1/64'', ip_Version = 6\<rparr>])),
     UnmarshalMacvlanTest = (\<lambda>_. Inr (demo_parsed [\<lparr>IpCidr = ''192.168.1.65/26'', ip_Version = 4\<rparr>])),
     UnmarshalFlannel = (\<lambda>_. Inl ''no''), UnmarshalFlannelTest = (\<lambda>_. Inl ''no''),
     PrintResult = (\<lambda>_. None)\<rparr>"

theorem passing_test_vouches_witness:
  "\<exists>c. testSetup demo_test_env ''conf'' = Ok (CurrentResult c) \<and> map cip_version (IPs c) = [''4'', ''6'']"
proof -
  have "case testSetup demo_test_env ''conf'' of Ok (CurrentResult c) \<Rightarrow> True | _ \<Rightarrow> False" by code_simp
  then obtain c where c: "testSetup demo_test_env ''conf'' = Ok (CurrentResult c)"
    by (auto split: res.splits test_result.splits)
  have "te_ReadFile demo_test_env = Inr ''file''" "UnmarshalTestConfig demo_test_env ''file'' = Inr demo_expect"
    by (simp_all add: demo_test_env_def)
  from passing_test_vouches [OF c this] c show ?thesis by (simp add: expected_versions_def NoneAllocType_def demo_expect_def)
qed

end
