(* ===== verification/Cluster.thy ===== *)
theory Cluster
  imports ClientProps LifeCycle MetaCni
begin

text \<open>
  A cluster at the level of its API objects: networks, endpoints and the addresses endpoints hold,
  and what the operations of the CNI plugin do to them through the generated clients.
\<close>

abbreviation D :: "obj_store DanmClient" where
  "D \<equiv> danm_clientset object_server"

section \<open>Networks and the endpoints on them\<close>

definition ep_addr :: "DanmEp \<Rightarrow> string" where
  "ep_addr e = if_Address (iface_of e)"

text \<open>Where the network of an endpoint is stored.\<close>

definition net_of_ep :: "DanmEp \<Rightarrow> target option" where
  "net_of_ep e = map_option (\<lambda>api. net_target api (mt_Namespace (ep_Meta e)) (ep_NetworkName (ep_Spec e)))
     (api_of_kind (ep_ApiType (ep_Spec e)))"

definition holds_on :: "target \<Rightarrow> DanmEp \<Rightarrow> bool" where
  "holds_on t e \<longleftrightarrow> net_of_ep e = Some t \<and> used (ep_addr e)"

definition holders :: "obj_store \<Rightarrow> target \<Rightarrow> DanmEp list" where
  "holders W t = filter (holds_on t) (os_eps W)"

text \<open>An IPv4 network of the IPVLAN back end, stored under its own name; \<open>k\<close> is its subnet.\<close>

definition ipvlan_net :: "target \<Rightarrow> DanmNet \<Rightarrow> ipnet \<Rightarrow> bool" where
  "ipvlan_net t n k \<longleftrightarrow>
     (\<exists>api. t = net_target api (mt_Namespace (dn_Meta n)) (mt_Name (dn_Meta n))) \<and> mt_Name (dn_Meta n) \<noteq> [] \<and>
     NetworkType (dn_Spec n) = ''ipvlan'' \<and> parse_net (Cidr (opts n)) = Some k \<and> length (net_IP k) = 4"

text \<open>A network and its endpoints as the state of the allocator's abstract machine.\<close>

definition net_state :: "obj_store \<Rightarrow> target \<Rightarrow> DanmNet \<Rightarrow> ipam_state" where
  "net_state W t n = \<lparr>st_alloc = Alloc (opts n), st_pool = Pool (opts n), st_held = map ep_addr (holders W t)\<rparr>"

text \<open>
  The invariant of a cluster. \<open>R t\<close> are the positions reserved when the network was created:
  every other taken position of its array belongs to exactly one endpoint on it, and every address
  an endpoint holds is recognised as its network's, so that a deletion will release it.
\<close>

definition accounted :: "(target \<Rightarrow> nat set) \<Rightarrow> obj_store \<Rightarrow> bool" where
  "accounted R W \<longleftrightarrow>
     distinct (map ep_key (os_eps W)) \<and>
     (\<forall>e \<in> set (os_eps W). if_AddressIPv6 (iface_of e) = [] \<and>
        (\<exists>t n k. net_of_ep e = Some t \<and> os_nets W t = Some n \<and> ipvlan_net t n k)) \<and>
     (\<forall>t n k. os_nets W t = Some n \<and> ipvlan_net t n k \<longrightarrow>
        ipam_inv k (R t) (net_state W t n) \<and>
        (\<forall>e \<in> set (holders W t). WasIpAllocatedByDanm (ep_addr e) (Cidr (opts n))))"

lemma accountedD:
  assumes "accounted R W"
  shows "distinct (map ep_key (os_eps W))"
    and "e \<in> set (os_eps W) \<Longrightarrow> if_AddressIPv6 (iface_of e) = []"
    and "e \<in> set (os_eps W) \<Longrightarrow> \<exists>t n k. net_of_ep e = Some t \<and> os_nets W t = Some n \<and> ipvlan_net t n k"
    and "os_nets W t = Some n \<Longrightarrow> ipvlan_net t n k \<Longrightarrow> ipam_inv k (R t) (net_state W t n)"
    and "os_nets W t = Some n \<Longrightarrow> ipvlan_net t n k \<Longrightarrow> e \<in> set (holders W t) \<Longrightarrow>
      WasIpAllocatedByDanm (ep_addr e) (Cidr (opts n))"
  using assms unfolding accounted_def by blast+

lemma ipvlan_netD:
  assumes "ipvlan_net t n k"
  shows "mt_Name (dn_Meta n) \<noteq> []" "NetworkType (dn_Spec n) = ''ipvlan''"
    "parse_net (Cidr (opts n)) = Some k" "length (net_IP k) = 4" "v4_net k"
  using assms v4_net_parse by (auto simp: ipvlan_net_def)

lemma ipvlan_net_cong:
  assumes "mt_Namespace (dn_Meta m) = mt_Namespace (dn_Meta n)" "mt_Name (dn_Meta m) = mt_Name (dn_Meta n)"
    "NetworkType (dn_Spec m) = NetworkType (dn_Spec n)" "Cidr (opts m) = Cidr (opts n)"
  shows "ipvlan_net t m k = ipvlan_net t n k"
  using assms by (simp add: ipvlan_net_def)

lemma net_target_inj:
  "net_target api ns name = net_target api' ns' name' \<longleftrightarrow> api = api' \<and> api_scope api ns = api_scope api' ns' \<and> name = name'"
  by (cases api; cases api') (auto simp: net_target_def net_resource_def)

text \<open>The network stored at \<open>t\<close> and the endpoints change; all other networks keep their holders.\<close>

lemma accounted_change:
  assumes acc: "accounted R W" and n: "os_nets W t = Some n" "ipvlan_net t n k"
    and m: "mt_Namespace (dn_Meta m) = mt_Namespace (dn_Meta n)" "mt_Name (dn_Meta m) = mt_Name (dn_Meta n)"
      "NetworkType (dn_Spec m) = NetworkType (dn_Spec n)" "Cidr (opts m) = Cidr (opts n)"
    and W': "W' = W\<lparr>os_nets := (os_nets W)(t \<mapsto> m), os_eps := es\<rparr>"
    and keys: "distinct (map ep_key es)"
    and eps: "\<And>e. e \<in> set es \<Longrightarrow> e \<in> set (os_eps W) \<or> if_AddressIPv6 (iface_of e) = [] \<and> net_of_ep e = Some t"
    and others: "\<And>t'. t' \<noteq> t \<Longrightarrow> holders W' t' = holders W t'"
    and inv: "ipam_inv k (R t) (net_state W' t m)"
    and danm: "\<And>e. e \<in> set (holders W' t) \<Longrightarrow> WasIpAllocatedByDanm (ep_addr e) (Cidr (opts n))"
  shows "accounted R W'"
proof -
  have k: "ipvlan_net t m k' \<longleftrightarrow> ipvlan_net t n k'" for k' by (rule ipvlan_net_cong [OF m])
  have k': "k' = k" if "ipvlan_net t m k'" for k' using that n(2) ipvlan_netD(3) [OF n(2)] ipvlan_netD(3) [of t n k'] k by simp
  have "if_AddressIPv6 (iface_of e) = [] \<and> (\<exists>t n k. net_of_ep e = Some t \<and> os_nets W' t = Some n \<and> ipvlan_net t n k)"
    if e: "e \<in> set es" for e
  proof (cases "net_of_ep e = Some t")
    case True
    with eps [OF e] accountedD(2) [OF acc] n(2) k show ?thesis by (auto simp: W')
  next
    case False
    with eps [OF e] have "e \<in> set (os_eps W)" by simp
    from accountedD(2,3) [OF acc this] False show ?thesis by (fastforce simp: W')
  qed
  moreover have "ipam_inv k' (R t') (net_state W' t' n') \<and>
      (\<forall>e \<in> set (holders W' t'). WasIpAllocatedByDanm (ep_addr e) (Cidr (opts n')))"
    if n': "os_nets W' t' = Some n'" "ipvlan_net t' n' k'" for t' n' k'
  proof (cases "t' = t")
    case True
    with n' have "n' = m" by (simp add: W')
    with True n' k' inv danm m(4) show ?thesis by simp
  next
    case False
    with n' have "os_nets W t' = Some n'" by (simp add: W')
    with accountedD(4,5) [OF acc this n'(2)] others [OF False] show ?thesis by (simp add: net_state_def)
  qed
  moreover have "os_eps W' = es" by (simp add: W')
  ultimately show ?thesis using keys unfolding accounted_def by blast
qed

section \<open>The clients on the server\<close>

lemma read_net:
  assumes "os_nets W (net_target api ns name) = Some n" and "mt_Name (dn_Meta n) = name"
  shows "get_named D api (api_scope api ns) name W = (Some n, W)"
  using assms by (simp add: get_named_def get_request object_server_def serve_net_def answer_of_def)

lemma read_net_cases:
  assumes "get_named D api (api_scope api ns) name W = (Some n, W')"
  shows "W' = W \<and> os_nets W (net_target api ns name) = Some n \<and> mt_Name (dn_Meta n) = name"
  using assms by (auto simp: get_named_def get_request object_server_def serve_net_def answer_of_def
      split: option.splits if_splits prod.splits)

text \<open>The network of an endpoint is read as it is stored.\<close>

lemma read_net_of_ep:
  assumes "net_of_ep e = Some t" and "os_nets W t = Some n" and "ipvlan_net t n k"
  obtains api where "GetNetworkFromEp D e W = (Ok (n\<lparr>dn_Kind := api_kind api\<rparr>), W)"
    and "t = net_target api (mt_Namespace (dn_Meta n)) (mt_Name (dn_Meta n))"
proof -
  from assms(1) obtain api where api: "api_of_kind (ep_ApiType (ep_Spec e)) = Some api"
    and t: "t = net_target api (mt_Namespace (ep_Meta e)) (ep_NetworkName (ep_Spec e))" by (auto simp: net_of_ep_def)
  from assms(3) obtain api' where t': "t = net_target api' (mt_Namespace (dn_Meta n)) (mt_Name (dn_Meta n))"
    by (auto simp: ipvlan_net_def)
  with t have name: "ep_NetworkName (ep_Spec e) = mt_Name (dn_Meta n)" "api' = api" by (simp_all add: net_target_inj)
  then have "get_named D api (api_scope api (mt_Namespace (ep_Meta e))) (ep_NetworkName (ep_Spec e)) W = (Some n, W)"
    using assms(2) t read_net by metis
  then have "GetNetworkFromEp D e W = (Ok (n\<lparr>dn_Kind := api_kind api\<rparr>), W)"
    using api name ipvlan_netD(1) [OF assms(3)] by (simp add: GetNetworkFromEp_def GetNetworkFromInterface_dummy)
  with that t' name show thesis by simp
qed

text \<open>A write of the stored version is accepted.\<close>

lemma write_net:
  assumes "os_nets W (net_target api (mt_Namespace (dn_Meta n)) (mt_Name (dn_Meta n))) = Some old"
    and "rv n = rv old" and "api_of_kind (dn_Kind n) = Some api"
  shows "updateIpAllocation D n W = (Ok None,
    W\<lparr>os_nets := (os_nets W)(net_target api (mt_Namespace (dn_Meta n)) (mt_Name (dn_Meta n)) \<mapsto> bump n)\<rparr>)"
  using assms by (simp add: updateIpAllocation_def PutNetwork_eq update_request object_server_def serve_net_def
      body_nets_put error_of_def)

lemma create_ep:
  "mt_Namespace (ep_Meta e) = ns \<Longrightarrow> api_ep_create D ns e W = (Inr e, W\<lparr>os_eps := e # os_eps W\<rparr>)"
  by (simp add: create_request object_server_def serve_ep_def body_eps_def post_ep_def rq_defs answer_of_def)

lemma remove_ep:
  assumes "e \<in> set (os_eps W)"
  shows "delete_ep D e W = (Ok (), W\<lparr>os_eps := filter (\<lambda>x. ep_key x \<noteq> ep_key e) (os_eps W)\<rparr>)"
proof -
  have "api_ep_delete D (mt_Namespace (ep_Meta e)) (mt_Name (ep_Meta e)) W =
      (None, W\<lparr>os_eps := filter (\<lambda>x. ep_key x \<noteq> ep_key e) (os_eps W)\<rparr>)"
    using assms by (auto simp: client_defs danmEps_Delete_def object_server_def serve_error_def rq_defs ep_key_def Let_def)
  then show ?thesis by (simp add: delete_ep_def)
qed

lemma list_eps_all: "api_ep_list D ns W = (Inr (Some (filter (\<lambda>e. ns \<in> {[], mt_Namespace (ep_Meta e)}) (os_eps W))), W)"
  by (simp add: list_request object_server_def serve_eps_def answer_of_def list_eps_def rq_defs)

lemma find_by_cid: "FindByCid D cid W = (Ok (filter (\<lambda>e. ep_CID (ep_Spec e) = cid) (os_eps W)), W)"
  by (simp add: FindByCid_def MaxRetryCount_def numeral_eq_Suc list_eps_all ep_items_def)

end
