(* ===== verification/HostKeeps.thy ===== *)
theory HostKeeps
  imports MetaCni
begin

text \<open>
  What the host does to a Pod's interfaces does not touch the objects of the API server: if no
  single call to the kernel, to a CNI plugin and to the file system does, no operation of
  \<^theory_text>\<open>PodIface\<close> and \<^theory_text>\<open>Cnidel\<close> does.
\<close>

definition keeps :: "('w \<Rightarrow> 'a \<times> 'w) \<Rightarrow> bool" where
  "keeps m \<longleftrightarrow> (\<forall>w. snd (m w) = w)"

definition host_keeps :: "'w pod_host \<Rightarrow> bool" where
  "host_keeps h \<longleftrightarrow>
     (\<forall>l. keeps (LinkAdd (ph_net h) l)) \<and> (\<forall>l. keeps (LinkDel (ph_net h) l)) \<and> (\<forall>r. keeps (LinkSetUp (ph_net h) r)) \<and>
     (\<forall>k v. keeps (Sysctl (ph_env h) k v)) \<and> (\<forall>n. keeps (SetNS h n)) \<and> (\<forall>l n. keeps (LinkSetNsFd h l n)) \<and>
     (\<forall>l n. keeps (LinkSetName h l n)) \<and> (\<forall>l a. keeps (LinkSetAlias h l a)) \<and> (\<forall>l a d. keeps (AddrAdd h l a d)) \<and>
     (\<forall>l a d. keeps (AddrReplace h l a d)) \<and> (\<forall>i d g t. keeps (RouteAdd h i d g t)) \<and> (\<forall>s t. keeps (RuleAdd h s t)) \<and>
     (\<forall>a n w. GratuitousArp h a n w = w)"

definition cni_keeps :: "'w cni_env \<Rightarrow> bool" where
  "cni_keeps cni \<longleftrightarrow> (\<forall>path conf args. keeps (RawExec cni path conf args)) \<and> (\<forall>path w. RemoveFile cni path w = w)"

named_theorems kept

section \<open>Sequences\<close>

lemma keepsD: "keeps m \<Longrightarrow> snd (m w) = w"
  by (simp add: keeps_def)

lemma keepsI: "(\<And>w. snd (m w) = w) \<Longrightarrow> keeps m"
  by (simp add: keeps_def)

lemma keeps_pair: "keeps m \<Longrightarrow> m w = (r, w') \<Longrightarrow> w' = w"
  using keepsD [of m w] by simp

lemma keeps_result: "keeps m \<Longrightarrow> \<exists>r. m w = (r, w)"
  using keepsD [of m w] by (metis prod.collapse)

lemma keeps_bind [kept]: "keeps m \<Longrightarrow> (\<And>x. keeps (f x)) \<Longrightarrow> keeps (bind_st m f)"
  by (rule keepsI) (auto simp: bind_st_def keepsD split: res.split prod.split dest: keeps_pair)

lemma keeps_return [kept]: "keeps (return_st r)" "keeps (\<lambda>w. (r, w))"
  by (simp_all add: keeps_def)

lemma keeps_try [kept]: "keeps m \<Longrightarrow> keeps (try_op f m)"
  by (rule keepsI) (auto simp: try_op_def split: option.split prod.split dest: keeps_pair)

lemma keeps_read [kept]: "keeps (read_op f q)"
  by (auto simp: keeps_def read_op_def split: sum.split)

lemma keeps_rewrap [kept]: "keeps m \<Longrightarrow> keeps (rewrap f m)"
  by (rule keepsI) (auto simp: rewrap_def split: res.split prod.split dest: keeps_pair)

lemma keeps_back [kept]: "host_keeps h \<Longrightarrow> keeps m \<Longrightarrow> keeps (back_to h n m)"
  by (rule keepsI) (auto simp: back_to_def host_keeps_def keepsD split: prod.split dest: keeps_pair)

lemma keeps_if [kept]: "keeps a \<Longrightarrow> keeps b \<Longrightarrow> keeps (if c then a else b)"
  by simp

lemma keeps_if_w: "keeps a \<Longrightarrow> keeps b \<Longrightarrow> keeps (\<lambda>w. if c w then a w else b w)"
  by (simp add: keeps_def)

lemma keeps_ignore [kept]: "keeps m \<Longrightarrow> keeps (\<lambda>w. (r, snd (m w)))"
  by (simp add: keeps_def)

lemma host_keepsD [kept]:
  assumes "host_keeps h"
  shows "keeps (LinkAdd (ph_net h) l)" "keeps (LinkDel (ph_net h) k)" "keeps (LinkSetUp (ph_net h) r)"
    "keeps (Sysctl (ph_env h) s v)" "keeps (SetNS h n)" "keeps (LinkSetNsFd h k n)" "keeps (LinkSetName h k t)"
    "keeps (LinkSetAlias h l t)" "keeps (AddrAdd h k a d)" "keeps (AddrReplace h k a d)" "keeps (RouteAdd h i a g j)"
    "keeps (RuleAdd h a i)"
  using assms by (simp_all add: host_keeps_def)

section \<open>Addresses, routes and kernel settings\<close>

lemma keeps_addIpToLink [kept]: "host_keeps h \<Longrightarrow> keeps (addIpToLink h t k)"
  by (rule keepsI) (simp add: addIpToLink_def keepsD [OF keeps_try] kept split: option.split)

lemma keeps_configureLink [kept]: "host_keeps h \<Longrightarrow> keeps (configureLink h k ep)"
  unfolding configureLink_def Let_def by (intro kept)

lemma keeps_add_routes [kept]: "host_keeps h \<Longrightarrow> keeps (add_routes h t k rs)"
proof (induction rs)
  case Nil
  then show ?case by (simp add: keeps_def)
next
  case (Cons r rs)
  obtain key v where r: "r = (key, v)" by (cases r)
  have "keeps (\<lambda>w. bind_st (try_op f (RouteAdd h i d g t)) (\<lambda>_. add_routes h t k rs) w)" for f i d g
    using Cons by (intro kept)
  from keepsD [OF this] keepsD [OF Cons.IH [OF Cons.prems]] show ?case
    by (intro keepsI) (simp add: r Let_def split: option.split prod.split)
qed

lemma keeps_addRouteForLink [kept]: "host_keeps h \<Longrightarrow> keeps (addRouteForLink h rs a t k)"
  by (auto simp: addRouteForLink_def intro!: kept split: option.split)

lemma keeps_addPolicyRouteForLink [kept]: "host_keeps h \<Longrightarrow> keeps (addPolicyRouteForLink h t c rs k)"
  by (auto simp: addPolicyRouteForLink_def intro!: kept split: option.split)

lemma keeps_addIpRoutes [kept]: "host_keeps h \<Longrightarrow> keeps (addIpRoutes h k ep n)"
  unfolding addIpRoutes_def by (intro kept)

lemma keeps_set_sysctls: "host_keeps h \<Longrightarrow> keeps (set_sysctls (ph_env h) i s)"
proof (induction s)
  case Nil
  then show ?case by (simp add: keeps_def)
next
  case (Cons kv s)
  obtain key v where kv: "kv = (key, v)" by (cases kv)
  show ?case
  proof (rule keepsI)
    fix w
    obtain e where "Sysctl (ph_env h) (sysctl_name i key) v w = (e, w)"
      using keeps_result [OF host_keepsD(4) [OF Cons.prems]] by blast
    then show "snd (set_sysctls (ph_env h) i (kv # s) w) = w"
      using keepsD [OF Cons.IH [OF Cons.prems]] by (simp add: kv split: option.split)
  qed
qed

lemma keeps_setDanmEpSysctls [kept]: "host_keeps h \<Longrightarrow> keeps (setDanmEpSysctls (ph_env h) ep)"
  unfolding setDanmEpSysctls_def by (rule keeps_set_sysctls)

lemma keeps_disableDadOnIface [kept]: "host_keeps h \<Longrightarrow> keeps (disableDadOnIface h k ep)"
  by (rule keepsI) (auto simp: disableDadOnIface_def Let_def split: option.split prod.split dest: keeps_pair [OF host_keepsD(10)])

lemma keeps_gratuitous_arp [kept]: "host_keeps h \<Longrightarrow> keeps (\<lambda>w. (r, gratuitous_arp h ep w))"
  by (simp add: keeps_def gratuitous_arp_def host_keeps_def Let_def)

section \<open>Interfaces\<close>

lemma keeps_move [kept]:
  assumes "host_keeps h"
  shows "keeps (\<lambda>w. case LinkSetNsFd h k n w of (None, w') \<Rightarrow> (Ok (), w')
    | (Some m, w') \<Rightarrow> (Err (Msg (f m)), snd (LinkDel (ph_net h) k w')))"
  by (rule keepsI) (auto split: option.split prod.split simp: keepsD [OF host_keepsD(2) [OF assms]]
      dest: keeps_pair [OF host_keepsD(6) [OF assms]])

lemma keeps_move_iface [kept]: "host_keeps h \<Longrightarrow> keeps (move_iface h ep d n)"
  unfolding move_iface_def Let_def by (intro kept)

lemma keeps_createContainerIface: "host_keeps h \<Longrightarrow> keeps (createContainerIface h ep d)"
  unfolding createContainerIface_def by (intro kept)

lemma keeps_AddIpvlanInterface [kept]: "host_keeps h \<Longrightarrow> keeps (AddIpvlanInterface h n ep)"
  by (rule keepsI) (simp add: AddIpvlanInterface_def createIpvlanInterface_def keepsD [OF keeps_createContainerIface] split: sum.split)

lemma keeps_remove_iface [kept]: "host_keeps h \<Longrightarrow> keeps (remove_iface h ep n)"
  unfolding remove_iface_def Let_def by (intro kept)

lemma keeps_deleteContainerIface: "host_keeps h \<Longrightarrow> keeps (deleteContainerIface h ep)"
  unfolding deleteContainerIface_def by (intro kept)

lemma keeps_DeleteIpvlanInterface [kept]: "host_keeps h \<Longrightarrow> keeps (DeleteIpvlanInterface h ep)"
  by (rule keepsI) (simp add: DeleteIpvlanInterface_def deleteEp_def keepsD [OF keeps_deleteContainerIface])

section \<open>Post-processing\<close>

lemma keeps_dummy_vlan [kept]: "host_keeps h \<Longrightarrow> keeps (dummy_vlan h ep n d m)"
  unfolding dummy_vlan_def Let_def by (intro kept)

lemma keeps_createDummyInterface [kept]: "host_keeps h \<Longrightarrow> keeps (createDummyInterface h ep n)"
  unfolding createDummyInterface_def Let_def by (intro kept)

lemma keeps_dpdk [kept]: "keeps m \<Longrightarrow> keeps (\<lambda>w. if HasDpdkDriver h d w then m w else (Ok (), w))"
  by (simp add: keeps_def)

lemma keeps_link [kept]: "(\<And>k. keeps (f k)) \<Longrightarrow> keeps (\<lambda>w. case LinkByName nl name w of Inl m \<Rightarrow> (Ok (), w) | Inr k \<Rightarrow> f k w)"
  by (simp add: keeps_def split: sum.split)

lemma keeps_dad [kept]: "keeps a \<Longrightarrow> (\<And>m. keeps (f m)) \<Longrightarrow> keeps (case e of None \<Rightarrow> a | Some m \<Rightarrow> f m)"
  by (simp split: option.split)

lemma keeps_post_process [kept]: "host_keeps h \<Longrightarrow> keeps (post_process h ep n hns)"
  unfolding post_process_def Let_def by (intro kept)

lemma keeps_PostProcessInterface [kept]: "host_keeps h \<Longrightarrow> keeps (PostProcessInterface h ep n)"
  unfolding PostProcessInterface_def by (intro kept)

section \<open>Delegation\<close>

lemma FreeDelegatedIps_keeps: "cni_keeps cni \<Longrightarrow> FreeDelegatedIps cni n a b w = (Ok (), w)"
  by (simp add: FreeDelegatedIps_def freeDelegatedIp_def flannelIpExhaustionWorkaround_def cni_keeps_def)

lemma keeps_execCniPlugin:
  assumes "cni_keeps cni"
  shows "keeps (execCniPlugin cni t c conf ep)"
proof (rule keepsI)
  fix w
  show "snd (execCniPlugin cni t c conf ep w) = w"
  proof (cases "getExecCniParams cni t c ep")
    case (Inr p)
    have "keeps (RawExec cni (fst p) conf (snd p))" using assms by (simp add: cni_keeps_def)
    from keeps_result [OF this, of w] obtain r where "RawExec cni (fst p) conf (snd p) w = (r, w)" ..
    with Inr show ?thesis
      by (cases r; cases p) (simp_all add: execCniPlugin_def split: option.split)
  qed (simp add: execCniPlugin_def)
qed

lemma keeps_DelegateInterfaceDelete [kept]:
  assumes "cni_keeps cni"
  shows "keeps (DelegateInterfaceDelete cni dir n ep)"
proof (rule keepsI)
  fix w
  have run: "\<exists>r. execCniPlugin cni (NetworkType (dn_Spec n)) CniDelOp conf ep w = (r, w)" for conf
    using keeps_result [OF keeps_execCniPlugin [OF assms]] by blast
  show "snd (DelegateInterfaceDelete cni dir n ep w) = w"
    unfolding DelegateInterfaceDelete_def Let_def
  proof (split res.split, intro conjI allI impI)
    fix conf
    obtain r where "execCniPlugin cni (NetworkType (dn_Spec n)) CniDelOp conf ep w = (r, w)" using run ..
    then show "snd (case execCniPlugin cni (NetworkType (dn_Spec n)) CniDelOp conf ep w of
        (Inl msg, w') \<Rightarrow> (Err (Msg (''Error delegating DEL to CNI plugin:'' @ NetworkType (dn_Spec n) @ '' because:'' @ msg)),
          snd (FreeDelegatedIps cni n (if_Address (ep_Iface (ep_Spec ep))) (if_AddressIPv6 (ep_Iface (ep_Spec ep))) w'))
      | (Inr _, w') \<Rightarrow> FreeDelegatedIps cni n (if_Address (ep_Iface (ep_Spec ep))) (if_AddressIPv6 (ep_Iface (ep_Spec ep))) w') = w"
      by (cases r) (simp_all add: FreeDelegatedIps_keeps [OF assms])
  qed (simp_all add: FreeDelegatedIps_keeps [OF assms])
qed

lemma keeps_deleteNic [kept]:
  "host_keeps (me_Host env) \<Longrightarrow> cni_keeps (me_Cni env) \<Longrightarrow> keeps (deleteNic env conf n ep)"
  unfolding deleteNic_def by (intro kept)

lemma keeps_createDanmInterface [kept]: "host_keeps (me_Host env) \<Longrightarrow> keeps (createDanmInterface env args ep n)"
  unfolding createDanmInterface_def by (intro kept)

section \<open>Removing an interface neither panics nor hangs\<close>

definition returns_st :: "('w, 'a) st \<Rightarrow> bool" where
  "returns_st m \<longleftrightarrow> (\<forall>w. fst (m w) \<noteq> Panic \<and> fst (m w) \<noteq> Hang)"

lemma returns_cases: "returns_st m \<Longrightarrow> (\<exists>x. fst (m w) = Ok x) \<or> (\<exists>e. fst (m w) = Err e)"
  by (cases "fst (m w)") (auto simp: returns_st_def)

lemma returns_bind:
  assumes "returns_st m" and "\<And>x. returns_st (f x)"
  shows "returns_st (bind_st m f)"
  unfolding returns_st_def
proof
  fix w
  obtain r w' where m: "m w = (r, w')" by (cases "m w")
  with assms(1) have "r \<noteq> Panic \<and> r \<noteq> Hang" unfolding returns_st_def by (metis fst_conv)
  with m assms(2) show "fst (bind_st m f w) \<noteq> Panic \<and> fst (bind_st m f w) \<noteq> Hang"
    by (cases r) (simp_all add: bind_st_def returns_st_def)
qed

lemma returns_ops: "returns_st (try_op f oper)" "returns_st (read_op f q)" "returns_st m \<Longrightarrow> returns_st (back_to h n m)"
  by (simp_all add: returns_st_def try_op_def read_op_def back_to_def Let_def case_prod_beta split: option.split sum.split)

lemma DeleteIpvlanInterface_returns: "returns_st (DeleteIpvlanInterface h ep)"
proof -
  have "returns_st (remove_iface h ep n)" for n
    unfolding remove_iface_def Let_def by (intro returns_bind returns_ops)
  then have "returns_st (deleteContainerIface h ep)"
    unfolding deleteContainerIface_def by (intro returns_bind returns_ops)
  then show ?thesis by (simp add: returns_st_def DeleteIpvlanInterface_def deleteEp_def)
qed

lemma DelegateInterfaceDelete_returns: "returns_st (DelegateInterfaceDelete cni dir n ep)"
proof -
  have "getCniPluginConfig cni dir n ipam e w \<noteq> Panic" "getCniPluginConfig cni dir n ipam e w \<noteq> Hang" for ipam e w
    by (simp_all add: getCniPluginConfig_def readCniConfigFile_def getSriovCniConfig_def getMacvlanCniConfig_def Let_def
        split: option.split native_cni.split sum.split)
  then show ?thesis
    by (simp add: returns_st_def DelegateInterfaceDelete_def Let_def FreeDelegatedIps_def split: res.split sum.split prod.split)
qed

lemma deleteNic_returns: "returns_st (deleteNic env conf n ep)"
  by (simp add: deleteNic_def DeleteIpvlanInterface_returns DelegateInterfaceDelete_returns)

end
