(* ===== verification/Accounting.thy ===== *)
theory Accounting
  imports Cluster HostKeeps MetaProps
begin

text \<open>
  Every address of a cluster is accounted for: the invariant of \<^theory_text>\<open>Cluster\<close> through
  CNI ADDs, CNI DELs and the clean-up of outdated endpoints, on all their paths.
\<close>

section \<open>Deleting an endpoint\<close>

lemma filter_remove1:
  assumes "distinct (map f xs)" "distinct (map g xs)" "x \<in> set xs"
  shows "map g (filter (\<lambda>y. f y \<noteq> f x) xs) = remove1 (g x) (map g xs)"
  using assms
proof (induction xs)
  case (Cons y ys)
  show ?case
  proof (cases "x = y")
    case True
    moreover have "f z \<noteq> f y" if "z \<in> set ys" for z using Cons.prems(1) that by (metis distinct.simps(2) image_eqI list.set_map list.simps(9))
    ultimately have "filter (\<lambda>z. f z \<noteq> f x) ys = ys" by (simp add: filter_id_conv)
    with True show ?thesis by simp
  next
    case False
    then have "x \<in> set ys" using Cons.prems(3) by simp
    with Cons.prems have "f y \<noteq> f x" "g y \<noteq> g x" by (auto simp: image_iff)
    with Cons \<open>x \<in> set ys\<close> show ?thesis by simp
  qed
qed simp

lemma unused_not_danm: "\<not> used a \<Longrightarrow> \<not> WasIpAllocatedByDanm a c"
proof -
  have "ParseIP [] = []" "ParseCIDR [] = None" "ParseIP NoneAllocType = []" "ParseCIDR NoneAllocType = None" by code_simp+
  then show "\<not> used a \<Longrightarrow> \<not> WasIpAllocatedByDanm a c"
    by (auto simp: used_def WasIpAllocatedByDanm_def split: option.splits)
qed

lemma holders_removed:
  assumes "distinct (map ep_key (os_eps W))" and "e \<in> set (os_eps W)"
  shows "holders (W\<lparr>os_nets := N, os_eps := filter (\<lambda>x. ep_key x \<noteq> ep_key e) (os_eps W)\<rparr>) t =
    (if holds_on t e then filter (\<lambda>x. ep_key x \<noteq> ep_key e) (holders W t) else holders W t)"
proof -
  have "x = e" if "x \<in> set (os_eps W)" "ep_key x = ep_key e" for x
    using assms that by (auto simp: distinct_map inj_on_def)
  then show ?thesis by (auto simp: holders_def filter_filter intro!: filter_cong)
qed

lemma delete_accounted:
  assumes acc: "accounted R W" and e: "e \<in> set (os_eps W)"
  obtains n W' where "GetNetworkFromEp D e W = (Ok n, W)" and "DeleteDanmEp D e (Some n) W = (Ok (), W')"
    and "accounted R W'" and "os_eps W' = filter (\<lambda>x. ep_key x \<noteq> ep_key e) (os_eps W)"
proof -
  let ?es = "filter (\<lambda>x. ep_key x \<noteq> ep_key e) (os_eps W)"
  note keys = accountedD(1) [OF acc]
  from accountedD(3) [OF acc e] obtain t n k where
    t: "net_of_ep e = Some t" and n: "os_nets W t = Some n" "ipvlan_net t n k" by blast
  obtain api where read: "GetNetworkFromEp D e W = (Ok (n\<lparr>dn_Kind := api_kind api\<rparr>), W)"
    and tn: "t = net_target api (mt_Namespace (dn_Meta n)) (mt_Name (dn_Meta n))" using read_net_of_ep [OF t n] .
  note nD = ipvlan_netD [OF n(2)]
  let ?n = "n\<lparr>dn_Kind := api_kind api\<rparr>" and ?st = "net_state W t n"
  have es: "distinct (map ep_key ?es)" using keys by (simp add: distinct_map_filter)
  have others: "holders (W\<lparr>os_nets := N, os_eps := ?es\<rparr>) t' = holders W t'" if "t' \<noteq> t" for N t'
    using that t by (simp add: holders_removed [OF keys e] holds_on_def)
  show thesis
  proof (cases "used (ep_addr e)")
    case True
    then have here: "holds_on t e" by (simp add: holds_on_def t)
    then have held: "e \<in> set (holders W t)" using e by (simp add: holders_def)
    note inv = accountedD(4) [OF acc n] and danm = accountedD(5) [OF acc n]
    have a: "Contains k (addr_of (ep_addr e))" "pos_of k (ep_addr e) \<in> ba_bits (NewBitArrayFromBase64 (Alloc (opts n)))"
      using inv held by (auto simp: ipam_inv_def net_state_def)
    have "updateIpAllocation D m W = (Ok None, W\<lparr>os_nets := (os_nets W)(t \<mapsto> bump m)\<rparr>)"
      if "dn_Meta m = dn_Meta ?n" "dn_Kind m = dn_Kind ?n" for m
      using write_net [of W api m n] that n(1) tn by simp
    from gc_releases [of ?n, OF _ nD(4) a(1) _ this] nD(3) a(2) obtain arr where
      gc: "GarbageCollectIps D ?n (ep_addr e) [] W =
        (Ok (), W\<lparr>os_nets := (os_nets W)(t \<mapsto> bump (set_opts (\<lambda>oo. oo\<lparr>Alloc := Encode arr\<rparr>) ?n))\<rparr>)"
      and reset: "resetIp (Alloc (opts n)) (Cidr (opts n)) (addr_of (ep_addr e)) = Ok (Encode arr)" by auto
    let ?m = "bump (set_opts (\<lambda>oo. oo\<lparr>Alloc := Encode arr\<rparr>) ?n)"
    let ?W = "W\<lparr>os_nets := (os_nets W)(t \<mapsto> ?m), os_eps := ?es\<rparr>"
    have del: "DeleteDanmEp D e (Some ?n) W = (Ok (), ?W)"
      using gc danm [OF held] accountedD(2) [OF acc e] remove_ep [of e "W\<lparr>os_nets := (os_nets W)(t \<mapsto> ?m)\<rparr>"] e
      by (simp add: DeleteDanmEp_def Let_def ep_addr_def)
    have hs: "holders ?W t = filter (\<lambda>x. ep_key x \<noteq> ep_key e) (holders W t)"
      using here by (simp add: holders_removed [OF keys e])
    have "distinct (map (pos_of k) (map ep_addr (holders W t)))" using inv by (simp add: ipam_inv_def net_state_def)
    then have "distinct (map ep_addr (holders W t))" by (rule distinct_map [THEN iffD1, THEN conjunct1])
    moreover have "distinct (map ep_key (holders W t))" unfolding holders_def by (rule distinct_map_filter [OF keys])
    ultimately have "map ep_addr (filter (\<lambda>x. ep_key x \<noteq> ep_key e) (holders W t)) = remove1 (ep_addr e) (map ep_addr (holders W t))"
      using filter_remove1 [of ep_key "holders W t" ep_addr e] held by blast
    with hs have "net_state ?W t ?m =
        \<lparr>st_alloc = Encode arr, st_pool = st_pool ?st, st_held = remove1 (ep_addr e) (st_held ?st)\<rparr>"
      by (simp add: net_state_def)
    moreover have "ipam_inv k (R t) \<lparr>st_alloc = Encode arr, st_pool = st_pool ?st, st_held = remove1 (ep_addr e) (st_held ?st)\<rparr>"
      using reset held by (intro ipam_inv_release [OF nD(3,5) inv]) (auto simp: net_state_def)
    ultimately have "ipam_inv k (R t) (net_state ?W t ?m)" by simp
    then have "accounted R ?W"
      using es others danm hs by (intro accounted_change [OF acc n, where m = ?m and es = ?es]) (auto simp: bump_def)
    with that read del show thesis by simp
  next
    case False
    let ?W = "W\<lparr>os_nets := (os_nets W)(t \<mapsto> n), os_eps := ?es\<rparr>"
    have W: "?W = W\<lparr>os_eps := ?es\<rparr>" using n(1) by (simp add: fun_upd_idem)
    have "used [] = False" by (simp add: used_def)
    then have del: "DeleteDanmEp D e (Some ?n) W = (Ok (), ?W)"
      using False unused_not_danm accountedD(2) [OF acc e] remove_ep [OF e] W
      by (simp add: DeleteDanmEp_def Let_def ep_addr_def)
    have hs: "holders ?W t = holders W t" using False by (simp add: holders_removed [OF keys e] holds_on_def)
    then have "net_state ?W t n = net_state W t n" by (simp add: net_state_def)
    then have "accounted R ?W"
      using es others accountedD(4,5) [OF acc n] hs
      by (intro accounted_change [OF acc n, where m = n and es = ?es]) (auto simp: )
    with that read del show thesis by simp
  qed
qed

section \<open>Creating an endpoint\<close>

text \<open>A new endpoint on a network, with no address or with one its network just gave out.\<close>

lemma created_accounted:
  assumes acc: "accounted R W" and n: "os_nets W t = Some n" "ipvlan_net t n k"
    and m: "mt_Namespace (dn_Meta m) = mt_Namespace (dn_Meta n)" "mt_Name (dn_Meta m) = mt_Name (dn_Meta n)"
      "NetworkType (dn_Spec m) = NetworkType (dn_Spec n)" "Cidr (opts m) = Cidr (opts n)"
    and e: "net_of_ep e = Some t" "if_AddressIPv6 (iface_of e) = []" "ep_key e \<notin> set (map ep_key (os_eps W))"
    and addr: "\<not> used (ep_addr e) \<and> m = n \<or> req \<noteq> NoneAllocType \<and>
      allocateAddress (Pool (opts n)) (Alloc (opts n)) req (Cidr (opts n)) (Cidr (opts n)) = Ok (Alloc (opts m), ep_addr e, Pool (opts m))"
  shows "accounted R (W\<lparr>os_nets := (os_nets W)(t \<mapsto> m), os_eps := e # os_eps W\<rparr>)" (is "accounted R ?W")
proof -
  note nD = ipvlan_netD [OF n(2)] and inv = accountedD(4) [OF acc n] and danm = accountedD(5) [OF acc n]
  have pool: "pool_in_net (Pool (opts n)) k" using inv by (simp add: ipam_inv_def net_state_def)
  have others: "holders ?W t' = holders W t'" if "t' \<noteq> t" for t'
    using that e(1) by (simp add: holders_def holds_on_def)
  have here: "holders ?W t = (if used (ep_addr e) then e # holders W t else holders W t)"
    using e(1) by (simp add: holders_def holds_on_def)
  have "ipam_inv k (R t) (net_state ?W t m) \<and> (used (ep_addr e) \<longrightarrow> WasIpAllocatedByDanm (ep_addr e) (Cidr (opts n)))"
  proof (cases "\<not> used (ep_addr e) \<and> m = n")
    case True
    with here have "net_state ?W t m = net_state W t n" by (simp add: net_state_def)
    with inv True show ?thesis by simp
  next
    case False
    with addr have req: "req \<noteq> NoneAllocType"
      and ok: "allocateAddress (Pool (opts n)) (Alloc (opts n)) req (Cidr (opts n)) (Cidr (opts n)) = Ok (Alloc (opts m), ep_addr e, Pool (opts m))"
      by auto
    from take_bits [OF nD(3,5) pool req ok] contained_address [OF nD(5)] have "used (ep_addr e)"
      by (auto simp: used_def)
    then have "net_state ?W t m = \<lparr>st_alloc = Alloc (opts m), st_pool = Pool (opts m), st_held = ep_addr e # st_held (net_state W t n)\<rparr>"
      by (simp add: net_state_def here)
    moreover have "ipam_inv k (R t) \<lparr>st_alloc = Alloc (opts m), st_pool = Pool (opts m), st_held = ep_addr e # st_held (net_state W t n)\<rparr>"
      using ok by (intro ipam_inv_take [OF nD(3,5) inv req]) (simp add: net_state_def)
    ultimately show ?thesis using taken_recognised [OF nD(3,5) pool req ok] by simp
  qed
  then show ?thesis
    using accountedD(1) [OF acc] e others danm here
    by (intro accounted_change [OF acc n m, where es = "e # os_eps W"]) (auto split: if_splits)
qed

text \<open>
  What the model assumes of a host: UUIDs no endpoint has, a host name, calls to the kernel and to
  plugins that do not write to the API server, clients of this server, and goroutines for exactly
  the endpoints found.
\<close>

definition host_laws :: "obj_store meta_env \<Rightarrow> bool" where
  "host_laws env \<longleftrightarrow>
     host_keeps (me_Host env) \<and> cni_keeps (me_Cni env) \<and>
     (\<forall>W. \<exists>epid. NewUuid (ph_env (me_Host env)) W = (Inr epid, W) \<and> epid \<notin> set (map (mt_Name \<circ> ep_Meta) (os_eps W))) \<and>
     (\<exists>host. Hostname (ph_env (me_Host env)) = Inr host) \<and>
     (\<forall>kc. me_NewDanmClient env kc = Inr D) \<and>
     (\<forall>eps. mset (me_DelSchedule env eps) = mset eps)"

lemma host_lawsD:
  assumes "host_laws env"
  shows "\<exists>epid. NewUuid (ph_env (me_Host env)) W = (Inr epid, W) \<and> epid \<notin> set (map (mt_Name \<circ> ep_Meta) (os_eps W))"
    and "\<exists>host. Hostname (ph_env (me_Host env)) = Inr host"
    and "host_keeps (me_Host env)" "cni_keeps (me_Cni env)"
    and "me_NewDanmClient env kc = Inr D" "mset (me_DelSchedule env eps) = mset eps"
  using assms unfolding host_laws_def by blast+

lemma create_outcomes:
  assumes env: "host_laws env" and acc: "accounted R W"
    and req: "requested iface = Some (api, name)" "ifc_Ip6 iface = []" "ifc_Device iface = []"
    and read: "GetNetworkFromInterface D iface (arg_Namespace args) W = (Ok n, Wr)"
    and net: "ipvlan_net (net_target api (arg_Namespace args) name) n k"
    and created: "CreateDanmEp gc (ph_env (me_Host env)) D scheme True n iface args W = (r, W')"
  shows "(W' = W \<and> (\<forall>c. r = Ok c \<longrightarrow> er_Err c \<noteq> None \<and> er_Ep c = None)) \<or>
    (\<exists>e m. r = Ok \<lparr>er_Ep = Some e, er_Net = Some m, er_Err = None\<rparr> \<and> accounted R W' \<and> e \<in> set (os_eps W') \<and>
       GetNetworkFromEp D e W' = (Ok m, W') \<and> NetworkType (dn_Spec m) = ''ipvlan'')"
proof -
  let ?t = "net_target api (arg_Namespace args) name"
  obtain n0 where n0: "os_nets W ?t = Some n0" "mt_Name (dn_Meta n0) = name" and n: "n = n0\<lparr>dn_Kind := api_kind api\<rparr>"
    using read req(1) read_net_cases
    by (fastforce simp: GetNetworkFromInterface_requested split: option.splits prod.splits)
  have net0: "ipvlan_net ?t n0 k" using net ipvlan_net_cong [of n n0 ?t k] by (simp add: n)
  note nD = ipvlan_netD [OF net0]
  have scope: "?t = net_target api (mt_Namespace (dn_Meta n0)) (mt_Name (dn_Meta n0))"
    using net0 by (auto simp: ipvlan_net_def net_target_inj)
  have pool: "pool_in_net (Pool (opts n0)) k"
    using accountedD(4) [OF acc n0(1) net0] by (simp add: ipam_inv_def net_state_def)
  have put: "updateIpAllocation D m W = (Ok None, W\<lparr>os_nets := (os_nets W)(?t \<mapsto> bump m)\<rparr>)"
    if "dn_Meta m = dn_Meta n" "dn_Kind m = dn_Kind n" for m
    using write_net [of W api m n0] that n0(1) scope by (simp add: n)
  obtain res W1 where res: "Reserve gc D n (ifc_Ip iface) [] W = (res, W1)" by fastforce
  from reserve_v4 [of n k, OF _ nD(4) _ put res] nD(3) pool
  have reserved: "W1 = W \<and> (\<forall>ip4 ip6. res = Ok (ip4, ip6) \<longrightarrow> ip4 = ifc_Ip iface \<and> ip6 = [] \<and> ifc_Ip iface \<in> {[], NoneAllocType}) \<or>
      (\<exists>al ip p. res = Ok (ip, []) \<and> ifc_Ip iface \<notin> {[], NoneAllocType} \<and>
        allocateAddress (Pool (opts n0)) (Alloc (opts n0)) (ifc_Ip iface) (Cidr (opts n0)) (Cidr (opts n0)) = Ok (al, ip, p) \<and>
        W1 = W\<lparr>os_nets := (os_nets W)(?t \<mapsto> bump (set_opts (\<lambda>oo. oo\<lparr>Alloc := al, Pool := p\<rparr>) n))\<rparr>)"
    by (simp add: n)
  show ?thesis
  proof (cases res)
    case (Ok ips)
    obtain ip4 ip6 where ips: "ips = (ip4, ip6)" by (cases ips)
    obtain m where W1: "W1 = W\<lparr>os_nets := (os_nets W)(?t \<mapsto> m)\<rparr>" and ip6: "ip6 = []"
      and m: "mt_Namespace (dn_Meta m) = mt_Namespace (dn_Meta n0)" "mt_Name (dn_Meta m) = mt_Name (dn_Meta n0)"
        "NetworkType (dn_Spec m) = NetworkType (dn_Spec n0)" "Cidr (opts m) = Cidr (opts n0)"
      and addr: "\<not> used ip4 \<and> m = n0 \<or> ifc_Ip iface \<noteq> NoneAllocType \<and>
        allocateAddress (Pool (opts n0)) (Alloc (opts n0)) (ifc_Ip iface) (Cidr (opts n0)) (Cidr (opts n0)) =
          Ok (Alloc (opts m), ip4, Pool (opts m))"
    proof -
      from reserved consider "W1 = W" "ip4 = ifc_Ip iface" "ip6 = []" "ifc_Ip iface \<in> {[], NoneAllocType}"
        | al p where "ip6 = []" "ifc_Ip iface \<notin> {[], NoneAllocType}"
          "allocateAddress (Pool (opts n0)) (Alloc (opts n0)) (ifc_Ip iface) (Cidr (opts n0)) (Cidr (opts n0)) = Ok (al, ip4, p)"
          "W1 = W\<lparr>os_nets := (os_nets W)(?t \<mapsto> bump (set_opts (\<lambda>oo. oo\<lparr>Alloc := al, Pool := p\<rparr>) n))\<rparr>"
        by (auto simp: Ok ips)
      then show thesis
      proof cases
        case 1
        with n0(1) show thesis by (intro that [of n0]) (auto simp: used_def fun_upd_idem)
      next
        case 2
        then show thesis by (intro that [of "bump (set_opts (\<lambda>oo. oo\<lparr>Alloc := al, Pool := p\<rparr>) n)"]) (auto simp: n bump_def)
      qed
    qed
    obtain epid where epid: "NewUuid (ph_env (me_Host env)) W1 = (Inr epid, W1)" "epid \<notin> set (map (mt_Name \<circ> ep_Meta) (os_eps W1))"
      using host_lawsD(1) [OF env] by blast
    obtain host where host: "Hostname (ph_env (me_Host env)) = Inr host" using host_lawsD(2) [OF env] by blast
    let ?spec = "\<lparr>if_Name = calculateIfaceName scheme (NicPrefix (opts n)) (ifc_DefaultIfaceName iface) (ifc_SequenceId iface),
      if_Address = ip4, if_AddressIPv6 = [], if_MacAddress = [], if_Proutes = ifc_Proutes iface,
      if_Proutes6 = ifc_Proutes6 iface, if_DeviceID = []\<rparr>"
    let ?e = "new_ep epid host ?spec n args"
    let ?W = "W\<lparr>os_nets := (os_nets W)(?t \<mapsto> m), os_eps := ?e # os_eps W\<rparr>"
    have e: "net_of_ep ?e = Some ?t" "if_AddressIPv6 (iface_of ?e) = []" "ep_addr ?e = ip4"
      by (simp_all add: net_of_ep_def new_ep_def n n0(2) ep_addr_def)
    have new: "ep_key ?e \<notin> set (map ep_key (os_eps W))"
      using epid(2) W1 by (auto simp: ep_key_def new_ep_def)
    have step1: "createDanmEp (ph_env (me_Host env)) D ?spec n args W1 = (Ok ?e, ?W)"
      using create_ep [of ?e "arg_Namespace args" W1] by (simp add: createDanmEp_def epid(1) host) (simp add: new_ep_def W1)
    have "ipvlan_net ?t m k" "os_nets ?W ?t = Some m" using net0 ipvlan_net_cong [OF m] by simp_all
    from read_net_of_ep [OF e(1) this(2,1)] obtain api' where
      read': "GetNetworkFromEp D ?e ?W = (Ok (m\<lparr>dn_Kind := api_kind api'\<rparr>), ?W)" by metis
    have "Reserve gc D n (ifc_Ip iface) (ifc_Ip6 iface) W = (Ok (ip4, []), W1)" using res Ok ips ip6 req(2) by simp
    then have "CreateDanmEp gc (ph_env (me_Host env)) D scheme True n iface args W =
        (Ok \<lparr>er_Ep = Some ?e, er_Net = Some (m\<lparr>dn_Kind := api_kind api'\<rparr>), er_Err = None\<rparr>, ?W)"
      using req(3) by (simp only: CreateDanmEp_def Let_def if_True prod.case res.case step1 read' simp_thms if_False)
    with created have r: "r = Ok \<lparr>er_Ep = Some ?e, er_Net = Some (m\<lparr>dn_Kind := api_kind api'\<rparr>), er_Err = None\<rparr>"
      and W': "W' = ?W" by (simp_all only: prod.inject)
    have "accounted R ?W"
      by (rule created_accounted [OF acc n0(1) net0 m e(1,2) new]) (unfold e(3), rule addr)
    moreover have "?e \<in> set (os_eps ?W)" "NetworkType (dn_Spec (m\<lparr>dn_Kind := api_kind api'\<rparr>)) = ''ipvlan''"
      using m(3) nD(2) by simp_all
    ultimately show ?thesis unfolding r W' using read' by blast
  qed (use created res req reserved in \<open>auto simp: CreateDanmEp_def\<close>)
qed

section \<open>The operations of the plugin\<close>

lemma others_stay:
  assumes "distinct (map f (x # xs))" and "set (x # xs) \<subseteq> set ys"
  shows "set xs \<subseteq> set (filter (\<lambda>y. f y \<noteq> f x) ys)"
proof
  fix y assume y: "y \<in> set xs"
  then have "f y \<in> f ` set xs" by simp
  moreover have "f x \<notin> f ` set xs" using assms(1) by simp
  ultimately have "f y \<noteq> f x" by metis
  with assms(2) y show "y \<in> set (filter (\<lambda>y. f y \<noteq> f x) ys)" by auto
qed

lemma cleanup_accounted:
  assumes "accounted R W" and "e \<in> set (os_eps W)" and "GetNetworkFromEp D e W = (r, W1)"
  obtains n W' where "r = Ok n" "W1 = W" and "cleanup_ep D e (Some n) W = (Ok (), W')" and "DeleteDanmEp D e (Some n) W = (Ok (), W')"
    and "accounted R W'" and "os_eps W' = filter (\<lambda>x. ep_key x \<noteq> ep_key e) (os_eps W)"
proof -
  obtain n W' where "GetNetworkFromEp D e W = (Ok n, W)" and d: "DeleteDanmEp D e (Some n) W = (Ok (), W')"
    "accounted R W'" "os_eps W' = filter (\<lambda>x. ep_key x \<noteq> ep_key e) (os_eps W)"
    using delete_accounted [OF assms(1,2)] .
  with assms(3) that [of n W'] show thesis by (simp add: cleanup_ep_def)
qed

lemma finish_nic_accounted:
  assumes env: "host_laws env" and acc: "accounted R W" and e: "e \<in> set (os_eps W)"
    and read: "GetNetworkFromEp D e W = (Ok n, W)" and n: "NetworkType (dn_Spec n) = ''ipvlan''"
  shows "accounted R (snd (finish_nic env conf D args reserved e n synch W))"
proof -
  obtain W' where clean: "cleanup_ep D e (Some n) W = (Ok (), W')" "accounted R W'"
    using cleanup_accounted [OF acc e read] by auto
  have "\<not> IsDelegationRequired n" using n by (simp add: IsDelegationRequired_def) code_simp
  moreover obtain r where "createDanmInterface env args e n W = (r, W)"
    using keeps_result [OF keeps_createDanmInterface [OF host_lawsD(3) [OF env]]] by blast
  moreover obtain q where "PostProcessInterface (me_Host env) e n W = (q, W)"
    using keeps_result [OF keeps_PostProcessInterface [OF host_lawsD(3) [OF env]]] by blast
  ultimately show ?thesis using acc clean
    by (auto simp: finish_nic_def bind_st_def return_st_def Let_def split: res.splits)
qed

lemma createNic_accounted:
  assumes env: "host_laws env" and acc: "accounted R W"
    and req: "requested iface = Some (api, name)" "ifc_Ip6 iface = []" "ifc_Device iface = []"
    and read: "GetNetworkFromInterface D iface (arg_Namespace args) W = (Ok n, Wr)"
    and net: "ipvlan_net (net_target api (arg_Namespace args) name) n k"
  shows "accounted R (snd (createNic env conf D args iface n synch W))"
proof -
  have need: "isIpReservationNeeded iface n" using ipvlan_netD(2) [OF net] by (simp add: isIpReservationNeeded_def)
  obtain r W' where created: "CreateDanmEp (me_Cidr env) (ph_env (me_Host env)) D (nc_NamingScheme conf) True n iface
      (CniArgs.truncate args) W = (r, W')" by fastforce
  have "GetNetworkFromInterface D iface (arg_Namespace (CniArgs.truncate args)) W = (Ok n, Wr)"
    "ipvlan_net (net_target api (arg_Namespace (CniArgs.truncate args)) name) n k"
    using read net by (simp_all add: CniArgs.truncate_def)
  from create_outcomes [OF env acc req this created] show ?thesis
  proof
    assume "W' = W \<and> (\<forall>c. r = Ok c \<longrightarrow> er_Err c \<noteq> None \<and> er_Ep c = None)"
    with created need acc show ?thesis
      by (auto simp: createNic_def bind_st_def return_st_def split: res.splits option.splits)
  next
    assume "\<exists>e m. r = Ok \<lparr>er_Ep = Some e, er_Net = Some m, er_Err = None\<rparr> \<and> accounted R W' \<and> e \<in> set (os_eps W') \<and>
       GetNetworkFromEp D e W' = (Ok m, W') \<and> NetworkType (dn_Spec m) = ''ipvlan''"
    with created need finish_nic_accounted [OF env] show ?thesis
      by (auto simp: createNic_def bind_st_def)
  qed
qed

text \<open>The goroutine of a CNI DEL removes its endpoint and pushes one result, whatever the interface does.\<close>

lemma deletion_accounted:
  assumes env: "host_laws env" and acc: "accounted R W" and e: "e \<in> set (os_eps W)"
  obtains s' W' where "deleteInterface env conf D e s W = (Ok s', W')" and "accounted R W'"
    and "os_eps W' = filter (\<lambda>x. ep_key x \<noteq> ep_key e) (os_eps W)" and "grown s s'"
proof -
  obtain n W' where read: "GetNetworkFromEp D e W = (Ok n, W)" and d: "DeleteDanmEp D e (Some n) W = (Ok (), W')"
    "accounted R W'" "os_eps W' = filter (\<lambda>x. ep_key x \<noteq> ep_key e) (os_eps W)"
    using delete_accounted [OF acc e] .
  obtain q where "deleteNic env conf n e W = (q, W)"
    using keeps_result [OF keeps_deleteNic [OF host_lawsD(3,4) [OF env]]] by blast
  moreover from this have "(\<exists>x. q = Ok x) \<or> (\<exists>e. q = Err e)"
    using returns_cases [OF deleteNic_returns, of env conf n e W] by simp
  ultimately obtain f where "collected (deleteNic env conf n e) W = (Ok f, W)"
    by (auto simp: collected_def)
  moreover have "collected (GetNetworkFromEp D e) W = (Ok (Inr n), W)" "collected (DeleteDanmEp D e (Some n)) W = (Ok (Inr ()), W')"
    using read d by (simp_all add: collected_def)
  ultimately have "\<exists>s'. deleteInterface env conf D e s W = (Ok s', W') \<and> grown s s'"
    by (simp add: deleteInterface_def bind_st_def Let_def grown_push)
  with that d show thesis by blast
qed

lemma run_deletions_accounted:
  assumes "host_laws env" and "accounted R W" and "distinct (map ep_key eps)" and "set eps \<subseteq> set (os_eps W)"
  shows "\<exists>s' W'. run_deletions env conf D eps s W = (Ok s', W') \<and> accounted R W' \<and>
    os_eps W' = filter (\<lambda>x. ep_key x \<notin> ep_key ` set eps) (os_eps W) \<and>
    length (CniResults s') = length (CniResults s) + length eps \<and> ExpectedNumOfResults s' = ExpectedNumOfResults s"
  using assms
proof (induction eps arbitrary: s W)
  case (Cons e eps)
  then have "e \<in> set (os_eps W)" by simp
  from deletion_accounted [OF Cons.prems(1,2) this] obtain s1 W1 where
    one: "deleteInterface env conf D e s W = (Ok s1, W1)" "accounted R W1"
      "os_eps W1 = filter (\<lambda>x. ep_key x \<noteq> ep_key e) (os_eps W)" "grown s s1" .
  have "set eps \<subseteq> set (os_eps W1)" using others_stay [OF Cons.prems(3,4)] one(3) by simp
  moreover have "distinct (map ep_key eps)" using Cons.prems(3) by simp
  ultimately obtain s' W' where
    "run_deletions env conf D eps s1 W1 = (Ok s', W')" "accounted R W'"
    "os_eps W' = filter (\<lambda>x. ep_key x \<notin> ep_key ` set eps) (os_eps W1)"
    "length (CniResults s') = length (CniResults s1) + length eps" "ExpectedNumOfResults s' = ExpectedNumOfResults s1"
    using Cons.IH [OF Cons.prems(1) one(2)] by blast
  with one grown_counts [OF one(4)] show ?case
    by (intro exI [of _ s'] exI [of _ W']) (simp add: bind_st_def filter_filter conj_commute)
qed simp

lemma wait_for_world: "snd (wait_for env progress) \<in> range (\<lambda>k. snd (progress k))"
  by (auto simp: wait_for_def Let_def split: prod.split) (metis rangeI snd_conv)

lemma scheduled_deletions:
  assumes env: "host_laws env" and acc: "accounted R W" and eps: "eps = filter P (os_eps W)"
  shows "\<exists>s' W'. run_deletions env conf D (take k (me_DelSchedule env eps)) s W = (Ok s', W') \<and> accounted R W' \<and>
    os_eps W' = filter (\<lambda>x. ep_key x \<notin> ep_key ` set (take k (me_DelSchedule env eps))) (os_eps W) \<and>
    length (CniResults s') = length (CniResults s) + min k (length eps) \<and> ExpectedNumOfResults s' = ExpectedNumOfResults s"
proof -
  have m: "mset (me_DelSchedule env eps) = mset eps" by (rule host_lawsD(6) [OF env])
  then have same: "set (me_DelSchedule env eps) = set eps" "length (me_DelSchedule env eps) = length eps"
    by (metis mset_eq_setD, metis mset_eq_length)
  have "mset (map ep_key (me_DelSchedule env eps)) = mset (map ep_key eps)" using m by simp
  moreover have "distinct (map ep_key eps)" unfolding eps by (rule distinct_map_filter [OF accountedD(1) [OF acc]])
  ultimately have "distinct (map ep_key (me_DelSchedule env eps))" using mset_eq_imp_distinct_iff by blast
  then have "distinct (map ep_key (take k (me_DelSchedule env eps)))" by (simp add: take_map [symmetric])
  moreover have "set (take k (me_DelSchedule env eps)) \<subseteq> set (os_eps W)" using same(1) eps set_take_subset by fastforce
  ultimately show ?thesis using run_deletions_accounted [OF env acc, of "take k (me_DelSchedule env eps)" conf s] same(2)
    by (auto simp: min.commute)
qed

lemma DeleteInterfaces_accounted:
  assumes env: "host_laws env" and acc: "accounted R W"
  shows "accounted R (snd (DeleteInterfaces env cmd W))"
proof -
  have "accounted R (snd (wait_for env (\<lambda>k. run_deletions env conf D (take k (me_DelSchedule env eps)) synch W)))"
    if eps: "eps = filter P (os_eps W)" for eps P conf synch
  proof -
    have "accounted R (snd (run_deletions env conf D (take k (me_DelSchedule env eps)) synch W))" for k
      using scheduled_deletions [OF env acc eps, of conf k synch] by auto
    with wait_for_world [of env] show ?thesis by (metis (no_types, lifting) rangeE)
  qed
  with acc env show ?thesis
    by (auto simp: DeleteInterfaces_def CreateDanmClient_def getClientConfig_def host_lawsD(5) find_by_cid Let_def
        split: res.splits option.splits prod.splits) (metis snd_conv)
qed

lemma clean_outdated_accounted:
  assumes "accounted R W" and "distinct (map ep_key eps)" and "set eps \<subseteq> set (os_eps W)"
  shows "accounted R (snd (clean_outdated D pod eps W))"
  using assms
proof (induction eps arbitrary: W)
  case (Cons e eps)
  show ?case
  proof (cases "ep_PodUID (ep_Spec e) = mt_UID (pod_Meta pod)")
    case True
    obtain r W1 where read: "GetNetworkFromEp D e W = (r, W1)" by fastforce
    from Cons.prems have "e \<in> set (os_eps W)" by simp
    from cleanup_accounted [OF Cons.prems(1) this read] obtain n W' where
      c: "r = Ok n" "W1 = W" "cleanup_ep D e (Some n) W = (Ok (), W')" "accounted R W'"
        "os_eps W' = filter (\<lambda>x. ep_key x \<noteq> ep_key e) (os_eps W)" .
    have "set eps \<subseteq> set (os_eps W')" using others_stay [OF Cons.prems(2,3)] c(5) by simp
    with Cons.IH [OF c(4)] Cons.prems(2) c read True show ?thesis by (simp add: bind_st_def)
  next
    case False
    with Cons show ?thesis by simp
  qed
qed simp

lemma cleanOutdatedAllocations_accounted:
  assumes acc: "accounted R W"
  shows "accounted R (snd (cleanOutdatedAllocations D args W))"
proof -
  have "accounted R (snd (clean_outdated D pod (filter P (os_eps W)) W))" for pod P
    using distinct_map_filter [OF accountedD(1) [OF acc]] by (intro clean_outdated_accounted [OF acc]) auto
  then show ?thesis using acc
    by (auto simp: cleanOutdatedAllocations_def bind_st_def return_st_def FindByPodName_def list_eps_all ep_items_def
        split: res.splits)
qed

section \<open>A running cluster\<close>

text \<open>
  A cluster does three things, on any of its hosts and with any outcome, a panic included: a Pod is
  connected to an IPVLAN network it names, with any IPv4 request, a container is disconnected, and
  the endpoints an earlier attempt left behind are cleaned up. A connection works on the network as
  it was just read.
\<close>

inductive cluster_step :: "obj_store \<Rightarrow> obj_store \<Rightarrow> bool" where
  connect: "host_laws env \<Longrightarrow> requested iface = Some (api, name) \<Longrightarrow> ifc_Ip6 iface = [] \<Longrightarrow> ifc_Device iface = [] \<Longrightarrow>
    GetNetworkFromInterface D iface (arg_Namespace args) W = (Ok n, Wr) \<Longrightarrow>
    ipvlan_net (net_target api (arg_Namespace args) name) n k \<Longrightarrow>
    createNic env conf D args iface n synch W = (r, W') \<Longrightarrow> cluster_step W W'"
| disconnect: "host_laws env \<Longrightarrow> DeleteInterfaces env cmd W = (r', W') \<Longrightarrow> cluster_step W W'"
| restart: "cleanOutdatedAllocations D args W = (r', W') \<Longrightarrow> cluster_step W W'"

lemma cluster_step_accounted: "cluster_step W W' \<Longrightarrow> accounted R W \<Longrightarrow> accounted R W'"
proof (induction rule: cluster_step.induct)
  case (connect env iface api name args W n Wr k conf synch r W')
  then show ?case using createNic_accounted [of env R W iface api name args n Wr k conf synch] by simp
next
  case (disconnect env cmd W r W')
  then show ?case using DeleteInterfaces_accounted [of env R W cmd] by simp
next
  case (restart args W r W')
  then show ?case using cleanOutdatedAllocations_accounted [of R W args] by simp
qed

lemma cluster_accounted: "cluster_step\<^sup>*\<^sup>* W W' \<Longrightarrow> accounted R W \<Longrightarrow> accounted R W'"
  by (induction rule: rtranclp_induct) (simp_all add: cluster_step_accounted)



section \<open>A concrete cluster\<close>

text \<open>A host on which every call succeeds, and one network with no endpoint yet.\<close>

definition calm_link :: link where
  "calm_link = \<lparr>lk_Name = ''ens3'', lk_Index = 1, lk_MTU = 1500\<rparr>"

definition calm_uuid :: "DanmEp list \<Rightarrow> string" where
  "calm_uuid es = ''c0ffee00-0000-4000-8000-00000000000'' @ concat (map (mt_Name \<circ> ep_Meta) es)"

lemma length_concat_ge: "s \<in> set xs \<Longrightarrow> length s \<le> length (concat xs)"
  by (induction xs) auto

lemma calm_uuid_new: "calm_uuid es \<notin> set (map (mt_Name \<circ> ep_Meta) es)"
proof
  assume "calm_uuid es \<in> set (map (mt_Name \<circ> ep_Meta) es)"
  from length_concat_ge [OF this] show False by (simp add: calm_uuid_def)
qed

definition calm_host :: "obj_store pod_host" where
  "calm_host =
     \<lparr>ph_net = \<lparr>LinkByName = \<lambda>name w. Inr calm_link, LinkAdd = \<lambda>l w. (None, w), LinkDel = \<lambda>l w. (None, w),
        LinkSetUp = \<lambda>l w. (None, w), AddrList = \<lambda>l f w. Inr [], CidrHost = \<lambda>n i. Inl []\<rparr>,
      ph_env = \<lparr>NewUuid = \<lambda>w. (Inr (calm_uuid (os_eps w)), w),
        Hostname = Inr ''h1'', PfNameOf = \<lambda>d. [], VfidOf = \<lambda>d p. None, PfVfMacs = \<lambda>p. None, Sysctl = \<lambda>k v w. (None, w)\<rparr>,
      GetCurrentNS = \<lambda>w. Inr 0, GetNS = \<lambda>path w. Inr 7, SetNS = \<lambda>n w. (None, w), IsNSorErr = \<lambda>path w. None,
      LinkSetNsFd = \<lambda>l n w. (None, w), LinkSetName = \<lambda>l n w. (None, w), LinkSetAlias = \<lambda>l a w. (None, w),
      AddrAdd = \<lambda>l a d w. (None, w), AddrReplace = \<lambda>l a d w. (None, w), RouteAdd = \<lambda>i d g t w. (None, w),
      RuleAdd = \<lambda>src t w. (None, w), GratuitousArp = \<lambda>a n w. w, HasDpdkDriver = \<lambda>d w. False\<rparr>"

definition calm_cni :: "obj_store cni_env" where
  "calm_cni =
     \<lparr>GetPfName = \<lambda>d. Inl [], ReadConfFile = \<lambda>path w. None, Getenv = \<lambda>k. [], LookupEnv = \<lambda>k. None,
      FindInPath = \<lambda>t paths. Inl [], RawExec = \<lambda>path conf args w. (Inr [], w), DecodeVersion = \<lambda>raw. None,
      NewResult = \<lambda>v raw. None, NewResultFromResult = \<lambda>raw. None, RemoveFile = \<lambda>path w. w\<rparr>"

definition calm_conf :: NetConf where
  "calm_conf = \<lparr>nc_Name = ''danm'', nc_Type = ''danm'', nc_Kubeconfig = ''/kube'', nc_CniConfigDir = DefaultCniDir,
     nc_NamingScheme = [], nc_Master = [], nc_Vlan = 0, nc_Vxlan = 0\<rparr>"

definition calm_env :: "obj_store meta_env" where
  "calm_env =
     \<lparr>me_LoadArgs = \<lambda>a. Inr \<lparr>K8S_POD_NAME = ''pod1'', K8S_POD_NAMESPACE = ''ns'', K8S_POD_INFRA_CONTAINER_ID = ''c1''\<rparr>,
      me_ParseNetConf = \<lambda>b. Inr calm_conf, me_BuildConfig = \<lambda>k. None,
      me_NewDanmClient = \<lambda>k. Inr D, me_NewK8sClient = \<lambda>k. None, me_GetPod = \<lambda>ns n w. (Inl ''unused'', w),
      me_DecodeInterfaces = \<lambda>v. Inr [], me_ResourceClient = None, me_PodResourceMap = \<lambda>pod w. Inr [],
      me_SetCommand = \<lambda>c w. w, me_Schedule = \<lambda>ts. ts, me_DelSchedule = \<lambda>es. es, me_Finished = \<lambda>i. i,
      me_Host = calm_host, me_Cni = calm_cni,
      me_Cidr = \<lparr>AddressRange = \<lambda>n. ([], []), IncIp = \<lambda>a. a, DecIp = \<lambda>a. a, AddressCount = \<lambda>n. 0\<rparr>\<rparr>"

lemma calm_laws: "host_laws calm_env"
  using calm_uuid_new by (auto simp: host_laws_def host_keeps_def cni_keeps_def keeps_def calm_env_def calm_host_def calm_cni_def)

definition calm_net :: "string \<Rightarrow> DanmNet" where
  "calm_net al = (demo_object ''1'' al)\<lparr>dn_Spec := (dn_Spec (demo_object ''1'' al))\<lparr>NetworkType := ''ipvlan''\<rparr>\<rparr>"

definition calm_target :: target where
  "calm_target = net_target DanmNets ''ns'' ''n1''"

definition calm_start :: obj_store where
  "calm_start = \<lparr>os_nets = Map.empty(calm_target \<mapsto> calm_net demo_alloc), os_eps = []\<rparr>"

definition calm_call :: CniCall where
  "calm_call = \<lparr>arg_Namespace = ''ns'', arg_Netns = ''/proc/7/ns/net'', arg_PodName = ''pod1'', arg_ContainerId = ''c1'',
     arg_PodUID = ''u1'', arg_PodLabels = [], call_StdIn = [], call_Interfaces = [], call_Pod = None,
     call_DefaultNetwork = None\<rparr>"

text \<open>The store after the address was reserved, and after the endpoint was created.\<close>

definition calm_reserved :: obj_store where
  "calm_reserved = calm_start\<lparr>os_nets := (os_nets calm_start)(calm_target \<mapsto> bump (calm_net ''wQ==''))\<rparr>"

definition calm_ep :: DanmEp where
  "calm_ep = new_ep ''c0ffee00-0000-4000-8000-00000000000'' ''h1''
     \<lparr>if_Name = ''eth0'', if_Address = ''10.0.0.1/29'', if_AddressIPv6 = [], if_MacAddress = [],
      if_Proutes = None, if_Proutes6 = None, if_DeviceID = []\<rparr> (calm_net demo_alloc) (CniArgs.truncate calm_call)"

definition calm_after :: obj_store where
  "calm_after = calm_reserved\<lparr>os_eps := [calm_ep]\<rparr>"

lemma calm_net_simps [simp]:
  "dn_Meta (calm_net al) = dn_Meta (demo_object ''1'' al)" "dn_Kind (calm_net al) = DanmNetKind"
  "opts (calm_net al) = opts (demo_object ''1'' al)" "NetworkType (dn_Spec (calm_net al)) = ''ipvlan''"
  by (simp_all add: calm_net_def)

lemma calm_ipvlan: "ipvlan_net calm_target (calm_net al) demo_net" "ipvlan_net calm_target (bump (calm_net al)) demo_net"
  by (auto simp: ipvlan_net_def calm_target_def demo_parse demo_object_net bump_def)

lemma calm_reserve:
  "Reserve gc D (calm_net demo_alloc) DynamicAllocType [] calm_start = (Ok (''10.0.0.1/29'', []), calm_reserved)"
proof -
  have "DynamicAllocType \<noteq> []" by (simp add: alloc_type_defs)
  then have "allocateIps gc (calm_net demo_alloc) DynamicAllocType [] = Ok (''10.0.0.1/29'', [], calm_net ''wQ=='')"
    by (simp add: allocateIps_def allocate4_def allocate6_def demo_take_again)
      (simp add: set_opts_def calm_net_def demo_object_def)
  moreover have "\<not> deep_equal_spec (dn_Spec (calm_net demo_alloc)) (dn_Spec (calm_net ''wQ==''))"
    using deep_equal_fields(1) [of "dn_Spec (calm_net demo_alloc)" "dn_Spec (calm_net ''wQ=='')"]
    by (auto simp: demo_alloc_def)
  moreover have "updateIpAllocation D (calm_net ''wQ=='') calm_start = (Ok None, calm_reserved)"
    using write_net [of calm_start DanmNets "calm_net ''wQ==''" "calm_net demo_alloc"]
    by (simp add: calm_start_def calm_reserved_def calm_target_def)
  ultimately show ?thesis
    by (simp add: Reserve_def run_loop_def Reserve_loop_pass [of _ _ "calm_net demo_alloc"] reserve_pass_def)
qed

lemma calm_create:
  "CreateDanmEp (me_Cidr calm_env) (ph_env calm_host) D [] True (calm_net demo_alloc) dynamic_request (CniArgs.truncate calm_call) calm_start =
     (Ok \<lparr>er_Ep = Some calm_ep, er_Net = Some (bump (calm_net ''wQ=='')), er_Err = None\<rparr>, calm_after)"
proof -
  have "createDanmEp (ph_env calm_host) D (iface_of calm_ep) (calm_net demo_alloc) (CniArgs.truncate calm_call) calm_reserved = (Ok calm_ep, calm_after)"
    using create_ep [of calm_ep "''ns''" calm_reserved]
    by (simp add: createDanmEp_def calm_host_def calm_uuid_def calm_ep_def calm_after_def calm_reserved_def calm_start_def new_ep_def
        CniArgs.truncate_def calm_call_def)
  moreover have "GetNetworkFromEp D calm_ep calm_after = (Ok (bump (calm_net ''wQ=='')), calm_after)"
    using read_net [of calm_after DanmNets "''ns''" "''n1''" "bump (calm_net ''wQ=='')"]
    by (simp add: GetNetworkFromEp_def GetNetworkFromInterface_dummy calm_ep_def new_ep_def calm_after_def calm_reserved_def
        calm_target_def CniArgs.truncate_def calm_call_def bump_def api_kind_def)
  ultimately show ?thesis
    by (simp add: CreateDanmEp_def dynamic_request_def calm_reserve calm_ep_def new_ep_def calculateIfaceName_def)
qed

lemma calm_interface:
  "(case fst (createDanmInterface calm_env calm_call calm_ep (bump (calm_net ''wQ=='')) calm_after) of Ok r \<Rightarrow> True | _ \<Rightarrow> False)"
  "(case fst (PostProcessInterface calm_host calm_ep (bump (calm_net ''wQ=='')) calm_after) of Ok r \<Rightarrow> True | _ \<Rightarrow> False)"
  by code_simp+

lemma calm_nic:
  "\<exists>s. createNic calm_env calm_conf D calm_call dynamic_request (calm_net demo_alloc) (NewSyncher 1) calm_start = (Ok s, calm_after)"
proof -
  let ?n = "bump (calm_net ''wQ=='')"
  have keep: "host_keeps (me_Host calm_env)" by (rule host_lawsD(3) [OF calm_laws])
  have "\<not> IsDelegationRequired ?n" by (simp add: IsDelegationRequired_def) code_simp
  moreover obtain r where "createDanmInterface calm_env calm_call calm_ep ?n calm_after = (Ok r, calm_after)"
    using calm_interface(1) keeps_pair [OF keeps_createDanmInterface [OF keep]]
    by (cases "createDanmInterface calm_env calm_call calm_ep ?n calm_after") (fastforce split: res.splits)
  moreover have "me_Host calm_env = calm_host" by (simp add: calm_env_def)
  moreover from this keep obtain q where "PostProcessInterface calm_host calm_ep ?n calm_after = (Ok q, calm_after)"
    using calm_interface(2) keeps_pair [OF keeps_PostProcessInterface [of calm_host calm_ep ?n]]
    by (cases "PostProcessInterface calm_host calm_ep ?n calm_after") (fastforce split: res.splits)
  ultimately have "\<exists>s. finish_nic calm_env calm_conf D calm_call True calm_ep ?n (NewSyncher 1) calm_after = (Ok s, calm_after)"
    by (simp add: finish_nic_def bind_st_def Let_def)
  moreover have "isIpReservationNeeded dynamic_request (calm_net demo_alloc)" by (simp add: isIpReservationNeeded_def)
  ultimately show ?thesis
    using calm_create \<open>me_Host calm_env = calm_host\<close> by (simp add: createNic_def bind_st_def calm_conf_def)
qed

lemma calm_accounted: "accounted (\<lambda>_. {0, 7}) calm_start"
proof -
  have "pool_in_net demo_pool k" if "ipvlan_net calm_target (calm_net demo_alloc) k" for k
    using ipvlan_netD(3) [OF that] by (simp add: demo_parse demo_in_net)
  then show ?thesis
    by (auto simp: accounted_def calm_start_def ipam_inv_def net_state_def holders_def demo_bits split: if_splits)
qed

lemma calm_read: "GetNetworkFromInterface D dynamic_request ''ns'' calm_start = (Ok (calm_net demo_alloc), calm_start)"
  using read_net [of calm_start DanmNets "''ns''" "''n1''" "calm_net demo_alloc"]
  by (simp add: GetNetworkFromInterface_requested requested_def dynamic_request_def calm_start_def calm_target_def
      api_kind_def calm_net_def demo_object_def)

lemma calm_step: "cluster_step calm_start calm_after"
proof -
  obtain s where "createNic calm_env calm_conf D calm_call dynamic_request (calm_net demo_alloc) (NewSyncher 1) calm_start = (Ok s, calm_after)"
    using calm_nic by blast
  then show ?thesis
    using calm_ipvlan(1) calm_read
    by (intro cluster_step.connect [OF calm_laws, where api = DanmNets and name = "''n1''" and iface = dynamic_request and args = calm_call])
      (simp_all add: requested_def dynamic_request_def calm_call_def calm_target_def)
qed


definition calm_del :: CmdArgs where
  "calm_del = \<lparr>ca_Netns = ''/proc/7/ns/net'', ca_Args = [], ca_StdinData = []\<rparr>"


end
