(* ===== verification/Spec2Isabelle.thy ===== *)
theory Spec2Isabelle
  imports IpamProps IpamTypes LockServer VniServer LifeCycle Syncher Cnidel AdmitVni WatcherProps SvcProps
    MetaProps FakeIpam DeepCopyProps ClientProps FakeProps NadInformers Schemes HostSync SvcPublish CniTest Accounting
begin

text \<open>
  A verification library of DANM (\<^verbatim>\<open>github.com/nokia/danm\<close>), a network manager for
  Kubernetes written in Go. DANM gives Pods any number of network interfaces. Its networks are API
  objects of three kinds (DanmNet, TenantNetwork, ClusterNetwork), each with a bit array of the
  addresses in use; a DanmEp object records one connection of one Pod.

  \<^bold>\<open>The program\<close>

  \<^item> The CNI binary (\<^verbatim>\<open>cmd/danm\<close>, \<^verbatim>\<open>pkg/metacni\<close>) runs on each host when a
    Pod starts or stops. It reads the Pod's annotation, starts one goroutine per connection, and
    waits for their results in \<^verbatim>\<open>pkg/syncher\<close>. A goroutine reserves addresses
    (\<^verbatim>\<open>pkg/ipam\<close> on \<^verbatim>\<open>pkg/bitarray\<close>), writes a DanmEp
    (\<^verbatim>\<open>pkg/danmep\<close>) and creates an IPVLAN interface itself or delegates to another CNI
    plugin (\<^verbatim>\<open>pkg/cnidel\<close>), which gets the reserved addresses back from the IPAM plugin
    \<^verbatim>\<open>cmd/fakeipam\<close>.
  \<^item> The webhook (\<^verbatim>\<open>cmd/webhook\<close>, \<^verbatim>\<open>pkg/admit\<close>) validates and completes
    networks and TenantConfigs; virtual network identifiers (VNIs) of tenants come from
    \<^verbatim>\<open>pkg/confman\<close>.
  \<^item> The netwatcher (\<^verbatim>\<open>pkg/netcontrol\<close>) keeps the VLAN and VxLAN interfaces of a host
    in step with the networks; the same package finds and writes network objects for the others.
  \<^item> The svcwatcher (\<^verbatim>\<open>pkg/svccontrol\<close>) publishes the addresses of DanmEps as the
    Endpoints of the Services that select them.
  \<^item> All of them reach the API server through the generated clients, and the two watchers read it
    through the generated informers, listers and deep copies (\<^verbatim>\<open>crd/client\<close>,
    \<^verbatim>\<open>crd/apis\<close>).

  The parts share the API server: hosts and webhook write the same network and TenantConfig objects
  and rely on the optimistic lock of their resource version.

  \<^bold>\<open>How code is modelled\<close>

  A Go call is a value of \<open>'a res\<close> (\<open>Ok\<close>, \<open>Err\<close>, \<open>Panic\<close>, \<open>Hang\<close>); a call that acts on
  the outside is a function of a world of any type (\<open>('w, 'a) st\<close>), so that the API client, the
  kernel and the other third-party packages are records of functions on that world, and what is
  assumed of them stands in the theorems. Structs are records, integers that wrap are words, nil
  pointers are options, maps are association lists, dereferences of nil and indices out of range are
  \<open>Panic\<close>. An iteration over a Go map takes the order as a parameter where it matters. A goroutine
  is one atomic step; the order of the goroutines is a parameter. Log lines are left out.

  \<^bold>\<open>Theories\<close>

  \<^item> \<^theory_text>\<open>Prelude\<close>, \<^theory_text>\<open>GoBytes\<close>, \<^theory_text>\<open>GoNet\<close>, \<^theory_text>\<open>GoBase64\<close>: results and their
    monads, strings, bytes, and the parts of Go's \<^verbatim>\<open>net\<close>, \<^verbatim>\<open>encoding/binary\<close>,
    \<^verbatim>\<open>math/big\<close> and \<^verbatim>\<open>encoding/base64\<close> the program uses, with round trips.
  \<^item> \<^theory_text>\<open>BitArray\<close> (\<^verbatim>\<open>pkg/bitarray\<close>): the array of taken positions. The locale
    \<open>bit_store\<close> is its contract, interpreted as \<open>ba\<close> on the byte array of the code.
  \<^item> \<^theory_text>\<open>DanmTypes\<close> (\<^verbatim>\<open>crd/apis/danm/v1/types.go\<close>,
    \<^verbatim>\<open>pkg/datastructs\<close>): the API objects and configurations.
  \<^item> \<^theory_text>\<open>Ipam\<close>, \<^theory_text>\<open>IpamApi\<close> (\<^verbatim>\<open>pkg/ipam/ipam.go\<close>): positions and addresses,
    allocation, release, pools, and the retry loops of \<open>Reserve\<close> and \<open>Free\<close>. The locale
    \<open>addr_codec\<close> states the translation of positions, \<open>ip_pool\<close> joins it with \<open>bit_store\<close>;
    \<open>v4\<close> and \<open>v6\<close> interpret it on the code's two families.
    \<^theory_text>\<open>IpamAlloc\<close>, \<^theory_text>\<open>IpamInit\<close>, \<^theory_text>\<open>IpamProps\<close>,
    \<^theory_text>\<open>IpamTypes\<close>: what they guarantee.
  \<^item> \<^theory_text>\<open>NetControl\<close>, \<^theory_text>\<open>HostNet\<close>, \<^theory_text>\<open>NetWatcher\<close>
    (\<^verbatim>\<open>pkg/netcontrol/netcontrol.go\<close>, \<^verbatim>\<open>net.go\<close>): access to networks, host
    interfaces, and the event handlers; \<^theory_text>\<open>WatcherProps\<close>: their properties on a kernel that
    keeps \<open>netlink_laws\<close>; \<^theory_text>\<open>HostSync\<close>: the netwatcher over a whole history of
    networks, as the step relation \<open>watch_step\<close> on the networks of the cluster and the host.
  \<^item> \<^theory_text>\<open>Locking\<close>: a loop that retries while an attempt conflicts (\<open>retry_loop\<close>) and the
    optimistic lock of an API server (\<open>versioned_store\<close>). \<^theory_text>\<open>LockServer\<close> and
    \<^theory_text>\<open>VniServer\<close> interpret the store: hosts that allocate addresses, and webhooks that
    reserve VNIs, concurrently from one object.
  \<^item> \<^theory_text>\<open>Confman\<close>, \<^theory_text>\<open>Syncher\<close>, \<^theory_text>\<open>Cnidel\<close>: the packages of these names, with
    their properties.
  \<^item> \<^theory_text>\<open>DanmEps\<close> (\<^verbatim>\<open>pkg/danmep/danmep.go\<close>) with \<^theory_text>\<open>EpProps\<close>,
    and \<^theory_text>\<open>LifeCycle\<close>, which follows a connection from its creation to its deletion;
    \<^theory_text>\<open>PodIface\<close> (\<^verbatim>\<open>pkg/danmep/ep.go\<close>): the interfaces inside a Pod.
  \<^item> \<^theory_text>\<open>Admit\<close> (\<^verbatim>\<open>pkg/admit/validators.go\<close>), \<^theory_text>\<open>AdmitFlow\<close>
    (\<^verbatim>\<open>netadmit.go\<close>, \<^verbatim>\<open>confadmit.go\<close>, \<^verbatim>\<open>netdel.go\<close>,
    \<^verbatim>\<open>utils.go\<close>), with \<^theory_text>\<open>AdmitProps\<close> and \<^theory_text>\<open>AdmitVni\<close>.
  \<^item> \<^theory_text>\<open>SvcUtils\<close>, \<^theory_text>\<open>SvcEndpoints\<close>, \<^theory_text>\<open>SvcController\<close>
    (\<^verbatim>\<open>pkg/svccontrol\<close>) with \<^theory_text>\<open>SvcProps\<close>;
    \<^theory_text>\<open>SvcPublish\<close>: a reference definition of what a Service publishes.
  \<^item> \<^theory_text>\<open>MetaCni\<close> (\<^verbatim>\<open>pkg/metacni\<close>) with \<^theory_text>\<open>MetaProps\<close>; \<^theory_text>\<open>FakeIpam\<close>:
    \<^verbatim>\<open>cmd/fakeipam\<close>, and which functions the CNI binary and the webhook serve;
    \<^theory_text>\<open>CniTest\<close>: \<^verbatim>\<open>cmd/cnitest\<close>.
  \<^item> \<^theory_text>\<open>RestClient\<close> (\<^verbatim>\<open>clientset/versioned\<close> of DANM's types and of
    NetworkAttachmentDefinitions): requests to the REST client, one definition per method of the
    typed clients; \<^theory_text>\<open>ClientProps\<close> builds the client the other theories take as a
    parameter from them. \<^theory_text>\<open>FakeClient\<close> with \<^theory_text>\<open>FakeProps\<close>: the clients for
    tests.
  \<^item> \<^theory_text>\<open>Cluster\<close> and \<^theory_text>\<open>Accounting\<close> put the parts together: the whole
    plugin, through the generated clients, on a server that stores the objects of a cluster. Its
    state is related to the abstract machine of \<^theory_text>\<open>IpamAlloc\<close>, network by network.
    \<^theory_text>\<open>AddressText\<close> shows that every address handed out is recognised when it comes
    back, and \<^theory_text>\<open>HostKeeps\<close> that interface operations leave the API objects alone.
  \<^item> \<^theory_text>\<open>Informers\<close> (\<^verbatim>\<open>informers/externalversions\<close>), \<^theory_text>\<open>Listers\<close>
    with \<^theory_text>\<open>InformerProps\<close>: the factory as a state, and reading the caches.
    \<^theory_text>\<open>NadInformers\<close>: the same factory for NetworkAttachmentDefinitions.
  \<^item> \<^theory_text>\<open>GoFlags\<close>: Go's \<^verbatim>\<open>flag\<close> and integer parsing.
    \<^theory_text>\<open>Commands\<close> (\<^verbatim>\<open>cmd/danm\<close>, \<^verbatim>\<open>cmd/webhook\<close>,
    \<^verbatim>\<open>cmd/netwatcher\<close>, \<^verbatim>\<open>cmd/svcwatcher\<close>): how each command
    starts, what it serves or runs, and how it ends.
  \<^item> \<^theory_text>\<open>Schemes\<close> (\<^verbatim>\<open>register.go\<close> of the groups and the clientsets,
    \<^verbatim>\<open>fake/clientset_generated.go\<close>): registration of the types, and fake clientsets.
  \<^item> \<^theory_text>\<open>DeepCopy\<close> (\<^verbatim>\<open>zz_generated.deepcopy.go\<close>) with
    \<^theory_text>\<open>DeepCopyProps\<close>: copies in a store of maps and slices. The locale
    \<open>deep_copier\<close> is their contract, built up from \<open>cell\<close> and \<open>slice\<close>.

  \<^bold>\<open>What is shown\<close>

  \<^item> Addresses: any interleaving of hosts under the optimistic lock refines one sequence of
    allocations and releases, and no such sequence hands out an address twice or leaves the pool of
    an admitted network; well-formed networks do not panic; every outcome of a dynamic and of a
    static request; releases undo allocations; the creation and the deletion of an endpoint
    together leave its network as it was; and in a cluster whose hosts connect, disconnect and clean
    up Pods on networks they have just read, every taken position is reserved or belongs to exactly
    one endpoint, on all paths of the plugin, and a CNI DEL leaves no endpoint of its container.
  \<^item> VNIs: a request takes the first free identifier and records it, a release undoes it,
    concurrent webhooks never give one identifier to two networks, running Pods keep theirs, and an
    admitted TenantConfig has room for its ranges.
  \<^item> Admission: the patches rebuild the manifest that was judged, networks in use are neither
    changed in their VNI nor deleted.
  \<^item> Pods: distinct devices and interface names, only allowed tenants, one result for every
    requested connection, delegated addresses read back unchanged, namespaces restored.
  \<^item> Hosts: a successful set-up provides the device Pods attach to; after any history of
    TenantNetworks and ClusterNetworks the interfaces of a host are its own and those its networks
    call for.
  \<^item> Services: adding one publishes exactly what it selects, also after conflicts; both
    directions of the selection agree; readiness moves exactly the addresses of
    its Pod.
  \<^item> API access: what was written is read back through every way the program looks for it; the
    generated clients on a server are the client of the concurrency theorems, the fake ones send
    the same requests; informers run once and watch their own API; listers find exactly what is
    cached; deep copies share no memory with the original.
  \<^item> Where the code does not do this, a theorem states what it does: stale retries, panics, leaked
    VNIs and interfaces, endpoints that are not published.

  \<^bold>\<open>Loops and bounds\<close>

  \<open>scan\<close>, \<open>Reserve_loop\<close>, \<open>Free_loop\<close> and the two loops of \<^theory_text>\<open>Confman\<close> are
  \<^theory_text>\<open>partial_function (option)\<close>, so that not returning is \<open>None\<close> and becomes \<open>Hang\<close>. The
  search of an allocation always ends; the retry loops end when conflicts do, a measure on the
  client (\<open>conflicts_end\<close>). No fuel is used elsewhere: loops the code bounds (\<open>MaxRetryCount\<close>,
  \<open>MaxUpdateRetry\<close>, \<open>MaxDiscoveryCount\<close>, \<open>MaximumAllowedTime\<close>) recurse on these constants, all
  others on their lists. Positions are 32-bit words as in the code.

  \<^bold>\<open>Not modelled\<close>

  What the commands leave to libraries: writing the log, loading certificates, listening, leader
  election, recording events; running an informer and filling its cache, which client-go does; the
  types of NetworkAttachmentDefinitions the program does not use. Third-party packages (go-cidr, cpuset, netlink,
  the CNI library, the SR-IOV utilities, sysctl, UUIDs, JSON) are parameters. Goroutines do not
  interleave inside a connection, except in \<^theory_text>\<open>LockServer\<close> and
  \<^theory_text>\<open>VniServer\<close>, where hosts and webhooks interleave at every access to the server.
\<close>

end
